(* ===== verification/Prelude.thy ===== *)
theory Prelude
  imports Main "HOL-Library.Word" "HOL-Library.Multiset"
begin

text \<open>
  Shared vocabulary of the development.

  The TypeScript code signals failure by throwing: a zod schema throws a \<open>ZodError\<close>, everything
  else throws \<open>new Error(message)\<close> (or \<open>ApiError\<close> in the server code).  A function that can
  throw is modelled by a function into \<open>'a result\<close>; \<^term>\<open>Inl e\<close> is a throw, and the sequencing
  operator \<open>rbind\<close> propagates it, as an uncaught exception does.  \<open>rmap\<close> is
  \<open>Array.prototype.map\<close> with a callback that may throw and \<open>rfold\<close> is a \<open>for ... of\<close> loop
  over loop-carried state whose body may throw.
\<close>

section \<open>Failures\<close>

datatype error =
    Zod_error string                 \<comment> \<open>a schema rejected its input; the schema's name\<close>
  | Thrown string                    \<comment> \<open>\<open>throw new Error(message)\<close>\<close>
  | Api_error int string             \<comment> \<open>\<open>throw new ApiError(status, _, code)\<close>\<close>

type_synonym 'a result = "error + 'a"

named_theorems result_simps \<open>unfolding of the result combinators\<close>

definition rbind :: "'a result \<Rightarrow> ('a \<Rightarrow> 'b result) \<Rightarrow> 'b result" where
  "rbind r f = (case r of Inl e \<Rightarrow> Inl e | Inr x \<Rightarrow> f x)"

definition ensure :: "bool \<Rightarrow> error \<Rightarrow> unit result" where
  "ensure b e = (if b then Inr () else Inl e)"

definition zod :: "string \<Rightarrow> ('a \<Rightarrow> bool) \<Rightarrow> 'a \<Rightarrow> 'a result" where
  "zod name ok x = (if ok x then Inr x else Inl (Zod_error name))"

fun rmap :: "('a \<Rightarrow> 'b result) \<Rightarrow> 'a list \<Rightarrow> 'b list result" where
  "rmap f [] = Inr []"
| "rmap f (x # xs) = rbind (f x) (\<lambda>y. rbind (rmap f xs) (\<lambda>ys. Inr (y # ys)))"

fun rfold :: "('s \<Rightarrow> 'a \<Rightarrow> 's result) \<Rightarrow> 's \<Rightarrow> 'a list \<Rightarrow> 's result" where
  "rfold f s [] = Inr s"
| "rfold f s (x # xs) = rbind (f s x) (\<lambda>s'. rfold f s' xs)"

lemma rbind_simps [simp, result_simps]:
  "rbind (Inl e) f = Inl e"
  "rbind (Inr x) f = f x"
  by (simp_all add: rbind_def)

lemma rbind_Inr_iff: "rbind r f = Inr y \<longleftrightarrow> (\<exists>x. r = Inr x \<and> f x = Inr y)"
  by (cases r) auto

lemma rbind_Inl_iff: "rbind r f = Inl e \<longleftrightarrow> r = Inl e \<or> (\<exists>x. r = Inr x \<and> f x = Inl e)"
  by (cases r) auto

lemma rbindE [elim]:
  assumes "rbind r f = Inr y"
  obtains x where "r = Inr x" "f x = Inr y"
  using assms by (auto simp: rbind_Inr_iff)

lemma ensure_Inr_iff [simp]: "ensure b e = Inr u \<longleftrightarrow> b"
  by (simp add: ensure_def)

lemma ensure_True [simp, result_simps]: "b \<Longrightarrow> ensure b e = Inr ()"
  by (simp add: ensure_def)

lemma ensure_False [simp, result_simps]: "\<not> b \<Longrightarrow> ensure b e = Inl e"
  by (simp add: ensure_def)

lemma zod_Inr_iff [simp]: "zod name ok x = Inr y \<longleftrightarrow> ok x \<and> y = x"
  by (auto simp: zod_def)

lemma zod_True [simp, result_simps]: "ok x \<Longrightarrow> zod name ok x = Inr x"
  by (simp add: zod_def)

lemma zod_False [simp, result_simps]: "\<not> ok x \<Longrightarrow> zod name ok x = Inl (Zod_error name)"
  by (simp add: zod_def)

text \<open>A successful \<open>rmap\<close> is an ordinary map, element by element.\<close>

lemma rmap_Inr_iff: "rmap f xs = Inr ys \<longleftrightarrow> list_all2 (\<lambda>x y. f x = Inr y) xs ys"
proof (induction xs arbitrary: ys)
  case Nil
  show ?case by auto
next
  case (Cons x xs)
  show ?case
    by (auto simp: rbind_Inr_iff list_all2_Cons1 Cons.IH)
qed

lemma rmap_length: "rmap f xs = Inr ys \<Longrightarrow> length ys = length xs"
  by (simp add: rmap_Inr_iff list_all2_lengthD)

lemma rmap_total: "(\<And>x. x \<in> set xs \<Longrightarrow> f x = Inr (g x)) \<Longrightarrow> rmap f xs = Inr (map g xs)"
  by (induction xs) auto

lemma rmap_Inl: "rmap f xs = Inl e \<Longrightarrow> \<exists>x \<in> set xs. f x = Inl e"
  by (induction xs) (auto simp: rbind_Inl_iff)

lemma rmap_setD: "rmap f xs = Inr ys \<Longrightarrow> y \<in> set ys \<Longrightarrow> \<exists>x \<in> set xs. f x = Inr y"
  by (fastforce simp: rmap_Inr_iff list_all2_conv_all_nth in_set_conv_nth)

text \<open>Loops: concatenation, and the invariant rule every loop proof of the development uses.\<close>

lemma rfold_append: "rfold f s (xs @ ys) = rbind (rfold f s xs) (\<lambda>s'. rfold f s' ys)"
proof (induction xs arbitrary: s)
  case Nil
  show ?case by simp
next
  case (Cons x xs)
  then show ?case by (cases "f s x") auto
qed

lemma rfold_invariant:
  assumes "rfold f s xs = Inr s'" and "P s"
    and "\<And>s x s'. P s \<Longrightarrow> x \<in> set xs \<Longrightarrow> f s x = Inr s' \<Longrightarrow> P s'"
  shows "P s'"
  using assms
proof (induction xs arbitrary: s)
  case Nil
  then show ?case by simp
next
  case (Cons x xs)
  from Cons.prems(1) obtain t where t: "f s x = Inr t" "rfold f t xs = Inr s'"
    by auto
  have "P t" using Cons.prems(2,3) t(1) by auto
  with Cons t(2) show ?case by (metis list.set_intros(2))
qed

lemma rfold_total:
  assumes "\<And>s x. x \<in> set xs \<Longrightarrow> f s x = Inr (g s x)"
  shows "rfold f s xs = Inr (foldl g s xs)"
  using assms by (induction xs arbitrary: s) auto

section \<open>Lists\<close>

text \<open>\<open>new Set(xs).size === xs.length\<close>\<close>

lemma card_set_distinct: "card (set xs) = length xs \<longleftrightarrow> distinct xs"
  by (metis card_distinct distinct_card)

text \<open>A list padded to a fixed length, as \<open>Array.from({ length: n }, (_, i) => xs[i] ?? d)\<close>.\<close>

definition padded :: "nat \<Rightarrow> 'a \<Rightarrow> 'a list \<Rightarrow> 'a list" where
  "padded n d xs = map (\<lambda>i. if i < length xs then xs ! i else d) [0..<n]"

lemma length_padded [simp]: "length (padded n d xs) = n"
  by (simp add: padded_def)

lemma nth_padded: "i < n \<Longrightarrow> padded n d xs ! i = (if i < length xs then xs ! i else d)"
  by (simp add: padded_def)

lemma padded_short: "length xs \<le> n \<Longrightarrow> padded n d xs = xs @ replicate (n - length xs) d"
  by (rule nth_equalityI) (auto simp: nth_padded nth_append)

lemma concat_fixed_width_eq:
  assumes "length xs = length ys"
    and "\<And>x. x \<in> set xs \<union> set ys \<Longrightarrow> length x = w"
    and "concat xs = concat ys"
  shows "xs = ys"
  using assms
proof (induction xs ys rule: list_induct2)
  case Nil
  show ?case by simp
next
  case (Cons x xs y ys)
  have "length x = length y" using Cons.prems(1)[of x] Cons.prems(1)[of y] by simp
  with Cons show ?case by auto
qed


section \<open>\<open>Array.prototype.sort\<close> with a comparison function\<close>

text \<open>
  The sort is stable; a negative result of \<open>cmp x y\<close> puts \<open>x\<close> first.  Inserting each element
  from the right, before the first element that does not precede it, gives the stable result.
\<close>

fun insert_by :: "('a \<Rightarrow> 'a \<Rightarrow> int) \<Rightarrow> 'a \<Rightarrow> 'a list \<Rightarrow> 'a list" where
  "insert_by cmp x [] = [x]"
| "insert_by cmp x (y # ys) = (if cmp x y \<le> 0 then x # y # ys else y # insert_by cmp x ys)"

definition sort_by :: "('a \<Rightarrow> 'a \<Rightarrow> int) \<Rightarrow> 'a list \<Rightarrow> 'a list" where
  "sort_by cmp xs = foldr (insert_by cmp) xs []"

lemma mset_insert_by [simp]: "mset (insert_by cmp x ys) = add_mset x (mset ys)"
  by (induction ys) auto

lemma mset_sort_by [simp]: "mset (sort_by cmp xs) = mset xs"
  by (induction xs) (auto simp: sort_by_def)

lemma set_sort_by [simp]: "set (sort_by cmp xs) = set xs"
  by (metis mset_sort_by set_mset_mset)

lemma length_sort_by [simp]: "length (sort_by cmp xs) = length xs"
  by (metis mset_sort_by size_mset)

text \<open>Where the comparison agrees with a key, the sort is the library's stable sort on that key.\<close>

lemma set_insert_by [simp]: "set (insert_by cmp x ys) = insert x (set ys)"
  by (induction ys) auto

lemma insert_by_key:
  "(\<And>y. y \<in> set ys \<Longrightarrow> cmp x y \<le> 0 \<longleftrightarrow> key x \<le> key y) \<Longrightarrow> insert_by cmp x ys = insort_key key x ys"
  by (induction ys) auto

lemma sort_by_key:
  assumes "\<And>x y. x \<in> set xs \<Longrightarrow> y \<in> set xs \<Longrightarrow> cmp x y \<le> 0 \<longleftrightarrow> key x \<le> key y"
  shows "sort_by cmp xs = sort_key key xs"
proof -
  have "foldr (insert_by cmp) ys [] = sort_key key ys" if "set ys \<subseteq> set xs" for ys
    using that
  proof (induction ys)
    case Nil
    show ?case by simp
  next
    case (Cons y ys)
    then have "insert_by cmp y (sort_key key ys) = insort_key key y (sort_key key ys)"
      using assms by (intro insert_by_key) auto
    with Cons show ?case by simp
  qed
  then show ?thesis by (simp add: sort_by_def)
qed

lemma sort_key_mset_unique:
  assumes "mset xs = mset ys" "distinct (map key xs)"
  shows "sort_key key xs = sort_key key ys"
proof (rule map_sorted_distinct_set_unique [where f = key])
  have s: "set xs = set ys" using assms(1) by (rule mset_eq_setD)
  show "inj_on key (set (sort_key key xs) \<union> set (sort_key key ys))"
    using assms(2) s by (simp add: distinct_map)
  have "mset (map key (sort_key key xs)) = mset (map key xs)" "mset (map key (sort_key key ys)) = mset (map key xs)"
    using assms(1) by simp_all
  then show "distinct (map key (sort_key key xs))" "distinct (map key (sort_key key ys))"
    using assms(2) mset_eq_imp_distinct_iff by blast+
  show "set (sort_key key xs) = set (sort_key key ys)" using s by simp
qed simp_all

text \<open>
  A comparison function need not agree with a key on equal keys: with distinct keys the sort is still
  the one by key, and it depends only on the multiset of the elements.
\<close>

lemma sort_by_distinct:
  fixes key :: "'a \<Rightarrow> 'b :: linorder"
  assumes "\<And>x y. x \<in> set xs \<Longrightarrow> y \<in> set xs \<Longrightarrow> key x \<noteq> key y \<Longrightarrow> cmp x y \<le> 0 \<longleftrightarrow> key x \<le> key y"
    and "distinct (map key xs)"
  shows "sort_by cmp xs = sort_key key xs"
proof -
  have "foldr (insert_by cmp) ys [] = sort_key key ys" if "set ys \<subseteq> set xs" "distinct (map key ys)" for ys
    using that
  proof (induction ys)
    case Nil
    show ?case by simp
  next
    case (Cons y ys)
    have "insert_by cmp y (sort_key key ys) = insort_key key y (sort_key key ys)"
    proof (rule insert_by_key)
      fix z assume "z \<in> set (sort_key key ys)"
      with Cons.prems show "cmp y z \<le> 0 \<longleftrightarrow> key y \<le> key z" by (intro assms(1)) auto
    qed
    with Cons show ?case by simp
  qed
  then show ?thesis using assms(2) by (simp add: sort_by_def)
qed

lemma sort_by_mset_unique:
  fixes key :: "'a \<Rightarrow> 'b :: linorder"
  assumes "\<And>x y. x \<in> set xs \<Longrightarrow> y \<in> set xs \<Longrightarrow> key x \<noteq> key y \<Longrightarrow> cmp x y \<le> 0 \<longleftrightarrow> key x \<le> key y"
    and "distinct (map key xs)" and "mset xs = mset ys"
  shows "sort_by cmp xs = sort_by cmp ys"
proof -
  have "set xs = set ys" using assms(3) by (rule mset_eq_setD)
  moreover have "distinct (map key ys)" using assms(2,3) by (metis mset_eq_imp_distinct_iff mset_map)
  ultimately have "sort_by cmp ys = sort_key key ys" using assms(1) by (intro sort_by_distinct) auto
  then show ?thesis
    using sort_by_distinct [of xs key cmp] sort_key_mset_unique [OF assms(3,2)] assms(1,2) by simp
qed

end
