(* ===== verification/JsStrings.thy ===== *)
theory JsStrings
  imports Prelude "HOL-Library.Char_ord" "HOL-Library.List_Lexorder"
begin

text \<open>
  The part of the JavaScript string and \<open>BigInt\<close> library the source uses: \<open>BigInt(text)\<close> on
  decimal and \<open>0x\<close> text, \<open>toString()\<close> and \<open>toString(16)\<close>, \<open>toLowerCase\<close>, \<open>padStart\<close>,
  string comparison, and the regular expressions of the shared schemas.  A JavaScript string is
  an Isabelle \<^typ>\<open>string\<close>; the source only stores ASCII in the strings modelled here.
  Comparison of strings is the lexicographic order of HOL-Library.List_Lexorder on code units.
\<close>

section \<open>Characters\<close>

definition is_digit :: "char \<Rightarrow> bool" where
  "is_digit c = (48 \<le> (of_char c :: nat) \<and> (of_char c :: nat) \<le> 57)"

definition is_hex :: "char \<Rightarrow> bool" where
  "is_hex c = (is_digit c
     \<or> (65 \<le> (of_char c :: nat) \<and> (of_char c :: nat) \<le> 70)
     \<or> (97 \<le> (of_char c :: nat) \<and> (of_char c :: nat) \<le> 102))"

definition hex_val :: "char \<Rightarrow> nat" where
  "hex_val c = (let n = of_char c in if n \<le> 57 then n - 48 else if n \<le> 70 then n - 55 else n - 87)"

definition hex_char :: "nat \<Rightarrow> char" where
  "hex_char n = (if n < 10 then char_of (48 + n) else char_of (87 + n))"

definition toLowerCase :: "string \<Rightarrow> string" where
  "toLowerCase s = map (\<lambda>c. if 65 \<le> (of_char c :: nat) \<and> (of_char c :: nat) \<le> 90
                             then char_of ((of_char c :: nat) + 32) else c) s"

lemma of_char_lt [simp]: "(of_char c :: nat) < 256"
  using of_char_mod_256 [of c, where ?'a = nat] by (metis mod_less_divisor zero_less_numeral)

lemma of_char_hex_char: "n < 16 \<Longrightarrow> (of_char (hex_char n) :: nat) = (if n < 10 then 48 + n else 87 + n)"
  by (simp add: hex_char_def)

lemma hex_val_hex_char [simp]: "n < 16 \<Longrightarrow> hex_val (hex_char n) = n"
  by (simp add: hex_val_def of_char_hex_char)

lemma is_hex_hex_char [simp]: "n < 16 \<Longrightarrow> is_hex (hex_char n)"
  by (auto simp: is_hex_def is_digit_def of_char_hex_char)

lemma is_digit_hex_char [simp]: "n < 10 \<Longrightarrow> is_digit (hex_char n)"
  by (simp add: is_digit_def of_char_hex_char)

lemma hex_val_lt: "is_hex c \<Longrightarrow> hex_val c < 16"
  by (auto simp: hex_val_def is_hex_def is_digit_def Let_def)

lemma hex_val_digit_lt: "is_digit c \<Longrightarrow> hex_val c < 10"
  by (auto simp: hex_val_def is_digit_def Let_def)

lemma hex_char_hex_val_digit: "is_digit c \<Longrightarrow> hex_char (hex_val c) = c"
  by (auto simp: hex_char_def hex_val_def is_digit_def Let_def)

lemma hex_val_digit_less: "is_digit c \<Longrightarrow> is_digit d \<Longrightarrow> hex_val c < hex_val d \<longleftrightarrow> c < d"
  by (auto simp: hex_val_def is_digit_def Let_def less_char_def)

lemma hex_char_0: "hex_char 0 = CHR ''0''"
  by code_simp

lemma hex_val_nonzero: "is_digit c \<Longrightarrow> c \<noteq> CHR ''0'' \<Longrightarrow> 0 < hex_val c"
  using hex_char_hex_val_digit [of c] hex_char_0 by (cases "hex_val c = 0") auto

lemma is_digit_is_hex: "is_digit c \<Longrightarrow> is_hex c"
  by (simp add: is_hex_def)

section \<open>Numerals in a base\<close>

definition value_base :: "nat \<Rightarrow> string \<Rightarrow> nat" where
  "value_base b s = foldl (\<lambda>v c. v * b + hex_val c) 0 s"

function show_base :: "nat \<Rightarrow> nat \<Rightarrow> string" where
  "show_base b n = (if b < 2 \<or> n < b then [hex_char n] else show_base b (n div b) @ [hex_char (n mod b)])"
  by pat_completeness auto
termination
  by (relation "measure snd") auto

declare show_base.simps [simp del]

lemma value_base_Nil [simp]: "value_base b [] = 0"
  by (simp add: value_base_def)

lemma value_base_snoc [simp]: "value_base b (s @ [c]) = value_base b s * b + hex_val c"
  by (simp add: value_base_def)

lemma value_base_append: "value_base b (s @ t) = value_base b s * b ^ length t + value_base b t"
proof (induction t rule: rev_induct)
  case Nil
  show ?case by simp
next
  case (snoc c t)
  have "value_base b (s @ t @ [c]) = value_base b (s @ t) * b + hex_val c"
    using value_base_snoc [of b "s @ t" c] by simp
  with snoc show ?case by (simp add: algebra_simps)
qed

lemma value_base_Cons: "value_base b (c # s) = hex_val c * b ^ length s + value_base b s"
  using value_base_append [of b "[c]" s] by (simp add: value_base_def)

lemma value_show_base: "2 \<le> b \<Longrightarrow> b \<le> 16 \<Longrightarrow> value_base b (show_base b n) = n"
proof (induction b n rule: show_base.induct)
  case (1 b n)
  show ?case
  proof (cases "n < b")
    case True
    with "1.prems" show ?thesis
      by (simp add: show_base.simps [of b n] value_base_def)
  next
    case False
    then have "value_base b (show_base b (n div b)) = n div b"
      using 1 by auto
    moreover have "n mod b < 16" using "1.prems" mod_less_divisor [of b n] by linarith
    ultimately show ?thesis
      using False "1.prems" by (subst show_base.simps) simp
  qed
qed

lemma show_base_nonempty [simp]: "show_base b n \<noteq> []"
  by (subst show_base.simps) simp

lemma show_base_hex: "b \<le> 16 \<Longrightarrow> 2 \<le> b \<Longrightarrow> list_all is_hex (show_base b n)"
proof (induction b n rule: show_base.induct)
  case (1 b n)
  have "n mod b < 16" using "1.prems" mod_less_divisor [of b n] by linarith
  with 1 show ?case by (subst show_base.simps) auto
qed

lemma show_base_dec: "list_all is_digit (show_base 10 n)"
proof (induction "10 :: nat" n rule: show_base.induct)
  case (1 n)
  then show ?case by (subst show_base.simps) auto
qed

lemma hd_show_base_dec: "0 < n \<Longrightarrow> hd (show_base 10 n) \<noteq> CHR ''0''"
proof (induction "10 :: nat" n rule: show_base.induct)
  case (1 n)
  show ?case
  proof (cases "n < 10")
    case True
    have "(of_char (hex_char n) :: nat) \<noteq> of_char CHR ''0''"
      using True 1 by (simp add: of_char_hex_char)
    with True show ?thesis by (subst show_base.simps) auto
  next
    case False
    with 1 show ?thesis by (subst show_base.simps) (auto simp: hd_append)
  qed
qed

section \<open>Canonical decimals\<close>

text \<open>\<open>/^(0|[1-9]\d*)$/\<close>\<close>

definition canonical_dec :: "string \<Rightarrow> bool" where
  "canonical_dec s = (case s of [] \<Rightarrow> False
     | c # cs \<Rightarrow> (c = CHR ''0'' \<and> cs = []) \<or> (is_digit c \<and> c \<noteq> CHR ''0'' \<and> list_all is_digit cs))"

text \<open>\<open>BigInt(s)\<close> for the texts the schemas let through, and \<open>toString(16)\<close>, \<open>toString()\<close>.\<close>

definition bigint :: "string \<Rightarrow> int" where
  "bigint s = (if take 2 s = ''0x'' then int (value_base 16 (drop 2 s)) else int (value_base 10 s))"

definition toString :: "int \<Rightarrow> string" where
  "toString n = (if n < 0 then CHR ''-'' # show_base 10 (nat (- n)) else show_base 10 (nat n))"

definition toString16 :: "int \<Rightarrow> string" where
  "toString16 n = (if n < 0 then CHR ''-'' # show_base 16 (nat (- n)) else show_base 16 (nat n))"

definition padStart :: "nat \<Rightarrow> char \<Rightarrow> string \<Rightarrow> string" where
  "padStart n c s = replicate (n - length s) c @ s"

text \<open>\<open>BigInt\<close> division truncates towards zero, and the remainder has the sign of the dividend.\<close>

definition bdiv :: "int \<Rightarrow> int \<Rightarrow> int" where
  "bdiv a b = sgn a * sgn b * (\<bar>a\<bar> div \<bar>b\<bar>)"

definition bmod :: "int \<Rightarrow> int \<Rightarrow> int" where
  "bmod a b = a - bdiv a b * b"

lemma bdiv_nonneg: "0 \<le> a \<Longrightarrow> 0 < b \<Longrightarrow> bdiv a b = a div b"
  by (cases "a = 0") (auto simp: bdiv_def)

lemma bmod_nonneg: "0 \<le> a \<Longrightarrow> 0 < b \<Longrightarrow> bmod a b = a mod b"
  by (simp add: bmod_def bdiv_nonneg minus_div_mult_eq_mod)

lemma canonical_dec_digits: "canonical_dec s \<Longrightarrow> list_all is_digit s \<and> s \<noteq> []"
  by (auto simp: canonical_dec_def is_digit_def split: list.splits)

lemma list_all_digit_no_x: "list_all is_digit s \<Longrightarrow> take 2 s \<noteq> ''0x''"
  by (cases s; cases "tl s") (auto simp: is_digit_def)

lemma bigint_dec: "list_all is_digit s \<Longrightarrow> bigint s = int (value_base 10 s)"
  by (simp add: bigint_def list_all_digit_no_x)

lemma bigint_hex: "bigint (CHR ''0'' # CHR ''x'' # s) = int (value_base 16 s)"
  by (simp add: bigint_def)

lemma bigint_nonneg [simp]: "0 \<le> bigint s"
  by (simp add: bigint_def)

lemma bigint_toString [simp]: "0 \<le> n \<Longrightarrow> bigint (toString n) = n"
  by (simp add: toString_def bigint_dec show_base_dec value_show_base)

lemma bigint_toString16: "0 \<le> n \<Longrightarrow> bigint (''0x'' @ toString16 n) = n"
  by (simp add: toString16_def bigint_hex value_show_base)

lemma canonical_dec_toString: "0 \<le> n \<Longrightarrow> canonical_dec (toString n)"
proof -
  assume n: "0 \<le> n"
  show ?thesis
  proof (cases "n = 0")
    case True
    then show ?thesis
      by (simp add: toString_def show_base.simps [of 10 0] canonical_dec_def hex_char_0)
  next
    case False
    with n have "0 < nat n" by simp
    then have "hd (show_base 10 (nat n)) \<noteq> CHR ''0''" by (rule hd_show_base_dec)
    moreover have "list_all is_digit (show_base 10 (nat n))" by (rule show_base_dec)
    ultimately show ?thesis
      using n by (auto simp: toString_def canonical_dec_def split: list.splits)
  qed
qed

lemma value_base_lt: "list_all is_digit s \<Longrightarrow> value_base 10 s < 10 ^ length s"
proof (induction s)
  case Nil
  show ?case by simp
next
  case (Cons c s)
  then have "hex_val c < 10" by (simp add: hex_val_digit_lt)
  then have "hex_val c * 10 ^ length s \<le> 9 * 10 ^ length s" by simp
  moreover have "value_base 10 s < 10 ^ length s" using Cons by simp
  ultimately have "hex_val c * 10 ^ length s + value_base 10 s < 9 * 10 ^ length s + 10 ^ length s"
    by linarith
  then show ?case by (simp add: value_base_Cons)
qed

lemma value_base_ge:
  "is_digit c \<Longrightarrow> c \<noteq> CHR ''0'' \<Longrightarrow> 10 ^ length s \<le> value_base 10 (c # s)"
proof -
  assume "is_digit c" "c \<noteq> CHR ''0''"
  then have "0 < hex_val c" by (rule hex_val_nonzero)
  then have "1 * 10 ^ length s \<le> hex_val c * 10 ^ length s" by (intro mult_le_mono1) simp
  then show ?thesis unfolding value_base_Cons by linarith
qed

text \<open>On equally long digit strings the code-unit order is the numeric order.\<close>

lemma value_base_less_iff:
  "length s = length t \<Longrightarrow> list_all is_digit s \<Longrightarrow> list_all is_digit t
   \<Longrightarrow> value_base 10 s < value_base 10 t \<longleftrightarrow> s < t"
proof (induction s t rule: list_induct2)
  case Nil
  show ?case by simp
next
  case (Cons c s d t)
  have s: "value_base 10 s < 10 ^ length t" and t: "value_base 10 t < 10 ^ length t"
    using Cons.prems Cons.hyps value_base_lt [of s] value_base_lt [of t] by simp_all
  have IH: "value_base 10 s < value_base 10 t \<longleftrightarrow> s < t" using Cons by simp
  consider "hex_val c < hex_val d" | "hex_val d < hex_val c" | "hex_val c = hex_val d" by linarith
  then show ?case
  proof cases
    case 1
    then have "(hex_val c + 1) * 10 ^ length t \<le> hex_val d * 10 ^ length t" by (intro mult_le_mono1) simp
    then have "value_base 10 (c # s) < value_base 10 (d # t)"
      using s Cons.hyps by (simp add: value_base_Cons)
    moreover have "c < d" using 1 Cons.prems by (simp add: hex_val_digit_less)
    ultimately show ?thesis by simp
  next
    case 2
    then have "(hex_val d + 1) * 10 ^ length t \<le> hex_val c * 10 ^ length t" by (intro mult_le_mono1) simp
    then have "\<not> value_base 10 (c # s) < value_base 10 (d # t)"
      using t Cons.hyps by (simp add: value_base_Cons)
    moreover have "d < c" using 2 Cons.prems by (simp add: hex_val_digit_less)
    ultimately show ?thesis by auto
  next
    case 3
    then have "c = d" using Cons.prems hex_char_hex_val_digit by (metis list.pred_inject(2))
    then show ?thesis using IH Cons.hyps by (simp add: value_base_Cons)
  qed
qed

lemma canonical_dec_bounds:
  assumes "canonical_dec s"
  shows "bigint s < 10 ^ length s" and "s \<noteq> ''0'' \<Longrightarrow> 10 ^ (length s - 1) \<le> bigint s"
proof -
  have d: "list_all is_digit s" using assms canonical_dec_digits by blast
  have "int (value_base 10 s) < int (10 ^ length s)"
    unfolding of_nat_less_iff by (rule value_base_lt [OF d])
  then show "bigint s < 10 ^ length s" by (simp add: bigint_dec [OF d])
  assume n0: "s \<noteq> ''0''"
  obtain c cs where s: "s = c # cs" using assms by (cases s) (auto simp: canonical_dec_def)
  then have "10 ^ length cs \<le> value_base 10 (c # cs)"
    using assms n0 by (intro value_base_ge) (auto simp: canonical_dec_def)
  then have "int (10 ^ length cs) \<le> int (value_base 10 (c # cs))" by (simp only: of_nat_le_iff)
  then show "10 ^ (length s - 1) \<le> bigint s" using s d by (simp add: bigint_dec)
qed

text \<open>A canonical decimal is determined by its value, so printing inverts \<open>BigInt\<close>.\<close>

lemma canonical_dec_length_le:
  assumes "canonical_dec s" "canonical_dec t" "bigint s \<le> bigint t"
  shows "length s \<le> length t"
proof (rule ccontr)
  assume "\<not> length s \<le> length t"
  then have lt: "length t < length s" by simp
  have "length t \<noteq> 0" using assms(2) canonical_dec_digits [of t] by simp
  with lt have "s \<noteq> ''0''" by auto
  then have "(10::int) ^ (length s - 1) \<le> bigint s"
    by (rule canonical_dec_bounds(2) [OF assms(1)])
  moreover have "bigint t < 10 ^ length t" by (rule canonical_dec_bounds(1) [OF assms(2)])
  moreover have "(10::int) ^ length t \<le> 10 ^ (length s - 1)" using lt by (intro power_increasing) auto
  ultimately show False using assms(3) by linarith
qed

lemma canonical_dec_inj:
  assumes "canonical_dec s" "canonical_dec t" "bigint s = bigint t"
  shows "s = t"
proof -
  have l: "length s = length t"
    using assms by (intro antisym canonical_dec_length_le) auto
  have d: "list_all is_digit s" "list_all is_digit t" using assms canonical_dec_digits by auto
  have "value_base 10 s = value_base 10 t" using assms(3) d by (simp add: bigint_dec)
  then have "\<not> s < t" "\<not> t < s"
    using value_base_less_iff [OF l d] value_base_less_iff [OF l [symmetric] d(2,1)] by auto
  then show ?thesis by simp
qed

lemma toString_bigint: "canonical_dec s \<Longrightarrow> toString (bigint s) = s"
  by (rule canonical_dec_inj) (simp_all add: canonical_dec_toString)

lemma toString_inj: "0 \<le> m \<Longrightarrow> 0 \<le> n \<Longrightarrow> toString m = toString n \<longleftrightarrow> m = n"
  by (metis bigint_toString)

lemma canonical_dec_le_iff:
  assumes "canonical_dec s" "canonical_dec t"
  shows "bigint s \<le> bigint t \<longleftrightarrow> length s < length t \<or> (length s = length t \<and> s \<le> t)"
proof (cases "length s = length t")
  case True
  have d: "list_all is_digit s" "list_all is_digit t" using assms canonical_dec_digits by auto
  have "value_base 10 t < value_base 10 s \<longleftrightarrow> t < s"
    using True d by (intro value_base_less_iff) auto
  then show ?thesis using True d by (auto simp: bigint_dec not_less [symmetric])
next
  case False
  then show ?thesis
    using canonical_dec_length_le [OF assms] canonical_dec_length_le [OF assms(2,1)]
    by (metis linorder_le_cases not_less order_antisym less_le)
qed

lemma value_base_zero_prefix: "value_base b (CHR ''0'' # s) = value_base b s"
  by (simp add: value_base_Cons hex_val_def)

lemma list_all_digit_toString: "0 \<le> n \<Longrightarrow> list_all is_digit (toString n)"
  by (simp add: toString_def show_base_dec)

lemma value_base_replicate_zero [simp]: "value_base b (replicate n (CHR ''0'') @ s) = value_base b s"
  by (induction n) (simp_all add: value_base_zero_prefix)

lemma length_toString_le:
  assumes "0 \<le> n" "n < 10 ^ d" "0 < d"
  shows "length (toString n) \<le> d"
proof (cases "toString n = ''0''")
  case True
  with assms show ?thesis by simp
next
  case False
  then have "(10::int) ^ (length (toString n) - 1) \<le> n"
    using canonical_dec_bounds(2) [OF canonical_dec_toString [OF assms(1)]] assms(1) by simp
  with assms(2) have "(10::int) ^ (length (toString n) - 1) < 10 ^ d" by linarith
  then have "length (toString n) - 1 < d" by (simp add: power_strict_increasing_iff)
  then show ?thesis by simp
qed

text \<open>A number printed with a fixed number of digits.\<close>

definition pad :: "nat \<Rightarrow> int \<Rightarrow> string" where
  "pad n k = padStart n (CHR ''0'') (toString k)"

lemma pad_digits:
  assumes "0 \<le> k" "k < 10 ^ n" "0 < n"
  shows "length (pad n k) = n" "list_all is_digit (pad n k)" "int (value_base 10 (pad n k)) = k"
proof -
  note d = list_all_digit_toString [OF assms(1)]
  show "length (pad n k) = n"
    using length_toString_le [OF assms] by (simp add: pad_def padStart_def)
  show "list_all is_digit (pad n k)"
    using d by (auto simp: pad_def padStart_def list_all_iff is_digit_def)
  show "int (value_base 10 (pad n k)) = k"
    using bigint_toString [OF assms(1)] d by (simp add: pad_def padStart_def bigint_dec)
qed

section \<open>Hexadecimal schemas\<close>

text \<open>\<open>/^0x[0-9a-fA-F]{64}$/\<close> and \<open>/^0x[0-9a-fA-F]+$/\<close>\<close>

definition commitment_ok :: "string \<Rightarrow> bool" where
  "commitment_ok s = (take 2 s = ''0x'' \<and> length s = 66 \<and> list_all is_hex (drop 2 s))"

definition starknet_address_ok :: "string \<Rightarrow> bool" where
  "starknet_address_ok s = (take 2 s = ''0x'' \<and> 2 < length s \<and> list_all is_hex (drop 2 s))"

section \<open>Other schemas that several components share\<close>

text \<open>\<open>schema.optional()\<close>\<close>

definition opt_ok :: "('a \<Rightarrow> bool) \<Rightarrow> 'a option \<Rightarrow> bool" where
  "opt_ok p x = (case x of None \<Rightarrow> True | Some v \<Rightarrow> p v)"

lemma opt_ok_simps [simp]: "opt_ok p None" "opt_ok p (Some v) \<longleftrightarrow> p v"
  by (simp_all add: opt_ok_def)

definition length_between :: "nat \<Rightarrow> nat \<Rightarrow> string \<Rightarrow> bool" where
  "length_between lo hi s = (lo \<le> length s \<and> length s \<le> hi)"

text \<open>\<open>z.number().int().positive()\<close>: a safe integer.\<close>

definition positive_int_ok :: "int \<Rightarrow> bool" where
  "positive_int_ok n = (0 < n \<and> n \<le> 9007199254740991)"

definition uint32_ok :: "int \<Rightarrow> bool" where
  "uint32_ok n = (0 \<le> n \<and> n \<le> 4294967295)"

definition is_upper :: "char \<Rightarrow> bool" where
  "is_upper c = (65 \<le> (of_char c :: nat) \<and> (of_char c :: nat) \<le> 90)"

definition is_lower :: "char \<Rightarrow> bool" where
  "is_lower c = (97 \<le> (of_char c :: nat) \<and> (of_char c :: nat) \<le> 122)"

text \<open>\<open>/^[A-Z]{2}(-[A-Z0-9]{1,3})?$/\<close> and \<open>/^[A-Z]{3}$/\<close>\<close>

definition jurisdiction_ok :: "string \<Rightarrow> bool" where
  "jurisdiction_ok s =
     (2 \<le> length s \<and> list_all is_upper (take 2 s)
      \<and> (case drop 2 s of [] \<Rightarrow> True
         | d # rest \<Rightarrow> d = CHR ''-'' \<and> 1 \<le> length rest \<and> length rest \<le> 3
             \<and> list_all (\<lambda>c. is_upper c \<or> is_digit c) rest))"

definition currency_ok :: "string \<Rightarrow> bool" where
  "currency_ok s = (length s = 3 \<and> list_all is_upper s)"

text \<open>\<open>z.string().uuid()\<close>: the pattern of RFC 9562, with the nil and the max identifier.\<close>

definition uuid_ok :: "string \<Rightarrow> bool" where
  "uuid_ok s =
     (s = ''00000000-0000-0000-0000-000000000000'' \<or> s = ''ffffffff-ffff-ffff-ffff-ffffffffffff''
      \<or> (length s = 36 \<and> list_all (\<lambda>i. if i \<in> {8, 13, 18, 23} then s ! i = CHR ''-'' else is_hex (s ! i)) [0..<36]
         \<and> s ! 14 \<in> set ''12345678'' \<and> s ! 19 \<in> set ''89abAB''))"

lemma value_base16_lt: "list_all is_hex s \<Longrightarrow> value_base 16 s < 16 ^ length s"
proof (induction s)
  case Nil
  show ?case by simp
next
  case (Cons c s)
  then have "hex_val c < 16" by (simp add: hex_val_lt)
  then have "hex_val c * 16 ^ length s \<le> 15 * 16 ^ length s" by simp
  moreover have "value_base 16 s < 16 ^ length s" using Cons by simp
  ultimately have "hex_val c * 16 ^ length s + value_base 16 s < 15 * 16 ^ length s + 16 ^ length s"
    by linarith
  then show ?case by (simp add: value_base_Cons)
qed

lemma bigint_commitment_lt: "commitment_ok s \<Longrightarrow> bigint s < 2 ^ 256"
proof -
  assume s: "commitment_ok s"
  then have "value_base 16 (drop 2 s) < 16 ^ length (drop 2 s)"
    by (intro value_base16_lt) (simp add: commitment_ok_def)
  then have "value_base 16 (drop 2 s) < 16 ^ 64" using s by (simp add: commitment_ok_def)
  then have "int (value_base 16 (drop 2 s)) < 16 ^ 64" by (metis of_nat_less_iff of_nat_power of_nat_numeral)
  then show ?thesis using s by (simp add: bigint_def commitment_ok_def)
qed


section \<open>Evaluation\<close>

text \<open>Code equations over binary integers, so that concrete numbers of any size evaluate quickly.\<close>

fun int_value :: "int \<Rightarrow> int \<Rightarrow> string \<Rightarrow> int" where
  "int_value b v [] = v"
| "int_value b v (c # cs) = int_value b (v * b + int (hex_val c)) cs"

lemma int_value: "int (foldl (\<lambda>v c. v * b + hex_val c) v s) = int_value (int b) (int v) s"
  by (induction s arbitrary: v) simp_all

lemma bigint_code [code]:
  "bigint s = (if take 2 s = ''0x'' then int_value 16 0 (drop 2 s) else int_value 10 0 s)"
  using int_value [of 16 0] int_value [of 10 0] by (simp add: bigint_def value_base_def)

lemma int_div_less:
  assumes "\<not> b < 2" "\<not> n div b < (b::int)"
  shows "0 < n" "n div b < n"
proof -
  show "0 < n" using assms div_nonpos_pos_le0 [of n b] by linarith
  then show "n div b < n" using assms(1) by (intro int_div_less_self) simp_all
qed

text \<open>The first argument says whether the number is a single digit, so that evaluation is driven by it.\<close>

function int_digits :: "bool \<Rightarrow> int \<Rightarrow> int \<Rightarrow> string" where
  "int_digits True b n = [hex_char (nat n)]"
| "int_digits False b n = int_digits (b < 2 \<or> n div b < b) b (n div b) @ [hex_char (nat (n mod b))]"
  by pat_completeness auto

termination
  by (relation "measure (\<lambda>(stop, b, n). if stop then 0 else Suc (nat n))") (auto simp: int_div_less)

lemma int_digits: "2 \<le> b \<Longrightarrow> int_digits (n < b) (int b) (int n) = show_base b n"
proof (induction b n rule: show_base.induct)
  case (1 b n)
  show ?case
  proof (cases "n < b")
    case True
    then show ?thesis by (subst show_base.simps) simp
  next
    case False
    with 1 have "int_digits (n div b < b) (int b) (int (n div b)) = show_base b (n div b)" by simp
    with False 1(2) show ?thesis
      by (subst show_base.simps) (simp add: zdiv_int [symmetric] zmod_int [symmetric])
  qed
qed

lemma toString_code [code]:
  "toString n = (if n < 0 then CHR ''-'' # int_digits (- n < 10) 10 (- n) else int_digits (n < 10) 10 n)"
  using int_digits [of 10 "nat n"] int_digits [of 10 "nat (- n)"]
  by (cases "n < 0") (simp_all add: toString_def nat_less_iff)

lemma toString16_code [code]:
  "toString16 n = (if n < 0 then CHR ''-'' # int_digits (- n < 16) 16 (- n) else int_digits (n < 16) 16 n)"
  using int_digits [of 16 "nat n"] int_digits [of 16 "nat (- n)"]
  by (cases "n < 0") (simp_all add: toString16_def nat_less_iff)

end
