(* ===== verification/Interfaces.thy ===== *)
theory Interfaces
  imports Prelude
begin

text \<open>
  The contracts between components, as locales.  \<open>fixed_width\<close> is what a commitment relies on in
  the encoder of each of its fields, \<open>state_table\<close> what a workflow relies on in its transition
  table, \<open>accrual\<close> what a settlement rule relies on in the accrual function it pays from.  Each is
  interpreted on the model's own definitions, in the theory of the component that provides it.
\<close>

section \<open>Fixed-width encoders\<close>

text \<open>
  Every encoding has the same width and two encodings agree exactly when the encoded values do,
  where \<open>val\<close> reads the value an argument stands for (a commitment's hexadecimal text stands for
  the number it spells, whatever its letter case).
\<close>

locale fixed_width =
  fixes enc :: "'a \<Rightarrow> 'b list result"
    and width :: nat
    and val :: "'a \<Rightarrow> 'c"
  assumes enc_length: "enc x = Inr bs \<Longrightarrow> length bs = width"
    and enc_val: "enc x = Inr bs \<Longrightarrow> enc y = Inr cs \<Longrightarrow> bs = cs \<longleftrightarrow> val x = val y"
begin

lemma enc_append_eq:
  assumes "enc x = Inr bs" "enc y = Inr cs"
  shows "bs @ r = cs @ t \<longleftrightarrow> val x = val y \<and> r = t"
  using assms enc_length [of x bs] enc_length [of y cs] enc_val [of x bs y cs] by auto

lemma rmap_enc_lengths: "rmap enc xs = Inr bss \<Longrightarrow> \<forall>bs \<in> set bss. length bs = width"
  using rmap_setD enc_length by metis

lemma concat_enc_eq:
  assumes "rmap enc xs = Inr bss" "rmap enc ys = Inr css" "length xs = length ys"
  shows "concat bss = concat css \<longleftrightarrow> map val xs = map val ys"
  using assms(3,1,2)
proof (induction xs ys arbitrary: bss css rule: list_induct2)
  case Nil
  then show ?case by simp
next
  case (Cons x xs y ys)
  from Cons.prems obtain bs bss' cs css' where
    "enc x = Inr bs" "rmap enc xs = Inr bss'" "bss = bs # bss'"
    "enc y = Inr cs" "rmap enc ys = Inr css'" "css = cs # css'"
    by (auto simp: rbind_Inr_iff)
  with Cons.IH [of bss' css'] show ?case by (simp add: enc_append_eq)
qed

lemma length_concat_enc: "rmap enc xs = Inr bss \<Longrightarrow> length (concat bss) = length xs * width"
proof (induction xs arbitrary: bss)
  case Nil
  then show ?case by simp
next
  case (Cons x xs)
  from Cons.prems obtain bs bss' where "enc x = Inr bs" "rmap enc xs = Inr bss'" "bss = bs # bss'"
    by (auto simp: rbind_Inr_iff)
  with Cons.IH show ?case by (simp add: enc_length)
qed

lemma concat_enc_append_eq:
  assumes "rmap enc xs = Inr bss" "rmap enc ys = Inr css" "length xs = length ys"
  shows "concat bss @ r = concat css @ t \<longleftrightarrow> map val xs = map val ys \<and> r = t"
  using concat_enc_eq [OF assms] length_concat_enc [OF assms(1)] length_concat_enc [OF assms(2)] assms(3)
  by (simp add: append_eq_append_conv)

end

section \<open>Transition tables\<close>

locale state_table =
  fixes successors :: "'s \<Rightarrow> 's list"
    and check :: "'s \<Rightarrow> 's \<Rightarrow> unit result"
  assumes check_iff: "check a b = Inr () \<longleftrightarrow> b \<in> set (successors a)"
begin

lemma check_terminal: "successors a = [] \<Longrightarrow> check a b \<noteq> Inr ()"
  by (simp add: check_iff)

lemma walk_closed:
  assumes "rfold (\<lambda>s t. rbind (check s t) (\<lambda>_. Inr t)) a ts = Inr b"
    and "a \<in> S" and "\<And>s. s \<in> S \<Longrightarrow> set (successors s) \<subseteq> S"
  shows "b \<in> S"
  using assms(1)
proof (rule rfold_invariant)
  show "a \<in> S" by (rule assms(2))
  fix s t s'
  assume "s \<in> S" "rbind (check s t) (\<lambda>_. Inr t) = Inr s'"
  with assms(3) show "s' \<in> S" by (auto simp: check_iff rbind_Inr_iff)
qed

lemma walk_from_terminal:
  assumes "successors a = []" and "rfold (\<lambda>s t. rbind (check s t) (\<lambda>_. Inr t)) a ts = Inr b"
  shows "ts = [] \<and> b = a"
  using assms by (cases ts) (auto simp: check_iff rbind_Inr_iff)

text \<open>A history that avoids \<open>P\<close> stays in a set that can only be left through \<open>P\<close>.\<close>

lemma walk_avoiding:
  assumes "rfold (\<lambda>s t. rbind (check s t) (\<lambda>_. Inr t)) a ts = Inr b"
    and "a \<in> S" "set ts \<inter> P = {}"
    and "\<And>s. s \<in> S \<Longrightarrow> set (successors s) \<subseteq> S \<union> P"
  shows "b \<in> S"
  using assms(1)
proof (rule rfold_invariant)
  show "a \<in> S" by (rule assms(2))
  fix s t s'
  assume "s \<in> S" "t \<in> set ts" "rbind (check s t) (\<lambda>_. Inr t) = Inr s'"
  with assms(3,4) show "s' \<in> S" by (fastforce simp: check_iff rbind_Inr_iff)
qed

text \<open>A state outside such a set is reached only through its one exit.\<close>

lemma walk_must_pass:
  assumes "rfold (\<lambda>s t. rbind (check s t) (\<lambda>_. Inr t)) a ts = Inr b"
    and "a \<in> S" "b \<notin> S" and "\<And>s. s \<in> S \<Longrightarrow> set (successors s) \<subseteq> S \<union> {x}"
  shows "x \<in> set ts"
  using walk_avoiding [OF assms(1,2), of "{x}"] assms(3,4) by auto

text \<open>
  A history that never takes a step into a forbidden state \<open>x\<close> other than through its only
  predecessor has passed through that predecessor.
\<close>

lemma walk_passes:
  assumes "rfold (\<lambda>s t. rbind (check s t) (\<lambda>_. Inr t)) a ts = Inr b"
    and "\<And>s. b \<in> set (successors s) \<Longrightarrow> s \<in> P" and "a \<noteq> b"
  shows "a \<in> P \<or> (\<exists>t \<in> set ts. t \<in> P)"
  using assms
proof (induction ts arbitrary: a)
  case Nil
  then show ?case by simp
next
  case (Cons t ts)
  from Cons.prems(1) have step: "t \<in> set (successors a)"
    and rest: "rfold (\<lambda>s t. rbind (check s t) (\<lambda>_. Inr t)) t ts = Inr b"
    by (auto simp: check_iff rbind_Inr_iff)
  show ?case
  proof (cases "t = b")
    case True
    with step Cons.prems(2) show ?thesis by blast
  next
    case False
    with Cons.IH [OF rest Cons.prems(2)] show ?thesis by auto
  qed
qed

end

section \<open>Accrual\<close>

text \<open>
  A schedule \<open>s\<close> has earned \<open>earned s t\<close> of its \<open>total s\<close> at time \<open>t\<close>; the amount never
  leaves the interval and never decreases.  What settlement rules need follows: paying the
  difference to what was already released is never negative, and any series of such payments adds
  up to the amount earned at its end, hence never exceeds the total.
\<close>

fun settle_series :: "(int \<Rightarrow> int) \<Rightarrow> int \<Rightarrow> int list \<Rightarrow> int list" where
  "settle_series earned released [] = []"
| "settle_series earned released (t # ts) = (earned t - released) # settle_series earned (earned t) ts"

locale accrual =
  fixes earned :: "'s \<Rightarrow> int \<Rightarrow> int"
    and total :: "'s \<Rightarrow> int"
    and ok :: "'s \<Rightarrow> bool"
  assumes earned_lower: "ok s \<Longrightarrow> 0 \<le> earned s t"
    and earned_upper: "ok s \<Longrightarrow> earned s t \<le> total s"
    and earned_mono: "ok s \<Longrightarrow> t \<le> u \<Longrightarrow> earned s t \<le> earned s u"
begin

lemma settle_sum: "sum_list (settle_series (earned s) released ts)
    = (if ts = [] then 0 else earned s (last ts) - released)"
  by (induction ts arbitrary: released) auto

lemma settle_bounded:
  assumes "ok s" "0 \<le> released"
  shows "released + sum_list (settle_series (earned s) released ts) \<le> max released (total s)"
  using assms earned_upper [of s] by (simp add: settle_sum le_max_iff_disj)

lemma settle_nonneg:
  assumes "ok s" "sorted (t0 # ts)" "x \<in> set (settle_series (earned s) (earned s t0) ts)"
  shows "0 \<le> x"
  using assms
proof (induction ts arbitrary: t0)
  case Nil
  then show ?case by simp
next
  case (Cons t ts)
  then show ?case using earned_mono [of s t0 t] by auto
qed

end

end
