(* ===== verification/Encoding.thy ===== *)
theory Encoding
  imports JsStrings Interfaces
begin

text \<open>
  Model of \<open>lib/crypto/encoding.ts\<close>: the big-endian, fixed-width byte encodings every commitment
  of the protocol is built from, and the canonical JSON text of operational digests.

  A \<open>Uint8Array\<close> is a list of 8-bit words; storing a number into one reduces it modulo 256, as
  \<^term>\<open>word_of_int\<close> does.  The third-party primitives (the hash functions and hex codec of
  @noble/hashes, the signatures of @noble/curves, Poseidon, Keccak and short strings of starknet.js,
  the Poseidon2 sponge of Barretenberg, zod's URL check) are the fields of the record \<open>lib\<close>;
  \<open>hex_lib_ok\<close> states the documented behaviour of the hex codec that the code relies on.
\<close>

unbundle bit_operations_syntax

type_synonym byte = "8 word"

record lib =
  keccak_256 :: "byte list \<Rightarrow> byte list"
  sha256 :: "byte list \<Rightarrow> byte list"
  bytesToHex :: "byte list \<Rightarrow> string"
  hexToBytes :: "string \<Rightarrow> byte list"
  computePoseidonHashOnElements :: "int list \<Rightarrow> string"
  encodeShortString :: "string \<Rightarrow> string"
  starknetKeccak :: "string \<Rightarrow> int"
  poseidon2Hash :: "byte list list \<Rightarrow> byte list"
  ed25519_getPublicKey :: "byte list \<Rightarrow> byte list result"
  ed25519_sign :: "byte list \<Rightarrow> byte list \<Rightarrow> byte list result"
  ed25519_verify :: "byte list \<Rightarrow> byte list \<Rightarrow> byte list \<Rightarrow> bool"
  parsesAsUrl :: "string \<Rightarrow> bool"

section \<open>Byte strings\<close>

definition utf8 :: "string \<Rightarrow> byte list" where
  "utf8 s = map (\<lambda>c. word_of_nat (of_char c)) s"

text \<open>The loop of \<open>concatBytes\<close>: a zeroed array of the total size, filled segment by segment.\<close>

definition set_at :: "byte list \<Rightarrow> byte list \<Rightarrow> nat \<Rightarrow> byte list" where
  "set_at result v offset = take offset result @ v @ drop (offset + length v) result"

fun concat_loop :: "byte list \<Rightarrow> nat \<Rightarrow> byte list list \<Rightarrow> byte list" where
  "concat_loop result offset [] = result"
| "concat_loop result offset (v # vs) = concat_loop (set_at result v offset) (offset + length v) vs"

definition concatBytes :: "byte list list \<Rightarrow> byte list" where
  "concatBytes values =
     (let size = foldl (\<lambda>total v. total + length v) 0 values
      in concat_loop (replicate size 0) 0 values)"

section \<open>Fixed-width integers\<close>

definition encodeU32 :: "int \<Rightarrow> byte list result" where
  "encodeU32 value =
     (if value < 0 \<or> 0xffffffff < value
      then Inl (Thrown ''Value does not fit in an unsigned 32-bit integer.'')
      else Inr [word_of_int (value div 0x1000000), word_of_int (value div 0x10000),
                word_of_int (value div 0x100), word_of_int value])"

fun encode_loop :: "nat \<Rightarrow> int \<Rightarrow> byte list \<Rightarrow> byte list" where
  "encode_loop 0 remaining result = result"
| "encode_loop (Suc index) remaining result =
     encode_loop index (drop_bit 8 remaining) (word_of_int (remaining AND 0xff) # result)"

definition encodeUint :: "int \<Rightarrow> nat \<Rightarrow> byte list result" where
  "encodeUint value len =
     (if value < 0 \<or> push_bit (len * 8) 1 \<le> value
      then Inl (Thrown (''Value does not fit in '' @ toString (int len) @ '' bytes.''))
      else Inr (encode_loop len value []))"

definition decodeUint :: "byte list \<Rightarrow> int" where
  "decodeUint bs = foldl (\<lambda>r b. push_bit 8 r OR uint b) 0 bs"

definition encodeField :: "byte list \<Rightarrow> byte list result" where
  "encodeField value = rbind (encodeU32 (int (length value))) (\<lambda>n. Inr (concatBytes [n, value]))"

section \<open>Hexadecimal text\<close>

definition normalizedHexBytes :: "lib \<Rightarrow> string \<Rightarrow> nat option \<Rightarrow> byte list result" where
  "normalizedHexBytes L value len =
     (let raw = (if take 2 value = ''0x'' then drop 2 value else value);
          normalized = (if even (length raw) then raw else CHR ''0'' # raw)
      in if \<not> list_all is_hex normalized then Inl (Thrown ''Invalid hexadecimal value.'')
         else let bytes = hexToBytes L normalized
              in case len of
                   None \<Rightarrow> Inr bytes
                 | Some n \<Rightarrow>
                     if n < length bytes
                     then Inl (Thrown (''Hexadecimal value exceeds '' @ toString (int n) @ '' bytes.''))
                     else Inr (replicate (n - length bytes) 0 @ bytes))"

definition toHex :: "lib \<Rightarrow> byte list \<Rightarrow> string" where
  "toHex L value = ''0x'' @ bytesToHex L value"

definition hex_lib_ok :: "lib \<Rightarrow> bool" where
  "hex_lib_ok L \<longleftrightarrow>
     (\<forall>s. even (length s) \<longrightarrow> list_all is_hex s \<longrightarrow>
        length (hexToBytes L s) = length s div 2 \<and> decodeUint (hexToBytes L s) = int (value_base 16 s)) \<and>
     (\<forall>bs. length (bytesToHex L bs) = 2 * length bs \<and> list_all is_hex (bytesToHex L bs) \<and>
        toLowerCase (bytesToHex L bs) = bytesToHex L bs \<and>
        int (value_base 16 (bytesToHex L bs)) = decodeUint bs)"

section \<open>Canonical JSON\<close>

datatype json =
    JNull
  | JBool bool
  | JNum int
  | JStr string
  | JArr "json list"
  | JObj "(string \<times> json) list"

definition json_char :: "char \<Rightarrow> string" where
  "json_char c =
     (let n = (of_char c :: nat) in
      if n = 34 then [char_of (92::nat), c]
      else if n = 92 then [c, c]
      else if n = 8 then [char_of (92::nat), CHR ''b'']
      else if n = 9 then [char_of (92::nat), CHR ''t'']
      else if n = 10 then [char_of (92::nat), CHR ''n'']
      else if n = 12 then [char_of (92::nat), CHR ''f'']
      else if n = 13 then [char_of (92::nat), CHR ''r'']
      else if n < 32 then char_of (92::nat) # ''u'' @ padStart 4 (CHR ''0'') (show_base 16 n)
      else [c])"

definition json_string :: "string \<Rightarrow> string" where
  "json_string s = [char_of (34::nat)] @ concat (map json_char s) @ [char_of (34::nat)]"

fun join :: "string \<Rightarrow> string list \<Rightarrow> string" where
  "join sep [] = []"
| "join sep [s] = s"
| "join sep (s # t # ss) = s @ sep @ join sep (t # ss)"

fun stableJson :: "json \<Rightarrow> string" where
  "stableJson JNull = ''null''"
| "stableJson (JBool b) = (if b then ''true'' else ''false'')"
| "stableJson (JNum n) = toString n"
| "stableJson (JStr s) = json_string s"
| "stableJson (JArr vs) = ''['' @ join '','' (map stableJson vs) @ '']''"
| "stableJson (JObj kvs) =
     ''{'' @ join '',''
       (map (\<lambda>(key, text). json_string key @ '':'' @ text)
         (sort_key fst (map (\<lambda>(key, v). (key, stableJson v)) kvs))) @ ''}''"

section \<open>Properties of the byte encodings\<close>

lemma concat_loop_eq:
  "offset + length (concat vs) = length result
   \<Longrightarrow> concat_loop result offset vs = take offset result @ concat vs"
proof (induction vs arbitrary: result offset)
  case Nil
  then show ?case by simp
next
  case (Cons v vs)
  then have len: "offset \<le> length result" by simp
  have l: "length (set_at result v offset) = length result"
    using Cons.prems by (simp add: set_at_def)
  have "concat_loop (set_at result v offset) (offset + length v) vs
        = take (offset + length v) (set_at result v offset) @ concat vs"
    using Cons.prems l by (intro Cons.IH) simp
  also have "take (offset + length v) (set_at result v offset) = take offset result @ v"
    using len by (simp add: set_at_def)
  finally show ?case by simp
qed

lemma foldl_length: "foldl (\<lambda>total v. total + length v) n vs = n + length (concat vs)"
  by (induction vs arbitrary: n) auto

lemma concatBytes_concat: "concatBytes vs = concat vs"
proof -
  have "concat_loop (replicate (length (concat vs)) 0) 0 vs
        = take 0 (replicate (length (concat vs)) 0) @ concat vs"
    by (rule concat_loop_eq) simp
  then show ?thesis
    by (simp only: concatBytes_def foldl_length Let_def add_0 take_0 append_Nil)
qed

lemma length_encode_loop [simp]: "length (encode_loop n v acc) = n + length acc"
  by (induction n v acc rule: encode_loop.induct) auto

lemma encode_loop_acc: "encode_loop n v acc = encode_loop n v [] @ acc"
proof (induction n arbitrary: v acc)
  case 0
  show ?case by simp
next
  case (Suc n)
  show ?case
    using Suc [of "drop_bit 8 v" "word_of_int (v AND 0xff) # acc"]
      Suc [of "drop_bit 8 v" "[word_of_int (v AND 0xff)]"] by simp
qed

lemma encode_loop_Suc:
  "encode_loop (Suc n) v [] = encode_loop n (v div 256) [] @ [word_of_int (v mod 256)]"
proof -
  have "v AND 0xff = v mod 256"
    using take_bit_eq_mask [of 8 v] by (simp add: take_bit_eq_mod mask_eq_exp_minus_1)
  then show ?thesis
    using encode_loop_acc [of n "drop_bit 8 v" "[word_of_int (v AND 0xff)]"]
    by (simp add: drop_bit_eq_div)
qed

lemma decode_step: "0 \<le> r \<Longrightarrow> push_bit 8 r OR uint (b::byte) = r * 256 + uint b"
proof -
  assume "0 \<le> r"
  have "push_bit 8 r AND uint b = 0"
    by (rule bit_eqI) (auto simp: bit_and_iff bit_push_bit_iff bit_uint_iff)
  then have "push_bit 8 r OR uint b = push_bit 8 r + uint b"
    by (metis disjunctive_add_eq_or)
  then show ?thesis by (simp add: push_bit_eq_mult)
qed

lemma decodeUint_snoc:
  "decodeUint (bs @ [b]) = push_bit 8 (decodeUint bs) OR uint b"
  by (simp add: decodeUint_def)

lemma decodeUint_nonneg [simp]: "0 \<le> decodeUint bs"
  by (induction bs rule: rev_induct)
    (simp_all add: decodeUint_snoc decodeUint_def [of "[]"] decode_step)

lemma decodeUint_Nil [simp]: "decodeUint [] = 0"
  by (simp add: decodeUint_def)

lemma decodeUint_snoc_arith [simp]: "decodeUint (bs @ [b]) = decodeUint bs * 256 + uint b"
  by (simp add: decodeUint_snoc decode_step)

lemma uint_byte_bounds: "0 \<le> uint (b::byte)" "uint (b::byte) < 256"
  using uint_lt2p [of b] by simp_all

lemma decodeUint_lt: "decodeUint bs < 256 ^ length bs"
proof (induction bs rule: rev_induct)
  case Nil
  show ?case by simp
next
  case (snoc b bs)
  then have "decodeUint bs + 1 \<le> 256 ^ length bs" by linarith
  then have "(decodeUint bs + 1) * 256 \<le> 256 ^ length bs * 256" by (rule mult_right_mono) simp
  with uint_byte_bounds(2) [of b] show ?case by simp
qed

lemma decodeUint_append: "decodeUint (as @ bs) = decodeUint as * 256 ^ length bs + decodeUint bs"
proof (induction bs rule: rev_induct)
  case Nil
  show ?case by simp
next
  case (snoc b bs)
  have "decodeUint (as @ bs @ [b]) = decodeUint (as @ bs) * 256 + uint b"
    using decodeUint_snoc_arith [of "as @ bs" b] by simp
  with snoc show ?case by (simp add: algebra_simps)
qed

lemma decodeUint_zeros [simp]: "decodeUint (replicate n 0 @ bs) = decodeUint bs"
proof -
  have "decodeUint (replicate n 0) = 0"
  proof (induction n)
    case 0
    show ?case by simp
  next
    case (Suc n)
    have "replicate (Suc n) (0::byte) = replicate n 0 @ [0]" by (simp add: replicate_append_same)
    with Suc show ?case by (simp only: decodeUint_snoc_arith) simp
  qed
  then show ?thesis by (simp add: decodeUint_append)
qed

lemma decodeUint_inj: "length as = length bs \<Longrightarrow> decodeUint as = decodeUint bs \<Longrightarrow> as = bs"
proof (induction as arbitrary: bs rule: rev_induct)
  case Nil
  then show ?case by simp
next
  case (snoc a as)
  then obtain b bs' where bs: "bs = bs' @ [b]" by (metis length_append_singleton length_Suc_conv_rev)
  from snoc.prems(2) have e: "decodeUint as * 256 + uint a = decodeUint bs' * 256 + uint b"
    by (simp add: bs)
  have "uint a = (decodeUint as * 256 + uint a) mod 256" "uint b = (decodeUint bs' * 256 + uint b) mod 256"
    using uint_byte_bounds [of a] uint_byte_bounds [of b] by simp_all
  with e have "uint a = uint b" by simp
  with e have "decodeUint as = decodeUint bs'" by simp
  moreover from \<open>uint a = uint b\<close> have "a = b" by (simp add: word_uint_eq_iff)
  ultimately show ?case using snoc bs by simp
qed

lemma decode_encode_loop: "decodeUint (encode_loop n v []) = v mod 256 ^ n"
proof (induction n arbitrary: v)
  case 0
  show ?case by simp
next
  case (Suc n)
  have "uint (word_of_int (v mod 256) :: byte) = v mod 256"
    by (simp add: uint_word_of_int)
  with Suc have "decodeUint (encode_loop (Suc n) v []) = (v div 256) mod 256 ^ n * 256 + v mod 256"
    unfolding encode_loop_Suc by simp
  also have "\<dots> = v mod 256 ^ Suc n"
    using mod_mult2_eq' [of v 256 "256 ^ n"] by (simp add: mult.commute add.commute zmod_zmult2_eq)
  finally show ?case .
qed

lemma power_2_256: "(2::int) ^ (n * 8) = 256 ^ n"
proof -
  have "(2::int) ^ (n * 8) = (2 ^ 8) ^ n" by (simp only: power_mult [symmetric] mult.commute)
  then show ?thesis by simp
qed

text \<open>The two facts about \<open>encodeUint\<close> every other proof uses: when it returns, and what.\<close>

lemma encodeUint_Inr_iff:
  "encodeUint v n = Inr bs \<longleftrightarrow> 0 \<le> v \<and> v < 256 ^ n \<and> length bs = n \<and> decodeUint bs = v"
proof
  assume "encodeUint v n = Inr bs"
  then show "0 \<le> v \<and> v < 256 ^ n \<and> length bs = n \<and> decodeUint bs = v"
    by (auto simp: encodeUint_def power_2_256 decode_encode_loop not_le split: if_splits)
next
  assume a: "0 \<le> v \<and> v < 256 ^ n \<and> length bs = n \<and> decodeUint bs = v"
  then have "encode_loop n v [] = bs"
    by (intro decodeUint_inj) (simp_all add: decode_encode_loop)
  with a show "encodeUint v n = Inr bs" by (simp add: encodeUint_def power_2_256)
qed

lemma encodeUint_total: "0 \<le> v \<Longrightarrow> v < 256 ^ n \<Longrightarrow> \<exists>bs. encodeUint v n = Inr bs"
  by (simp add: encodeUint_def power_2_256)

lemma encodeU32_eq_encodeUint:
  "encodeU32 v = (if 0 \<le> v \<and> v < 2 ^ 32 then encodeUint v 4
                  else Inl (Thrown ''Value does not fit in an unsigned 32-bit integer.''))"
proof (cases "0 \<le> v \<and> v < 2 ^ 32")
  case True
  have d: "v div 0x10000 = v div 256 div 256" "v div 0x1000000 = v div 256 div 256 div 256"
    by (simp_all add: zdiv_zmult2_eq [symmetric])
  have w: "word_of_int (x mod 256) = (word_of_int x :: byte)" for x
    by (simp add: word_uint_eq_iff uint_word_of_int)
  have "encode_loop (Suc (Suc (Suc (Suc 0)))) v []
        = [word_of_int (v div 0x1000000), word_of_int (v div 0x10000), word_of_int (v div 0x100), word_of_int v]"
    unfolding encode_loop_Suc d w by simp
  then have "encode_loop 4 v [] = [word_of_int (v div 0x1000000), word_of_int (v div 0x10000), word_of_int (v div 0x100), word_of_int v]"
    by (simp add: eval_nat_numeral)
  then show ?thesis using True by (simp add: encodeU32_def encodeUint_def)
next
  case False
  then show ?thesis by (auto simp: encodeU32_def)
qed


text \<open>Both integer encoders provide the fixed-width contract.\<close>

interpretation uint: fixed_width "\<lambda>v. encodeUint v n" n "\<lambda>v. v" for n
  by unfold_locales (auto simp: encodeUint_Inr_iff intro: decodeUint_inj)

interpretation u32: fixed_width encodeU32 4 "\<lambda>v. v"
  by unfold_locales
    (auto simp: encodeU32_eq_encodeUint encodeUint_Inr_iff split: if_splits intro: decodeUint_inj)

lemma encodeField_Inr_iff:
  "encodeField v = Inr bs \<longleftrightarrow> (\<exists>n. encodeU32 (int (length v)) = Inr n \<and> bs = n @ v)"
  by (auto simp: encodeField_def rbind_Inr_iff concatBytes_concat)

text \<open>A length-prefixed field can be split off the front of any byte string in one way only.\<close>

lemma encodeField_append_eq:
  assumes "encodeField v = Inr a" "encodeField w = Inr b"
  shows "a @ r = b @ t \<longleftrightarrow> v = w \<and> r = t"
proof
  assume e: "a @ r = b @ t"
  from assms obtain m n where m: "encodeU32 (int (length v)) = Inr m" "a = m @ v"
    and n: "encodeU32 (int (length w)) = Inr n" "b = n @ w"
    by (auto simp: encodeField_Inr_iff)
  from e m n have "length v = length w \<and> v @ r = w @ t"
    using u32.enc_append_eq [OF m(1) n(1)] by simp
  then show "v = w \<and> r = t" by auto
qed (use assms in simp)

lemma concat_encodeField_inj:
  assumes "rmap encodeField vs = Inr as" "rmap encodeField ws = Inr bs" "concat as = concat bs"
  shows "vs = ws"
  using assms
proof (induction vs arbitrary: as ws bs)
  case Nil
  then show ?case
    by (cases ws) (auto simp: rbind_Inr_iff encodeField_Inr_iff dest: u32.enc_length)
next
  case (Cons v vs)
  then obtain a as' where a: "encodeField v = Inr a" "rmap encodeField vs = Inr as'" "as = a # as'"
    by (auto simp: rbind_Inr_iff)
  show ?case
  proof (cases ws)
    case Nil
    with Cons.prems a show ?thesis by (auto simp: encodeField_Inr_iff dest: u32.enc_length)
  next
    case (Cons w ws')
    then obtain b bs' where b: "encodeField w = Inr b" "rmap encodeField ws' = Inr bs'" "bs = b # bs'"
      using Cons.prems(2) by (auto simp: rbind_Inr_iff)
    with a Cons.prems(3) have "v = w \<and> concat as' = concat bs'"
      using encodeField_append_eq [OF a(1) b(1)] by simp
    with Cons.IH [OF a(2) b(2)] show ?thesis using \<open>ws = w # ws'\<close> by simp
  qed
qed

section \<open>Properties of the hexadecimal text\<close>

definition hex_num :: "string \<Rightarrow> int" where
  "hex_num s = int (value_base 16 (if take 2 s = ''0x'' then drop 2 s else s))"

lemma hex_num_bigint: "commitment_ok s \<or> starknet_address_ok s \<Longrightarrow> hex_num s = bigint s"
  by (auto simp: hex_num_def bigint_def commitment_ok_def starknet_address_ok_def)

lemma normalizedHexBytes_Inr:
  assumes "hex_lib_ok L" "normalizedHexBytes L s (Some n) = Inr bs"
  shows "length bs = n \<and> decodeUint bs = hex_num s"
proof -
  define raw where "raw = (if take 2 s = ''0x'' then drop 2 s else s)"
  define norm where "norm = (if even (length raw) then raw else CHR ''0'' # raw)"
  have h: "list_all is_hex norm" and bs: "bs = replicate (n - length (hexToBytes L norm)) 0 @ hexToBytes L norm"
    and le: "length (hexToBytes L norm) \<le> n"
    using assms(2) unfolding normalizedHexBytes_def Let_def raw_def [symmetric] norm_def [symmetric]
    by (auto split: if_splits)
  have "even (length norm)" by (simp add: norm_def)
  then have "decodeUint (hexToBytes L norm) = int (value_base 16 norm)"
    using h assms(1) by (simp add: hex_lib_ok_def)
  also have "value_base 16 norm = value_base 16 raw" by (simp add: norm_def value_base_zero_prefix)
  finally show ?thesis using bs le by (simp add: hex_num_def raw_def)
qed

lemma hex_fixed_width: "hex_lib_ok L \<Longrightarrow> fixed_width (\<lambda>s. normalizedHexBytes L s (Some n)) n hex_num"
proof
  assume ok: "hex_lib_ok L"
  fix x y :: string and bs cs
  assume x: "normalizedHexBytes L x (Some n) = Inr bs"
  from normalizedHexBytes_Inr [OF ok x] show "length bs = n" by simp
  assume y: "normalizedHexBytes L y (Some n) = Inr cs"
  from normalizedHexBytes_Inr [OF ok x] normalizedHexBytes_Inr [OF ok y] show "bs = cs \<longleftrightarrow> hex_num x = hex_num y"
    by (auto intro: decodeUint_inj)
qed

lemma normalizedHexBytes_commitment:
  assumes "hex_lib_ok L" "commitment_ok s"
  shows "\<exists>bs. normalizedHexBytes L s (Some 32) = Inr bs"
proof -
  have "length (drop 2 s) = 64" "take 2 s = ''0x''" "list_all is_hex (drop 2 s)"
    using assms(2) by (simp_all add: commitment_ok_def)
  moreover from this have "length (hexToBytes L (drop 2 s)) = 32"
    using assms(1) by (simp add: hex_lib_ok_def)
  ultimately show ?thesis by (simp add: normalizedHexBytes_def)
qed

lemma toHex_hex_num: "hex_lib_ok L \<Longrightarrow> hex_num (toHex L bs) = decodeUint bs"
  by (simp add: hex_num_def toHex_def hex_lib_ok_def)

lemma toHex_commitment_ok: "hex_lib_ok L \<Longrightarrow> length bs = 32 \<Longrightarrow> commitment_ok (toHex L bs)"
  by (simp add: commitment_ok_def toHex_def hex_lib_ok_def)

lemma toHex_inj: "hex_lib_ok L \<Longrightarrow> toHex L a = toHex L b \<longleftrightarrow> a = b"
proof -
  assume ok: "hex_lib_ok L"
  have "a = b" if "toHex L a = toHex L b"
  proof (rule decodeUint_inj)
    show "length a = length b"
      using that ok by (metis toHex_def hex_lib_ok_def same_append_eq mult_cancel1 zero_neq_numeral)
    show "decodeUint a = decodeUint b" using that toHex_hex_num [OF ok] by metis
  qed
  then show ?thesis by auto
qed

lemma bigint_toHex: "hex_lib_ok L \<Longrightarrow> bigint (toHex L bs) = decodeUint bs"
  by (simp add: bigint_def toHex_def hex_lib_ok_def)

text \<open>
  Reading a \<open>0x\<close> text into a fixed number of bytes, and printing bytes, are inverse up to letter
  case and leading zeros: the number is kept.
\<close>

lemma normalizedHexBytes_toHex:
  assumes "hex_lib_ok L"
  shows "normalizedHexBytes L (toHex L bs) (Some (length bs)) = Inr bs"
proof -
  have a: "list_all is_hex (bytesToHex L bs)" "length (bytesToHex L bs) = 2 * length bs"
    "int (value_base 16 (bytesToHex L bs)) = decodeUint bs"
    using assms by (simp_all add: hex_lib_ok_def)
  then have b: "length (hexToBytes L (bytesToHex L bs)) = length bs"
    "decodeUint (hexToBytes L (bytesToHex L bs)) = decodeUint bs"
    using assms by (simp_all add: hex_lib_ok_def)
  then have "hexToBytes L (bytesToHex L bs) = bs" by (intro decodeUint_inj)
  then show ?thesis using a by (simp add: normalizedHexBytes_def toHex_def)
qed

section \<open>Canonical JSON does not depend on the order of keys\<close>

lemma sort_key_fst_perm:
  fixes xs ys :: "('a::linorder \<times> 'b) list"
  assumes "set xs = set ys" "distinct (map fst xs)" "distinct (map fst ys)"
  shows "sort_key fst xs = sort_key fst ys"
proof (rule map_sorted_distinct_set_unique [where f = fst])
  have "inj_on fst (set xs)" using assms(2) by (simp add: distinct_map)
  then show "inj_on fst (set (sort_key fst xs) \<union> set (sort_key fst ys))" using assms(1) by simp
  have "inj_on fst (set (sort_key fst xs))" "inj_on fst (set (sort_key fst ys))"
    using assms by (simp_all add: distinct_map)
  moreover have "distinct (sort_key fst xs)" "distinct (sort_key fst ys)"
    using assms by (simp_all add: distinct_map)
  ultimately show "distinct (map fst (sort_key fst xs))" "distinct (map fst (sort_key fst ys))"
    by (simp_all add: distinct_map)
qed (use assms in simp_all)

lemma stableJson_key_order:
  assumes "set xs = set ys" "distinct (map fst xs)" "distinct (map fst ys)"
  shows "stableJson (JObj xs) = stableJson (JObj ys)"
proof -
  let ?g = "\<lambda>(key, v). (key, stableJson v)"
  have m: "map fst (map ?g zs) = map fst zs" for zs by (induction zs) auto
  have "sort_key fst (map ?g xs) = sort_key fst (map ?g ys)"
  proof (rule sort_key_fst_perm)
    show "set (map ?g xs) = set (map ?g ys)" using assms(1) by simp
  qed (simp_all only: m assms)
  then show ?thesis by simp
qed

end
