(* ===== verification/Js_BigInt.thy ===== *)
theory Js_BigInt
  imports Prelude JsStrings
begin

text \<open>
  The runtime's \<open>BigInt(text)\<close> for texts no schema has checked: white space is trimmed, the empty text is
  zero, a radix prefix takes no sign, and anything else that is not a decimal number throws.  On the texts
  the schemas accept it is the function \<open>bigint\<close> of theory JsStrings.
\<close>

text \<open>The white space that \<open>trim\<close> and \<open>BigInt\<close> ignore, among the characters of one byte.\<close>

definition is_space :: "char \<Rightarrow> bool" where
  "is_space c = ((of_char c :: nat) \<in> {9, 10, 11, 12, 13, 32, 160})"

definition js_trim :: "string \<Rightarrow> string" where
  "js_trim s = rev (dropWhile is_space (rev (dropWhile is_space s)))"

definition radix_digits :: "nat \<Rightarrow> string \<Rightarrow> int result" where
  "radix_digits r s =
     (if s \<noteq> [] \<and> list_all (\<lambda>c. is_hex c \<and> hex_val c < r) s then Inr (int (value_base r s))
      else Inl (Thrown ''SyntaxError''))"

definition BigInt :: "string \<Rightarrow> int result" where
  "BigInt text =
     (let s = js_trim text in
      if s = [] then Inr 0
      else if take 2 s \<in> {''0x'', ''0X''} then radix_digits 16 (drop 2 s)
      else if take 2 s \<in> {''0o'', ''0O''} then radix_digits 8 (drop 2 s)
      else if take 2 s \<in> {''0b'', ''0B''} then radix_digits 2 (drop 2 s)
      else if hd s = CHR ''-'' then rbind (radix_digits 10 (tl s)) (\<lambda>n. Inr (- n))
      else if hd s = CHR ''+'' then radix_digits 10 (tl s)
      else radix_digits 10 s)"

lemma js_trim_id: "list_all (\<lambda>c. \<not> is_space c) s \<Longrightarrow> js_trim s = s"
proof -
  have id: "dropWhile is_space t = t" if "list_all (\<lambda>c. \<not> is_space c) t" for t using that by (cases t) simp_all
  assume s: "list_all (\<lambda>c. \<not> is_space c) s"
  then have "list_all (\<lambda>c. \<not> is_space c) (rev s)" by (simp add: list_all_iff)
  with s show ?thesis by (simp add: js_trim_def id)
qed

lemma is_hex_not_space: "is_hex c \<Longrightarrow> \<not> is_space c"
  by (auto simp: is_hex_def is_digit_def is_space_def)

lemma BigInt_hex:
  assumes "commitment_ok s \<or> starknet_address_ok s"
  shows "BigInt s = Inr (bigint s)"
proof -
  from assms have s: "take 2 s = ''0x''" "drop 2 s \<noteq> []" "list_all is_hex (drop 2 s)"
    by (auto simp: commitment_ok_def starknet_address_ok_def)
  define t where "t = drop 2 s"
  have st: "s = CHR ''0'' # CHR ''x'' # t" using s(1) append_take_drop_id [of 2 s] by (simp add: t_def)
  have "list_all (\<lambda>c. \<not> is_space c) s"
    using s(3) is_hex_not_space by (auto simp: st list_all_iff is_space_def)
  then have "js_trim s = s" by (rule js_trim_id)
  moreover have "list_all (\<lambda>c. is_hex c \<and> hex_val c < 16) t" using s(3) hex_val_lt by (auto simp: t_def list_all_iff)
  moreover have "t \<noteq> []" using s(2) by (simp add: t_def)
  ultimately show ?thesis by (simp add: BigInt_def radix_digits_def st bigint_hex)
qed

lemma BigInt_dec:
  assumes "list_all is_digit s" "s \<noteq> []"
  shows "BigInt s = Inr (bigint s)"
proof -
  have digit: "\<not> is_space c \<and> c \<noteq> CHR ''x'' \<and> c \<noteq> CHR ''X'' \<and> c \<noteq> CHR ''o'' \<and> c \<noteq> CHR ''O'' \<and> c \<noteq> CHR ''b'' \<and> c \<noteq> CHR ''B''
      \<and> c \<noteq> CHR ''-'' \<and> c \<noteq> CHR ''+''" if "is_digit c" for c
    using that is_hex_not_space is_digit_is_hex by (auto simp: is_digit_def)
  then have "js_trim s = s" using assms(1) by (intro js_trim_id) (auto simp: list_all_iff)
  moreover have "take 2 s \<noteq> [CHR ''0'', c]" if "\<not> is_digit c" for c
    using assms(1) that by (cases s; cases "tl s") auto
  moreover have "hd s \<noteq> CHR ''-''" "hd s \<noteq> CHR ''+''" using assms digit by (cases s; auto)+
  moreover have "list_all (\<lambda>c. is_hex c \<and> hex_val c < 10) s"
    using assms(1) is_digit_is_hex hex_val_digit_lt by (auto simp: list_all_iff)
  moreover have "\<not> is_digit (CHR ''x'')" "\<not> is_digit (CHR ''X'')" "\<not> is_digit (CHR ''o'')" "\<not> is_digit (CHR ''O'')"
    "\<not> is_digit (CHR ''b'')" "\<not> is_digit (CHR ''B'')" by (simp_all add: is_digit_def)
  ultimately show ?thesis using assms by (simp add: BigInt_def radix_digits_def bigint_dec)
qed

text \<open>\<open>Array.prototype.some\<close> with a test that may throw.\<close>

fun rsome :: "('a \<Rightarrow> bool result) \<Rightarrow> 'a list \<Rightarrow> bool result" where
  "rsome p [] = Inr False"
| "rsome p (x # xs) = rbind (p x) (\<lambda>b. if b then Inr True else rsome p xs)"

lemma rsome_total: "(\<And>x. x \<in> set xs \<Longrightarrow> p x = Inr (q x)) \<Longrightarrow> rsome p xs = Inr (\<exists>x \<in> set xs. q x)"
  by (induction xs) auto

lemma rsome_True: "rsome p xs = Inr True \<Longrightarrow> \<exists>x \<in> set xs. p x = Inr True"
  by (induction xs) (auto split: if_splits)

lemma rsome_False: "rsome p xs = Inr False \<longleftrightarrow> (\<forall>x \<in> set xs. p x = Inr False)"
  by (induction xs) (auto simp: rbind_Inr_iff)

end
