(* ===== verification/Tokens.thy ===== *)
theory Tokens
  imports Encoding Js_BigInt
begin

text \<open>
  Model of \<open>lib/starknet/tokens.ts\<close>: the two payroll tokens, and the conversion between atomic
  amounts and the decimal text a person reads and types.  Tokens are ordered by symbol, which is
  what \<open>left.token.localeCompare(right.token)\<close> does for these two symbols.
\<close>

datatype token = STRK | USDC

instantiation token :: linorder
begin

definition less_eq_token :: "token \<Rightarrow> token \<Rightarrow> bool" where
  "less_eq_token a b = (a = STRK \<or> b = USDC)"

definition less_token :: "token \<Rightarrow> token \<Rightarrow> bool" where
  "less_token a b = (a = STRK \<and> b = USDC)"

instance
  by standard (auto simp: less_eq_token_def less_token_def dest: token.exhaust intro: token.exhaust)

end

fun token_symbol :: "token \<Rightarrow> string" where
  "token_symbol STRK = ''STRK''"
| "token_symbol USDC = ''USDC''"

fun token_address :: "token \<Rightarrow> string" where
  "token_address STRK = ''0x04718f5a0fc34cc1af16a1cdee98ffb20c31f5cd61d6ab07201858f4287c938d''"
| "token_address USDC = ''0x033068f6539f8e6e6b131e6b2b814e6c34a5224bc66947c47dab9dfee93b35fb''"

fun token_decimals :: "token \<Rightarrow> nat" where
  "token_decimals STRK = 18"
| "token_decimals USDC = 6"

definition tokenByAddress :: "string \<Rightarrow> token option" where
  "tokenByAddress address =
     (case BigInt address of
        Inl e \<Rightarrow> None
      | Inr normalized \<Rightarrow> find (\<lambda>t. BigInt (token_address t) = Inr normalized) [STRK, USDC])"

lemma tokenByAddress_own [simp]: "tokenByAddress (token_address t) = Some t"
proof -
  have "starknet_address_ok (token_address STRK)" "starknet_address_ok (token_address USDC)" by code_simp+
  then have "BigInt (token_address STRK) = Inr (bigint (token_address STRK))" "BigInt (token_address USDC) = Inr (bigint (token_address USDC))"
    using BigInt_hex by blast+
  moreover have "bigint (token_address STRK) \<noteq> bigint (token_address USDC)" by code_simp
  ultimately show ?thesis by (cases t) (simp_all add: tokenByAddress_def del: token_address.simps)
qed

section \<open>Parsing and formatting amounts\<close>

text \<open>The pattern \<open>^\d+(\.\d{0,decimals})?$\<close>; \<open>split_dot\<close> is \<open>trimmed.split(".")\<close> on a match.\<close>

definition split_dot :: "string \<Rightarrow> string \<times> string" where
  "split_dot s = (takeWhile (\<lambda>c. c \<noteq> CHR ''.'') s, drop 1 (dropWhile (\<lambda>c. c \<noteq> CHR ''.'') s))"

definition amount_pattern :: "nat \<Rightarrow> string \<Rightarrow> bool" where
  "amount_pattern decimals s =
     (let (whole, fraction) = split_dot s
      in whole \<noteq> [] \<and> list_all is_digit whole \<and> list_all is_digit fraction \<and> length fraction \<le> decimals)"

definition padEnd :: "nat \<Rightarrow> char \<Rightarrow> string \<Rightarrow> string" where
  "padEnd n c s = s @ replicate (n - length s) c"

definition parseTokenAmountValue :: "string \<Rightarrow> token \<Rightarrow> bool \<Rightarrow> int result" where
  "parseTokenAmountValue value t allowZero =
     (let trimmed = js_trim value in
      if \<not> amount_pattern (token_decimals t) trimmed
      then Inl (Thrown (''Enter a valid '' @ token_symbol t @ '' amount with no more than ''
             @ toString (int (token_decimals t)) @ '' decimals.''))
      else
        let (whole, fraction) = split_dot trimmed;
            amount = bigint whole * 10 ^ token_decimals t
                   + bigint (padEnd (token_decimals t) (CHR ''0'') fraction)
        in if (if allowZero then amount < 0 else amount \<le> 0)
           then Inl (Thrown (if allowZero then ''Amount cannot be negative.''
                             else ''Amount must be greater than zero.''))
           else Inr amount)"

definition parseTokenAmount :: "string \<Rightarrow> token \<Rightarrow> int result" where
  "parseTokenAmount value t = parseTokenAmountValue value t False"

definition parseTokenAmountOrZero :: "string \<Rightarrow> token \<Rightarrow> int result" where
  "parseTokenAmountOrZero value t = parseTokenAmountValue value t True"

text \<open>\<open>rawFraction.slice(0, min).replace(/0+$/, "")\<close>; an unknown balance prints as a dash.\<close>

definition strip_zeros :: "string \<Rightarrow> string" where
  "strip_zeros s = rev (dropWhile (\<lambda>c. c = CHR ''0'') (rev s))"

definition formatTokenAmount :: "int \<Rightarrow> token \<Rightarrow> nat \<Rightarrow> string" where
  "formatTokenAmount amount t maximumFractionDigits =
     (let unit = 10 ^ token_decimals t;
          whole = bdiv amount unit;
          rawFraction = padStart (token_decimals t) (CHR ''0'') (toString (bmod amount unit));
          fraction = strip_zeros (take (min maximumFractionDigits (token_decimals t)) rawFraction)
      in if fraction \<noteq> [] then toString whole @ ''.'' @ fraction else toString whole)"

section \<open>Reading back a printed amount\<close>

lemma strip_zeros_split: "\<exists>n. s = strip_zeros s @ replicate n (CHR ''0'')"
proof -
  have "\<exists>n. rev s = replicate n (CHR ''0'') @ dropWhile (\<lambda>c. c = CHR ''0'') (rev s)"
  proof -
    let ?z = "\<lambda>c. c = CHR ''0''"
    have "takeWhile ?z (rev s) = replicate (length (takeWhile ?z (rev s))) (CHR ''0'')"
      by (rule replicate_eqI) (auto dest: set_takeWhileD)
    then show ?thesis by (metis takeWhile_dropWhile_id)
  qed
  then obtain n where "rev s = replicate n (CHR ''0'') @ dropWhile (\<lambda>c. c = CHR ''0'') (rev s)" ..
  then have "s = rev (dropWhile (\<lambda>c. c = CHR ''0'') (rev s)) @ replicate n (CHR ''0'')"
    by (metis rev_append rev_replicate rev_rev_ident)
  then show ?thesis by (auto simp: strip_zeros_def)
qed

lemma padEnd_strip_zeros: "padEnd (length s) (CHR ''0'') (strip_zeros s) = s"
proof -
  obtain n where n: "s = strip_zeros s @ replicate n (CHR ''0'')" using strip_zeros_split by blast
  then have "length s - length (strip_zeros s) = n" by (metis add_diff_cancel_left' length_append length_replicate)
  with n show ?thesis by (simp add: padEnd_def)
qed

lemma trim_digits:
  assumes "list_all (\<lambda>c. is_digit c \<or> c = CHR ''.'') s"
  shows "js_trim s = s"
  using assms by (intro js_trim_id) (auto simp: list_all_iff is_space_def is_digit_def)


lemma token_decimals_pos [simp]: "0 < token_decimals t"
  by (cases t) auto

lemma split_dot_digits:
  assumes "list_all is_digit w"
  shows "split_dot w = (w, [])" and "split_dot (w @ CHR ''.'' # f) = (w, f)"
proof -
  have "\<forall>c \<in> set w. c \<noteq> CHR ''.''"
    using assms by (auto simp: list_all_iff is_digit_def)
  then have t: "takeWhile (\<lambda>c. c \<noteq> CHR ''.'') w = w" and d: "dropWhile (\<lambda>c. c \<noteq> CHR ''.'') w = []"
    and a: "takeWhile (\<lambda>c. c \<noteq> CHR ''.'') (w @ CHR ''.'' # f) = w"
    and b: "dropWhile (\<lambda>c. c \<noteq> CHR ''.'') (w @ CHR ''.'' # f) = CHR ''.'' # f"
    by (simp_all add: takeWhile_eq_all_conv dropWhile_eq_Nil_conv takeWhile_append2 dropWhile_append2)
  show "split_dot w = (w, [])" by (simp only: split_dot_def t d) simp
  show "split_dot (w @ CHR ''.'' # f) = (w, f)" by (simp only: split_dot_def a b) simp
qed

text \<open>
  What \<open>formatTokenAmount\<close> prints, in the two shapes the last line chooses between: the fraction,
  padded back to the token's decimals, is the remainder's digits.
\<close>

lemma format_parts:
  assumes "0 \<le> n"
  obtains f where "list_all is_digit f" "length f \<le> token_decimals t"
    "bigint (padEnd (token_decimals t) (CHR ''0'') f) = n mod 10 ^ token_decimals t"
    "formatTokenAmount n t (token_decimals t)
     = toString (n div 10 ^ token_decimals t) @ (if f = [] then [] else CHR ''.'' # f)"
proof -
  let ?d = "token_decimals t"
  let ?m = "n mod 10 ^ ?d"
  have m: "0 \<le> ?m" "?m < 10 ^ ?d" by simp_all
  define raw where "raw = padStart ?d (CHR ''0'') (toString ?m)"
  have len: "length raw = ?d"
    using length_toString_le [OF m] by (simp add: raw_def padStart_def)
  have dig: "list_all is_digit raw"
    using list_all_digit_toString [OF m(1)]
    by (auto simp: raw_def padStart_def list_all_iff is_digit_def)
  have val: "bigint raw = ?m"
    using dig m list_all_digit_toString [OF m(1)] bigint_toString [OF m(1)]
    by (simp add: bigint_dec) (simp add: raw_def padStart_def)
  show ?thesis
  proof
    show "list_all is_digit (strip_zeros raw)"
      using dig strip_zeros_split [of raw] by (metis list_all_append)
    show "length (strip_zeros raw) \<le> ?d"
      using strip_zeros_split [of raw] len by (metis length_append le_add1)
    show "bigint (padEnd ?d (CHR ''0'') (strip_zeros raw)) = ?m"
      using padEnd_strip_zeros [of raw] len val by simp
    show "formatTokenAmount n t ?d = toString (n div 10 ^ ?d)
        @ (if strip_zeros raw = [] then [] else CHR ''.'' # strip_zeros raw)"
      using assms len by (simp add: formatTokenAmount_def Let_def bdiv_nonneg bmod_nonneg raw_def)
  qed
qed

lemma parse_format_value:
  assumes "0 \<le> n" "allowZero \<or> 0 < n"
  shows "parseTokenAmountValue (formatTokenAmount n t (token_decimals t)) t allowZero = Inr n"
proof -
  let ?d = "token_decimals t"
  obtain f where f: "list_all is_digit f" "length f \<le> ?d"
    "bigint (padEnd ?d (CHR ''0'') f) = n mod 10 ^ ?d"
    "formatTokenAmount n t ?d = toString (n div 10 ^ ?d) @ (if f = [] then [] else CHR ''.'' # f)"
    using format_parts [OF assms(1)] by blast
  let ?w = "toString (n div 10 ^ ?d)"
  have q: "0 \<le> n div 10 ^ ?d" using assms(1) by (simp add: pos_imp_zdiv_nonneg_iff)
  have w: "list_all is_digit ?w" "?w \<noteq> []"
    using list_all_digit_toString [OF q] by (simp_all add: toString_def)
  have "js_trim (formatTokenAmount n t ?d) = formatTokenAmount n t ?d"
    using w f(1) by (intro trim_digits) (auto simp: f(4) list_all_iff)
  moreover have "split_dot (formatTokenAmount n t ?d) = (?w, f)"
    using split_dot_digits [OF w(1)] by (simp add: f(4))
  moreover have "bigint ?w * 10 ^ ?d + n mod 10 ^ ?d = n"
    by (simp only: bigint_toString [OF q] div_mult_mod_eq)
  ultimately show ?thesis
    using assms w f by (auto simp: parseTokenAmountValue_def amount_pattern_def Let_def)
qed

end
