(* ===== verification/Commitments.thy ===== *)
theory Commitments
  imports Tokens
begin

text \<open>
  Model of \<open>lib/crypto/commitments.ts\<close> and \<open>lib/crypto/digest.ts\<close>: domain-separated hashing of
  length-prefixed fields, the commitments of agreements and runs, and the fixed 64-leaf Merkle root.
  Keccak is the library function of \<^typ>\<open>lib\<close>.  What is proved about a commitment is about its
  preimage: equal digests of different inputs exhibit a collision of Keccak on the two preimages.
  The leaf hash of a payroll line is in theory Payroll, which holds the line's type.
\<close>

lemma rbind_cong [fundef_cong]:
  "r = r' \<Longrightarrow> (\<And>x. r' = Inr x \<Longrightarrow> f x = f' x) \<Longrightarrow> rbind r f = rbind r' f'"
  by (cases r') auto

section \<open>Domain-separated hashing\<close>

definition hashDomain :: "lib \<Rightarrow> string \<Rightarrow> byte list list \<Rightarrow> byte list result" where
  "hashDomain L domain fs =
     rbind (rmap encodeField fs) (\<lambda>es. Inr (keccak_256 L (concatBytes (utf8 domain # es))))"

definition hashTextCommitment :: "lib \<Rightarrow> string \<Rightarrow> string \<Rightarrow> byte list result" where
  "hashTextCommitment L domain value = hashDomain L domain [utf8 value]"

definition hashRecipientCommitment :: "lib \<Rightarrow> string \<Rightarrow> string \<Rightarrow> byte list result" where
  "hashRecipientCommitment L address saltHex =
     rbind (normalizedHexBytes L address (Some 32)) (\<lambda>a.
     rbind (normalizedHexBytes L saltHex (Some 32)) (\<lambda>s.
     hashDomain L ''PAYO_RECIPIENT_V1'' [a, s]))"

definition hashDeductionsCommitment :: "lib \<Rightarrow> string list \<Rightarrow> byte list result" where
  "hashDeductionsCommitment L values =
     rbind (encodeU32 (int (length values))) (\<lambda>n.
     rbind (rmap (\<lambda>v. encodeUint (bigint v) 32) values) (\<lambda>vs.
     hashDomain L ''PAYO_DEDUCTIONS_V1'' (n # vs)))"

definition hashCanonicalJson :: "lib \<Rightarrow> json \<Rightarrow> string" where
  "hashCanonicalJson L value = toHex L (keccak_256 L (utf8 (stableJson value)))"

definition deriveRunNullifier :: "lib \<Rightarrow> string \<Rightarrow> string \<Rightarrow> int \<Rightarrow> string result" where
  "deriveRunNullifier L organizationSecret cycleId revision =
     rbind (normalizedHexBytes L organizationSecret (Some 32)) (\<lambda>s.
     rbind (encodeU32 revision) (\<lambda>r.
     rbind (hashDomain L ''PAYO_RUN_V1'' [s, utf8 cycleId, r]) (\<lambda>h.
     Inr (toHex L h))))"

definition splitHashToU128 :: "lib \<Rightarrow> string \<Rightarrow> (int \<times> int) result" where
  "splitHashToU128 L h =
     rbind (normalizedHexBytes L h (Some 32)) (\<lambda>bytes.
     Inr (decodeUint (take 16 bytes), decodeUint (take 16 (drop 16 bytes))))"

section \<open>Agreement terms\<close>

datatype reference_currency = USD | GBP

record agreement_terms =
  at_agreementIdCommitment :: string
  at_recipientCommitment :: string
  at_earningsAtomic :: "string list"
  at_token :: token
  at_policyCommitment :: string
  at_scheduleCommitment :: string
  at_dueAt :: int
  at_validUntil :: int
  at_classificationDeclared :: int
  at_classificationScore :: int
  at_classificationEmployeeThreshold :: int
  at_finalPayMode :: bool
  at_finalRequiredMask :: int
  at_finalComponentsAtomic :: "string list"
  at_fxFloorAtomic :: string
  at_referenceCurrency :: reference_currency
  at_salt :: string

text \<open>
  \<open>agreement_fields\<close> is the list of byte strings \<open>hashAgreementTerms\<close> concatenates, in order;
  evaluation order is that of the source, so the first field that does not fit is what is thrown.
\<close>

definition agreement_checks :: "agreement_terms \<Rightarrow> unit result" where
  "agreement_checks a =
     rbind (ensure (1 \<le> length (at_earningsAtomic a) \<and> length (at_earningsAtomic a) \<le> 8)
       (Thrown ''An agreement must commit between one and eight earnings components.'')) (\<lambda>_.
     rbind (ensure (length (at_finalComponentsAtomic a) \<le> 5)
       (Thrown ''An agreement supports at most five final-pay components.'')) (\<lambda>_.
     rbind (ensure (0 \<le> at_classificationScore a \<and> at_classificationScore a \<le> 0xffff
         \<and> 1 \<le> at_classificationEmployeeThreshold a \<and> at_classificationEmployeeThreshold a \<le> 0xffff)
       (Thrown ''Classification score and threshold must fit in u16, with a nonzero threshold.'')) (\<lambda>_.
     ensure (0 \<le> at_finalRequiredMask a \<and> at_finalRequiredMask a \<le> 31)
       (Thrown ''Final-pay mask must use only the five supported component bits.''))))"

definition agreement_fields :: "lib \<Rightarrow> agreement_terms \<Rightarrow> byte list list result" where
  "agreement_fields L a =
     rbind (rmap (\<lambda>v. encodeUint (bigint v) 16) (padded 8 ''0'' (at_earningsAtomic a))) (\<lambda>earnings.
     rbind (rmap (\<lambda>v. encodeUint (bigint v) 16) (padded 5 ''0'' (at_finalComponentsAtomic a))) (\<lambda>finals.
     rbind (normalizedHexBytes L (at_agreementIdCommitment a) (Some 32)) (\<lambda>idc.
     rbind (normalizedHexBytes L (at_recipientCommitment a) (Some 32)) (\<lambda>recipient.
     rbind (encodeU32 (int (length (at_earningsAtomic a)))) (\<lambda>count.
     rbind (normalizedHexBytes L (at_policyCommitment a) (Some 32)) (\<lambda>policy.
     rbind (normalizedHexBytes L (at_scheduleCommitment a) (Some 32)) (\<lambda>schedule.
     rbind (encodeUint (at_dueAt a) 8) (\<lambda>due.
     rbind (encodeUint (at_validUntil a) 8) (\<lambda>valid.
     rbind (encodeUint (at_classificationScore a) 2) (\<lambda>score.
     rbind (encodeUint (at_classificationEmployeeThreshold a) 2) (\<lambda>threshold.
     rbind (encodeUint (bigint (at_fxFloorAtomic a)) 16) (\<lambda>floor.
     rbind (normalizedHexBytes L (at_salt a) (Some 32)) (\<lambda>s.
     Inr ([utf8 ''PAYO_AGREEMENT_TERMS_V1'', idc, recipient, count] @ earnings
        @ [[if at_token a = STRK then 0 else 1], policy, schedule, due, valid,
           [word_of_int (at_classificationDeclared a)], score, threshold,
           [if at_finalPayMode a then 1 else 0, word_of_int (at_finalRequiredMask a)]] @ finals
        @ [floor, [if at_referenceCurrency a = USD then 0 else 1], s]))))))))))))))"

definition hashAgreementTerms :: "lib \<Rightarrow> agreement_terms \<Rightarrow> string result" where
  "hashAgreementTerms L a =
     rbind (agreement_checks a) (\<lambda>_.
     rbind (agreement_fields L a) (\<lambda>fs.
     Inr (toHex L (keccak_256 L (concatBytes fs)))))"

section \<open>Merkle trees\<close>

definition PAYO_MERKLE_LEAF_COUNT :: nat where "PAYO_MERKLE_LEAF_COUNT = 64"

definition PAYO_MAX_PAYROLL_LINES :: nat where "PAYO_MAX_PAYROLL_LINES = 50"

definition EMPTY_LEAF :: "lib \<Rightarrow> byte list" where
  "EMPTY_LEAF L = keccak_256 L (utf8 ''PAYO_EMPTY_LEAF_V1'')"

definition merkle_node :: "lib \<Rightarrow> byte list \<Rightarrow> byte list \<Rightarrow> byte list result" where
  "merkle_node L l r = hashDomain L ''PAYO_MERKLE_NODE_V1'' [l, r]"

text \<open>One pass of the inner loop; an odd level would read past its end.\<close>

fun next_level :: "('a \<Rightarrow> 'a \<Rightarrow> 'a result) \<Rightarrow> 'a list \<Rightarrow> 'a list result" where
  "next_level node [] = Inr []"
| "next_level node [l] = Inl (Thrown ''TypeError: Cannot read properties of undefined'')"
| "next_level node (l # r # level) =
     rbind (node l r) (\<lambda>n. rbind (next_level node level) (\<lambda>ns. Inr (n # ns)))"

lemma next_level_length: "next_level node level = Inr ns \<Longrightarrow> 2 * length ns = length level"
  by (induction node level arbitrary: ns rule: next_level.induct) (auto simp: rbind_Inr_iff)

function merkle_loop :: "('a \<Rightarrow> 'a \<Rightarrow> 'a result) \<Rightarrow> 'a list \<Rightarrow> 'a list result" where
  "merkle_loop node level =
     (if 1 < length level then rbind (next_level node level) (\<lambda>next. merkle_loop node next) else Inr level)"
  by pat_completeness auto
termination
  by (relation "measure (\<lambda>(node, level). length level)") (auto dest: next_level_length)

declare merkle_loop.simps [simp del]

definition buildFixedMerkleRoot :: "lib \<Rightarrow> string list \<Rightarrow> string result" where
  "buildFixedMerkleRoot L leaves =
     (if PAYO_MAX_PAYROLL_LINES < length leaves
      then Inl (Thrown ''PAYO supports at most 50 real payroll leaves.'')
      else
        rbind (rmap (\<lambda>leaf. normalizedHexBytes L leaf (Some 32)) leaves) (\<lambda>bytes.
        rbind (merkle_loop (merkle_node L) (padded PAYO_MERKLE_LEAF_COUNT (EMPTY_LEAF L) bytes)) (\<lambda>level.
        Inr (toHex L (level ! 0)))))"

definition hashMerkleNode :: "lib \<Rightarrow> string \<Rightarrow> string \<Rightarrow> string result" where
  "hashMerkleNode L left right =
     rbind (normalizedHexBytes L left (Some 32)) (\<lambda>l.
     rbind (normalizedHexBytes L right (Some 32)) (\<lambda>r.
     rbind (merkle_node L l r) (\<lambda>n. Inr (toHex L n))))"

section \<open>Properties\<close>

lemma hashDomain_Inr_iff:
  "hashDomain L d fs = Inr h \<longleftrightarrow>
     (\<exists>es. rmap encodeField fs = Inr es \<and> h = keccak_256 L (utf8 d @ concat es))"
  by (auto simp: hashDomain_def rbind_Inr_iff concatBytes_concat)

lemma encodeField_small: "length v < 2 ^ 32 \<Longrightarrow> \<exists>bs. encodeField v = Inr bs"
  by (simp add: encodeField_def encodeU32_def Let_def)

lemma hashDomain_total:
  assumes "\<And>f. f \<in> set fs \<Longrightarrow> length f < 2 ^ 32"
  shows "\<exists>h. hashDomain L d fs = Inr h"
proof -
  have "\<exists>es. rmap encodeField fs = Inr es"
    using assms
  proof (induction fs)
    case Nil
    show ?case by simp
  next
    case (Cons f fs)
    obtain b where "encodeField f = Inr b" using encodeField_small Cons.prems by (meson list.set_intros(1))
    moreover obtain es where "rmap encodeField fs = Inr es" using Cons by (meson list.set_intros(2))
    ultimately show ?case by simp
  qed
  then show ?thesis by (auto simp: hashDomain_Inr_iff)
qed

text \<open>Two different field lists under one domain have different preimages.\<close>

lemma hashDomain_preimage_inj:
  assumes "rmap encodeField fs = Inr es" "rmap encodeField gs = Inr ds"
    and "utf8 d @ concat es = utf8 d @ concat ds"
  shows "fs = gs"
  using assms concat_encodeField_inj by simp

text \<open>
  The reference tree: a perfect binary tree of the given depth, built by halves.
  \<open>node_inputs\<close> lists the pairs its inner nodes hash.
\<close>

fun tree_root :: "('a \<Rightarrow> 'a \<Rightarrow> 'a) \<Rightarrow> nat \<Rightarrow> 'a list \<Rightarrow> 'a" where
  "tree_root f 0 xs = xs ! 0"
| "tree_root f (Suc d) xs = f (tree_root f d (take (2 ^ d) xs)) (tree_root f d (drop (2 ^ d) xs))"

fun node_inputs :: "('a \<Rightarrow> 'a \<Rightarrow> 'a) \<Rightarrow> nat \<Rightarrow> 'a list \<Rightarrow> ('a \<times> 'a) set" where
  "node_inputs f 0 xs = {}"
| "node_inputs f (Suc d) xs =
     insert (tree_root f d (take (2 ^ d) xs), tree_root f d (drop (2 ^ d) xs))
       (node_inputs f d (take (2 ^ d) xs) \<union> node_inputs f d (drop (2 ^ d) xs))"

fun pair_up :: "('a \<Rightarrow> 'a \<Rightarrow> 'a) \<Rightarrow> 'a list \<Rightarrow> 'a list" where
  "pair_up f (l # r # xs) = f l r # pair_up f xs"
| "pair_up f xs = []"

lemma length_pair_up [simp]: "length (pair_up f xs) = length xs div 2"
  by (induction f xs rule: pair_up.induct) auto

lemma pair_up_take: "even n \<Longrightarrow> pair_up f (take n xs) = take (n div 2) (pair_up f xs)"
proof (induction f xs arbitrary: n rule: pair_up.induct)
  case (1 f l r xs)
  show ?case
  proof (cases n)
    case (Suc m)
    with "1.prems" obtain k where "n = Suc (Suc k)" "even k" by (cases m) auto
    with "1.IH" [of k] show ?thesis by simp
  qed simp
qed (simp_all add: take_Cons')

lemma pair_up_drop: "even n \<Longrightarrow> pair_up f (drop n xs) = drop (n div 2) (pair_up f xs)"
proof (induction f xs arbitrary: n rule: pair_up.induct)
  case (1 f l r xs)
  show ?case
  proof (cases n)
    case (Suc m)
    with "1.prems" obtain k where "n = Suc (Suc k)" "even k" by (cases m) auto
    with "1.IH" [of k] show ?thesis by simp
  qed simp
qed (simp_all add: drop_Cons')

lemma tree_root_pair_up: "length xs = 2 ^ Suc d \<Longrightarrow> tree_root f (Suc d) xs = tree_root f d (pair_up f xs)"
proof (induction d arbitrary: xs)
  case 0
  then obtain l r where "xs = [l, r]"
    by (metis One_nat_def Suc_length_conv length_0_conv numeral_2_eq_2 power_one_right)
  then show ?case by simp
next
  case (Suc d)
  have "tree_root f (Suc (Suc d)) xs =
      f (tree_root f (Suc d) (take (2 ^ Suc d) xs)) (tree_root f (Suc d) (drop (2 ^ Suc d) xs))"
    by (rule tree_root.simps)
  also have "\<dots> = f (tree_root f d (pair_up f (take (2 ^ Suc d) xs))) (tree_root f d (pair_up f (drop (2 ^ Suc d) xs)))"
    using Suc.IH [of "take (2 ^ Suc d) xs"] Suc.IH [of "drop (2 ^ Suc d) xs"] Suc.prems
    by (simp del: tree_root.simps)
  also have "\<dots> = tree_root f (Suc d) (pair_up f xs)"
    by (simp add: pair_up_take pair_up_drop)
  finally show ?case .
qed

lemma next_level_total:
  assumes "\<And>l r. P l \<Longrightarrow> P r \<Longrightarrow> node l r = Inr (f l r)" "\<forall>x \<in> set xs. P x" "even (length xs)"
  shows "next_level node xs = Inr (pair_up f xs)"
  using assms by (induction node xs rule: next_level.induct) auto

lemma pair_up_all:
  assumes "\<And>l r. P l \<Longrightarrow> P r \<Longrightarrow> P (f l r)" "\<forall>x \<in> set xs. P x"
  shows "\<forall>x \<in> set (pair_up f xs). P x"
  using assms by (induction f xs rule: pair_up.induct) auto

text \<open>The level-by-level loop computes the root of the reference tree, in one iteration per level.\<close>

lemma merkle_loop_tree:
  assumes "\<And>l r. P l \<Longrightarrow> P r \<Longrightarrow> node l r = Inr (f l r) \<and> P (f l r)"
    and "\<forall>x \<in> set xs. P x" "length xs = 2 ^ d"
  shows "merkle_loop node xs = Inr [tree_root f d xs]"
  using assms(2,3)
proof (induction d arbitrary: xs)
  case 0
  then obtain x where "xs = [x]" by (metis One_nat_def Suc_length_conv length_0_conv power_0)
  then show ?case by (subst merkle_loop.simps) simp
next
  case (Suc d)
  have "next_level node xs = Inr (pair_up f xs)"
    using assms(1) Suc.prems by (intro next_level_total [where P = P]) auto
  moreover have "merkle_loop node (pair_up f xs) = Inr [tree_root f d (pair_up f xs)]"
    using Suc.prems assms(1) by (intro Suc.IH pair_up_all) auto
  moreover have "1 < length xs" using Suc.prems(2) one_less_power [of "2::nat" "Suc d"] by simp
  ultimately show ?case
    using tree_root_pair_up [OF Suc.prems(2)] by (subst merkle_loop.simps) simp
qed

text \<open>Two different leaf vectors with one root exhibit two inner nodes that collide.\<close>

lemma tree_root_binding:
  assumes "length xs = 2 ^ d" "length ys = 2 ^ d" "xs \<noteq> ys" "tree_root f d xs = tree_root f d ys"
  shows "\<exists>p \<in> node_inputs f d xs. \<exists>q \<in> node_inputs f d ys. p \<noteq> q \<and> f (fst p) (snd p) = f (fst q) (snd q)"
  using assms
proof (induction d arbitrary: xs ys)
  case 0
  then show ?case by (metis One_nat_def Suc_length_conv length_0_conv nth_Cons_0 power_0 tree_root.simps(1))
next
  case (Suc d)
  let ?xl = "take (2 ^ d) xs" and ?xr = "drop (2 ^ d) xs" and ?yl = "take (2 ^ d) ys" and ?yr = "drop (2 ^ d) ys"
  have len: "length ?xl = 2 ^ d" "length ?xr = 2 ^ d" "length ?yl = 2 ^ d" "length ?yr = 2 ^ d"
    using Suc.prems by simp_all
  show ?case
  proof (cases "tree_root f d ?xl = tree_root f d ?yl \<and> tree_root f d ?xr = tree_root f d ?yr")
    case False
    then have "(tree_root f d ?xl, tree_root f d ?xr) \<noteq> (tree_root f d ?yl, tree_root f d ?yr)" by simp
    moreover have "f (tree_root f d ?xl) (tree_root f d ?xr) = f (tree_root f d ?yl) (tree_root f d ?yr)"
      using Suc.prems(4) by simp
    ultimately show ?thesis unfolding node_inputs.simps by (metis fst_conv insertI1 snd_conv)
  next
    case True
    have "?xl \<noteq> ?yl \<or> ?xr \<noteq> ?yr" using Suc.prems(3) by (metis append_take_drop_id)
    then show ?thesis
    proof
      assume "?xl \<noteq> ?yl"
      then obtain p q where "p \<in> node_inputs f d ?xl" "q \<in> node_inputs f d ?yl"
        "p \<noteq> q" "f (fst p) (snd p) = f (fst q) (snd q)"
        using Suc.IH [OF len(1,3)] True by blast
      then show ?thesis unfolding node_inputs.simps by blast
    next
      assume "?xr \<noteq> ?yr"
      then obtain p q where "p \<in> node_inputs f d ?xr" "q \<in> node_inputs f d ?yr"
        "p \<noteq> q" "f (fst p) (snd p) = f (fst q) (snd q)"
        using Suc.IH [OF len(2,4)] True by blast
      then show ?thesis unfolding node_inputs.simps by blast
    qed
  qed
qed

text \<open>The pure node hash, on children of 32 bytes.\<close>

definition node_hash :: "lib \<Rightarrow> byte list \<Rightarrow> byte list \<Rightarrow> byte list" where
  "node_hash L l r = keccak_256 L (utf8 ''PAYO_MERKLE_NODE_V1'' @ [0, 0, 0, 32] @ l @ [0, 0, 0, 32] @ r)"

lemma encodeField_32: "length v = 32 \<Longrightarrow> encodeField v = Inr ([0, 0, 0, 32] @ v)"
  by (simp add: encodeField_def encodeU32_def concatBytes_concat Let_def)

lemma merkle_node_32: "length l = 32 \<Longrightarrow> length r = 32 \<Longrightarrow> merkle_node L l r = Inr (node_hash L l r)"
  by (simp add: merkle_node_def hashDomain_def encodeField_32 node_hash_def concatBytes_concat)

definition leaf_bytes :: "lib \<Rightarrow> string \<Rightarrow> byte list" where
  "leaf_bytes L s = (case normalizedHexBytes L s (Some 32) of Inr bs \<Rightarrow> bs | Inl _ \<Rightarrow> [])"

lemma leaf_bytes_commitment:
  assumes "hex_lib_ok L" "commitment_ok s"
  shows "normalizedHexBytes L s (Some 32) = Inr (leaf_bytes L s)" "length (leaf_bytes L s) = 32"
    "decodeUint (leaf_bytes L s) = bigint s"
proof -
  obtain bs where bs: "normalizedHexBytes L s (Some 32) = Inr bs"
    using normalizedHexBytes_commitment [OF assms] by blast
  then show "normalizedHexBytes L s (Some 32) = Inr (leaf_bytes L s)" by (simp add: leaf_bytes_def)
  from bs show "length (leaf_bytes L s) = 32" "decodeUint (leaf_bytes L s) = bigint s"
    using normalizedHexBytes_Inr [OF assms(1) bs] assms(2) by (simp_all add: leaf_bytes_def hex_num_bigint)
qed

definition tree_leaves :: "lib \<Rightarrow> string list \<Rightarrow> byte list list" where
  "tree_leaves L leaves = padded 64 (EMPTY_LEAF L) (map (leaf_bytes L) leaves)"

definition keccak_32 :: "lib \<Rightarrow> bool" where
  "keccak_32 L \<longleftrightarrow> (\<forall>bs. length (keccak_256 L bs) = 32)"

lemma buildFixedMerkleRoot_tree:
  assumes "hex_lib_ok L" "keccak_32 L" "length leaves \<le> 50" "list_all commitment_ok leaves"
  shows "buildFixedMerkleRoot L leaves = Inr (toHex L (tree_root (node_hash L) 6 (tree_leaves L leaves)))"
proof -
  have "rmap (\<lambda>leaf. normalizedHexBytes L leaf (Some 32)) leaves = Inr (map (leaf_bytes L) leaves)"
    using assms(1,4) by (intro rmap_total) (auto simp: list_all_iff leaf_bytes_commitment)
  moreover have "\<forall>x \<in> set (tree_leaves L leaves). length x = 32"
    using assms by (auto simp: tree_leaves_def padded_def EMPTY_LEAF_def keccak_32_def list_all_length leaf_bytes_commitment)
  then have "merkle_loop (merkle_node L) (tree_leaves L leaves) = Inr [tree_root (node_hash L) 6 (tree_leaves L leaves)]"
    using assms(2)
    by (intro merkle_loop_tree [where P = "\<lambda>x. length x = 32"])
      (auto simp: merkle_node_32 node_hash_def keccak_32_def tree_leaves_def)
  ultimately show ?thesis
    using assms(3) by (simp add: buildFixedMerkleRoot_def PAYO_MAX_PAYROLL_LINES_def PAYO_MERKLE_LEAF_COUNT_def tree_leaves_def)
qed

end
