(* ===== verification/Payroll.thy ===== *)
theory Payroll
  imports Commitments
begin

text \<open>
  Model of \<open>lib/domain/payroll.ts\<close>: atomic amounts, the lifecycle of a payroll run, the calculation
  of one payroll line and of the manifest of a whole run; and of \<open>hashPayrollLeaf\<close> in
  \<open>lib/crypto/commitments.ts\<close>.
\<close>

section \<open>Atomic amounts\<close>

definition PAYO_MAX_U128 :: int where
  "PAYO_MAX_U128 = push_bit 128 1 - 1"

definition PAYO_MAX_U128_DECIMAL :: string where
  "PAYO_MAX_U128_DECIMAL = toString PAYO_MAX_U128"

definition atomicAmount_ok :: "string \<Rightarrow> bool" where
  "atomicAmount_ok value =
     (canonical_dec value
      \<and> (length value < length PAYO_MAX_U128_DECIMAL
         \<or> (length value = length PAYO_MAX_U128_DECIMAL \<and> value \<le> PAYO_MAX_U128_DECIMAL)))"

lemma PAYO_MAX_U128_value: "PAYO_MAX_U128 = 2 ^ 128 - 1"
  by (simp add: PAYO_MAX_U128_def)

text \<open>The text comparison of the schema is the numeric bound.\<close>

lemma atomicAmount_ok_iff: "atomicAmount_ok s \<longleftrightarrow> canonical_dec s \<and> bigint s \<le> PAYO_MAX_U128"
proof -
  have n: "0 \<le> PAYO_MAX_U128" by (simp add: PAYO_MAX_U128_value)
  have "canonical_dec PAYO_MAX_U128_DECIMAL" and "bigint PAYO_MAX_U128_DECIMAL = PAYO_MAX_U128"
    using n by (simp_all add: PAYO_MAX_U128_DECIMAL_def canonical_dec_toString)
  then show ?thesis
    using canonical_dec_le_iff [of s PAYO_MAX_U128_DECIMAL] by (auto simp: atomicAmount_ok_def)
qed

lemma atomicAmount_ok_code [code]:
  "atomicAmount_ok s \<longleftrightarrow> canonical_dec s \<and> bigint s \<le> 340282366920938463463374607431768211455"
  by (simp add: atomicAmount_ok_iff PAYO_MAX_U128_value)

lemma atomicAmount_ok_toString: "0 \<le> n \<Longrightarrow> atomicAmount_ok (toString n) \<longleftrightarrow> n \<le> PAYO_MAX_U128"
  by (simp add: atomicAmount_ok_iff canonical_dec_toString)

section \<open>Run states\<close>

datatype run_state =
    Run_draft | Run_calculated | Run_proven | Run_approval_pending | Run_submitted | Run_confirmed | Run_reconciled
  | Run_cancelled | Run_failed | Run_disputed

fun run_state_name :: "run_state \<Rightarrow> string" where
  "run_state_name Run_draft = ''draft''"
| "run_state_name Run_calculated = ''calculated''"
| "run_state_name Run_proven = ''proven''"
| "run_state_name Run_approval_pending = ''approval_pending''"
| "run_state_name Run_submitted = ''submitted''"
| "run_state_name Run_confirmed = ''confirmed''"
| "run_state_name Run_reconciled = ''reconciled''"
| "run_state_name Run_cancelled = ''cancelled''"
| "run_state_name Run_failed = ''failed''"
| "run_state_name Run_disputed = ''disputed''"

fun PAYROLL_STATE_TRANSITIONS :: "run_state \<Rightarrow> run_state list" where
  "PAYROLL_STATE_TRANSITIONS Run_draft = [Run_calculated, Run_cancelled]"
| "PAYROLL_STATE_TRANSITIONS Run_calculated = [Run_proven, Run_draft]"
| "PAYROLL_STATE_TRANSITIONS Run_proven = [Run_approval_pending, Run_calculated, Run_cancelled]"
| "PAYROLL_STATE_TRANSITIONS Run_approval_pending = [Run_submitted, Run_cancelled]"
| "PAYROLL_STATE_TRANSITIONS Run_submitted = [Run_confirmed, Run_failed]"
| "PAYROLL_STATE_TRANSITIONS Run_confirmed = [Run_reconciled, Run_disputed]"
| "PAYROLL_STATE_TRANSITIONS Run_reconciled = []"
| "PAYROLL_STATE_TRANSITIONS Run_cancelled = []"
| "PAYROLL_STATE_TRANSITIONS Run_failed = [Run_approval_pending]"
| "PAYROLL_STATE_TRANSITIONS Run_disputed = [Run_reconciled]"

definition assertPayrollTransition :: "run_state \<Rightarrow> run_state \<Rightarrow> unit result" where
  "assertPayrollTransition from to =
     ensure (to \<in> set (PAYROLL_STATE_TRANSITIONS from))
       (Thrown (''Invalid payroll transition: '' @ run_state_name from @ '' -> '' @ run_state_name to @ ''.''))"

interpretation runs: state_table PAYROLL_STATE_TRANSITIONS assertPayrollTransition
  by unfold_locales (simp add: assertPayrollTransition_def)

text \<open>A history of a run: each listed state is entered through \<open>assertPayrollTransition\<close>.\<close>

definition run_history :: "run_state \<Rightarrow> run_state list \<Rightarrow> run_state result" where
  "run_history from ts = rfold (\<lambda>s t. rbind (assertPayrollTransition s t) (\<lambda>_. Inr t)) from ts"

section \<open>Payroll lines\<close>

record private_line =
  agreementId :: string
  recipientAddress :: string
  line_token :: token
  earningsAtomic :: "string list"
  deductionsAtomic :: "string list"
  committedPolicyId :: string
  scheduleCommitment :: string
  salt :: string

record calculated_line = private_line +
  grossAtomic :: string
  deductionsTotalAtomic :: string
  netAtomic :: string

definition privatePayrollLine_ok :: "('a) private_line_scheme \<Rightarrow> bool" where
  "privatePayrollLine_ok l =
     (1 \<le> length (agreementId l) \<and> length (agreementId l) \<le> 160
      \<and> starknet_address_ok (recipientAddress l)
      \<and> 1 \<le> length (earningsAtomic l) \<and> length (earningsAtomic l) \<le> 8
      \<and> list_all atomicAmount_ok (earningsAtomic l)
      \<and> length (deductionsAtomic l) \<le> 8 \<and> list_all atomicAmount_ok (deductionsAtomic l)
      \<and> 1 \<le> length (committedPolicyId l) \<and> length (committedPolicyId l) \<le> 160
      \<and> commitment_ok (scheduleCommitment l) \<and> commitment_ok (salt l))"

definition sumAtomic :: "string list \<Rightarrow> int result" where
  "sumAtomic values =
     rfold (\<lambda>total v. rbind (zod ''atomicAmountSchema'' atomicAmount_ok v) (\<lambda>a. Inr (total + bigint a))) 0 values"

fun compare_bytes :: "byte list \<Rightarrow> byte list \<Rightarrow> int" where
  "compare_bytes (l # ls) (r # rs) = (if l \<noteq> r then uint l - uint r else compare_bytes ls rs)"
| "compare_bytes _ _ = 0"

definition comparePayrollAgreementIds :: "lib \<Rightarrow> string \<Rightarrow> string \<Rightarrow> int result" where
  "comparePayrollAgreementIds L left right =
     rbind (hashTextCommitment L ''PAYO_AGREEMENT_ID_V1'' left) (\<lambda>l.
     rbind (hashTextCommitment L ''PAYO_AGREEMENT_ID_V1'' right) (\<lambda>r.
     Inr (compare_bytes l r)))"

definition calculatePayrollLine :: "private_line \<Rightarrow> calculated_line result" where
  "calculatePayrollLine input =
     rbind (zod ''privatePayrollLineSchema'' privatePayrollLine_ok input) (\<lambda>line.
     rbind (sumAtomic (earningsAtomic line)) (\<lambda>gross.
     rbind (sumAtomic (deductionsAtomic line)) (\<lambda>deductions.
     if gross \<le> 0 then Inl (Thrown ''Gross pay must be greater than zero.'')
     else if PAYO_MAX_U128 < gross \<or> PAYO_MAX_U128 < deductions
     then Inl (Thrown ''Payroll totals exceed PayrollIntegrity's u128 range.'')
     else if gross < deductions then Inl (Thrown ''Deductions cannot exceed gross pay.'')
     else Inr (private_line.extend line
       (calculated_line.fields (toString gross) (toString deductions) (toString (gross - deductions)))))))"

section \<open>The manifest of a run\<close>

record manifest_loop =
  agreementIds :: "string set"
  recipients :: "string set"
  loop_totals :: "token \<Rightarrow> int"

definition payoutKey :: "calculated_line \<Rightarrow> string" where
  "payoutKey line = toLowerCase (recipientAddress line) @ '':'' @ token_symbol (line_token line)"

definition manifest_step :: "manifest_loop \<Rightarrow> calculated_line \<Rightarrow> manifest_loop result" where
  "manifest_step s line =
     (if agreementId line \<in> agreementIds s
      then Inl (Thrown (''Duplicate agreement in payroll run: '' @ agreementId line @ ''.''))
      else if payoutKey line \<in> recipients s
      then Inl (Thrown (''Duplicate recipient/token pair in payroll run: '' @ payoutKey line @ ''.''))
      else Inr \<lparr>agreementIds = insert (agreementId line) (agreementIds s),
                recipients = insert (payoutKey line) (recipients s),
                loop_totals = (loop_totals s)(line_token line := loop_totals s (line_token line) + bigint (netAtomic line))\<rparr>)"

record manifest =
  manifest_lines :: "calculated_line list"
  total_STRK :: string
  total_USDC :: string

text \<open>The comparison cannot throw on calculated lines, whose ids have at most 160 characters.\<close>

definition compare_lines :: "lib \<Rightarrow> calculated_line \<Rightarrow> calculated_line \<Rightarrow> int" where
  "compare_lines L a b =
     (case comparePayrollAgreementIds L (agreementId a) (agreementId b) of Inr n \<Rightarrow> n | Inl _ \<Rightarrow> 0)"

definition calculatePayrollManifest :: "lib \<Rightarrow> private_line list \<Rightarrow> manifest result" where
  "calculatePayrollManifest L lines =
     (if length lines = 0 \<or> 50 < length lines
      then Inl (Thrown ''A payroll run must contain between 1 and 50 lines.'')
      else
        rbind (rmap calculatePayrollLine lines) (\<lambda>calc.
        rbind (rfold manifest_step \<lparr>agreementIds = {}, recipients = {}, loop_totals = (\<lambda>_. 0)\<rparr> calc) (\<lambda>s.
        Inr \<lparr>manifest_lines = sort_by (compare_lines L) calc,
             total_STRK = toString (loop_totals s STRK),
             total_USDC = toString (loop_totals s USDC)\<rparr>)))"

section \<open>The leaf of a line\<close>

definition hashPayrollLeaf :: "lib \<Rightarrow> calculated_line \<Rightarrow> int \<Rightarrow> string option \<Rightarrow> string result" where
  "hashPayrollLeaf L line schemaVersion boundPolicyCommitment =
     rbind (hashTextCommitment L ''PAYO_AGREEMENT_ID_V1'' (agreementId line)) (\<lambda>agreementCommitment.
     rbind (hashRecipientCommitment L (recipientAddress line) (salt line)) (\<lambda>recipient.
     rbind (hashDeductionsCommitment L (deductionsAtomic line)) (\<lambda>deductions.
     rbind (case boundPolicyCommitment of
              None \<Rightarrow> hashTextCommitment L ''PAYO_POLICY_ID_V1'' (committedPolicyId line)
            | Some c \<Rightarrow> normalizedHexBytes L c (Some 32)) (\<lambda>policy.
     rbind (encodeU32 schemaVersion) (\<lambda>version.
     rbind (encodeUint (bigint (grossAtomic line)) 32) (\<lambda>gross.
     rbind (encodeUint (bigint (netAtomic line)) 32) (\<lambda>net.
     rbind (normalizedHexBytes L (token_address (line_token line)) (Some 32)) (\<lambda>tok.
     rbind (normalizedHexBytes L (scheduleCommitment line) (Some 32)) (\<lambda>schedule.
     rbind (normalizedHexBytes L (salt line) (Some 32)) (\<lambda>s.
     rbind (hashDomain L ''PAYO_LEAF_V1''
       [version, agreementCommitment, recipient, gross, deductions, net, tok, policy, schedule, s]) (\<lambda>h.
     Inr (toHex L h))))))))))))"


section \<open>Properties\<close>

lemma sumAtomic_eq:
  "sumAtomic vs = (if list_all atomicAmount_ok vs then Inr (\<Sum>v\<leftarrow>vs. bigint v)
                   else Inl (Zod_error ''atomicAmountSchema''))"
proof -
  have "rfold (\<lambda>total v. rbind (zod ''atomicAmountSchema'' atomicAmount_ok v) (\<lambda>a. Inr (total + bigint a))) n vs
      = (if list_all atomicAmount_ok vs then Inr (n + (\<Sum>v\<leftarrow>vs. bigint v)) else Inl (Zod_error ''atomicAmountSchema''))" for n
    by (induction vs arbitrary: n) (auto simp: zod_def)
  then show ?thesis by (simp add: sumAtomic_def)
qed

lemma calculatePayrollLine_Inr_iff:
  "calculatePayrollLine l = Inr c \<longleftrightarrow>
     (let gross = (\<Sum>v\<leftarrow>earningsAtomic l. bigint v); deductions = (\<Sum>v\<leftarrow>deductionsAtomic l. bigint v) in
      privatePayrollLine_ok l \<and> 0 < gross \<and> gross \<le> PAYO_MAX_U128 \<and> deductions \<le> gross \<and>
      c = private_line.extend l
            (calculated_line.fields (toString gross) (toString deductions) (toString (gross - deductions))))"
proof (cases "privatePayrollLine_ok l")
  case True
  then have "list_all atomicAmount_ok (earningsAtomic l)" "list_all atomicAmount_ok (deductionsAtomic l)"
    by (simp_all add: privatePayrollLine_ok_def)
  with True show ?thesis
    by (auto simp: calculatePayrollLine_def sumAtomic_eq Let_def)
next
  case False
  then show ?thesis by (simp add: calculatePayrollLine_def)
qed

lemma sum_bigint_nonneg: "0 \<le> (\<Sum>v\<leftarrow>vs. bigint v)"
  by (induction vs) auto

lemma calculatePayrollLine_fields:
  assumes "calculatePayrollLine l = Inr c"
  shows "agreementId c = agreementId l" "recipientAddress c = recipientAddress l" "line_token c = line_token l"
    and "bigint (grossAtomic c) = (\<Sum>v\<leftarrow>earningsAtomic l. bigint v)"
    and "bigint (deductionsTotalAtomic c) = (\<Sum>v\<leftarrow>deductionsAtomic l. bigint v)"
    and "bigint (netAtomic c) = (\<Sum>v\<leftarrow>earningsAtomic l. bigint v) - (\<Sum>v\<leftarrow>deductionsAtomic l. bigint v)"
    and "atomicAmount_ok (grossAtomic c)" "atomicAmount_ok (deductionsTotalAtomic c)" "atomicAmount_ok (netAtomic c)"
  using assms sum_bigint_nonneg [of "earningsAtomic l"] sum_bigint_nonneg [of "deductionsAtomic l"]
  by (auto simp: calculatePayrollLine_Inr_iff Let_def private_line.defs calculated_line.defs atomicAmount_ok_toString)

lemma manifest_step_Inr_iff:
  "manifest_step s l = Inr s' \<longleftrightarrow> agreementId l \<notin> agreementIds s \<and> payoutKey l \<notin> recipients s \<and>
     s' = \<lparr>agreementIds = insert (agreementId l) (agreementIds s), recipients = insert (payoutKey l) (recipients s),
           loop_totals = (loop_totals s)(line_token l := loop_totals s (line_token l) + bigint (netAtomic l))\<rparr>"
  by (auto simp: manifest_step_def)

lemma manifest_loop_result:
  assumes "rfold manifest_step s ls = Inr s'"
  shows "distinct (map agreementId ls) \<and> set (map agreementId ls) \<inter> agreementIds s = {}
    \<and> distinct (map payoutKey ls) \<and> set (map payoutKey ls) \<inter> recipients s = {}
    \<and> (\<forall>t. loop_totals s' t = loop_totals s t + (\<Sum>l\<leftarrow>filter (\<lambda>l. line_token l = t) ls. bigint (netAtomic l)))"
  using assms
proof (induction ls arbitrary: s)
  case Nil
  then show ?case by simp
next
  case (Cons l ls)
  then obtain s1 where s1: "manifest_step s l = Inr s1" "rfold manifest_step s1 ls = Inr s'"
    by auto
  show ?case
    using Cons.IH [OF s1(2)] s1(1) unfolding manifest_step_Inr_iff by auto
qed

lemma manifest_loop_total:
  assumes "distinct (map agreementId ls)" "set (map agreementId ls) \<inter> agreementIds s = {}"
    and "distinct (map payoutKey ls)" "set (map payoutKey ls) \<inter> recipients s = {}"
  shows "\<exists>s'. rfold manifest_step s ls = Inr s'"
  using assms
proof (induction ls arbitrary: s)
  case Nil
  show ?case by simp
next
  case (Cons l ls)
  then show ?case by (auto simp: manifest_step_def)
qed

text \<open>The comparison function orders by the numeric value of the id commitments.\<close>

lemma compare_bytes_decode:
  "length l = length r \<Longrightarrow> sgn (compare_bytes l r) = sgn (decodeUint l - decodeUint r)"
proof (induction l r rule: list_induct2)
  case Nil
  show ?case by simp
next
  case (Cons a l b r)
  have d: "decodeUint (x # xs) = uint x * 256 ^ length xs + decodeUint xs" for x :: byte and xs
    using decodeUint_append [of "[x]" xs] decodeUint_snoc_arith [of "[]" x] by simp
  have bounds: "0 \<le> decodeUint l" "decodeUint l < 256 ^ length r" "0 \<le> decodeUint r" "decodeUint r < 256 ^ length r"
    using Cons.hyps decodeUint_lt [of l] decodeUint_lt [of r] by simp_all
  consider "a = b" | "uint a < uint b" | "uint b < uint a"
    using word_uint_eq_iff [of a b] by linarith
  then show ?case
  proof cases
    case 1
    with Cons show ?thesis by (simp add: d)
  next
    case 2
    then have "(uint a + 1) * 256 ^ length r \<le> uint b * 256 ^ length r" by (intro mult_right_mono) auto
    then have "decodeUint (a # l) < decodeUint (b # r)"
      unfolding d Cons.hyps(1) distrib_right mult_1 using bounds by linarith
    with 2 show ?thesis by auto
  next
    case 3
    then have "(uint b + 1) * 256 ^ length r \<le> uint a * 256 ^ length r" by (intro mult_right_mono) auto
    then have "decodeUint (b # r) < decodeUint (a # l)"
      unfolding d Cons.hyps(1) distrib_right mult_1 using bounds by linarith
    with 3 show ?thesis by auto
  qed
qed

lemma utf8_length [simp]: "length (utf8 s) = length s"
  by (simp add: utf8_def)

definition id_commitment :: "lib \<Rightarrow> string \<Rightarrow> int" where
  "id_commitment L i = (case hashTextCommitment L ''PAYO_AGREEMENT_ID_V1'' i of
     Inr h \<Rightarrow> decodeUint h | Inl _ \<Rightarrow> 0)"

lemma hashTextCommitment_total: "length v \<le> 160 \<Longrightarrow> \<exists>h. hashTextCommitment L d v = Inr h"
  unfolding hashTextCommitment_def by (rule hashDomain_total) simp

lemma hashTextCommitment_length:
  "keccak_32 L \<Longrightarrow> hashTextCommitment L d v = Inr h \<Longrightarrow> length h = 32"
  by (auto simp: hashTextCommitment_def hashDomain_Inr_iff keccak_32_def)

lemma compare_lines_sgn:
  assumes "keccak_32 L" "length (agreementId a) \<le> 160" "length (agreementId b) \<le> 160"
  shows "compare_lines L a b \<le> 0 \<longleftrightarrow> id_commitment L (agreementId a) \<le> id_commitment L (agreementId b)"
proof -
  obtain g h where g: "hashTextCommitment L ''PAYO_AGREEMENT_ID_V1'' (agreementId a) = Inr g"
    and h: "hashTextCommitment L ''PAYO_AGREEMENT_ID_V1'' (agreementId b) = Inr h"
    using hashTextCommitment_total assms(2,3) by blast
  have "length g = length h" using hashTextCommitment_length [OF assms(1)] g h by metis
  then have "sgn (compare_bytes g h) = sgn (decodeUint g - decodeUint h)" by (rule compare_bytes_decode)
  then have "compare_bytes g h \<le> 0 \<longleftrightarrow> decodeUint g \<le> decodeUint h"
    by (auto simp: sgn_if split: if_splits)
  then show ?thesis
    using g h by (simp add: compare_lines_def comparePayrollAgreementIds_def id_commitment_def)
qed

end
