(* ===== verification/Reference_Lib.thy ===== *)
theory Reference_Lib
  imports Commitments
begin

text \<open>
  A concrete library that meets the documented behaviour the development relies on: a complete hex
  codec, a 32-byte digest, a signature built on it that refuses keys of another size and a Poseidon stand-in that prints a number below the field prime.  The
  witnesses of the properties that have hypotheses about \<^typ>\<open>lib\<close> instantiate them with it; no
  property is about it.
\<close>

fun ref_hexToBytes :: "string \<Rightarrow> byte list" where
  "ref_hexToBytes (c # d # s) = word_of_nat (hex_val c * 16 + hex_val d) # ref_hexToBytes s"
| "ref_hexToBytes _ = []"

definition ref_hex_pair :: "byte \<Rightarrow> string" where
  "ref_hex_pair b = [hex_char (unat b div 16), hex_char (unat b mod 16)]"

definition ref_bytesToHex :: "byte list \<Rightarrow> string" where
  "ref_bytesToHex bs = concat (map ref_hex_pair bs)"

definition ref_digest :: "byte list \<Rightarrow> byte list" where
  "ref_digest bs = encode_loop 32 (decodeUint bs mod 2 ^ 250) []"

definition ref_poseidon :: "int list \<Rightarrow> string" where
  "ref_poseidon vs = ''0x'' @ toString16 (foldl (\<lambda>h v. (h * 31 + v) mod 2 ^ 250) 7 vs)"

definition ref_secret :: "byte list \<Rightarrow> byte list result" where
  "ref_secret key = (if length key \<noteq> 32 then Inl (Thrown ''RangeError'') else Inr key)"

definition ref_lib :: lib where
  "ref_lib = \<lparr>keccak_256 = ref_digest, sha256 = ref_digest, bytesToHex = ref_bytesToHex, hexToBytes = ref_hexToBytes,
     computePoseidonHashOnElements = ref_poseidon,
     encodeShortString = (\<lambda>s. ''0x'' @ ref_bytesToHex (utf8 s)),
     starknetKeccak = (\<lambda>s. decodeUint (utf8 s) mod 2 ^ 250),
     poseidon2Hash = (\<lambda>inputs. ref_digest (concat inputs)),
     ed25519_getPublicKey = (\<lambda>secretKey. rbind (ref_secret secretKey) (\<lambda>key. Inr (ref_digest key))),
     ed25519_sign = (\<lambda>message secretKey. rbind (ref_secret secretKey) (\<lambda>key. Inr (ref_digest message @ ref_digest key))),
     ed25519_verify = (\<lambda>signature message publicKey. signature = ref_digest message @ publicKey),
     parsesAsUrl = (\<lambda>s. take 8 s = ''https://'')\<rparr>"

lemma unat_byte_lt: "unat (b::byte) < 256"
  using unsigned_less [of b, where ?'a = nat] by simp

lemma ref_hex_pair_value: "value_base 16 (ref_hex_pair b @ s) = unat b * 16 ^ length s + value_base 16 s"
proof -
  have "unat b div 16 < 16" using unat_byte_lt [of b] by (simp add: div_less_iff_less_mult)
  then have "value_base 16 (ref_hex_pair b @ s)
      = unat b div 16 * (16 * 16 ^ length s) + unat b mod 16 * 16 ^ length s + value_base 16 s"
    by (simp add: ref_hex_pair_def value_base_Cons)
  also have "\<dots> = (unat b div 16 * 16 + unat b mod 16) * 16 ^ length s + value_base 16 s"
    by (simp only: distrib_right mult.assoc)
  finally show ?thesis by (simp only: div_mult_mod_eq)
qed

lemma length_ref_bytesToHex: "length (ref_bytesToHex bs) = 2 * length bs"
  by (induction bs) (auto simp: ref_bytesToHex_def ref_hex_pair_def)

lemma decodeUint_Cons: "decodeUint (b # bs) = uint b * 256 ^ length bs + decodeUint bs"
  using decodeUint_append [of "[b]" bs] decodeUint_snoc_arith [of "[]" b] by simp

lemma ref_bytesToHex_value: "int (value_base 16 (ref_bytesToHex bs)) = decodeUint bs"
proof (induction bs)
  case Nil
  show ?case by (simp add: ref_bytesToHex_def)
next
  case (Cons b bs)
  have "value_base 16 (ref_bytesToHex (b # bs))
      = unat b * 16 ^ (2 * length bs) + value_base 16 (ref_bytesToHex bs)"
    using ref_hex_pair_value [of b "ref_bytesToHex bs"] length_ref_bytesToHex [of bs]
    by (simp add: ref_bytesToHex_def)
  also have "(16::nat) ^ (2 * length bs) = 256 ^ length bs" by (simp add: power_mult)
  finally have "int (value_base 16 (ref_bytesToHex (b # bs)))
      = int (unat b) * 256 ^ length bs + int (value_base 16 (ref_bytesToHex bs))" by simp
  also have "int (unat b) = uint b" by (rule of_nat_unat)
  finally show ?case by (simp only: Cons decodeUint_Cons)
qed

lemma ref_bytesToHex_hex: "list_all is_hex (ref_bytesToHex bs)"
proof (induction bs)
  case Nil
  show ?case by (simp add: ref_bytesToHex_def)
next
  case (Cons b bs)
  have "unat b div 16 < 16" using unat_byte_lt [of b] by (simp add: div_less_iff_less_mult)
  with Cons show ?case by (simp add: ref_bytesToHex_def ref_hex_pair_def)
qed

lemma toLowerCase_hex_char: "n < 16 \<Longrightarrow> toLowerCase [hex_char n] = [hex_char n]"
  by (auto simp: toLowerCase_def of_char_hex_char)

lemma toLowerCase_append: "toLowerCase (s @ t) = toLowerCase s @ toLowerCase t"
  by (simp add: toLowerCase_def)

lemma ref_bytesToHex_lower: "toLowerCase (ref_bytesToHex bs) = ref_bytesToHex bs"
proof (induction bs)
  case Nil
  show ?case by (simp add: ref_bytesToHex_def toLowerCase_def)
next
  case (Cons b bs)
  have "unat b div 16 < 16" using unat_byte_lt [of b] by (simp add: div_less_iff_less_mult)
  then have "toLowerCase (ref_hex_pair b) = ref_hex_pair b"
    using toLowerCase_append [of "[hex_char (unat b div 16)]" "[hex_char (unat b mod 16)]"]
    by (simp add: ref_hex_pair_def toLowerCase_hex_char)
  with Cons show ?case by (simp add: ref_bytesToHex_def toLowerCase_append)
qed

lemma length_ref_hexToBytes: "length (ref_hexToBytes s) = length s div 2"
  by (induction s rule: ref_hexToBytes.induct) auto

lemma ref_hexToBytes_value:
  "even (length s) \<Longrightarrow> list_all is_hex s \<Longrightarrow> decodeUint (ref_hexToBytes s) = int (value_base 16 s)"
proof (induction s rule: ref_hexToBytes.induct)
  case (1 c d s)
  have lt: "hex_val c < 16" "hex_val d < 16" using 1 by (simp_all add: hex_val_lt)
  then have "hex_val c * 16 + hex_val d < 256" by simp
  then have u: "uint (word_of_nat (hex_val c * 16 + hex_val d) :: byte) = int (hex_val c * 16 + hex_val d)"
    by (simp only: unsigned_of_nat) (simp add: take_bit_eq_mod)
  have "(256::nat) ^ (length s div 2) = 16 ^ (2 * (length s div 2))" by (simp add: power_mult)
  also have "2 * (length s div 2) = length s" using 1 by simp
  finally have p: "(256::int) ^ (length s div 2) = 16 ^ length s"
    by (metis of_nat_numeral of_nat_power)
  have "decodeUint (ref_hexToBytes (c # d # s))
      = int (hex_val c * 16 + hex_val d) * 16 ^ length s + int (value_base 16 s)"
    using 1 by (simp add: decodeUint_Cons length_ref_hexToBytes u p del: of_nat_add of_nat_mult)
  then show ?case by (simp add: value_base_Cons algebra_simps)
qed auto

lemma ref_digest_value: "decodeUint (ref_digest bs) = decodeUint bs mod 2 ^ 250"
  by (simp add: ref_digest_def decode_encode_loop)

lemma ref_lib_hex [simp]: "hex_lib_ok ref_lib"
  by (simp add: hex_lib_ok_def ref_lib_def length_ref_hexToBytes ref_hexToBytes_value length_ref_bytesToHex
      ref_bytesToHex_hex ref_bytesToHex_lower ref_bytesToHex_value)

lemma ref_lib_keccak [simp]: "keccak_32 ref_lib"
  by (simp add: keccak_32_def ref_lib_def ref_digest_def)

text \<open>Texts that differ near their end have different reference digests.\<close>

lemma ref_digest_suffix:
  assumes "ref_digest (utf8 (p @ u)) = ref_digest (utf8 (p @ v))" "length u = length v" "length u \<le> 31"
  shows "utf8 u = utf8 v"
proof (rule decodeUint_inj)
  show "length (utf8 u) = length (utf8 v)" using assms(2) by (simp add: utf8_def)
  let ?n = "length u"
  have val: "decodeUint (utf8 (p @ w)) = decodeUint (utf8 p) * 256 ^ length w + decodeUint (utf8 w)" for w
    by (simp add: utf8_def decodeUint_append)
  have lt: "0 \<le> decodeUint (utf8 w)" "decodeUint (utf8 w) < 256 ^ length w" for w
    using decodeUint_lt [of "utf8 w"] decodeUint_nonneg [of "utf8 w"] by (simp_all add: utf8_def)
  have dvd: "(256::int) ^ ?n dvd 2 ^ 250"
  proof -
    have "(256::int) ^ ?n = 2 ^ (8 * ?n)" by (simp add: power_mult)
    also have "\<dots> dvd 2 ^ 250" by (rule le_imp_power_dvd) (use assms(3) in simp)
    finally show ?thesis .
  qed
  have "decodeUint (utf8 (p @ u)) mod 2 ^ 250 = decodeUint (utf8 (p @ v)) mod 2 ^ 250"
    using assms(1) by (simp only: ref_digest_value [symmetric])
  then have "decodeUint (utf8 (p @ u)) mod 2 ^ 250 mod 256 ^ ?n = decodeUint (utf8 (p @ v)) mod 2 ^ 250 mod 256 ^ ?n"
    by (rule arg_cong)
  then have "decodeUint (utf8 (p @ u)) mod 256 ^ ?n = decodeUint (utf8 (p @ v)) mod 256 ^ ?n"
    by (simp only: mod_mod_cancel [OF dvd])
  then show "decodeUint (utf8 u) = decodeUint (utf8 v)"
    using lt [of u] lt [of v] assms(2) by (simp add: val)
qed

end
