(* ===== verification/Run_Properties.thy ===== *)
theory Run_Properties
  imports Payroll Reference_Lib
begin

text \<open>
  The properties of the byte encodings, the commitments, the token amounts, the payroll
  calculation and the life cycle of a run.  Statements about hashes name the third-party record
  \<open>L\<close>: what is claimed without any assumption on it, or from the documented behaviour of its
  hex codec, never from the hash being injective.
\<close>

section \<open>Encodings\<close>

text \<open>C40: The texts accepted as atomic amounts correspond one to one to the unsigned 128-bit integers.\<close>

theorem atomic_amounts_u128:
  "bij_betw bigint {s. atomicAmount_ok s} {n. 0 \<le> n \<and> n \<le> 2 ^ 128 - 1}"
proof (rule bij_betw_byWitness [where f' = toString])
  show "\<forall>s \<in> {s. atomicAmount_ok s}. toString (bigint s) = s"
    by (auto simp: atomicAmount_ok_iff toString_bigint)
qed (auto simp: atomicAmount_ok_iff PAYO_MAX_U128_value canonical_dec_toString)

text \<open>Encoding a number into n bytes succeeds exactly on the numbers below 256 to the n, and gives the only
  string of n bytes that decodes to the number; the 32-bit encoder is the four-byte case.\<close>

theorem encodeUint_decodes:
  "(encodeUint v n = Inr bs \<longleftrightarrow> 0 \<le> v \<and> v < 256 ^ n \<and> length bs = n \<and> decodeUint bs = v)
   \<and> (encodeU32 v = Inr bs \<longleftrightarrow> encodeUint v 4 = Inr bs)"
proof -
  have "encodeU32 v = Inr bs \<longleftrightarrow> encodeUint v 4 = Inr bs"
    using encodeUint_Inr_iff [of v 4 bs] by (auto simp: encodeU32_eq_encodeUint)
  then show ?thesis using encodeUint_Inr_iff by blast
qed

text \<open>The canonical JSON text of an object does not depend on the order in which its members were added.\<close>

theorem stableJson_order_irrelevant:
  assumes "mset xs = mset ys" "distinct (map fst xs)"
  shows "stableJson (JObj xs) = stableJson (JObj ys)"
proof (rule stableJson_key_order)
  have "mset (map fst ys) = mset (map fst xs)" using assms(1) by simp
  then show "distinct (map fst ys)" using assms(2) mset_eq_imp_distinct_iff by blast
qed (use assms mset_eq_setD in auto)

theorem stableJson_order_irrelevant_witness:
  "stableJson (JObj [(''b'', JNum 1), (''a'', JBool True)]) = stableJson (JObj [(''a'', JBool True), (''b'', JNum 1)])"
  by (rule stableJson_order_irrelevant) simp_all

text \<open>Every positive amount of a token, printed with the token's decimals, is read back as the same amount;
  zero too where zero is allowed.\<close>

theorem token_amount_round_trip:
  assumes "0 \<le> n" "allowZero \<or> 0 < n"
  shows "parseTokenAmountValue (formatTokenAmount n t (token_decimals t)) t allowZero = Inr n"
  using assms by (rule parse_format_value)

theorem token_amount_round_trip_witness:
  "parseTokenAmountValue (formatTokenAmount 1234567 USDC (token_decimals USDC)) USDC False = Inr 1234567"
  by (rule token_amount_round_trip) simp_all

section \<open>Commitments\<close>

text \<open>The pairwise loop of the Merkle builder computes the root of the perfect binary tree of depth six over
  the leaves padded with the empty leaf.\<close>

theorem merkle_root_reference:
  assumes "hex_lib_ok L" "keccak_32 L" "length leaves \<le> 50" "list_all commitment_ok leaves"
  shows "buildFixedMerkleRoot L leaves = Inr (toHex L (tree_root (node_hash L) 6 (tree_leaves L leaves)))"
  using assms by (rule buildFixedMerkleRoot_tree)

definition leaf_a :: string where "leaf_a = ''0x'' @ replicate 64 (CHR ''1'')"
definition leaf_b :: string where "leaf_b = ''0x'' @ replicate 64 (CHR ''2'')"

definition leaf_upper :: string where "leaf_upper = ''0x'' @ replicate 64 (CHR ''A'')"
definition leaf_lower :: string where "leaf_lower = ''0x'' @ replicate 64 (CHR ''a'')"

lemma leaves_ok: "commitment_ok leaf_a" "commitment_ok leaf_b" "commitment_ok leaf_upper" "commitment_ok leaf_lower"
  by code_simp+

lemma leaf_case: "normalizedHexBytes ref_lib leaf_upper (Some 32) = normalizedHexBytes ref_lib leaf_lower (Some 32)"
  by code_simp

theorem merkle_root_reference_witness:
  "buildFixedMerkleRoot ref_lib [leaf_a, leaf_b]
    = Inr (toHex ref_lib (tree_root (node_hash ref_lib) 6 (tree_leaves ref_lib [leaf_a, leaf_b])))"
  by (rule merkle_root_reference) (simp_all add: leaves_ok)

text \<open>Two leaf lists with the same Merkle root stand for the same sequence of 64 leaf values, unless two different
  pairs of nodes with the same node hash occur in the two trees.\<close>

theorem merkle_root_binding:
  assumes "hex_lib_ok L" "keccak_32 L" "length xs \<le> 50" "length ys \<le> 50"
    and "list_all commitment_ok xs" "list_all commitment_ok ys"
    and "buildFixedMerkleRoot L xs = buildFixedMerkleRoot L ys"
  shows "tree_leaves L xs = tree_leaves L ys
    \<or> (\<exists>p \<in> node_inputs (node_hash L) 6 (tree_leaves L xs). \<exists>q \<in> node_inputs (node_hash L) 6 (tree_leaves L ys).
         p \<noteq> q \<and> node_hash L (fst p) (snd p) = node_hash L (fst q) (snd q))"
proof -
  have "tree_root (node_hash L) 6 (tree_leaves L xs) = tree_root (node_hash L) 6 (tree_leaves L ys)"
    using assms(7) buildFixedMerkleRoot_tree [OF assms(1,2)] assms(3-6) toHex_inj [OF assms(1)] by simp
  moreover have "length (tree_leaves L zs) = 2 ^ 6" for zs by (simp add: tree_leaves_def)
  ultimately show ?thesis
    using tree_root_binding [of "tree_leaves L xs" 6 "tree_leaves L ys" "node_hash L"] by blast
qed

theorem merkle_root_binding_witness:
  "tree_leaves ref_lib [leaf_upper] = tree_leaves ref_lib [leaf_lower]
    \<or> (\<exists>p \<in> node_inputs (node_hash ref_lib) 6 (tree_leaves ref_lib [leaf_upper]).
        \<exists>q \<in> node_inputs (node_hash ref_lib) 6 (tree_leaves ref_lib [leaf_lower]).
         p \<noteq> q \<and> node_hash ref_lib (fst p) (snd p) = node_hash ref_lib (fst q) (snd q))"
  by (rule merkle_root_binding) (simp_all add: leaves_ok buildFixedMerkleRoot_def leaf_case)

text \<open>The bytes a run nullifier hashes.\<close>

definition run_preimage :: "lib \<Rightarrow> string \<Rightarrow> string \<Rightarrow> int \<Rightarrow> byte list result" where
  "run_preimage L organizationSecret cycleId revision =
     rbind (normalizedHexBytes L organizationSecret (Some 32)) (\<lambda>a. rbind (encodeU32 revision) (\<lambda>v.
     rbind (rmap encodeField [a, utf8 cycleId, v]) (\<lambda>es. Inr (utf8 ''PAYO_RUN_V1'' @ concat es))))"

lemma deriveRunNullifier_preimage:
  "deriveRunNullifier L s c r = Inr n \<Longrightarrow> \<exists>x. run_preimage L s c r = Inr x \<and> n = toHex L (keccak_256 L x)"
  by (auto simp: deriveRunNullifier_def run_preimage_def rbind_Inr_iff hashDomain_Inr_iff simp del: rmap.simps)

lemma run_preimage_determines:
  assumes "hex_lib_ok L" "run_preimage L s c r = Inr x" "run_preimage L s' c' r' = Inr x"
  shows "hex_num s = hex_num s' \<and> utf8 c = utf8 c' \<and> r = r'"
proof -
  obtain a v es where A: "normalizedHexBytes L s (Some 32) = Inr a" "encodeU32 r = Inr v"
    "rmap encodeField [a, utf8 c, v] = Inr es" "x = utf8 ''PAYO_RUN_V1'' @ concat es"
    using assms(2) by (auto simp: run_preimage_def rbind_Inr_iff simp del: rmap.simps)
  obtain b w ds where B: "normalizedHexBytes L s' (Some 32) = Inr b" "encodeU32 r' = Inr w"
    "rmap encodeField [b, utf8 c', w] = Inr ds" "x = utf8 ''PAYO_RUN_V1'' @ concat ds"
    using assms(3) by (auto simp: run_preimage_def rbind_Inr_iff simp del: rmap.simps)
  from A(4) B(4) have "concat es = concat ds" by simp
  then have "a = b" "utf8 c = utf8 c'" "v = w" using concat_encodeField_inj [OF A(3) B(3)] by simp_all
  then show ?thesis
    using u32.enc_val [OF A(2) B(2)] fixed_width.enc_val [OF hex_fixed_width [OF assms(1)] A(1) B(1)] by simp
qed

text \<open>Two runs with the same nullifier have the same organization secret (as a number), cycle and revision,
  unless the two byte strings their nullifiers hash are different and have the same hash.\<close>

theorem run_nullifier_binding:
  assumes "hex_lib_ok L" "deriveRunNullifier L s c r = Inr n" "deriveRunNullifier L s' c' r' = Inr n"
  shows "(hex_num s = hex_num s' \<and> utf8 c = utf8 c' \<and> r = r')
    \<or> (\<exists>x y. run_preimage L s c r = Inr x \<and> run_preimage L s' c' r' = Inr y
         \<and> x \<noteq> y \<and> keccak_256 L x = keccak_256 L y)"
proof -
  from deriveRunNullifier_preimage [OF assms(2)] obtain x where x: "run_preimage L s c r = Inr x" "n = toHex L (keccak_256 L x)"
    by blast
  from deriveRunNullifier_preimage [OF assms(3)] obtain y where y: "run_preimage L s' c' r' = Inr y" "n = toHex L (keccak_256 L y)"
    by blast
  from x(2) y(2) have "keccak_256 L x = keccak_256 L y" by (simp add: toHex_inj [OF assms(1)])
  moreover have "hex_num s = hex_num s' \<and> utf8 c = utf8 c' \<and> r = r'" if "x = y"
    using run_preimage_determines [OF assms(1) x(1)] y(1) that by blast
  ultimately show ?thesis using x(1) y(1) by blast
qed

lemma example_nullifier:
  "\<exists>n. deriveRunNullifier ref_lib leaf_upper ''2026-08'' 1 = Inr n \<and> deriveRunNullifier ref_lib leaf_lower ''2026-08'' 1 = Inr n"
proof -
  obtain a where a: "normalizedHexBytes ref_lib leaf_lower (Some 32) = Inr a" "length a = 32"
    using leaf_bytes_commitment [OF ref_lib_hex leaves_ok(4)] by blast
  have "\<exists>h. hashDomain ref_lib ''PAYO_RUN_V1'' [a, utf8 ''2026-08'', [0, 0, 0, 1]] = Inr h"
    by (rule hashDomain_total) (use a in auto)
  then show ?thesis using a(1) by (auto simp: deriveRunNullifier_def encodeU32_def leaf_case)
qed

theorem run_nullifier_binding_witness:
  "\<exists>n. deriveRunNullifier ref_lib leaf_upper ''2026-08'' 1 = Inr n
     \<and> deriveRunNullifier ref_lib leaf_lower ''2026-08'' 1 = Inr n \<and> hex_num leaf_upper = hex_num leaf_lower"
proof -
  obtain n where n: "deriveRunNullifier ref_lib leaf_upper ''2026-08'' 1 = Inr n"
    "deriveRunNullifier ref_lib leaf_lower ''2026-08'' 1 = Inr n" using example_nullifier by blast
  have "run_preimage ref_lib leaf_upper = run_preimage ref_lib leaf_lower"
    by (intro ext) (simp add: run_preimage_def leaf_case)
  with run_nullifier_binding [OF ref_lib_hex n] n show ?thesis by auto
qed

section \<open>Payroll lines and manifests\<close>

text \<open>C1: A payroll line is calculated exactly when it satisfies the schema, its gross pay is positive and below 2 to
  the 128 and its deductions do not exceed it; the line is then kept, with the texts of its gross pay, its
  deductions and their difference, all of them atomic amounts.\<close>

theorem payroll_line_exact:
  defines "gross \<equiv> \<lambda>l. \<Sum>v\<leftarrow>earningsAtomic l. bigint v" and "deductions \<equiv> \<lambda>l. \<Sum>v\<leftarrow>deductionsAtomic l. bigint v"
  shows "((\<exists>c. calculatePayrollLine l = Inr c)
      \<longleftrightarrow> privatePayrollLine_ok l \<and> 0 < gross l \<and> gross l < 2 ^ 128 \<and> deductions l \<le> gross l)
    \<and> (\<forall>c. calculatePayrollLine l = Inr c \<longrightarrow>
        private_line.truncate c = l
        \<and> bigint (grossAtomic c) = gross l \<and> bigint (deductionsTotalAtomic c) = deductions l
        \<and> bigint (netAtomic c) = gross l - deductions l
        \<and> atomicAmount_ok (grossAtomic c) \<and> atomicAmount_ok (deductionsTotalAtomic c) \<and> atomicAmount_ok (netAtomic c))"
proof -
  have "private_line.truncate c = l" if "calculatePayrollLine l = Inr c" for c
    using that by (auto simp: calculatePayrollLine_Inr_iff Let_def private_line.defs calculated_line.defs)
  moreover have "(\<exists>c. calculatePayrollLine l = Inr c)
      \<longleftrightarrow> privatePayrollLine_ok l \<and> 0 < gross l \<and> gross l < 2 ^ 128 \<and> deductions l \<le> gross l"
    unfolding calculatePayrollLine_Inr_iff Let_def PAYO_MAX_U128_value gross_def deductions_def by auto
  ultimately show ?thesis
    unfolding gross_def deductions_def using calculatePayrollLine_fields(4-9) by (intro conjI allI impI)
qed

definition example_line :: "string \<Rightarrow> string \<Rightarrow> private_line" where
  "example_line agreement recipient =
     \<lparr>agreementId = agreement, recipientAddress = recipient, line_token = USDC, earningsAtomic = [''1000'', ''250''],
      deductionsAtomic = [''50''], committedPolicyId = ''policy'', scheduleCommitment = leaf_a, salt = leaf_b\<rparr>"

lemma example_line_calculated:
  assumes "agreement \<in> {''a1'', ''a2''}" "recipient \<in> {''0x01'', ''0x1'', ''0x2''}"
  shows "\<exists>c. calculatePayrollLine (example_line agreement recipient) = Inr c
    \<and> agreementId c = agreement \<and> recipientAddress c = recipient \<and> line_token c = USDC \<and> bigint (netAtomic c) = 1200"
proof -
  have "atomicAmount_ok ''1000''" "atomicAmount_ok ''250''" "atomicAmount_ok ''50''"
    "bigint ''1000'' = 1000" "bigint ''250'' = 250" "bigint ''50'' = 50"
    "starknet_address_ok ''0x01''" "starknet_address_ok ''0x1''" "starknet_address_ok ''0x2''"
    by code_simp+
  then show ?thesis
    using assms leaves_ok
    by (auto simp: calculatePayrollLine_Inr_iff example_line_def privatePayrollLine_ok_def Let_def PAYO_MAX_U128_value
        private_line.defs calculated_line.defs)
qed

theorem payroll_line_exact_witness:
  "\<exists>c. calculatePayrollLine (example_line ''a1'' ''0x1'') = Inr c \<and> bigint (netAtomic c) = 1200
     \<and> private_line.truncate c = example_line ''a1'' ''0x1''"
  using example_line_calculated [of "''a1''" "''0x1''"] payroll_line_exact [of "example_line ''a1'' ''0x1''"] by auto

lemma manifest_Inr:
  assumes "calculatePayrollManifest L lines = Inr m"
  obtains calc s where "1 \<le> length lines" "length lines \<le> 50" "rmap calculatePayrollLine lines = Inr calc"
    "rfold manifest_step \<lparr>agreementIds = {}, recipients = {}, loop_totals = (\<lambda>_. 0)\<rparr> calc = Inr s"
    "m = \<lparr>manifest_lines = sort_by (compare_lines L) calc, total_STRK = toString (loop_totals s STRK),
          total_USDC = toString (loop_totals s USDC)\<rparr>"
  using assms
  by (auto simp: calculatePayrollManifest_def rbind_Inr_iff Suc_le_eq split: if_splits)

text \<open>C30: A run is accepted exactly when it has 1 to 50 lines, every line calculates, and no two lines share an
  agreement or a payout key (the lower-cased address text with the token).\<close>

theorem manifest_accepted_iff:
  "(\<exists>m. calculatePayrollManifest L lines = Inr m) \<longleftrightarrow>
     1 \<le> length lines \<and> length lines \<le> 50
     \<and> (\<exists>calc. rmap calculatePayrollLine lines = Inr calc
          \<and> distinct (map agreementId calc) \<and> distinct (map payoutKey calc))"
proof
  assume "\<exists>m. calculatePayrollManifest L lines = Inr m"
  then obtain m where "calculatePayrollManifest L lines = Inr m" ..
  then show "1 \<le> length lines \<and> length lines \<le> 50
     \<and> (\<exists>calc. rmap calculatePayrollLine lines = Inr calc
          \<and> distinct (map agreementId calc) \<and> distinct (map payoutKey calc))"
    by (rule manifest_Inr) (use manifest_loop_result in blast)
next
  assume a: "1 \<le> length lines \<and> length lines \<le> 50
     \<and> (\<exists>calc. rmap calculatePayrollLine lines = Inr calc
          \<and> distinct (map agreementId calc) \<and> distinct (map payoutKey calc))"
  then obtain calc where c: "rmap calculatePayrollLine lines = Inr calc"
    "distinct (map agreementId calc)" "distinct (map payoutKey calc)" by blast
  then obtain s where "rfold manifest_step \<lparr>agreementIds = {}, recipients = {}, loop_totals = (\<lambda>_. 0)\<rparr> calc = Inr s"
    using manifest_loop_total [of calc "\<lparr>agreementIds = {}, recipients = {}, loop_totals = (\<lambda>_. 0)\<rparr>"] by auto
  with a c show "\<exists>m. calculatePayrollManifest L lines = Inr m"
    by (auto simp: calculatePayrollManifest_def)
qed

lemma example_run_accepted:
  assumes "keccak_32 L" "recipient \<in> {''0x01'', ''0x2''}"
  shows "\<exists>m. calculatePayrollManifest L [example_line ''a1'' ''0x1'', example_line ''a2'' recipient] = Inr m"
proof -
  obtain c where c: "calculatePayrollLine (example_line ''a1'' ''0x1'') = Inr c"
    "agreementId c = ''a1''" "recipientAddress c = ''0x1''" "line_token c = USDC"
    using example_line_calculated [of "''a1''" "''0x1''"] by auto
  obtain d where d: "calculatePayrollLine (example_line ''a2'' recipient) = Inr d"
    "agreementId d = ''a2''" "recipientAddress d = recipient" "line_token d = USDC"
    using example_line_calculated [of "''a2''" recipient] assms(2) by auto
  have "toLowerCase ''0x1'' @ '':'' @ token_symbol USDC = ''0x1:USDC''"
    "toLowerCase ''0x01'' @ '':'' @ token_symbol USDC = ''0x01:USDC''"
    "toLowerCase ''0x2'' @ '':'' @ token_symbol USDC = ''0x2:USDC''" by code_simp+
  then have "payoutKey c = ''0x1:USDC''" "payoutKey d \<in> {''0x01:USDC'', ''0x2:USDC''}"
    using c d assms(2) by (auto simp: payoutKey_def)
  then show ?thesis using c d by (auto simp: calculatePayrollManifest_def manifest_step_def)
qed

text \<open>
  The payout key compares the text of the address, not its number: two lines for one Starknet
  address written with and without a leading zero are not seen as duplicates.
\<close>

lemma same_address_twice_accepted:
  assumes "keccak_32 L"
  shows "bigint ''0x1'' = bigint ''0x01''
    \<and> (\<exists>m. calculatePayrollManifest L [example_line ''a1'' ''0x1'', example_line ''a2'' ''0x01''] = Inr m)"
proof -
  have "bigint ''0x1'' = bigint ''0x01''" by code_simp
  with example_run_accepted [OF assms] show ?thesis by simp
qed

lemma calculated_ids_short:
  "rmap calculatePayrollLine lines = Inr calc \<Longrightarrow> c \<in> set calc \<Longrightarrow> length (agreementId c) \<le> 160"
  using rmap_setD [of calculatePayrollLine lines calc c] calculatePayrollLine_fields(1)
  by (fastforce simp: calculatePayrollLine_Inr_iff privatePayrollLine_ok_def Let_def)

lemma manifest_sorted:
  assumes "keccak_32 L" "rmap calculatePayrollLine lines = Inr calc"
  shows "sort_by (compare_lines L) calc = sort_key (\<lambda>c. id_commitment L (agreementId c)) calc"
  using assms calculated_ids_short [OF assms(2)] by (intro sort_by_key compare_lines_sgn) auto

text \<open>C2: The manifest of an accepted run lists exactly the calculated lines, ordered by their agreement id
  commitments, without a repeated agreement or payout key, and its two totals are the sums of the net
  amounts paid in each token.\<close>

theorem manifest_contents:
  assumes "keccak_32 L" "calculatePayrollManifest L lines = Inr m"
  shows "\<exists>calc. rmap calculatePayrollLine lines = Inr calc
    \<and> mset (manifest_lines m) = mset calc
    \<and> sorted (map (\<lambda>c. id_commitment L (agreementId c)) (manifest_lines m))
    \<and> distinct (map agreementId (manifest_lines m)) \<and> distinct (map payoutKey (manifest_lines m))
    \<and> total_STRK m = toString (\<Sum>c\<leftarrow>filter (\<lambda>c. line_token c = STRK) calc. bigint (netAtomic c))
    \<and> total_USDC m = toString (\<Sum>c\<leftarrow>filter (\<lambda>c. line_token c = USDC) calc. bigint (netAtomic c))"
proof -
  obtain calc s where c: "rmap calculatePayrollLine lines = Inr calc"
    "rfold manifest_step \<lparr>agreementIds = {}, recipients = {}, loop_totals = (\<lambda>_. 0)\<rparr> calc = Inr s"
    "m = \<lparr>manifest_lines = sort_by (compare_lines L) calc, total_STRK = toString (loop_totals s STRK),
          total_USDC = toString (loop_totals s USDC)\<rparr>"
    using assms(2) by (rule manifest_Inr)
  have d: "distinct (map f (sort_key k xs)) \<longleftrightarrow> distinct (map f xs)" for f :: "calculated_line \<Rightarrow> string"
    and k :: "calculated_line \<Rightarrow> int" and xs
    by (intro mset_eq_imp_distinct_iff) simp
  show ?thesis
    using c manifest_loop_result [OF c(2)] manifest_sorted [OF assms(1) c(1)] d by simp
qed

theorem manifest_contents_witness:
  "\<exists>m. calculatePayrollManifest ref_lib [example_line ''a1'' ''0x1'', example_line ''a2'' ''0x2''] = Inr m
     \<and> sorted (map (\<lambda>c. id_commitment ref_lib (agreementId c)) (manifest_lines m))
     \<and> distinct (map payoutKey (manifest_lines m))"
proof -
  obtain m where "calculatePayrollManifest ref_lib [example_line ''a1'' ''0x1'', example_line ''a2'' ''0x2''] = Inr m"
    using example_run_accepted [OF ref_lib_keccak, of "''0x2''"] by auto
  with manifest_contents [OF ref_lib_keccak this] show ?thesis by blast
qed

text \<open>The manifest does not depend on the order in which the lines were entered, as long as the id
  commitments of the agreements are different.\<close>

theorem manifest_order_irrelevant:
  assumes "keccak_32 L" "calculatePayrollManifest L xs = Inr m" "mset xs = mset ys"
    and "distinct (map (\<lambda>l. id_commitment L (agreementId l)) xs)"
  shows "calculatePayrollManifest L ys = Inr m"
proof -
  obtain calc s where c: "1 \<le> length xs" "length xs \<le> 50" "rmap calculatePayrollLine xs = Inr calc"
    "rfold manifest_step \<lparr>agreementIds = {}, recipients = {}, loop_totals = (\<lambda>_. 0)\<rparr> calc = Inr s"
    "m = \<lparr>manifest_lines = sort_by (compare_lines L) calc, total_STRK = toString (loop_totals s STRK),
          total_USDC = toString (loop_totals s USDC)\<rparr>"
    using assms(2) by (rule manifest_Inr)
  let ?f = "\<lambda>l. projr (calculatePayrollLine l)" and ?key = "\<lambda>c. id_commitment L (agreementId c)"
  have f: "calculatePayrollLine l = Inr (?f l)" if "l \<in> set xs" for l
    using c(3) that by (auto simp: rmap_Inr_iff list_all2_conv_all_nth in_set_conv_nth)
  have X: "calc = map ?f xs" using c(3) rmap_total [of xs calculatePayrollLine ?f] f by simp
  have Y: "rmap calculatePayrollLine ys = Inr (map ?f ys)"
    using f mset_eq_setD [OF assms(3)] by (intro rmap_total) auto
  have m: "mset (map ?f ys) = mset calc" using assms(3) X by simp
  note L = manifest_loop_result [OF c(4)]
  have "distinct (map agreementId (map ?f ys))" "distinct (map payoutKey (map ?f ys))"
    using L mset_eq_imp_distinct_iff [of "map agreementId (map ?f ys)" "map agreementId calc"]
      mset_eq_imp_distinct_iff [of "map payoutKey (map ?f ys)" "map payoutKey calc"] m by (simp_all del: map_map)
  then obtain t where t: "rfold manifest_step \<lparr>agreementIds = {}, recipients = {}, loop_totals = (\<lambda>_. 0)\<rparr> (map ?f ys) = Inr t"
    using manifest_loop_total [of "map ?f ys" "\<lparr>agreementIds = {}, recipients = {}, loop_totals = (\<lambda>_. 0)\<rparr>"] by auto
  have tot: "loop_totals t tk = loop_totals s tk" for tk
  proof -
    have "mset (map (\<lambda>c. bigint (netAtomic c)) (filter (\<lambda>c. line_token c = tk) (map ?f ys)))
        = mset (map (\<lambda>c. bigint (netAtomic c)) (filter (\<lambda>c. line_token c = tk) calc))"
      using m by (simp only: mset_map mset_filter)
    then have "(\<Sum>c\<leftarrow>filter (\<lambda>c. line_token c = tk) (map ?f ys). bigint (netAtomic c))
        = (\<Sum>c\<leftarrow>filter (\<lambda>c. line_token c = tk) calc. bigint (netAtomic c))"
      by (metis sum_mset_sum_list)
    then show ?thesis using L manifest_loop_result [OF t] by simp
  qed
  have "map ?key calc = map (\<lambda>l. id_commitment L (agreementId l)) xs"
    unfolding X map_map by (rule map_cong) (use f calculatePayrollLine_fields(1) in auto)
  then have k: "distinct (map ?key calc)" using assms(4) by simp
  have "sort_key ?key (map ?f ys) = sort_key ?key calc"
    using sort_key_mset_unique [OF m [symmetric] k] by simp
  then have "sort_by (compare_lines L) (map ?f ys) = sort_by (compare_lines L) calc"
    using manifest_sorted [OF assms(1) c(3)] manifest_sorted [OF assms(1) Y] by simp
  moreover have "ys \<noteq> []" using c(1) assms(3) by auto
  ultimately show ?thesis
    using c Y t tot mset_eq_length [OF assms(3)] by (simp add: calculatePayrollManifest_def)
qed

lemma id_commitment_ref:
  "id_commitment ref_lib [CHR ''a'', c] = (decodeUint (utf8 ''PAYO_AGREEMENT_ID_V1'' @ [0, 0, 0, 2] @ utf8 ''a'') * 256
     + uint (word_of_nat (of_char c) :: byte)) mod 2 ^ 250"
proof -
  have "encodeField (utf8 [CHR ''a'', c]) = Inr ([0, 0, 0, 2] @ utf8 [CHR ''a'', c])"
    by (simp add: encodeField_def encodeU32_def concatBytes_concat)
  then have "hashTextCommitment ref_lib ''PAYO_AGREEMENT_ID_V1'' [CHR ''a'', c]
      = Inr (ref_digest ((utf8 ''PAYO_AGREEMENT_ID_V1'' @ [0, 0, 0, 2] @ utf8 ''a'') @ [word_of_nat (of_char c)]))"
    by (simp add: hashTextCommitment_def hashDomain_def concatBytes_concat ref_lib_def utf8_def)
  then show ?thesis
    unfolding id_commitment_def by (simp only: sum.case ref_digest_value decodeUint_snoc_arith)
qed

lemma example_id_commitments: "id_commitment ref_lib ''a1'' \<noteq> id_commitment ref_lib ''a2''"
proof -
  have "(d * 256 + 49) mod 2 ^ 250 \<noteq> (d * 256 + 50) mod (2 ^ 250 :: int)" for d
    by (simp add: mod_eq_dvd_iff)
  moreover have "uint (word_of_nat (of_char CHR ''1'') :: byte) = 49" "uint (word_of_nat (of_char CHR ''2'') :: byte) = 50"
    by simp_all
  ultimately show ?thesis unfolding id_commitment_ref by metis
qed

theorem manifest_order_irrelevant_witness:
  "\<exists>m. calculatePayrollManifest ref_lib [example_line ''a1'' ''0x1'', example_line ''a2'' ''0x2''] = Inr m
     \<and> calculatePayrollManifest ref_lib [example_line ''a2'' ''0x2'', example_line ''a1'' ''0x1''] = Inr m"
proof -
  obtain m where m: "calculatePayrollManifest ref_lib [example_line ''a1'' ''0x1'', example_line ''a2'' ''0x2''] = Inr m"
    using example_run_accepted [OF ref_lib_keccak, of "''0x2''"] by auto
  have "distinct (map (\<lambda>l. id_commitment ref_lib (agreementId l)) [example_line ''a1'' ''0x1'', example_line ''a2'' ''0x2''])"
    using example_id_commitments by (simp add: example_line_def)
  from manifest_order_irrelevant [OF ref_lib_keccak m _ this, of "[example_line ''a2'' ''0x2'', example_line ''a1'' ''0x1'']"] m
  show ?thesis by (simp add: add_mset_commute)
qed

section \<open>The life cycle of a run\<close>

text \<open>C31: A run that reaches the chain has been proven and approved: every history from a draft to the submitted state
  passes through the proven and the approval-pending state, and every history to the reconciled state also
  through the submitted and the confirmed state, and a reconciled run never changes again.\<close>

theorem run_lifecycle:
  assumes "run_history Run_draft ts = Inr b" "b \<in> {Run_submitted, Run_reconciled}"
  shows "Run_proven \<in> set ts \<and> Run_approval_pending \<in> set ts
    \<and> (b = Run_reconciled \<longrightarrow> Run_submitted \<in> set ts \<and> Run_confirmed \<in> set ts)
    \<and> (b = Run_reconciled \<longrightarrow> run_history b us = Inr e \<longrightarrow> us = [])"
proof -
  note pass = runs.walk_must_pass [OF assms(1) [unfolded run_history_def]]
  have "Run_proven \<in> set ts"
    by (rule pass [of "{Run_draft, Run_calculated, Run_cancelled}"]) (use assms(2) in auto)
  moreover have "Run_approval_pending \<in> set ts"
    by (rule pass [of "{Run_draft, Run_calculated, Run_proven, Run_cancelled}"]) (use assms(2) in auto)
  moreover have "us = []" if "b = Run_reconciled" "run_history b us = Inr e"
    using runs.walk_from_terminal [of b us e] that by (simp add: run_history_def)
  moreover have "Run_submitted \<in> set ts" if "b = Run_reconciled"
    by (rule pass [of "{Run_draft, Run_calculated, Run_proven, Run_approval_pending, Run_cancelled}"]) (use that in auto)
  moreover have "Run_confirmed \<in> set ts" if "b = Run_reconciled"
    by (rule pass [of "{Run_draft, Run_calculated, Run_proven, Run_approval_pending, Run_submitted, Run_failed, Run_cancelled}"])
      (use that in auto)
  ultimately show ?thesis by blast
qed

theorem run_lifecycle_witness:
  "let ts = [Run_calculated, Run_proven, Run_approval_pending, Run_submitted, Run_confirmed, Run_reconciled] in
   run_history Run_draft ts = Inr Run_reconciled \<and> Run_confirmed \<in> set ts"
proof -
  have h: "run_history Run_draft [Run_calculated, Run_proven, Run_approval_pending, Run_submitted, Run_confirmed, Run_reconciled]
      = Inr Run_reconciled"
    by (simp add: run_history_def assertPayrollTransition_def)
  from run_lifecycle [OF h] h show ?thesis by simp
qed

end
