(* ===== verification/Calendar.thy ===== *)
theory Calendar
  imports JsStrings
begin

text \<open>
  The part of the JavaScript \<open>Date\<close> object the source uses, after the definitions of the
  ECMAScript specification: time values in milliseconds, the proleptic Gregorian calendar in UTC,
  \<open>Date.UTC\<close>, \<open>setUTCDate\<close>, \<open>toISOString\<close>, and the reading of the timestamps the schemas accept
  (\<open>z.string().datetime()\<close>: an ISO 8601 instant in UTC with optional seconds and fraction).
\<close>

definition msPerDay :: int where "msPerDay = 86400000"

definition is_leap :: "int \<Rightarrow> bool" where
  "is_leap y = (y mod 4 = 0 \<and> (y mod 100 \<noteq> 0 \<or> y mod 400 = 0))"

definition DayFromYear :: "int \<Rightarrow> int" where
  "DayFromYear y = 365 * (y - 1970) + (y - 1969) div 4 - (y - 1901) div 100 + (y - 1601) div 400"

definition YearFromDay :: "int \<Rightarrow> int" where
  "YearFromDay d =
     (let y = 1970 + (d * 400) div 146097
      in if d < DayFromYear y then y - 1 else if DayFromYear (y + 1) \<le> d then y + 1 else y)"

definition month_start :: "bool \<Rightarrow> int \<Rightarrow> int" where
  "month_start leap m =
     (let l = (if leap then 1 else 0) in
      if m \<le> 0 then 0 else if m = 1 then 31 else if m = 2 then 59 + l else if m = 3 then 90 + l
      else if m = 4 then 120 + l else if m = 5 then 151 + l else if m = 6 then 181 + l
      else if m = 7 then 212 + l else if m = 8 then 243 + l else if m = 9 then 273 + l
      else if m = 10 then 304 + l else if m = 11 then 334 + l else 365 + l)"

definition month_of :: "bool \<Rightarrow> int \<Rightarrow> int" where
  "month_of leap k =
     (let l = (if leap then 1 else 0) in
      if k < 31 then 0 else if k < 59 + l then 1 else if k < 90 + l then 2 else if k < 120 + l then 3
      else if k < 151 + l then 4 else if k < 181 + l then 5 else if k < 212 + l then 6
      else if k < 243 + l then 7 else if k < 273 + l then 8 else if k < 304 + l then 9
      else if k < 334 + l then 10 else 11)"

definition days_in_month :: "bool \<Rightarrow> int \<Rightarrow> int" where
  "days_in_month leap m = month_start leap (m + 1) - month_start leap m"

definition getUTCFullYear :: "int \<Rightarrow> int" where
  "getUTCFullYear t = YearFromDay (t div msPerDay)"

definition DayWithinYear :: "int \<Rightarrow> int" where
  "DayWithinYear t = t div msPerDay - DayFromYear (getUTCFullYear t)"

definition getUTCMonth :: "int \<Rightarrow> int" where
  "getUTCMonth t = month_of (is_leap (getUTCFullYear t)) (DayWithinYear t)"

definition getUTCDate :: "int \<Rightarrow> int" where
  "getUTCDate t = DayWithinYear t - month_start (is_leap (getUTCFullYear t)) (getUTCMonth t) + 1"

definition TimeWithinDay :: "int \<Rightarrow> int" where
  "TimeWithinDay t = t mod msPerDay"

definition MakeDay :: "int \<Rightarrow> int \<Rightarrow> int \<Rightarrow> int" where
  "MakeDay year month date =
     (let ym = year + month div 12
      in DayFromYear ym + month_start (is_leap ym) (month mod 12) + date - 1)"

text \<open>\<open>Date.UTC\<close> reads the years 0 to 99 as 1900 to 1999.\<close>

definition Date_UTC :: "int \<Rightarrow> int \<Rightarrow> int \<Rightarrow> int \<Rightarrow> int" where
  "Date_UTC year month date time =
     MakeDay (if 0 \<le> year \<and> year \<le> 99 then 1900 + year else year) month date * msPerDay + time"

definition setUTCDate :: "int \<Rightarrow> int \<Rightarrow> int" where
  "setUTCDate t date = MakeDay (getUTCFullYear t) (getUTCMonth t) date * msPerDay + TimeWithinDay t"

section \<open>Text\<close>

definition iso_year :: "int \<Rightarrow> string" where
  "iso_year y = (if 0 \<le> y \<and> y \<le> 9999 then pad 4 y
                 else if y < 0 then ''-'' @ pad 6 (- y) else ''+'' @ pad 6 y)"

definition toISOString :: "int \<Rightarrow> string" where
  "toISOString t =
     (let w = TimeWithinDay t in
      iso_year (getUTCFullYear t) @ ''-'' @ pad 2 (getUTCMonth t + 1) @ ''-'' @ pad 2 (getUTCDate t)
      @ ''T'' @ pad 2 (w div 3600000) @ '':'' @ pad 2 (w div 60000 mod 60)
      @ '':'' @ pad 2 (w div 1000 mod 60) @ ''.'' @ pad 3 (w mod 1000) @ ''Z'')"

text \<open>Seconds, fraction and the closing \<open>Z\<close>: milliseconds are the first three fraction digits.\<close>

definition parse_seconds :: "string \<Rightarrow> int option" where
  "parse_seconds s =
     (if s = ''Z'' then Some 0
      else case s of
        c # s1 # s2 # rest \<Rightarrow>
          (if c = CHR '':'' \<and> is_digit s1 \<and> is_digit s2 \<and> hex_val s1 \<le> 5 then
             let sec = int (value_base 10 [s1, s2]) * 1000 in
             if rest = ''Z'' then Some sec
             else case rest of
               p # more \<Rightarrow>
                 (if p = CHR ''.'' \<and> 2 \<le> length more \<and> last more = CHR ''Z'' \<and> list_all is_digit (butlast more)
                  then Some (sec + int (value_base 10 (take 3 (butlast more @ ''00''))))
                  else None)
             | [] \<Rightarrow> None
           else None)
      | _ \<Rightarrow> None)"

definition parse_datetime :: "string \<Rightarrow> int option" where
  "parse_datetime s =
     (let y = take 4 s; mo = take 2 (drop 5 s); d = take 2 (drop 8 s);
          h = take 2 (drop 11 s); mi = take 2 (drop 14 s);
          year = int (value_base 10 y); month = int (value_base 10 mo); date = int (value_base 10 d);
          hour = int (value_base 10 h); minute = int (value_base 10 mi)
      in if 16 < length s \<and> list_all is_digit (y @ mo @ d @ h @ mi)
            \<and> s ! 4 = CHR ''-'' \<and> s ! 7 = CHR ''-'' \<and> s ! 10 = CHR ''T'' \<and> s ! 13 = CHR '':''
            \<and> 1 \<le> month \<and> month \<le> 12 \<and> 1 \<le> date \<and> date \<le> days_in_month (is_leap year) (month - 1)
            \<and> hour \<le> 23 \<and> minute \<le> 59
         then map_option (\<lambda>sec. MakeDay year (month - 1) date * msPerDay + hour * 3600000 + minute * 60000 + sec)
                (parse_seconds (drop 16 s))
         else None)"

definition datetime_ok :: "string \<Rightarrow> bool" where
  "datetime_ok s = (parse_datetime s \<noteq> None)"

text \<open>\<open>new Date(s).getTime()\<close> on an accepted timestamp.\<close>

definition getTime :: "string \<Rightarrow> int" where
  "getTime s = (case parse_datetime s of Some t \<Rightarrow> t | None \<Rightarrow> 0)"

section \<open>The calendar is consistent\<close>

definition days_in_year :: "int \<Rightarrow> int" where
  "days_in_year y = (if is_leap y then 366 else 365)"

lemma div_step:
  fixes a k :: int
  assumes "0 < k"
  shows "(a + 1) div k = a div k + (if (a + 1) mod k = 0 then 1 else 0)"
proof -
  have "(a + 1) mod k = 0 \<longleftrightarrow> k dvd a + 1" by (simp add: mod_eq_0_iff_dvd)
  have e: "a = k * (a div k) + a mod k" by simp
  have b: "0 \<le> a mod k" "a mod k < k" using assms by simp_all
  show ?thesis
  proof (cases "a mod k = k - 1")
    case True
    have "k * (a div k + 1) = k * (a div k) + k" by (simp add: distrib_left)
    with True e have "a + 1 = k * (a div k + 1)" by linarith
    then have "(a + 1) div k = a div k + 1" "(a + 1) mod k = 0" using assms by simp_all
    then show ?thesis by simp
  next
    case False
    then have s: "0 \<le> a mod k + 1" "a mod k + 1 < k" using b by linarith+
    have a1: "a + 1 = k * (a div k) + (a mod k + 1)" using e by linarith
    have "(a + 1) div k = a div k" "(a + 1) mod k = a mod k + 1"
      using int_div_pos_eq [OF a1 s] int_mod_pos_eq [OF a1 s] by simp_all
    then show ?thesis using b(1) by simp
  qed
qed

lemma div_bounds:
  fixes a k :: int
  assumes "0 < k"
  shows "k * (a div k) \<le> a" "a \<le> k * (a div k) + (k - 1)"
  using mult_div_mod_eq [of k a] pos_mod_bound [OF assms, of a] pos_mod_sign [OF assms, of a] by linarith+

lemma mod_shift: "(y - q * k) mod k = y mod (k::int)"
  using mod_mult_self1 [of y "- q" k] by simp

lemma leap_mods: "(y::int) mod 400 = 0 \<Longrightarrow> y mod 100 = 0" "(y::int) mod 100 = 0 \<Longrightarrow> y mod 4 = 0"
proof -
  have a: "(100::int) dvd 400" "(4::int) dvd 100" by simp_all
  show "y mod 100 = 0" if "y mod 400 = 0"
    using dvd_trans [OF a(1), of y] that by (simp only: mod_eq_0_iff_dvd)
  show "y mod 4 = 0" if "y mod 100 = 0"
    using dvd_trans [OF a(2), of y] that by (simp only: mod_eq_0_iff_dvd)
qed

lemma leap_arith:
  fixes y A B C :: int
  assumes "c \<Longrightarrow> b" "b \<Longrightarrow> a"
  shows "365 * (y + 1 - 1970) + (A + (if a then 1 else 0)) - (B + (if b then 1 else 0)) + (C + (if c then 1 else 0))
    = 365 * (y - 1970) + A - B + C + (if a \<and> (\<not> b \<or> c) then 366 else 365)"
  using assms by auto

lemma DayFromYear_Suc: "DayFromYear (y + 1) = DayFromYear y + days_in_year y"
proof -
  have a: "(y + 1 - 1969) div 4 = (y - 1969) div 4 + (if y mod 4 = 0 then 1 else 0)"
    using div_step [of 4 "y - 1969"] mod_shift [of y 492 4] by simp
  have b: "(y + 1 - 1901) div 100 = (y - 1901) div 100 + (if y mod 100 = 0 then 1 else 0)"
    using div_step [of 100 "y - 1901"] mod_shift [of y 19 100] by simp
  have c: "(y + 1 - 1601) div 400 = (y - 1601) div 400 + (if y mod 400 = 0 then 1 else 0)"
    using div_step [of 400 "y - 1601"] mod_shift [of y 4 400] by simp
  show ?thesis
    unfolding DayFromYear_def a b c days_in_year_def is_leap_def
    by (rule leap_arith) (rule leap_mods, assumption)+
qed

lemma DayFromYear_mono: "x \<le> y \<Longrightarrow> DayFromYear x \<le> DayFromYear y"
proof (induction y rule: int_ge_induct)
  case base
  show ?case by simp
next
  case (step y)
  then show ?case by (simp add: DayFromYear_Suc days_in_year_def)
qed

text \<open>The estimate of \<open>YearFromDay\<close> is off by at most one year.\<close>

lemma year_estimate:
  fixes q d A B C :: int
  assumes "4 * A \<le> q" "q + 68 \<le> 100 * B + 99" "400 * C \<le> q + 368" "146097 * q \<le> d * 400"
  shows "365 * (q - 1) + A - B + C \<le> d"
proof -
  have "400 * (365 * (q - 1) + A - B + C) \<le> 400 * d"
    using assms by (simp add: algebra_simps)
  then show ?thesis by simp
qed

lemma year_estimate_upper:
  fixes q d A B C :: int
  assumes "q + 3 \<le> 4 * A + 3" "100 * B \<le> q + 71" "q + 371 \<le> 400 * C + 399"
    "d * 400 \<le> 146097 * q + 146096"
  shows "d < 365 * (q + 2) + A - B + C"
proof -
  have "400 * d < 400 * (365 * (q + 2) + A - B + C)"
    using assms by (simp add: algebra_simps)
  then show ?thesis by simp
qed

lemma YearFromDay_bounds:
  "DayFromYear (YearFromDay d) \<le> d \<and> d < DayFromYear (YearFromDay d + 1)"
proof -
  define q where "q = d * 400 div 146097"
  have q: "146097 * q \<le> d * 400" "d * 400 \<le> 146097 * q + 146096"
    unfolding q_def using div_bounds [of 146097 "d * 400"] by simp_all
  define y where "y = 1970 + q"
  have e1: "DayFromYear (y - 1) = 365 * (q - 1) + q div 4 - (q + 68) div 100 + (q + 368) div 400"
    unfolding DayFromYear_def y_def by (simp add: add.commute)
  have up: "DayFromYear (y - 1) \<le> d"
    unfolding e1 using div_bounds [of 4 q] div_bounds [of 100 "q + 68"] div_bounds [of 400 "q + 368"] q
    by (intro year_estimate) simp_all
  have e2: "DayFromYear (y + 2) = 365 * (q + 2) + (q + 3) div 4 - (q + 71) div 100 + (q + 371) div 400"
    unfolding DayFromYear_def y_def by (simp add: add.commute)
  have low: "d < DayFromYear (y + 2)"
    unfolding e2 using div_bounds [of 4 "q + 3"] div_bounds [of 100 "q + 71"] div_bounds [of 400 "q + 371"] q
    by (intro year_estimate_upper) simp_all
  have "d < DayFromYear (y + 1 + 1)" "DayFromYear (y - 1) \<le> d" using up low by (simp_all add: add.assoc)
  then show ?thesis
    unfolding YearFromDay_def q_def [symmetric] y_def [symmetric] Let_def by auto
qed

lemma YearFromDay_unique:
  assumes "DayFromYear y \<le> d" "d < DayFromYear (y + 1)"
  shows "YearFromDay d = y"
proof (rule ccontr)
  assume "YearFromDay d \<noteq> y"
  then consider "YearFromDay d + 1 \<le> y" | "y + 1 \<le> YearFromDay d" by linarith
  then show False
  proof cases
    case 1
    then show False using DayFromYear_mono [OF 1] YearFromDay_bounds [of d] assms by linarith
  next
    case 2
    then show False using DayFromYear_mono [OF 2] YearFromDay_bounds [of d] assms by linarith
  qed
qed

lemma month_of_bounds:
  assumes "0 \<le> k" "k < (if leap then 366 else 365)"
  shows "0 \<le> month_of leap k \<and> month_of leap k \<le> 11
    \<and> month_start leap (month_of leap k) \<le> k \<and> k < month_start leap (month_of leap k + 1)"
  using assms by (cases leap) (simp_all add: month_of_def month_start_def)

lemma month_cases:
  assumes "0 \<le> (m::int)" "m \<le> 11"
  shows "m = 0 \<or> m = 1 \<or> m = 2 \<or> m = 3 \<or> m = 4 \<or> m = 5 \<or> m = 6 \<or> m = 7 \<or> m = 8 \<or> m = 9 \<or> m = 10 \<or> m = 11"
  using assms by presburger

lemma month_of_unique:
  assumes "0 \<le> m" "m \<le> 11" "month_start leap m \<le> k" "k < month_start leap (m + 1)"
  shows "month_of leap k = m"
  using month_cases [OF assms(1,2)] assms(3,4)
  by (elim disjE; cases leap; simp add: month_of_def month_start_def)

lemma month_start_bounds:
  "0 \<le> m \<Longrightarrow> m \<le> 11 \<Longrightarrow> 0 \<le> month_start leap m \<and> month_start leap (m + 1) \<le> (if leap then 366 else 365)"
proof -
  assume "0 \<le> m" "m \<le> 11"
  from month_cases [OF this] show ?thesis
    by (elim disjE; cases leap; simp add: month_start_def)
qed

lemma days_in_month_bounds: "0 \<le> m \<Longrightarrow> m \<le> 11 \<Longrightarrow> 28 \<le> days_in_month leap m \<and> days_in_month leap m \<le> 31"
proof -
  assume "0 \<le> m" "m \<le> 11"
  from month_cases [OF this] show ?thesis
    by (elim disjE; cases leap; simp add: days_in_month_def month_start_def)
qed

text \<open>The fields of a time value, and the time value of given fields: mutually inverse.\<close>

lemma utc_fields:
  "0 \<le> getUTCMonth t \<and> getUTCMonth t \<le> 11 \<and> 1 \<le> getUTCDate t
   \<and> getUTCDate t \<le> days_in_month (is_leap (getUTCFullYear t)) (getUTCMonth t)
   \<and> MakeDay (getUTCFullYear t) (getUTCMonth t) (getUTCDate t) = t div msPerDay"
proof -
  let ?y = "getUTCFullYear t"
  have y: "DayFromYear ?y \<le> t div msPerDay" "t div msPerDay < DayFromYear ?y + days_in_year ?y"
    using YearFromDay_bounds [of "t div msPerDay"] by (simp_all add: getUTCFullYear_def DayFromYear_Suc)
  then have k: "0 \<le> DayWithinYear t" "DayWithinYear t < (if is_leap ?y then 366 else 365)"
    by (auto simp: DayWithinYear_def days_in_year_def split: if_splits)
  note m = month_of_bounds [OF k]
  then show ?thesis
    by (simp add: getUTCMonth_def getUTCDate_def days_in_month_def MakeDay_def DayWithinYear_def)
qed

lemma utc_fields_unique:
  assumes "0 \<le> m" "m \<le> 11" "1 \<le> d" "d \<le> days_in_month (is_leap y) m" "0 \<le> w" "w < msPerDay"
  defines "t \<equiv> MakeDay y m d * msPerDay + w"
  shows "getUTCFullYear t = y" "getUTCMonth t = m" "getUTCDate t = d" "TimeWithinDay t = w"
proof -
  have p: "0 < msPerDay" by (simp add: msPerDay_def)
  have md: "MakeDay y m d = DayFromYear y + month_start (is_leap y) m + d - 1"
    using assms(1,2) by (simp add: MakeDay_def)
  have day: "t div msPerDay = MakeDay y m d" "t mod msPerDay = w"
    unfolding t_def using p assms(5,6) by simp_all
  have b: "0 \<le> month_start (is_leap y) m" "month_start (is_leap y) (m + 1) \<le> days_in_year y"
    using month_start_bounds [OF assms(1,2), of "is_leap y"] by (simp_all add: days_in_year_def)
  have "DayFromYear y \<le> MakeDay y m d" "MakeDay y m d < DayFromYear (y + 1)"
    using b assms(3,4) by (simp_all add: md DayFromYear_Suc days_in_month_def)
  then show y: "getUTCFullYear t = y" unfolding getUTCFullYear_def day by (rule YearFromDay_unique)
  have k: "DayWithinYear t = month_start (is_leap y) m + d - 1"
    by (simp add: DayWithinYear_def y day md)
  show m: "getUTCMonth t = m"
    unfolding getUTCMonth_def y using assms(1-4) by (intro month_of_unique) (simp_all add: k days_in_month_def)
  show "getUTCDate t = d" by (simp add: getUTCDate_def y m k)
  show "TimeWithinDay t = w" by (simp add: TimeWithinDay_def day)
qed

lemma time_value_split: "t = t div msPerDay * msPerDay + TimeWithinDay t"
  by (simp add: TimeWithinDay_def)

lemma TimeWithinDay_bounds: "0 \<le> TimeWithinDay t" "TimeWithinDay t < msPerDay"
  by (simp_all add: TimeWithinDay_def msPerDay_def)


section \<open>Printing and reading timestamps\<close>

lemma two_digits: "length s = 2 \<Longrightarrow> \<exists>a b. s = [a, b]"
  by (auto simp: length_Suc_conv eval_nat_numeral)

lemma three_digits: "length s = 3 \<Longrightarrow> \<exists>a b c. s = [a, b, c]"
  by (auto simp: length_Suc_conv eval_nat_numeral)

lemma four_digits: "length s = 4 \<Longrightarrow> \<exists>a b c d. s = [a, b, c, d]"
  by (auto simp: length_Suc_conv eval_nat_numeral)

lemma parse_seconds_print:
  assumes "0 \<le> sec" "sec < 60" "0 \<le> ms" "ms < 1000"
  shows "parse_seconds (CHR '':'' # pad 2 sec @ CHR ''.'' # pad 3 ms @ ''Z'') = Some (sec * 1000 + ms)"
proof -
  have p: "sec < 10 ^ 2" "ms < 10 ^ 3" using assms by simp_all
  note S = pad_digits [OF assms(1) p(1)] and M = pad_digits [OF assms(3) p(2)]
  obtain s1 s2 where s: "pad 2 sec = [s1, s2]"
    using two_digits [OF S(1)] by auto
  obtain m1 m2 m3 where m: "pad 3 ms = [m1, m2, m3]"
    using three_digits [OF M(1)] by auto
  have v: "int (value_base 10 [s1, s2]) = sec" "int (value_base 10 [m1, m2, m3]) = ms"
    using S(3) M(3) s m by simp_all
  have d: "is_digit s1" "is_digit s2" "list_all is_digit [m1, m2, m3]"
    using S(2) M(2) s m by simp_all
  have "hex_val s1 * 10 \<le> value_base 10 [s1, s2]" by (simp add: value_base_Cons)
  then have "hex_val s1 \<le> 5" using v(1) assms(2) by linarith
  then show ?thesis using d v by (simp add: parse_seconds_def s m Let_def)
qed

lemma time_of_day_split:
  assumes "0 \<le> w" "w < msPerDay"
  shows "w div 3600000 \<le> 23" "0 \<le> w div 3600000"
    and "w = w div 3600000 * 3600000 + w div 60000 mod 60 * 60000 + (w div 1000 mod 60 * 1000 + w mod 1000)"
proof -
  have "w div 3600000 < 24" using assms by (simp add: msPerDay_def div_less_iff_less_mult)
  then show "w div 3600000 \<le> 23" by simp
  show "0 \<le> w div 3600000" using assms by (simp add: pos_imp_zdiv_nonneg_iff)
  have "w div 3600000 = w div 60000 div 60" "w div 60000 = w div 1000 div 60"
    by (simp_all add: zdiv_zmult2_eq [symmetric])
  moreover have "w = w div 1000 * 1000 + w mod 1000" "w div 1000 = w div 1000 div 60 * 60 + w div 1000 mod 60"
    "w div 60000 = w div 60000 div 60 * 60 + w div 60000 mod 60" by simp_all
  ultimately show "w = w div 3600000 * 3600000 + w div 60000 mod 60 * 60000 + (w div 1000 mod 60 * 1000 + w mod 1000)"
    by linarith
qed

lemma parse_datetime_digits:
  "rest \<noteq> [] \<Longrightarrow>
   parse_datetime ([ya, yb, yc, yd, CHR ''-'', ma, mb, CHR ''-'', da, db, CHR ''T'', ha, hb, CHR '':'', ia, ib] @ rest) =
     (let year = int (value_base 10 [ya, yb, yc, yd]); month = int (value_base 10 [ma, mb]);
          date = int (value_base 10 [da, db]); hour = int (value_base 10 [ha, hb]);
          minute = int (value_base 10 [ia, ib])
      in if list_all is_digit [ya, yb, yc, yd, ma, mb, da, db, ha, hb, ia, ib]
            \<and> 1 \<le> month \<and> month \<le> 12 \<and> 1 \<le> date \<and> date \<le> days_in_month (is_leap year) (month - 1)
            \<and> hour \<le> 23 \<and> minute \<le> 59
         then map_option (\<lambda>sec. MakeDay year (month - 1) date * msPerDay + hour * 3600000 + minute * 60000 + sec)
                (parse_seconds rest)
         else None)"
  by (cases rest) (simp_all add: parse_datetime_def Let_def)

text \<open>Every instant of the years 0 to 9999 is read back from its ISO text.\<close>

lemma parse_toISOString:
  assumes "0 \<le> getUTCFullYear t" "getUTCFullYear t \<le> 9999"
  shows "parse_datetime (toISOString t) = Some t"
proof -
  define w where "w = TimeWithinDay t"
  let ?y = "getUTCFullYear t" and ?m = "getUTCMonth t" and ?d = "getUTCDate t"
  have F: "0 \<le> ?m" "?m \<le> 11" "1 \<le> ?d" "?d \<le> days_in_month (is_leap ?y) ?m" "MakeDay ?y ?m ?d = t div msPerDay"
    using utc_fields [of t] by simp_all
  have d31: "?d \<le> 31" using F days_in_month_bounds [of ?m "is_leap ?y"] by linarith
  have w: "0 \<le> w" "w < msPerDay" using TimeWithinDay_bounds w_def by simp_all
  note W = time_of_day_split [OF w]
  have h: "w div 3600000 < 10 ^ 2" "w div 60000 mod 60 < 10 ^ 2"
    using W(1) pos_mod_bound [of 60 "w div 60000"] by simp_all
  have y4: "?y < 10 ^ 4" "?m + 1 < 10 ^ 2" "?d < 10 ^ 2" "0 \<le> ?m + 1" "0 \<le> ?d" using assms F d31 by simp_all
  note Y = pad_digits [OF assms(1) y4(1)] and M = pad_digits [OF y4(4,2)] and D = pad_digits [OF y4(5,3)]
    and H = pad_digits [OF W(2) h(1)] and MI = pad_digits [OF pos_mod_sign h(2)]
  obtain ya yb yc yd where y: "pad 4 ?y = [ya, yb, yc, yd]" using four_digits [OF Y(1)] by auto
  obtain ma mb where m: "pad 2 (?m + 1) = [ma, mb]" using two_digits [OF M(1)] by auto
  obtain da db where d: "pad 2 ?d = [da, db]" using two_digits [OF D(1)] by auto
  obtain ha hb where hh: "pad 2 (w div 3600000) = [ha, hb]" using two_digits [OF H(1)] by auto
  obtain ia ib where mi: "pad 2 (w div 60000 mod 60) = [ia, ib]" using two_digits [OF MI(1)] by auto
  have vals: "int (value_base 10 [ya, yb, yc, yd]) = ?y" "int (value_base 10 [ma, mb]) = ?m + 1"
    "int (value_base 10 [da, db]) = ?d" "int (value_base 10 [ha, hb]) = w div 3600000"
    "int (value_base 10 [ia, ib]) = w div 60000 mod 60"
    using Y(3) M(3) D(3) H(3) MI(3) by (simp_all add: y m d hh mi)
  have digs: "list_all is_digit ([ya, yb, yc, yd] @ [ma, mb] @ [da, db] @ [ha, hb] @ [ia, ib])"
    using Y(2) M(2) D(2) H(2) MI(2) by (simp add: y m d hh mi)
  define rest where "rest = CHR '':'' # pad 2 (w div 1000 mod 60) @ CHR ''.'' # pad 3 (w mod 1000) @ ''Z''"
  have sec: "parse_seconds rest = Some (w div 1000 mod 60 * 1000 + w mod 1000)"
    unfolding rest_def by (rule parse_seconds_print) simp_all
  have iso: "toISOString t = [ya, yb, yc, yd, CHR ''-'', ma, mb, CHR ''-'', da, db, CHR ''T'', ha, hb, CHR '':'', ia, ib] @ rest"
    using assms by (simp add: toISOString_def iso_year_def w_def [symmetric] y m d hh mi rest_def Let_def)
  have ne: "rest \<noteq> []" by (simp add: rest_def)
  have "w div 60000 mod 60 \<le> 59" using pos_mod_bound [of 60 "w div 60000"] by simp
  then have "parse_datetime (toISOString t)
      = Some (MakeDay ?y ?m ?d * msPerDay + w div 3600000 * 3600000 + w div 60000 mod 60 * 60000
          + (w div 1000 mod 60 * 1000 + w mod 1000))"
    using F W(1) digs unfolding iso parse_datetime_digits [OF ne] vals Let_def sec by simp
  also have "\<dots> = Some t" using W(3) F(5) time_value_split [of t] w_def by (simp add: ac_simps)
  finally show ?thesis .
qed

lemma getTime_toISOString:
  "0 \<le> getUTCFullYear t \<Longrightarrow> getUTCFullYear t \<le> 9999 \<Longrightarrow> getTime (toISOString t) = t \<and> datetime_ok (toISOString t)"
  by (simp add: getTime_def datetime_ok_def parse_toISOString)

end
