(* ===== verification/Schedules.thy ===== *)
theory Schedules
  imports Payroll Calendar
begin

text \<open>
  Model of the first half of \<open>lib/domain/obligations.ts\<close>: pay schedules, when they are due, how a
  recurring schedule advances, what a stream or a vesting schedule has accrued, final pay, and the
  floor of a foreign-currency settlement.  A \<open>Date\<close> argument is its time value in milliseconds.
\<close>

section \<open>Schedules\<close>

datatype cadence = Weekly | Biweekly | Monthly

text \<open>
  \<open>Recurring cadence nextDueAt\<close>, \<open>Stream_schedule startsAt endsAt totalAtomic claimedAtomic\<close>,
  \<open>Milestone milestoneCommitment approved dueAt\<close> and
  \<open>Vesting startsAt cliffAt endsAt totalAtomic releasedAtomic\<close>.
\<close>

datatype pay_schedule =
    Recurring cadence string
  | Stream_schedule string string string string
  | Milestone string bool string
  | Vesting string string string string string

fun payScheduleSchema :: "pay_schedule \<Rightarrow> bool" where
  "payScheduleSchema (Recurring cadence nextDueAt) = datetime_ok nextDueAt"
| "payScheduleSchema (Stream_schedule startsAt endsAt totalAtomic claimedAtomic) =
     (datetime_ok startsAt \<and> datetime_ok endsAt \<and> atomicAmount_ok totalAtomic \<and> atomicAmount_ok claimedAtomic
      \<and> \<not> getTime endsAt \<le> getTime startsAt
      \<and> \<not> bigint claimedAtomic > bigint totalAtomic)"
| "payScheduleSchema (Milestone milestoneCommitment approved dueAt) =
     (commitment_ok milestoneCommitment \<and> datetime_ok dueAt)"
| "payScheduleSchema (Vesting startsAt cliffAt endsAt totalAtomic releasedAtomic) =
     (datetime_ok startsAt \<and> datetime_ok cliffAt \<and> datetime_ok endsAt
      \<and> atomicAmount_ok totalAtomic \<and> atomicAmount_ok releasedAtomic
      \<and> \<not> (getTime cliffAt < getTime startsAt \<or> getTime endsAt \<le> getTime startsAt \<or> getTime cliffAt > getTime endsAt)
      \<and> \<not> bigint releasedAtomic > bigint totalAtomic)"

definition linearAccrual :: "int \<Rightarrow> string \<Rightarrow> string \<Rightarrow> int \<Rightarrow> int result" where
  "linearAccrual amount startsAt endsAt at =
     (let start = getTime startsAt; stop = getTime endsAt; now = at in
      if stop \<le> start then Inl (Thrown ''Schedule end must follow its start.'')
      else if now \<le> start then Inr 0
      else if stop \<le> now then Inr amount
      else Inr (bdiv (amount * (now - start)) (stop - start)))"

definition streamAccruedAtomic :: "string \<Rightarrow> string \<Rightarrow> string \<Rightarrow> int \<Rightarrow> int result" where
  "streamAccruedAtomic startsAt endsAt totalAtomic at = linearAccrual (bigint totalAtomic) startsAt endsAt at"

definition vestedAtomic :: "string \<Rightarrow> string \<Rightarrow> string \<Rightarrow> string \<Rightarrow> int \<Rightarrow> int result" where
  "vestedAtomic startsAt cliffAt endsAt totalAtomic at =
     (if at < getTime cliffAt then Inr 0 else linearAccrual (bigint totalAtomic) startsAt endsAt at)"

definition isScheduleDue :: "pay_schedule \<Rightarrow> int \<Rightarrow> bool result" where
  "isScheduleDue scheduleInput at =
     rbind (zod ''payScheduleSchema'' payScheduleSchema scheduleInput) (\<lambda>schedule.
     case schedule of
       Recurring cadence nextDueAt \<Rightarrow> Inr (getTime nextDueAt \<le> at)
     | Milestone milestoneCommitment approved dueAt \<Rightarrow> Inr (approved \<and> getTime dueAt \<le> at)
     | Stream_schedule startsAt endsAt totalAtomic claimedAtomic \<Rightarrow>
         if getTime startsAt \<le> at \<and> at \<le> getTime endsAt
         then rbind (streamAccruedAtomic startsAt endsAt totalAtomic at) (\<lambda>accrued. Inr (bigint claimedAtomic < accrued))
         else Inr False
     | Vesting startsAt cliffAt endsAt totalAtomic releasedAtomic \<Rightarrow>
         rbind (vestedAtomic startsAt cliffAt endsAt totalAtomic at) (\<lambda>vested. Inr (bigint releasedAtomic < vested)))"

section \<open>Advancing a recurring schedule\<close>

definition addUtcMonthClamped :: "int \<Rightarrow> int" where
  "addUtcMonthClamped value =
     (let year = getUTCFullYear value;
          month = getUTCMonth value;
          targetMonthStart = Date_UTC year (month + 1) 1 (TimeWithinDay value);
          lastTargetDay = getUTCDate (Date_UTC year (month + 2) 0 0)
      in setUTCDate targetMonthStart (min (getUTCDate value) lastTargetDay))"

definition advanceRecurringSchedule :: "pay_schedule \<Rightarrow> pay_schedule result" where
  "advanceRecurringSchedule scheduleInput =
     rbind (zod ''payScheduleSchema'' payScheduleSchema scheduleInput) (\<lambda>schedule.
     case schedule of
       Recurring cadence dueAt \<Rightarrow>
         let currentDueAt = getTime dueAt;
             nextDueAt = (if cadence = Monthly then addUtcMonthClamped currentDueAt
                          else currentDueAt + (if cadence = Weekly then 7 else 14) * 24 * 60 * 60 * 1000)
         in Inr (Recurring cadence (toISOString nextDueAt))
     | _ \<Rightarrow> Inl (Thrown ''Only a recurring schedule can advance by cadence.''))"

section \<open>Final pay\<close>

record offboarding_components =
  accruedLeave :: bool
  notice :: bool
  severance :: bool

record offboarding_pay =
  ordinaryPayAtomic :: string
  accruedLeaveAtomic :: string
  noticeAtomic :: string
  severanceAtomic :: string
  adjustmentsAtomic :: string
  offboardingDeductionsAtomic :: string
  requiredComponents :: offboarding_components
  includedComponents :: offboarding_components

definition offboarding_gross :: "offboarding_pay \<Rightarrow> int" where
  "offboarding_gross pay =
     bigint (ordinaryPayAtomic pay) + bigint (accruedLeaveAtomic pay) + bigint (noticeAtomic pay)
     + bigint (severanceAtomic pay) + bigint (adjustmentsAtomic pay)"

definition missing_component :: "offboarding_pay \<Rightarrow> string option" where
  "missing_component pay =
     (let r = requiredComponents pay; i = includedComponents pay in
      if accruedLeave r \<and> \<not> accruedLeave i then Some ''accruedLeave''
      else if notice r \<and> \<not> notice i then Some ''notice''
      else if severance r \<and> \<not> severance i then Some ''severance''
      else None)"

definition offboardingPaySchema :: "offboarding_pay \<Rightarrow> bool" where
  "offboardingPaySchema pay =
     (atomicAmount_ok (ordinaryPayAtomic pay) \<and> atomicAmount_ok (accruedLeaveAtomic pay)
      \<and> atomicAmount_ok (noticeAtomic pay) \<and> atomicAmount_ok (severanceAtomic pay)
      \<and> atomicAmount_ok (adjustmentsAtomic pay) \<and> atomicAmount_ok (offboardingDeductionsAtomic pay)
      \<and> missing_component pay = None
      \<and> \<not> bigint (offboardingDeductionsAtomic pay) > offboarding_gross pay)"

definition calculateOffboardingNetAtomic :: "offboarding_pay \<Rightarrow> int result" where
  "calculateOffboardingNetAtomic input =
     rbind (zod ''offboardingPaySchema'' offboardingPaySchema input) (\<lambda>pay.
     case missing_component pay of
       Some component \<Rightarrow> Inl (Thrown (''Required final-pay component is missing: '' @ component @ ''.''))
     | None \<Rightarrow>
         let gross = offboarding_gross pay; deductions = bigint (offboardingDeductionsAtomic pay) in
         if deductions > gross then Inl (Thrown ''Final-pay deductions exceed gross pay.'')
         else Inr (gross - deductions))"

definition assertFxFloor :: "string \<Rightarrow> string \<Rightarrow> string \<Rightarrow> string \<Rightarrow> int result" where
  "assertFxFloor settlementAtomic rateNumerator rateDenominator minimumReferenceAtomic =
     rbind (zod ''atomicAmountSchema'' atomicAmount_ok settlementAtomic) (\<lambda>s.
     rbind (zod ''atomicAmountSchema'' atomicAmount_ok rateNumerator) (\<lambda>n.
     rbind (zod ''atomicAmountSchema'' atomicAmount_ok rateDenominator) (\<lambda>d.
     rbind (zod ''atomicAmountSchema'' atomicAmount_ok minimumReferenceAtomic) (\<lambda>m.
     let settlement = bigint s; numerator = bigint n; denominator = bigint d; minimum = bigint m in
     if denominator = 0 then Inl (Thrown ''FX rate denominator must be positive.'')
     else if settlement * numerator < minimum * denominator
     then Inl (Thrown ''Settlement does not meet the committed reference-currency floor.'')
     else Inr (bdiv (settlement * numerator) denominator)))))"

section \<open>What has accrued\<close>

lemma bigint_nonneg_atomic: "atomicAmount_ok s \<Longrightarrow> 0 \<le> bigint s"
  using canonical_dec_bounds by (auto simp: atomicAmount_ok_iff)

lemma linearAccrual_cases:
  assumes "getTime startsAt < getTime endsAt" "0 \<le> amount"
  shows "linearAccrual amount startsAt endsAt at =
    Inr (if at \<le> getTime startsAt then 0 else if getTime endsAt \<le> at then amount
         else amount * (at - getTime startsAt) div (getTime endsAt - getTime startsAt))"
  using assms by (simp add: linearAccrual_def Let_def bdiv_nonneg)

lemma pro_rata_le:
  fixes amount k n :: int
  assumes "0 \<le> amount" "0 < n" "k \<le> n"
  shows "amount * k div n \<le> amount"
proof -
  have "amount * k div n \<le> amount * n div n"
    using assms by (intro zdiv_mono1 mult_left_mono) simp_all
  then show ?thesis using assms(2) by simp
qed

definition pro_rata :: "int \<Rightarrow> int \<Rightarrow> int \<Rightarrow> int \<Rightarrow> int" where
  "pro_rata amount s e t = (if t \<le> s then 0 else if e \<le> t then amount else amount * (t - s) div (e - s))"

lemma pro_rata_bounds:
  assumes "0 \<le> amount" "s < e"
  shows "0 \<le> pro_rata amount s e t" "pro_rata amount s e t \<le> amount"
proof -
  show "0 \<le> pro_rata amount s e t"
    using assms by (simp add: pro_rata_def pos_imp_zdiv_nonneg_iff)
  show "pro_rata amount s e t \<le> amount"
    using assms pro_rata_le [of amount "e - s" "t - s"] by (simp add: pro_rata_def)
qed

lemma pro_rata_mono:
  assumes "0 \<le> amount" "s < e" "t \<le> u"
  shows "pro_rata amount s e t \<le> pro_rata amount s e u"
proof (cases "t \<le> s \<or> e \<le> u")
  case True
  then have "pro_rata amount s e t = 0 \<or> pro_rata amount s e u = amount"
    using assms(2,3) by (auto simp: pro_rata_def)
  then show ?thesis using pro_rata_bounds [OF assms(1,2)] by auto
next
  case False
  then show ?thesis using assms by (simp add: pro_rata_def zdiv_mono1 mult_left_mono)
qed

lemma linearAccrual_pro_rata:
  "getTime startsAt < getTime endsAt \<Longrightarrow> 0 \<le> amount \<Longrightarrow>
   linearAccrual amount startsAt endsAt at = Inr (pro_rata amount (getTime startsAt) (getTime endsAt) at)"
  by (simp add: linearAccrual_cases pro_rata_def)

fun accrued :: "pay_schedule \<Rightarrow> int \<Rightarrow> int" where
  "accrued (Stream_schedule startsAt endsAt totalAtomic claimedAtomic) at =
     projr (streamAccruedAtomic startsAt endsAt totalAtomic at)"
| "accrued (Vesting startsAt cliffAt endsAt totalAtomic releasedAtomic) at =
     projr (vestedAtomic startsAt cliffAt endsAt totalAtomic at)"
| "accrued _ at = 0"

fun schedule_total :: "pay_schedule \<Rightarrow> int" where
  "schedule_total (Stream_schedule startsAt endsAt totalAtomic claimedAtomic) = bigint totalAtomic"
| "schedule_total (Vesting startsAt cliffAt endsAt totalAtomic releasedAtomic) = bigint totalAtomic"
| "schedule_total _ = 0"

lemma stream_pro_rata:
  assumes "getTime startsAt < getTime endsAt" "atomicAmount_ok totalAtomic"
  shows "streamAccruedAtomic startsAt endsAt totalAtomic at
    = Inr (pro_rata (bigint totalAtomic) (getTime startsAt) (getTime endsAt) at)"
  using assms bigint_nonneg_atomic by (simp add: streamAccruedAtomic_def linearAccrual_pro_rata)

lemma vested_pro_rata:
  assumes "getTime startsAt < getTime endsAt" "atomicAmount_ok totalAtomic"
  shows "vestedAtomic startsAt cliffAt endsAt totalAtomic at
    = Inr (if at < getTime cliffAt then 0
           else pro_rata (bigint totalAtomic) (getTime startsAt) (getTime endsAt) at)"
  using assms bigint_nonneg_atomic by (simp add: vestedAtomic_def linearAccrual_pro_rata)

lemma accrued_bounds:
  "payScheduleSchema s \<Longrightarrow> 0 \<le> accrued s t \<and> accrued s t \<le> schedule_total s"
  by (cases s) (auto simp: stream_pro_rata vested_pro_rata pro_rata_bounds bigint_nonneg_atomic not_le)

lemma accrued_mono: "payScheduleSchema s \<Longrightarrow> t \<le> u \<Longrightarrow> accrued s t \<le> accrued s u"
  by (cases s)
    (auto simp: stream_pro_rata vested_pro_rata pro_rata_bounds pro_rata_mono bigint_nonneg_atomic not_le)

interpretation schedules: accrual accrued schedule_total payScheduleSchema
  by unfold_locales (simp_all add: accrued_bounds accrued_mono)

section \<open>The next month\<close>

lemma MakeDay_first_next:
  "MakeDay y (k + 1) 1 = MakeDay y k 1 + days_in_month (is_leap (y + k div 12)) (k mod 12)"
proof (cases "k mod 12 = 11")
  case True
  then have "k + 1 = 12 * (k div 12 + 1) + 0" using mult_div_mod_eq [of 12 k] by simp
  then have d: "(k + 1) div 12 = k div 12 + 1" "(k + 1) mod 12 = 0"
    using int_div_pos_eq [of "k + 1" 12 "k div 12 + 1" 0] int_mod_pos_eq [of "k + 1" 12 "k div 12 + 1" 0]
    by simp_all
  show ?thesis
    by (simp add: MakeDay_def d True DayFromYear_Suc days_in_year_def days_in_month_def month_start_def
        add.assoc [symmetric] Let_def)
next
  case False
  define q r where "q = k div 12" and "r = k mod 12"
  have "0 \<le> r" "r < 12" unfolding r_def by simp_all
  then have r: "0 \<le> r + 1" "r + 1 < 12" using False unfolding r_def by linarith+
  have "k + 1 = 12 * q + (r + 1)" unfolding q_def r_def using mult_div_mod_eq [of 12 k] by simp
  then have "(k + 1) div 12 = q" "(k + 1) mod 12 = r + 1"
    using int_div_pos_eq [OF _ r] int_mod_pos_eq [OF _ r] by blast+
  then show ?thesis by (simp add: MakeDay_def days_in_month_def q_def r_def Let_def)
qed

lemma MakeDay_date: "MakeDay y k d = MakeDay y k 1 + (d - 1)"
  by (simp add: MakeDay_def Let_def)

lemma MakeDay_normal: "MakeDay y k d = MakeDay (y + k div 12) (k mod 12) d"
  by (simp add: MakeDay_def Let_def)

lemma mod_12_bounds: "0 \<le> (k::int) mod 12" "(k::int) mod 12 \<le> 11"
  using pos_mod_bound [of 12 k] by simp_all

text \<open>
  The advance goes to the next month, keeping the day of the month where that month has it and
  taking its last day otherwise, at the same time of day.  \<open>Date.UTC\<close> reads the years 0 to 99 in the
  twentieth century, so the statement is about later years.
\<close>

lemma addUtcMonthClamped_value:
  fixes t :: int
  defines "y \<equiv> getUTCFullYear t + (getUTCMonth t + 1) div 12" and "m \<equiv> (getUTCMonth t + 1) mod 12"
  assumes "100 \<le> getUTCFullYear t"
  shows "addUtcMonthClamped t
      = MakeDay y m (min (getUTCDate t) (days_in_month (is_leap y) m)) * msPerDay + TimeWithinDay t"
proof -
  let ?w = "TimeWithinDay t" and ?k = "getUTCMonth t + 1"
  have m: "0 \<le> m" "m \<le> 11" unfolding m_def by (rule mod_12_bounds)+
  have z: "0 \<le> (0::int)" "0 < msPerDay" by (simp_all add: msPerDay_def)
  have dim: "1 \<le> days_in_month (is_leap y) m" using days_in_month_bounds [OF m, of "is_leap y"] by linarith
  have utc: "Date_UTC (getUTCFullYear t) k d w = MakeDay (getUTCFullYear t) k d * msPerDay + w" for k d w
    using assms(3) by (simp add: Date_UTC_def)
  have target: "Date_UTC (getUTCFullYear t) ?k 1 ?w = MakeDay y m 1 * msPerDay + ?w"
    unfolding utc y_def m_def by (simp add: MakeDay_normal [of "getUTCFullYear t" ?k])
  note T = utc_fields_unique [OF m order_refl dim TimeWithinDay_bounds [of t], folded target]
  have "MakeDay (getUTCFullYear t) (getUTCMonth t + 2) 0 = MakeDay y m (days_in_month (is_leap y) m)"
    using MakeDay_first_next [of "getUTCFullYear t" ?k] MakeDay_normal [of "getUTCFullYear t" ?k 1]
      MakeDay_date [of "getUTCFullYear t" "getUTCMonth t + 2" 0]
      MakeDay_date [of y m "days_in_month (is_leap y) m"]
    unfolding y_def m_def by (simp add: add.commute [of 2])
  then have last_day: "getUTCDate (Date_UTC (getUTCFullYear t) (getUTCMonth t + 2) 0 0) = days_in_month (is_leap y) m"
    unfolding utc using utc_fields_unique(3) [OF m dim order_refl z] by simp
  show ?thesis
    unfolding addUtcMonthClamped_def Let_def last_day setUTCDate_def T ..
qed

lemma addUtcMonthClamped_fields:
  fixes t :: int
  defines "y \<equiv> getUTCFullYear t + (getUTCMonth t + 1) div 12" and "m \<equiv> (getUTCMonth t + 1) mod 12"
  assumes "100 \<le> getUTCFullYear t"
  shows "getUTCFullYear (addUtcMonthClamped t) = y" "getUTCMonth (addUtcMonthClamped t) = m"
    "getUTCDate (addUtcMonthClamped t) = min (getUTCDate t) (days_in_month (is_leap y) m)"
    "TimeWithinDay (addUtcMonthClamped t) = TimeWithinDay t" "t < addUtcMonthClamped t"
proof -
  have m: "0 \<le> m" "m \<le> 11" unfolding m_def by (rule mod_12_bounds)+
  have d: "1 \<le> min (getUTCDate t) (days_in_month (is_leap y) m)"
    "min (getUTCDate t) (days_in_month (is_leap y) m) \<le> days_in_month (is_leap y) m"
    using days_in_month_bounds [OF m, of "is_leap y"] utc_fields [of t] by auto
  note F = utc_fields_unique [OF m d TimeWithinDay_bounds [of t], folded addUtcMonthClamped_value [OF assms(3), folded y_def m_def]]
  show "getUTCFullYear (addUtcMonthClamped t) = y" "getUTCMonth (addUtcMonthClamped t) = m"
    "getUTCDate (addUtcMonthClamped t) = min (getUTCDate t) (days_in_month (is_leap y) m)"
    "TimeWithinDay (addUtcMonthClamped t) = TimeWithinDay t" by (rule F)+
  let ?D = "MakeDay y m (min (getUTCDate t) (days_in_month (is_leap y) m))"
  have "MakeDay (getUTCFullYear t) (getUTCMonth t) (getUTCDate t) < MakeDay (getUTCFullYear t) (getUTCMonth t + 1) 1"
    using MakeDay_first_next [of "getUTCFullYear t" "getUTCMonth t"] utc_fields [of t]
    by (simp add: MakeDay_date [of _ _ "getUTCDate t"])
  also have "\<dots> \<le> ?D"
    using d(1) MakeDay_normal [of "getUTCFullYear t" "getUTCMonth t + 1" 1] MakeDay_date [of y m "min (getUTCDate t) (days_in_month (is_leap y) m)"]
    unfolding y_def m_def by linarith
  finally have "t div msPerDay < ?D" using utc_fields [of t] by simp
  then have "t div msPerDay * msPerDay < ?D * msPerDay" by (simp add: msPerDay_def)
  then show "t < addUtcMonthClamped t"
    using time_value_split [of t] addUtcMonthClamped_value [OF assms(3), folded y_def m_def] by linarith
qed

lemma getUTCFullYear_div: "getUTCFullYear t \<le> y \<longleftrightarrow> t div msPerDay < DayFromYear (y + 1)"
proof
  assume "getUTCFullYear t \<le> y"
  then show "t div msPerDay < DayFromYear (y + 1)"
    using YearFromDay_bounds [of "t div msPerDay"] DayFromYear_mono [of "getUTCFullYear t + 1" "y + 1"]
    by (simp add: getUTCFullYear_def)
next
  assume a: "t div msPerDay < DayFromYear (y + 1)"
  show "getUTCFullYear t \<le> y"
  proof (rule ccontr)
    assume "\<not> getUTCFullYear t \<le> y"
    then have "DayFromYear (y + 1) \<le> DayFromYear (getUTCFullYear t)" by (intro DayFromYear_mono) simp
    then show False using a YearFromDay_bounds [of "t div msPerDay"] by (simp add: getUTCFullYear_def)
  qed
qed

lemma getUTCFullYear_mono: "t \<le> u \<Longrightarrow> getUTCFullYear t \<le> getUTCFullYear u"
  using zdiv_mono1 [of t u msPerDay] getUTCFullYear_div [of u "getUTCFullYear u"] getUTCFullYear_div [of t "getUTCFullYear u"]
  by (simp add: msPerDay_def)


section \<open>Properties\<close>

text \<open>The years for which the advanced due time is again a readable timestamp.\<close>

definition advance_range :: "int \<Rightarrow> bool" where
  "advance_range t = (100 \<le> getUTCFullYear t \<and> getUTCFullYear t \<le> 9998)"

lemma week_advance_year:
  assumes "0 \<le> k" "k \<le> 14 * 86400000"
  shows "getUTCFullYear (t + k) \<le> getUTCFullYear t + 1"
proof -
  have "(t + k) div msPerDay \<le> (t + 14 * msPerDay) div msPerDay"
    using assms by (intro zdiv_mono1) (simp_all add: msPerDay_def)
  also have "\<dots> = t div msPerDay + 14" by (simp add: msPerDay_def)
  finally have "(t + k) div msPerDay \<le> t div msPerDay + 14" .
  moreover have "365 \<le> days_in_year (getUTCFullYear t + 1)" by (simp add: days_in_year_def)
  ultimately have "(t + k) div msPerDay < DayFromYear (getUTCFullYear t + 1 + 1)"
    using YearFromDay_bounds [of "t div msPerDay"] DayFromYear_Suc [of "getUTCFullYear t + 1"]
    unfolding getUTCFullYear_def by linarith
  then show ?thesis by (simp add: getUTCFullYear_div)
qed

lemma advance_year:
  assumes "advance_range t"
  shows "getUTCFullYear (addUtcMonthClamped t) \<le> 9999 \<and> t < addUtcMonthClamped t"
proof -
  have "(getUTCMonth t + 1) div 12 \<le> 1" using utc_fields [of t] zdiv_mono1 [of "getUTCMonth t + 1" 12 12] by simp
  then show ?thesis using assms addUtcMonthClamped_fields [of t] by (auto simp: advance_range_def)
qed

lemma advance_readable:
  assumes "advance_range t" "getUTCFullYear u \<le> 9999" "t < u"
  shows "getTime (toISOString u) = u" "datetime_ok (toISOString u)"
  using assms getUTCFullYear_mono [of t u] getTime_toISOString [of u] by (auto simp: advance_range_def)

lemma advance_Recurring:
  assumes "datetime_ok dueAt" "advance_range (getTime dueAt)"
  obtains u where "advanceRecurringSchedule (Recurring c dueAt) = Inr (Recurring c (toISOString u))"
    and "getTime (toISOString u) = u" "datetime_ok (toISOString u)" "getTime dueAt < u"
    and "u = (if c = Monthly then addUtcMonthClamped (getTime dueAt)
              else getTime dueAt + (if c = Weekly then 7 else 14) * 86400000)"
proof -
  define u where "u = (if c = Monthly then addUtcMonthClamped (getTime dueAt)
    else getTime dueAt + (if c = Weekly then 7 else 14) * 86400000)"
  have u: "getUTCFullYear u \<le> 9999 \<and> getTime dueAt < u"
    using advance_year [OF assms(2)] assms(2) week_advance_year [of "7 * 86400000" "getTime dueAt"]
      week_advance_year [of "14 * 86400000" "getTime dueAt"]
    by (auto simp: u_def advance_range_def)
  show ?thesis
    using assms(1) u advance_readable [OF assms(2), of u]
    by (intro that [of u]) (simp_all add: advanceRecurringSchedule_def u_def Let_def)
qed


text \<open>Advancing a monthly schedule moves the due time to the next month, on the same day of the month
  or the last day the month has, at the same time of day, as a timestamp that reads back; the new due
  time is strictly later.\<close>

theorem advance_monthly:
  assumes "datetime_ok dueAt" "advance_range (getTime dueAt)"
  defines "t \<equiv> getTime dueAt"
  shows "\<exists>due'. advanceRecurringSchedule (Recurring Monthly dueAt) = Inr (Recurring Monthly due')
    \<and> datetime_ok due' \<and> t < getTime due'
    \<and> getUTCFullYear (getTime due') = getUTCFullYear t + (getUTCMonth t + 1) div 12
    \<and> getUTCMonth (getTime due') = (getUTCMonth t + 1) mod 12
    \<and> getUTCDate (getTime due') = min (getUTCDate t)
        (days_in_month (is_leap (getUTCFullYear t + (getUTCMonth t + 1) div 12)) ((getUTCMonth t + 1) mod 12))
    \<and> TimeWithinDay (getTime due') = TimeWithinDay t"
proof -
  have y: "100 \<le> getUTCFullYear (getTime dueAt)" using assms(2) by (simp add: advance_range_def)
  from advance_Recurring [OF assms(1,2), of Monthly] show ?thesis
    unfolding t_def using addUtcMonthClamped_fields [OF y] by fastforce
qed

theorem advance_monthly_witness:
  "\<exists>due'. advanceRecurringSchedule (Recurring Monthly ''2024-01-31T09:30:00Z'') = Inr (Recurring Monthly due')
    \<and> getUTCMonth (getTime due') = 1 \<and> getUTCDate (getTime due') = 29"
proof -
  have a: "datetime_ok ''2024-01-31T09:30:00Z''" "advance_range (getTime ''2024-01-31T09:30:00Z'')"
    "getUTCMonth (getTime ''2024-01-31T09:30:00Z'') = 0" "getUTCDate (getTime ''2024-01-31T09:30:00Z'') = 31"
    "days_in_month (is_leap (getUTCFullYear (getTime ''2024-01-31T09:30:00Z''))) 1 = 29"
    by code_simp+
  from advance_monthly [OF a(1,2)] show ?thesis by (auto simp: a)
qed

text \<open>A schedule the schema accepts never makes the due check throw: the check answers, and the answer is
  the comparison of the accrued amount with what was already claimed or released.\<close>

theorem isScheduleDue_accrued:
  assumes "payScheduleSchema s"
  shows "isScheduleDue s at = Inr (case s of
      Recurring c nextDueAt \<Rightarrow> getTime nextDueAt \<le> at
    | Milestone m approved dueAt \<Rightarrow> approved \<and> getTime dueAt \<le> at
    | Stream_schedule startsAt endsAt totalAtomic claimedAtomic \<Rightarrow>
        getTime startsAt \<le> at \<and> at \<le> getTime endsAt \<and> bigint claimedAtomic < accrued s at
    | Vesting startsAt cliffAt endsAt totalAtomic releasedAtomic \<Rightarrow> bigint releasedAtomic < accrued s at)"
  using assms
  by (cases s) (auto simp: isScheduleDue_def stream_pro_rata vested_pro_rata not_le)

theorem isScheduleDue_accrued_witness:
  "isScheduleDue (Vesting ''2024-01-01T00:00:00Z'' ''2024-07-01T00:00:00Z'' ''2025-01-01T00:00:00Z'' ''1000'' ''500'') 1720000000000
    = Inr True"
proof -
  have a: "payScheduleSchema (Vesting ''2024-01-01T00:00:00Z'' ''2024-07-01T00:00:00Z'' ''2025-01-01T00:00:00Z'' ''1000'' ''500'')"
    "bigint ''500'' < accrued (Vesting ''2024-01-01T00:00:00Z'' ''2024-07-01T00:00:00Z'' ''2025-01-01T00:00:00Z'' ''1000'' ''500'') 1720000000000"
    by code_simp+
  show ?thesis using isScheduleDue_accrued [OF a(1), of 1720000000000] a(2) by simp
qed

text \<open>C38: What a stream or vesting schedule pays out over any series of settlement times, each paying the
  difference to what was released before, adds up to at most its total, and no payment is negative when
  the times do not decrease.\<close>

theorem schedule_payouts_bounded:
  assumes "payScheduleSchema s" "sorted (t0 # ts)"
  shows "accrued s t0 + sum_list (settle_series (accrued s) (accrued s t0) ts) \<le> schedule_total s
    \<and> (\<forall>x \<in> set (settle_series (accrued s) (accrued s t0) ts). 0 \<le> x)"
  using schedules.settle_bounded [OF assms(1), of "accrued s t0" ts] schedules.settle_nonneg [OF assms]
    accrued_bounds [OF assms(1), of t0] by auto

theorem schedule_payouts_bounded_witness:
  "let s = Stream_schedule ''2024-01-01T00:00:00Z'' ''2025-01-01T00:00:00Z'' ''1000'' ''0'' in
   accrued s 1700000000000
   + sum_list (settle_series (accrued s) (accrued s 1700000000000) [1710000000000, 1720000000000, 1760000000000]) \<le> 1000"
proof -
  have a: "payScheduleSchema (Stream_schedule ''2024-01-01T00:00:00Z'' ''2025-01-01T00:00:00Z'' ''1000'' ''0'')"
    "bigint ''1000'' = 1000"
    by code_simp+
  show ?thesis
    using schedule_payouts_bounded [OF a(1), of 1700000000000 "[1710000000000, 1720000000000, 1760000000000]"] a(2)
    by (simp add: Let_def)
qed

end
