(* ===== verification/Payment_Plans.thy ===== *)
theory Payment_Plans
  imports Schedules
begin

text \<open>
  Model of the advanced payment plans of \<open>lib/domain/obligations.ts\<close>: the plan schema, the schedule
  a plan projects to, the entitlement of a plan at a time, and its settlement.  A plan of each kind
  is a record, so that the source's \<open>{ ...plan, field: value }\<close> is a record update; an optional
  member is an \<open>option\<close>.
\<close>

section \<open>Plans\<close>

record recurring_plan =
  rp_cadence :: cadence
  rp_anchorAt :: string
  rp_nextDueAt :: string
  rp_occurrence :: int
  rp_endsAt :: "string option"

record checkpoint =
  cp_sequence :: int
  cp_checkpointAt :: string
  cp_cumulativeEntitlementAtomic :: string
  cp_attestationCommitment :: string

record stream_plan =
  sp_startsAt :: string
  sp_endsAt :: string
  sp_totalAtomic :: string
  sp_settledAtomic :: string
  sp_minimumCheckpointSeconds :: int
  sp_lastCheckpointAt :: "string option"
  sp_checkpoint :: checkpoint

record milestone_plan =
  mp_dueAt :: string
  mp_milestoneCommitment :: string
  mp_approverCommitment :: string
  mp_attestationCommitment :: "string option"
  mp_approvedAt :: "string option"
  mp_revokedAt :: "string option"
  mp_settledAt :: "string option"

record vesting_plan =
  vp_startsAt :: string
  vp_cliffAt :: string
  vp_releaseAt :: string
  vp_endsAt :: string
  vp_totalAtomic :: string
  vp_releasedAtomic :: string
  vp_releaseSequence :: int

datatype payment_plan =
    Plan_recurring recurring_plan
  | Plan_stream stream_plan
  | Plan_milestone milestone_plan
  | Plan_vesting vesting_plan

definition checkpointSchema :: "checkpoint \<Rightarrow> bool" where
  "checkpointSchema c =
     (uint32_ok (cp_sequence c) \<and> datetime_ok (cp_checkpointAt c)
      \<and> atomicAmount_ok (cp_cumulativeEntitlementAtomic c) \<and> commitment_ok (cp_attestationCommitment c))"

definition recurring_plan_ok :: "recurring_plan \<Rightarrow> bool" where
  "recurring_plan_ok p =
     (datetime_ok (rp_anchorAt p) \<and> datetime_ok (rp_nextDueAt p) \<and> uint32_ok (rp_occurrence p)
      \<and> opt_ok datetime_ok (rp_endsAt p)
      \<and> \<not> getTime (rp_nextDueAt p) < getTime (rp_anchorAt p)
      \<and> opt_ok (\<lambda>endsAt. \<not> getTime (rp_nextDueAt p) > getTime endsAt) (rp_endsAt p))"

text \<open>The quotient by 1000 in the interval check is compared with an integer, hence exact.\<close>

definition stream_plan_ok :: "stream_plan \<Rightarrow> bool" where
  "stream_plan_ok p =
     (datetime_ok (sp_startsAt p) \<and> datetime_ok (sp_endsAt p)
      \<and> atomicAmount_ok (sp_totalAtomic p) \<and> atomicAmount_ok (sp_settledAtomic p)
      \<and> 0 < sp_minimumCheckpointSeconds p \<and> sp_minimumCheckpointSeconds p \<le> 31536000
      \<and> opt_ok datetime_ok (sp_lastCheckpointAt p)
      \<and> checkpointSchema (sp_checkpoint p)
      \<and> (let start = getTime (sp_startsAt p); stop = getTime (sp_endsAt p);
             checkpoint = getTime (cp_checkpointAt (sp_checkpoint p)) in
           \<not> (stop \<le> start \<or> checkpoint < start \<or> checkpoint > stop)
           \<and> \<not> bigint (sp_settledAtomic p) > bigint (sp_totalAtomic p)
           \<and> \<not> bigint (cp_cumulativeEntitlementAtomic (sp_checkpoint p)) > bigint (sp_totalAtomic p)
           \<and> opt_ok (\<lambda>lastCheckpointAt. let last = getTime lastCheckpointAt in
                \<not> checkpoint < last
                \<and> \<not> (checkpoint > last \<and> checkpoint - last < sp_minimumCheckpointSeconds p * 1000)
                \<and> \<not> (checkpoint = last
                      \<and> bigint (cp_cumulativeEntitlementAtomic (sp_checkpoint p)) > bigint (sp_settledAtomic p)))
              (sp_lastCheckpointAt p)))"

definition milestone_plan_ok :: "milestone_plan \<Rightarrow> bool" where
  "milestone_plan_ok p =
     (datetime_ok (mp_dueAt p) \<and> commitment_ok (mp_milestoneCommitment p) \<and> commitment_ok (mp_approverCommitment p)
      \<and> opt_ok commitment_ok (mp_attestationCommitment p) \<and> opt_ok datetime_ok (mp_approvedAt p)
      \<and> opt_ok datetime_ok (mp_revokedAt p) \<and> opt_ok datetime_ok (mp_settledAt p)
      \<and> (mp_approvedAt p \<noteq> None \<longleftrightarrow> mp_attestationCommitment p \<noteq> None)
      \<and> opt_ok (\<lambda>approvedAt. \<not> (mp_attestationCommitment p \<noteq> None \<and> getTime approvedAt > getTime (mp_dueAt p)))
          (mp_approvedAt p)
      \<and> opt_ok (\<lambda>revokedAt. opt_ok (\<lambda>approvedAt. \<not> getTime revokedAt < getTime approvedAt) (mp_approvedAt p))
          (mp_revokedAt p)
      \<and> opt_ok (\<lambda>settledAt. case mp_approvedAt p of None \<Rightarrow> False
            | Some approvedAt \<Rightarrow> \<not> getTime settledAt < getTime approvedAt) (mp_settledAt p))"

definition vesting_plan_ok :: "vesting_plan \<Rightarrow> bool" where
  "vesting_plan_ok p =
     (datetime_ok (vp_startsAt p) \<and> datetime_ok (vp_cliffAt p) \<and> datetime_ok (vp_releaseAt p)
      \<and> datetime_ok (vp_endsAt p) \<and> atomicAmount_ok (vp_totalAtomic p) \<and> atomicAmount_ok (vp_releasedAtomic p)
      \<and> uint32_ok (vp_releaseSequence p)
      \<and> (let start = getTime (vp_startsAt p); cliff = getTime (vp_cliffAt p);
             release = getTime (vp_releaseAt p); stop = getTime (vp_endsAt p) in
           \<not> (cliff < start \<or> cliff > stop \<or> release < cliff \<or> release > stop \<or> stop \<le> start))
      \<and> \<not> bigint (vp_releasedAtomic p) > bigint (vp_totalAtomic p))"

fun advancedPaymentPlanSchema :: "payment_plan \<Rightarrow> bool" where
  "advancedPaymentPlanSchema (Plan_recurring p) = recurring_plan_ok p"
| "advancedPaymentPlanSchema (Plan_stream p) = stream_plan_ok p"
| "advancedPaymentPlanSchema (Plan_milestone p) = milestone_plan_ok p"
| "advancedPaymentPlanSchema (Plan_vesting p) = vesting_plan_ok p"

definition milestone_open :: "milestone_plan \<Rightarrow> bool" where
  "milestone_open p = (mp_approvedAt p \<noteq> None \<and> mp_attestationCommitment p \<noteq> None
     \<and> mp_revokedAt p = None \<and> mp_settledAt p = None)"

definition proofScheduleForAdvancedPlan :: "payment_plan \<Rightarrow> pay_schedule result" where
  "proofScheduleForAdvancedPlan planInput =
     rbind (zod ''advancedPaymentPlanSchema'' advancedPaymentPlanSchema planInput) (\<lambda>plan.
     zod ''payScheduleSchema'' payScheduleSchema (case plan of
       Plan_recurring p \<Rightarrow> Recurring (rp_cadence p) (rp_nextDueAt p)
     | Plan_stream p \<Rightarrow> Stream_schedule (sp_startsAt p) (sp_endsAt p) (sp_totalAtomic p) (sp_settledAtomic p)
     | Plan_milestone p \<Rightarrow> Milestone (mp_milestoneCommitment p) (milestone_open p) (mp_dueAt p)
     | Plan_vesting p \<Rightarrow>
         Vesting (vp_startsAt p) (vp_cliffAt p) (vp_endsAt p) (vp_totalAtomic p) (vp_releasedAtomic p)))"

section \<open>Entitlement and settlement\<close>

record entitlement =
  due :: bool
  cumulativeEntitlementAtomic :: int
  settledAtomic :: int
  payableAtomic :: int
  sequence_no :: int

definition advancedPlanEntitlement :: "payment_plan \<Rightarrow> int \<Rightarrow> entitlement result" where
  "advancedPlanEntitlement planInput at =
     rbind (zod ''advancedPaymentPlanSchema'' advancedPaymentPlanSchema planInput) (\<lambda>plan.
     case plan of
       Plan_recurring p \<Rightarrow>
         let is_due = (getTime (rp_nextDueAt p) \<le> at \<and> opt_ok (\<lambda>endsAt. at \<le> getTime endsAt) (rp_endsAt p)) in
         Inr \<lparr>due = is_due, cumulativeEntitlementAtomic = 0, settledAtomic = 0, payableAtomic = 0,
              sequence_no = rp_occurrence p\<rparr>
     | Plan_milestone p \<Rightarrow>
         let is_due = (milestone_open p \<and> opt_ok (\<lambda>approvedAt. getTime approvedAt \<le> at) (mp_approvedAt p)
                       \<and> getTime (mp_dueAt p) \<le> at) in
         Inr \<lparr>due = is_due, cumulativeEntitlementAtomic = 0, settledAtomic = 0, payableAtomic = 0, sequence_no = 0\<rparr>
     | Plan_stream p \<Rightarrow>
         let checkpointAt = getTime (cp_checkpointAt (sp_checkpoint p));
             settled = bigint (sp_settledAtomic p);
             entitled = bigint (cp_cumulativeEntitlementAtomic (sp_checkpoint p)) in
         rbind (linearAccrual (bigint (sp_totalAtomic p)) (sp_startsAt p) (sp_endsAt p) checkpointAt) (\<lambda>earned.
         if entitled \<noteq> earned
         then Inl (Thrown ''Checkpoint entitlement does not equal deterministic stream accrual.'')
         else let is_due = (checkpointAt \<le> at \<and> entitled > settled) in
           Inr \<lparr>due = is_due, cumulativeEntitlementAtomic = entitled, settledAtomic = settled,
                payableAtomic = (if is_due then entitled - settled else 0),
                sequence_no = cp_sequence (sp_checkpoint p)\<rparr>)
     | Plan_vesting p \<Rightarrow>
         let settled = bigint (vp_releasedAtomic p); releaseAt = getTime (vp_releaseAt p) in
         rbind (vestedAtomic (vp_startsAt p) (vp_cliffAt p) (vp_endsAt p) (vp_totalAtomic p) releaseAt) (\<lambda>entitled.
         let is_due = (releaseAt \<le> at \<and> entitled > settled) in
           Inr \<lparr>due = is_due, cumulativeEntitlementAtomic = entitled, settledAtomic = settled,
                payableAtomic = (if is_due then entitled - settled else 0),
                sequence_no = vp_releaseSequence p\<rparr>))"

definition settleAdvancedPaymentPlan :: "payment_plan \<Rightarrow> string \<Rightarrow> int \<Rightarrow> payment_plan result" where
  "settleAdvancedPaymentPlan planInput paidAtomic at =
     rbind (zod ''advancedPaymentPlanSchema'' advancedPaymentPlanSchema planInput) (\<lambda>plan.
     rbind (zod ''atomicAmountSchema'' atomicAmount_ok paidAtomic) (\<lambda>paidText.
     let paid = bigint paidText in
     rbind (advancedPlanEntitlement plan at) (\<lambda>entitlement.
     if \<not> due entitlement then Inl (Thrown ''Payment plan has no due entitlement.'')
     else case plan of
       Plan_recurring p \<Rightarrow>
         if paid = 0 then Inl (Thrown ''Recurring settlement must be positive.'')
         else rbind (advanceRecurringSchedule (Recurring (rp_cadence p) (rp_nextDueAt p))) (\<lambda>advanced.
           zod ''advancedPaymentPlanSchema'' advancedPaymentPlanSchema
             (Plan_recurring (p\<lparr>rp_nextDueAt := (case advanced of Recurring c nextDueAt \<Rightarrow> nextDueAt | _ \<Rightarrow> rp_nextDueAt p),
                                rp_occurrence := rp_occurrence p + 1\<rparr>)))
     | Plan_milestone p \<Rightarrow>
         if paid = 0 then Inl (Thrown ''Milestone settlement must be positive.'')
         else zod ''advancedPaymentPlanSchema'' advancedPaymentPlanSchema
             (Plan_milestone (p\<lparr>mp_settledAt := Some (toISOString at)\<rparr>))
     | Plan_stream p \<Rightarrow>
         if paid \<noteq> payableAtomic entitlement
         then Inl (Thrown ''Settlement does not equal the proof-bound plan entitlement.'')
         else zod ''advancedPaymentPlanSchema'' advancedPaymentPlanSchema
             (Plan_stream (p\<lparr>sp_settledAtomic := toString (cumulativeEntitlementAtomic entitlement),
                             sp_lastCheckpointAt := Some (cp_checkpointAt (sp_checkpoint p))\<rparr>))
     | Plan_vesting p \<Rightarrow>
         if paid \<noteq> payableAtomic entitlement
         then Inl (Thrown ''Settlement does not equal the proof-bound plan entitlement.'')
         else zod ''advancedPaymentPlanSchema'' advancedPaymentPlanSchema
             (Plan_vesting (p\<lparr>vp_releasedAtomic := toString (cumulativeEntitlementAtomic entitlement),
                              vp_releaseSequence := vp_releaseSequence p + 1\<rparr>)))))"

section \<open>Settlement of the amount-bearing plans\<close>

text \<open>The plan's total, the amount it records as paid, and the amount its proof point has earned.\<close>

fun plan_total :: "payment_plan \<Rightarrow> int option" where
  "plan_total (Plan_stream p) = Some (bigint (sp_totalAtomic p))"
| "plan_total (Plan_vesting p) = Some (bigint (vp_totalAtomic p))"
| "plan_total _ = None"

fun plan_settled :: "payment_plan \<Rightarrow> int" where
  "plan_settled (Plan_stream p) = bigint (sp_settledAtomic p)"
| "plan_settled (Plan_vesting p) = bigint (vp_releasedAtomic p)"
| "plan_settled _ = 0"

text \<open>The terms a settlement must leave alone: the plan with its progress fields blanked.\<close>

fun plan_terms :: "payment_plan \<Rightarrow> payment_plan" where
  "plan_terms (Plan_recurring p) = Plan_recurring (p\<lparr>rp_nextDueAt := [], rp_occurrence := 0\<rparr>)"
| "plan_terms (Plan_stream p) = Plan_stream (p\<lparr>sp_settledAtomic := [], sp_lastCheckpointAt := None\<rparr>)"
| "plan_terms (Plan_milestone p) = Plan_milestone (p\<lparr>mp_settledAt := None\<rparr>)"
| "plan_terms (Plan_vesting p) = Plan_vesting (p\<lparr>vp_releasedAtomic := [], vp_releaseSequence := 0\<rparr>)"

lemma stream_window:
  assumes "stream_plan_ok p"
  shows "getTime (sp_startsAt p) < getTime (sp_endsAt p)" "atomicAmount_ok (sp_totalAtomic p)"
    "0 \<le> bigint (sp_totalAtomic p)"
  using assms by (auto simp: stream_plan_ok_def Let_def)

lemma vesting_window:
  assumes "vesting_plan_ok p"
  shows "getTime (vp_startsAt p) < getTime (vp_endsAt p)" "atomicAmount_ok (vp_totalAtomic p)"
    "getTime (vp_cliffAt p) \<le> getTime (vp_releaseAt p)"
  using assms by (auto simp: vesting_plan_ok_def Let_def)

definition stream_earned :: "stream_plan \<Rightarrow> int" where
  "stream_earned p = pro_rata (bigint (sp_totalAtomic p)) (getTime (sp_startsAt p)) (getTime (sp_endsAt p))
     (getTime (cp_checkpointAt (sp_checkpoint p)))"

definition vesting_earned :: "vesting_plan \<Rightarrow> int" where
  "vesting_earned p = pro_rata (bigint (vp_totalAtomic p)) (getTime (vp_startsAt p)) (getTime (vp_endsAt p))
     (getTime (vp_releaseAt p))"

lemma stream_earned_bounds: "stream_plan_ok p \<Longrightarrow> 0 \<le> stream_earned p \<and> stream_earned p \<le> bigint (sp_totalAtomic p)"
  using stream_window by (simp add: stream_earned_def pro_rata_bounds)

lemma vesting_earned_bounds: "vesting_plan_ok p \<Longrightarrow> 0 \<le> vesting_earned p \<and> vesting_earned p \<le> bigint (vp_totalAtomic p)"
  using vesting_window by (simp add: vesting_earned_def pro_rata_bounds)

lemma atomic_of_bounded:
  assumes "0 \<le> n" "n \<le> bigint t" "atomicAmount_ok t"
  shows "atomicAmount_ok (toString n)"
  using assms by (simp add: atomicAmount_ok_iff canonical_dec_toString)

lemma entitlement_stream:
  assumes "stream_plan_ok p"
  shows "advancedPlanEntitlement (Plan_stream p) at =
    (let checkpointAt = getTime (cp_checkpointAt (sp_checkpoint p)); settled = bigint (sp_settledAtomic p);
         entitled = bigint (cp_cumulativeEntitlementAtomic (sp_checkpoint p));
         is_due = (checkpointAt \<le> at \<and> entitled > settled) in
     if entitled \<noteq> stream_earned p then Inl (Thrown ''Checkpoint entitlement does not equal deterministic stream accrual.'')
     else Inr \<lparr>due = is_due, cumulativeEntitlementAtomic = entitled, settledAtomic = settled,
               payableAtomic = (if is_due then entitled - settled else 0), sequence_no = cp_sequence (sp_checkpoint p)\<rparr>)"
  using assms stream_window [OF assms]
  by (simp add: advancedPlanEntitlement_def linearAccrual_pro_rata stream_earned_def Let_def)

lemma entitlement_vesting:
  assumes "vesting_plan_ok p"
  shows "advancedPlanEntitlement (Plan_vesting p) at =
    (let settled = bigint (vp_releasedAtomic p); is_due = (getTime (vp_releaseAt p) \<le> at \<and> vesting_earned p > settled) in
     Inr \<lparr>due = is_due, cumulativeEntitlementAtomic = vesting_earned p, settledAtomic = settled,
          payableAtomic = (if is_due then vesting_earned p - settled else 0), sequence_no = vp_releaseSequence p\<rparr>)"
  using assms vesting_window [OF assms]
  by (simp add: advancedPlanEntitlement_def vested_pro_rata vesting_earned_def Let_def)

lemma settle_stream_Inr:
  assumes "settleAdvancedPaymentPlan (Plan_stream p) paid at = Inr plan'"
  obtains "stream_plan_ok p" "stream_earned p = bigint (cp_cumulativeEntitlementAtomic (sp_checkpoint p))"
    "getTime (cp_checkpointAt (sp_checkpoint p)) \<le> at" "bigint (sp_settledAtomic p) < stream_earned p"
    "bigint paid = stream_earned p - bigint (sp_settledAtomic p)"
    "plan' = Plan_stream (p\<lparr>sp_settledAtomic := toString (stream_earned p),
               sp_lastCheckpointAt := Some (cp_checkpointAt (sp_checkpoint p))\<rparr>)"
    "advancedPaymentPlanSchema plan'"
proof -
  have ok: "stream_plan_ok p" using assms by (auto simp: settleAdvancedPaymentPlan_def rbind_Inr_iff)
  show ?thesis
    using assms ok
    by (intro that)
      (auto simp: settleAdvancedPaymentPlan_def rbind_Inr_iff entitlement_stream Let_def split: if_splits)
qed

lemma settle_vesting_Inr:
  assumes "settleAdvancedPaymentPlan (Plan_vesting p) paid at = Inr plan'"
  obtains "vesting_plan_ok p" "getTime (vp_releaseAt p) \<le> at" "bigint (vp_releasedAtomic p) < vesting_earned p"
    "bigint paid = vesting_earned p - bigint (vp_releasedAtomic p)"
    "plan' = Plan_vesting (p\<lparr>vp_releasedAtomic := toString (vesting_earned p),
               vp_releaseSequence := vp_releaseSequence p + 1\<rparr>)"
    "advancedPaymentPlanSchema plan'"
proof -
  have ok: "vesting_plan_ok p" using assms by (auto simp: settleAdvancedPaymentPlan_def rbind_Inr_iff)
  show ?thesis
    using assms ok
    by (intro that)
      (auto simp: settleAdvancedPaymentPlan_def rbind_Inr_iff entitlement_vesting Let_def split: if_splits)
qed


lemma settled_stream_not_due:
  assumes "stream_plan_ok p" "bigint (sp_settledAtomic p) = stream_earned p"
    "stream_earned p = bigint (cp_cumulativeEntitlementAtomic (sp_checkpoint p))"
  shows "\<exists>e. advancedPlanEntitlement (Plan_stream p) at = Inr e \<and> \<not> due e \<and> payableAtomic e = 0"
  using assms by (simp add: entitlement_stream Let_def)

lemma settled_vesting_not_due:
  assumes "vesting_plan_ok p" "bigint (vp_releasedAtomic p) = vesting_earned p"
  shows "\<exists>e. advancedPlanEntitlement (Plan_vesting p) at = Inr e \<and> \<not> due e \<and> payableAtomic e = 0"
  using assms by (simp add: entitlement_vesting Let_def)

lemma stream_earned_update [simp]:
  "stream_earned (p\<lparr>sp_settledAtomic := a, sp_lastCheckpointAt := b\<rparr>) = stream_earned p"
  by (simp add: stream_earned_def)

lemma vesting_earned_update [simp]:
  "vesting_earned (p\<lparr>vp_releasedAtomic := a, vp_releaseSequence := b\<rparr>) = vesting_earned p"
  by (simp add: vesting_earned_def)

text \<open>A due stream or vesting plan paid its entitlement always settles.\<close>

lemma settle_stream_ok:
  assumes "stream_plan_ok p" "advancedPlanEntitlement (Plan_stream p) at = Inr e" "due e"
    "atomicAmount_ok paid" "bigint paid = payableAtomic e"
  shows "\<exists>p'. settleAdvancedPaymentPlan (Plan_stream p) paid at = Inr p'"
proof -
  have E: "stream_earned p = bigint (cp_cumulativeEntitlementAtomic (sp_checkpoint p))"
    "cumulativeEntitlementAtomic e = stream_earned p"
    using assms(1,2) by (auto simp: entitlement_stream Let_def split: if_splits)
  have b: "0 \<le> stream_earned p" "stream_earned p \<le> bigint (sp_totalAtomic p)"
    using stream_earned_bounds [OF assms(1)] by simp_all
  have "stream_plan_ok (p\<lparr>sp_settledAtomic := toString (stream_earned p),
      sp_lastCheckpointAt := Some (cp_checkpointAt (sp_checkpoint p))\<rparr>)"
    using assms(1) E b atomic_of_bounded [OF b stream_window(2) [OF assms(1)]]
    by (simp add: stream_plan_ok_def checkpointSchema_def Let_def)
  then show ?thesis using assms E by (simp add: settleAdvancedPaymentPlan_def Let_def)
qed

lemma settle_vesting_ok:
  assumes "vesting_plan_ok p" "advancedPlanEntitlement (Plan_vesting p) at = Inr e" "due e"
    "atomicAmount_ok paid" "bigint paid = payableAtomic e" "vp_releaseSequence p < 4294967295"
  shows "\<exists>p'. settleAdvancedPaymentPlan (Plan_vesting p) paid at = Inr p'"
proof -
  have E: "cumulativeEntitlementAtomic e = vesting_earned p"
    using assms(1,2) by (auto simp: entitlement_vesting Let_def)
  have b: "0 \<le> vesting_earned p" "vesting_earned p \<le> bigint (vp_totalAtomic p)"
    using vesting_earned_bounds [OF assms(1)] by simp_all
  have "vesting_plan_ok (p\<lparr>vp_releasedAtomic := toString (vesting_earned p),
      vp_releaseSequence := vp_releaseSequence p + 1\<rparr>)"
    using assms(1,6) b atomic_of_bounded [OF b vesting_window(2) [OF assms(1)]]
    by (simp add: vesting_plan_ok_def uint32_ok_def Let_def)
  then show ?thesis using assms E by (simp add: settleAdvancedPaymentPlan_def Let_def)
qed

lemma due_projection:
  assumes "advancedPlanEntitlement plan at = Inr e" "due e"
    and "case plan of Plan_stream p \<Rightarrow> at \<le> getTime (sp_endsAt p) | _ \<Rightarrow> True"
  shows "\<exists>s. proofScheduleForAdvancedPlan plan = Inr s \<and> isScheduleDue s at = Inr True"
proof (cases plan)
  case (Plan_recurring p)
  with assms show ?thesis
    by (auto simp: advancedPlanEntitlement_def proofScheduleForAdvancedPlan_def isScheduleDue_def rbind_Inr_iff
        recurring_plan_ok_def Let_def)
next
  case (Plan_milestone p)
  with assms show ?thesis
    by (auto simp: advancedPlanEntitlement_def proofScheduleForAdvancedPlan_def isScheduleDue_def rbind_Inr_iff
        milestone_plan_ok_def Let_def)
next
  case (Plan_stream p)
  have ok: "stream_plan_ok p"
    using assms(1) Plan_stream by (auto simp: advancedPlanEntitlement_def rbind_Inr_iff)
  let ?c = "getTime (cp_checkpointAt (sp_checkpoint p))"
  have d: "?c \<le> at" "bigint (sp_settledAtomic p) < stream_earned p"
    using assms(1,2) ok Plan_stream by (auto simp: entitlement_stream Let_def split: if_splits)
  have "stream_earned p \<le> pro_rata (bigint (sp_totalAtomic p)) (getTime (sp_startsAt p)) (getTime (sp_endsAt p)) at"
    unfolding stream_earned_def using stream_window [OF ok] d(1) by (intro pro_rata_mono) simp_all
  then show ?thesis
    using Plan_stream ok d assms(3) stream_window [OF ok]
    by (auto simp: proofScheduleForAdvancedPlan_def isScheduleDue_def stream_pro_rata stream_plan_ok_def
        checkpointSchema_def Let_def)
next
  case (Plan_vesting p)
  have ok: "vesting_plan_ok p"
    using assms(1) Plan_vesting by (auto simp: advancedPlanEntitlement_def rbind_Inr_iff)
  have d: "getTime (vp_releaseAt p) \<le> at" "bigint (vp_releasedAtomic p) < vesting_earned p"
    using assms(1,2) ok Plan_vesting by (auto simp: entitlement_vesting Let_def split: if_splits)
  have "vesting_earned p \<le> pro_rata (bigint (vp_totalAtomic p)) (getTime (vp_startsAt p)) (getTime (vp_endsAt p)) at"
    unfolding vesting_earned_def using vesting_window [OF ok] bigint_nonneg_atomic d(1) by (intro pro_rata_mono) simp_all
  then show ?thesis
    using Plan_vesting ok d vesting_window [OF ok]
    by (auto simp: proofScheduleForAdvancedPlan_def isScheduleDue_def vested_pro_rata vesting_plan_ok_def Let_def)
qed

section \<open>Properties\<close>

text \<open>C7: Settling a stream or vesting plan records exactly the amount paid: the recorded amount grows by
  the payment, which is positive, to at most the plan's total; the terms stay as they were, the new plan
  satisfies the schema, and nothing of it is due at any time until its proof point moves.\<close>

theorem settlement_exact:
  assumes "settleAdvancedPaymentPlan plan paid at = Inr plan'" "plan_total plan = Some total_amount"
  shows "plan_settled plan' = plan_settled plan + bigint paid \<and> 0 < bigint paid
    \<and> plan_settled plan' \<le> total_amount \<and> plan_terms plan' = plan_terms plan
    \<and> advancedPaymentPlanSchema plan'
    \<and> (\<exists>e. advancedPlanEntitlement plan' at' = Inr e \<and> \<not> due e \<and> payableAtomic e = 0)"
proof (cases plan)
  case (Plan_stream p)
  then have "settleAdvancedPaymentPlan (Plan_stream p) paid at = Inr plan'" using assms(1) by simp
  then show ?thesis
    by (rule settle_stream_Inr)
      (use assms(2) stream_earned_bounds [of p] in \<open>auto simp: Plan_stream intro!: settled_stream_not_due\<close>)
next
  case (Plan_vesting p)
  then have "settleAdvancedPaymentPlan (Plan_vesting p) paid at = Inr plan'" using assms(1) by simp
  then show ?thesis
    by (rule settle_vesting_Inr)
      (use assms(2) vesting_earned_bounds [of p] in \<open>auto simp: Plan_vesting intro!: settled_vesting_not_due\<close>)
qed (use assms in auto)


definition example_stream :: stream_plan where
  "example_stream = \<lparr>sp_startsAt = ''2026-08-01T00:00:00Z'', sp_endsAt = ''2026-08-11T00:00:00Z'',
     sp_totalAtomic = ''1000'', sp_settledAtomic = ''200'', sp_minimumCheckpointSeconds = 3600,
     sp_lastCheckpointAt = Some ''2026-08-03T00:00:00Z'',
     sp_checkpoint = \<lparr>cp_sequence = 2, cp_checkpointAt = ''2026-08-06T00:00:00Z'',
       cp_cumulativeEntitlementAtomic = ''500'',
       cp_attestationCommitment = ''0x'' @ replicate 64 (CHR ''a'')\<rparr>\<rparr>"

lemma example_stream_facts:
  "stream_plan_ok example_stream" "stream_earned example_stream = 500"
  "getTime (cp_checkpointAt (sp_checkpoint example_stream)) \<le> 1786000000000"
  "bigint (cp_cumulativeEntitlementAtomic (sp_checkpoint example_stream)) = 500"
  "bigint (sp_settledAtomic example_stream) = 200" "bigint (sp_totalAtomic example_stream) = 1000"
  "cp_sequence (sp_checkpoint example_stream) = 2" "atomicAmount_ok ''300''" "bigint ''300'' = 300"
  by code_simp+

lemma example_stream_entitlement:
  "advancedPlanEntitlement (Plan_stream example_stream) 1786000000000 =
     Inr \<lparr>due = True, cumulativeEntitlementAtomic = 500, settledAtomic = 200, payableAtomic = 300, sequence_no = 2\<rparr>"
  using example_stream_facts by (simp add: entitlement_stream Let_def)

theorem settlement_exact_witness:
  "\<exists>plan'. settleAdvancedPaymentPlan (Plan_stream example_stream) ''300'' 1786000000000 = Inr plan'
     \<and> plan_settled plan' = 500"
proof -
  note f = example_stream_facts
  have a: "plan_total (Plan_stream example_stream) = Some 1000" using f by simp
  obtain plan' where s: "settleAdvancedPaymentPlan (Plan_stream example_stream) ''300'' 1786000000000 = Inr plan'"
    using settle_stream_ok [OF f(1) example_stream_entitlement _ f(8)] f(9) by auto
  from settlement_exact [OF s a] s f show ?thesis by auto
qed

text \<open>C37: Settling a due recurring plan with a positive amount advances it to the next due time of its cadence
  and counts the occurrence, unless the advanced due time would pass the plan's end: then the settlement is
  rejected by the plan schema, so the last occurrence before the end cannot be settled.\<close>

theorem settle_recurring_outcome:
  assumes "recurring_plan_ok p" "advance_range (getTime (rp_nextDueAt p))" "rp_occurrence p < 4294967295"
    and "getTime (rp_nextDueAt p) \<le> at" "opt_ok (\<lambda>endsAt. at \<le> getTime endsAt) (rp_endsAt p)"
    and "atomicAmount_ok paid" "bigint paid \<noteq> 0"
  shows "\<exists>due'. advanceRecurringSchedule (Recurring (rp_cadence p) (rp_nextDueAt p)) = Inr (Recurring (rp_cadence p) due')
    \<and> getTime (rp_nextDueAt p) < getTime due'
    \<and> settleAdvancedPaymentPlan (Plan_recurring p) paid at =
       (if opt_ok (\<lambda>endsAt. getTime due' \<le> getTime endsAt) (rp_endsAt p)
        then Inr (Plan_recurring (p\<lparr>rp_nextDueAt := due', rp_occurrence := rp_occurrence p + 1\<rparr>))
        else Inl (Zod_error ''advancedPaymentPlanSchema''))"
proof -
  have d: "datetime_ok (rp_nextDueAt p)" using assms(1) by (simp add: recurring_plan_ok_def)
  obtain u where u: "advanceRecurringSchedule (Recurring (rp_cadence p) (rp_nextDueAt p)) = Inr (Recurring (rp_cadence p) (toISOString u))"
    "getTime (toISOString u) = u" "datetime_ok (toISOString u)" "getTime (rp_nextDueAt p) < u"
    using advance_Recurring [OF d assms(2)] by metis
  let ?p = "p\<lparr>rp_nextDueAt := toISOString u, rp_occurrence := rp_occurrence p + 1\<rparr>"
  have ok: "recurring_plan_ok ?p \<longleftrightarrow> opt_ok (\<lambda>endsAt. u \<le> getTime endsAt) (rp_endsAt p)"
    using assms(1,3) u by (cases "rp_endsAt p") (auto simp: recurring_plan_ok_def uint32_ok_def)
  have "settleAdvancedPaymentPlan (Plan_recurring p) paid at
      = zod ''advancedPaymentPlanSchema'' advancedPaymentPlanSchema (Plan_recurring ?p)"
    using assms u(1) by (simp add: settleAdvancedPaymentPlan_def advancedPlanEntitlement_def Let_def)
  then show ?thesis using u ok by (auto simp: zod_def)
qed

definition example_recurring :: recurring_plan where
  "example_recurring = \<lparr>rp_cadence = Monthly, rp_anchorAt = ''2026-01-31T12:00:00Z'',
     rp_nextDueAt = ''2026-01-31T12:00:00Z'', rp_occurrence = 0, rp_endsAt = Some ''2026-02-15T00:00:00Z''\<rparr>"

theorem settle_recurring_outcome_witness:
  "settleAdvancedPaymentPlan (Plan_recurring example_recurring) ''100'' 1769900000000
     = Inl (Zod_error ''advancedPaymentPlanSchema'')"
proof -
  have a: "recurring_plan_ok example_recurring" "advance_range (getTime (rp_nextDueAt example_recurring))"
    "rp_occurrence example_recurring < 4294967295" "getTime (rp_nextDueAt example_recurring) \<le> 1769900000000"
    "opt_ok (\<lambda>endsAt. 1769900000000 \<le> getTime endsAt) (rp_endsAt example_recurring)"
    "atomicAmount_ok ''100''" "bigint ''100'' \<noteq> 0"
    by code_simp+
  have "toISOString (addUtcMonthClamped (getTime (rp_nextDueAt example_recurring))) = ''2026-02-28T12:00:00.000Z''"
    "rp_cadence example_recurring = Monthly" "datetime_ok (rp_nextDueAt example_recurring)"
    by code_simp+
  then have "advanceRecurringSchedule (Recurring (rp_cadence example_recurring) (rp_nextDueAt example_recurring))
      = Inr (Recurring Monthly ''2026-02-28T12:00:00.000Z'')"
    by (simp add: advanceRecurringSchedule_def)
  moreover have "\<not> opt_ok (\<lambda>endsAt. getTime ''2026-02-28T12:00:00.000Z'' \<le> getTime endsAt) (rp_endsAt example_recurring)"
    by code_simp
  ultimately show ?thesis using settle_recurring_outcome [OF a] by auto
qed

text \<open>A milestone plan is settled only when it is approved, attested, not revoked and past its due time, for a
  positive amount; once settled its terms are unchanged and it is never due again.\<close>

theorem milestone_settled_once:
  assumes "settleAdvancedPaymentPlan (Plan_milestone p) paid at = Inr plan'"
  shows "milestone_open p \<and> getTime (mp_dueAt p) \<le> at \<and> 0 < bigint paid
    \<and> plan_terms plan' = plan_terms (Plan_milestone p)
    \<and> (\<exists>e. advancedPlanEntitlement plan' at' = Inr e \<and> \<not> due e)"
  using assms less_le [of 0 "bigint paid"]
  by (auto simp: settleAdvancedPaymentPlan_def advancedPlanEntitlement_def Let_def rbind_Inr_iff milestone_open_def
      split: if_splits)

definition example_milestone :: milestone_plan where
  "example_milestone = \<lparr>mp_dueAt = ''2026-08-06T00:00:00Z'',
     mp_milestoneCommitment = ''0x'' @ replicate 64 (CHR ''1''), mp_approverCommitment = ''0x'' @ replicate 64 (CHR ''2''),
     mp_attestationCommitment = Some (''0x'' @ replicate 64 (CHR ''3'')),
     mp_approvedAt = Some ''2026-08-05T00:00:00Z'', mp_revokedAt = None, mp_settledAt = None\<rparr>"

theorem milestone_settled_once_witness:
  "\<exists>plan'. settleAdvancedPaymentPlan (Plan_milestone example_milestone) ''300'' 1786000000000 = Inr plan'
     \<and> (\<exists>e. advancedPlanEntitlement plan' 1796000000000 = Inr e \<and> \<not> due e)"
proof -
  have "milestone_plan_ok example_milestone" "milestone_open example_milestone"
    "opt_ok (\<lambda>approvedAt. getTime approvedAt \<le> 1786000000000) (mp_approvedAt example_milestone)"
    "getTime (mp_dueAt example_milestone) \<le> 1786000000000"
    "advancedPaymentPlanSchema (Plan_milestone (example_milestone\<lparr>mp_settledAt := Some (toISOString 1786000000000)\<rparr>))"
    "atomicAmount_ok ''300''" "bigint ''300'' = 300"
    by code_simp+
  then obtain plan' where s: "settleAdvancedPaymentPlan (Plan_milestone example_milestone) ''300'' 1786000000000 = Inr plan'"
    by (simp add: settleAdvancedPaymentPlan_def advancedPlanEntitlement_def Let_def)
  from milestone_settled_once [OF s, of 1796000000000] s show ?thesis by metis
qed

text \<open>A stream or vesting plan with a due entitlement always accepts the settlement of exactly that
  entitlement (a vesting plan while its release counter is not exhausted).\<close>

theorem settlement_accepted:
  assumes "advancedPlanEntitlement plan at = Inr e" "due e" "atomicAmount_ok paid" "bigint paid = payableAtomic e"
    and "plan_total plan \<noteq> None" "sequence_no e < 4294967295"
  shows "\<exists>plan'. settleAdvancedPaymentPlan plan paid at = Inr plan'"
proof -
  have ok: "advancedPaymentPlanSchema plan"
    using assms(1) by (auto simp: advancedPlanEntitlement_def rbind_Inr_iff)
  show ?thesis
  proof (cases plan)
    case (Plan_vesting p)
    then have "vp_releaseSequence p = sequence_no e"
      using assms(1) ok by (auto simp: entitlement_vesting Let_def)
    with assms ok Plan_vesting show ?thesis by (simp add: settle_vesting_ok)
  qed (use assms ok in \<open>simp_all add: settle_stream_ok\<close>)
qed

theorem settlement_accepted_witness:
  "\<exists>plan'. settleAdvancedPaymentPlan (Plan_stream example_stream) ''300'' 1786000000000 = Inr plan'"
  by (rule settlement_accepted [OF example_stream_entitlement]) (simp_all add: example_stream_facts)

text \<open>A plan that is due projects to a proof schedule that is due at the same time: the schedule the proof
  circuit sees never withholds a due plan, except a stream after its end.\<close>

theorem projection_due:
  assumes "advancedPlanEntitlement plan at = Inr e" "due e"
    and "case plan of Plan_stream p \<Rightarrow> at \<le> getTime (sp_endsAt p) | _ \<Rightarrow> True"
  shows "\<exists>s. proofScheduleForAdvancedPlan plan = Inr s \<and> isScheduleDue s at = Inr True"
  using assms by (rule due_projection)

theorem projection_due_witness:
  "\<exists>s. proofScheduleForAdvancedPlan (Plan_stream example_stream) = Inr s \<and> isScheduleDue s 1786000000000 = Inr True"
proof -
  have "1786000000000 \<le> getTime (sp_endsAt example_stream)" by code_simp
  then show ?thesis by (intro projection_due [OF example_stream_entitlement]) simp_all
qed

end
