(* ===== verification/Agreements.thy ===== *)
theory Agreements
  imports Payment_Plans Reference_Lib
begin

text \<open>
  Model of \<open>lib/domain/classification.ts\<close>, of the employment agreement of
  \<open>lib/domain/obligations.ts\<close>, of \<open>lib/domain/obligation-schedule.ts\<close> and
  \<open>lib/domain/advanced-obligation-commitment.ts\<close>: how a worker is classified and the
  classification committed, when an agreement is well formed and due, and the commitment to its
  advanced terms.
\<close>

section \<open>Classification\<close>

datatype principal_kind = Human | Agent

datatype treatment = Employee | Contractor | Agent_service

fun treatment_name :: "treatment \<Rightarrow> string" where
  "treatment_name Employee = ''employee''"
| "treatment_name Contractor = ''contractor''"
| "treatment_name Agent_service = ''agent_service''"

record classification_answers =
  companyControlsSchedule :: bool
  companyControlsMethod :: bool
  companyProvidesPrimaryTools :: bool
  relationshipIsOngoing :: bool
  workerIsEconomicallyDependent :: bool
  workIsCoreToBusiness :: bool

definition CLASSIFICATION_FACTS :: "(string \<times> (classification_answers \<Rightarrow> bool)) list" where
  "CLASSIFICATION_FACTS =
     [(''companyControlsSchedule'', companyControlsSchedule),
      (''companyControlsMethod'', companyControlsMethod),
      (''companyProvidesPrimaryTools'', companyProvidesPrimaryTools),
      (''relationshipIsOngoing'', relationshipIsOngoing),
      (''workerIsEconomicallyDependent'', workerIsEconomicallyDependent),
      (''workIsCoreToBusiness'', workIsCoreToBusiness)]"

definition CLASSIFICATION_EMPLOYEE_THRESHOLD :: int where
  "CLASSIFICATION_EMPLOYEE_THRESHOLD = 4"

definition scoreClassificationFacts :: "classification_answers \<Rightarrow> int" where
  "scoreClassificationFacts answers =
     foldl (\<lambda>score (key, answer). score + (if answer answers then 1 else 0)) 0 CLASSIFICATION_FACTS"

record classification_assessment =
  ca_answers :: classification_answers
  ca_score :: int
  ca_treatment :: treatment
  ca_reviewedAt :: string
  ca_assessorCommitment :: string
  ca_salt :: string

definition classificationAssessmentSchema :: "classification_assessment \<Rightarrow> bool" where
  "classificationAssessmentSchema a =
     (0 \<le> ca_score a \<and> ca_score a \<le> int (length CLASSIFICATION_FACTS)
      \<and> datetime_ok (ca_reviewedAt a) \<and> commitment_ok (ca_assessorCommitment a) \<and> commitment_ok (ca_salt a)
      \<and> (let score = scoreClassificationFacts (ca_answers a);
             employeeLike = (CLASSIFICATION_EMPLOYEE_THRESHOLD \<le> score) in
           ca_score a = score
           \<and> \<not> ((ca_treatment a = Employee \<and> \<not> employeeLike) \<or> (ca_treatment a \<noteq> Employee \<and> employeeLike))))"

definition buildClassificationAssessment ::
    "classification_answers \<Rightarrow> treatment \<Rightarrow> principal_kind \<Rightarrow> string \<Rightarrow> string \<Rightarrow> string
     \<Rightarrow> classification_assessment result" where
  "buildClassificationAssessment answers treatment principalKind reviewedAt assessorCommitment salt' =
     (if (principalKind = Agent \<and> treatment \<noteq> Agent_service) \<or> (principalKind = Human \<and> treatment = Agent_service)
      then Inl (Thrown ''Classification treatment does not match the principal kind.'')
      else zod ''classificationAssessmentSchema'' classificationAssessmentSchema
        \<lparr>ca_answers = answers, ca_score = scoreClassificationFacts answers, ca_treatment = treatment,
         ca_reviewedAt = reviewedAt, ca_assessorCommitment = assessorCommitment, ca_salt = salt'\<rparr>)"

definition answers_json :: "classification_answers \<Rightarrow> json" where
  "answers_json answers = JObj (map (\<lambda>(key, answer). (key, JBool (answer answers))) CLASSIFICATION_FACTS)"

definition assessment_json :: "classification_assessment \<Rightarrow> json" where
  "assessment_json a = JObj
     [(''assessmentVersion'', JStr ''payo-classification-assessment-v1''),
      (''rubricVersion'', JStr ''payo-classification-facts-v1''),
      (''answers'', answers_json (ca_answers a)),
      (''score'', JNum (ca_score a)),
      (''employeeThreshold'', JNum CLASSIFICATION_EMPLOYEE_THRESHOLD),
      (''treatment'', JStr (treatment_name (ca_treatment a))),
      (''reviewedAt'', JStr (ca_reviewedAt a)),
      (''assessorCommitment'', JStr (ca_assessorCommitment a)),
      (''salt'', JStr (ca_salt a))]"

definition classificationFactsCommitment :: "lib \<Rightarrow> string \<Rightarrow> classification_assessment \<Rightarrow> string result" where
  "classificationFactsCommitment L agreement_id a =
     rbind (zod ''classificationAssessmentSchema'' classificationAssessmentSchema a) (\<lambda>assessment.
     Inr (hashCanonicalJson L (JObj
       [(''domain'', JStr ''PAYO_CLASSIFICATION_FACTS_V1''),
        (''agreementId'', JStr agreement_id),
        (''assessment'', assessment_json assessment)])))"

definition referenceClassificationAnswers :: "treatment \<Rightarrow> classification_answers" where
  "referenceClassificationAnswers treatment =
     (if treatment = Employee
      then \<lparr>companyControlsSchedule = True, companyControlsMethod = True, companyProvidesPrimaryTools = True,
            relationshipIsOngoing = True, workerIsEconomicallyDependent = False, workIsCoreToBusiness = False\<rparr>
      else \<lparr>companyControlsSchedule = False, companyControlsMethod = False, companyProvidesPrimaryTools = False,
            relationshipIsOngoing = False, workerIsEconomicallyDependent = False, workIsCoreToBusiness = False\<rparr>)"

section \<open>Employment agreements\<close>

record statutory_policy =
  sp_catalogRoot :: string
  sp_policyId :: string
  sp_policyVersion :: int

record fx_protection =
  fp_referenceCurrency :: string
  fp_minimumReferenceAtomic :: string
  fp_oracleSnapshotCommitment :: "string option"
  fp_maximumAgeSeconds :: int

record agreement_base =
  ag_id :: string
  ag_organizationId :: string
  ag_principalKind :: principal_kind
  ag_classification :: treatment
  ag_classificationFactsCommitment :: string
  ag_classificationAssessment :: "classification_assessment option"
  ag_jurisdictionCode :: string
  ag_settlementToken :: token
  ag_earningsAtomic :: "string list"
  ag_schedule :: pay_schedule
  ag_statutoryPolicy :: statutory_policy
  ag_fxProtection :: "fx_protection option"

record agreement_termination =
  te_terminatedAt :: string
  te_reasonCommitment :: string
  te_pay :: offboarding_pay

record agreement_adjustment =
  ad_amountAtomic :: string
  ad_reasonCommitment :: string
  ad_approverCommitment :: string

record agreement_v2 =
  v2_paymentPlan :: payment_plan
  v2_planSalt :: string
  v2_termination :: "agreement_termination option"
  v2_adjustment :: "agreement_adjustment option"

datatype agreement =
    Agreement_v1 (agreement_base_of: agreement_base)
  | Agreement_v2 (agreement_base_of: agreement_base) (agreement_v2_of: agreement_v2)

definition fx_protection_ok :: "fx_protection \<Rightarrow> bool" where
  "fx_protection_ok f =
     (currency_ok (fp_referenceCurrency f) \<and> atomicAmount_ok (fp_minimumReferenceAtomic f)
      \<and> opt_ok commitment_ok (fp_oracleSnapshotCommitment f)
      \<and> 0 < fp_maximumAgeSeconds f \<and> fp_maximumAgeSeconds f \<le> 86400)"

definition employmentAgreementBaseSchema :: "agreement_base \<Rightarrow> bool" where
  "employmentAgreementBaseSchema a =
     (length_between 1 160 (ag_id a) \<and> length_between 8 128 (ag_organizationId a)
      \<and> commitment_ok (ag_classificationFactsCommitment a)
      \<and> opt_ok classificationAssessmentSchema (ag_classificationAssessment a)
      \<and> jurisdiction_ok (ag_jurisdictionCode a)
      \<and> 1 \<le> length (ag_earningsAtomic a) \<and> length (ag_earningsAtomic a) \<le> 8
      \<and> list_all atomicAmount_ok (ag_earningsAtomic a)
      \<and> payScheduleSchema (ag_schedule a)
      \<and> commitment_ok (sp_catalogRoot (ag_statutoryPolicy a))
      \<and> length_between 1 160 (sp_policyId (ag_statutoryPolicy a))
      \<and> positive_int_ok (sp_policyVersion (ag_statutoryPolicy a))
      \<and> opt_ok fx_protection_ok (ag_fxProtection a))"

fun projectionMatches :: "payment_plan \<Rightarrow> pay_schedule \<Rightarrow> bool" where
  "projectionMatches (Plan_recurring p) (Recurring cadence nextDueAt) =
     (cadence = rp_cadence p \<and> nextDueAt = rp_nextDueAt p)"
| "projectionMatches (Plan_stream p) (Stream_schedule startsAt endsAt totalAtomic claimedAtomic) =
     (startsAt = sp_startsAt p \<and> endsAt = sp_endsAt p \<and> totalAtomic = sp_totalAtomic p
      \<and> claimedAtomic = sp_settledAtomic p)"
| "projectionMatches (Plan_milestone p) (Milestone milestoneCommitment approved dueAt) =
     (milestoneCommitment = mp_milestoneCommitment p \<and> approved = milestone_open p \<and> dueAt = mp_dueAt p)"
| "projectionMatches (Plan_vesting p) (Vesting startsAt cliffAt endsAt totalAtomic releasedAtomic) =
     (startsAt = vp_startsAt p \<and> cliffAt = vp_cliffAt p \<and> endsAt = vp_endsAt p
      \<and> totalAtomic = vp_totalAtomic p \<and> releasedAtomic = vp_releasedAtomic p)"
| "projectionMatches _ _ = False"

definition termination_components :: "offboarding_pay \<Rightarrow> string list" where
  "termination_components pay =
     [ordinaryPayAtomic pay, accruedLeaveAtomic pay, noticeAtomic pay, severanceAtomic pay, adjustmentsAtomic pay]"

definition employmentAgreementV2Schema :: "agreement_base \<Rightarrow> agreement_v2 \<Rightarrow> bool" where
  "employmentAgreementV2Schema a v =
     (employmentAgreementBaseSchema a
      \<and> advancedPaymentPlanSchema (v2_paymentPlan v) \<and> commitment_ok (v2_planSalt v)
      \<and> opt_ok (\<lambda>t. datetime_ok (te_terminatedAt t) \<and> commitment_ok (te_reasonCommitment t)
            \<and> offboardingPaySchema (te_pay t)) (v2_termination v)
      \<and> opt_ok (\<lambda>d. atomicAmount_ok (ad_amountAtomic d) \<and> commitment_ok (ad_reasonCommitment d)
            \<and> commitment_ok (ad_approverCommitment d)) (v2_adjustment v)
      \<and> projectionMatches (v2_paymentPlan v) (ag_schedule a)
      \<and> opt_ok (\<lambda>t. termination_components (te_pay t) = ag_earningsAtomic a) (v2_termination v)
      \<and> opt_ok (\<lambda>d. ad_amountAtomic d \<in> set (ag_earningsAtomic a)) (v2_adjustment v))"

definition employmentAgreementSchema :: "lib \<Rightarrow> agreement \<Rightarrow> bool" where
  "employmentAgreementSchema L agreement =
     ((case agreement of
         Agreement_v1 a \<Rightarrow> employmentAgreementBaseSchema a
       | Agreement_v2 a v \<Rightarrow> employmentAgreementV2Schema a v)
      \<and> (let a = agreement_base_of agreement in
         opt_ok (\<lambda>assessment.
             ca_treatment assessment = ag_classification a
             \<and> classificationFactsCommitment L (ag_id a) assessment
                 = Inr (toLowerCase (ag_classificationFactsCommitment a)))
           (ag_classificationAssessment a)))"

definition isAgreementDue :: "lib \<Rightarrow> agreement \<Rightarrow> int \<Rightarrow> bool result" where
  "isAgreementDue L agreementInput at =
     rbind (zod ''employmentAgreementSchema'' (employmentAgreementSchema L) agreementInput) (\<lambda>agreement.
     case agreement of
       Agreement_v2 a v \<Rightarrow> rbind (advancedPlanEntitlement (v2_paymentPlan v) at) (\<lambda>e. Inr (due e))
     | Agreement_v1 a \<Rightarrow> isScheduleDue (ag_schedule a) at)"

definition agreementOperationalDueAt :: "agreement \<Rightarrow> string" where
  "agreementOperationalDueAt agreement =
     (case agreement of
        Agreement_v2 a v \<Rightarrow>
          (case v2_paymentPlan v of
             Plan_recurring p \<Rightarrow> rp_nextDueAt p
           | Plan_stream p \<Rightarrow> cp_checkpointAt (sp_checkpoint p)
           | Plan_milestone p \<Rightarrow> mp_dueAt p
           | Plan_vesting p \<Rightarrow> vp_releaseAt p)
      | Agreement_v1 a \<Rightarrow>
          (case ag_schedule a of
             Recurring cadence nextDueAt \<Rightarrow> nextDueAt
           | Milestone milestoneCommitment approved dueAt \<Rightarrow> dueAt
           | Stream_schedule startsAt endsAt totalAtomic claimedAtomic \<Rightarrow> startsAt
           | Vesting startsAt cliffAt endsAt totalAtomic releasedAtomic \<Rightarrow> cliffAt))"

section \<open>The commitment to the advanced terms\<close>

definition ZERO_COMMITMENT :: string where
  "ZERO_COMMITMENT = ''0x'' @ replicate 64 (CHR ''0'')"

definition unixSeconds :: "string option \<Rightarrow> int" where
  "unixSeconds value = (case value of None \<Rightarrow> 0 | Some v \<Rightarrow> getTime v div 1000)"

definition componentMask :: "offboarding_components \<Rightarrow> int" where
  "componentMask c =
     ((if accruedLeave c then 1 else 0) OR (if notice c then 2 else 0)) OR (if severance c then 4 else 0)"

record obligation_encoding =
  oe_kind :: int
  oe_cadence :: int
  oe_flags :: int
  oe_occurrence :: int
  oe_releaseSequence :: int
  oe_checkpointSequence :: int
  oe_minimumCheckpointSeconds :: int
  oe_timestamps :: "int list"
  oe_amounts :: "int list"
  oe_requiredMask :: int
  oe_includedMask :: int
  oe_commitments :: "string list"
  oe_salt :: string

fun plan_kind :: "payment_plan \<Rightarrow> int" where
  "plan_kind (Plan_recurring p) = 0"
| "plan_kind (Plan_stream p) = 1"
| "plan_kind (Plan_milestone p) = 2"
| "plan_kind (Plan_vesting p) = 3"

fun cadence_code :: "cadence \<Rightarrow> int" where
  "cadence_code Weekly = 0" | "cadence_code Biweekly = 1" | "cadence_code Monthly = 2"

text \<open>The plan's part of the twelve timestamps, ten amounts and six commitments.\<close>

fun plan_timestamps :: "payment_plan \<Rightarrow> int list" where
  "plan_timestamps (Plan_recurring p) =
     [unixSeconds (Some (rp_anchorAt p)), unixSeconds (Some (rp_nextDueAt p)), unixSeconds (rp_endsAt p), 0, 0, 0, 0, 0, 0, 0, 0]"
| "plan_timestamps (Plan_stream p) =
     [0, 0, unixSeconds (Some (sp_endsAt p)), unixSeconds (Some (sp_startsAt p)), 0,
      unixSeconds (Some (cp_checkpointAt (sp_checkpoint p))), unixSeconds (sp_lastCheckpointAt p), 0, 0, 0, 0]"
| "plan_timestamps (Plan_milestone p) =
     [0, 0, 0, 0, 0, 0, 0, unixSeconds (Some (mp_dueAt p)), unixSeconds (mp_approvedAt p),
      unixSeconds (mp_revokedAt p), unixSeconds (mp_settledAt p)]"
| "plan_timestamps (Plan_vesting p) =
     [0, 0, unixSeconds (Some (vp_endsAt p)), unixSeconds (Some (vp_startsAt p)), unixSeconds (Some (vp_cliffAt p)),
      unixSeconds (Some (vp_releaseAt p)), 0, 0, 0, 0, 0]"

fun plan_amounts :: "payment_plan \<Rightarrow> int list" where
  "plan_amounts (Plan_stream p) =
     [bigint (sp_totalAtomic p), bigint (sp_settledAtomic p),
      bigint (cp_cumulativeEntitlementAtomic (sp_checkpoint p))]"
| "plan_amounts (Plan_vesting p) = [bigint (vp_totalAtomic p), bigint (vp_releasedAtomic p), 0]"
| "plan_amounts _ = [0, 0, 0]"

fun plan_commitments :: "payment_plan \<Rightarrow> string list" where
  "plan_commitments (Plan_milestone p) =
     [mp_milestoneCommitment p, mp_approverCommitment p,
      (case mp_attestationCommitment p of Some c \<Rightarrow> c | None \<Rightarrow> ZERO_COMMITMENT)]"
| "plan_commitments (Plan_stream p) =
     [ZERO_COMMITMENT, ZERO_COMMITMENT, cp_attestationCommitment (sp_checkpoint p)]"
| "plan_commitments _ = [ZERO_COMMITMENT, ZERO_COMMITMENT, ZERO_COMMITMENT]"

definition encodeAdvancedObligation :: "lib \<Rightarrow> agreement \<Rightarrow> obligation_encoding result" where
  "encodeAdvancedObligation L agreementInput =
     rbind (zod ''employmentAgreementSchema'' (employmentAgreementSchema L) agreementInput) (\<lambda>agreement.
     case agreement of
       Agreement_v1 a \<Rightarrow> Inl (Thrown ''Only a PAYO v2 agreement has an advanced obligation commitment.'')
     | Agreement_v2 a v \<Rightarrow>
         let plan = v2_paymentPlan v;
             termination = map_option te_pay (v2_termination v);
             or_zero = (\<lambda>f. case termination of Some pay \<Rightarrow> bigint (f pay) | None \<Rightarrow> 0)
         in Inr
          \<lparr>oe_kind = plan_kind plan,
           oe_cadence = (case plan of Plan_recurring p \<Rightarrow> cadence_code (rp_cadence p) | _ \<Rightarrow> 0),
           oe_flags = (if v2_termination v \<noteq> None then 1 else 0) OR (if v2_adjustment v \<noteq> None then 2 else 0),
           oe_occurrence = (case plan of Plan_recurring p \<Rightarrow> rp_occurrence p | _ \<Rightarrow> 0),
           oe_releaseSequence = (case plan of Plan_vesting p \<Rightarrow> vp_releaseSequence p | _ \<Rightarrow> 0),
           oe_checkpointSequence = (case plan of Plan_stream p \<Rightarrow> cp_sequence (sp_checkpoint p) | _ \<Rightarrow> 0),
           oe_minimumCheckpointSeconds = (case plan of Plan_stream p \<Rightarrow> sp_minimumCheckpointSeconds p | _ \<Rightarrow> 0),
           oe_timestamps = plan_timestamps plan @ [unixSeconds (map_option te_terminatedAt (v2_termination v))],
           oe_amounts = plan_amounts plan
             @ [(case v2_adjustment v of Some d \<Rightarrow> bigint (ad_amountAtomic d) | None \<Rightarrow> 0)]
             @ map or_zero [ordinaryPayAtomic, accruedLeaveAtomic, noticeAtomic, severanceAtomic, adjustmentsAtomic,
                            offboardingDeductionsAtomic],
           oe_requiredMask = (case termination of Some pay \<Rightarrow> componentMask (requiredComponents pay) | None \<Rightarrow> 0),
           oe_includedMask = (case termination of Some pay \<Rightarrow> componentMask (includedComponents pay) | None \<Rightarrow> 0),
           oe_commitments = plan_commitments plan
             @ [(case v2_termination v of Some t \<Rightarrow> te_reasonCommitment t | None \<Rightarrow> ZERO_COMMITMENT)]
             @ (case v2_adjustment v of Some d \<Rightarrow> [ad_reasonCommitment d, ad_approverCommitment d]
                | None \<Rightarrow> [ZERO_COMMITMENT, ZERO_COMMITMENT]),
           oe_salt = v2_planSalt v\<rparr>)"

text \<open>The bytes the commitment hashes, and the commitment.\<close>

definition obligation_preimage :: "lib \<Rightarrow> obligation_encoding \<Rightarrow> byte list result" where
  "obligation_preimage L e =
     rbind (encodeU32 (oe_occurrence e)) (\<lambda>occurrence.
     rbind (encodeU32 (oe_releaseSequence e)) (\<lambda>releaseSequence.
     rbind (encodeU32 (oe_checkpointSequence e)) (\<lambda>checkpointSequence.
     rbind (encodeU32 (oe_minimumCheckpointSeconds e)) (\<lambda>minimumCheckpointSeconds.
     rbind (rmap (\<lambda>v. encodeUint v 8) (oe_timestamps e)) (\<lambda>timestamps.
     rbind (rmap (\<lambda>v. encodeUint v 16) (oe_amounts e)) (\<lambda>amounts.
     rbind (rmap (\<lambda>v. normalizedHexBytes L v (Some 32)) (oe_commitments e)) (\<lambda>commitments.
     rbind (normalizedHexBytes L (oe_salt e) (Some 32)) (\<lambda>salt.
     Inr (concatBytes ([utf8 ''PAYO_ADVANCED_OBLIGATION_V1'',
       [1, word_of_int (oe_kind e), word_of_int (oe_cadence e), word_of_int (oe_flags e)],
       occurrence, releaseSequence, checkpointSequence, minimumCheckpointSeconds]
       @ timestamps @ amounts @ [[word_of_int (oe_requiredMask e), word_of_int (oe_includedMask e)]]
       @ commitments @ [salt]))))))))))"

definition advancedObligationCommitment :: "lib \<Rightarrow> agreement \<Rightarrow> string result" where
  "advancedObligationCommitment L agreementInput =
     rbind (encodeAdvancedObligation L agreementInput) (\<lambda>encoded.
     rbind (obligation_preimage L encoded) (\<lambda>bytes. Inr (toHex L (keccak_256 L bytes))))"

section \<open>What an agreement that is due implies\<close>

lemma bigint_not_neg [simp]: "\<not> bigint s < 0"
  by (simp add: not_less)

lemma due_operational_schedule:
  "isScheduleDue s at = Inr True \<Longrightarrow> (case s of
      Recurring c nextDueAt \<Rightarrow> getTime nextDueAt \<le> at
    | Milestone m approved dueAt \<Rightarrow> getTime dueAt \<le> at
    | Stream_schedule startsAt endsAt totalAtomic claimedAtomic \<Rightarrow> getTime startsAt \<le> at
    | Vesting startsAt cliffAt endsAt totalAtomic releasedAtomic \<Rightarrow> getTime cliffAt \<le> at)"
  by (cases s)
    (auto simp: isScheduleDue_def vestedAtomic_def rbind_Inr_iff not_le not_less split: if_splits)

lemma due_operational_plan:
  "advancedPlanEntitlement plan at = Inr e \<Longrightarrow> due e \<Longrightarrow> (case plan of
      Plan_recurring p \<Rightarrow> getTime (rp_nextDueAt p) \<le> at
    | Plan_stream p \<Rightarrow> getTime (cp_checkpointAt (sp_checkpoint p)) \<le> at
    | Plan_milestone p \<Rightarrow> getTime (mp_dueAt p) \<le> at
    | Plan_vesting p \<Rightarrow> getTime (vp_releaseAt p) \<le> at)"
  by (cases plan)
    (auto simp: advancedPlanEntitlement_def rbind_Inr_iff Let_def split: if_splits)

lemma projectionMatches_iff:
  "projectionMatches plan s \<longleftrightarrow> s = (case plan of
       Plan_recurring p \<Rightarrow> Recurring (rp_cadence p) (rp_nextDueAt p)
     | Plan_stream p \<Rightarrow> Stream_schedule (sp_startsAt p) (sp_endsAt p) (sp_totalAtomic p) (sp_settledAtomic p)
     | Plan_milestone p \<Rightarrow> Milestone (mp_milestoneCommitment p) (milestone_open p) (mp_dueAt p)
     | Plan_vesting p \<Rightarrow>
         Vesting (vp_startsAt p) (vp_cliffAt p) (vp_endsAt p) (vp_totalAtomic p) (vp_releasedAtomic p))"
  by (cases "(plan, s)" rule: projectionMatches.cases) auto

lemma v2_schema_projection:
  "employmentAgreementSchema L (Agreement_v2 a v) \<Longrightarrow>
   proofScheduleForAdvancedPlan (v2_paymentPlan v) = Inr (ag_schedule a)"
proof -
  assume "employmentAgreementSchema L (Agreement_v2 a v)"
  then have "advancedPaymentPlanSchema (v2_paymentPlan v)" "projectionMatches (v2_paymentPlan v) (ag_schedule a)"
    "payScheduleSchema (ag_schedule a)"
    by (simp_all add: employmentAgreementSchema_def employmentAgreementV2Schema_def employmentAgreementBaseSchema_def)
  then show ?thesis by (simp add: proofScheduleForAdvancedPlan_def projectionMatches_iff)
qed

section \<open>The commitment binds the encoding\<close>

text \<open>What an encoding stands for: its numbers, and the numbers its commitments spell.\<close>

definition encoding_value :: "obligation_encoding \<Rightarrow> obligation_encoding \<times> int list \<times> int" where
  "encoding_value e = (e\<lparr>oe_commitments := [], oe_salt := []\<rparr>, map hex_num (oe_commitments e), hex_num (oe_salt e))"

definition encoding_shape :: "obligation_encoding \<Rightarrow> bool" where
  "encoding_shape e =
     (length (oe_timestamps e) = 12 \<and> length (oe_amounts e) = 10 \<and> length (oe_commitments e) = 6
      \<and> (\<forall>b \<in> {oe_kind e, oe_cadence e, oe_flags e, oe_requiredMask e, oe_includedMask e}. 0 \<le> b \<and> b < 256))"

lemma componentMask_bounds: "0 \<le> componentMask c" "componentMask c < 256"
  by (cases "accruedLeave c"; cases "notice c"; cases "severance c"; simp add: componentMask_def)+

lemma plan_shape:
  "length (plan_timestamps plan) = 11" "length (plan_amounts plan) = 3" "length (plan_commitments plan) = 3"
  "0 \<le> plan_kind plan" "plan_kind plan < 256"
  by (cases plan; simp)+

lemma cadence_code_bounds: "0 \<le> cadence_code c" "cadence_code c < 256"
  by (cases c; simp)+

lemma encodeAdvancedObligation_shape:
  "encodeAdvancedObligation L a = Inr e \<Longrightarrow> encoding_shape e"
  by (cases a)
    (auto simp: encodeAdvancedObligation_def rbind_Inr_iff encoding_shape_def Let_def plan_shape componentMask_bounds
      cadence_code_bounds split: payment_plan.splits option.splits)

lemma byte_word_eq:
  assumes "0 \<le> x" "x < 256" "0 \<le> y" "y < 256"
  shows "(word_of_int x :: byte) = word_of_int y \<longleftrightarrow> x = y"
proof
  assume "(word_of_int x :: byte) = word_of_int y"
  then have "uint (word_of_int x :: byte) = uint (word_of_int y :: byte)" by simp
  then show "x = y" using assms by (simp add: unsigned_of_int take_bit_eq_mod)
qed simp

lemma byte_list_eq:
  "length xs = length ys \<Longrightarrow> \<forall>b \<in> set xs \<union> set ys. 0 \<le> b \<and> b < 256
   \<Longrightarrow> map (\<lambda>b. word_of_int b :: byte) xs = map word_of_int ys \<longleftrightarrow> xs = ys"
  by (induction xs ys rule: list_induct2) (auto simp: byte_word_eq)

lemma obligation_preimage_Inr:
  assumes "obligation_preimage L e = Inr p"
  obtains o1 o2 o3 o4 ts as cs s where
    "encodeU32 (oe_occurrence e) = Inr o1" "encodeU32 (oe_releaseSequence e) = Inr o2"
    "encodeU32 (oe_checkpointSequence e) = Inr o3" "encodeU32 (oe_minimumCheckpointSeconds e) = Inr o4"
    "rmap (\<lambda>v. encodeUint v 8) (oe_timestamps e) = Inr ts" "rmap (\<lambda>v. encodeUint v 16) (oe_amounts e) = Inr as"
    "rmap (\<lambda>v. normalizedHexBytes L v (Some 32)) (oe_commitments e) = Inr cs"
    "normalizedHexBytes L (oe_salt e) (Some 32) = Inr s"
    "p = utf8 ''PAYO_ADVANCED_OBLIGATION_V1'' @ 1 # map word_of_int [oe_kind e, oe_cadence e, oe_flags e]
       @ o1 @ o2 @ o3 @ o4 @ concat ts @ concat as @ map word_of_int [oe_requiredMask e, oe_includedMask e] @ concat cs @ s"
  using assms by (auto simp: obligation_preimage_def rbind_Inr_iff concatBytes_concat)

lemma obligation_preimage_binding:
  assumes "hex_lib_ok L" "encoding_shape e" "encoding_shape f"
    and "obligation_preimage L e = Inr p" "obligation_preimage L f = Inr p"
  shows "encoding_value e = encoding_value f"
proof -
  obtain o1 o2 o3 o4 ts as cs s where E:
    "encodeU32 (oe_occurrence e) = Inr o1" "encodeU32 (oe_releaseSequence e) = Inr o2"
    "encodeU32 (oe_checkpointSequence e) = Inr o3" "encodeU32 (oe_minimumCheckpointSeconds e) = Inr o4"
    "rmap (\<lambda>v. encodeUint v 8) (oe_timestamps e) = Inr ts" "rmap (\<lambda>v. encodeUint v 16) (oe_amounts e) = Inr as"
    "rmap (\<lambda>v. normalizedHexBytes L v (Some 32)) (oe_commitments e) = Inr cs"
    "normalizedHexBytes L (oe_salt e) (Some 32) = Inr s"
    "p = utf8 ''PAYO_ADVANCED_OBLIGATION_V1'' @ 1 # map word_of_int [oe_kind e, oe_cadence e, oe_flags e]
       @ o1 @ o2 @ o3 @ o4 @ concat ts @ concat as @ map word_of_int [oe_requiredMask e, oe_includedMask e] @ concat cs @ s"
    using assms(4) by (rule obligation_preimage_Inr)
  obtain p1 p2 p3 p4 us bs ds t where F:
    "encodeU32 (oe_occurrence f) = Inr p1" "encodeU32 (oe_releaseSequence f) = Inr p2"
    "encodeU32 (oe_checkpointSequence f) = Inr p3" "encodeU32 (oe_minimumCheckpointSeconds f) = Inr p4"
    "rmap (\<lambda>v. encodeUint v 8) (oe_timestamps f) = Inr us" "rmap (\<lambda>v. encodeUint v 16) (oe_amounts f) = Inr bs"
    "rmap (\<lambda>v. normalizedHexBytes L v (Some 32)) (oe_commitments f) = Inr ds"
    "normalizedHexBytes L (oe_salt f) (Some 32) = Inr t"
    "p = utf8 ''PAYO_ADVANCED_OBLIGATION_V1'' @ 1 # map word_of_int [oe_kind f, oe_cadence f, oe_flags f]
       @ p1 @ p2 @ p3 @ p4 @ concat us @ concat bs @ map word_of_int [oe_requiredMask f, oe_includedMask f] @ concat ds @ t"
    using assms(5) by (rule obligation_preimage_Inr)
  have len: "length (oe_timestamps e) = length (oe_timestamps f)" "length (oe_amounts e) = length (oe_amounts f)"
    "length (oe_commitments e) = length (oe_commitments f)"
    using assms(2,3) by (simp_all add: encoding_shape_def)
  note hex = hex_fixed_width [OF assms(1)]
  have k: "map (\<lambda>b. word_of_int b :: byte) xs @ r = map word_of_int ys @ r' \<longleftrightarrow> xs = ys \<and> r = r'"
    if "length xs = length ys" "\<forall>b \<in> set xs \<union> set ys. 0 \<le> b \<and> b < 256" for xs ys r r'
    using byte_list_eq [OF that] that(1) by (simp add: append_eq_append_conv)
  have m: "\<forall>b \<in> set [oe_kind e, oe_cadence e, oe_flags e] \<union> set [oe_kind f, oe_cadence f, oe_flags f]. 0 \<le> b \<and> b < 256"
    "\<forall>b \<in> set [oe_requiredMask e, oe_includedMask e] \<union> set [oe_requiredMask f, oe_includedMask f]. 0 \<le> b \<and> b < 256"
    using assms(2,3) by (auto simp: encoding_shape_def)
  have eq: "map word_of_int [oe_kind e, oe_cadence e, oe_flags e]
       @ o1 @ o2 @ o3 @ o4 @ concat ts @ concat as @ map word_of_int [oe_requiredMask e, oe_includedMask e] @ concat cs @ s
     = (map word_of_int [oe_kind f, oe_cadence f, oe_flags f] :: byte list)
       @ p1 @ p2 @ p3 @ p4 @ concat us @ concat bs @ map word_of_int [oe_requiredMask f, oe_includedMask f] @ concat ds @ t"
    using E(9) F(9) by (simp del: list.map)
  have kinds: "[oe_kind e, oe_cadence e, oe_flags e] = [oe_kind f, oe_cadence f, oe_flags f]"
    and r1: "o1 @ o2 @ o3 @ o4 @ concat ts @ concat as @ map word_of_int [oe_requiredMask e, oe_includedMask e] @ concat cs @ s
     = p1 @ p2 @ p3 @ p4 @ concat us @ concat bs @ map word_of_int [oe_requiredMask f, oe_includedMask f] @ concat ds @ t"
    using iffD1 [OF k [OF _ m(1)] eq] by simp_all
  have km: "map (\<lambda>b. word_of_int b :: byte) [oe_requiredMask e, oe_includedMask e] @ r
      = map word_of_int [oe_requiredMask f, oe_includedMask f] @ r'
    \<longleftrightarrow> [oe_requiredMask e, oe_includedMask e] = [oe_requiredMask f, oe_includedMask f] \<and> r = r'" for r r'
    using m(2) by (intro k) simp_all
  have "oe_occurrence e = oe_occurrence f \<and> oe_releaseSequence e = oe_releaseSequence f
    \<and> oe_checkpointSequence e = oe_checkpointSequence f
    \<and> oe_minimumCheckpointSeconds e = oe_minimumCheckpointSeconds f
    \<and> map (\<lambda>v. v) (oe_timestamps e) = map (\<lambda>v. v) (oe_timestamps f) \<and> map (\<lambda>v. v) (oe_amounts e) = map (\<lambda>v. v) (oe_amounts f)
    \<and> [oe_requiredMask e, oe_includedMask e] = [oe_requiredMask f, oe_includedMask f]
    \<and> map hex_num (oe_commitments e) = map hex_num (oe_commitments f) \<and> s = t"
    using r1
    unfolding u32.enc_append_eq [OF E(1) F(1)] u32.enc_append_eq [OF E(2) F(2)]
      u32.enc_append_eq [OF E(3) F(3)] u32.enc_append_eq [OF E(4) F(4)]
      uint.concat_enc_append_eq [OF E(5) F(5) len(1)] uint.concat_enc_append_eq [OF E(6) F(6) len(2)]
      km fixed_width.concat_enc_append_eq [OF hex E(7) F(7) len(3)] .
  then show ?thesis
    using kinds fixed_width.enc_val [OF hex E(8) F(8)]
    by (cases e; cases f) (simp add: encoding_value_def)
qed

section \<open>Properties\<close>

lemma classification_score: "scoreClassificationFacts answers =
    int (length (filter (\<lambda>(key, answer). answer answers) CLASSIFICATION_FACTS))"
  by (simp add: scoreClassificationFacts_def CLASSIFICATION_FACTS_def)

lemma reference_assessment:
  "datetime_ok at \<Longrightarrow> commitment_ok assessor \<Longrightarrow> commitment_ok s \<Longrightarrow> (k = Agent \<longleftrightarrow> tr = Agent_service) \<Longrightarrow>
   \<exists>a. buildClassificationAssessment (referenceClassificationAnswers tr) tr k at assessor s = Inr a
     \<and> classificationAssessmentSchema a \<and> ca_treatment a = tr"
  by (cases tr; cases k)
    (simp_all add: buildClassificationAssessment_def classificationAssessmentSchema_def scoreClassificationFacts_def
      CLASSIFICATION_FACTS_def CLASSIFICATION_EMPLOYEE_THRESHOLD_def referenceClassificationAnswers_def)

text \<open>An accepted classification assessment records the number of facts answered yes, and its treatment is
  employment exactly when at least four of the six facts hold.\<close>

theorem classification_rubric:
  assumes "classificationAssessmentSchema a"
  shows "ca_score a = int (length (filter (\<lambda>(key, answer). answer (ca_answers a)) CLASSIFICATION_FACTS))
    \<and> (ca_treatment a = Employee \<longleftrightarrow> 4 \<le> ca_score a)"
  using assms unfolding classification_score [symmetric]
  by (auto simp: classificationAssessmentSchema_def CLASSIFICATION_EMPLOYEE_THRESHOLD_def Let_def)

theorem classification_rubric_witness:
  "\<exists>a. buildClassificationAssessment (referenceClassificationAnswers Employee) Employee Human
     ''2026-08-01T00:00:00Z'' ZERO_COMMITMENT ZERO_COMMITMENT = Inr a \<and> 4 \<le> ca_score a"
proof -
  have "datetime_ok ''2026-08-01T00:00:00Z''" "commitment_ok ZERO_COMMITMENT" by code_simp+
  then show ?thesis
    using reference_assessment [of "''2026-08-01T00:00:00Z''" ZERO_COMMITMENT ZERO_COMMITMENT Human Employee]
      classification_rubric by fastforce
qed

definition example_base :: agreement_base where
  "example_base = \<lparr>ag_id = ''agreement-1'', ag_organizationId = ''organization-1'', ag_principalKind = Human,
     ag_classification = Employee, ag_classificationFactsCommitment = ZERO_COMMITMENT,
     ag_classificationAssessment = None, ag_jurisdictionCode = ''US-CA'', ag_settlementToken = USDC,
     ag_earningsAtomic = [''1000''], ag_schedule = Recurring Monthly ''2026-01-31T12:00:00Z'',
     ag_statutoryPolicy = \<lparr>sp_catalogRoot = ZERO_COMMITMENT, sp_policyId = ''policy'', sp_policyVersion = 1\<rparr>,
     ag_fxProtection = None\<rparr>"

definition example_agreement :: "string \<Rightarrow> agreement" where
  "example_agreement s = Agreement_v2 example_base
     \<lparr>v2_paymentPlan = Plan_recurring example_recurring, v2_planSalt = s, v2_termination = None, v2_adjustment = None\<rparr>"

lemma example_agreement_ok:
  assumes "commitment_ok s"
  shows "employmentAgreementSchema L (example_agreement s)"
proof -
  have "employmentAgreementBaseSchema example_base" "recurring_plan_ok example_recurring"
    "projectionMatches (Plan_recurring example_recurring) (ag_schedule example_base)"
    "ag_classificationAssessment example_base = None"
    by code_simp+
  with assms show ?thesis
    by (simp add: employmentAgreementSchema_def example_agreement_def employmentAgreementV2Schema_def)
qed

lemma example_agreement_due:
  "isAgreementDue L (example_agreement ZERO_COMMITMENT) 1769900000000 = Inr True"
proof -
  have "commitment_ok ZERO_COMMITMENT" "recurring_plan_ok example_recurring"
    "getTime (rp_nextDueAt example_recurring) \<le> 1769900000000"
    "opt_ok (\<lambda>endsAt. 1769900000000 \<le> getTime endsAt) (rp_endsAt example_recurring)"
    by code_simp+
  then show ?thesis
    using example_agreement_ok [of ZERO_COMMITMENT L]
    by (simp add: isAgreementDue_def example_agreement_def advancedPlanEntitlement_def Let_def)
qed

text \<open>An agreement is never due before its operational due time, the one timestamp the scheduler sees.\<close>

theorem due_after_operational:
  assumes "isAgreementDue L a at = Inr True"
  shows "getTime (agreementOperationalDueAt a) \<le> at"
proof (cases a)
  case (Agreement_v1 b)
  then have "isScheduleDue (ag_schedule b) at = Inr True"
    using assms by (simp add: isAgreementDue_def rbind_Inr_iff)
  from due_operational_schedule [OF this] show ?thesis
    by (simp add: Agreement_v1 agreementOperationalDueAt_def split: pay_schedule.splits)
next
  case (Agreement_v2 b v)
  then obtain e where "advancedPlanEntitlement (v2_paymentPlan v) at = Inr e" "due e"
    using assms by (auto simp: isAgreementDue_def rbind_Inr_iff)
  from due_operational_plan [OF this] show ?thesis
    by (simp add: Agreement_v2 agreementOperationalDueAt_def split: payment_plan.splits)
qed

theorem due_after_operational_witness:
  "getTime (agreementOperationalDueAt (example_agreement ZERO_COMMITMENT)) \<le> 1769900000000"
  by (rule due_after_operational [OF example_agreement_due])

text \<open>The proof schedule stored in an accepted v2 agreement is the projection of its payment plan, and it is due
  whenever the agreement is, except a stream after its end.\<close>

theorem agreement_schedule_projection:
  assumes "employmentAgreementSchema L (Agreement_v2 a v)"
  shows "proofScheduleForAdvancedPlan (v2_paymentPlan v) = Inr (ag_schedule a)
    \<and> (isAgreementDue L (Agreement_v2 a v) at = Inr True
        \<longrightarrow> (case v2_paymentPlan v of Plan_stream p \<Rightarrow> at \<le> getTime (sp_endsAt p) | _ \<Rightarrow> True)
        \<longrightarrow> isScheduleDue (ag_schedule a) at = Inr True)"
proof (intro conjI impI)
  show p: "proofScheduleForAdvancedPlan (v2_paymentPlan v) = Inr (ag_schedule a)"
    using assms by (rule v2_schema_projection)
  assume d: "isAgreementDue L (Agreement_v2 a v) at = Inr True"
    and w: "case v2_paymentPlan v of Plan_stream p \<Rightarrow> at \<le> getTime (sp_endsAt p) | _ \<Rightarrow> True"
  obtain e where "advancedPlanEntitlement (v2_paymentPlan v) at = Inr e" "due e"
    using d by (auto simp: isAgreementDue_def rbind_Inr_iff)
  from due_projection [OF this w] p show "isScheduleDue (ag_schedule a) at = Inr True"
    by (metis sum.inject(2))
qed

theorem agreement_schedule_projection_witness:
  "isScheduleDue (Recurring Monthly ''2026-01-31T12:00:00Z'') 1769900000000 = Inr True"
proof -
  have "commitment_ok ZERO_COMMITMENT" by code_simp
  from agreement_schedule_projection [OF example_agreement_ok [OF this, unfolded example_agreement_def], of ref_lib 1769900000000]
  show ?thesis using example_agreement_due [of ref_lib] by (simp add: example_base_def example_agreement_def)
qed

text \<open>Two agreements with the same advanced-obligation commitment have the same encoding, so the same kind,
  cadence, counters, timestamps in seconds, amounts, masks, commitments and salt, unless two different byte
  strings with the same hash were found.\<close>

theorem obligation_commitment_binding:
  assumes "hex_lib_ok L" "advancedObligationCommitment L a = Inr c" "advancedObligationCommitment L b = Inr c"
  shows "\<exists>e f p q. encodeAdvancedObligation L a = Inr e \<and> encodeAdvancedObligation L b = Inr f
    \<and> obligation_preimage L e = Inr p \<and> obligation_preimage L f = Inr q
    \<and> (encoding_value e = encoding_value f \<or> (p \<noteq> q \<and> keccak_256 L p = keccak_256 L q))"
proof -
  obtain e p where e: "encodeAdvancedObligation L a = Inr e" "obligation_preimage L e = Inr p" "c = toHex L (keccak_256 L p)"
    using assms(2) by (auto simp: advancedObligationCommitment_def rbind_Inr_iff)
  obtain f q where f: "encodeAdvancedObligation L b = Inr f" "obligation_preimage L f = Inr q" "c = toHex L (keccak_256 L q)"
    using assms(3) by (auto simp: advancedObligationCommitment_def rbind_Inr_iff)
  have "keccak_256 L p = keccak_256 L q" using e(3) f(3) toHex_inj [OF assms(1)] by simp
  moreover have "encoding_value e = encoding_value f" if "p = q"
    using obligation_preimage_binding [OF assms(1) encodeAdvancedObligation_shape [OF e(1)]
        encodeAdvancedObligation_shape [OF f(1)] e(2)] f(2) that by simp
  ultimately show ?thesis using e(1,2) f(1,2) by (cases "p = q") auto
qed

definition salt_upper :: string where "salt_upper = ''0x'' @ replicate 64 (CHR ''A'')"
definition salt_lower :: string where "salt_lower = ''0x'' @ replicate 64 (CHR ''a'')"

definition example_encoding :: "string \<Rightarrow> obligation_encoding" where
  "example_encoding s =
     \<lparr>oe_kind = 0, oe_cadence = 2, oe_flags = 0, oe_occurrence = 0, oe_releaseSequence = 0,
      oe_checkpointSequence = 0, oe_minimumCheckpointSeconds = 0,
      oe_timestamps = [1769860800, 1769860800, 1771113600, 0, 0, 0, 0, 0, 0, 0, 0, 0],
      oe_amounts = replicate 10 0, oe_requiredMask = 0, oe_includedMask = 0,
      oe_commitments = replicate 6 ZERO_COMMITMENT, oe_salt = s\<rparr>"

lemma example_encode:
  assumes "commitment_ok s"
  shows "encodeAdvancedObligation L (example_agreement s) = Inr (example_encoding s)"
proof -
  have "plan_timestamps (Plan_recurring example_recurring) = [1769860800, 1769860800, 1771113600, 0, 0, 0, 0, 0, 0, 0, 0]"
    "rp_cadence example_recurring = Monthly" "rp_occurrence example_recurring = 0"
    by code_simp+
  then show ?thesis
    using example_agreement_ok [OF assms, of L]
    by (simp add: encodeAdvancedObligation_def example_agreement_def example_encoding_def Let_def unixSeconds_def
        eval_nat_numeral)
qed

lemma example_salt_preimage:
  "commitment_ok salt_upper" "commitment_ok salt_lower"
  "\<exists>p. obligation_preimage ref_lib (example_encoding salt_upper) = Inr p
     \<and> obligation_preimage ref_lib (example_encoding salt_lower) = Inr p"
proof -
  show "commitment_ok salt_upper" "commitment_ok salt_lower" by code_simp+
  have "normalizedHexBytes ref_lib salt_upper (Some 32) = Inr (replicate 32 170)"
    "normalizedHexBytes ref_lib salt_lower (Some 32) = Inr (replicate 32 170)"
    "normalizedHexBytes ref_lib ZERO_COMMITMENT (Some 32) = Inr (replicate 32 0)"
    by code_simp+
  moreover have "rmap (\<lambda>v. encodeUint v 8) [1769860800, 1769860800, 1771113600, 0, 0, 0, 0, 0, 0, 0, 0, 0] \<noteq> Inl e" for e
    by (auto dest!: rmap_Inl simp: encodeUint_def)
  ultimately show "\<exists>p. obligation_preimage ref_lib (example_encoding salt_upper) = Inr p
     \<and> obligation_preimage ref_lib (example_encoding salt_lower) = Inr p"
    by (simp add: obligation_preimage_def example_encoding_def encodeU32_def encodeUint_def eval_nat_numeral)
qed

theorem obligation_commitment_binding_witness:
  "\<exists>c e f. advancedObligationCommitment ref_lib (example_agreement salt_upper) = Inr c
     \<and> advancedObligationCommitment ref_lib (example_agreement salt_lower) = Inr c
     \<and> encodeAdvancedObligation ref_lib (example_agreement salt_upper) = Inr e
     \<and> encodeAdvancedObligation ref_lib (example_agreement salt_lower) = Inr f \<and> encoding_value e = encoding_value f"
proof -
  note s = example_salt_preimage
  obtain c where c: "advancedObligationCommitment ref_lib (example_agreement salt_upper) = Inr c"
      "advancedObligationCommitment ref_lib (example_agreement salt_lower) = Inr c"
    using s(3) by (auto simp: advancedObligationCommitment_def example_encode [OF s(1)] example_encode [OF s(2)])
  from obligation_commitment_binding [OF ref_lib_hex c] c s(3) show ?thesis
    by (auto simp: example_encode [OF s(1)] example_encode [OF s(2)])
qed

end
