(* ===== verification/Policy_Engine.thy ===== *)
theory Policy_Engine
  imports Agreements
begin

text \<open>
  Model of \<open>lib/policy/engine.ts\<close>: the public policy language, its evaluator, its compiler to the
  bounded program of the proof circuit, and the commitment to a compiled program.  A register map
  is a partial function; the output record of a pack is the list of its entries in the order of
  \<open>Object.entries\<close>.
\<close>

section \<open>Packs\<close>

datatype policy_instruction =
    I_CONST string string
  | I_INPUT string string
  | I_ADD string string string
  | I_SUB string string string
  | I_MUL_DIV string string string string
  | I_MIN string string string
  | I_MAX string string string
  | I_BRACKET string string "(string option \<times> int) list"

fun instruction_out :: "policy_instruction \<Rightarrow> string" where
  "instruction_out (I_CONST out value) = out"
| "instruction_out (I_INPUT out key) = out"
| "instruction_out (I_ADD out left right) = out"
| "instruction_out (I_SUB out left right) = out"
| "instruction_out (I_MUL_DIV out value numerator denominator) = out"
| "instruction_out (I_MIN out left right) = out"
| "instruction_out (I_MAX out left right) = out"
| "instruction_out (I_BRACKET out input brackets) = out"

record policy_pack =
  pk_id :: string
  pk_revision :: int
  pk_jurisdictionCode :: string
  pk_appliesTo :: "treatment list"
  pk_effectiveFrom :: string
  pk_effectiveUntil :: string
  pk_sourceUri :: string
  pk_instructions :: "policy_instruction list"
  pk_outputs :: "(string \<times> string) list"

text \<open>\<open>/^[a-z][a-z0-9_]{0,47}$/\<close>\<close>

definition registerSchema :: "string \<Rightarrow> bool" where
  "registerSchema s = (case s of [] \<Rightarrow> False
     | c # cs \<Rightarrow> is_lower c \<and> length cs \<le> 47 \<and> list_all (\<lambda>d. is_lower d \<or> is_digit d \<or> d = CHR ''_'') cs)"

fun instructionSchema :: "policy_instruction \<Rightarrow> bool" where
  "instructionSchema (I_CONST out value) = (registerSchema out \<and> atomicAmount_ok value)"
| "instructionSchema (I_INPUT out key) = (registerSchema out \<and> registerSchema key)"
| "instructionSchema (I_ADD out left right) = (registerSchema out \<and> registerSchema left \<and> registerSchema right)"
| "instructionSchema (I_SUB out left right) = (registerSchema out \<and> registerSchema left \<and> registerSchema right)"
| "instructionSchema (I_MUL_DIV out value numerator denominator) =
     (registerSchema out \<and> registerSchema value \<and> atomicAmount_ok numerator \<and> atomicAmount_ok denominator)"
| "instructionSchema (I_MIN out left right) = (registerSchema out \<and> registerSchema left \<and> registerSchema right)"
| "instructionSchema (I_MAX out left right) = (registerSchema out \<and> registerSchema left \<and> registerSchema right)"
| "instructionSchema (I_BRACKET out input brackets) =
     (registerSchema out \<and> registerSchema input \<and> 1 \<le> length brackets \<and> length brackets \<le> 8
      \<and> list_all (\<lambda>(upperAtomic, rateBps). opt_ok atomicAmount_ok upperAtomic \<and> 0 \<le> rateBps \<and> rateBps \<le> 10000) brackets)"

text \<open>\<open>z.string().date()\<close>\<close>

definition date_ok :: "string \<Rightarrow> bool" where
  "date_ok s = (length s = 10 \<and> datetime_ok (s @ ''T00:00Z''))"

definition policyPackSchema :: "lib \<Rightarrow> policy_pack \<Rightarrow> bool" where
  "policyPackSchema L pack =
     (length_between 1 160 (pk_id pack) \<and> positive_int_ok (pk_revision pack)
      \<and> jurisdiction_ok (pk_jurisdictionCode pack) \<and> pk_appliesTo pack \<noteq> []
      \<and> date_ok (pk_effectiveFrom pack) \<and> date_ok (pk_effectiveUntil pack)
      \<and> parsesAsUrl L (pk_sourceUri pack)
      \<and> 1 \<le> length (pk_instructions pack) \<and> length (pk_instructions pack) \<le> 32
      \<and> list_all instructionSchema (pk_instructions pack)
      \<and> distinct (map fst (pk_outputs pack)) \<and> list_all (\<lambda>(name, register). registerSchema register) (pk_outputs pack)
      \<and> \<not> pk_effectiveUntil pack < pk_effectiveFrom pack
      \<and> distinct (map instruction_out (pk_instructions pack))
      \<and> list_all (\<lambda>(name, register). register \<in> set (map instruction_out (pk_instructions pack))) (pk_outputs pack))"

section \<open>The evaluator\<close>

definition load :: "(string \<rightharpoonup> int) \<Rightarrow> string \<Rightarrow> int result" where
  "load registers name = (case registers name of
     None \<Rightarrow> Inl (Thrown (''Policy reads an unset register: '' @ name @ ''.'')) | Some v \<Rightarrow> Inr v)"

text \<open>
  The loop of \<open>progressiveBracket\<close>: \<open>previousUpper\<close> and \<open>tax\<close> are carried; the loop stops after
  the band the value ends in.  The result also tells whether an open band was seen.
\<close>

fun bracket_loop :: "int \<Rightarrow> int \<Rightarrow> int \<Rightarrow> bool \<Rightarrow> (string option \<times> int) list \<Rightarrow> (int \<times> int \<times> bool) result" where
  "bracket_loop value previousUpper tax openEndedSeen [] = Inr (tax, previousUpper, openEndedSeen)"
| "bracket_loop value previousUpper tax openEndedSeen ((upperAtomic, rateBps) # brackets) =
     (if openEndedSeen then Inl (Thrown ''An open-ended bracket must be last.'')
      else if (case upperAtomic of Some u \<Rightarrow> bigint u \<le> previousUpper | None \<Rightarrow> False)
      then Inl (Thrown ''Policy brackets must increase.'')
      else
        let bandEnd = (case upperAtomic of None \<Rightarrow> value | Some u \<Rightarrow> if value < bigint u then value else bigint u);
            taxable = (if previousUpper < bandEnd then bandEnd - previousUpper else 0);
            tax' = tax + bdiv (taxable * rateBps) 10000;
            openEndedSeen' = (upperAtomic = None);
            previousUpper' = (case upperAtomic of None \<Rightarrow> previousUpper | Some u \<Rightarrow> bigint u)
        in if bandEnd = value then Inr (tax', previousUpper', openEndedSeen')
           else bracket_loop value previousUpper' tax' openEndedSeen' brackets)"

definition progressiveBracket :: "int \<Rightarrow> (string option \<times> int) list \<Rightarrow> int result" where
  "progressiveBracket value brackets =
     rbind (bracket_loop value 0 0 False brackets) (\<lambda>(tax, previousUpper, openEndedSeen).
     if \<not> openEndedSeen \<and> previousUpper < value then Inl (Thrown ''Policy brackets do not cover the input.'')
     else Inr tax)"

fun instruction_value :: "(string \<rightharpoonup> string) \<Rightarrow> (string \<rightharpoonup> int) \<Rightarrow> policy_instruction \<Rightarrow> int result" where
  "instruction_value inputs registers (I_CONST out value) = Inr (bigint value)"
| "instruction_value inputs registers (I_INPUT out key) =
     (case inputs key of
        None \<Rightarrow> Inl (Thrown (''Policy input is missing: '' @ key @ ''.''))
      | Some input \<Rightarrow> rbind (zod ''atomicAmountSchema'' atomicAmount_ok input) (\<lambda>v. Inr (bigint v)))"
| "instruction_value inputs registers (I_ADD out left right) =
     rbind (load registers left) (\<lambda>l. rbind (load registers right) (\<lambda>r. Inr (l + r)))"
| "instruction_value inputs registers (I_SUB out left right) =
     rbind (load registers left) (\<lambda>l. rbind (load registers right) (\<lambda>r.
       if l < r then Inl (Thrown (''Policy subtraction underflow at '' @ out @ ''.'')) else Inr (l - r)))"
| "instruction_value inputs registers (I_MUL_DIV out value numerator denominator) =
     (if bigint denominator = 0 then Inl (Thrown (''Policy division by zero at '' @ out @ ''.''))
      else rbind (load registers value) (\<lambda>v. Inr (bdiv (v * bigint numerator) (bigint denominator))))"
| "instruction_value inputs registers (I_MIN out left right) =
     rbind (load registers left) (\<lambda>l. rbind (load registers right) (\<lambda>r. Inr (if l < r then l else r)))"
| "instruction_value inputs registers (I_MAX out left right) =
     rbind (load registers left) (\<lambda>l. rbind (load registers right) (\<lambda>r. Inr (if l > r then l else r)))"
| "instruction_value inputs registers (I_BRACKET out input brackets) =
     rbind (load registers input) (\<lambda>v. progressiveBracket v brackets)"

definition evaluate_step :: "(string \<rightharpoonup> string) \<Rightarrow> (string \<rightharpoonup> int) \<Rightarrow> policy_instruction \<Rightarrow> (string \<rightharpoonup> int) result" where
  "evaluate_step inputs registers instruction =
     rbind (instruction_value inputs registers instruction) (\<lambda>v. Inr (registers(instruction_out instruction \<mapsto> v)))"

definition evaluatePolicyPack :: "lib \<Rightarrow> policy_pack \<Rightarrow> (string \<rightharpoonup> string) \<Rightarrow> (string \<times> string) list result" where
  "evaluatePolicyPack L packInput inputs =
     rbind (zod ''policyPackSchema'' (policyPackSchema L) packInput) (\<lambda>pack.
     rbind (rfold (evaluate_step inputs) Map.empty (pk_instructions pack)) (\<lambda>registers.
     rmap (\<lambda>(name, register). rbind (load registers register) (\<lambda>v. Inr (name, toString v))) (pk_outputs pack)))"

section \<open>The compiler\<close>

definition PAYO_MAX_POLICY_STEPS :: nat where "PAYO_MAX_POLICY_STEPS = 16"

text \<open>A step; a member the source leaves out is the 0 it is later padded with.\<close>

record compiled_step =
  st_opcode :: int
  st_left :: nat
  st_right :: nat
  st_immediate :: int
  st_numerator :: int
  st_denominator :: int

definition no_step :: compiled_step where
  "no_step = \<lparr>st_opcode = 0, st_left = 0, st_right = 0, st_immediate = 0, st_numerator = 0, st_denominator = 0\<rparr>"

record compiled_program =
  cp_metadataCommitment :: string
  cp_instructionCount :: int
  cp_opcodes :: "int list"
  cp_left :: "int list"
  cp_right :: "int list"
  cp_immediate :: "string list"
  cp_numerator :: "string list"
  cp_denominator :: "string list"
  cp_outputRegister :: int

definition assertU64 :: "int \<Rightarrow> string \<Rightarrow> int result" where
  "assertU64 value label =
     (if value < 0 \<or> push_bit 64 1 \<le> value then Inl (Thrown (label @ '' does not fit in u64.'')) else Inr value)"

definition emit :: "compiled_step \<Rightarrow> compiled_step list \<Rightarrow> (nat \<times> compiled_step list) result" where
  "emit step steps =
     (if PAYO_MAX_POLICY_STEPS \<le> length steps
      then Inl (Thrown (''Compiled policy exceeds '' @ toString (int PAYO_MAX_POLICY_STEPS) @ '' Noir steps.''))
      else Inr (length steps, steps @ [step]))"

definition resolve :: "(string \<rightharpoonup> nat) \<Rightarrow> string \<Rightarrow> nat result" where
  "resolve registers name = (case registers name of
     None \<Rightarrow> Inl (Thrown (''Policy reads an unset register: '' @ name @ ''.'')) | Some r \<Rightarrow> Inr r)"

definition emit_binary :: "int \<Rightarrow> (string \<rightharpoonup> nat) \<Rightarrow> string \<Rightarrow> string \<Rightarrow> compiled_step list \<Rightarrow> (nat \<times> compiled_step list) result" where
  "emit_binary opcode registers left right steps =
     rbind (resolve registers left) (\<lambda>l. rbind (resolve registers right) (\<lambda>r.
     emit (no_step\<lparr>st_opcode := opcode, st_left := l, st_right := r\<rparr>) steps))"

text \<open>
  The three conditional emissions of a band: its end, the part of it above the previous bound, and
  its addition to the running total.
\<close>

definition emit_band_end :: "nat \<Rightarrow> string option \<Rightarrow> compiled_step list \<Rightarrow> (nat \<times> compiled_step list) result" where
  "emit_band_end input upperAtomic steps =
     (case upperAtomic of
        Some u \<Rightarrow> rbind (emit (no_step\<lparr>st_opcode := 1, st_immediate := bigint u\<rparr>) steps) (\<lambda>(upperRegister, steps).
          emit (no_step\<lparr>st_opcode := 7, st_left := input, st_right := upperRegister\<rparr>) steps)
      | None \<Rightarrow> Inr (input, steps))"

definition emit_taxable :: "nat \<Rightarrow> int \<Rightarrow> compiled_step list \<Rightarrow> (nat \<times> compiled_step list) result" where
  "emit_taxable bandEnd previousUpper steps =
     (if 0 < previousUpper
      then rbind (emit (no_step\<lparr>st_opcode := 1, st_immediate := previousUpper\<rparr>) steps) (\<lambda>(lowerRegister, steps).
        rbind (emit (no_step\<lparr>st_opcode := 8, st_left := bandEnd, st_right := lowerRegister\<rparr>) steps) (\<lambda>(flooredEnd, steps).
        emit (no_step\<lparr>st_opcode := 5, st_left := flooredEnd, st_right := lowerRegister\<rparr>) steps))
      else Inr (bandEnd, steps))"

definition emit_total :: "nat option \<Rightarrow> nat \<Rightarrow> compiled_step list \<Rightarrow> (nat \<times> compiled_step list) result" where
  "emit_total runningTotal bandTax steps =
     (case runningTotal of
        None \<Rightarrow> Inr (bandTax, steps)
      | Some r \<Rightarrow> emit (no_step\<lparr>st_opcode := 4, st_left := r, st_right := bandTax\<rparr>) steps)"

text \<open>The bracket loop: the register of the running total, once there is one, is the result.\<close>

fun compile_brackets ::
    "nat \<Rightarrow> int \<Rightarrow> nat option \<Rightarrow> bool \<Rightarrow> (string option \<times> int) list \<Rightarrow> compiled_step list \<Rightarrow> (nat \<times> compiled_step list) result" where
  "compile_brackets input previousUpper runningTotal openEndedSeen [] steps =
     (if \<not> openEndedSeen then Inl (Thrown ''Policy brackets must end with an open band.'')
      else Inr (case runningTotal of Some r \<Rightarrow> r | None \<Rightarrow> 0, steps))"
| "compile_brackets input previousUpper runningTotal openEndedSeen ((upperAtomic, rateBps) # brackets) steps =
     (if openEndedSeen then Inl (Thrown ''An open-ended bracket must be last.'')
      else if (case upperAtomic of Some u \<Rightarrow> bigint u \<le> previousUpper | None \<Rightarrow> False)
      then Inl (Thrown ''Policy brackets must increase.'')
      else
        rbind (emit_band_end input upperAtomic steps) (\<lambda>(bandEnd, steps).
        rbind (emit_taxable bandEnd previousUpper steps) (\<lambda>(taxable, steps).
        rbind (emit (no_step\<lparr>st_opcode := 6, st_left := taxable, st_numerator := rateBps, st_denominator := 10000\<rparr>) steps)
          (\<lambda>(bandTax, steps).
        rbind (emit_total runningTotal bandTax steps) (\<lambda>(total', steps).
        compile_brackets input (case upperAtomic of Some u \<Rightarrow> bigint u | None \<Rightarrow> previousUpper) (Some total')
          (upperAtomic = None) brackets steps)))))"

text \<open>\<open>/^earning_([0-7])$/\<close>\<close>

definition earning_index :: "string \<Rightarrow> nat option" where
  "earning_index key =
     (if length key = 9 \<and> take 8 key = ''earning_'' \<and> is_digit (key ! 8) \<and> hex_val (key ! 8) \<le> 7
      then Some (hex_val (key ! 8)) else None)"

fun compile_instruction ::
    "(string \<rightharpoonup> nat) \<Rightarrow> policy_instruction \<Rightarrow> compiled_step list \<Rightarrow> (nat \<times> compiled_step list) result" where
  "compile_instruction registers (I_CONST out value) steps =
     emit (no_step\<lparr>st_opcode := 1, st_immediate := bigint value\<rparr>) steps"
| "compile_instruction registers (I_INPUT out key) steps =
     (if key = ''gross'' \<or> key = ''taxable_gross'' then emit (no_step\<lparr>st_opcode := 2\<rparr>) steps
      else case earning_index key of
          None \<Rightarrow> Inl (Thrown (''Unsupported circuit policy input: '' @ key @ ''.''))
        | Some i \<Rightarrow> emit (no_step\<lparr>st_opcode := 3, st_left := i\<rparr>) steps)"
| "compile_instruction registers (I_ADD out left right) steps = emit_binary 4 registers left right steps"
| "compile_instruction registers (I_SUB out left right) steps = emit_binary 5 registers left right steps"
| "compile_instruction registers (I_MUL_DIV out value numerator denominator) steps =
     rbind (assertU64 (bigint denominator) ''Policy denominator'') (\<lambda>den.
     if den = 0 then Inl (Thrown (''Policy division by zero at '' @ out @ ''.''))
     else rbind (resolve registers value) (\<lambda>l.
       rbind (assertU64 (bigint numerator) ''Policy numerator'') (\<lambda>num.
       emit (no_step\<lparr>st_opcode := 6, st_left := l, st_numerator := num, st_denominator := den\<rparr>) steps)))"
| "compile_instruction registers (I_MIN out left right) steps = emit_binary 7 registers left right steps"
| "compile_instruction registers (I_MAX out left right) steps = emit_binary 8 registers left right steps"
| "compile_instruction registers (I_BRACKET out input brackets) steps =
     rbind (resolve registers input) (\<lambda>i. compile_brackets i 0 None False brackets steps)"

definition compile_step ::
    "(string \<rightharpoonup> nat) \<times> compiled_step list \<Rightarrow> policy_instruction \<Rightarrow> ((string \<rightharpoonup> nat) \<times> compiled_step list) result" where
  "compile_step s instruction =
     (case s of (registers, steps) \<Rightarrow>
        rbind (compile_instruction registers instruction steps) (\<lambda>(output, steps').
        Inr (registers(instruction_out instruction \<mapsto> output), steps')))"

definition statutory_output :: "(string \<times> string) list \<Rightarrow> string option" where
  "statutory_output outputs =
     (case map_of outputs ''statutoryWithholding'' of
        Some r \<Rightarrow> Some r
      | None \<Rightarrow> (case map_of outputs ''statutoryDeduction'' of
            Some r \<Rightarrow> Some r
          | None \<Rightarrow> (case outputs of [] \<Rightarrow> None | (name, r) # _ \<Rightarrow> Some r)))"

fun instruction_json :: "policy_instruction \<Rightarrow> json" where
  "instruction_json (I_CONST out value) = JObj [(''op'', JStr ''CONST''), (''out'', JStr out), (''value'', JStr value)]"
| "instruction_json (I_INPUT out key) = JObj [(''op'', JStr ''INPUT''), (''out'', JStr out), (''key'', JStr key)]"
| "instruction_json (I_ADD out left right) =
     JObj [(''op'', JStr ''ADD''), (''out'', JStr out), (''left'', JStr left), (''right'', JStr right)]"
| "instruction_json (I_SUB out left right) =
     JObj [(''op'', JStr ''SUB''), (''out'', JStr out), (''left'', JStr left), (''right'', JStr right)]"
| "instruction_json (I_MUL_DIV out value numerator denominator) =
     JObj [(''op'', JStr ''MUL_DIV''), (''out'', JStr out), (''value'', JStr value), (''numerator'', JStr numerator),
           (''denominator'', JStr denominator)]"
| "instruction_json (I_MIN out left right) =
     JObj [(''op'', JStr ''MIN''), (''out'', JStr out), (''left'', JStr left), (''right'', JStr right)]"
| "instruction_json (I_MAX out left right) =
     JObj [(''op'', JStr ''MAX''), (''out'', JStr out), (''left'', JStr left), (''right'', JStr right)]"
| "instruction_json (I_BRACKET out input brackets) =
     JObj [(''op'', JStr ''BRACKET''), (''out'', JStr out), (''input'', JStr input),
           (''brackets'', JArr (map (\<lambda>(upperAtomic, rateBps). JObj
              ((case upperAtomic of Some u \<Rightarrow> [(''upperAtomic'', JStr u)] | None \<Rightarrow> []) @ [(''rateBps'', JNum rateBps)]))
              brackets))]"

definition pack_json :: "policy_pack \<Rightarrow> json" where
  "pack_json pack = JObj
     [(''packVersion'', JStr ''payo-policy-pack-v1''), (''id'', JStr (pk_id pack)), (''revision'', JNum (pk_revision pack)),
      (''jurisdictionCode'', JStr (pk_jurisdictionCode pack)),
      (''appliesTo'', JArr (map (\<lambda>t. JStr (treatment_name t)) (pk_appliesTo pack))),
      (''effectiveFrom'', JStr (pk_effectiveFrom pack)), (''effectiveUntil'', JStr (pk_effectiveUntil pack)),
      (''sourceUri'', JStr (pk_sourceUri pack)), (''legalReviewRequired'', JBool True),
      (''instructions'', JArr (map instruction_json (pk_instructions pack))),
      (''outputs'', JObj (map (\<lambda>(name, register). (name, JStr register)) (pk_outputs pack)))]"

definition policyMetadataCommitment :: "lib \<Rightarrow> policy_pack \<Rightarrow> string result" where
  "policyMetadataCommitment L pack =
     rbind (hashTextCommitment L ''PAYO_POLICY_METADATA_V1'' (stableJson (pack_json pack))) (\<lambda>h. Inr (toHex L h))"

definition compilePolicyPack :: "lib \<Rightarrow> policy_pack \<Rightarrow> compiled_program result" where
  "compilePolicyPack L packInput =
     rbind (zod ''policyPackSchema'' (policyPackSchema L) packInput) (\<lambda>pack.
     rbind (rfold compile_step (Map.empty, []) (pk_instructions pack)) (\<lambda>(registers, steps).
     case statutory_output (pk_outputs pack) of
       None \<Rightarrow> Inl (Thrown ''Policy has no circuit output.'')
     | Some statutoryOutput \<Rightarrow>
         rbind (resolve registers statutoryOutput) (\<lambda>outputRegister.
         let padded_steps = padded PAYO_MAX_POLICY_STEPS no_step steps in
         rbind (policyMetadataCommitment L pack) (\<lambda>metadataCommitment.
         Inr \<lparr>cp_metadataCommitment = metadataCommitment,
              cp_instructionCount = int (length steps),
              cp_opcodes = map st_opcode padded_steps,
              cp_left = map (\<lambda>s. int (st_left s)) padded_steps,
              cp_right = map (\<lambda>s. int (st_right s)) padded_steps,
              cp_immediate = map (\<lambda>s. toString (st_immediate s)) padded_steps,
              cp_numerator = map (\<lambda>s. toString (st_numerator s)) padded_steps,
              cp_denominator = map (\<lambda>s. toString (st_denominator s)) padded_steps,
              cp_outputRegister = int outputRegister\<rparr>))))"

definition compiledPolicyProgramCommitment :: "lib \<Rightarrow> compiled_program \<Rightarrow> string result" where
  "compiledPolicyProgramCommitment L program =
     (if cp_instructionCount program < 1 \<or> int PAYO_MAX_POLICY_STEPS < cp_instructionCount program
      then Inl (Thrown ''Invalid compiled policy instruction count.'')
      else
        rbind (normalizedHexBytes L (cp_metadataCommitment program) (Some 32)) (\<lambda>metadata.
        rbind (encodeU32 (cp_instructionCount program)) (\<lambda>count_bytes.
        rbind (rmap (\<lambda>index.
            rbind (encodeUint (bigint (cp_immediate program ! index)) 16) (\<lambda>immediate.
            rbind (encodeUint (bigint (cp_numerator program ! index)) 8) (\<lambda>numerator.
            rbind (encodeUint (bigint (cp_denominator program ! index)) 8) (\<lambda>denominator.
            Inr [[word_of_int (cp_opcodes program ! index), word_of_int (cp_left program ! index),
                  word_of_int (cp_right program ! index)], immediate, numerator, denominator]))))
          [0..<PAYO_MAX_POLICY_STEPS]) (\<lambda>chunks.
        Inr (toHex L (keccak_256 L (concatBytes
          ([utf8 ''PAYO_POLICY_PROGRAM_V1'', metadata, count_bytes, [word_of_int (cp_outputRegister program)]]
           @ concat chunks))))))))"

definition policyPackCommitment :: "lib \<Rightarrow> policy_pack \<Rightarrow> string result" where
  "policyPackCommitment L pack = rbind (compilePolicyPack L pack) (compiledPolicyProgramCommitment L)"

definition DEMO_PROGRESSIVE_POLICY :: policy_pack where
  "DEMO_PROGRESSIVE_POLICY =
     \<lparr>pk_id = ''demo-progressive-reference-v1'', pk_revision = 1, pk_jurisdictionCode = ''US'',
      pk_appliesTo = [Employee], pk_effectiveFrom = ''2026-01-01'', pk_effectiveUntil = ''2026-12-31'',
      pk_sourceUri = ''https://example.invalid/payo/reference-policy'',
      pk_instructions =
        [I_INPUT ''taxable'' ''taxable_gross'',
         I_BRACKET ''withholding'' ''taxable'' [(Some ''1000'', 1000), (Some ''5000'', 2000), (None, 3000)]],
      pk_outputs = [(''statutoryWithholding'', ''withholding'')]\<rparr>"

end
