(* ===== verification/Policy_Compiler.thy ===== *)
theory Policy_Compiler
  imports Policy_Engine
begin

text \<open>
  The bounded policy machine of the proof circuit (\<open>evaluate_policy\<close> in
  \<open>circuits/payroll_integrity/src/main.nr\<close>) and the correctness of the compiler of
  \<open>lib/policy/engine.ts\<close>: whatever value the circuit accepts for a compiled pack is the value the
  TypeScript evaluator computes.  A failed assertion and an arithmetic overflow of the circuit are
  both \<^term>\<open>None\<close>.
\<close>

section \<open>The circuit\<close>

definition u128 :: "int \<Rightarrow> int option" where
  "u128 n = (if 0 \<le> n \<and> n < 2 ^ 128 then Some n else None)"

text \<open>The operands of step \<open>i\<close>, read from the registers; \<open>opcode\<close> is 4 to 8.\<close>

definition vm_binary :: "int \<Rightarrow> int \<Rightarrow> int \<Rightarrow> int \<Rightarrow> int \<Rightarrow> int option" where
  "vm_binary opcode l r num den =
     (if opcode = 4 then u128 (l + r)
      else if opcode = 5 then (if r \<le> l then Some (l - r) else None)
      else if opcode = 6 then (if 0 < den then map_option (\<lambda>p. p div den) (u128 (l * num)) else None)
      else if opcode = 7 then Some (if l < r then l else r)
      else Some (if l > r then l else r))"

definition vm_value :: "compiled_program \<Rightarrow> int \<Rightarrow> int list \<Rightarrow> int list \<Rightarrow> nat \<Rightarrow> int option" where
  "vm_value program gross earnings registers i =
     (let opcode = cp_opcodes program ! i; left = nat (cp_left program ! i); right = nat (cp_right program ! i) in
      if opcode = 1 then Some (bigint (cp_immediate program ! i))
      else if opcode = 2 then Some gross
      else if opcode = 3 then (if left < 8 then Some (earnings ! left) else None)
      else if \<not> (4 \<le> opcode \<and> opcode \<le> 8) then None
      else if \<not> left < i then None
      else if opcode \<noteq> 6 \<and> \<not> right < i then None
      else if \<not> right < PAYO_MAX_POLICY_STEPS then None
      else vm_binary opcode (registers ! left) (registers ! right)
             (bigint (cp_numerator program ! i)) (bigint (cp_denominator program ! i)))"

definition vm_unused :: "compiled_program \<Rightarrow> nat \<Rightarrow> bool" where
  "vm_unused program i =
     (cp_opcodes program ! i = 0 \<and> cp_left program ! i = 0 \<and> cp_right program ! i = 0
      \<and> bigint (cp_immediate program ! i) = 0 \<and> bigint (cp_numerator program ! i) = 0
      \<and> bigint (cp_denominator program ! i) = 0)"

fun vm_loop :: "compiled_program \<Rightarrow> int \<Rightarrow> int list \<Rightarrow> nat list \<Rightarrow> int list \<Rightarrow> int list option" where
  "vm_loop program gross earnings [] registers = Some registers"
| "vm_loop program gross earnings (i # is) registers =
     (if int i < cp_instructionCount program
      then (case vm_value program gross earnings registers i of
              None \<Rightarrow> None
            | Some v \<Rightarrow> vm_loop program gross earnings is (registers[i := v]))
      else if vm_unused program i then vm_loop program gross earnings is registers else None)"

definition evaluate_policy :: "compiled_program \<Rightarrow> int \<Rightarrow> int list \<Rightarrow> int option" where
  "evaluate_policy program gross earnings =
     (if hex_num (cp_metadataCommitment program) \<noteq> 0 \<and> 0 < cp_instructionCount program
         \<and> cp_instructionCount program \<le> int PAYO_MAX_POLICY_STEPS
         \<and> cp_outputRegister program < cp_instructionCount program
      then map_option (\<lambda>registers. registers ! nat (cp_outputRegister program))
             (vm_loop program gross earnings [0..<PAYO_MAX_POLICY_STEPS] (replicate PAYO_MAX_POLICY_STEPS 0))
      else None)"

section \<open>Executing a list of steps\<close>

text \<open>The same machine on the compiler's step list, appending each value.\<close>

definition step_value :: "int \<Rightarrow> int list \<Rightarrow> int list \<Rightarrow> compiled_step \<Rightarrow> int option" where
  "step_value gross earnings vals s =
     (let opcode = st_opcode s in
      if opcode = 1 then Some (st_immediate s)
      else if opcode = 2 then Some gross
      else if opcode = 3 then (if st_left s < 8 then Some (earnings ! st_left s) else None)
      else if \<not> (4 \<le> opcode \<and> opcode \<le> 8) then None
      else if \<not> st_left s < length vals then None
      else if opcode \<noteq> 6 \<and> \<not> st_right s < length vals then None
      else vm_binary opcode (vals ! st_left s) (if opcode = 6 then 0 else vals ! st_right s)
             (st_numerator s) (st_denominator s))"

fun exec :: "int \<Rightarrow> int list \<Rightarrow> compiled_step list \<Rightarrow> int list \<Rightarrow> int list option" where
  "exec gross earnings [] vals = Some vals"
| "exec gross earnings (s # ss) vals =
     (case step_value gross earnings vals s of None \<Rightarrow> None | Some v \<Rightarrow> exec gross earnings ss (vals @ [v]))"

lemma exec_append:
  "exec g e (xs @ ys) vals = (case exec g e xs vals of None \<Rightarrow> None | Some vs \<Rightarrow> exec g e ys vs)"
  by (induction xs arbitrary: vals) (auto split: option.splits)

lemma exec_length: "exec g e ss vals = Some vs \<Longrightarrow> length vs = length vals + length ss"
  by (induction ss arbitrary: vals) (auto split: option.splits)

lemma exec_prefix: "exec g e ss vals = Some vs \<Longrightarrow> take (length vals) vs = vals"
proof (induction ss arbitrary: vals)
  case Nil
  then show ?case by simp
next
  case (Cons s ss)
  then obtain v where "exec g e ss (vals @ [v]) = Some vs" by (auto split: option.splits)
  from Cons.IH [OF this] have "take (length vals) (take (Suc (length vals)) vs) = vals" by simp
  then show ?case by (simp add: take_take)
qed

lemma exec_nth: "exec g e ss vals = Some vs \<Longrightarrow> k < length vals \<Longrightarrow> vs ! k = vals ! k"
  using exec_prefix [of g e ss vals vs] by (metis nth_take)

lemma exec_snoc:
  "exec g e (ss @ [s]) vals = Some vs \<longleftrightarrow>
     (\<exists>us v. exec g e ss vals = Some us \<and> step_value g e us s = Some v \<and> vs = us @ [v])"
  by (auto simp: exec_append split: option.splits)

section \<open>What a register holds\<close>

text \<open>
  After the program \<open>steps\<close>, if it runs, register \<open>k\<close> holds \<open>v\<close>.  An emission only appends, so what a
  register holds is kept (\<open>reg_mono\<close>), and each opcode has its rule.
\<close>

definition reg :: "int \<Rightarrow> int list \<Rightarrow> compiled_step list \<Rightarrow> nat \<Rightarrow> int \<Rightarrow> bool" where
  "reg g e steps k v \<longleftrightarrow> (\<forall>vals. exec g e steps [] = Some vals \<longrightarrow> k < length vals \<and> vals ! k = v)"

definition runs_ok :: "int \<Rightarrow> int list \<Rightarrow> compiled_step list \<Rightarrow> bool" where
  "runs_ok g e steps \<longleftrightarrow> exec g e steps [] \<noteq> None"

definition extends :: "compiled_step list \<Rightarrow> compiled_step list \<Rightarrow> bool" where
  "extends steps steps' \<longleftrightarrow> (\<exists>more. steps' = steps @ more)"

lemma extends_refl [simp]: "extends steps steps"
  by (simp add: extends_def)

lemma extends_trans: "extends a b \<Longrightarrow> extends b c \<Longrightarrow> extends a c"
  by (auto simp: extends_def)

lemma runs_ok_prefix: "extends steps steps' \<Longrightarrow> runs_ok g e steps' \<Longrightarrow> runs_ok g e steps"
  by (auto simp: extends_def runs_ok_def exec_append split: option.splits)

lemma reg_mono: "reg g e steps k v \<Longrightarrow> extends steps steps' \<Longrightarrow> reg g e steps' k v"
proof -
  assume r: "reg g e steps k v" and "extends steps steps'"
  then obtain more where more: "steps' = steps @ more" by (auto simp: extends_def)
  show ?thesis
    unfolding reg_def
  proof (intro allI impI)
    fix vals' assume "exec g e steps' [] = Some vals'"
    then obtain vals where v: "exec g e steps [] = Some vals" "exec g e more vals = Some vals'"
      by (auto simp: more exec_append split: option.splits)
    then have "k < length vals" "vals ! k = v" using r by (auto simp: reg_def)
    then show "k < length vals' \<and> vals' ! k = v" using exec_nth [OF v(2)] exec_length [OF v(2)] by simp
  qed
qed

text \<open>
  Rule for one emission: the new register holds \<open>v\<close>, and if the new program runs then \<open>C\<close>, which
  is what the step's own assertions say.
\<close>

lemma emit_reg:
  assumes "emit s steps = Inr (k, steps')"
    and "\<And>vals x. exec g e steps [] = Some vals \<Longrightarrow> step_value g e vals s = Some x \<Longrightarrow> x = v \<and> C"
  shows "reg g e steps' k v \<and> extends steps steps' \<and> (runs_ok g e steps' \<longrightarrow> C)"
proof -
  have k: "k = length steps" "steps' = steps @ [s]" using assms(1) by (auto simp: emit_def split: if_splits)
  have "k < length vals' \<and> vals' ! k = v \<and> C" if run: "exec g e steps' [] = Some vals'" for vals'
  proof -
    obtain vals x where x: "exec g e steps [] = Some vals" "step_value g e vals s = Some x" "vals' = vals @ [x]"
      using run by (auto simp: k exec_snoc)
    show ?thesis using assms(2) [OF x(1,2)] exec_length [OF x(1)] k x(3) by (simp add: nth_append)
  qed
  then show ?thesis by (auto simp: reg_def runs_ok_def extends_def k)
qed

lemma step_simps [simp]:
  "step_value g e vals (no_step\<lparr>st_opcode := 1, st_immediate := n\<rparr>) = Some n"
  "step_value g e vals (no_step\<lparr>st_opcode := 2\<rparr>) = Some g"
  "step_value g e vals (no_step\<lparr>st_opcode := 3, st_left := i\<rparr>) = (if i < 8 then Some (e ! i) else None)"
  "step_value g e vals (no_step\<lparr>st_opcode := 4, st_left := i, st_right := j\<rparr>) =
     (if i < length vals \<and> j < length vals then u128 (vals ! i + vals ! j) else None)"
  "step_value g e vals (no_step\<lparr>st_opcode := 5, st_left := i, st_right := j\<rparr>) =
     (if i < length vals \<and> j < length vals \<and> vals ! j \<le> vals ! i then Some (vals ! i - vals ! j) else None)"
  "step_value g e vals (no_step\<lparr>st_opcode := 6, st_left := i, st_numerator := n, st_denominator := d\<rparr>) =
     (if i < length vals \<and> 0 < d then map_option (\<lambda>p. p div d) (u128 (vals ! i * n)) else None)"
  "step_value g e vals (no_step\<lparr>st_opcode := 7, st_left := i, st_right := j\<rparr>) =
     (if i < length vals \<and> j < length vals then Some (if vals ! i < vals ! j then vals ! i else vals ! j) else None)"
  "step_value g e vals (no_step\<lparr>st_opcode := 8, st_left := i, st_right := j\<rparr>) =
     (if i < length vals \<and> j < length vals then Some (if vals ! i > vals ! j then vals ! i else vals ! j) else None)"
  by (simp_all add: step_value_def vm_binary_def no_step_def Let_def)

lemma u128_Some [simp]: "u128 n = Some m \<longleftrightarrow> m = n \<and> 0 \<le> n \<and> n < 2 ^ 128"
  by (auto simp: u128_def)


lemma emit_const: "emit (no_step\<lparr>st_opcode := 1, st_immediate := n\<rparr>) steps = Inr (k, steps') \<Longrightarrow>
    reg g e steps' k n \<and> extends steps steps'"
  using emit_reg [where C = True and v = n and g = g and e = e] by fastforce

lemma emit_gross: "emit (no_step\<lparr>st_opcode := 2\<rparr>) steps = Inr (k, steps') \<Longrightarrow> reg g e steps' k g \<and> extends steps steps'"
  using emit_reg [where C = True and v = g and g = g and e = e] by fastforce

lemma emit_earning: "emit (no_step\<lparr>st_opcode := 3, st_left := i\<rparr>) steps = Inr (k, steps') \<Longrightarrow>
    reg g e steps' k (e ! i) \<and> extends steps steps'"
  using emit_reg [where C = True and v = "e ! i" and g = g and e = e] by (fastforce split: if_splits)

lemma emit_add:
  assumes "reg g e steps i a" "reg g e steps j b" "emit (no_step\<lparr>st_opcode := 4, st_left := i, st_right := j\<rparr>) steps = Inr (k, steps')"
  shows "reg g e steps' k (a + b) \<and> extends steps steps'"
proof -
  have "reg g e steps' k (a + b) \<and> extends steps steps' \<and> (runs_ok g e steps' \<longrightarrow> (True))"
    by (rule emit_reg [OF assms(3)]) (use assms(1,2) in \<open>auto simp: reg_def split: if_splits\<close>)
  then show ?thesis by simp
qed

lemma emit_sub:
  assumes "reg g e steps i a" "reg g e steps j b" "emit (no_step\<lparr>st_opcode := 5, st_left := i, st_right := j\<rparr>) steps = Inr (k, steps')"
  shows "reg g e steps' k (a - b) \<and> extends steps steps' \<and> (runs_ok g e steps' \<longrightarrow> b \<le> a)"
proof -
  have "reg g e steps' k (a - b) \<and> extends steps steps' \<and> (runs_ok g e steps' \<longrightarrow> (b \<le> a))"
    by (rule emit_reg [OF assms(3)]) (use assms(1,2) in \<open>auto simp: reg_def split: if_splits\<close>)
  then show ?thesis by simp
qed

lemma emit_muldiv:
  assumes "reg g e steps i a" "emit (no_step\<lparr>st_opcode := 6, st_left := i, st_numerator := n, st_denominator := d\<rparr>) steps = Inr (k, steps')"
  shows "reg g e steps' k (a * n div d) \<and> extends steps steps' \<and> (runs_ok g e steps' \<longrightarrow> 0 \<le> a * n \<and> 0 < d)"
proof -
  have "reg g e steps' k (a * n div d) \<and> extends steps steps' \<and> (runs_ok g e steps' \<longrightarrow> (0 \<le> a * n \<and> 0 < d))"
    by (rule emit_reg [OF assms(2)]) (use assms(1) in \<open>auto simp: reg_def split: if_splits\<close>)
  then show ?thesis by simp
qed

lemma emit_min:
  assumes "reg g e steps i a" "reg g e steps j b" "emit (no_step\<lparr>st_opcode := 7, st_left := i, st_right := j\<rparr>) steps = Inr (k, steps')"
  shows "reg g e steps' k (min a b) \<and> extends steps steps'"
proof -
  have "reg g e steps' k (min a b) \<and> extends steps steps' \<and> (runs_ok g e steps' \<longrightarrow> (True))"
    by (rule emit_reg [OF assms(3)]) (use assms(1,2) in \<open>auto simp: reg_def split: if_splits\<close>)
  then show ?thesis by simp
qed

lemma emit_max:
  assumes "reg g e steps i a" "reg g e steps j b" "emit (no_step\<lparr>st_opcode := 8, st_left := i, st_right := j\<rparr>) steps = Inr (k, steps')"
  shows "reg g e steps' k (max a b) \<and> extends steps steps'"
proof -
  have "reg g e steps' k (max a b) \<and> extends steps steps' \<and> (runs_ok g e steps' \<longrightarrow> (True))"
    by (rule emit_reg [OF assms(3)]) (use assms(1,2) in \<open>auto simp: reg_def split: if_splits\<close>)
  then show ?thesis by simp
qed

section \<open>Brackets\<close>

definition band_end :: "int \<Rightarrow> string option \<Rightarrow> int" where
  "band_end x upperAtomic = (case upperAtomic of None \<Rightarrow> x | Some u \<Rightarrow> min x (bigint u))"

definition next_upper :: "int \<Rightarrow> string option \<Rightarrow> int" where
  "next_upper previousUpper upperAtomic = (case upperAtomic of None \<Rightarrow> previousUpper | Some u \<Rightarrow> bigint u)"

text \<open>The tax of all bands, each on the part of the value between its bounds.\<close>

fun bands_tax :: "int \<Rightarrow> int \<Rightarrow> (string option \<times> int) list \<Rightarrow> int" where
  "bands_tax x previousUpper [] = 0"
| "bands_tax x previousUpper ((upperAtomic, rateBps) # brackets) =
     (max (band_end x upperAtomic) previousUpper - previousUpper) * rateBps div 10000
     + bands_tax x (next_upper previousUpper upperAtomic) brackets"

fun bands_ok :: "int \<Rightarrow> bool \<Rightarrow> (string option \<times> int) list \<Rightarrow> bool" where
  "bands_ok previousUpper openEndedSeen [] = openEndedSeen"
| "bands_ok previousUpper openEndedSeen ((upperAtomic, rateBps) # brackets) =
     (\<not> openEndedSeen \<and> (case upperAtomic of None \<Rightarrow> True | Some u \<Rightarrow> previousUpper < bigint u)
      \<and> bands_ok (next_upper previousUpper upperAtomic) (upperAtomic = None) brackets)"

lemma bands_ok_open: "bands_ok p True bs \<longleftrightarrow> bs = []"
  by (cases bs) auto

lemma bands_tax_below: "bands_ok p open bs \<Longrightarrow> x \<le> p \<Longrightarrow> bands_tax x p bs = 0"
proof (induction x p bs arbitrary: "open" rule: bands_tax.induct)
  case (2 x p u r bs)
  then have "x \<le> next_upper p u" by (auto simp: next_upper_def split: option.splits)
  with 2 show ?case by (auto simp: band_end_def next_upper_def max_def split: option.splits)
qed simp

text \<open>The evaluator's loop, which stops at the band of the value, computes the tax of all bands.\<close>

lemma bracket_loop_tax:
  assumes "bands_ok p False bs" "0 \<le> p" "list_all (\<lambda>(u, r). 0 \<le> r) bs"
  shows "\<exists>p' o'. bracket_loop x p acc False bs = Inr (acc + bands_tax x p bs, p', o') \<and> (o' \<or> x \<le> p')"
  using assms
proof (induction bs arbitrary: p acc)
  case Nil
  then show ?case by simp
next
  case (Cons b bs)
  obtain u r where b: "b = (u, r)" by (cases b)
  let ?upto = "band_end x u" and ?p = "next_upper p u"
  let ?taxable = "max ?upto p - p"
  have taxable: "(if p < ?upto then ?upto - p else 0) = ?taxable" by (simp add: max_def)
  have div: "bdiv ((if p < ?upto then ?upto - p else 0) * r) 10000 = ?taxable * r div 10000"
    unfolding taxable using Cons.prems(3) b by (intro bdiv_nonneg) simp_all
  have ends: "(case u of None \<Rightarrow> x | Some t \<Rightarrow> if x < bigint t then x else bigint t) = ?upto"
    by (auto simp: band_end_def min_def split: option.splits)
  have ok: "case u of None \<Rightarrow> True | Some t \<Rightarrow> p < bigint t" "bands_ok ?p (u = None) bs" "0 \<le> ?p"
    using Cons.prems b by (auto simp: next_upper_def split: option.splits)
  then have inc: "\<not> (case u of Some t \<Rightarrow> bigint t \<le> p | None \<Rightarrow> False)" by (auto split: option.splits)
  have step: "bracket_loop x p acc False (b # bs) =
      (if ?upto = x then Inr (acc + ?taxable * r div 10000, ?p, u = None)
       else bracket_loop x ?p (acc + ?taxable * r div 10000) (u = None) bs)"
    using inc by (simp only: b bracket_loop.simps Let_def ends div next_upper_def if_False simp_thms)
  show ?case
  proof (cases "?upto = x")
    case True
    have "bands_tax x ?p bs = 0" "u = None \<or> x \<le> ?p"
      using True ok(2) bands_tax_below [OF ok(2), of x]
      by (auto simp: band_end_def next_upper_def bands_ok_open split: option.splits)
    then show ?thesis using step True b by auto
  next
    case False
    then have u: "u \<noteq> None" by (auto simp: band_end_def split: option.splits)
    then have "(u = None) = False" by simp
    with Cons.IH [of ?p "acc + ?taxable * r div 10000"] Cons.prems(3) ok(2,3) b step False show ?thesis
      by (simp add: add.assoc)
  qed
qed

lemma progressiveBracket_tax:
  assumes "bands_ok 0 False bs" "list_all (\<lambda>(u, r). 0 \<le> r) bs"
  shows "progressiveBracket x bs = Inr (bands_tax x 0 bs)"
  using bracket_loop_tax [OF assms(1) _ assms(2), of x 0] by (auto simp: progressiveBracket_def)

lemma compile_brackets_ok:
  "compile_brackets i p rt op bs steps = Inr ks \<Longrightarrow> bands_ok p op bs"
proof (induction bs arbitrary: p rt op steps)
  case Nil
  then show ?case by (simp split: if_splits)
next
  case (Cons b bs)
  obtain u r where b: "b = (u, r)" by (cases b)
  with Cons.prems have o: "\<not> op" "\<not> (case u of Some t \<Rightarrow> bigint t \<le> p | None \<Rightarrow> False)" by (auto split: if_splits)
  with Cons.prems b obtain rt' steps' where
    "compile_brackets i (next_upper p u) rt' (u = None) bs steps' = Inr ks"
    by (auto simp: rbind_Inr_iff next_upper_def split: if_splits)
  from Cons.IH [OF this] o b show ?case by (auto split: option.splits)
qed

text \<open>The emitted band code, phase by phase.\<close>

lemma emit_band_end_reg:
  assumes "reg g e steps i x" "emit_band_end i u steps = Inr (k, steps')"
  shows "reg g e steps' k (band_end x u) \<and> extends steps steps'"
proof (cases u)
  case None
  then show ?thesis using assms by (auto simp: emit_band_end_def band_end_def)
next
  case (Some t)
  then obtain l s1 where 1: "emit (no_step\<lparr>st_opcode := 1, st_immediate := bigint t\<rparr>) steps = Inr (l, s1)"
    "emit (no_step\<lparr>st_opcode := 7, st_left := i, st_right := l\<rparr>) s1 = Inr (k, steps')"
    using assms(2) by (auto simp: emit_band_end_def rbind_Inr_iff)
  note c = emit_const [OF 1(1), of g e]
  from emit_min [OF reg_mono [OF assms(1)] _ 1(2)] c show ?thesis
    by (auto simp: Some band_end_def intro: extends_trans)
qed

lemma emit_taxable_reg:
  assumes "reg g e steps b x" "emit_taxable b p steps = Inr (k, steps')" "0 \<le> p" "0 \<le> x"
  shows "reg g e steps' k (max x p - p) \<and> extends steps steps'"
proof (cases "0 < p")
  case False
  then show ?thesis using assms by (auto simp: emit_taxable_def)
next
  case True
  then obtain l s1 f s2 where 1: "emit (no_step\<lparr>st_opcode := 1, st_immediate := p\<rparr>) steps = Inr (l, s1)"
    "emit (no_step\<lparr>st_opcode := 8, st_left := b, st_right := l\<rparr>) s1 = Inr (f, s2)"
    "emit (no_step\<lparr>st_opcode := 5, st_left := f, st_right := l\<rparr>) s2 = Inr (k, steps')"
    using assms(2) by (auto simp: emit_taxable_def rbind_Inr_iff)
  note c = emit_const [OF 1(1), of g e]
  then have m: "reg g e s2 f (max x p) \<and> extends s1 s2" using emit_max [OF reg_mono [OF assms(1)] _ 1(2)] by blast
  then have "reg g e s2 l p" using c reg_mono by blast
  from emit_sub [OF _ this 1(3)] m c show ?thesis by (blast intro: extends_trans)
qed

definition total_reg :: "int \<Rightarrow> int list \<Rightarrow> compiled_step list \<Rightarrow> nat option \<Rightarrow> int \<Rightarrow> bool" where
  "total_reg g e steps rt acc = (case rt of None \<Rightarrow> acc = 0 | Some r \<Rightarrow> reg g e steps r acc)"

lemma total_reg_mono: "total_reg g e steps rt acc \<Longrightarrow> extends steps steps' \<Longrightarrow> total_reg g e steps' rt acc"
  by (auto simp: total_reg_def intro: reg_mono split: option.splits)

lemma emit_total_reg:
  assumes "reg g e steps b x" "total_reg g e steps rt acc" "emit_total rt b steps = Inr (k, steps')"
  shows "reg g e steps' k (acc + x) \<and> extends steps steps'"
  using assms emit_add by (auto simp: emit_total_def total_reg_def split: option.splits)

lemma compile_brackets_reg:
  assumes "compile_brackets i p rt op bs steps = Inr (k, steps')"
    and "reg g e steps i x" "0 \<le> x" "0 \<le> p" "total_reg g e steps rt acc" "bs \<noteq> [] \<or> rt \<noteq> None"
  shows "reg g e steps' k (acc + bands_tax x p bs) \<and> extends steps steps'"
  using assms
proof (induction bs arbitrary: p rt op steps acc)
  case Nil
  then show ?case by (auto simp: total_reg_def split: if_splits)
next
  case (Cons b bs)
  obtain u r where b: "b = (u, r)" by (cases b)
  obtain k1 s1 k2 s2 k3 s3 k4 s4 where E:
    "emit_band_end i u steps = Inr (k1, s1)" "emit_taxable k1 p s1 = Inr (k2, s2)"
    "emit (no_step\<lparr>st_opcode := 6, st_left := k2, st_numerator := r, st_denominator := 10000\<rparr>) s2 = Inr (k3, s3)"
    "emit_total rt k3 s3 = Inr (k4, s4)"
    "compile_brackets i (next_upper p u) (Some k4) (u = None) bs s4 = Inr (k, steps')"
    using Cons.prems(1) by (auto simp: b rbind_Inr_iff next_upper_def split: if_splits)
  have u: "0 \<le> band_end x u" "0 \<le> next_upper p u"
    using Cons.prems(3,4) by (auto simp: band_end_def next_upper_def split: option.splits)
  note 1 = emit_band_end_reg [OF Cons.prems(2) E(1)]
  note 2 = emit_taxable_reg [OF conjunct1 [OF 1] E(2) Cons.prems(4) u(1)]
  note 3 = emit_muldiv [OF conjunct1 [OF 2] E(3)]
  have x3: "extends steps s3" using 1 2 3 by (blast intro: extends_trans)
  have 4: "reg g e s4 k4 (acc + (max (band_end x u) p - p) * r div 10000) \<and> extends s3 s4"
    using emit_total_reg [OF _ total_reg_mono [OF Cons.prems(5) x3] E(4)] 3 by blast
  then have x4: "extends steps s4" using x3 by (blast intro: extends_trans)
  have "reg g e steps' k (acc + (max (band_end x u) p - p) * r div 10000 + bands_tax x (next_upper p u) bs) \<and> extends s4 steps'"
    by (rule Cons.IH [OF E(5) reg_mono [OF Cons.prems(2) x4] Cons.prems(3) u(2)]) (use 4 in \<open>simp_all add: total_reg_def\<close>)
  then show ?case using x4 by (auto simp: b add.assoc intro: extends_trans)
qed

section \<open>Instructions\<close>

definition regs_match ::
    "int \<Rightarrow> int list \<Rightarrow> compiled_step list \<Rightarrow> (string \<rightharpoonup> nat) \<Rightarrow> (string \<rightharpoonup> int) \<Rightarrow> bool" where
  "regs_match g e steps cregs eregs \<longleftrightarrow>
     (\<forall>name. case cregs name of
        None \<Rightarrow> eregs name = None
      | Some k \<Rightarrow> \<exists>v. eregs name = Some v \<and> 0 \<le> v \<and> reg g e steps k v)"

definition inputs_match :: "(string \<rightharpoonup> string) \<Rightarrow> int \<Rightarrow> int list \<Rightarrow> bool" where
  "inputs_match inputs g e \<longleftrightarrow>
     (\<forall>key \<in> {''gross'', ''taxable_gross''}. \<exists>t. inputs key = Some t \<and> atomicAmount_ok t \<and> bigint t = g)
     \<and> (\<forall>key i. earning_index key = Some i \<longrightarrow> (\<exists>t. inputs key = Some t \<and> atomicAmount_ok t \<and> bigint t = e ! i))"

lemma resolve_load:
  assumes "regs_match g e steps cregs eregs" "resolve cregs name = Inr k"
  obtains v where "load eregs name = Inr v" "0 \<le> v" "reg g e steps k v"
proof -
  have "cregs name = Some k" using assms(2) by (auto simp: resolve_def split: option.splits)
  then obtain v where "eregs name = Some v" "0 \<le> v" "reg g e steps k v"
    using assms(1) [unfolded regs_match_def, rule_format, of name] by auto
  then show ?thesis by (intro that) (simp_all add: load_def)
qed

lemma emit_binary_Inr:
  assumes "regs_match g e steps cregs eregs" "emit_binary opcode cregs l r steps = Inr (k, steps')"
  obtains i j a b where "load eregs l = Inr a" "load eregs r = Inr b" "0 \<le> a" "0 \<le> b"
    "reg g e steps i a" "reg g e steps j b"
    "emit (no_step\<lparr>st_opcode := opcode, st_left := i, st_right := j\<rparr>) steps = Inr (k, steps')"
proof -
  obtain i j where 1: "resolve cregs l = Inr i" "resolve cregs r = Inr j"
    "emit (no_step\<lparr>st_opcode := opcode, st_left := i, st_right := j\<rparr>) steps = Inr (k, steps')"
    using assms(2) by (auto simp: emit_binary_def rbind_Inr_iff)
  obtain a where "load eregs l = Inr a" "0 \<le> a" "reg g e steps i a" by (rule resolve_load [OF assms(1) 1(1)])
  moreover obtain b where "load eregs r = Inr b" "0 \<le> b" "reg g e steps j b" by (rule resolve_load [OF assms(1) 1(2)])
  ultimately show ?thesis using 1(3) that by blast
qed

lemma bands_tax_nonneg: "list_all (\<lambda>(u, r). 0 \<le> r) bs \<Longrightarrow> 0 \<le> bands_tax x p bs"
  by (induction x p bs rule: bands_tax.induct) (simp_all add: pos_imp_zdiv_nonneg_iff)

lemma rates_nonneg: "instructionSchema (I_BRACKET out inp bs) \<Longrightarrow> list_all (\<lambda>(u, r). 0 \<le> r) bs \<and> bs \<noteq> []"
  by (auto simp: list_all_iff)

lemma instruction_correct:
  assumes "compile_instruction cregs ins steps = Inr (k, steps')" "regs_match g e steps cregs eregs"
    and "inputs_match inputs g e" "instructionSchema ins" "runs_ok g e steps'"
  shows "\<exists>v. instruction_value inputs eregs ins = Inr v \<and> 0 \<le> v \<and> reg g e steps' k v"
  using assms(4)
proof (cases ins)
  case (I_CONST out t)
  then have "emit (no_step\<lparr>st_opcode := 1, st_immediate := bigint t\<rparr>) steps = Inr (k, steps')" using assms(1) by simp
  from emit_const [OF this, of g e] show ?thesis by (simp add: I_CONST)
next
  case (I_INPUT out key)
  show ?thesis
  proof (cases "key = ''gross'' \<or> key = ''taxable_gross''")
    case True
    then have "emit (no_step\<lparr>st_opcode := 2\<rparr>) steps = Inr (k, steps')" using assms(1) I_INPUT by simp
    moreover obtain t where "inputs key = Some t" "atomicAmount_ok t" "bigint t = g"
      using assms(3) True unfolding inputs_match_def by blast
    ultimately show ?thesis using emit_gross [of steps k steps' g e] by (auto simp: I_INPUT)
  next
    case False
    then obtain i where i: "earning_index key = Some i" "emit (no_step\<lparr>st_opcode := 3, st_left := i\<rparr>) steps = Inr (k, steps')"
      using assms(1) I_INPUT by (auto split: option.splits)
    obtain t where "inputs key = Some t" "atomicAmount_ok t" "bigint t = e ! i"
      using assms(3) i(1) unfolding inputs_match_def by blast
    then show ?thesis using emit_earning [OF i(2), of g e] bigint_nonneg [of t] by (auto simp: I_INPUT)
  qed
next
  case (I_ADD out l r)
  then have "emit_binary 4 cregs l r steps = Inr (k, steps')" using assms(1) by simp
  from emit_binary_Inr [OF assms(2) this] show ?thesis
    using emit_add by (fastforce simp: I_ADD)
next
  case (I_SUB out l r)
  then have "emit_binary 5 cregs l r steps = Inr (k, steps')" using assms(1) by simp
  from emit_binary_Inr [OF assms(2) this] obtain i j a b where ab: "load eregs l = Inr a" "load eregs r = Inr b"
    "reg g e steps i a" "reg g e steps j b" "emit (no_step\<lparr>st_opcode := 5, st_left := i, st_right := j\<rparr>) steps = Inr (k, steps')"
    by metis
  from emit_sub [OF ab(3-5)] assms(5) ab(1,2) show ?thesis by (simp add: I_SUB)
next
  case (I_MUL_DIV out t n d)
  obtain i where i: "resolve cregs t = Inr i"
    "emit (no_step\<lparr>st_opcode := 6, st_left := i, st_numerator := bigint n, st_denominator := bigint d\<rparr>) steps = Inr (k, steps')"
    "bigint d \<noteq> 0"
    using assms(1) I_MUL_DIV by (auto simp: rbind_Inr_iff assertU64_def split: if_splits)
  obtain v where v: "load eregs t = Inr v" "0 \<le> v" "reg g e steps i v" by (rule resolve_load [OF assms(2) i(1)])
  from emit_muldiv [OF v(3) i(2)] assms(5) v(1) i(3) show ?thesis
    by (simp add: I_MUL_DIV bdiv_nonneg pos_imp_zdiv_nonneg_iff)
next
  case (I_MIN out l r)
  then have "emit_binary 7 cregs l r steps = Inr (k, steps')" using assms(1) by simp
  from emit_binary_Inr [OF assms(2) this] obtain i j a b where ab: "load eregs l = Inr a" "load eregs r = Inr b" "0 \<le> a" "0 \<le> b"
    "reg g e steps i a" "reg g e steps j b" "emit (no_step\<lparr>st_opcode := 7, st_left := i, st_right := j\<rparr>) steps = Inr (k, steps')"
    by metis
  from emit_min [OF ab(5-7)] ab(1-4) show ?thesis by (cases "a < b") (simp_all add: I_MIN min_def split: if_splits)
next
  case (I_MAX out l r)
  then have "emit_binary 8 cregs l r steps = Inr (k, steps')" using assms(1) by simp
  from emit_binary_Inr [OF assms(2) this] obtain i j a b where ab: "load eregs l = Inr a" "load eregs r = Inr b" "0 \<le> a" "0 \<le> b"
    "reg g e steps i a" "reg g e steps j b" "emit (no_step\<lparr>st_opcode := 8, st_left := i, st_right := j\<rparr>) steps = Inr (k, steps')"
    by metis
  from emit_max [OF ab(5-7)] ab(1-4) show ?thesis by (auto simp: I_MAX max_def)
next
  case (I_BRACKET out inp bs)
  obtain i where i: "resolve cregs inp = Inr i" "compile_brackets i 0 None False bs steps = Inr (k, steps')"
    using assms(1) I_BRACKET by (auto simp: rbind_Inr_iff)
  obtain v where v: "load eregs inp = Inr v" "0 \<le> v" "reg g e steps i v" by (rule resolve_load [OF assms(2) i(1)])
  have r: "list_all (\<lambda>(u, r). 0 \<le> r) bs" "bs \<noteq> []"
    using rates_nonneg [OF assms(4) [unfolded I_BRACKET]] by simp_all
  have "reg g e steps' k (0 + bands_tax v 0 bs)"
    using compile_brackets_reg [OF i(2) v(3,2)] r(2) by (simp add: total_reg_def)
  then show ?thesis
    using v(1) progressiveBracket_tax [OF compile_brackets_ok [OF i(2)] r(1)] bands_tax_nonneg [OF r(1)]
    by (simp add: I_BRACKET)
qed

section \<open>Programs\<close>

lemma emit_extends: "emit s steps = Inr (k, steps') \<Longrightarrow> extends steps steps'"
  by (auto simp: emit_def extends_def split: if_splits)

lemma emit_band_end_extends: "emit_band_end i u steps = Inr (k, steps') \<Longrightarrow> extends steps steps'"
  by (auto simp: emit_band_end_def rbind_Inr_iff split: option.splits dest!: emit_extends intro: extends_trans)

lemma emit_taxable_extends: "emit_taxable b p steps = Inr (k, steps') \<Longrightarrow> extends steps steps'"
  by (auto simp: emit_taxable_def rbind_Inr_iff split: if_splits dest!: emit_extends intro: extends_trans)

lemma emit_total_extends: "emit_total rt b steps = Inr (k, steps') \<Longrightarrow> extends steps steps'"
  by (auto simp: emit_total_def split: option.splits dest!: emit_extends)

lemma compile_brackets_extends: "compile_brackets i p rt op bs steps = Inr (k, steps') \<Longrightarrow> extends steps steps'"
proof (induction bs arbitrary: p rt op steps)
  case Nil
  then show ?case by (auto split: if_splits)
next
  case (Cons b bs)
  obtain u r where b: "b = (u, r)" by (cases b)
  with Cons.prems obtain k1 s1 k2 s2 k3 s3 k4 s4 where E:
    "emit_band_end i u steps = Inr (k1, s1)" "emit_taxable k1 p s1 = Inr (k2, s2)"
    "emit (no_step\<lparr>st_opcode := 6, st_left := k2, st_numerator := r, st_denominator := 10000\<rparr>) s2 = Inr (k3, s3)"
    "emit_total rt k3 s3 = Inr (k4, s4)"
    "compile_brackets i (next_upper p u) (Some k4) (u = None) bs s4 = Inr (k, steps')"
    by (auto simp: rbind_Inr_iff next_upper_def split: if_splits)
  from emit_band_end_extends [OF E(1)] emit_taxable_extends [OF E(2)] emit_extends [OF E(3)]
    emit_total_extends [OF E(4)] Cons.IH [OF E(5)]
  show ?case by (blast intro: extends_trans)
qed

lemma compile_instruction_extends: "compile_instruction cregs ins steps = Inr (k, steps') \<Longrightarrow> extends steps steps'"
  by (cases ins)
    (auto simp: emit_binary_def rbind_Inr_iff dest: emit_extends compile_brackets_extends split: if_splits option.splits)

lemma compile_step_Inr:
  "compile_step (cregs, steps) ins = Inr s' \<longleftrightarrow>
     (\<exists>k steps'. compile_instruction cregs ins steps = Inr (k, steps') \<and> s' = (cregs(instruction_out ins \<mapsto> k), steps'))"
  by (auto simp: compile_step_def rbind_Inr_iff)

lemma compile_loop_extends: "rfold compile_step s inss = Inr s' \<Longrightarrow> extends (snd s) (snd s')"
proof (induction inss arbitrary: s)
  case Nil
  then show ?case by simp
next
  case (Cons ins inss)
  obtain cregs steps where s: "s = (cregs, steps)" by (cases s)
  with Cons.prems obtain k steps' where
    "compile_instruction cregs ins steps = Inr (k, steps')"
    "rfold compile_step (cregs(instruction_out ins \<mapsto> k), steps') inss = Inr s'"
    by (auto simp: compile_step_Inr rbind_Inr_iff)
  with Cons.IH [OF this(2)] compile_instruction_extends [OF this(1)] s show ?case by (auto intro: extends_trans)
qed

lemma regs_match_mono:
  assumes "regs_match g e steps cregs eregs" "extends steps steps'"
  shows "regs_match g e steps' cregs eregs"
  using assms reg_mono [OF _ assms(2)] unfolding regs_match_def by (fastforce split: option.splits)

lemma regs_match_upd:
  assumes "regs_match g e steps cregs eregs" "0 \<le> v" "reg g e steps k v"
  shows "regs_match g e steps (cregs(name \<mapsto> k)) (eregs(name \<mapsto> v))"
  unfolding regs_match_def
proof
  fix n
  show "case (cregs(name \<mapsto> k)) n of None \<Rightarrow> (eregs(name \<mapsto> v)) n = None
    | Some k' \<Rightarrow> \<exists>v'. (eregs(name \<mapsto> v)) n = Some v' \<and> 0 \<le> v' \<and> reg g e steps k' v'"
    using assms(1) [unfolded regs_match_def, rule_format, of n] assms(2,3)
    by (cases "n = name"; cases "cregs n") simp_all
qed

lemma compile_loop_correct:
  assumes "rfold compile_step (cregs, steps) inss = Inr (cregs', steps')"
    and "regs_match g e steps cregs eregs" "inputs_match inputs g e" "list_all instructionSchema inss" "runs_ok g e steps'"
  shows "\<exists>eregs'. rfold (evaluate_step inputs) eregs inss = Inr eregs' \<and> regs_match g e steps' cregs' eregs'"
  using assms
proof (induction inss arbitrary: cregs steps eregs)
  case Nil
  then show ?case by simp
next
  case (Cons ins inss)
  then obtain k s1 where 1: "compile_instruction cregs ins steps = Inr (k, s1)"
    "rfold compile_step (cregs(instruction_out ins \<mapsto> k), s1) inss = Inr (cregs', steps')"
    by (auto simp: compile_step_Inr rbind_Inr_iff)
  have x: "extends steps s1" "extends s1 steps'"
    using compile_instruction_extends [OF 1(1)] compile_loop_extends [OF 1(2)] by simp_all
  obtain v where v: "instruction_value inputs eregs ins = Inr v" "0 \<le> v" "reg g e s1 k v"
    using instruction_correct [OF 1(1) Cons.prems(2,3) _ runs_ok_prefix [OF x(2) Cons.prems(5)]] Cons.prems(4) by auto
  have schema: "list_all instructionSchema inss" using Cons.prems(4) by simp
  note Cons.IH [OF 1(2) regs_match_upd [OF regs_match_mono [OF Cons.prems(2) x(1)] v(2,3)] Cons.prems(3) schema Cons.prems(5)]
  moreover have "evaluate_step inputs eregs ins = Inr (eregs(instruction_out ins \<mapsto> v))"
    using v(1) by (simp add: evaluate_step_def)
  ultimately show ?case by (simp only: rfold.simps rbind_simps)
qed

section \<open>The circuit runs the compiled steps\<close>

definition program_of :: "compiled_step list \<Rightarrow> compiled_program \<Rightarrow> bool" where
  "program_of steps program \<longleftrightarrow>
     (let p = padded PAYO_MAX_POLICY_STEPS no_step steps in
      cp_instructionCount program = int (length steps) \<and> length steps \<le> PAYO_MAX_POLICY_STEPS
      \<and> cp_opcodes program = map st_opcode p
      \<and> cp_left program = map (\<lambda>s. int (st_left s)) p \<and> cp_right program = map (\<lambda>s. int (st_right s)) p
      \<and> cp_immediate program = map (\<lambda>s. toString (st_immediate s)) p
      \<and> cp_numerator program = map (\<lambda>s. toString (st_numerator s)) p
      \<and> cp_denominator program = map (\<lambda>s. toString (st_denominator s)) p)"

definition step_ok :: "compiled_step \<Rightarrow> bool" where
  "step_ok s \<longleftrightarrow> 0 \<le> st_immediate s \<and> 0 \<le> st_numerator s \<and> 0 \<le> st_denominator s"

lemma vm_value_step:
  assumes "program_of steps program" "i < length steps" "step_ok (steps ! i)" "length vals = i"
    and "vm_value program g e (vals @ replicate (PAYO_MAX_POLICY_STEPS - i) 0) i = Some v"
  shows "step_value g e vals (steps ! i) = Some v"
proof -
  have i: "i < PAYO_MAX_POLICY_STEPS" "padded PAYO_MAX_POLICY_STEPS no_step steps ! i = steps ! i"
    using assms(1,2) by (simp_all add: program_of_def Let_def nth_padded)
  have f: "cp_opcodes program ! i = st_opcode (steps ! i)" "nat (cp_left program ! i) = st_left (steps ! i)"
    "nat (cp_right program ! i) = st_right (steps ! i)" "bigint (cp_immediate program ! i) = st_immediate (steps ! i)"
    "bigint (cp_numerator program ! i) = st_numerator (steps ! i)"
    "bigint (cp_denominator program ! i) = st_denominator (steps ! i)"
    using assms(1,3) i by (simp_all add: program_of_def Let_def step_ok_def)
  have n: "(vals @ zs) ! j = vals ! j" if "j < i" for j and zs :: "int list"
    using that assms(4) by (simp add: nth_append)
  show ?thesis
    using assms(5) unfolding vm_value_def step_value_def f Let_def assms(4)
    by (auto simp: n vm_binary_def split: if_splits)
qed

lemma vm_loop_unused:
  "(\<And>j. j \<in> set is \<Longrightarrow> \<not> int j < cp_instructionCount program) \<Longrightarrow>
   vm_loop program g e is registers = Some registers' \<Longrightarrow> registers' = registers"
  by (induction "is" arbitrary: registers) (auto split: if_splits)

lemma vm_loop_exec:
  assumes "program_of steps program" "list_all step_ok steps" "length vals = i" "i \<le> length steps"
    and "vm_loop program g e [i..<PAYO_MAX_POLICY_STEPS] (vals @ replicate (PAYO_MAX_POLICY_STEPS - i) 0) = Some registers"
  shows "\<exists>vs. exec g e (drop i steps) vals = Some vs \<and> take (length steps) registers = vs"
  using assms(3-5)
proof (induction "length steps - i" arbitrary: i vals)
  case 0
  have "registers = vals @ replicate (PAYO_MAX_POLICY_STEPS - i) 0"
    using 0 assms(1) by (intro vm_loop_unused [OF _ 0(4)]) (auto simp: program_of_def Let_def)
  with 0 show ?case by simp
next
  case (Suc n)
  then have i: "i < length steps" "i < PAYO_MAX_POLICY_STEPS" "[i..<PAYO_MAX_POLICY_STEPS] = i # [Suc i..<PAYO_MAX_POLICY_STEPS]"
    using assms(1) by (auto simp: program_of_def Let_def upt_conv_Cons)
  have count: "int i < cp_instructionCount program" using assms(1) i by (simp add: program_of_def Let_def)
  obtain v where v: "vm_value program g e (vals @ replicate (PAYO_MAX_POLICY_STEPS - i) 0) i = Some v"
    "vm_loop program g e [Suc i..<PAYO_MAX_POLICY_STEPS] ((vals @ replicate (PAYO_MAX_POLICY_STEPS - i) 0)[i := v]) = Some registers"
    using Suc.prems(3) count unfolding i(3) by (auto split: option.splits)
  have upd: "(vals @ replicate (PAYO_MAX_POLICY_STEPS - i) 0)[i := v]
      = (vals @ [v]) @ replicate (PAYO_MAX_POLICY_STEPS - Suc i) 0"
    using Suc.prems(1) i(2) by (simp add: list_update_append Suc_diff_Suc [symmetric])
  have s: "step_value g e vals (steps ! i) = Some v"
    using vm_value_step [OF assms(1) i(1) _ Suc.prems(1) v(1)] assms(2) i(1) by (simp add: list_all_length)
  have "\<exists>vs. exec g e (drop (Suc i) steps) (vals @ [v]) = Some vs \<and> take (length steps) registers = vs"
    using Suc.hyps(2) Suc.prems(1) i(1) v(2) upd by (intro Suc.hyps(1)) simp_all
  then show ?case using s i(1) by (simp add: Cons_nth_drop_Suc [symmetric])
qed

definition steps_ok :: "compiled_step list \<Rightarrow> bool" where
  "steps_ok steps \<longleftrightarrow> list_all step_ok steps \<and> length steps \<le> PAYO_MAX_POLICY_STEPS"

lemma emit_steps_ok: "emit s steps = Inr (k, steps') \<Longrightarrow> step_ok s \<Longrightarrow> steps_ok steps \<Longrightarrow> steps_ok steps'"
  by (auto simp: emit_def steps_ok_def split: if_splits)

lemma step_ok_upd [simp]: "step_ok no_step" "step_ok (s\<lparr>st_opcode := o'\<rparr>) = step_ok s" "step_ok (s\<lparr>st_left := l\<rparr>) = step_ok s"
  "step_ok (s\<lparr>st_right := l\<rparr>) = step_ok s"
  by (simp_all add: step_ok_def no_step_def)

lemma compile_brackets_steps_ok:
  "compile_brackets i p rt op bs steps = Inr (k, steps') \<Longrightarrow> steps_ok steps \<Longrightarrow> 0 \<le> p
   \<Longrightarrow> list_all (\<lambda>(u, r). 0 \<le> r) bs \<Longrightarrow> steps_ok steps'"
proof (induction bs arbitrary: p rt op steps)
  case Nil
  then show ?case by (auto split: if_splits)
next
  case (Cons b bs)
  obtain u r where b: "b = (u, r)" by (cases b)
  with Cons.prems obtain k1 s1 k2 s2 k3 s3 k4 s4 where E:
    "emit_band_end i u steps = Inr (k1, s1)" "emit_taxable k1 p s1 = Inr (k2, s2)"
    "emit (no_step\<lparr>st_opcode := 6, st_left := k2, st_numerator := r, st_denominator := 10000\<rparr>) s2 = Inr (k3, s3)"
    "emit_total rt k3 s3 = Inr (k4, s4)"
    "compile_brackets i (next_upper p u) (Some k4) (u = None) bs s4 = Inr (k, steps')"
    by (auto simp: rbind_Inr_iff next_upper_def split: if_splits)
  have "steps_ok s1" using E(1) Cons.prems(2)
    by (auto simp: emit_band_end_def rbind_Inr_iff step_ok_def no_step_def split: option.splits dest!: emit_steps_ok)
  then have "steps_ok s2" using E(2) Cons.prems(3)
    by (auto simp: emit_taxable_def rbind_Inr_iff step_ok_def no_step_def split: if_splits dest!: emit_steps_ok)
  then have "steps_ok s3" using emit_steps_ok [OF E(3)] Cons.prems(4) b by (simp add: step_ok_def no_step_def)
  then have "steps_ok s4" using E(4)
    by (auto simp: emit_total_def step_ok_def no_step_def split: option.splits dest!: emit_steps_ok)
  moreover have "0 \<le> next_upper p u" using Cons.prems(3) by (simp add: next_upper_def split: option.splits)
  ultimately show ?case using Cons.IH [OF E(5)] Cons.prems(4) b by simp
qed

lemma compile_instruction_steps_ok:
  assumes "compile_instruction cregs ins steps = Inr (k, steps')" "steps_ok steps" "instructionSchema ins"
  shows "steps_ok steps'"
proof (cases ins)
  case (I_BRACKET out inp bs)
  then show ?thesis
    using assms compile_brackets_steps_ok rates_nonneg [of out inp bs] by (auto simp: rbind_Inr_iff simp del: instructionSchema.simps)
qed (use assms in \<open>auto simp: emit_binary_def rbind_Inr_iff step_ok_def no_step_def assertU64_def
    split: if_splits option.splits dest!: emit_steps_ok\<close>)

lemma compile_loop_steps_ok:
  "rfold compile_step s inss = Inr s' \<Longrightarrow> steps_ok (snd s) \<Longrightarrow> list_all instructionSchema inss \<Longrightarrow> steps_ok (snd s')"
proof (induction inss arbitrary: s)
  case Nil
  then show ?case by simp
next
  case (Cons ins inss)
  obtain cregs steps where s: "s = (cregs, steps)" by (cases s)
  with Cons.prems obtain k s1 where
    "compile_instruction cregs ins steps = Inr (k, s1)"
    "rfold compile_step (cregs(instruction_out ins \<mapsto> k), s1) inss = Inr s'"
    by (auto simp: compile_step_Inr rbind_Inr_iff)
  with Cons.IH [OF this(2)] compile_instruction_steps_ok Cons.prems s show ?case by simp
qed

section \<open>Compiler correctness\<close>

lemma evaluate_step_Inr:
  "evaluate_step inputs r ins = Inr r' \<longleftrightarrow>
     (\<exists>v. instruction_value inputs r ins = Inr v \<and> r' = r(instruction_out ins \<mapsto> v))"
  by (auto simp: evaluate_step_def rbind_Inr_iff)

lemma evaluate_loop_dom:
  "rfold (evaluate_step inputs) r inss = Inr r' \<Longrightarrow> dom r' = dom r \<union> instruction_out ` set inss"
proof (induction inss arbitrary: r)
  case Nil
  then show ?case by simp
next
  case (Cons ins inss)
  then obtain v where "rfold (evaluate_step inputs) (r(instruction_out ins \<mapsto> v)) inss = Inr r'"
    by (auto simp: evaluate_step_Inr rbind_Inr_iff)
  from Cons.IH [OF this] show ?case by auto
qed

lemma compile_correct:
  assumes "compilePolicyPack L pack = Inr program" "evaluate_policy program g e = Some v" "inputs_match inputs g e"
  shows "\<exists>outputs register. evaluatePolicyPack L pack inputs = Inr outputs
    \<and> statutory_output (pk_outputs pack) = Some register
    \<and> (\<forall>name. (name, register) \<in> set (pk_outputs pack) \<longrightarrow> (name, toString v) \<in> set outputs) \<and> 0 \<le> v"
proof -
  obtain cregs steps register k m where c: "policyPackSchema L pack"
    "rfold compile_step (Map.empty, []) (pk_instructions pack) = Inr (cregs, steps)"
    "statutory_output (pk_outputs pack) = Some register" "resolve cregs register = Inr k"
    "program_of steps program \<longleftrightarrow> length steps \<le> PAYO_MAX_POLICY_STEPS" "cp_outputRegister program = int k"
    using assms(1) by (auto simp: compilePolicyPack_def rbind_Inr_iff program_of_def Let_def split: option.splits)
  have schema: "list_all instructionSchema (pk_instructions pack)" using c(1) by (simp add: policyPackSchema_def)
  have ok: "steps_ok steps" using compile_loop_steps_ok [OF c(2)] schema by (simp add: steps_ok_def)
  then have prog: "program_of steps program" using c(5) by (simp add: steps_ok_def)
  obtain regs where r: "vm_loop program g e [0..<PAYO_MAX_POLICY_STEPS] (replicate PAYO_MAX_POLICY_STEPS 0) = Some regs"
    "v = regs ! k"
    using assms(2) c(6) by (auto simp: evaluate_policy_def split: if_splits)
  obtain vs where vs: "exec g e steps [] = Some vs" "take (length steps) regs = vs"
    using vm_loop_exec [OF prog, of "[]" 0 g e regs] r(1) ok by (auto simp: steps_ok_def)
  obtain eregs where eregs: "rfold (evaluate_step inputs) Map.empty (pk_instructions pack) = Inr eregs"
    "regs_match g e steps cregs eregs"
    using compile_loop_correct [OF c(2) _ assms(3) schema, of Map.empty] vs(1)
    by (auto simp: regs_match_def runs_ok_def)
  have dom: "dom eregs = set (map instruction_out (pk_instructions pack))"
    using evaluate_loop_dom [OF eregs(1)] by simp
  have loads: "load eregs reg = Inr (the (eregs reg))" if "(name, reg) \<in> set (pk_outputs pack)" for name reg
  proof -
    have "reg \<in> dom eregs" using c(1) that unfolding dom by (auto simp: policyPackSchema_def list_all_iff)
    then show ?thesis by (auto simp: load_def)
  qed
  let ?out = "\<lambda>(name, reg). (name, toString (the (eregs reg)))"
  have "rmap (\<lambda>(name, register). rbind (load eregs register) (\<lambda>v. Inr (name, toString v))) (pk_outputs pack)
      = Inr (map ?out (pk_outputs pack))"
    using loads by (intro rmap_total) auto
  then have "evaluatePolicyPack L pack inputs = Inr (map ?out (pk_outputs pack))"
    using c(1) eregs(1) by (simp add: evaluatePolicyPack_def)
  moreover have "the (eregs register) = v \<and> 0 \<le> v"
  proof -
    obtain w where w: "load eregs register = Inr w" "reg g e steps k w" "0 \<le> w"
      using resolve_load [OF eregs(2) c(4)] by metis
    then have "k < length vs" "vs ! k = w" using vs(1) by (auto simp: reg_def)
    then show ?thesis using vs(2) r(2) w(1,3) by (auto simp: load_def split: option.splits)
  qed
  ultimately show ?thesis using c(3) by force
qed

text \<open>C4: What the proof circuit accepts is what the policy says: if the circuit evaluates a compiled pack to a value,
  the evaluator succeeds on matching inputs, and the pack's statutory output is that value.\<close>

theorem compiled_policy_correct:
  assumes "compilePolicyPack L pack = Inr program" "evaluate_policy program g e = Some v" "inputs_match inputs g e"
  shows "\<exists>outputs register. evaluatePolicyPack L pack inputs = Inr outputs
    \<and> statutory_output (pk_outputs pack) = Some register
    \<and> (\<forall>name. (name, register) \<in> set (pk_outputs pack) \<longrightarrow> (name, toString v) \<in> set outputs)"
  using compile_correct [OF assms] by blast

text \<open>The demonstration pack compiles to exactly the 16 steps the circuit has room for.\<close>

definition demo_program :: "string \<Rightarrow> compiled_program" where
  "demo_program m =
     \<lparr>cp_metadataCommitment = m, cp_instructionCount = 16,
      cp_opcodes = [2, 1, 7, 6, 1, 7, 1, 8, 5, 6, 4, 1, 8, 5, 6, 4],
      cp_left = [0, 0, 0, 2, 0, 0, 0, 5, 7, 8, 3, 0, 0, 12, 13, 10],
      cp_right = [0, 0, 1, 0, 0, 4, 0, 6, 6, 0, 9, 0, 11, 11, 0, 14],
      cp_immediate = [''0'', ''1000'', ''0'', ''0'', ''5000'', ''0'', ''1000'', ''0'', ''0'', ''0'', ''0'', ''5000'', ''0'', ''0'', ''0'', ''0''],
      cp_numerator = [''0'', ''0'', ''0'', ''1000'', ''0'', ''0'', ''0'', ''0'', ''0'', ''2000'', ''0'', ''0'', ''0'', ''0'', ''3000'', ''0''],
      cp_denominator = [''0'', ''0'', ''0'', ''10000'', ''0'', ''0'', ''0'', ''0'', ''0'', ''10000'', ''0'', ''0'', ''0'', ''0'', ''10000'', ''0''],
      cp_outputRegister = 15\<rparr>"

lemma demo_steps:
  "case rfold compile_step (Map.empty, []) (pk_instructions DEMO_PROGRESSIVE_POLICY) of
     Inl _ \<Rightarrow> False
   | Inr (r, steps) \<Rightarrow> r ''withholding'' = Some 15 \<and> length steps = 16
       \<and> map st_opcode steps = cp_opcodes (demo_program m) \<and> map (\<lambda>s. int (st_left s)) steps = cp_left (demo_program m)
       \<and> map (\<lambda>s. int (st_right s)) steps = cp_right (demo_program m)
       \<and> map (\<lambda>s. toString (st_immediate s)) steps = cp_immediate (demo_program m)
       \<and> map (\<lambda>s. toString (st_numerator s)) steps = cp_numerator (demo_program m)
       \<and> map (\<lambda>s. toString (st_denominator s)) steps = cp_denominator (demo_program m)"
  by code_simp

lemma demo_pack:
  "policyPackSchema ref_lib DEMO_PROGRESSIVE_POLICY"
  "statutory_output (pk_outputs DEMO_PROGRESSIVE_POLICY) = Some ''withholding''"
  "int (length (stableJson (pack_json DEMO_PROGRESSIVE_POLICY))) < 4294967296"
  by code_simp+

lemma padded_full: "length xs = n \<Longrightarrow> padded n d xs = xs"
  by (simp add: padded_short)

lemma demo_compiled:
  "\<exists>m. compilePolicyPack ref_lib DEMO_PROGRESSIVE_POLICY = Inr (demo_program m)
     \<and> policyMetadataCommitment ref_lib DEMO_PROGRESSIVE_POLICY = Inr m"
proof -
  obtain h where h: "hashTextCommitment ref_lib ''PAYO_POLICY_METADATA_V1'' (stableJson (pack_json DEMO_PROGRESSIVE_POLICY)) = Inr h"
    unfolding hashTextCommitment_def using hashDomain_total [of "[utf8 (stableJson (pack_json DEMO_PROGRESSIVE_POLICY))]"]
      demo_pack(3) by auto
  let ?m = "toHex ref_lib h"
  obtain r steps where s: "rfold compile_step (Map.empty, []) (pk_instructions DEMO_PROGRESSIVE_POLICY) = Inr (r, steps)"
    "r ''withholding'' = Some 15" "length steps = 16"
    "map st_opcode steps = cp_opcodes (demo_program ?m)" "map (\<lambda>s. int (st_left s)) steps = cp_left (demo_program ?m)"
    "map (\<lambda>s. int (st_right s)) steps = cp_right (demo_program ?m)"
    "map (\<lambda>s. toString (st_immediate s)) steps = cp_immediate (demo_program ?m)"
    "map (\<lambda>s. toString (st_numerator s)) steps = cp_numerator (demo_program ?m)"
    "map (\<lambda>s. toString (st_denominator s)) steps = cp_denominator (demo_program ?m)"
    using demo_steps [of ?m] by (auto split: sum.splits)
  have p: "padded PAYO_MAX_POLICY_STEPS no_step steps = steps"
    using s(3) by (intro padded_full) (simp add: PAYO_MAX_POLICY_STEPS_def)
  have m: "policyMetadataCommitment ref_lib DEMO_PROGRESSIVE_POLICY = Inr ?m" by (simp add: policyMetadataCommitment_def h)
  have "compilePolicyPack ref_lib DEMO_PROGRESSIVE_POLICY = Inr (demo_program ?m)"
    using demo_pack(1,2) s m by (simp add: compilePolicyPack_def resolve_def p Let_def) (simp add: demo_program_def)
  with m show ?thesis by blast
qed

lemma demo_metadata_nonzero:
  assumes "policyMetadataCommitment ref_lib DEMO_PROGRESSIVE_POLICY = Inr m"
  shows "hex_num m \<noteq> 0"
proof -
  let ?t = "stableJson (pack_json DEMO_PROGRESSIVE_POLICY)"
  obtain s where t: "?t = s @ ''}''" by (simp add: pack_json_def)
  obtain n where n: "m = toHex ref_lib (ref_digest (utf8 ''PAYO_POLICY_METADATA_V1'' @ n @ utf8 ?t))"
    using assms by (auto simp: policyMetadataCommitment_def rbind_Inr_iff hashTextCommitment_def hashDomain_Inr_iff
        encodeField_Inr_iff ref_lib_def)
  have brace: "utf8 d @ n @ utf8 (s @ ''}'') = (utf8 d @ n @ utf8 s) @ [125]" for d by (simp add: utf8_def)
  have "hex_num m = (decodeUint (utf8 ''PAYO_POLICY_METADATA_V1'' @ n @ utf8 s) * 256 + 125) mod 2 ^ 250"
    unfolding n toHex_hex_num [OF ref_lib_hex] ref_digest_value t brace decodeUint_snoc_arith by simp
  then have "hex_num m mod 256 = 125" by (simp add: mod_mod_cancel)
  then show ?thesis by auto
qed

definition demo_inputs :: "string \<rightharpoonup> string" where
  "demo_inputs key = (if key = ''gross'' \<or> key = ''taxable_gross'' then Some ''3000''
     else if earning_index key = None then None else Some (if earning_index key = Some 0 then ''3000'' else ''0''))"

lemma earning_index_lt: "earning_index key = Some i \<Longrightarrow> i < 8"
  by (auto simp: earning_index_def split: if_splits)

lemma demo_inputs_match: "inputs_match demo_inputs 3000 [3000, 0, 0, 0, 0, 0, 0, 0]"
proof -
  have a: "atomicAmount_ok ''3000''" "atomicAmount_ok ''0''" "bigint ''3000'' = 3000" "bigint ''0'' = 0" by code_simp+
  have e: "earning_index ''gross'' = None" "earning_index ''taxable_gross'' = None" by code_simp+
  have "\<exists>t. demo_inputs key = Some t \<and> atomicAmount_ok t \<and> bigint t = [3000, 0, 0, 0, 0, 0, 0, 0] ! i"
    if k: "earning_index key = Some i" for key i
  proof -
    have "key \<noteq> ''gross''" "key \<noteq> ''taxable_gross''" using k e by auto
    moreover have "i = 0 \<or> [3000, 0, 0, 0, 0, 0, 0, 0 :: int] ! i = 0"
      using earning_index_lt [OF k] by (auto simp: less_Suc_eq numeral_eq_Suc)
    ultimately show ?thesis using k a by (auto simp: demo_inputs_def)
  qed
  then show ?thesis using a by (simp add: inputs_match_def demo_inputs_def)
qed

theorem compiled_policy_correct_witness:
  "\<exists>program. compilePolicyPack ref_lib DEMO_PROGRESSIVE_POLICY = Inr program
     \<and> evaluate_policy program 3000 [3000, 0, 0, 0, 0, 0, 0, 0] = Some 500
     \<and> (\<exists>outputs. evaluatePolicyPack ref_lib DEMO_PROGRESSIVE_POLICY demo_inputs = Inr outputs
          \<and> (''statutoryWithholding'', ''500'') \<in> set outputs)"
proof -
  obtain m where m: "compilePolicyPack ref_lib DEMO_PROGRESSIVE_POLICY = Inr (demo_program m)" "hex_num m \<noteq> 0"
    using demo_compiled demo_metadata_nonzero by metis
  have "map_option (\<lambda>registers. registers ! 15) (vm_loop (demo_program m) 3000 [3000, 0, 0, 0, 0, 0, 0, 0]
      [0..<PAYO_MAX_POLICY_STEPS] (replicate PAYO_MAX_POLICY_STEPS 0)) = Some 500"
    by code_simp
  then have v: "evaluate_policy (demo_program m) 3000 [3000, 0, 0, 0, 0, 0, 0, 0] = Some 500"
    using m(2) by (simp add: evaluate_policy_def demo_program_def PAYO_MAX_POLICY_STEPS_def)
  have "toString 500 = ''500''" "(''statutoryWithholding'', ''withholding'') \<in> set (pk_outputs DEMO_PROGRESSIVE_POLICY)"
    by code_simp+
  with compiled_policy_correct [OF m(1) v demo_inputs_match] m(1) v demo_pack(2) show ?thesis by fastforce
qed

section \<open>Progressive brackets\<close>

definition rates_ok :: "(string option \<times> int) list \<Rightarrow> bool" where
  "rates_ok bs = list_all (\<lambda>(u, r). 0 \<le> r \<and> r \<le> 10000) bs"

lemma band_share_le: "0 \<le> a \<Longrightarrow> 0 \<le> r \<Longrightarrow> r \<le> 10000 \<Longrightarrow> a * r div 10000 \<le> (a::int)"
  using pro_rata_le [of a 10000 r] by simp

lemma bands_tax_le: "bands_ok p op bs \<Longrightarrow> rates_ok bs \<Longrightarrow> bands_tax x p bs \<le> max x p - p"
proof (induction x p bs arbitrary: op rule: bands_tax.induct)
  case (2 x p u r bs)
  have IH: "bands_tax x (next_upper p u) bs \<le> max x (next_upper p u) - next_upper p u"
    using 2 by (auto simp: rates_ok_def)
  have "(max (band_end x u) p - p) * r div 10000 \<le> max (band_end x u) p - p"
    using 2(3) by (intro band_share_le) (auto simp: rates_ok_def)
  moreover have "max (band_end x u) p - p + (max x (next_upper p u) - next_upper p u) \<le> max x p - p" if "u \<noteq> None"
    using that 2(2) by (auto simp: band_end_def next_upper_def)
  moreover have "bands_tax x (next_upper p u) bs = 0" if "u = None"
    using that 2(2) by (simp add: bands_ok_open)
  ultimately show ?case using IH by (cases u) (auto simp: band_end_def)
qed simp

lemma bands_tax_mono: "rates_ok bs \<Longrightarrow> x \<le> y \<Longrightarrow> bands_tax x p bs \<le> bands_tax y p bs"
proof (induction bs arbitrary: p)
  case (Cons b bs)
  obtain u r where b: "b = (u, r)" by (cases b)
  have "band_end x u \<le> band_end y u" using Cons.prems(2) by (auto simp: band_end_def split: option.splits)
  then have "max (band_end x u) p - p \<le> max (band_end y u) p - p" by simp
  moreover have "0 \<le> r" "rates_ok bs" using Cons.prems(1) b by (auto simp: rates_ok_def)
  ultimately have "(max (band_end x u) p - p) * r div 10000 \<le> (max (band_end y u) p - p) * r div 10000"
    by (intro zdiv_mono1 mult_right_mono) simp_all
  with Cons.IH [OF \<open>rates_ok bs\<close> Cons.prems(2), of "next_upper p u"] show ?case by (simp add: b)
qed simp

lemma progressiveBracket_rates:
  "bands_ok 0 False bs \<Longrightarrow> rates_ok bs \<Longrightarrow> progressiveBracket x bs = Inr (bands_tax x 0 bs)"
  by (rule progressiveBracket_tax) (auto simp: rates_ok_def list_all_iff)

text \<open>The evaluator's bracket loop, which stops at the band the value falls in, computes the sum over all bands;
  the tax is between zero and the value, and does not decrease when the value grows.\<close>

theorem progressive_bracket_reference:
  assumes "bands_ok 0 False bs" "rates_ok bs" "0 \<le> x" "x \<le> y"
  shows "progressiveBracket x bs = Inr (bands_tax x 0 bs) \<and> 0 \<le> bands_tax x 0 bs \<and> bands_tax x 0 bs \<le> x
    \<and> bands_tax x 0 bs \<le> bands_tax y 0 bs"
proof -
  have "list_all (\<lambda>(u, r). 0 \<le> r) bs" using assms(2) by (auto simp: rates_ok_def list_all_iff)
  then show ?thesis
    using progressiveBracket_rates [OF assms(1,2)] bands_tax_le [OF assms(1,2), of x] bands_tax_mono [OF assms(2,4)]
      bands_tax_nonneg [of bs x 0] assms(3) by simp
qed

theorem progressive_bracket_reference_witness:
  "progressiveBracket 3000 [(Some ''1000'', 1000), (Some ''5000'', 2000), (None, 3000)] = Inr 500
   \<and> bands_tax 3000 0 [(Some ''1000'', 1000), (Some ''5000'', 2000), (None, 3000)]
      \<le> bands_tax 7000 0 [(Some ''1000'', 1000), (Some ''5000'', 2000), (None, 3000)]"
proof -
  have "bigint ''1000'' = 1000" "bigint ''5000'' = 5000" by code_simp+
  then have a: "bands_ok 0 False [(Some ''1000'', 1000), (Some ''5000'', 2000), (None, 3000)]"
    "rates_ok [(Some ''1000'', 1000), (Some ''5000'', 2000), (None, 3000)]"
    "bands_tax 3000 0 [(Some ''1000'', 1000), (Some ''5000'', 2000), (None, 3000)] = 500"
    by (simp_all add: next_upper_def band_end_def rates_ok_def)
  have "(0::int) \<le> 3000" "(3000::int) \<le> 7000" by simp_all
  from progressive_bracket_reference [OF a(1,2) this] show ?thesis unfolding a(3) by blast
qed

end
