(* ===== verification/Base64.thy ===== *)
theory Base64
  imports Encoding
begin

text \<open>
  \<open>toBase64\<close> and \<open>fromBase64\<close> of \<open>lib/crypto/encoding.ts\<close> over the runtime's \<open>btoa\<close> and
  \<open>atob\<close>, which are modelled from their specification: \<open>btoa\<close> prints every three bytes as four
  letters and pads, \<open>atob\<close> skips white space, drops at most two padding signs of a full quantum and
  rejects everything else that is not a letter of the alphabet.
\<close>

section \<open>The runtime's codec\<close>

definition base64_char :: "int \<Rightarrow> char" where
  "base64_char n =
     char_of (nat (if n < 26 then n + 65 else if n < 52 then n + 71 else if n < 62 then n - 4
                   else if n = 62 then 43 else 47))"

definition base64_val :: "char \<Rightarrow> int" where
  "base64_val c =
     (let n = int (of_char c :: nat) in
      if 65 \<le> n \<and> n \<le> 90 then n - 65 else if 97 \<le> n \<and> n \<le> 122 then n - 71
      else if 48 \<le> n \<and> n \<le> 57 then n + 4 else if n = 43 then 62 else 63)"

definition is_skipped :: "char \<Rightarrow> bool" where
  "is_skipped c = ((of_char c :: nat) \<in> {9, 10, 12, 13, 32})"

definition is_base64 :: "char \<Rightarrow> bool" where
  "is_base64 c = (is_upper c \<or> is_lower c \<or> is_digit c \<or> (of_char c :: nat) \<in> {43, 47})"

definition sextet1 :: "byte \<Rightarrow> int" where "sextet1 a = uint a div 4"
definition sextet2 :: "byte \<Rightarrow> byte \<Rightarrow> int" where "sextet2 a b = uint a mod 4 * 16 + uint b div 16"
definition sextet3 :: "byte \<Rightarrow> byte \<Rightarrow> int" where "sextet3 b c = uint b mod 16 * 4 + uint c div 64"
definition sextet4 :: "byte \<Rightarrow> int" where "sextet4 c = uint c mod 64"

fun btoa :: "byte list \<Rightarrow> string" where
  "btoa [] = []"
| "btoa [a] = [base64_char (sextet1 a), base64_char (sextet2 a 0), CHR ''='', CHR ''='']"
| "btoa [a, b] = [base64_char (sextet1 a), base64_char (sextet2 a b), base64_char (sextet3 b 0), CHR ''='']"
| "btoa (a # b # c # bs) =
     [base64_char (sextet1 a), base64_char (sextet2 a b), base64_char (sextet3 b c), base64_char (sextet4 c)] @ btoa bs"

definition octet1 :: "int \<Rightarrow> int \<Rightarrow> byte" where "octet1 p q = word_of_int (p * 4 + q div 16)"
definition octet2 :: "int \<Rightarrow> int \<Rightarrow> byte" where "octet2 q r = word_of_int (q mod 16 * 16 + r div 4)"
definition octet3 :: "int \<Rightarrow> int \<Rightarrow> byte" where "octet3 r s = word_of_int (r mod 4 * 64 + s)"

fun unbase64 :: "int list \<Rightarrow> byte list" where
  "unbase64 (p # q # r # s # vs) = [octet1 p q, octet2 q r, octet3 r s] @ unbase64 vs"
| "unbase64 [p, q, r] = [octet1 p q, octet2 q r]"
| "unbase64 [p, q] = [octet1 p q]"
| "unbase64 _ = []"

definition strip_padding :: "string \<Rightarrow> string" where
  "strip_padding s =
     (if length s mod 4 \<noteq> 0 \<or> s = [] then s
      else if drop (length s - 2) s = ''=='' then take (length s - 2) s
      else if last s = CHR ''='' then butlast s else s)"

definition atob :: "string \<Rightarrow> byte list result" where
  "atob text =
     (let s = strip_padding (filter (\<lambda>c. \<not> is_skipped c) text)
      in if length s mod 4 = 1 \<or> \<not> list_all is_base64 s
         then Inl (Thrown ''InvalidCharacterError'')
         else Inr (unbase64 (map base64_val s)))"

section \<open>The codec of the source\<close>

text \<open>
  \<open>toBase64\<close> builds the binary text in chunks of \<open>0x8000\<close> bytes; a binary text is kept as the
  list of its code units.
\<close>

function binary_chunks :: "byte list \<Rightarrow> byte list" where
  "binary_chunks v = (if v = [] then [] else take 0x8000 v @ binary_chunks (drop 0x8000 v))"
  by pat_completeness auto
termination
  by (relation "measure length") auto

declare binary_chunks.simps [simp del]

definition toBase64 :: "byte list \<Rightarrow> string" where
  "toBase64 v = btoa (binary_chunks v)"

definition fromBase64 :: "string \<Rightarrow> byte list result" where
  "fromBase64 v = atob v"

lemma binary_chunks_id [simp]: "binary_chunks v = v"
proof (induction v rule: binary_chunks.induct)
  case (1 v)
  then show ?case by (subst binary_chunks.simps) simp
qed

lemma toBase64_code [code]: "toBase64 v = btoa v"
  by (simp add: toBase64_def)

section \<open>Reading back what was printed\<close>

lemma base64_char_facts:
  assumes "0 \<le> n" "n < 64"
  shows "base64_val (base64_char n) = n" "is_base64 (base64_char n)" "base64_char n \<noteq> CHR ''=''"
    "\<not> is_skipped (base64_char n)"
proof -
  define k where "k = nat (if n < 26 then n + 65 else if n < 52 then n + 71 else if n < 62 then n - 4
                   else if n = 62 then 43 else 47)"
  have "k < 128" using assms unfolding k_def by (simp split: if_split; linarith)
  then have c: "(of_char (base64_char n) :: nat) = k" by (simp add: base64_char_def k_def [symmetric])
  show "base64_val (base64_char n) = n"
    using assms by (simp add: base64_val_def c k_def)
  have "42 < k" unfolding k_def using assms by (simp split: if_split; linarith)
  then show "\<not> is_skipped (base64_char n)" by (simp add: is_skipped_def c)
  show "is_base64 (base64_char n)"
    using assms
    by (simp add: is_base64_def is_upper_def is_lower_def is_digit_def c k_def nat_le_iff le_nat_iff nat_eq_iff; arith)
  have "k \<noteq> 61" using assms by (simp add: k_def nat_eq_iff)
  then show "base64_char n \<noteq> CHR ''=''" using c by auto
qed

lemma uint_byte: "0 \<le> uint (b::byte)" "uint (b::byte) < 256"
  using uint_byte_bounds [of b] by simp_all

lemma sextet_bounds: "0 \<le> sextet1 a" "sextet1 a < 64" "0 \<le> sextet2 a b" "sextet2 a b < 64"
  "0 \<le> sextet3 a b" "sextet3 a b < 64" "0 \<le> sextet4 a" "sextet4 a < 64"
  using uint_byte [of a] uint_byte [of b]
  by (simp_all add: sextet1_def sextet2_def sextet3_def sextet4_def; presburger)+

lemma octets [simp]:
  "octet1 (sextet1 a) (sextet2 a b) = a" "octet2 (sextet2 a b) (sextet3 b c) = b"
  "octet3 (sextet3 b c) (sextet4 c) = c"
proof -
  have lo: "uint b div 16 < 16" "uint c div 64 < 4"
    using uint_byte [of b] uint_byte [of c] by (simp_all add: div_less_iff_less_mult)
  have d: "(x * k + y) div k = x" "(x * k + y) mod k = y" if "0 \<le> y" "y < k" for x y k :: int
    using that by (simp_all add: div_add1_eq mod_add_eq div_pos_pos_trivial mod_pos_pos_trivial)
  have "uint a div 4 * 4 + (uint a mod 4 * 16 + uint b div 16) div 16 = uint a"
    "(uint a mod 4 * 16 + uint b div 16) mod 16 * 16 + (uint b mod 16 * 4 + uint c div 64) div 4 = uint b"
    "(uint b mod 16 * 4 + uint c div 64) mod 4 * 64 + uint c mod 64 = uint c"
    using d [of "uint b div 16" 16 "uint a mod 4"] d [of "uint c div 64" 4 "uint b mod 16"] lo
      uint_byte [of b] uint_byte [of c]
    by (simp_all only: pos_imp_zdiv_nonneg_iff div_mult_mod_eq zero_less_numeral)
  then show "octet1 (sextet1 a) (sextet2 a b) = a" "octet2 (sextet2 a b) (sextet3 b c) = b"
    "octet3 (sextet3 b c) (sextet4 c) = c"
    unfolding sextet1_def sextet2_def sextet3_def sextet4_def octet1_def octet2_def octet3_def
    by (simp_all only: word_of_int_uint)
qed

lemmas sextet_char [simp] = base64_char_facts [OF sextet_bounds(1,2)] base64_char_facts [OF sextet_bounds(3,4)]
  base64_char_facts [OF sextet_bounds(5,6)] base64_char_facts [OF sextet_bounds(7,8)]

text \<open>Letters followed by the padding of the last group.\<close>

fun padding :: "byte list \<Rightarrow> string" where
  "padding [a] = ''==''"
| "padding [a, b] = ''=''"
| "padding (a # b # c # bs) = padding bs"
| "padding [] = []"

lemma btoa_split: "\<exists>s. btoa bs = s @ padding bs \<and> list_all is_base64 s
    \<and> (\<forall>c \<in> set s. c \<noteq> CHR ''='' \<and> \<not> is_skipped c)
    \<and> 4 dvd length s + length (padding bs) \<and> length (padding bs) \<le> 2
    \<and> unbase64 (map base64_val s) = bs \<and> (bs = [] \<or> s \<noteq> [])"
proof (induction bs rule: btoa.induct)
  case 1
  show ?case by simp
next
  case (2 a)
  show ?case by (rule exI [of _ "take 2 (btoa [a])"]) (simp add: numeral_eq_Suc)
next
  case (3 a b)
  show ?case by (rule exI [of _ "take 3 (btoa [a, b])"]) (simp add: numeral_eq_Suc)
next
  case (4 a b c bs)
  then obtain s where s: "btoa bs = s @ padding bs" "list_all is_base64 s"
    "\<forall>c \<in> set s. c \<noteq> CHR ''='' \<and> \<not> is_skipped c"
    "4 dvd length s + length (padding bs)" "length (padding bs) \<le> 2"
    "unbase64 (map base64_val s) = bs"
    by blast
  have "4 dvd Suc (Suc (Suc (Suc (length s + length (padding bs)))))" using s(4) by presburger
  with s show ?case
    by (intro exI [of _ "take 4 (btoa (a # b # c # bs)) @ s"]) (simp add: add.assoc)
qed

lemma padding_cases: "padding bs = [] \<or> padding bs = ''='' \<or> padding bs = ''==''"
  by (induction bs rule: padding.induct) auto

lemma padding_not_skipped: "c \<in> set (padding bs) \<Longrightarrow> \<not> is_skipped c"
  using padding_cases [of bs] by (auto simp: is_skipped_def)

lemma quantum: "4 dvd a + b \<Longrightarrow> b \<le> 2 \<Longrightarrow> a mod 4 \<noteq> (1::nat)"
  by presburger

lemma strip_padding_split:
  assumes "p = [] \<or> p = ''='' \<or> p = ''==''" "4 dvd length s + length p"
    and "\<forall>c \<in> set s. c \<noteq> CHR ''=''" "s \<noteq> []"
  shows "strip_padding (s @ p) = s"
proof -
  obtain s' c where s: "s = s' @ [c]" using assms(4) by (cases s rule: rev_cases) auto
  have c: "c \<noteq> CHR ''=''" using assms(3) s by simp
  show ?thesis
    using assms(1)
  proof (elim disjE)
    assume p: "p = []"
    have "last (drop (length s - 2) s) = c" using s by simp
    with c have "drop (length s - 2) s \<noteq> ''==''" by force
    with p c s assms(2) show ?thesis by (simp add: strip_padding_def mod_eq_0_iff_dvd)
  next
    assume p: "p = ''=''"
    then have "drop (length (s @ p) - 2) (s @ p) = [c, CHR ''='']" using s by simp
    moreover have "butlast (s @ p) = s" using p by (simp add: butlast_append)
    ultimately show ?thesis using p c s assms(2) by (simp add: strip_padding_def mod_eq_0_iff_dvd)
  next
    assume "p = ''==''"
    with assms(2) show ?thesis by (simp add: strip_padding_def mod_eq_0_iff_dvd)
  qed
qed

lemma fromBase64_toBase64: "fromBase64 (toBase64 bs) = Inr bs"
proof -
  obtain s where s: "btoa bs = s @ padding bs" "list_all is_base64 s"
    "\<forall>c \<in> set s. c \<noteq> CHR ''='' \<and> \<not> is_skipped c"
    "4 dvd length s + length (padding bs)" "unbase64 (map base64_val s) = bs" "bs = [] \<or> s \<noteq> []"
    using btoa_split [of bs] by blast
  have "filter (\<lambda>c. \<not> is_skipped c) (s @ padding bs) = s @ padding bs"
    using s(3) padding_not_skipped [of _ bs] by (auto simp: filter_id_conv)
  moreover have "strip_padding (s @ padding bs) = s"
  proof (cases "bs = []")
    case True
    with s show ?thesis by (simp add: strip_padding_def mod_eq_0_iff_dvd)
  next
    case False
    with s padding_cases show ?thesis by (intro strip_padding_split) auto
  qed
  moreover have "length s mod 4 \<noteq> 1"
  proof -
    have "length (padding bs) \<le> 2" using padding_cases [of bs] by auto
    with s(4) show ?thesis by (rule quantum)
  qed
  ultimately show ?thesis
    using s by (simp add: fromBase64_def atob_def toBase64_def Let_def)
qed

end
