(* ===== verification/Capability.thy ===== *)
theory Capability
  imports Base64 Payroll Calendar Reference_Lib
begin

text \<open>
  Model of \<open>lib/domain/capability.ts\<close>: the signed capability of a payment agent, the payment
  intents it submits, and the decision whether an action, an intent or a batch of intents is
  allowed.  A \<open>Date\<close> argument is its \<open>getTime()\<close>.
\<close>

section \<open>Capabilities\<close>

datatype agent_action =
    List_due_obligations | Draft_run | Validate_run | Request_execution | Get_run_status | Get_receipt
  | Create_disclosure

fun agent_action_name :: "agent_action \<Rightarrow> string" where
  "agent_action_name List_due_obligations = ''list_due_obligations''"
| "agent_action_name Draft_run = ''draft_run''"
| "agent_action_name Validate_run = ''validate_run''"
| "agent_action_name Request_execution = ''request_execution''"
| "agent_action_name Get_run_status = ''get_run_status''"
| "agent_action_name Get_receipt = ''get_receipt''"
| "agent_action_name Create_disclosure = ''create_disclosure''"

record capability_limit =
  cl_token :: token
  cl_maxPerPaymentAtomic :: string
  cl_maxPerPeriodAtomic :: string
  cl_spentThisPeriodAtomic :: string
  cl_periodStartsAt :: string
  cl_periodEndsAt :: string
  cl_approvalThresholdAtomic :: string

definition capabilityLimitSchema :: "capability_limit \<Rightarrow> bool" where
  "capabilityLimitSchema l =
     (atomicAmount_ok (cl_maxPerPaymentAtomic l) \<and> atomicAmount_ok (cl_maxPerPeriodAtomic l)
      \<and> atomicAmount_ok (cl_spentThisPeriodAtomic l)
      \<and> datetime_ok (cl_periodStartsAt l) \<and> datetime_ok (cl_periodEndsAt l)
      \<and> atomicAmount_ok (cl_approvalThresholdAtomic l))"

datatype recipient_scope = Any_recipient | Allowlist "string list"

datatype execution_mode = Draft_only | Request_approval | Autonomous_bounded

fun execution_mode_name :: "execution_mode \<Rightarrow> string" where
  "execution_mode_name Draft_only = ''draft_only''"
| "execution_mode_name Request_approval = ''request_approval''"
| "execution_mode_name Autonomous_bounded = ''autonomous_bounded''"

record agent_capability =
  cb_id :: string
  cb_organizationId :: string
  cb_principalId :: string
  cb_allowedActions :: "agent_action list"
  cb_allowedTokens :: "token list"
  cb_recipientScope :: recipient_scope
  cb_purposeCodes :: "string list"
  cb_limits :: "capability_limit list"
  cb_executionMode :: execution_mode
  cb_maxCallCount :: int
  cb_usedCallCount :: int
  cb_validAfter :: string
  cb_expiresAt :: string
  cb_nonce :: string

definition recipientScopeSchema :: "recipient_scope \<Rightarrow> bool" where
  "recipientScopeSchema s =
     (case s of Any_recipient \<Rightarrow> True
      | Allowlist addresses \<Rightarrow> addresses \<noteq> [] \<and> list_all starknet_address_ok addresses)"

definition agentCapabilitySchema :: "agent_capability \<Rightarrow> bool" where
  "agentCapabilitySchema c =
     (length_between 8 128 (cb_id c) \<and> length_between 8 128 (cb_organizationId c)
      \<and> length_between 1 256 (cb_principalId c)
      \<and> cb_allowedActions c \<noteq> [] \<and> cb_allowedTokens c \<noteq> []
      \<and> recipientScopeSchema (cb_recipientScope c)
      \<and> cb_purposeCodes c \<noteq> [] \<and> list_all (length_between 1 80) (cb_purposeCodes c)
      \<and> cb_limits c \<noteq> [] \<and> list_all capabilityLimitSchema (cb_limits c)
      \<and> 1 \<le> cb_maxCallCount c \<and> cb_maxCallCount c \<le> 10000
      \<and> 0 \<le> cb_usedCallCount c \<and> cb_usedCallCount c \<le> 10000
      \<and> datetime_ok (cb_validAfter c) \<and> datetime_ok (cb_expiresAt c)
      \<and> length_between 16 256 (cb_nonce c)
      \<and> distinct (cb_allowedActions c)
      \<and> distinct (cb_allowedTokens c)
      \<and> distinct (map cl_token (cb_limits c))
      \<and> list_all (\<lambda>t. t \<in> cl_token ` set (cb_limits c)) (cb_allowedTokens c)
      \<and> \<not> cb_maxCallCount c < cb_usedCallCount c
      \<and> \<not> (cb_executionMode c = Draft_only \<and> Request_execution \<in> set (cb_allowedActions c))
      \<and> \<not> getTime (cb_expiresAt c) \<le> getTime (cb_validAfter c))"

section \<open>Payment intents\<close>

record payment_intent =
  pi_intentId :: string
  pi_organizationId :: string
  pi_runId :: string
  pi_token :: token
  pi_recipientAddress :: string
  pi_amountAtomic :: string
  pi_purposeCode :: string
  pi_capabilityNonce :: string
  pi_createdAt :: string
  pi_validUntil :: string

text \<open>The field \<open>action\<close> is the literal \<open>request_execution\<close>.\<close>

definition pi_action :: "payment_intent \<Rightarrow> agent_action" where
  "pi_action i = Request_execution"

definition paymentIntentSchema :: "payment_intent \<Rightarrow> bool" where
  "paymentIntentSchema i =
     (length_between 8 128 (pi_intentId i) \<and> length_between 8 128 (pi_organizationId i)
      \<and> length_between 8 128 (pi_runId i)
      \<and> starknet_address_ok (pi_recipientAddress i) \<and> atomicAmount_ok (pi_amountAtomic i)
      \<and> length_between 1 80 (pi_purposeCode i) \<and> length_between 16 256 (pi_capabilityNonce i)
      \<and> datetime_ok (pi_createdAt i) \<and> datetime_ok (pi_validUntil i)
      \<and> (let duration = getTime (pi_validUntil i) - getTime (pi_createdAt i)
         in \<not> (duration \<le> 0 \<or> 5 * 60 * 1000 < duration)))"

definition paymentIntentBatchSchema :: "payment_intent list \<Rightarrow> bool" where
  "paymentIntentBatchSchema is = (1 \<le> length is \<and> length is \<le> 50 \<and> list_all paymentIntentSchema is)"

record execution_request =
  er_runId :: string
  er_intents :: "payment_intent list"

definition agentExecutionRequestSchema :: "execution_request \<Rightarrow> bool" where
  "agentExecutionRequestSchema r =
     (length_between 8 128 (er_runId r) \<and> paymentIntentBatchSchema (er_intents r)
      \<and> (let first = hd (er_intents r) in
         list_all (\<lambda>i. pi_runId i = er_runId r \<and> pi_organizationId i = pi_organizationId first) (er_intents r)))"

section \<open>Signing\<close>

definition limit_json :: "capability_limit \<Rightarrow> json" where
  "limit_json l = JObj
     [(''token'', JStr (token_symbol (cl_token l))),
      (''maxPerPaymentAtomic'', JStr (cl_maxPerPaymentAtomic l)),
      (''maxPerPeriodAtomic'', JStr (cl_maxPerPeriodAtomic l)),
      (''spentThisPeriodAtomic'', JStr (cl_spentThisPeriodAtomic l)),
      (''periodStartsAt'', JStr (cl_periodStartsAt l)),
      (''periodEndsAt'', JStr (cl_periodEndsAt l)),
      (''approvalThresholdAtomic'', JStr (cl_approvalThresholdAtomic l))]"

definition capability_json :: "agent_capability \<Rightarrow> json" where
  "capability_json c = JObj
     [(''capabilityVersion'', JStr ''payo-agent-capability-v1''),
      (''id'', JStr (cb_id c)),
      (''organizationId'', JStr (cb_organizationId c)),
      (''principalId'', JStr (cb_principalId c)),
      (''allowedActions'', JArr (map (JStr \<circ> agent_action_name) (cb_allowedActions c))),
      (''allowedTokens'', JArr (map (JStr \<circ> token_symbol) (cb_allowedTokens c))),
      (''recipientScope'', (case cb_recipientScope c of
         Any_recipient \<Rightarrow> JObj [(''mode'', JStr ''any'')]
       | Allowlist addresses \<Rightarrow> JObj [(''mode'', JStr ''allowlist''), (''addresses'', JArr (map JStr addresses))])),
      (''purposeCodes'', JArr (map JStr (cb_purposeCodes c))),
      (''limits'', JArr (map limit_json (cb_limits c))),
      (''executionMode'', JStr (execution_mode_name (cb_executionMode c))),
      (''maxCallCount'', JNum (cb_maxCallCount c)),
      (''usedCallCount'', JNum (cb_usedCallCount c)),
      (''validAfter'', JStr (cb_validAfter c)),
      (''expiresAt'', JStr (cb_expiresAt c)),
      (''nonce'', JStr (cb_nonce c))]"

definition capabilityPayload :: "agent_capability \<Rightarrow> byte list result" where
  "capabilityPayload capability =
     rbind (zod ''agentCapabilitySchema'' agentCapabilitySchema capability) (\<lambda>c.
     Inr (utf8 (stableJson (capability_json c))))"

definition hashCapability :: "lib \<Rightarrow> agent_capability \<Rightarrow> string result" where
  "hashCapability L capability = rbind (capabilityPayload capability) (\<lambda>payload. Inr (toHex L (sha256 L payload)))"

record signed_capability =
  sc_capability :: agent_capability
  sc_issuerPublicKey :: string
  sc_signature :: string

definition signedCapabilitySchema :: "signed_capability \<Rightarrow> bool" where
  "signedCapabilitySchema s =
     (agentCapabilitySchema (sc_capability s) \<and> 1 \<le> length (sc_issuerPublicKey s) \<and> 1 \<le> length (sc_signature s))"

definition signCapability :: "lib \<Rightarrow> agent_capability \<Rightarrow> byte list \<Rightarrow> signed_capability result" where
  "signCapability L capability issuerSecretKey =
     rbind (zod ''agentCapabilitySchema'' agentCapabilitySchema capability) (\<lambda>parsed.
     rbind (ed25519_getPublicKey L issuerSecretKey) (\<lambda>publicKey.
     rbind (capabilityPayload parsed) (\<lambda>payload.
     rbind (ed25519_sign L payload issuerSecretKey) (\<lambda>signature.
     Inr \<lparr>sc_capability = parsed, sc_issuerPublicKey = toBase64 publicKey, sc_signature = toBase64 signature\<rparr>))))"

definition verifySignedCapability :: "lib \<Rightarrow> signed_capability \<Rightarrow> signed_capability result" where
  "verifySignedCapability L value =
     rbind (zod ''signedCapabilitySchema'' signedCapabilitySchema value) (\<lambda>signed.
     rbind (fromBase64 (sc_issuerPublicKey signed)) (\<lambda>publicKey.
     rbind (fromBase64 (sc_signature signed)) (\<lambda>signature.
     rbind (capabilityPayload (sc_capability signed)) (\<lambda>payload.
     if length publicKey \<noteq> 32 \<or> length signature \<noteq> 64 \<or> \<not> ed25519_verify L signature payload publicKey
     then Inl (Thrown ''Capability signature is invalid.'')
     else Inr signed))))"

section \<open>Decisions\<close>

datatype reason =
    ALLOWED | APPROVAL_REQUIRED | NOT_YET_VALID | EXPIRED | INTENT_NOT_YET_VALID | INTENT_EXPIRED
  | CALL_LIMIT_EXCEEDED | ACTION_DENIED | TOKEN_DENIED | RECIPIENT_DENIED | PURPOSE_DENIED
  | PAYMENT_LIMIT_EXCEEDED | PERIOD_LIMIT_EXCEEDED | PERIOD_INACTIVE | CAPABILITY_MISMATCH

record decision =
  allowed :: bool
  requiresApproval :: bool
  reasonCode :: reason
  capabilityHash :: string

definition deny :: "lib \<Rightarrow> agent_capability \<Rightarrow> reason \<Rightarrow> decision result" where
  "deny L capability code =
     rbind (hashCapability L capability) (\<lambda>h.
     Inr \<lparr>allowed = False, requiresApproval = False, reasonCode = code, capabilityHash = h\<rparr>)"

definition authorizeAgentAction :: "lib \<Rightarrow> agent_capability \<Rightarrow> agent_action \<Rightarrow> int \<Rightarrow> decision result" where
  "authorizeAgentAction L capabilityInput action now =
     rbind (zod ''agentCapabilitySchema'' agentCapabilitySchema capabilityInput) (\<lambda>capability.
     if now < getTime (cb_validAfter capability) then deny L capability NOT_YET_VALID
     else if getTime (cb_expiresAt capability) \<le> now then deny L capability EXPIRED
     else if action \<notin> set (cb_allowedActions capability) then deny L capability ACTION_DENIED
     else rbind (hashCapability L capability) (\<lambda>h.
       Inr \<lparr>allowed = True, requiresApproval = False, reasonCode = ALLOWED, capabilityHash = h\<rparr>))"

definition recipient_allowed :: "recipient_scope \<Rightarrow> string \<Rightarrow> bool" where
  "recipient_allowed scope recipient =
     (case scope of Any_recipient \<Rightarrow> True
      | Allowlist addresses \<Rightarrow> list_ex (\<lambda>a. toLowerCase a = toLowerCase recipient) addresses)"

definition authorizePaymentIntent :: "lib \<Rightarrow> agent_capability \<Rightarrow> payment_intent \<Rightarrow> int \<Rightarrow> decision result" where
  "authorizePaymentIntent L capabilityInput intentInput now =
     rbind (zod ''agentCapabilitySchema'' agentCapabilitySchema capabilityInput) (\<lambda>capability.
     rbind (zod ''paymentIntentSchema'' paymentIntentSchema intentInput) (\<lambda>intent.
     if pi_organizationId intent \<noteq> cb_organizationId capability \<or> pi_capabilityNonce intent \<noteq> cb_nonce capability
     then deny L capability CAPABILITY_MISMATCH
     else if now < getTime (cb_validAfter capability) then deny L capability NOT_YET_VALID
     else if getTime (cb_expiresAt capability) \<le> now then deny L capability EXPIRED
     else if now + 30000 < getTime (pi_createdAt intent) then deny L capability INTENT_NOT_YET_VALID
     else if getTime (pi_validUntil intent) \<le> now then deny L capability INTENT_EXPIRED
     else if cb_maxCallCount capability \<le> cb_usedCallCount capability then deny L capability CALL_LIMIT_EXCEEDED
     else if pi_action intent \<notin> set (cb_allowedActions capability) then deny L capability ACTION_DENIED
     else if pi_token intent \<notin> set (cb_allowedTokens capability) then deny L capability TOKEN_DENIED
     else if \<not> recipient_allowed (cb_recipientScope capability) (pi_recipientAddress intent)
     then deny L capability RECIPIENT_DENIED
     else if pi_purposeCode intent \<notin> set (cb_purposeCodes capability) then deny L capability PURPOSE_DENIED
     else case find (\<lambda>entry. cl_token entry = pi_token intent) (cb_limits capability) of
       None \<Rightarrow> deny L capability TOKEN_DENIED
     | Some limit \<Rightarrow>
         if now < getTime (cl_periodStartsAt limit) \<or> getTime (cl_periodEndsAt limit) \<le> now
         then deny L capability PERIOD_INACTIVE
         else let amount = bigint (pi_amountAtomic intent) in
           if bigint (cl_maxPerPaymentAtomic limit) < amount then deny L capability PAYMENT_LIMIT_EXCEEDED
           else if bigint (cl_maxPerPeriodAtomic limit) < bigint (cl_spentThisPeriodAtomic limit) + amount
           then deny L capability PERIOD_LIMIT_EXCEEDED
           else let approval = cb_executionMode capability \<noteq> Autonomous_bounded
                               \<or> bigint (cl_approvalThresholdAtomic limit) \<le> amount
             in rbind (hashCapability L capability) (\<lambda>h.
                Inr \<lparr>allowed = True, requiresApproval = approval,
                     reasonCode = (if approval then APPROVAL_REQUIRED else ALLOWED), capabilityHash = h\<rparr>)))"

text \<open>The loop of \<open>authorizePaymentBatch\<close>: the capability as used up so far, the ids seen, the decisions.\<close>

definition spend_limit :: "payment_intent \<Rightarrow> capability_limit \<Rightarrow> capability_limit" where
  "spend_limit intent limit =
     (if cl_token limit = pi_token intent
      then limit\<lparr>cl_spentThisPeriodAtomic :=
        toString (bigint (cl_spentThisPeriodAtomic limit) + bigint (pi_amountAtomic intent))\<rparr>
      else limit)"

definition spend :: "payment_intent \<Rightarrow> agent_capability \<Rightarrow> agent_capability" where
  "spend intent capability =
     capability\<lparr>cb_usedCallCount := cb_usedCallCount capability + 1,
       cb_limits := map (spend_limit intent) (cb_limits capability)\<rparr>"

record batch_loop =
  workingCapability :: agent_capability
  intentIds :: "string set"
  batch_decisions :: "decision list"

definition batch_step :: "lib \<Rightarrow> int \<Rightarrow> batch_loop \<Rightarrow> payment_intent \<Rightarrow> batch_loop result" where
  "batch_step L now s intent =
     (if pi_intentId intent \<in> intentIds s
      then rbind (deny L (workingCapability s) CAPABILITY_MISMATCH) (\<lambda>d.
        Inr (s\<lparr>batch_decisions := batch_decisions s @ [d]\<rparr>))
      else rbind (authorizePaymentIntent L (workingCapability s) intent now) (\<lambda>d.
        Inr \<lparr>workingCapability = (if allowed d then spend intent (workingCapability s) else workingCapability s),
             intentIds = insert (pi_intentId intent) (intentIds s),
             batch_decisions = batch_decisions s @ [d]\<rparr>))"

record batch_decision =
  decisions :: "decision list"
  batch_allowed :: bool
  batch_requiresApproval :: bool

definition authorizePaymentBatch ::
    "lib \<Rightarrow> agent_capability \<Rightarrow> payment_intent list \<Rightarrow> int \<Rightarrow> batch_decision result" where
  "authorizePaymentBatch L capabilityInput intentInputs now =
     rbind (zod ''agentCapabilitySchema'' agentCapabilitySchema capabilityInput) (\<lambda>capability.
     rbind (zod ''paymentIntentBatchSchema'' paymentIntentBatchSchema intentInputs) (\<lambda>intents.
     rbind (rfold (batch_step L now) \<lparr>workingCapability = capability, intentIds = {}, batch_decisions = []\<rparr> intents) (\<lambda>s.
     Inr \<lparr>decisions = batch_decisions s,
          batch_allowed = list_all allowed (batch_decisions s),
          batch_requiresApproval = list_ex requiresApproval (batch_decisions s)\<rparr>)))"

section \<open>What a decision grants\<close>

text \<open>
  The terms of a capability that do not depend on what was spent, and the two bounds that do.
\<close>

definition within_terms :: "agent_capability \<Rightarrow> payment_intent \<Rightarrow> int \<Rightarrow> bool" where
  "within_terms c i now =
     (pi_organizationId i = cb_organizationId c \<and> pi_capabilityNonce i = cb_nonce c
      \<and> getTime (cb_validAfter c) \<le> now \<and> now < getTime (cb_expiresAt c)
      \<and> getTime (pi_createdAt i) \<le> now + 30000 \<and> now < getTime (pi_validUntil i)
      \<and> Request_execution \<in> set (cb_allowedActions c) \<and> pi_token i \<in> set (cb_allowedTokens c)
      \<and> recipient_allowed (cb_recipientScope c) (pi_recipientAddress i)
      \<and> pi_purposeCode i \<in> set (cb_purposeCodes c)
      \<and> (\<exists>l \<in> set (cb_limits c). cl_token l = pi_token i
           \<and> getTime (cl_periodStartsAt l) \<le> now \<and> now < getTime (cl_periodEndsAt l)
           \<and> bigint (pi_amountAtomic i) \<le> bigint (cl_maxPerPaymentAtomic l)))"

definition within_budget :: "agent_capability \<Rightarrow> payment_intent \<Rightarrow> bool" where
  "within_budget c i =
     (cb_usedCallCount c < cb_maxCallCount c
      \<and> (\<forall>l \<in> set (cb_limits c). cl_token l = pi_token i
           \<longrightarrow> bigint (cl_spentThisPeriodAtomic l) + bigint (pi_amountAtomic i) \<le> bigint (cl_maxPerPeriodAtomic l)))"

definition needs_approval :: "agent_capability \<Rightarrow> payment_intent \<Rightarrow> bool" where
  "needs_approval c i =
     (cb_executionMode c \<noteq> Autonomous_bounded
      \<or> (\<exists>l \<in> set (cb_limits c). cl_token l = pi_token i
           \<and> bigint (cl_approvalThresholdAtomic l) \<le> bigint (pi_amountAtomic i)))"

lemma limit_unique:
  assumes "agentCapabilitySchema c" "l \<in> set (cb_limits c)" "m \<in> set (cb_limits c)" "cl_token l = cl_token m"
  shows "l = m"
  using assms by (auto simp: agentCapabilitySchema_def distinct_map inj_on_def)

lemma find_limit:
  assumes "agentCapabilitySchema c"
  shows "find (\<lambda>entry. cl_token entry = t) (cb_limits c) = Some l \<longleftrightarrow> l \<in> set (cb_limits c) \<and> cl_token l = t"
proof
  assume "find (\<lambda>entry. cl_token entry = t) (cb_limits c) = Some l"
  then show "l \<in> set (cb_limits c) \<and> cl_token l = t" by (auto simp: find_Some_iff in_set_conv_nth)
next
  assume l: "l \<in> set (cb_limits c) \<and> cl_token l = t"
  then obtain m where m: "find (\<lambda>entry. cl_token entry = t) (cb_limits c) = Some m"
    by (cases "find (\<lambda>entry. cl_token entry = t) (cb_limits c)") (auto simp: find_None_iff)
  then have "m \<in> set (cb_limits c)" "cl_token m = t" by (auto simp: find_Some_iff in_set_conv_nth)
  with m l limit_unique [OF assms, of l m] show "find (\<lambda>entry. cl_token entry = t) (cb_limits c) = Some l" by simp
qed

lemma hashCapability_ok:
  "agentCapabilitySchema c \<Longrightarrow> hashCapability L c = Inr (toHex L (sha256 L (utf8 (stableJson (capability_json c)))))"
  by (simp add: hashCapability_def capabilityPayload_def)

lemma deny_ok: "agentCapabilitySchema c \<Longrightarrow> \<exists>h. deny L c r
    = Inr \<lparr>allowed = False, requiresApproval = False, reasonCode = r, capabilityHash = h\<rparr>"
  by (simp add: deny_def hashCapability_ok)

text \<open>An intent is allowed exactly when the terms and the budget cover it.\<close>

lemma token_has_limit:
  assumes "agentCapabilitySchema c" "t \<in> set (cb_allowedTokens c)"
  obtains l where "l \<in> set (cb_limits c)" "cl_token l = t"
  using assms by (auto simp: agentCapabilitySchema_def list_all_iff)

lemma intent_denied:
  assumes "agentCapabilitySchema c" "paymentIntentSchema i" "\<not> (within_terms c i now \<and> within_budget c i)"
  shows "\<exists>r. authorizePaymentIntent L c i now = deny L c r \<and> r \<noteq> ALLOWED \<and> r \<noteq> APPROVAL_REQUIRED"
proof -
  define denied where "denied x \<longleftrightarrow> (\<exists>r. x = deny L c r \<and> r \<noteq> ALLOWED \<and> r \<noteq> APPROVAL_REQUIRED)" for x
  have [simp]: "denied (deny L c r)" if "r \<noteq> ALLOWED" "r \<noteq> APPROVAL_REQUIRED" for r
    using that by (auto simp: denied_def)
  have "denied (authorizePaymentIntent L c i now)"
  proof (cases "find (\<lambda>entry. cl_token entry = pi_token i) (cb_limits c)")
    case None
    then show ?thesis using assms(1,2) by (simp add: authorizePaymentIntent_def split: if_split)
  next
    case (Some l)
    then have l: "l \<in> set (cb_limits c)" "cl_token l = pi_token i" using find_limit [OF assms(1)] by auto
    have "m = l" if "m \<in> set (cb_limits c)" "cl_token m = pi_token i" for m
      using limit_unique [OF assms(1) that(1) l(1)] that l by simp
    then have "within_budget c i" if "cb_usedCallCount c < cb_maxCallCount c"
      "bigint (cl_spentThisPeriodAtomic l) + bigint (pi_amountAtomic i) \<le> bigint (cl_maxPerPeriodAtomic l)"
      using that by (auto simp: within_budget_def)
    moreover have "within_terms c i now" if "pi_organizationId i = cb_organizationId c"
      "pi_capabilityNonce i = cb_nonce c" "getTime (cb_validAfter c) \<le> now" "now < getTime (cb_expiresAt c)"
      "getTime (pi_createdAt i) \<le> now + 30000" "now < getTime (pi_validUntil i)"
      "Request_execution \<in> set (cb_allowedActions c)" "pi_token i \<in> set (cb_allowedTokens c)"
      "recipient_allowed (cb_recipientScope c) (pi_recipientAddress i)" "pi_purposeCode i \<in> set (cb_purposeCodes c)"
      "getTime (cl_periodStartsAt l) \<le> now" "now < getTime (cl_periodEndsAt l)"
      "bigint (pi_amountAtomic i) \<le> bigint (cl_maxPerPaymentAtomic l)"
      using that l by (auto simp: within_terms_def)
    ultimately show ?thesis
      using assms Some by (simp add: authorizePaymentIntent_def pi_action_def Let_def split: if_split) linarith
  qed
  then show ?thesis by (simp add: denied_def)
qed

lemma intent_decision:
  assumes "agentCapabilitySchema c" "paymentIntentSchema i"
  shows "\<exists>d. authorizePaymentIntent L c i now = Inr d
    \<and> (allowed d \<longleftrightarrow> within_terms c i now \<and> within_budget c i)
    \<and> (requiresApproval d \<longleftrightarrow> allowed d \<and> needs_approval c i)
    \<and> (reasonCode d = ALLOWED \<longleftrightarrow> allowed d \<and> \<not> requiresApproval d)
    \<and> (reasonCode d = APPROVAL_REQUIRED \<longleftrightarrow> requiresApproval d)"
proof (cases "within_terms c i now \<and> within_budget c i")
  case False
  with intent_denied [OF assms] obtain r where
    "authorizePaymentIntent L c i now = deny L c r" "r \<noteq> ALLOWED" "r \<noteq> APPROVAL_REQUIRED" by blast
  with False assms(1) show ?thesis by (auto simp: deny_def hashCapability_ok)
next
  case True
  then obtain l where l: "l \<in> set (cb_limits c)" "cl_token l = pi_token i"
    and terms: "getTime (cl_periodStartsAt l) \<le> now" "now < getTime (cl_periodEndsAt l)"
      "bigint (pi_amountAtomic i) \<le> bigint (cl_maxPerPaymentAtomic l)"
    by (auto simp: within_terms_def)
  have budget: "bigint (cl_spentThisPeriodAtomic l) + bigint (pi_amountAtomic i) \<le> bigint (cl_maxPerPeriodAtomic l)"
    using True l by (simp add: within_budget_def)
  have approval: "needs_approval c i \<longleftrightarrow> cb_executionMode c \<noteq> Autonomous_bounded
      \<or> bigint (cl_approvalThresholdAtomic l) \<le> bigint (pi_amountAtomic i)"
    unfolding needs_approval_def using l limit_unique [OF assms(1) _ l(1)] by metis
  have found: "find (\<lambda>entry. cl_token entry = pi_token i) (cb_limits c) = Some l"
    using find_limit [OF assms(1)] l by blast
  have fixed: "pi_organizationId i = cb_organizationId c" "pi_capabilityNonce i = cb_nonce c"
    "\<not> now < getTime (cb_validAfter c)" "\<not> getTime (cb_expiresAt c) \<le> now"
    "\<not> now + 30000 < getTime (pi_createdAt i)" "\<not> getTime (pi_validUntil i) \<le> now"
    "\<not> cb_maxCallCount c \<le> cb_usedCallCount c"
    "Request_execution \<in> set (cb_allowedActions c)" "pi_token i \<in> set (cb_allowedTokens c)"
    "recipient_allowed (cb_recipientScope c) (pi_recipientAddress i)" "pi_purposeCode i \<in> set (cb_purposeCodes c)"
    using True by (simp_all add: within_terms_def within_budget_def)
  have "authorizePaymentIntent L c i now = rbind (hashCapability L c) (\<lambda>h.
      Inr \<lparr>allowed = True, requiresApproval = needs_approval c i,
           reasonCode = (if needs_approval c i then APPROVAL_REQUIRED else ALLOWED), capabilityHash = h\<rparr>)"
    unfolding authorizePaymentIntent_def approval pi_action_def
    using assms terms budget fixed by (simp add: found Let_def)
  then show ?thesis using True by (simp add: hashCapability_ok [OF assms(1)])
qed

section \<open>What a batch can spend\<close>

definition granted :: "payment_intent list \<Rightarrow> decision list \<Rightarrow> payment_intent list" where
  "granted is ds = map fst (filter (\<lambda>(i, d). allowed d) (zip is ds))"

definition token_sum :: "token \<Rightarrow> payment_intent list \<Rightarrow> int" where
  "token_sum t is = sum_list (map (\<lambda>i. bigint (pi_amountAtomic i)) (filter (\<lambda>i. pi_token i = t) is))"

lemma granted_Cons [simp]: "granted (i # is) (d # ds) = (if allowed d then i # granted is ds else granted is ds)"
  and granted_Nil [simp]: "granted [] ds = []"
  by (simp_all add: granted_def)

lemma token_sum_Cons [simp]:
    "token_sum t (i # is) = (if pi_token i = t then bigint (pi_amountAtomic i) else 0) + token_sum t is"
  and token_sum_Nil [simp]: "token_sum t [] = 0"
  by (simp_all add: token_sum_def)

lemma spend_limit_fields [simp]:
  "cl_token (spend_limit i l) = cl_token l" "cl_periodStartsAt (spend_limit i l) = cl_periodStartsAt l"
  "cl_periodEndsAt (spend_limit i l) = cl_periodEndsAt l"
  "cl_maxPerPaymentAtomic (spend_limit i l) = cl_maxPerPaymentAtomic l"
  "cl_maxPerPeriodAtomic (spend_limit i l) = cl_maxPerPeriodAtomic l"
  by (simp_all add: spend_limit_def)

lemma spend_limit_token [simp]: "cl_token \<circ> spend_limit i = cl_token"
  by (simp add: fun_eq_iff)

lemma spend_fields [simp]:
  "cb_usedCallCount (spend i c) = cb_usedCallCount c + 1" "cb_maxCallCount (spend i c) = cb_maxCallCount c"
  "cb_limits (spend i c) = map (spend_limit i) (cb_limits c)"
  by (simp_all add: spend_def)

lemma spend_terms [simp]: "within_terms (spend i c) j now = within_terms c j now"
  by (simp add: within_terms_def spend_def)

lemma spend_schema:
  assumes "agentCapabilitySchema c" "paymentIntentSchema i" "within_budget c i"
  shows "agentCapabilitySchema (spend i c)"
proof -
  have "capabilityLimitSchema (spend_limit i l)" if "l \<in> set (cb_limits c)" for l
  proof (cases "cl_token l = pi_token i")
    case True
    from that assms have "capabilityLimitSchema l" "atomicAmount_ok (pi_amountAtomic i)"
      by (auto simp: agentCapabilitySchema_def paymentIntentSchema_def list_all_iff)
    moreover from that True assms(3)
    have "bigint (cl_spentThisPeriodAtomic l) + bigint (pi_amountAtomic i) \<le> bigint (cl_maxPerPeriodAtomic l)"
      by (auto simp: within_budget_def)
    moreover from calculation have "0 \<le> bigint (cl_spentThisPeriodAtomic l)" "0 \<le> bigint (pi_amountAtomic i)"
      by (auto simp: capabilityLimitSchema_def atomicAmount_ok_iff bigint_nonneg)
    ultimately show ?thesis using True
      by (simp add: spend_limit_def capabilityLimitSchema_def atomicAmount_ok_iff canonical_dec_toString)
  next
    case False
    with that assms(1) show ?thesis by (auto simp: spend_limit_def agentCapabilitySchema_def list_all_iff)
  qed
  then have "list_all capabilityLimitSchema (map (spend_limit i) (cb_limits c))"
    by (simp add: list_all_iff)
  moreover have "cl_token ` spend_limit i ` set (cb_limits c) = cl_token ` set (cb_limits c)"
    by (simp add: image_image)
  ultimately show ?thesis
    using assms(1,3) by (simp add: agentCapabilitySchema_def within_budget_def spend_def)
qed

lemma batch_run:
  assumes "agentCapabilitySchema (workingCapability s)" "list_all paymentIntentSchema is"
  shows "\<exists>s' ds. rfold (batch_step L now) s is = Inr s'
    \<and> batch_decisions s' = batch_decisions s @ ds \<and> length ds = length is
    \<and> (\<forall>i \<in> set (granted is ds). within_terms (workingCapability s) i now)
    \<and> distinct (map pi_intentId (granted is ds))
    \<and> pi_intentId ` set (granted is ds) \<inter> intentIds s = {}
    \<and> cb_usedCallCount (workingCapability s) + int (length (granted is ds)) \<le> cb_maxCallCount (workingCapability s)
    \<and> (\<forall>l \<in> set (cb_limits (workingCapability s)). bigint (cl_spentThisPeriodAtomic l) + token_sum (cl_token l) (granted is ds)
         \<le> max (bigint (cl_spentThisPeriodAtomic l)) (bigint (cl_maxPerPeriodAtomic l)))"
  using assms
proof (induction "is" arbitrary: s)
  case Nil
  then show ?case by (auto simp: agentCapabilitySchema_def)
next
  case (Cons i "is")
  let ?c = "workingCapability s"
  from Cons.prems have i: "paymentIntentSchema i" and rest: "list_all paymentIntentSchema is" by auto
  show ?case
  proof (cases "pi_intentId i \<in> intentIds s")
    case True
    from deny_ok [OF Cons.prems(1), of L CAPABILITY_MISMATCH] obtain d where
      d: "deny L ?c CAPABILITY_MISMATCH = Inr d" "\<not> allowed d" by auto
    from Cons.IH [of "s\<lparr>batch_decisions := batch_decisions s @ [d]\<rparr>"] Cons.prems(1) rest obtain s' ds where
      IH: "rfold (batch_step L now) (s\<lparr>batch_decisions := batch_decisions s @ [d]\<rparr>) is = Inr s'"
        "batch_decisions s' = batch_decisions s @ d # ds" "length ds = length is"
        "\<forall>i \<in> set (granted is ds). within_terms ?c i now" "distinct (map pi_intentId (granted is ds))"
        "pi_intentId ` set (granted is ds) \<inter> intentIds s = {}"
        "cb_usedCallCount ?c + int (length (granted is ds)) \<le> cb_maxCallCount ?c"
        "\<forall>l \<in> set (cb_limits ?c). bigint (cl_spentThisPeriodAtomic l) + token_sum (cl_token l) (granted is ds)
         \<le> max (bigint (cl_spentThisPeriodAtomic l)) (bigint (cl_maxPerPeriodAtomic l))"
      by auto
    have "batch_step L now s i = Inr (s\<lparr>batch_decisions := batch_decisions s @ [d]\<rparr>)"
      using True d by (simp add: batch_step_def)
    then have "rfold (batch_step L now) s (i # is) = Inr s'" using IH(1) by simp
    with d IH show ?thesis by (intro exI [of _ s'] exI [of _ "d # ds"]) simp
  next
    case False
    from intent_decision [OF Cons.prems(1) i, of L now] obtain d where
      d: "authorizePaymentIntent L ?c i now = Inr d" "allowed d \<longleftrightarrow> within_terms ?c i now \<and> within_budget ?c i"
      by blast
    define c' where "c' = (if allowed d then spend i ?c else ?c)"
    have ok: "agentCapabilitySchema c'"
      using Cons.prems(1) d(2) spend_schema [OF Cons.prems(1) i] by (simp add: c'_def)
    have terms: "within_terms c' j now = within_terms ?c j now" for j by (simp add: c'_def)
    let ?s = "\<lparr>workingCapability = c', intentIds = insert (pi_intentId i) (intentIds s),
      batch_decisions = batch_decisions s @ [d]\<rparr>"
    from Cons.IH [of ?s] ok rest obtain s' ds where
      IH: "rfold (batch_step L now) ?s is = Inr s'"
        "batch_decisions s' = batch_decisions s @ d # ds" "length ds = length is"
        "\<forall>i \<in> set (granted is ds). within_terms ?c i now" "distinct (map pi_intentId (granted is ds))"
        "pi_intentId ` set (granted is ds) \<inter> insert (pi_intentId i) (intentIds s) = {}"
        "cb_usedCallCount c' + int (length (granted is ds)) \<le> cb_maxCallCount c'"
        "\<forall>l \<in> set (cb_limits c'). bigint (cl_spentThisPeriodAtomic l) + token_sum (cl_token l) (granted is ds)
         \<le> max (bigint (cl_spentThisPeriodAtomic l)) (bigint (cl_maxPerPeriodAtomic l))"
      by (auto simp: terms)
    have "batch_step L now s i = Inr ?s"
      using False d(1) by (simp add: batch_step_def c'_def)
    then have step: "rfold (batch_step L now) s (i # is) = Inr s'" using IH(1) by simp
    have calls: "cb_usedCallCount ?c + int (length (granted (i # is) (d # ds))) \<le> cb_maxCallCount ?c"
      using IH(7) by (simp add: c'_def split: if_splits)
    have sums: "bigint (cl_spentThisPeriodAtomic l) + token_sum (cl_token l) (granted (i # is) (d # ds))
         \<le> max (bigint (cl_spentThisPeriodAtomic l)) (bigint (cl_maxPerPeriodAtomic l))"
      if l: "l \<in> set (cb_limits ?c)" for l
    proof (cases "allowed d \<and> cl_token l = pi_token i")
      case True
      define n where "n = bigint (cl_spentThisPeriodAtomic l) + bigint (pi_amountAtomic i)"
      let ?l = "l\<lparr>cl_spentThisPeriodAtomic := toString n\<rparr>"
      have "0 \<le> n" using l Cons.prems(1) i
        by (auto simp: n_def agentCapabilitySchema_def list_all_iff capabilityLimitSchema_def paymentIntentSchema_def
            atomicAmount_ok_iff bigint_nonneg)
      moreover have "?l \<in> set (cb_limits c')" using l True by (force simp: c'_def spend_limit_def n_def)
      ultimately have "n + token_sum (cl_token l) (granted is ds) \<le> max n (bigint (cl_maxPerPeriodAtomic l))"
        using IH(8) by fastforce
      moreover have "n \<le> bigint (cl_maxPerPeriodAtomic l)"
        using True d(2) l by (auto simp: within_budget_def n_def)
      ultimately show ?thesis using True by (simp add: n_def)
    next
      case other: False
      then have "l \<in> set (cb_limits c')" using l by (force simp: c'_def spend_limit_def)
      with IH(8) other show ?thesis by auto
    qed
    show ?thesis
      by (rule exI [of _ s'], rule exI [of _ "d # ds"]) (use IH step calls sums d(2) False in auto)
  qed
qed

section \<open>Properties\<close>

text \<open>A run with no allowed intent left out is the run itself.\<close>

lemma granted_all: "length ds = length is \<Longrightarrow> list_all allowed ds \<longleftrightarrow> granted is ds = is"
proof (induction ds "is" rule: list_induct2)
  case Nil
  show ?case by simp
next
  case (Cons d ds i "is")
  have "length (granted is ds) \<le> length is"
    using Cons.hyps by (simp add: granted_def) (metis length_filter_le length_zip min.idem)
  then have "granted is ds \<noteq> i # is" by auto
  with Cons show ?case by simp
qed

lemma batch_outcome:
  assumes "agentCapabilitySchema c" "paymentIntentBatchSchema is"
  shows "\<exists>b. authorizePaymentBatch L c is now = Inr b \<and> length (decisions b) = length is
    \<and> (batch_allowed b \<longleftrightarrow> granted is (decisions b) = is)
    \<and> (\<forall>i \<in> set (granted is (decisions b)). within_terms c i now)
    \<and> distinct (map pi_intentId (granted is (decisions b)))
    \<and> cb_usedCallCount c + int (length (granted is (decisions b))) \<le> cb_maxCallCount c
    \<and> (\<forall>l \<in> set (cb_limits c). bigint (cl_spentThisPeriodAtomic l) + token_sum (cl_token l) (granted is (decisions b))
         \<le> max (bigint (cl_spentThisPeriodAtomic l)) (bigint (cl_maxPerPeriodAtomic l)))"
  using batch_run [of "\<lparr>workingCapability = c, intentIds = {}, batch_decisions = []\<rparr>" "is" L now] assms
  by (auto simp: authorizePaymentBatch_def paymentIntentBatchSchema_def granted_all)

definition example_limit :: capability_limit where
  "example_limit = \<lparr>cl_token = USDC, cl_maxPerPaymentAtomic = ''500'', cl_maxPerPeriodAtomic = ''800'',
     cl_spentThisPeriodAtomic = ''100'', cl_periodStartsAt = ''2026-01-01T00:00:00Z'',
     cl_periodEndsAt = ''2026-02-01T00:00:00Z'', cl_approvalThresholdAtomic = ''400''\<rparr>"

definition example_capability :: agent_capability where
  "example_capability = \<lparr>cb_id = ''capability-1'', cb_organizationId = ''organization-1'', cb_principalId = ''agent'',
     cb_allowedActions = [Request_execution], cb_allowedTokens = [USDC],
     cb_recipientScope = Allowlist [''0xAb''], cb_purposeCodes = [''salary''], cb_limits = [example_limit],
     cb_executionMode = Autonomous_bounded, cb_maxCallCount = 10, cb_usedCallCount = 3,
     cb_validAfter = ''2026-01-01T00:00:00Z'', cb_expiresAt = ''2026-03-01T00:00:00Z'', cb_nonce = ''nonce-0123456789''\<rparr>"

definition example_intent :: "string \<Rightarrow> payment_intent" where
  "example_intent i = \<lparr>pi_intentId = i, pi_organizationId = ''organization-1'', pi_runId = ''run-0001'',
     pi_token = USDC, pi_recipientAddress = ''0xaB'', pi_amountAtomic = ''400'', pi_purposeCode = ''salary'',
     pi_capabilityNonce = ''nonce-0123456789'', pi_createdAt = ''2026-01-10T09:00:00Z'',
     pi_validUntil = ''2026-01-10T09:05:00Z''\<rparr>"

lemma example_times:
  "parse_datetime ''2026-01-01T00:00:00Z'' = Some 1767225600000"
  "parse_datetime ''2026-02-01T00:00:00Z'' = Some 1769904000000"
  "parse_datetime ''2026-03-01T00:00:00Z'' = Some 1772323200000"
  "parse_datetime ''2026-01-10T09:00:00Z'' = Some 1768035600000"
  "parse_datetime ''2026-01-10T09:05:00Z'' = Some 1768035900000"
  by code_simp+

lemma example_amounts: "list_all atomicAmount_ok [''100'', ''400'', ''500'', ''800'']"
  "bigint ''100'' = 100" "bigint ''400'' = 400" "bigint ''500'' = 500" "bigint ''800'' = 800"
  by code_simp+

lemma example_addresses: "starknet_address_ok ''0xAb''" "starknet_address_ok ''0xaB''" "toLowerCase ''0xAb'' = toLowerCase ''0xaB''"
  by code_simp+

lemmas example_facts = example_times example_amounts example_addresses datetime_ok_def getTime_def length_between_def

lemma example_capability_ok: "agentCapabilitySchema example_capability"
  using example_amounts
  by (simp add: agentCapabilitySchema_def example_capability_def example_limit_def capabilityLimitSchema_def
      recipientScopeSchema_def example_facts)

lemma example_intent_ok: "paymentIntentSchema (example_intent ''intent-1'')" "paymentIntentSchema (example_intent ''intent-2'')"
  using example_amounts by (simp_all add: paymentIntentSchema_def example_intent_def example_facts)

text \<open>C6: An agent never exceeds its capability, however it groups its payments.  Authorising a
  well-formed batch always returns a decision for every intent; every granted intent lies within
  the capability's terms (organization, nonce, validity, action, token, recipient, purpose, spending
  period, amount per payment) and has an id of its own; the granted intents together stay within the call limit;
  and per token they add to what was already spent without passing the limit of the period.  The
  batch is allowed exactly when nothing was denied.\<close>

theorem agent_batch_bounded:
  assumes "agentCapabilitySchema c" "paymentIntentBatchSchema is"
  shows "\<exists>b. authorizePaymentBatch L c is now = Inr b \<and> length (decisions b) = length is
    \<and> (batch_allowed b \<longleftrightarrow> granted is (decisions b) = is)
    \<and> (\<forall>i \<in> set (granted is (decisions b)). within_terms c i now)
    \<and> distinct (map pi_intentId (granted is (decisions b)))
    \<and> cb_usedCallCount c + int (length (granted is (decisions b))) \<le> cb_maxCallCount c
    \<and> (\<forall>l \<in> set (cb_limits c). bigint (cl_spentThisPeriodAtomic l) + token_sum (cl_token l) (granted is (decisions b))
         \<le> max (bigint (cl_spentThisPeriodAtomic l)) (bigint (cl_maxPerPeriodAtomic l)))"
  using assms by (rule batch_outcome)

theorem agent_batch_bounded_witness:
  "\<exists>b. authorizePaymentBatch ref_lib example_capability [example_intent ''intent-1'', example_intent ''intent-2''] 1768035700000
       = Inr b \<and> length (decisions b) = 2
     \<and> 100 + token_sum USDC (granted [example_intent ''intent-1'', example_intent ''intent-2''] (decisions b)) \<le> 800"
proof -
  have "paymentIntentBatchSchema [example_intent ''intent-1'', example_intent ''intent-2'']"
    by (simp add: paymentIntentBatchSchema_def example_intent_ok)
  from agent_batch_bounded [OF example_capability_ok this, of ref_lib 1768035700000]
  show ?thesis by (auto simp: example_capability_def example_limit_def example_amounts)
qed

text \<open>C32: The decision on a single intent is exact: it is allowed if and only if the capability's
  terms cover it and its remaining budget does (calls left, spending of the period), it asks for approval
  if and only if it is allowed and the capability is not autonomous or the amount reaches the
  approval threshold, and the reason code says which of the two it was.\<close>

theorem agent_intent_exact:
  assumes "agentCapabilitySchema c" "paymentIntentSchema i"
  shows "\<exists>d. authorizePaymentIntent L c i now = Inr d
    \<and> (allowed d \<longleftrightarrow> within_terms c i now \<and> within_budget c i)
    \<and> (requiresApproval d \<longleftrightarrow> allowed d \<and> needs_approval c i)
    \<and> (reasonCode d = ALLOWED \<longleftrightarrow> allowed d \<and> \<not> requiresApproval d)
    \<and> (reasonCode d = APPROVAL_REQUIRED \<longleftrightarrow> requiresApproval d)"
  using assms by (rule intent_decision)

theorem agent_intent_exact_witness:
  "\<exists>d. authorizePaymentIntent ref_lib example_capability (example_intent ''intent-1'') 1768035700000 = Inr d
     \<and> allowed d \<and> requiresApproval d \<and> reasonCode d = APPROVAL_REQUIRED"
proof -
  have "within_terms example_capability (example_intent ''intent-1'') 1768035700000"
    "within_budget example_capability (example_intent ''intent-1'')"
    "needs_approval example_capability (example_intent ''intent-1'')"
    by (simp_all add: within_terms_def within_budget_def needs_approval_def example_capability_def example_limit_def
        example_intent_def recipient_allowed_def example_facts)
  with agent_intent_exact [OF example_capability_ok example_intent_ok(1), of ref_lib 1768035700000]
  show ?thesis by auto
qed

text \<open>
  What the source relies on in the signature scheme: a secret key has 32 bytes and anything else is refused; its
  public key has 32 bytes, and signatures have 64 and verify under that public key.
\<close>

definition signatures_ok :: "lib \<Rightarrow> bool" where
  "signatures_ok L \<longleftrightarrow>
     (\<forall>sk. if length sk = 32
       then \<exists>pk. ed25519_getPublicKey L sk = Inr pk \<and> length pk = 32
         \<and> (\<forall>m. \<exists>s. ed25519_sign L m sk = Inr s \<and> length s = 64 \<and> ed25519_verify L s m pk)
       else \<exists>e. ed25519_getPublicKey L sk = Inl e)"

lemma signatures_okE:
  assumes "signatures_ok L" "length sk = 32"
  obtains pk where "ed25519_getPublicKey L sk = Inr pk" "length pk = 32"
    "\<And>m. \<exists>s. ed25519_sign L m sk = Inr s \<and> length s = 64 \<and> ed25519_verify L s m pk"
  using assms unfolding signatures_ok_def by metis

lemma ref_lib_signatures [simp]: "signatures_ok ref_lib"
  by (simp add: signatures_ok_def ref_lib_def ref_secret_def ref_digest_def)

lemma toBase64_nonempty: "bs \<noteq> [] \<Longrightarrow> toBase64 bs \<noteq> []"
  using fromBase64_toBase64 [of bs] by (auto simp: fromBase64_def atob_def strip_padding_def)

lemma toBase64_size: "length bs = 32 \<or> length bs = 64 \<Longrightarrow> 1 \<le> length (toBase64 bs)"
  using toBase64_nonempty [of bs] by (cases "bs = []"; cases "toBase64 bs") auto

lemma sign_then_verify:
  assumes "agentCapabilitySchema c" "signatures_ok L" "length sk = 32"
  shows "\<exists>s. signCapability L c sk = Inr s \<and> sc_capability s = c \<and> verifySignedCapability L s = Inr s"
proof -
  obtain pk where pk: "ed25519_getPublicKey L sk = Inr pk" "length pk = 32"
    "\<And>m. \<exists>s. ed25519_sign L m sk = Inr s \<and> length s = 64 \<and> ed25519_verify L s m pk"
    using signatures_okE [OF assms(2,3)] by metis
  obtain payload where payload: "capabilityPayload c = Inr payload" using assms(1) by (simp add: capabilityPayload_def)
  obtain sg where sg: "ed25519_sign L payload sk = Inr sg" "length sg = 64" "ed25519_verify L sg payload pk" using pk(3) by blast
  let ?s = "\<lparr>sc_capability = c, sc_issuerPublicKey = toBase64 pk, sc_signature = toBase64 sg\<rparr>"
  have "signCapability L c sk = Inr ?s" using assms(1) pk(1) payload sg(1) by (simp add: signCapability_def)
  moreover have "verifySignedCapability L ?s = Inr ?s"
    using assms(1) pk(2) payload sg(2,3) toBase64_size
    by (simp add: verifySignedCapability_def signedCapabilitySchema_def fromBase64_toBase64)
  ultimately show ?thesis by auto
qed

text \<open>C35: A signed capability passes its own verification.  With a secret key of 32 bytes, signing a well-formed
  capability succeeds, keeps the capability, and the base64 texts of the key and the signature read back to
  the bytes that verify, so that verification returns the same signed capability; with a key of any other
  length signing throws and nothing is signed.\<close>

theorem signed_capability_verifies:
  assumes "agentCapabilitySchema c" "signatures_ok L"
  shows "if length issuerSecretKey = 32
    then \<exists>s. signCapability L c issuerSecretKey = Inr s \<and> sc_capability s = c \<and> verifySignedCapability L s = Inr s
    else \<exists>e. signCapability L c issuerSecretKey = Inl e"
proof (cases "length issuerSecretKey = 32")
  case True
  with sign_then_verify [OF assms this] show ?thesis by simp
next
  case False
  with assms(2) obtain e where "ed25519_getPublicKey L issuerSecretKey = Inl e" unfolding signatures_ok_def by metis
  then show ?thesis using False assms(1) by (simp add: signCapability_def)
qed

theorem signed_capability_verifies_witness:
  "(\<exists>s. signCapability ref_lib example_capability (replicate 32 7) = Inr s \<and> verifySignedCapability ref_lib s = Inr s)
   \<and> (\<exists>e. signCapability ref_lib example_capability [1, 2, 3] = Inl e)"
  using signed_capability_verifies [OF example_capability_ok ref_lib_signatures, of "replicate 32 7"]
    signed_capability_verifies [OF example_capability_ok ref_lib_signatures, of "[1, 2, 3]"] by auto

end
