(* ===== verification/Settlement.thy ===== *)
theory Settlement
  imports Capability "HOL-Library.Product_Lexorder"
begin

text \<open>
  Model of \<open>lib/domain/settlement.ts\<close> and \<open>lib/domain/agent-execution.ts\<close>: the life cycles of a
  settlement and of an agent execution, the commitments to an agent's settlement plan and to token
  totals, and the classification of a Starknet receipt.  A block number is a bigint; the confirmation
  depth, a \<open>Number\<close> in the source, is kept as an integer.  The order \<open>localeCompare\<close>
  gives two purpose codes is the host's collation and a parameter.
\<close>

section \<open>The life cycle of a settlement\<close>

datatype settlement_state =
    S_approval_pending | S_submitted | S_confirmed | S_finalized | S_reorged | S_failed | S_reconciled

fun settlement_state_name :: "settlement_state \<Rightarrow> string" where
  "settlement_state_name S_approval_pending = ''approval_pending''"
| "settlement_state_name S_submitted = ''submitted''"
| "settlement_state_name S_confirmed = ''confirmed''"
| "settlement_state_name S_finalized = ''finalized''"
| "settlement_state_name S_reorged = ''reorged''"
| "settlement_state_name S_failed = ''failed''"
| "settlement_state_name S_reconciled = ''reconciled''"

fun SETTLEMENT_TRANSITIONS :: "settlement_state \<Rightarrow> settlement_state list" where
  "SETTLEMENT_TRANSITIONS S_approval_pending = [S_submitted, S_failed]"
| "SETTLEMENT_TRANSITIONS S_submitted = [S_confirmed, S_failed, S_reorged]"
| "SETTLEMENT_TRANSITIONS S_confirmed = [S_finalized, S_failed, S_reorged]"
| "SETTLEMENT_TRANSITIONS S_finalized = [S_reconciled, S_reorged]"
| "SETTLEMENT_TRANSITIONS S_reorged = [S_submitted, S_failed]"
| "SETTLEMENT_TRANSITIONS S_failed = [S_approval_pending]"
| "SETTLEMENT_TRANSITIONS S_reconciled = [S_reorged]"

definition assertSettlementTransition :: "settlement_state \<Rightarrow> settlement_state \<Rightarrow> unit result" where
  "assertSettlementTransition from to =
     ensure (to \<in> set (SETTLEMENT_TRANSITIONS from))
       (Thrown (''Invalid settlement transition: '' @ settlement_state_name from @ '' -> '' @ settlement_state_name to @ ''.''))"

interpretation settlement: state_table SETTLEMENT_TRANSITIONS assertSettlementTransition
  by unfold_locales (simp add: assertSettlementTransition_def)

definition settlement_history :: "settlement_state \<Rightarrow> settlement_state list \<Rightarrow> settlement_state result" where
  "settlement_history from ts = rfold (\<lambda>s t. rbind (assertSettlementTransition s t) (\<lambda>_. Inr t)) from ts"

section \<open>The life cycle of an agent execution\<close>

datatype execution_state =
    E_reserved | E_approval_pending | E_submitting | E_preparing | E_submitted | E_confirmed | E_reconciled
  | E_failed | E_released

fun execution_state_name :: "execution_state \<Rightarrow> string" where
  "execution_state_name E_reserved = ''reserved''"
| "execution_state_name E_approval_pending = ''approval_pending''"
| "execution_state_name E_submitting = ''submitting''"
| "execution_state_name E_preparing = ''preparing''"
| "execution_state_name E_submitted = ''submitted''"
| "execution_state_name E_confirmed = ''confirmed''"
| "execution_state_name E_reconciled = ''reconciled''"
| "execution_state_name E_failed = ''failed''"
| "execution_state_name E_released = ''released''"

fun AGENT_EXECUTION_TRANSITIONS :: "execution_state \<Rightarrow> execution_state list" where
  "AGENT_EXECUTION_TRANSITIONS E_reserved = [E_approval_pending, E_preparing, E_failed, E_released]"
| "AGENT_EXECUTION_TRANSITIONS E_approval_pending = [E_preparing, E_submitted, E_failed, E_released]"
| "AGENT_EXECUTION_TRANSITIONS E_preparing = [E_submitting, E_failed, E_released]"
| "AGENT_EXECUTION_TRANSITIONS E_submitted = [E_confirmed, E_reconciled, E_failed]"
| "AGENT_EXECUTION_TRANSITIONS E_submitting = [E_submitted, E_failed]"
| "AGENT_EXECUTION_TRANSITIONS E_confirmed = []"
| "AGENT_EXECUTION_TRANSITIONS E_reconciled = []"
| "AGENT_EXECUTION_TRANSITIONS E_failed = []"
| "AGENT_EXECUTION_TRANSITIONS E_released = []"

definition assertAgentExecutionTransition :: "execution_state \<Rightarrow> execution_state \<Rightarrow> unit result" where
  "assertAgentExecutionTransition from to =
     ensure (to \<in> set (AGENT_EXECUTION_TRANSITIONS from))
       (Thrown (''Invalid agent execution transition: '' @ execution_state_name from @ '' -> '' @ execution_state_name to @ ''.''))"

interpretation executions: state_table AGENT_EXECUTION_TRANSITIONS assertAgentExecutionTransition
  by unfold_locales (simp add: assertAgentExecutionTransition_def)

definition execution_history :: "execution_state \<Rightarrow> execution_state list \<Rightarrow> execution_state result" where
  "execution_history from ts = rfold (\<lambda>s t. rbind (assertAgentExecutionTransition s t) (\<lambda>_. Inr t)) from ts"

definition intent_json :: "payment_intent \<Rightarrow> json" where
  "intent_json i = JObj
     [(''intentVersion'', JStr ''payo-payment-intent-v1''),
      (''intentId'', JStr (pi_intentId i)),
      (''organizationId'', JStr (pi_organizationId i)),
      (''runId'', JStr (pi_runId i)),
      (''action'', JStr (agent_action_name (pi_action i))),
      (''token'', JStr (token_symbol (pi_token i))),
      (''recipientAddress'', JStr (pi_recipientAddress i)),
      (''amountAtomic'', JStr (pi_amountAtomic i)),
      (''purposeCode'', JStr (pi_purposeCode i)),
      (''capabilityNonce'', JStr (pi_capabilityNonce i)),
      (''createdAt'', JStr (pi_createdAt i)),
      (''validUntil'', JStr (pi_validUntil i))]"

definition commitAgentExecutionRequest :: "lib \<Rightarrow> execution_request \<Rightarrow> string result" where
  "commitAgentExecutionRequest L requestInput =
     rbind (zod ''agentExecutionRequestSchema'' agentExecutionRequestSchema requestInput) (\<lambda>request.
     Inr (hashCanonicalJson L (JObj
       [(''domain'', JStr ''PAYO_AGENT_EXECUTION_REQUEST_V1''),
        (''request'', JObj [(''requestVersion'', JStr ''payo-agent-execution-v1''), (''runId'', JStr (er_runId request)),
                            (''intents'', JArr (map intent_json (er_intents request)))])])))"

section \<open>Token totals\<close>

record token_totals =
  tt_STRK :: string
  tt_USDC :: string

definition payoActionTokenTotalsSchema :: "token_totals \<Rightarrow> bool" where
  "payoActionTokenTotalsSchema t = (atomicAmount_ok (tt_STRK t) \<and> atomicAmount_ok (tt_USDC t))"

definition tokenTotalsSchema :: "token_totals \<Rightarrow> bool" where
  "tokenTotalsSchema totals =
     (atomicAmount_ok (tt_STRK totals) \<and> atomicAmount_ok (tt_USDC totals)
      \<and> (0 < bigint (tt_STRK totals) \<or> 0 < bigint (tt_USDC totals)))"

definition totals_json :: "token_totals \<Rightarrow> json" where
  "totals_json t = JObj [(''STRK'', JStr (tt_STRK t)), (''USDC'', JStr (tt_USDC t))]"

definition commitTokenTotals :: "lib \<Rightarrow> string \<Rightarrow> string \<Rightarrow> token_totals \<Rightarrow> string result" where
  "commitTokenTotals L organizationId runId input =
     rbind (zod ''tokenTotalsSchema'' tokenTotalsSchema input) (\<lambda>totals.
     Inr (hashCanonicalJson L (JObj
       [(''domain'', JStr ''PAYO_SETTLEMENT_TOTALS_V1''), (''organizationId'', JStr organizationId),
        (''runId'', JStr runId), (''totals'', totals_json totals)])))"

datatype settlement_workflow = Payroll_workflow | Wage_claim | Wage_remediation

fun settlement_workflow_name :: "settlement_workflow \<Rightarrow> string" where
  "settlement_workflow_name Payroll_workflow = ''payroll''"
| "settlement_workflow_name Wage_claim = ''wage_claim''"
| "settlement_workflow_name Wage_remediation = ''wage_remediation''"

definition commitPayoActionTokenTotals ::
    "lib \<Rightarrow> string \<Rightarrow> string \<Rightarrow> settlement_workflow \<Rightarrow> string \<Rightarrow> token_totals \<Rightarrow> string result" where
  "commitPayoActionTokenTotals L organizationId runId workflowType subjectRecordId input =
     rbind (zod ''payoActionTokenTotalsSchema'' payoActionTokenTotalsSchema input) (\<lambda>totals.
     if workflowType \<noteq> Wage_claim \<and> bigint (tt_STRK totals) = 0 \<and> bigint (tt_USDC totals) = 0
     then Inl (Thrown (settlement_workflow_name workflowType @ '' requires a positive private settlement total.''))
     else Inr (hashCanonicalJson L (JObj
       [(''domain'', JStr ''PAYO_ACTION_SETTLEMENT_TOTALS_V2''), (''organizationId'', JStr organizationId),
        (''runId'', JStr runId), (''workflowType'', JStr (settlement_workflow_name workflowType)),
        (''subjectRecordId'', JStr subjectRecordId), (''totals'', totals_json totals)])))"

section \<open>The settlement plan of an agent\<close>

record agent_payment =
  ap_recipientAddress :: string
  ap_token :: token
  ap_amountAtomic :: string
  ap_purposeCode :: string

definition agentSettlementPaymentSchema :: "agent_payment \<Rightarrow> bool" where
  "agentSettlementPaymentSchema p =
     (starknet_address_ok (ap_recipientAddress p) \<and> atomicAmount_ok (ap_amountAtomic p)
      \<and> 0 < bigint (ap_amountAtomic p) \<and> length_between 1 80 (ap_purposeCode p))"

definition canonical_payment :: "agent_payment \<Rightarrow> agent_payment result" where
  "canonical_payment payment =
     rbind (zod ''agentSettlementPaymentSchema'' agentSettlementPaymentSchema payment) (\<lambda>parsed.
     let recipientAddress = ''0x'' @ toString16 (bigint (ap_recipientAddress parsed)) in
     if bigint recipientAddress = 0 then Inl (Thrown ''Agent settlement recipient cannot be zero.'')
     else Inr (parsed\<lparr>ap_recipientAddress := recipientAddress\<rparr>))"

definition compare_payments :: "(string \<Rightarrow> string \<Rightarrow> int) \<Rightarrow> agent_payment \<Rightarrow> agent_payment \<Rightarrow> int" where
  "compare_payments localeCompare left right =
     (if ap_token left \<noteq> ap_token right then (if ap_token left < ap_token right then -1 else 1)
      else let leftAddress = bigint (ap_recipientAddress left); rightAddress = bigint (ap_recipientAddress right) in
        if leftAddress \<noteq> rightAddress then (if leftAddress < rightAddress then -1 else 1)
        else let amountOrder = (if bigint (ap_amountAtomic left) < bigint (ap_amountAtomic right) then -1
                                else if bigint (ap_amountAtomic right) < bigint (ap_amountAtomic left) then 1 else 0)
          in if amountOrder \<noteq> 0 then amountOrder else localeCompare (ap_purposeCode left) (ap_purposeCode right))"

definition payment_key :: "agent_payment \<Rightarrow> string" where
  "payment_key p = ap_recipientAddress p @ '':'' @ token_symbol (ap_token p)"

definition canonicalAgentPayments ::
    "(string \<Rightarrow> string \<Rightarrow> int) \<Rightarrow> agent_payment list \<Rightarrow> agent_payment list result" where
  "canonicalAgentPayments localeCompare payments =
     (if length payments < 1 \<or> 50 < length payments
      then Inl (Thrown ''An agent settlement plan requires 1-50 payments.'')
      else rbind (rmap canonical_payment payments) (\<lambda>mapped.
        let canonical = sort_by (compare_payments localeCompare) mapped in
        if card (set (map payment_key canonical)) \<noteq> length canonical
        then Inl (Thrown ''Agent settlement recipients must be unique per token.'')
        else Inr canonical))"

definition payment_json :: "agent_payment \<Rightarrow> json" where
  "payment_json p = JObj
     [(''recipientAddress'', JStr (ap_recipientAddress p)), (''token'', JStr (token_symbol (ap_token p))),
      (''amountAtomic'', JStr (ap_amountAtomic p)), (''purposeCode'', JStr (ap_purposeCode p))]"

definition commitAgentSettlementPlan ::
    "lib \<Rightarrow> (string \<Rightarrow> string \<Rightarrow> int) \<Rightarrow> string \<Rightarrow> string \<Rightarrow> agent_payment list \<Rightarrow> string result" where
  "commitAgentSettlementPlan L localeCompare organizationId runId payments =
     rbind (canonicalAgentPayments localeCompare payments) (\<lambda>canonical.
     Inr (hashCanonicalJson L (JObj
       [(''domain'', JStr ''PAYO_AGENT_SETTLEMENT_PLAN_V1''), (''organizationId'', JStr organizationId),
        (''runId'', JStr runId), (''payments'', JArr (map payment_json canonical))])))"

section \<open>Receipts\<close>

datatype finality_status = PENDING | PRE_CONFIRMED | ACCEPTED_ON_L2 | ACCEPTED_ON_L1 | REJECTED

datatype execution_status = SUCCEEDED | REVERTED

record receipt_observation =
  ro_finalityStatus :: finality_status
  ro_executionStatus :: "execution_status option"
  ro_transactionHash :: string
  ro_blockNumber :: "int option"
  ro_blockHash :: "string option"
  ro_canonicalBlockHash :: "string option"
  ro_headBlockNumber :: "int option"
  ro_revertReason :: "string option"

datatype observed_state = O_pending | O_confirmed | O_finalized | O_reorged | O_failed

record settlement_observation =
  so_state :: observed_state
  so_confirmationDepth :: int
  so_blockNumber :: "int option"
  so_blockHash :: "string option"
  so_errorCode :: "string option"
  so_errorMessage :: "string option"

definition PAYO_FINALITY_CONFIRMATIONS :: int where
  "PAYO_FINALITY_CONFIRMATIONS = 3"

text \<open>An optional string is falsy when it is missing or empty.\<close>

definition truthy :: "string option \<Rightarrow> bool" where
  "truthy s = (s \<noteq> None \<and> s \<noteq> Some [])"

definition confirmation_depth :: "int option \<Rightarrow> int \<Rightarrow> int" where
  "confirmation_depth headBlockNumber blockNumber =
     (case headBlockNumber of None \<Rightarrow> 1 | Some head \<Rightarrow> head - blockNumber + 1)"

definition evaluateStarknetReceipt :: "receipt_observation \<Rightarrow> int \<Rightarrow> settlement_observation result" where
  "evaluateStarknetReceipt observation finalityConfirmations =
     (if finalityConfirmations < 1 then Inl (Thrown ''Finality confirmations must be a positive integer.'')
      else if ro_finalityStatus observation = REJECTED
      then Inr \<lparr>so_state = O_failed, so_confirmationDepth = 0, so_blockNumber = None, so_blockHash = None,
                so_errorCode = Some ''TRANSACTION_REJECTED'', so_errorMessage = Some ''Starknet rejected the transaction.''\<rparr>
      else if ro_executionStatus observation = Some REVERTED
      then Inr \<lparr>so_state = O_failed, so_confirmationDepth = 0, so_blockNumber = ro_blockNumber observation,
                so_blockHash = ro_blockHash observation, so_errorCode = Some ''TRANSACTION_REVERTED'',
                so_errorMessage = (if truthy (ro_revertReason observation) then ro_revertReason observation
                                   else Some ''The Starknet transaction reverted.'')\<rparr>
      else case ro_blockNumber observation of
        None \<Rightarrow> Inr \<lparr>so_state = O_pending, so_confirmationDepth = 0, so_blockNumber = None, so_blockHash = None,
                     so_errorCode = None, so_errorMessage = None\<rparr>
      | Some blockNumber \<Rightarrow>
          if \<not> truthy (ro_blockHash observation)
          then Inr \<lparr>so_state = O_pending, so_confirmationDepth = 0, so_blockNumber = None, so_blockHash = None,
                    so_errorCode = None, so_errorMessage = None\<rparr>
          else if truthy (ro_canonicalBlockHash observation)
            \<and> toLowerCase (the (ro_canonicalBlockHash observation)) \<noteq> toLowerCase (the (ro_blockHash observation))
          then Inr \<lparr>so_state = O_reorged, so_confirmationDepth = 0, so_blockNumber = Some blockNumber,
                    so_blockHash = ro_blockHash observation, so_errorCode = Some ''CHAIN_REORG'',
                    so_errorMessage = Some ''The transaction block is no longer canonical.''\<rparr>
          else let safeDepth = max 0 (confirmation_depth (ro_headBlockNumber observation) blockNumber);
                   finalizedByStatus = (ro_finalityStatus observation = ACCEPTED_ON_L1)
            in Inr \<lparr>so_state = (if finalizedByStatus \<or> finalityConfirmations \<le> safeDepth then O_finalized else O_confirmed),
                    so_confirmationDepth = safeDepth, so_blockNumber = Some blockNumber,
                    so_blockHash = ro_blockHash observation, so_errorCode = None, so_errorMessage = None\<rparr>)"

section \<open>The canonical plan\<close>

lemma bigint_canonical_address [simp]:
  "bigint (CHR ''0'' # CHR ''x'' # toString16 (bigint s)) = bigint s"
  using bigint_toString16 [of "bigint s"] by simp

lemma canonical_payment_Inr:
  "canonical_payment p = Inr q \<longleftrightarrow> agentSettlementPaymentSchema p \<and> bigint (ap_recipientAddress p) \<noteq> 0
     \<and> q = p\<lparr>ap_recipientAddress := ''0x'' @ toString16 (bigint (ap_recipientAddress p))\<rparr>"
  by (auto simp: canonical_payment_def rbind_Inr_iff Let_def)

text \<open>Token and numeric address of a payment: what the plan sorts by and what it holds unique.\<close>

definition plan_key :: "agent_payment \<Rightarrow> token \<times> int" where
  "plan_key p = (ap_token p, bigint (ap_recipientAddress p))"

lemma canonical_payment_key:
  assumes "canonical_payment p = Inr q"
  shows "plan_key q = plan_key p" "payment_key q = ''0x'' @ toString16 (snd (plan_key q)) @ '':'' @ token_symbol (fst (plan_key q))"
  using assms by (auto simp: canonical_payment_Inr plan_key_def payment_key_def)

lemma compare_payments_key:
  "plan_key p \<noteq> plan_key q \<Longrightarrow> compare_payments localeCompare p q \<le> 0 \<longleftrightarrow> plan_key p \<le> plan_key q"
  by (auto simp: compare_payments_def plan_key_def Let_def less_eq_prod_simp)

lemma canonical_keys_distinct:
  assumes "rmap canonical_payment xs = Inr qs" "card (set (map payment_key qs)) = length qs"
  shows "distinct (map plan_key qs)"
proof -
  have key: "payment_key q = ''0x'' @ toString16 (snd (plan_key q)) @ '':'' @ token_symbol (fst (plan_key q))"
    if "q \<in> set qs" for q
    using rmap_setD [OF assms(1) that] canonical_payment_key(2) by blast
  have "distinct (map payment_key qs)" using assms(2) by (simp add: card_distinct)
  then have "distinct qs" "inj_on payment_key (set qs)" by (simp_all add: distinct_map)
  moreover from this key have "inj_on plan_key (set qs)" by (metis inj_on_def)
  ultimately show ?thesis by (simp add: distinct_map)
qed

lemma canonical_map: "rmap canonical_payment xs = Inr qs \<Longrightarrow>
    (\<forall>x \<in> set xs. canonical_payment x = Inr (projr (canonical_payment x))) \<and> qs = map (\<lambda>x. projr (canonical_payment x)) xs"
  by (induction xs arbitrary: qs) (auto simp: rbind_Inr_iff)

lemma canonicalAgentPayments_Inr:
  assumes "canonicalAgentPayments localeCompare xs = Inr qs" "mset xs = mset ys"
  shows "canonicalAgentPayments localeCompare ys = Inr qs \<and> distinct (map plan_key xs)"
proof -
  let ?f = "\<lambda>x. projr (canonical_payment x)"
  obtain ps where ps: "xs \<noteq> []" "length xs \<le> 50" "rmap canonical_payment xs = Inr ps"
    "card (set (map payment_key ps)) = length ps" "qs = sort_by (compare_payments localeCompare) ps"
    using assms(1) by (auto simp: canonicalAgentPayments_def rbind_Inr_iff Let_def split: if_splits)
  from canonical_map [OF ps(3)] have f: "\<forall>x \<in> set xs. canonical_payment x = Inr (?f x)" "ps = map ?f xs" by blast+
  have sets: "set ys = set xs" using assms(2) by (metis mset_eq_setD)
  have Y: "rmap canonical_payment ys = Inr (map ?f ys)"
    by (rule rmap_total) (use f(1) sets in blast)
  have m: "mset ps = mset (map ?f ys)" unfolding f(2) using assms(2) by simp
  have k: "distinct (map plan_key ps)" by (rule canonical_keys_distinct [OF ps(3,4)])
  have "sort_by (compare_payments localeCompare) ps = sort_by (compare_payments localeCompare) (map ?f ys)"
    using compare_payments_key k m by (rule sort_by_mset_unique)
  moreover have "card (set (map payment_key (map ?f ys))) = length ys"
    using ps(4) m f(2) assms(2) by (metis length_map list.set_map mset_eq_length mset_eq_setD)
  moreover have "map plan_key ps = map plan_key xs"
    unfolding f(2) using f(1) canonical_payment_key(1) by (simp add: comp_def)
  ultimately show ?thesis
    using ps Y k mset_eq_length [OF assms(2)] by (auto simp: canonicalAgentPayments_def image_image)
qed

section \<open>What a history has passed through\<close>

lemma settlement_passes:
  assumes "settlement_history S_approval_pending ts = Inr b" "b \<in> {S_finalized, S_reconciled}"
  shows "S_submitted \<in> set ts \<and> S_confirmed \<in> set ts \<and> S_finalized \<in> set ts"
proof -
  note history = assms(1) [unfolded settlement_history_def]
  note pass = settlement.walk_must_pass [OF history]
  have "S_submitted \<in> set ts" by (rule pass [of "{S_approval_pending, S_failed}"]) (use assms(2) in auto)
  moreover have "S_confirmed \<in> set ts"
    by (rule pass [of "{S_approval_pending, S_failed, S_submitted, S_reorged}"]) (use assms(2) in auto)
  moreover have "S_finalized \<in> set ts"
    by (rule pass [of "{S_approval_pending, S_failed, S_submitted, S_reorged, S_confirmed}"]) (use assms(2) in auto)
  ultimately show ?thesis by blast
qed

lemma execution_passes:
  assumes "execution_history E_reserved us = Inr e" "e \<in> {E_confirmed, E_reconciled}"
  shows "E_submitted \<in> set us"
  by (rule executions.walk_must_pass [OF assms(1) [unfolded execution_history_def],
        of "{E_reserved, E_approval_pending, E_preparing, E_submitting, E_failed, E_released}"]) (use assms(2) in auto)

section \<open>What a receipt says\<close>

lemma receipt_final:
  assumes "evaluateStarknetReceipt r n = Inr s"
  shows "so_state s = O_finalized \<longleftrightarrow>
      ro_finalityStatus r \<noteq> REJECTED \<and> ro_executionStatus r \<noteq> Some REVERTED
      \<and> (\<exists>block. ro_blockNumber r = Some block \<and> truthy (ro_blockHash r)
          \<and> (truthy (ro_canonicalBlockHash r) \<longrightarrow>
               toLowerCase (the (ro_canonicalBlockHash r)) = toLowerCase (the (ro_blockHash r)))
          \<and> (ro_finalityStatus r = ACCEPTED_ON_L1 \<or> n \<le> confirmation_depth (ro_headBlockNumber r) block))"
proof -
  have "1 \<le> n" using assms by (auto simp: evaluateStarknetReceipt_def split: if_splits)
  then have depth: "n \<le> max 0 d \<longleftrightarrow> n \<le> d" for d by auto
  show ?thesis
    using assms by (auto simp: evaluateStarknetReceipt_def Let_def depth split: if_splits option.splits)
qed

lemma receipt_stays_final:
  assumes "evaluateStarknetReceipt r n = Inr s" "so_state s = O_finalized"
    and "confirmation_depth (ro_headBlockNumber r) (the (ro_blockNumber r))
        \<le> confirmation_depth (Some head) (the (ro_blockNumber r))"
  shows "\<exists>s'. evaluateStarknetReceipt (r\<lparr>ro_headBlockNumber := Some head\<rparr>) n = Inr s' \<and> so_state s' = O_finalized"
proof -
  have n: "1 \<le> n" using assms(1) by (auto simp: evaluateStarknetReceipt_def split: if_splits)
  from receipt_final [OF assms(1)] assms(2) obtain block where "ro_finalityStatus r \<noteq> REJECTED"
    "ro_executionStatus r \<noteq> Some REVERTED" "ro_blockNumber r = Some block" "truthy (ro_blockHash r)"
    "truthy (ro_canonicalBlockHash r) \<longrightarrow> toLowerCase (the (ro_canonicalBlockHash r)) = toLowerCase (the (ro_blockHash r))"
    "ro_finalityStatus r = ACCEPTED_ON_L1 \<or> n \<le> confirmation_depth (ro_headBlockNumber r) block" by blast
  with n assms(3) show ?thesis by (auto simp: evaluateStarknetReceipt_def Let_def)
qed

section \<open>Properties\<close>

text \<open>C34: What reaches finality was submitted and confirmed first: every history of a settlement from
  awaiting approval to the finalized or reconciled state passes through the submitted and the confirmed
  state, and to the reconciled state also through the finalized one; every history of an agent
  execution from its reservation to the confirmed or reconciled state passes through the submitted
  state, and it then never changes again.\<close>

theorem settlement_lifecycle:
  "(settlement_history S_approval_pending ts = Inr b \<and> b \<in> {S_finalized, S_reconciled} \<longrightarrow>
      S_submitted \<in> set ts \<and> S_confirmed \<in> set ts \<and> S_finalized \<in> set ts)
   \<and> (execution_history E_reserved us = Inr e \<and> e \<in> {E_confirmed, E_reconciled} \<longrightarrow>
      E_submitted \<in> set us \<and> AGENT_EXECUTION_TRANSITIONS e = [])"
  using settlement_passes [of ts b] execution_passes [of us e] by auto

theorem settlement_lifecycle_witness:
  "settlement_history S_approval_pending [S_submitted, S_confirmed, S_finalized, S_reconciled] = Inr S_reconciled
   \<and> {S_submitted, S_confirmed, S_finalized} \<subseteq> set [S_submitted, S_confirmed, S_finalized, S_reconciled]
   \<and> execution_history E_reserved [E_approval_pending, E_submitted, E_confirmed] = Inr E_confirmed
   \<and> E_submitted \<in> set [E_approval_pending, E_submitted, E_confirmed] \<and> AGENT_EXECUTION_TRANSITIONS E_confirmed = []
   \<and> settlement_history S_approval_pending [S_finalized] \<noteq> Inr S_finalized
   \<and> execution_history E_reserved [E_confirmed] \<noteq> Inr E_confirmed"
proof -
  have "settlement_history S_approval_pending [S_submitted, S_confirmed, S_finalized, S_reconciled] = Inr S_reconciled"
    "execution_history E_reserved [E_approval_pending, E_submitted, E_confirmed] = Inr E_confirmed"
    by (simp_all add: settlement_history_def assertSettlementTransition_def execution_history_def
        assertAgentExecutionTransition_def)
  moreover from this settlement_lifecycle [of "[S_submitted, S_confirmed, S_finalized, S_reconciled]" S_reconciled
      "[E_approval_pending, E_submitted, E_confirmed]" E_confirmed]
  have "{S_submitted, S_confirmed, S_finalized} \<subseteq> set [S_submitted, S_confirmed, S_finalized, S_reconciled]"
    "E_submitted \<in> set [E_approval_pending, E_submitted, E_confirmed] \<and> AGENT_EXECUTION_TRANSITIONS E_confirmed = []" by blast+
  moreover from settlement_lifecycle [of "[S_finalized]" S_finalized "[E_confirmed]" E_confirmed]
  have "settlement_history S_approval_pending [S_finalized] \<noteq> Inr S_finalized" "execution_history E_reserved [E_confirmed] \<noteq> Inr E_confirmed"
    by auto
  ultimately show ?thesis by blast
qed

text \<open>The commitment to an agent's settlement plan identifies the set of payments: any other order
  of the same payments gives the same commitment, and a plan is only committed when no two of its
  payments go to the same token and numeric address, however the address is spelled.\<close>

theorem agent_plan_canonical:
  assumes "commitAgentSettlementPlan L localeCompare organizationId runId xs = Inr h" "mset xs = mset ys"
  shows "commitAgentSettlementPlan L localeCompare organizationId runId ys = Inr h
    \<and> distinct (map (\<lambda>p. (ap_token p, bigint (ap_recipientAddress p))) xs)"
proof -
  obtain qs where "canonicalAgentPayments localeCompare xs = Inr qs"
    using assms(1) by (auto simp: commitAgentSettlementPlan_def rbind_Inr_iff)
  moreover from canonicalAgentPayments_Inr [OF this assms(2)]
  have "canonicalAgentPayments localeCompare ys = Inr qs" "distinct (map plan_key xs)" by blast+
  ultimately show ?thesis using assms(1) by (simp add: commitAgentSettlementPlan_def plan_key_def [abs_def])
qed

definition example_payment :: "string \<Rightarrow> agent_payment" where
  "example_payment address = \<lparr>ap_recipientAddress = address, ap_token = USDC, ap_amountAtomic = ''400'',
     ap_purposeCode = ''salary''\<rparr>"

theorem agent_plan_canonical_witness:
  "\<exists>h. commitAgentSettlementPlan ref_lib (\<lambda>_ _. 0) ''org'' ''run'' [example_payment ''0x0Ab'', example_payment ''0x1''] = Inr h
     \<and> commitAgentSettlementPlan ref_lib (\<lambda>_ _. 0) ''org'' ''run'' [example_payment ''0x1'', example_payment ''0x0Ab''] = Inr h"
proof -
  have facts: "starknet_address_ok ''0x0Ab''" "starknet_address_ok ''0x1''" "bigint ''0x0Ab'' = 171" "bigint ''0x1'' = 1"
    "atomicAmount_ok ''400''" "bigint ''400'' = 400" "toString16 171 = ''ab''" "toString16 1 = ''1''"
    by code_simp+
  have "canonical_payment (example_payment ''0x0Ab'') = Inr (example_payment ''0xab'')"
    "canonical_payment (example_payment ''0x1'') = Inr (example_payment ''0x1'')"
    by (simp_all add: canonical_payment_Inr agentSettlementPaymentSchema_def example_payment_def facts length_between_def)
  then obtain h where h: "commitAgentSettlementPlan ref_lib (\<lambda>_ _. 0) ''org'' ''run''
      [example_payment ''0x0Ab'', example_payment ''0x1''] = Inr h"
    by (simp add: commitAgentSettlementPlan_def canonicalAgentPayments_def Let_def payment_key_def example_payment_def
        card_insert_if)
  from agent_plan_canonical [OF h, of "[example_payment ''0x1'', example_payment ''0x0Ab'']"] h
  show ?thesis by (auto simp: add_mset_commute)
qed

text \<open>Receipts are classified exactly and finality is stable.  A receipt counts as failed if and only
  if the transaction was rejected or reverted, and as final if and only if it was neither, is in a
  block that is still canonical, and was accepted on L1 or is buried deeply enough; failures and
  reorganisations and nothing else carry an error code; and a final receipt stays final when the same
  receipt is seen again under a higher head.\<close>

theorem receipt_classification:
  assumes "evaluateStarknetReceipt r n = Inr s"
  shows "(so_state s = O_failed \<longleftrightarrow> ro_finalityStatus r = REJECTED \<or> ro_executionStatus r = Some REVERTED)
    \<and> (so_state s = O_finalized \<longleftrightarrow>
      ro_finalityStatus r \<noteq> REJECTED \<and> ro_executionStatus r \<noteq> Some REVERTED
      \<and> (\<exists>block. ro_blockNumber r = Some block \<and> truthy (ro_blockHash r)
          \<and> (truthy (ro_canonicalBlockHash r) \<longrightarrow>
               toLowerCase (the (ro_canonicalBlockHash r)) = toLowerCase (the (ro_blockHash r)))
          \<and> (ro_finalityStatus r = ACCEPTED_ON_L1 \<or> n \<le> confirmation_depth (ro_headBlockNumber r) block)))
    \<and> (so_errorCode s \<noteq> None \<longleftrightarrow> so_state s \<in> {O_failed, O_reorged})
    \<and> (so_state s = O_finalized \<longrightarrow>
        confirmation_depth (ro_headBlockNumber r) (the (ro_blockNumber r))
          \<le> confirmation_depth (Some head) (the (ro_blockNumber r)) \<longrightarrow>
        (\<exists>s'. evaluateStarknetReceipt (r\<lparr>ro_headBlockNumber := Some head\<rparr>) n = Inr s' \<and> so_state s' = O_finalized))"
proof (intro conjI impI)
  show "so_state s = O_failed \<longleftrightarrow> ro_finalityStatus r = REJECTED \<or> ro_executionStatus r = Some REVERTED"
    and "so_errorCode s \<noteq> None \<longleftrightarrow> so_state s \<in> {O_failed, O_reorged}"
    using assms by (auto simp: evaluateStarknetReceipt_def Let_def split: if_splits option.splits)
qed (fact receipt_final [OF assms], rule receipt_stays_final [OF assms])

theorem receipt_classification_witness:
  "\<exists>s. evaluateStarknetReceipt \<lparr>ro_finalityStatus = ACCEPTED_ON_L2, ro_executionStatus = Some SUCCEEDED,
      ro_transactionHash = ''0x1'', ro_blockNumber = Some 10, ro_blockHash = Some ''0xA'',
      ro_canonicalBlockHash = Some ''0xa'', ro_headBlockNumber = Some 12, ro_revertReason = None\<rparr>
      PAYO_FINALITY_CONFIRMATIONS = Inr s \<and> so_state s = O_finalized \<and> so_errorCode s = None"
proof -
  let ?r = "\<lparr>ro_finalityStatus = ACCEPTED_ON_L2, ro_executionStatus = Some SUCCEEDED,
      ro_transactionHash = ''0x1'', ro_blockNumber = Some 10, ro_blockHash = Some ''0xA'',
      ro_canonicalBlockHash = Some ''0xa'', ro_headBlockNumber = Some 12, ro_revertReason = None\<rparr>"
  have lower: "toLowerCase ''0xa'' = toLowerCase ''0xA''" by code_simp
  then obtain s where s: "evaluateStarknetReceipt ?r PAYO_FINALITY_CONFIRMATIONS = Inr s"
    by (simp add: evaluateStarknetReceipt_def PAYO_FINALITY_CONFIRMATIONS_def truthy_def Let_def)
  from receipt_classification [OF s] lower have "so_state s = O_finalized"
    by (simp add: truthy_def confirmation_depth_def PAYO_FINALITY_CONFIRMATIONS_def)
  moreover from this receipt_classification [OF s] have "so_errorCode s = None"
    by (metis insertE observed_state.distinct(15,19) singletonD)
  ultimately show ?thesis using s by blast
qed

end
