(* ===== verification/Reservations.thy ===== *)
theory Reservations
  imports Settlement
begin

text \<open>
  Model of \<open>lib/persistence/capability-reservations.ts\<close> and of the role check
  \<open>requireOrganizationRoleWith\<close> of \<open>lib/persistence/repository.ts\<close>: a payment agent reserves part
  of its capability's limits before it prepares a payment, and the reservation is later committed
  or released.

  The database is a record of its tables; a transaction is a function of it that returns the new
  database, or throws and leaves it as it was (a throw rolls the transaction back).  The row locks
  of the source make transactions on one capability sequential, which is how they are modelled.
  A primary key that is inserted twice makes the database throw.  The policy column is the signed
  capability it decrypts to: encryption at rest is not modelled, the verification of the signature is.
  Identifiers are generated outside, and are arguments.
\<close>

section \<open>Tables\<close>

datatype organization_role = Admin_role | Operator_role | Reviewer_role

record principal =
  pr_principalId :: string
  pr_agent :: bool                    \<comment> \<open>\<open>authKind === "agent_capability"\<close>\<close>
  pr_capabilityId :: "string option"
  pr_capabilityOrganizationId :: "string option"
  pr_capabilityPrincipalId :: "string option"

record member_row =
  om_organizationId :: string
  om_principalId :: string
  om_role :: organization_role
  om_revokedAt :: "int option"

record capability_row =
  ac_id :: string
  ac_organizationId :: string
  ac_principalId :: string
  ac_capabilityHash :: string
  ac_policy :: signed_capability
  ac_expiresAt :: int
  ac_revokedAt :: "int option"

datatype reservation_state = R_reserved | R_approval_linked | R_committed | R_released | R_expired

record reservation =
  cr_id :: string
  cr_capabilityId :: string
  cr_organizationId :: string
  cr_idempotencyKey :: string
  cr_requestHash :: string
  cr_periodKey :: string
  cr_tokenTotals :: token_totals
  cr_callCount :: int
  cr_requiresApproval :: bool
  cr_state :: reservation_state
  cr_expiresAt :: int
  cr_createdAt :: int
  cr_updatedAt :: int

record audit_event =
  ae_organizationId :: string
  ae_actorId :: string
  ae_action :: string
  ae_subjectId :: string
  ae_metadata :: json

record agent_db =
  organizationMembers :: "member_row list"
  agentCapabilities :: "capability_row list"
  capabilityReservations :: "reservation list"
  auditEvents :: "audit_event list"

definition requireOrganizationRoleWith ::
    "agent_db \<Rightarrow> string \<Rightarrow> principal \<Rightarrow> organization_role list \<Rightarrow> organization_role result" where
  "requireOrganizationRoleWith database organizationId actor permitted =
     (if pr_agent actor
      then
        if pr_capabilityOrganizationId actor \<noteq> Some organizationId
          \<or> pr_capabilityPrincipalId actor \<noteq> Some (pr_principalId actor)
          \<or> \<not> truthy (pr_capabilityId actor) \<or> Operator_role \<notin> set permitted
        then Inl (Api_error 403 ''AGENT_ORG_SCOPE_DENIED'')
        else Inr Operator_role
      else
        case find (\<lambda>m. om_organizationId m = organizationId \<and> om_principalId m = pr_principalId actor
                       \<and> om_revokedAt m = None) (organizationMembers database) of
          None \<Rightarrow> Inl (Api_error 403 ''ORG_FORBIDDEN'')
        | Some membership \<Rightarrow>
            if om_role membership \<notin> set permitted then Inl (Api_error 403 ''ORG_FORBIDDEN'')
            else Inr (om_role membership))"

section \<open>Amounts and keys\<close>

definition RESERVATION_TTL_MS :: int where
  "RESERVATION_TTL_MS = 30 * 60 * 1000"

text \<open>\<open>/^[A-Za-z0-9._:-]{16,256}$/\<close>\<close>

definition assertIdempotencyKey :: "string \<Rightarrow> unit result" where
  "assertIdempotencyKey key =
     ensure (length_between 16 256 key
         \<and> list_all (\<lambda>c. is_upper c \<or> is_lower c \<or> is_digit c \<or> c \<in> set ''._:-'') key)
       (Api_error 400 ''IDEMPOTENCY_KEY_INVALID'')"

fun total_of :: "token \<Rightarrow> token_totals \<Rightarrow> string" where
  "total_of STRK t = tt_STRK t"
| "total_of USDC t = tt_USDC t"

definition add_intent :: "token_totals \<Rightarrow> payment_intent \<Rightarrow> token_totals" where
  "add_intent totals intent =
     (let sum = toString (bigint (total_of (pi_token intent) totals) + bigint (pi_amountAtomic intent))
      in case pi_token intent of STRK \<Rightarrow> totals\<lparr>tt_STRK := sum\<rparr> | USDC \<Rightarrow> totals\<lparr>tt_USDC := sum\<rparr>)"

definition totalsForIntents :: "payment_intent list \<Rightarrow> token_totals result" where
  "totalsForIntents intents =
     zod ''tokenTotalsSchema'' tokenTotalsSchema (foldl add_intent \<lparr>tt_STRK = ''0'', tt_USDC = ''0''\<rparr> intents)"

text \<open>The loop of \<open>addReservationSpend\<close> over \<open>additional.STRK\<close>, \<open>additional.USDC\<close> and \<open>additionalCalls\<close>.\<close>

definition spend_step :: "(token \<Rightarrow> int) \<times> int \<Rightarrow> reservation \<Rightarrow> ((token \<Rightarrow> int) \<times> int) result" where
  "spend_step s r =
     rbind (zod ''tokenTotalsSchema'' tokenTotalsSchema (cr_tokenTotals r)) (\<lambda>totals.
     Inr (\<lambda>t. fst s t + bigint (total_of t totals), snd s + cr_callCount r))"

definition addReservationSpend :: "signed_capability \<Rightarrow> reservation list \<Rightarrow> agent_capability result" where
  "addReservationSpend signedCapability reservations =
     rbind (zod ''agentCapabilitySchema'' agentCapabilitySchema (sc_capability signedCapability)) (\<lambda>capability.
     rbind (rfold spend_step (\<lambda>_. 0, 0) reservations) (\<lambda>(additional, additionalCalls).
     Inr (capability\<lparr>cb_usedCallCount := cb_usedCallCount capability + additionalCalls,
       cb_limits := map (\<lambda>limit. limit\<lparr>cl_spentThisPeriodAtomic :=
           toString (bigint (cl_spentThisPeriodAtomic limit) + additional (cl_token limit))\<rparr>) (cb_limits capability)\<rparr>)))"

definition reservationPeriodKey :: "lib \<Rightarrow> signed_capability \<Rightarrow> string" where
  "reservationPeriodKey L signedCapability =
     hashCanonicalJson L (JArr (map (\<lambda>limit. JObj
       [(''token'', JStr (token_symbol (cl_token limit))), (''startsAt'', JStr (cl_periodStartsAt limit)),
        (''endsAt'', JStr (cl_periodEndsAt limit))]) (cb_limits (sc_capability signedCapability))))"

fun reason_name :: "reason \<Rightarrow> string" where
  "reason_name ALLOWED = ''ALLOWED''"
| "reason_name APPROVAL_REQUIRED = ''APPROVAL_REQUIRED''"
| "reason_name NOT_YET_VALID = ''NOT_YET_VALID''"
| "reason_name EXPIRED = ''EXPIRED''"
| "reason_name INTENT_NOT_YET_VALID = ''INTENT_NOT_YET_VALID''"
| "reason_name INTENT_EXPIRED = ''INTENT_EXPIRED''"
| "reason_name CALL_LIMIT_EXCEEDED = ''CALL_LIMIT_EXCEEDED''"
| "reason_name ACTION_DENIED = ''ACTION_DENIED''"
| "reason_name TOKEN_DENIED = ''TOKEN_DENIED''"
| "reason_name RECIPIENT_DENIED = ''RECIPIENT_DENIED''"
| "reason_name PURPOSE_DENIED = ''PURPOSE_DENIED''"
| "reason_name PAYMENT_LIMIT_EXCEEDED = ''PAYMENT_LIMIT_EXCEEDED''"
| "reason_name PERIOD_LIMIT_EXCEEDED = ''PERIOD_LIMIT_EXCEEDED''"
| "reason_name PERIOD_INACTIVE = ''PERIOD_INACTIVE''"
| "reason_name CAPABILITY_MISMATCH = ''CAPABILITY_MISMATCH''"

section \<open>Reserving\<close>

text \<open>The last steps of \<open>decryptCapabilityPolicy\<close>: the stored policy must carry a valid signature.\<close>

definition authenticatedPolicy :: "lib \<Rightarrow> capability_row \<Rightarrow> signed_capability result" where
  "authenticatedPolicy L stored =
     (case verifySignedCapability L (ac_policy stored) of
        Inr policy \<Rightarrow> Inr policy
      | Inl _ \<Rightarrow> Inl (Thrown ''The authoritative capability policy could not be decrypted or authenticated.''))"

definition expire_reservations :: "string \<Rightarrow> int \<Rightarrow> reservation list \<Rightarrow> reservation list" where
  "expire_reservations capabilityId now rs =
     map (\<lambda>r. if cr_capabilityId r = capabilityId \<and> cr_state r = R_reserved \<and> cr_expiresAt r \<le> now
              then r\<lparr>cr_state := R_expired, cr_updatedAt := now\<rparr> else r) rs"

definition counts_against :: "string \<Rightarrow> string \<Rightarrow> int \<Rightarrow> reservation \<Rightarrow> bool" where
  "counts_against capabilityId periodKey now r =
     (cr_capabilityId r = capabilityId \<and> cr_periodKey r = periodKey
      \<and> (cr_state r = R_committed \<or> cr_state r = R_approval_linked
         \<or> (cr_state r = R_reserved \<and> now < cr_expiresAt r)))"

definition latestPeriodEnd :: "capability_row \<Rightarrow> agent_capability \<Rightarrow> int" where
  "latestPeriodEnd stored effective =
     foldl min (ac_expiresAt stored) (map (\<lambda>limit. getTime (cl_periodEndsAt limit)) (cb_limits effective))"

definition insert_reservation :: "reservation \<Rightarrow> agent_db \<Rightarrow> agent_db result" where
  "insert_reservation r db =
     (if cr_id r \<in> cr_id ` set (capabilityReservations db)
      then Inl (Thrown ''duplicate key value violates unique constraint'')
      else Inr (db\<lparr>capabilityReservations := capabilityReservations db @ [r]\<rparr>))"

definition intents_json :: "string \<Rightarrow> payment_intent list \<Rightarrow> json" where
  "intents_json capabilityId intents = JObj [(''capabilityId'', JStr capabilityId), (''intents'', JArr (map intent_json intents))]"

text \<open>
  Everything after the idempotency check: expire what ran out, add the live reservations to what the
  capability already spent, authorise the intents against the rest, and insert the reservation.
\<close>

definition admit_reservation ::
    "lib \<Rightarrow> string \<Rightarrow> capability_row \<Rightarrow> signed_capability \<Rightarrow> string \<Rightarrow> payment_intent list \<Rightarrow> string \<Rightarrow> principal \<Rightarrow> int
     \<Rightarrow> agent_db \<Rightarrow> (reservation \<times> agent_db) result" where
  "admit_reservation L newId stored signedCapability idempotencyKey intents requestHash actor now db =
     (let db = db\<lparr>capabilityReservations := expire_reservations (ac_id stored) now (capabilityReservations db)\<rparr>;
          periodKey = reservationPeriodKey L signedCapability;
          activeReservations = filter (counts_against (ac_id stored) periodKey now) (capabilityReservations db)
      in rbind (addReservationSpend signedCapability activeReservations) (\<lambda>effectiveCapability.
         rbind (authorizePaymentBatch L effectiveCapability intents now) (\<lambda>authorization.
         if \<not> batch_allowed authorization
         then Inl (Api_error 409 (case find (\<lambda>d. \<not> allowed d) (decisions authorization) of
             Some denied \<Rightarrow> reason_name (reasonCode denied) | None \<Rightarrow> ''CAPABILITY_DENIED''))
         else rbind (totalsForIntents intents) (\<lambda>tokenTotals.
           let periodEnd = latestPeriodEnd stored effectiveCapability;
               horizon = (if batch_requiresApproval authorization then periodEnd
                          else min (now + RESERVATION_TTL_MS) periodEnd);
               reservation = \<lparr>cr_id = newId, cr_capabilityId = ac_id stored, cr_organizationId = ac_organizationId stored,
                 cr_idempotencyKey = idempotencyKey, cr_requestHash = requestHash, cr_periodKey = periodKey,
                 cr_tokenTotals = tokenTotals, cr_callCount = int (length intents),
                 cr_requiresApproval = batch_requiresApproval authorization, cr_state = R_reserved,
                 cr_expiresAt = horizon, cr_createdAt = now, cr_updatedAt = now\<rparr>
           in rbind (insert_reservation reservation db) (\<lambda>db.
              Inr (reservation, db\<lparr>auditEvents := auditEvents db @
                [\<lparr>ae_organizationId = ac_organizationId stored, ae_actorId = pr_principalId actor,
                  ae_action = ''agent_capability.limit_reserved'', ae_subjectId = newId,
                  ae_metadata = JObj
                    [(''capabilityHash'', JStr (ac_capabilityHash stored)), (''requestHash'', JStr requestHash),
                     (''tokenTotalsCommitment'', JStr (hashCanonicalJson L (JObj
                        [(''domain'', JStr ''PAYO_AGENT_TOKEN_TOTALS_V1''), (''tokenTotals'', totals_json tokenTotals)]))),
                     (''callCount'', JNum (int (length intents)))]\<rparr>]\<rparr>))))))"

definition reserveCapabilityPayment ::
    "lib \<Rightarrow> string \<Rightarrow> string \<Rightarrow> string \<Rightarrow> payment_intent list \<Rightarrow> principal \<Rightarrow> int \<Rightarrow> agent_db
     \<Rightarrow> (reservation \<times> bool \<times> agent_db) result" where
  "reserveCapabilityPayment L newId capabilityId idempotencyKey intentInputs actor now db =
     rbind (assertIdempotencyKey idempotencyKey) (\<lambda>_.
     rbind (zod ''paymentIntentBatchSchema'' paymentIntentBatchSchema intentInputs) (\<lambda>intents.
     let requestHash = hashCanonicalJson L (intents_json capabilityId intents) in
     case find (\<lambda>c. ac_id c = capabilityId) (agentCapabilities db) of
       None \<Rightarrow> Inl (Api_error 404 ''CAPABILITY_NOT_FOUND'')
     | Some stored \<Rightarrow>
         rbind (requireOrganizationRoleWith db (ac_organizationId stored) actor [Admin_role, Operator_role]) (\<lambda>_.
         rbind (authenticatedPolicy L stored) (\<lambda>signedCapability.
         if cb_principalId (sc_capability signedCapability) \<noteq> pr_principalId actor
         then Inl (Api_error 403 ''CAPABILITY_PRINCIPAL_MISMATCH'')
         else if ac_revokedAt stored \<noteq> None then Inl (Api_error 410 ''CAPABILITY_REVOKED'')
         else if ac_expiresAt stored \<le> now then Inl (Api_error 410 ''CAPABILITY_EXPIRED'')
         else case find (\<lambda>r. cr_capabilityId r = capabilityId \<and> cr_idempotencyKey r = idempotencyKey)
                    (capabilityReservations db) of
           Some existing \<Rightarrow>
             if cr_requestHash existing \<noteq> requestHash then Inl (Api_error 409 ''IDEMPOTENCY_MISMATCH'')
             else Inr (existing, True, db)
         | None \<Rightarrow>
             rbind (admit_reservation L newId stored signedCapability idempotencyKey intents requestHash actor now db)
               (\<lambda>(reservation, db). Inr (reservation, False, db))))))"

section \<open>Committing and releasing\<close>

datatype final_state = Commit | Release

fun final_reservation_state :: "final_state \<Rightarrow> reservation_state" where
  "final_reservation_state Commit = R_committed"
| "final_reservation_state Release = R_released"

definition set_reservation_state :: "string \<Rightarrow> reservation_state \<Rightarrow> int \<Rightarrow> reservation list \<Rightarrow> reservation list" where
  "set_reservation_state reservationId state now rs =
     map (\<lambda>r. if cr_id r = reservationId \<and> cr_state r = R_reserved then r\<lparr>cr_state := state, cr_updatedAt := now\<rparr> else r) rs"

text \<open>
  The update to \<open>expired\<close> that precedes the throw of \<open>RESERVATION_EXPIRED\<close> happens inside the
  transaction, so it is rolled back with it.
\<close>

definition transitionCapabilityReservation ::
    "string \<Rightarrow> string \<Rightarrow> final_state \<Rightarrow> principal \<Rightarrow> int \<Rightarrow> agent_db \<Rightarrow> (reservation \<times> bool \<times> agent_db) result" where
  "transitionCapabilityReservation capabilityId reservationId state actor now db =
     (case find (\<lambda>r. cr_id r = reservationId \<and> cr_capabilityId r = capabilityId) (capabilityReservations db) of
        None \<Rightarrow> Inl (Api_error 404 ''RESERVATION_NOT_FOUND'')
      | Some reservation \<Rightarrow>
          rbind (requireOrganizationRoleWith db (cr_organizationId reservation) actor [Admin_role, Operator_role]) (\<lambda>_.
          if (case find (\<lambda>c. ac_id c = capabilityId) (agentCapabilities db) of
                None \<Rightarrow> True | Some capability \<Rightarrow> ac_principalId capability \<noteq> pr_principalId actor)
          then Inl (Api_error 403 ''CAPABILITY_PRINCIPAL_MISMATCH'')
          else if cr_state reservation = final_reservation_state state then Inr (reservation, True, db)
          else if cr_state reservation \<noteq> R_reserved then Inl (Api_error 409 ''RESERVATION_STATE_CONFLICT'')
          else if state = Commit \<and> cr_expiresAt reservation \<le> now then Inl (Api_error 409 ''RESERVATION_EXPIRED'')
          else Inr (reservation\<lparr>cr_state := final_reservation_state state, cr_updatedAt := now\<rparr>, False,
                 db\<lparr>capabilityReservations := set_reservation_state reservationId (final_reservation_state state) now
                      (capabilityReservations db),
                    auditEvents := auditEvents db @
                      [\<lparr>ae_organizationId = cr_organizationId reservation, ae_actorId = pr_principalId actor,
                        ae_action = ''agent_capability.limit_'' @ (case state of Commit \<Rightarrow> ''committed'' | Release \<Rightarrow> ''released''),
                        ae_subjectId = cr_id reservation,
                        ae_metadata = JObj [(''capabilityId'', JStr capabilityId)]\<rparr>]\<rparr>)))"

section \<open>What is live stays within the capability\<close>

text \<open>A reservation is live when it was neither released nor expired and did not run out.\<close>

definition live :: "string \<Rightarrow> string \<Rightarrow> int \<Rightarrow> reservation \<Rightarrow> bool" where
  "live capabilityId periodKey now r \<longleftrightarrow>
     cr_capabilityId r = capabilityId \<and> cr_periodKey r = periodKey \<and> cr_state r \<notin> {R_released, R_expired}
     \<and> (cr_state r = R_reserved \<longrightarrow> now < cr_expiresAt r)"

lemma counts_against_live: "counts_against capabilityId periodKey now = live capabilityId periodKey now"
proof
  show "counts_against capabilityId periodKey now r = live capabilityId periodKey now r" for r
    by (cases "cr_state r") (auto simp: counts_against_def live_def)
qed

definition live_total :: "token \<Rightarrow> string \<Rightarrow> string \<Rightarrow> int \<Rightarrow> reservation list \<Rightarrow> int" where
  "live_total t capabilityId periodKey now rs =
     sum_list (map (\<lambda>r. bigint (total_of t (cr_tokenTotals r))) (filter (live capabilityId periodKey now) rs))"

definition live_calls :: "string \<Rightarrow> string \<Rightarrow> int \<Rightarrow> reservation list \<Rightarrow> int" where
  "live_calls capabilityId periodKey now rs =
     sum_list (map cr_callCount (filter (live capabilityId periodKey now) rs))"

lemmas live_total_counts = live_total_def [folded counts_against_live]
  and live_calls_counts = live_calls_def [folded counts_against_live]

definition within_capability :: "lib \<Rightarrow> int \<Rightarrow> reservation list \<Rightarrow> capability_row \<Rightarrow> bool" where
  "within_capability L now rs row =
     (let c = sc_capability (ac_policy row); k = reservationPeriodKey L (ac_policy row) in
      cb_usedCallCount c + live_calls (ac_id row) k now rs \<le> cb_maxCallCount c
      \<and> (\<forall>l \<in> set (cb_limits c). bigint (cl_spentThisPeriodAtomic l) + live_total (cl_token l) (ac_id row) k now rs
           \<le> max (bigint (cl_spentThisPeriodAtomic l)) (bigint (cl_maxPerPeriodAtomic l))))"

definition reservation_ok :: "reservation \<Rightarrow> bool" where
  "reservation_ok r = (tokenTotalsSchema (cr_tokenTotals r) \<and> 0 \<le> cr_callCount r)"

definition db_ok :: "lib \<Rightarrow> int \<Rightarrow> agent_db \<Rightarrow> bool" where
  "db_ok L now db =
     (distinct (map cr_id (capabilityReservations db)) \<and> list_all reservation_ok (capabilityReservations db)
      \<and> distinct (map ac_id (agentCapabilities db))
      \<and> list_all (within_capability L now (capabilityReservations db)) (agentCapabilities db))"

lemma sum_filter_update:
  fixes f :: "'a \<Rightarrow> int"
  assumes "\<And>x. x \<in> set xs \<Longrightarrow> P (u x) \<Longrightarrow> Q x" "\<And>x. x \<in> set xs \<Longrightarrow> f (u x) = f x" "\<And>x. x \<in> set xs \<Longrightarrow> 0 \<le> f x"
  shows "sum_list (map f (filter P (map u xs))) \<le> sum_list (map f (filter Q xs))"
  using assms
proof (induction xs)
  case Nil
  then show ?case by simp
next
  case (Cons x xs)
  have IH: "sum_list (map f (filter P (map u xs))) \<le> sum_list (map f (filter Q xs))"
    by (rule Cons.IH) (auto intro: Cons.prems)
  have "P (u x) \<Longrightarrow> Q x" "f (u x) = f x" "0 \<le> f x" by (auto intro: Cons.prems)
  with IH show ?case by (cases "P (u x)"; cases "Q x") simp_all
qed

text \<open>Updating rows and letting time pass frees budget, as long as no update makes a row count again.\<close>

lemma within_capability_update:
  assumes "within_capability L now rs row" "list_all reservation_ok rs"
    and "\<And>r k. r \<in> set rs \<Longrightarrow> counts_against (ac_id row) k t (u r) \<Longrightarrow> counts_against (ac_id row) k now r"
    and "\<And>r. cr_tokenTotals (u r) = cr_tokenTotals r" "\<And>r. cr_callCount (u r) = cr_callCount r"
  shows "within_capability L t (map u rs) row"
proof -
  have "live_total tok (ac_id row) k t (map u rs) \<le> live_total tok (ac_id row) k now rs" for tok k
    unfolding live_total_counts by (rule sum_filter_update) (use assms(3,4) in auto)
  moreover have "live_calls (ac_id row) k t (map u rs) \<le> live_calls (ac_id row) k now rs" for k
    unfolding live_calls_counts
    by (rule sum_filter_update) (use assms(2,3,5) in \<open>auto simp: list_all_iff reservation_ok_def\<close>)
  ultimately show ?thesis
    using assms(1) unfolding within_capability_def Let_def by (smt (verit))
qed

section \<open>Adding up\<close>

lemma spend_fold:
  assumes "list_all reservation_ok rs"
  shows "rfold spend_step s rs = Inr (\<lambda>t. fst s t + sum_list (map (\<lambda>r. bigint (total_of t (cr_tokenTotals r))) rs),
    snd s + sum_list (map cr_callCount rs))"
  using assms by (induction rs arbitrary: s) (auto simp: spend_step_def reservation_ok_def add.assoc)

lemma addReservationSpend_Inr:
  assumes "list_all reservation_ok rs"
  shows "addReservationSpend sc rs = Inr e \<longleftrightarrow> agentCapabilitySchema (sc_capability sc)
    \<and> e = (sc_capability sc)\<lparr>cb_usedCallCount := cb_usedCallCount (sc_capability sc) + sum_list (map cr_callCount rs),
        cb_limits := map (\<lambda>l. l\<lparr>cl_spentThisPeriodAtomic := toString (bigint (cl_spentThisPeriodAtomic l)
            + sum_list (map (\<lambda>r. bigint (total_of (cl_token l) (cr_tokenTotals r))) rs))\<rparr>) (cb_limits (sc_capability sc))\<rparr>"
  using spend_fold [OF assms] by (auto simp: addReservationSpend_def rbind_Inr_iff)

lemma total_of_add_intent:
  "bigint (total_of t (add_intent T i))
     = bigint (total_of t T) + (if pi_token i = t then bigint (pi_amountAtomic i) else 0)"
  by (cases t; cases "pi_token i") (simp_all add: add_intent_def)

lemma total_of_fold:
  "bigint (total_of t (foldl add_intent T is)) = bigint (total_of t T) + token_sum t is"
  by (induction "is" arbitrary: T) (auto simp: total_of_add_intent)

lemma totalsForIntents_sum:
  assumes "totalsForIntents is = Inr tt"
  shows "tokenTotalsSchema tt" "bigint (total_of t tt) = token_sum t is"
proof -
  have "bigint (total_of t \<lparr>tt_STRK = ''0'', tt_USDC = ''0''\<rparr>) = 0" by (cases t) (simp_all add: bigint_def value_base_def hex_val_def)
  with assms show "tokenTotalsSchema tt" "bigint (total_of t tt) = token_sum t is"
    by (auto simp: totalsForIntents_def total_of_fold)
qed

section \<open>Steps\<close>

lemma expire_within:
  assumes "within_capability L now rs row" "list_all reservation_ok rs" "now \<le> t"
  shows "within_capability L t (expire_reservations c t rs) row"
  unfolding expire_reservations_def
  using assms(1,2) by (rule within_capability_update) (use assms(3) in \<open>auto simp: counts_against_def split: if_splits\<close>)

lemma expire_ids [simp]: "map cr_id (expire_reservations c t rs) = map cr_id rs"
  by (simp add: expire_reservations_def)

lemma expire_ok: "list_all reservation_ok rs \<Longrightarrow> list_all reservation_ok (expire_reservations c t rs)"
  by (auto simp: expire_reservations_def list_all_iff reservation_ok_def)

text \<open>Admitting a reservation charges it to its own capability only, within what is left.\<close>

lemma admit_charges:
  assumes admit: "admit_reservation L newId stored sc key is h actor t db = Inr (r, db')"
    and ok: "list_all reservation_ok (capabilityReservations db)"
    and "sc = ac_policy stored"
    and before: "within_capability L t (expire_reservations (ac_id stored) t (capabilityReservations db)) stored"
  shows "capabilityReservations db' = expire_reservations (ac_id stored) t (capabilityReservations db) @ [r]"
    and "agentCapabilities db' = agentCapabilities db" "cr_capabilityId r = ac_id stored" "reservation_ok r"
    and "cr_id r \<notin> cr_id ` set (expire_reservations (ac_id stored) t (capabilityReservations db))"
    and "within_capability L t (capabilityReservations db') stored"
proof -
  define rs where "rs = expire_reservations (ac_id stored) t (capabilityReservations db)"
  define k where "k = reservationPeriodKey L sc"
  define active where "active = filter (counts_against (ac_id stored) k t) rs"
  define c where "c = sc_capability sc"
  obtain e b tt where e: "addReservationSpend sc active = Inr e"
    and b: "authorizePaymentBatch L e is t = Inr b" "batch_allowed b" and tt: "totalsForIntents is = Inr tt"
    and r: "r = \<lparr>cr_id = newId, cr_capabilityId = ac_id stored, cr_organizationId = ac_organizationId stored,
                 cr_idempotencyKey = key, cr_requestHash = h, cr_periodKey = k,
                 cr_tokenTotals = tt, cr_callCount = int (length is),
                 cr_requiresApproval = batch_requiresApproval b, cr_state = R_reserved,
                 cr_expiresAt = (if batch_requiresApproval b then latestPeriodEnd stored e
                          else min (t + RESERVATION_TTL_MS) (latestPeriodEnd stored e)), cr_createdAt = t, cr_updatedAt = t\<rparr>"
    and new: "newId \<notin> cr_id ` set rs"
    and db': "capabilityReservations db' = rs @ [r]" "agentCapabilities db' = agentCapabilities db"
    using admit unfolding admit_reservation_def
    by (auto simp: Let_def rbind_Inr_iff insert_reservation_def active_def rs_def k_def split: if_splits)
  show "capabilityReservations db' = expire_reservations (ac_id stored) t (capabilityReservations db) @ [r]"
    "agentCapabilities db' = agentCapabilities db" "cr_capabilityId r = ac_id stored"
    using db' r by (simp_all add: rs_def)
  show "reservation_ok r" using totalsForIntents_sum(1) [OF tt] r by (simp add: reservation_ok_def)
  show "cr_id r \<notin> cr_id ` set (expire_reservations (ac_id stored) t (capabilityReservations db))"
    using new r by (simp add: rs_def)
  have "list_all reservation_ok active"
    using expire_ok [OF ok] by (auto simp: active_def rs_def list_all_iff)
  from e [unfolded addReservationSpend_Inr [OF this]] have ce: "agentCapabilitySchema c"
    and e_eq: "e = c\<lparr>cb_usedCallCount := cb_usedCallCount c + live_calls (ac_id stored) k t rs,
        cb_limits := map (\<lambda>l. l\<lparr>cl_spentThisPeriodAtomic := toString (bigint (cl_spentThisPeriodAtomic l)
            + live_total (cl_token l) (ac_id stored) k t rs)\<rparr>) (cb_limits c)\<rparr>"
    by (simp_all add: c_def live_total_counts live_calls_counts active_def)
  from b(1) have schemas: "agentCapabilitySchema e" "paymentIntentBatchSchema is"
    by (auto simp: authorizePaymentBatch_def rbind_Inr_iff)
  from batch_outcome [OF schemas, of L t] b have all: "granted is (decisions b) = is"
    and calls: "cb_usedCallCount e + int (length is) \<le> cb_maxCallCount e"
    and sums: "\<forall>l \<in> set (cb_limits e). bigint (cl_spentThisPeriodAtomic l) + token_sum (cl_token l) is
         \<le> max (bigint (cl_spentThisPeriodAtomic l)) (bigint (cl_maxPerPeriodAtomic l))"
    by auto
  have live_nonneg: "0 \<le> live_total tok (ac_id stored) k t rs" for tok
    unfolding live_total_counts by (rule sum_list_nonneg) auto
  have "cb_usedCallCount c + live_calls (ac_id stored) k t (rs @ [r]) \<le> cb_maxCallCount c"
    using calls r by (simp add: e_eq live_calls_counts)
  moreover have "bigint (cl_spentThisPeriodAtomic l) + live_total (cl_token l) (ac_id stored) k t (rs @ [r])
         \<le> max (bigint (cl_spentThisPeriodAtomic l)) (bigint (cl_maxPerPeriodAtomic l))" if l: "l \<in> set (cb_limits c)" for l
  proof -
    define x where "x = bigint (cl_spentThisPeriodAtomic l) + live_total (cl_token l) (ac_id stored) k t rs"
    have "0 \<le> x" using live_nonneg by (simp add: x_def)
    moreover have "l\<lparr>cl_spentThisPeriodAtomic := toString x\<rparr> \<in> set (cb_limits e)"
      using l by (auto simp: e_eq x_def)
    ultimately have "x + token_sum (cl_token l) is \<le> max x (bigint (cl_maxPerPeriodAtomic l))"
      using sums by fastforce
    moreover have "x \<le> max (bigint (cl_spentThisPeriodAtomic l)) (bigint (cl_maxPerPeriodAtomic l))"
      using before l assms(3) by (simp add: within_capability_def Let_def x_def rs_def k_def c_def)
    moreover have "live_total (cl_token l) (ac_id stored) k t (rs @ [r])
        \<le> live_total (cl_token l) (ac_id stored) k t rs + token_sum (cl_token l) is"
      using totalsForIntents_sum(2) [OF tt, of "cl_token l"] r by (simp add: live_total_counts)
        (metis bigint_nonneg)
    ultimately show ?thesis by (simp add: x_def)
  qed
  ultimately show "within_capability L t (capabilityReservations db') stored"
    using assms(3) by (simp add: within_capability_def Let_def db' c_def k_def)
qed

lemma within_capability_later:
  assumes "within_capability L now rs row" "list_all reservation_ok rs" "now \<le> t"
  shows "within_capability L t rs row"
proof -
  have "within_capability L t (map (\<lambda>r. r) rs) row"
    using assms(1,2) by (rule within_capability_update) (use assms(3) in \<open>auto simp: counts_against_def\<close>)
  then show ?thesis by simp
qed

lemma authenticatedPolicy_Inr: "authenticatedPolicy L row = Inr sc \<Longrightarrow> sc = ac_policy row"
  by (auto simp: authenticatedPolicy_def verifySignedCapability_def rbind_Inr_iff split: sum.splits if_splits)

lemma reserve_preserves:
  assumes "db_ok L now db" "now \<le> t"
    and step: "reserveCapabilityPayment L newId cid key intents actor t db = Inr (r, replayed, db')"
  shows "db_ok L t db'"
proof -
  let ?rs = "capabilityReservations db"
  obtain stored where stored: "find (\<lambda>c. ac_id c = cid) (agentCapabilities db) = Some stored"
    using step by (auto simp: reserveCapabilityPayment_def Let_def rbind_Inr_iff split: option.splits)
  then have row: "stored \<in> set (agentCapabilities db)" "ac_id stored = cid"
    by (auto simp: find_Some_iff in_set_conv_nth)
  from step stored consider "db' = db"
    | h where "admit_reservation L newId stored (ac_policy stored) key intents h actor t db = Inr (r, db')"
    by (auto simp: reserveCapabilityPayment_def Let_def rbind_Inr_iff dest!: authenticatedPolicy_Inr
        split: option.splits if_splits)
  then show ?thesis
  proof cases
    case 1
    with assms(1,2) show ?thesis by (auto simp: db_ok_def list_all_iff intro: within_capability_later)
  next
    case (2 h)
    let ?es = "expire_reservations (ac_id stored) t ?rs"
    have ok: "list_all reservation_ok ?rs" using assms(1) by (simp add: db_ok_def)
    have live: "within_capability L t ?es c" if "c \<in> set (agentCapabilities db)" for c
      using that assms(1,2) ok by (intro expire_within) (auto simp: db_ok_def list_all_iff)
    note admit = admit_charges [OF 2 ok refl live [OF row(1)]]
    have "within_capability L t (capabilityReservations db') c" if c: "c \<in> set (agentCapabilities db)" for c
    proof (cases "c = stored")
      case True
      with admit(6) show ?thesis by simp
    next
      case False
      then have "ac_id c \<noteq> ac_id stored"
        using c row(1) assms(1) by (auto simp: db_ok_def distinct_map inj_on_def)
      then have "\<not> counts_against (ac_id c) k t r" for k using admit(3) by (auto simp: counts_against_def)
      with live [OF c] show ?thesis
        by (simp add: within_capability_def admit(1) live_total_counts live_calls_counts)
    qed
    moreover have "distinct (map cr_id (capabilityReservations db'))"
    proof -
      have "cr_id ` set ?es = cr_id ` set ?rs" by (metis expire_ids list.set_map)
      with assms(1) admit(1,5) show ?thesis by (simp add: db_ok_def)
    qed
    ultimately show ?thesis
      using assms(1) admit(1,2,4) expire_ok [OF ok] by (simp add: db_ok_def list_all_iff)
  qed
qed

lemma transition_preserves:
  assumes "db_ok L now db" "now \<le> t"
    and step: "transitionCapabilityReservation cid rid state actor t db = Inr (r, replayed, db')"
  shows "db_ok L t db'"
proof -
  let ?rs = "capabilityReservations db"
  let ?u = "\<lambda>r. if cr_id r = rid \<and> cr_state r = R_reserved
      then r\<lparr>cr_state := final_reservation_state state, cr_updatedAt := t\<rparr> else r"
  obtain r0 where "find (\<lambda>r. cr_id r = rid \<and> cr_capabilityId r = cid) ?rs = Some r0"
    using step by (auto simp: transitionCapabilityReservation_def split: option.splits)
  then have r0: "r0 \<in> set ?rs" "cr_id r0 = rid" by (auto simp: find_Some_iff in_set_conv_nth)
  from step \<open>find _ ?rs = Some r0\<close> consider "db' = db"
    | "state = Commit \<longrightarrow> t < cr_expiresAt r0" "agentCapabilities db' = agentCapabilities db"
      "capabilityReservations db' = map ?u ?rs"
    by (auto simp: transitionCapabilityReservation_def rbind_Inr_iff set_reservation_state_def split: if_splits)
  then show ?thesis
  proof cases
    case 1
    with assms(1,2) show ?thesis by (auto simp: db_ok_def list_all_iff intro: within_capability_later)
  next
    case 2
    have ok: "list_all reservation_ok ?rs" and ids: "distinct (map cr_id ?rs)" using assms(1) by (simp_all add: db_ok_def)
    have same: "x = r0" if "x \<in> set ?rs" "cr_id x = rid" for x
      using that r0 ids by (auto simp: distinct_map inj_on_def)
    have "counts_against c k now x" if "x \<in> set ?rs" "counts_against c k t (?u x)" for x c k
      using that(2) same [OF that(1)] assms(2) 2(1)
      by (cases state) (auto simp: counts_against_def split: if_splits)
    then have "within_capability L t (map ?u ?rs) c" if "c \<in> set (agentCapabilities db)" for c
      using that assms(1) ok by (intro within_capability_update [of L now]) (auto simp: db_ok_def list_all_iff)
    moreover have "map cr_id (map ?u ?rs) = map cr_id ?rs" by simp
    moreover have "list_all reservation_ok (map ?u ?rs)" using ok by (auto simp: list_all_iff reservation_ok_def)
    ultimately show ?thesis using 2 assms(1) ids by (simp add: db_ok_def list_all_iff del: map_map)
  qed
qed

text \<open>
  The database as agents use it over time: each step runs one transaction, later than the one before.
\<close>

inductive agent_step :: "lib \<Rightarrow> int \<times> agent_db \<Rightarrow> int \<times> agent_db \<Rightarrow> bool" for L where
  step_reserve: "now \<le> t \<Longrightarrow> reserveCapabilityPayment L newId cid key intents actor t db = Inr (r, replayed, db')
    \<Longrightarrow> agent_step L (now, db) (t, db')"
| step_transition: "now \<le> t \<Longrightarrow> transitionCapabilityReservation cid rid state actor t db = Inr (r, replayed, db')
    \<Longrightarrow> agent_step L (now, db) (t, db')"

inductive_cases agent_stepE: "agent_step L (now, db) (t, db')"

lemma agent_step_preserves: "agent_step L s s' \<Longrightarrow> db_ok L (fst s) (snd s) \<Longrightarrow> db_ok L (fst s') (snd s')"
  by (induction rule: agent_step.induct) (auto intro: reserve_preserves transition_preserves)

lemma agent_steps_preserve: "(agent_step L)\<^sup>*\<^sup>* s s' \<Longrightarrow> db_ok L (fst s) (snd s) \<Longrightarrow> db_ok L (fst s') (snd s')"
  by (induction rule: rtranclp_induct) (auto intro: agent_step_preserves)

lemma fresh_db_ok:
  assumes "capabilityReservations db = []" "distinct (map ac_id (agentCapabilities db))"
    and "list_all (\<lambda>row. agentCapabilitySchema (sc_capability (ac_policy row))) (agentCapabilities db)"
  shows "db_ok L now db"
  using assms by (auto simp: db_ok_def list_all_iff within_capability_def live_total_counts live_calls_counts Let_def
      agentCapabilitySchema_def)

section \<open>Retrying\<close>

lemma admit_frame:
  assumes "admit_reservation L newId stored sc key is h actor t db = Inr (r, db')"
  shows "organizationMembers db' = organizationMembers db" "agentCapabilities db' = agentCapabilities db"
    and "capabilityReservations db' = expire_reservations (ac_id stored) t (capabilityReservations db) @ [r]"
    and "cr_capabilityId r = ac_id stored" "cr_idempotencyKey r = key" "cr_requestHash r = h"
  using assms unfolding admit_reservation_def
  by (auto simp: Let_def rbind_Inr_iff insert_reservation_def split: if_splits)

lemma requireRole_frame: "organizationMembers db' = organizationMembers db \<Longrightarrow>
    requireOrganizationRoleWith db' = requireOrganizationRoleWith db"
  by (intro ext) (simp add: requireOrganizationRoleWith_def)

lemma find_append: "find P (xs @ ys) = (case find P xs of Some x \<Rightarrow> Some x | None \<Rightarrow> find P ys)"
  by (induction xs) auto

lemma find_map: "find P (map f xs) = map_option f (find (P \<circ> f) xs)"
  by (induction xs) auto

lemma find_key_expire:
  "find (\<lambda>r. cr_capabilityId r = c \<and> cr_idempotencyKey r = k) (expire_reservations d t rs) = None \<longleftrightarrow>
   find (\<lambda>r. cr_capabilityId r = c \<and> cr_idempotencyKey r = k) rs = None"
proof -
  have "(\<lambda>r. cr_capabilityId r = c \<and> cr_idempotencyKey r = k) \<circ>
      (\<lambda>r. if cr_capabilityId r = d \<and> cr_state r = R_reserved \<and> cr_expiresAt r \<le> t
           then r\<lparr>cr_state := R_expired, cr_updatedAt := t\<rparr> else r)
    = (\<lambda>r. cr_capabilityId r = c \<and> cr_idempotencyKey r = k)"
    by (simp add: fun_eq_iff)
  note same = this
  show ?thesis unfolding expire_reservations_def find_map same by (rule option.map_disc_iff)
qed

text \<open>What a successful reservation leaves behind: the row it can be found by.\<close>

lemma reserve_Inr:
  assumes "reserveCapabilityPayment L newId cid key intents actor t db = Inr (r, replayed, db')"
  obtains stored policy m where
    "assertIdempotencyKey key = Inr ()" "paymentIntentBatchSchema intents"
    "find (\<lambda>c. ac_id c = cid) (agentCapabilities db') = Some stored" "stored \<in> set (agentCapabilities db)" "ac_id stored = cid"
    "requireOrganizationRoleWith db' (ac_organizationId stored) actor [Admin_role, Operator_role] = Inr m"
    "authenticatedPolicy L stored = Inr policy" "cb_principalId (sc_capability policy) = pr_principalId actor"
    "ac_revokedAt stored = None"
    "find (\<lambda>r. cr_capabilityId r = cid \<and> cr_idempotencyKey r = key) (capabilityReservations db') = Some r"
    "cr_requestHash r = hashCanonicalJson L (intents_json cid intents)"
proof -
  let ?h = "hashCanonicalJson L (intents_json cid intents)"
  let ?find = "find (\<lambda>r. cr_capabilityId r = cid \<and> cr_idempotencyKey r = key)"
  obtain stored where stored: "find (\<lambda>c. ac_id c = cid) (agentCapabilities db) = Some stored"
    using assms by (auto simp: reserveCapabilityPayment_def Let_def rbind_Inr_iff split: option.split_asm)
  from assms obtain policy m where s: "assertIdempotencyKey key = Inr ()" "paymentIntentBatchSchema intents"
    "find (\<lambda>c. ac_id c = cid) (agentCapabilities db) = Some stored"
    "requireOrganizationRoleWith db (ac_organizationId stored) actor [Admin_role, Operator_role] = Inr m"
    "authenticatedPolicy L stored = Inr policy" "cb_principalId (sc_capability policy) = pr_principalId actor"
    "ac_revokedAt stored = None"
    and rest: "(case ?find (capabilityReservations db) of
        Some existing \<Rightarrow> if cr_requestHash existing \<noteq> ?h then Inl (Api_error 409 ''IDEMPOTENCY_MISMATCH'')
          else Inr (existing, True, db)
      | None \<Rightarrow> rbind (admit_reservation L newId stored policy key intents ?h actor t db)
          (\<lambda>(reservation, db). Inr (reservation, False, db))) = Inr (r, replayed, db')"
    unfolding reserveCapabilityPayment_def Let_def stored
    by (auto simp: rbind_Inr_iff stored split: if_split_asm)
  from rest have cases: "(?find (capabilityReservations db) = Some r \<and> cr_requestHash r = ?h \<and> db' = db)
      \<or> (?find (capabilityReservations db) = None
         \<and> admit_reservation L newId stored policy key intents ?h actor t db = Inr (r, db'))"
    by (cases "?find (capabilityReservations db)") (auto simp: rbind_Inr_iff split: if_split_asm)
  have row: "stored \<in> set (agentCapabilities db)" "ac_id stored = cid"
    using s(3) by (auto simp: find_Some_iff in_set_conv_nth)
  from cases show ?thesis
  proof (elim disjE conjE)
    assume "?find (capabilityReservations db) = Some r" "cr_requestHash r = ?h" "db' = db"
    with s row show ?thesis by (intro that [of stored m policy]) simp_all
  next
    assume none: "?find (capabilityReservations db) = None"
      and "admit_reservation L newId stored policy key intents ?h actor t db = Inr (r, db')"
    note f = admit_frame [OF this(2)]
    have "?find (capabilityReservations db') = Some r"
      unfolding f(3) find_append find_key_expire [THEN iffD2, OF none] using f(4,5) row by simp
    with s row f show ?thesis by (intro that [of stored m policy]) (simp_all add: requireRole_frame [OF f(1)])
  qed
qed

lemma reserve_retry:
  assumes "reserveCapabilityPayment L newId cid key intents actor t db = Inr (r, replayed, db')"
    and "\<forall>row \<in> set (agentCapabilities db). ac_id row = cid \<longrightarrow> u < ac_expiresAt row"
  shows "reserveCapabilityPayment L newId' cid key intents actor u db' = Inr (r, True, db')"
  using assms(1)
proof (rule reserve_Inr)
  fix stored policy m
  assume "stored \<in> set (agentCapabilities db)" "ac_id stored = cid"
  moreover from this assms(2) have "\<not> ac_expiresAt stored \<le> u" by auto
  moreover assume "assertIdempotencyKey key = Inr ()" "paymentIntentBatchSchema intents"
    "find (\<lambda>c. ac_id c = cid) (agentCapabilities db') = Some stored"
    "requireOrganizationRoleWith db' (ac_organizationId stored) actor [Admin_role, Operator_role] = Inr m"
    "authenticatedPolicy L stored = Inr policy" "cb_principalId (sc_capability policy) = pr_principalId actor"
    "ac_revokedAt stored = None"
    "find (\<lambda>r. cr_capabilityId r = cid \<and> cr_idempotencyKey r = key) (capabilityReservations db') = Some r"
    "cr_requestHash r = hashCanonicalJson L (intents_json cid intents)"
  ultimately show ?thesis by (simp add: reserveCapabilityPayment_def)
qed

lemma reserve_mismatch:
  assumes "reserveCapabilityPayment L newId cid key intents actor t db = Inr (r, replayed, db')"
    and "\<forall>row \<in> set (agentCapabilities db). ac_id row = cid \<longrightarrow> u < ac_expiresAt row"
    and "paymentIntentBatchSchema other"
    and "hashCanonicalJson L (intents_json cid other) \<noteq> hashCanonicalJson L (intents_json cid intents)"
  shows "reserveCapabilityPayment L newId' cid key other actor u db' = Inl (Api_error 409 ''IDEMPOTENCY_MISMATCH'')"
  using assms(1)
proof (rule reserve_Inr)
  fix stored policy m
  assume "stored \<in> set (agentCapabilities db)" "ac_id stored = cid"
  moreover from this assms(2) have "\<not> ac_expiresAt stored \<le> u" by auto
  moreover assume "assertIdempotencyKey key = Inr ()"
    "find (\<lambda>c. ac_id c = cid) (agentCapabilities db') = Some stored"
    "requireOrganizationRoleWith db' (ac_organizationId stored) actor [Admin_role, Operator_role] = Inr m"
    "authenticatedPolicy L stored = Inr policy" "cb_principalId (sc_capability policy) = pr_principalId actor"
    "ac_revokedAt stored = None"
    "find (\<lambda>r. cr_capabilityId r = cid \<and> cr_idempotencyKey r = key) (capabilityReservations db') = Some r"
    "cr_requestHash r = hashCanonicalJson L (intents_json cid intents)"
  ultimately show ?thesis using assms(3,4) by (simp add: reserveCapabilityPayment_def)
qed

section \<open>Properties\<close>

text \<open>C5: Reservations never overbook a capability.  Start from a database without reservations whose
  capabilities are well formed, and run any sequence of reserve, commit and release transactions, by any
  principals, at times that do not go back: at every moment, for every capability, the calls and the token amounts of its
  committed, approval-linked and unexpired reservations, added to what the signed policy already
  counts as used and spent, stay within the call limit and, per token, within the limit of the period.\<close>

theorem reservations_never_overbook:
  assumes "(agent_step L)\<^sup>*\<^sup>* (start, db0) (now, db)"
    and "capabilityReservations db0 = []" "distinct (map ac_id (agentCapabilities db0))"
    and "list_all (\<lambda>row. agentCapabilitySchema (sc_capability (ac_policy row))) (agentCapabilities db0)"
    and "row \<in> set (agentCapabilities db)"
  shows "within_capability L now (capabilityReservations db) row"
  using agent_steps_preserve [OF assms(1)] fresh_db_ok [OF assms(2,3,4)] assms(5)
  by (auto simp: db_ok_def list_all_iff)

text \<open>C33: Retrying a reservation is safe.  After a reservation succeeded, the same request with the same
  idempotency key, made before the capability expires, changes nothing and returns the stored
  reservation, marked as a replay, whatever fresh id the retry would have used; and reusing the key
  for other intents (a different request hash) is refused.\<close>

theorem reservation_replayed:
  assumes "reserveCapabilityPayment L newId cid key intents actor t db = Inr (r, replayed, db')"
    and "\<forall>row \<in> set (agentCapabilities db). ac_id row = cid \<longrightarrow> u < ac_expiresAt row"
    and "paymentIntentBatchSchema other"
    and "hashCanonicalJson L (intents_json cid other) \<noteq> hashCanonicalJson L (intents_json cid intents)"
  shows "reserveCapabilityPayment L newId' cid key intents actor u db' = Inr (r, True, db')
    \<and> reserveCapabilityPayment L newId' cid key other actor u db' = Inl (Api_error 409 ''IDEMPOTENCY_MISMATCH'')"
  using reserve_retry [OF assms(1,2)] reserve_mismatch [OF assms(1-4)] by blast

definition example_policy :: signed_capability where
  "example_policy = projr (signCapability ref_lib example_capability (replicate 32 7))"

definition example_agent :: principal where
  "example_agent = \<lparr>pr_principalId = ''agent'', pr_agent = True, pr_capabilityId = Some ''capability-1'',
     pr_capabilityOrganizationId = Some ''organization-1'', pr_capabilityPrincipalId = Some ''agent''\<rparr>"

definition example_row :: capability_row where
  "example_row = \<lparr>ac_id = ''capability-1'', ac_organizationId = ''organization-1'', ac_principalId = ''agent'',
     ac_capabilityHash = ''0x1'', ac_policy = example_policy, ac_expiresAt = 1772323200000, ac_revokedAt = None\<rparr>"

definition example_db :: agent_db where
  "example_db = \<lparr>organizationMembers = [], agentCapabilities = [example_row], capabilityReservations = [], auditEvents = []\<rparr>"

lemma example_policy_facts:
  "sc_capability example_policy = example_capability" "verifySignedCapability ref_lib example_policy = Inr example_policy"
proof -
  from sign_then_verify [OF example_capability_ok ref_lib_signatures, of "replicate 32 7"]
  show "sc_capability example_policy = example_capability"
    "verifySignedCapability ref_lib example_policy = Inr example_policy"
    by (auto simp: example_policy_def)
qed

lemma example_batch: "\<exists>b. authorizePaymentBatch ref_lib example_capability [example_intent ''intent-1''] 1768035700000 = Inr b
    \<and> batch_allowed b"
proof -
  have "within_terms example_capability (example_intent ''intent-1'') 1768035700000"
    "within_budget example_capability (example_intent ''intent-1'')"
    by (simp_all add: within_terms_def within_budget_def example_capability_def example_limit_def
        example_intent_def recipient_allowed_def example_facts)
  with intent_decision [OF example_capability_ok example_intent_ok(1), of ref_lib 1768035700000]
  show ?thesis
    by (auto simp: authorizePaymentBatch_def example_capability_ok paymentIntentBatchSchema_def example_intent_ok
        batch_step_def)
qed

lemma example_reserve: "\<exists>r db. reserveCapabilityPayment ref_lib ''reservation-1'' ''capability-1'' ''idempotency-key-1''
    [example_intent ''intent-1''] example_agent 1768035700000 example_db = Inr (r, False, db)
    \<and> agentCapabilities db = [example_row]"
proof -
  have key: "assertIdempotencyKey ''idempotency-key-1'' = Inr ()"
    by (simp add: assertIdempotencyKey_def length_between_def is_lower_def is_digit_def is_upper_def)
  have "addReservationSpend example_policy [] = Inr example_capability"
    by (simp add: addReservationSpend_Inr example_policy_facts example_capability_ok)
      (simp add: example_capability_def example_limit_def example_amounts, code_simp)
  moreover have "totalsForIntents [example_intent ''intent-1''] = Inr \<lparr>tt_STRK = ''0'', tt_USDC = ''400''\<rparr>"
    by code_simp
  moreover note example_batch
  ultimately show ?thesis
    by (auto simp: reserveCapabilityPayment_def key paymentIntentBatchSchema_def example_intent_ok example_db_def
        example_row_def requireOrganizationRoleWith_def example_agent_def truthy_def authenticatedPolicy_def
        example_policy_facts admit_reservation_def expire_reservations_def insert_reservation_def Let_def
        example_capability_def [THEN arg_cong, of cb_principalId])
qed

theorem reservations_never_overbook_witness:
  "\<exists>r db. reserveCapabilityPayment ref_lib ''reservation-1'' ''capability-1'' ''idempotency-key-1''
      [example_intent ''intent-1''] example_agent 1768035700000 example_db = Inr (r, False, db)
     \<and> within_capability ref_lib 1768035700000 (capabilityReservations db) example_row"
proof -
  from example_reserve obtain r db where r: "reserveCapabilityPayment ref_lib ''reservation-1'' ''capability-1''
      ''idempotency-key-1'' [example_intent ''intent-1''] example_agent 1768035700000 example_db = Inr (r, False, db)"
    and db: "agentCapabilities db = [example_row]" by blast
  then have "(agent_step ref_lib)\<^sup>*\<^sup>* (0, example_db) (1768035700000, db)"
    by (intro r_into_rtranclp step_reserve) simp_all
  from reservations_never_overbook [OF this, of example_row] r db show ?thesis
    by (auto simp: example_db_def example_row_def example_policy_facts example_capability_ok)
qed

definition example_late :: payment_intent where
  "example_late = (example_intent ''intent-1'')\<lparr>pi_validUntil := ''2026-01-10T09:04:00Z''\<rparr>"

lemma example_texts:
  "let a = stableJson (intents_json ''capability-1'' [example_intent ''intent-1'']);
       b = stableJson (intents_json ''capability-1'' [example_late])
   in take 373 a = take 373 b \<and> length (drop 373 a) = 10 \<and> length (drop 373 b) = 10
      \<and> utf8 (drop 373 a) \<noteq> utf8 (drop 373 b)"
  by code_simp

lemma example_hashes: "hashCanonicalJson ref_lib (intents_json ''capability-1'' [example_late])
    \<noteq> hashCanonicalJson ref_lib (intents_json ''capability-1'' [example_intent ''intent-1''])"
proof
  let ?a = "stableJson (intents_json ''capability-1'' [example_intent ''intent-1''])"
  let ?b = "stableJson (intents_json ''capability-1'' [example_late])"
  assume "hashCanonicalJson ref_lib (intents_json ''capability-1'' [example_late])
    = hashCanonicalJson ref_lib (intents_json ''capability-1'' [example_intent ''intent-1''])"
  then have "ref_digest (utf8 ?b) = ref_digest (utf8 ?a)"
    by (simp add: hashCanonicalJson_def toHex_inj [OF ref_lib_hex]) (simp add: ref_lib_def)
  then have "ref_digest (utf8 (take 373 ?a @ drop 373 ?b)) = ref_digest (utf8 (take 373 ?a @ drop 373 ?a))"
    using example_texts by (simp add: Let_def) (metis append_take_drop_id)
  from ref_digest_suffix [OF this] example_texts show False by (simp add: Let_def)
qed

theorem reservation_replayed_witness:
  "\<exists>r db. reserveCapabilityPayment ref_lib ''reservation-2'' ''capability-1'' ''idempotency-key-1''
      [example_intent ''intent-1''] example_agent 1768035800000 db = Inr (r, True, db)"
proof -
  have late: "paymentIntentBatchSchema [example_late]"
  proof -
    have "parse_datetime ''2026-01-10T09:04:00Z'' = Some 1768035840000" by code_simp
    then show ?thesis using example_intent_ok(1) example_times
      by (simp add: paymentIntentBatchSchema_def paymentIntentSchema_def example_late_def example_intent_def
          datetime_ok_def getTime_def)
  qed
  from example_reserve obtain r db where r: "reserveCapabilityPayment ref_lib ''reservation-1'' ''capability-1''
      ''idempotency-key-1'' [example_intent ''intent-1''] example_agent 1768035700000 example_db = Inr (r, False, db)"
    by blast
  have "\<forall>row \<in> set (agentCapabilities example_db). ac_id row = ''capability-1'' \<longrightarrow> 1768035800000 < ac_expiresAt row"
    by (simp add: example_db_def example_row_def)
  from reservation_replayed [OF r this late example_hashes] show ?thesis by blast
qed
end
