(* ===== verification/Fixed_Fields.thy ===== *)
theory Fixed_Fields
  imports Commitments
begin

text \<open>
  Records hashed field by field.  Several commitments of the source hash a domain tag followed by
  fields of fixed widths, each encoded by one of the encoders of \<open>lib/crypto/encoding.ts\<close>, any of
  which may throw.  Such a record is the list of its encoded fields, in order; \<open>field_spec\<close> gives a
  field its width and the number it stands for, and equal hashes of two records with the same widths
  then have equal numbers, or exhibit a collision on the two preimages.
\<close>

definition fields_preimage :: "string \<Rightarrow> byte list result list \<Rightarrow> byte list result" where
  "fields_preimage domain rs = rbind (rmap (\<lambda>r. r) rs) (\<lambda>fs. Inr (concatBytes (utf8 domain # fs)))"

definition hash_fields :: "lib \<Rightarrow> string \<Rightarrow> byte list result list \<Rightarrow> string result" where
  "hash_fields L domain rs = rbind (fields_preimage domain rs) (\<lambda>p. Inr (toHex L (keccak_256 L p)))"

definition field_spec :: "byte list result \<Rightarrow> nat \<times> int \<Rightarrow> bool" where
  "field_spec r wv \<longleftrightarrow> (\<forall>bs. r = Inr bs \<longrightarrow> length bs = fst wv \<and> decodeUint bs = snd wv)"

lemma field_spec_uint: "field_spec (encodeUint v n) (n, v)"
  by (simp add: field_spec_def encodeUint_Inr_iff)

lemma field_spec_u32: "field_spec (encodeU32 v) (4, v)"
  by (simp add: field_spec_def encodeU32_eq_encodeUint encodeUint_Inr_iff)

lemma field_spec_hex: "hex_lib_ok L \<Longrightarrow> field_spec (normalizedHexBytes L s (Some n)) (n, hex_num s)"
  using normalizedHexBytes_Inr by (auto simp: field_spec_def)

lemma field_spec_bind: "(\<And>x. r = Inr x \<Longrightarrow> field_spec (f x) wv) \<Longrightarrow> field_spec (rbind r f) wv"
  by (cases r) (auto simp: field_spec_def)

lemmas field_specs = field_spec_uint field_spec_u32 field_spec_hex

lemma fields_determined:
  assumes "rmap (\<lambda>r. r) rs = Inr fs" "rmap (\<lambda>r. r) ss = Inr gs"
    and "list_all2 field_spec rs vs" "list_all2 field_spec ss ws" "map fst vs = map fst ws"
    and "concat fs = concat gs"
  shows "map snd vs = map snd ws"
  using assms
proof (induction rs arbitrary: ss fs gs vs ws)
  case Nil
  then show ?case by (cases ws) auto
next
  case (Cons r rs)
  from Cons.prems(1) obtain f fs' where f: "r = Inr f" "rmap (\<lambda>r. r) rs = Inr fs'" "fs = f # fs'"
    by (auto simp: rbind_Inr_iff)
  from Cons.prems(3) obtain v vs' where v: "vs = v # vs'" "field_spec r v" "list_all2 field_spec rs vs'"
    by (auto simp: list_all2_Cons1)
  from v(1) Cons.prems(5) obtain w ws' where w: "ws = w # ws'" "fst v = fst w" "map fst vs' = map fst ws'"
    by (cases ws) auto
  from w(1) Cons.prems(4) obtain s ss' where s: "ss = s # ss'" "field_spec s w" "list_all2 field_spec ss' ws'"
    by (auto simp: list_all2_Cons2)
  from s(1) Cons.prems(2) obtain g gs' where g: "s = Inr g" "rmap (\<lambda>r. r) ss' = Inr gs'" "gs = g # gs'"
    by (auto simp: rbind_Inr_iff)
  have "length f = length g" using f(1) g(1) v(2) w(2) s(2) by (simp add: field_spec_def)
  with Cons.prems(6) f(3) g(3) have "f = g" "concat fs' = concat gs'" by auto
  moreover from this have "snd v = snd w" using f(1) g(1) v(2) s(2) by (simp add: field_spec_def)
  ultimately show ?case
    using Cons.IH [OF f(2) g(2) v(3) s(3) w(3)] v(1) w(1) by simp
qed

lemma hash_fields_binding:
  assumes "hex_lib_ok L" "hash_fields L domain rs = Inr h" "hash_fields L domain ss = Inr h"
    and "list_all2 field_spec rs vs" "list_all2 field_spec ss ws" "map fst vs = map fst ws"
  shows "map snd vs = map snd ws
    \<or> (\<exists>p q. fields_preimage domain rs = Inr p \<and> fields_preimage domain ss = Inr q
          \<and> p \<noteq> q \<and> keccak_256 L p = keccak_256 L q)"
proof -
  from assms(2,3) obtain p q where p: "fields_preimage domain rs = Inr p" and q: "fields_preimage domain ss = Inr q"
    and eq: "toHex L (keccak_256 L p) = toHex L (keccak_256 L q)"
    by (auto simp: hash_fields_def rbind_Inr_iff)
  show ?thesis
  proof (cases "p = q")
    case True
    with p q obtain fs gs where "rmap (\<lambda>r. r) rs = Inr fs" "rmap (\<lambda>r. r) ss = Inr gs" "concat fs = concat gs"
      by (auto simp: fields_preimage_def rbind_Inr_iff concatBytes_concat)
    with assms(4-6) show ?thesis by (metis fields_determined)
  next
    case False
    with p q eq show ?thesis by (simp add: toHex_inj [OF assms(1)])
  qed
qed

text \<open>Hashing succeeds when every field does.\<close>

lemma hash_fields_total:
  assumes "hex_lib_ok L" "keccak_32 L" "list_all (\<lambda>r. \<exists>bs. r = Inr bs) rs"
  shows "\<exists>h. hash_fields L domain rs = Inr h \<and> commitment_ok h"
proof -
  have "rmap (\<lambda>r. r) rs = Inr (map projr rs)" by (rule rmap_total) (use assms(3) in \<open>auto simp: list_all_iff\<close>)
  then show ?thesis
    using assms by (simp add: hash_fields_def fields_preimage_def toHex_commitment_ok keccak_32_def)
qed

end
