(* ===== verification/Payroll_Book.thy ===== *)
theory Payroll_Book
  imports Fixed_Fields Payroll Calendar Reference_Lib
begin

text \<open>
  Model of \<open>lib/domain/universal-payroll-book.ts\<close>: the entries of the public payroll book, what
  makes an entry well formed for its kind, and the fixed-width commitments to an entry and to its
  totals.  Amounts and timestamps stay decimal texts, as in the source.
\<close>

section \<open>Entries\<close>

datatype entry_kind = Ordinary | Vesting_entry | Agent_entry | Claim | Remediation

fun PAYROLL_BOOK_ENTRY_KIND_CODE :: "entry_kind \<Rightarrow> int" where
  "PAYROLL_BOOK_ENTRY_KIND_CODE Ordinary = 0"
| "PAYROLL_BOOK_ENTRY_KIND_CODE Vesting_entry = 1"
| "PAYROLL_BOOK_ENTRY_KIND_CODE Agent_entry = 2"
| "PAYROLL_BOOK_ENTRY_KIND_CODE Claim = 3"
| "PAYROLL_BOOK_ENTRY_KIND_CODE Remediation = 4"

definition unixSecondsSchema :: "string \<Rightarrow> bool" where
  "unixSecondsSchema s = (canonical_dec s \<and> bigint s \<le> 0xffffffffffffffff)"

record book_totals =
  bt_grossAtomic :: string
  bt_deductionsAtomic :: string
  bt_netAtomic :: string

definition payrollBookTokenTotalsSchema :: "book_totals \<Rightarrow> bool" where
  "payrollBookTokenTotalsSchema t =
     (atomicAmount_ok (bt_grossAtomic t) \<and> atomicAmount_ok (bt_deductionsAtomic t) \<and> atomicAmount_ok (bt_netAtomic t)
      \<and> bigint (bt_grossAtomic t) - bigint (bt_deductionsAtomic t) = bigint (bt_netAtomic t))"

definition zeroTotals :: book_totals where
  "zeroTotals = \<lparr>bt_grossAtomic = ''0'', bt_deductionsAtomic = ''0'', bt_netAtomic = ''0''\<rparr>"

datatype totals_disclosure = Hidden | Public

record universal_entry =
  ue_entryKind :: entry_kind
  ue_chainId :: string
  ue_sealAddress :: string
  ue_sourceSealAddress :: string
  ue_ownerAddress :: string
  ue_periodStart :: string
  ue_periodEnd :: string
  ue_agreementRoot :: string
  ue_manifestRoot :: string
  ue_policyRoot :: string
  ue_fxRoot :: string
  ue_runNullifier :: string
  ue_subjectNullifier :: string
  ue_parentFactCommitment :: string
  ue_factCommitment :: string
  ue_sourceProofVersion :: int
  ue_attestationRoot :: string
  ue_contributorCount :: int
  ue_totalsDisclosure :: totals_disclosure
  ue_totalsCommitment :: string
  ue_totalsSTRK :: book_totals
  ue_totalsUSDC :: book_totals
  ue_vestingScheduleId :: string
  ue_vestingStateCommitment :: string

definition zero_text :: "string \<Rightarrow> bool" where
  "zero_text s = (bigint s = 0)"

definition payroll_entry :: "universal_entry \<Rightarrow> bool" where
  "payroll_entry e = (ue_entryKind e = Ordinary \<or> ue_entryKind e = Vesting_entry \<or> ue_entryKind e = Agent_entry)"

definition entry_amounts :: "universal_entry \<Rightarrow> string list" where
  "entry_amounts e =
     concat (map (\<lambda>t. [bt_grossAtomic t, bt_deductionsAtomic t, bt_netAtomic t]) [ue_totalsSTRK e, ue_totalsUSDC e])"

text \<open>The shape of the fields, the rules on roots and versions, on vesting, on facts, and on totals.\<close>

definition universal_entry_shape :: "universal_entry \<Rightarrow> bool" where
  "universal_entry_shape e =
     (list_all starknet_address_ok [ue_chainId e, ue_sealAddress e, ue_sourceSealAddress e, ue_ownerAddress e]
      \<and> unixSecondsSchema (ue_periodStart e) \<and> unixSecondsSchema (ue_periodEnd e)
      \<and> list_all commitment_ok
          [ue_agreementRoot e, ue_manifestRoot e, ue_policyRoot e, ue_fxRoot e, ue_runNullifier e, ue_subjectNullifier e,
           ue_parentFactCommitment e, ue_factCommitment e, ue_attestationRoot e, ue_totalsCommitment e,
           ue_vestingScheduleId e, ue_vestingStateCommitment e]
      \<and> 0 < ue_sourceProofVersion e \<and> ue_sourceProofVersion e \<le> 0xffffffff
      \<and> 0 < ue_contributorCount e \<and> ue_contributorCount e \<le> 50
      \<and> payrollBookTokenTotalsSchema (ue_totalsSTRK e) \<and> payrollBookTokenTotalsSchema (ue_totalsUSDC e))"

definition entry_roots_ok :: "universal_entry \<Rightarrow> bool" where
  "entry_roots_ok e =
     (\<not> bigint (ue_periodEnd e) \<le> bigint (ue_periodStart e)
      \<and> list_all (\<lambda>v. \<not> zero_text v)
          [ue_chainId e, ue_sealAddress e, ue_sourceSealAddress e, ue_ownerAddress e, ue_agreementRoot e,
           ue_runNullifier e, ue_subjectNullifier e, ue_totalsCommitment e]
      \<and> \<not> (ue_entryKind e \<noteq> Claim \<and> zero_text (ue_manifestRoot e))
      \<and> \<not> zero_text (ue_policyRoot e)
      \<and> \<not> (payroll_entry e \<and> ue_sourceProofVersion e \<noteq> 2)
      \<and> \<not> (ue_entryKind e = Claim \<and> ue_sourceProofVersion e \<noteq> 6)
      \<and> \<not> (ue_entryKind e = Remediation \<and> ue_sourceProofVersion e \<noteq> 7))"

definition entry_vesting_ok :: "universal_entry \<Rightarrow> bool" where
  "entry_vesting_ok e =
     (let hasSchedule = \<not> zero_text (ue_vestingScheduleId e); hasState = \<not> zero_text (ue_vestingStateCommitment e) in
      if ue_entryKind e = Vesting_entry then hasSchedule \<and> hasState else \<not> (hasSchedule \<or> hasState))"

definition entry_facts_ok :: "universal_entry \<Rightarrow> bool" where
  "entry_facts_ok e =
     (if payroll_entry e
      then bigint (ue_subjectNullifier e) = bigint (ue_runNullifier e)
        \<and> \<not> (\<not> zero_text (ue_parentFactCommitment e) \<or> \<not> zero_text (ue_factCommitment e))
      else \<not> (zero_text (ue_parentFactCommitment e) \<or> zero_text (ue_factCommitment e)))"

definition entry_totals_ok :: "universal_entry \<Rightarrow> bool" where
  "entry_totals_ok e =
     (\<not> (ue_totalsDisclosure e = Hidden \<and> list_ex (\<lambda>v. bigint v \<noteq> 0) (entry_amounts e))
      \<and> \<not> (ue_entryKind e = Claim \<and> list_ex (\<lambda>v. bigint v \<noteq> 0) (entry_amounts e))
      \<and> \<not> (ue_entryKind e = Claim \<and> ue_totalsDisclosure e \<noteq> Hidden)
      \<and> \<not> (ue_entryKind e \<noteq> Claim \<and> ue_totalsDisclosure e = Public
            \<and> bigint (bt_netAtomic (ue_totalsSTRK e)) + bigint (bt_netAtomic (ue_totalsUSDC e)) = 0))"

definition universalPayrollBookEntrySchema :: "universal_entry \<Rightarrow> bool" where
  "universalPayrollBookEntrySchema e =
     (universal_entry_shape e \<and> entry_roots_ok e \<and> entry_vesting_ok e \<and> entry_facts_ok e \<and> entry_totals_ok e)"

definition hiddenPayrollBookTotals :: "book_totals \<times> book_totals" where
  "hiddenPayrollBookTotals = (zeroTotals, zeroTotals)"

section \<open>Salts, periods and commitments\<close>

definition commitment_field :: "lib \<Rightarrow> string \<Rightarrow> byte list result" where
  "commitment_field L value =
     rbind (zod ''commitmentSchema'' commitment_ok value) (\<lambda>v. normalizedHexBytes L v (Some 32))"

definition derivePayrollBookTotalsSalt :: "lib \<Rightarrow> string \<Rightarrow> string \<Rightarrow> string result" where
  "derivePayrollBookTotalsSalt L organizationSecret runNullifier =
     hash_fields L ''PAYO_PAYROLL_BOOK_TOTALS_SALT_V1''
       [commitment_field L organizationSecret, commitment_field L runNullifier]"

definition deriveExceptionBookTotalsSalt :: "lib \<Rightarrow> string \<Rightarrow> string \<Rightarrow> string result" where
  "deriveExceptionBookTotalsSalt L privateSecret subjectNullifier =
     hash_fields L ''PAYO_EXCEPTION_BOOK_TOTALS_SALT_V1''
       [commitment_field L privateSecret, commitment_field L subjectNullifier]"

text \<open>
  \<open>BigInt(unixSeconds)\<close> is the argument; the last year a \<open>Date\<close> can hold has no next year, so
  \<open>BigInt(NaN)\<close> throws there.
\<close>

definition utcAnnualPayrollBookPeriod :: "int \<Rightarrow> (int \<times> int) result" where
  "utcAnnualPayrollBookPeriod seconds =
     (if seconds < 0 \<or> 8640000000000 < seconds
      then Inl (Thrown ''Payroll-book timestamp is outside the supported Date range.'')
      else let year = getUTCFullYear (seconds * 1000);
               nextYear = Date_UTC (year + 1) 0 1 0
        in if 8640000000000000 < nextYear then Inl (Thrown ''RangeError'')
           else Inr (Date_UTC year 0 1 0 div 1000, nextYear div 1000))"

definition totals_fields :: "book_totals \<Rightarrow> byte list result list" where
  "totals_fields t =
     [encodeUint (bigint (bt_grossAtomic t)) 16, encodeUint (bigint (bt_deductionsAtomic t)) 16,
      encodeUint (bigint (bt_netAtomic t)) 16]"

definition payrollBookTotalsCommitment ::
    "lib \<Rightarrow> string \<Rightarrow> int \<Rightarrow> book_totals \<Rightarrow> book_totals \<Rightarrow> string \<Rightarrow> string result" where
  "payrollBookTotalsCommitment L subjectNullifier contributorCount totalsSTRK totalsUSDC salt' =
     rbind (zod ''payrollBookTokenTotalsSchema'' payrollBookTokenTotalsSchema totalsSTRK) (\<lambda>strk.
     rbind (zod ''payrollBookTokenTotalsSchema'' payrollBookTokenTotalsSchema totalsUSDC) (\<lambda>usdc.
     if contributorCount < 1 \<or> 50 < contributorCount
     then Inl (Thrown ''Payroll-book contributor count must be between 1 and 50.'')
     else hash_fields L ''PAYO_PAYROLL_BOOK_TOTALS_V1''
       ([commitment_field L subjectNullifier, encodeU32 contributorCount]
        @ totals_fields strk @ totals_fields usdc @ [commitment_field L salt'])))"

definition fixed32 :: "lib \<Rightarrow> string \<Rightarrow> byte list result" where
  "fixed32 L value = rbind (zod ''commitmentSchema'' commitment_ok value) (\<lambda>v. normalizedHexBytes L v (Some 32))"

definition address32 :: "string \<Rightarrow> byte list result" where
  "address32 value =
     rbind (zod ''starknetAddressSchema'' starknet_address_ok value) (\<lambda>v. encodeUint (bigint v) 32)"

definition universal_entry_fields :: "lib \<Rightarrow> universal_entry \<Rightarrow> byte list result list" where
  "universal_entry_fields L entry =
     [address32 (ue_chainId entry), address32 (ue_sealAddress entry), address32 (ue_sourceSealAddress entry),
      address32 (ue_ownerAddress entry),
      encodeUint (bigint (ue_periodStart entry)) 8, encodeUint (bigint (ue_periodEnd entry)) 8,
      encodeUint (PAYROLL_BOOK_ENTRY_KIND_CODE (ue_entryKind entry)) 1,
      fixed32 L (ue_agreementRoot entry), fixed32 L (ue_manifestRoot entry), fixed32 L (ue_policyRoot entry),
      fixed32 L (ue_fxRoot entry), fixed32 L (ue_runNullifier entry), fixed32 L (ue_subjectNullifier entry),
      fixed32 L (ue_parentFactCommitment entry), fixed32 L (ue_factCommitment entry),
      encodeU32 (ue_sourceProofVersion entry), fixed32 L (ue_attestationRoot entry),
      encodeU32 (ue_contributorCount entry),
      encodeUint (if ue_totalsDisclosure entry = Public then 1 else 0) 1, fixed32 L (ue_totalsCommitment entry)]
     @ totals_fields (ue_totalsSTRK entry) @ totals_fields (ue_totalsUSDC entry)
     @ [fixed32 L (ue_vestingScheduleId entry), fixed32 L (ue_vestingStateCommitment entry)]"

definition universalPayrollBookEntryCommitment :: "lib \<Rightarrow> universal_entry \<Rightarrow> string result" where
  "universalPayrollBookEntryCommitment L input =
     rbind (zod ''universalPayrollBookEntrySchema'' universalPayrollBookEntrySchema input) (\<lambda>entry.
     hash_fields L ''PAYO_PAYROLL_BOOK_ENTRY_V2'' (universal_entry_fields L entry))"

section \<open>What a commitment determines\<close>

lemma field_spec_zod: "field_spec (f x) wv \<Longrightarrow> field_spec (rbind (zod name ok x) f) wv"
  by (cases "ok x") (auto simp: field_spec_def)

lemma commitment_num: "commitment_ok s \<Longrightarrow> hex_num s = bigint s"
  by (simp add: hex_num_bigint)

lemma field_spec_fixed32: "hex_lib_ok L \<Longrightarrow> field_spec (fixed32 L s) (32, bigint s)"
  by (cases "commitment_ok s") (auto simp: fixed32_def field_spec_def dest!: normalizedHexBytes_Inr commitment_num)

lemma field_spec_commitment: "hex_lib_ok L \<Longrightarrow> field_spec (commitment_field L s) (32, bigint s)"
  using field_spec_fixed32 by (simp add: fixed32_def commitment_field_def)

lemma field_spec_address: "field_spec (address32 s) (32, bigint s)"
  unfolding address32_def by (rule field_spec_zod) (rule field_spec_uint)

text \<open>An entry as numbers, each with the width of its field.\<close>

definition totals_values :: "book_totals \<Rightarrow> (nat \<times> int) list" where
  "totals_values t = [(16, bigint (bt_grossAtomic t)), (16, bigint (bt_deductionsAtomic t)), (16, bigint (bt_netAtomic t))]"

definition entry_values :: "universal_entry \<Rightarrow> (nat \<times> int) list" where
  "entry_values e =
     [(32, bigint (ue_chainId e)), (32, bigint (ue_sealAddress e)), (32, bigint (ue_sourceSealAddress e)),
      (32, bigint (ue_ownerAddress e)), (8, bigint (ue_periodStart e)), (8, bigint (ue_periodEnd e)),
      (1, PAYROLL_BOOK_ENTRY_KIND_CODE (ue_entryKind e)), (32, bigint (ue_agreementRoot e)),
      (32, bigint (ue_manifestRoot e)), (32, bigint (ue_policyRoot e)), (32, bigint (ue_fxRoot e)),
      (32, bigint (ue_runNullifier e)), (32, bigint (ue_subjectNullifier e)), (32, bigint (ue_parentFactCommitment e)),
      (32, bigint (ue_factCommitment e)), (4, ue_sourceProofVersion e), (32, bigint (ue_attestationRoot e)),
      (4, ue_contributorCount e), (1, if ue_totalsDisclosure e = Public then 1 else 0), (32, bigint (ue_totalsCommitment e))]
     @ totals_values (ue_totalsSTRK e) @ totals_values (ue_totalsUSDC e)
     @ [(32, bigint (ue_vestingScheduleId e)), (32, bigint (ue_vestingStateCommitment e))]"

lemma universal_entry_specs:
  "hex_lib_ok L \<Longrightarrow> list_all2 field_spec (universal_entry_fields L e) (entry_values e)"
  by (simp add: universal_entry_fields_def entry_values_def totals_fields_def totals_values_def field_specs
      field_spec_fixed32 field_spec_address)

lemma entry_widths: "map fst (entry_values e) = map fst (entry_values f)"
  by (simp add: entry_values_def totals_values_def)

lemma kind_code_inj: "PAYROLL_BOOK_ENTRY_KIND_CODE k = PAYROLL_BOOK_ENTRY_KIND_CODE l \<longleftrightarrow> k = l"
  by (cases k; cases l) simp_all

section \<open>Properties\<close>

lemma fixed32_total: "hex_lib_ok L \<Longrightarrow> commitment_ok s \<Longrightarrow> \<exists>bs. fixed32 L s = Inr bs"
  using normalizedHexBytes_commitment by (simp add: fixed32_def)

lemma encodeUint_exists: "0 \<le> v \<Longrightarrow> v < 256 ^ n \<Longrightarrow> \<exists>bs. encodeUint v n = Inr bs"
  by (rule encodeUint_total)

lemma encodeUint_amount: "atomicAmount_ok s \<Longrightarrow> \<exists>bs. encodeUint (bigint s) 16 = Inr bs"
  by (rule encodeUint_total) (simp_all add: atomicAmount_ok_iff PAYO_MAX_U128_value)

lemma encodeUint_seconds: "unixSecondsSchema s \<Longrightarrow> \<exists>bs. encodeUint (bigint s) 8 = Inr bs"
  by (rule encodeUint_total) (simp_all add: unixSecondsSchema_def)

lemma encodeU32_total: "0 \<le> v \<Longrightarrow> v \<le> 0xffffffff \<Longrightarrow> \<exists>bs. encodeU32 v = Inr bs"
  by (simp add: encodeU32_def)

lemma totals_fields_total:
  "payrollBookTokenTotalsSchema t \<Longrightarrow> list_all (\<lambda>r. \<exists>bs. r = Inr bs) (totals_fields t)"
  by (simp add: totals_fields_def payrollBookTokenTotalsSchema_def encodeUint_amount)

lemma universal_commitment_total:
  assumes "hex_lib_ok L" "keccak_32 L" "universalPayrollBookEntrySchema e"
    and "list_all (\<lambda>a. bigint a < 256 ^ 32) [ue_chainId e, ue_sealAddress e, ue_sourceSealAddress e, ue_ownerAddress e]"
  shows "\<exists>h. universalPayrollBookEntryCommitment L e = Inr h \<and> commitment_ok h"
proof -
  have shape: "universal_entry_shape e" using assms(3) by (simp add: universalPayrollBookEntrySchema_def)
  have address: "\<exists>bs. address32 a = Inr bs" if "starknet_address_ok a" "bigint a < 256 ^ 32" for a
    using that encodeUint_total [of "bigint a" 32] by (simp add: address32_def)
  have "\<exists>bs. encodeUint (PAYROLL_BOOK_ENTRY_KIND_CODE (ue_entryKind e)) 1 = Inr bs"
    by (rule encodeUint_total) (cases "ue_entryKind e"; simp)+
  moreover have "\<exists>bs. encodeUint (if ue_totalsDisclosure e = Public then 1 else 0) 1 = Inr bs"
    by (rule encodeUint_total) simp_all
  ultimately have "list_all (\<lambda>r. \<exists>bs. r = Inr bs) (universal_entry_fields L e)"
    using shape assms(1,4)
    by (simp add: universal_entry_shape_def universal_entry_fields_def fixed32_total encodeUint_seconds
        encodeU32_total totals_fields_total address del: power_numeral)
  with hash_fields_total [OF assms(1,2) this] assms(3) show ?thesis
    by (simp add: universalPayrollBookEntryCommitment_def)
qed

text \<open>A leaf of the public payroll book binds everything it commits to.  Two well-formed entries
  with the same commitment agree in every field as a number (addresses and roots however they are
  spelled, period, kind, versions, contributors, disclosure mode, all six totals, vesting state), or the
  byte strings hashed for the two entries are different and collide under Keccak.\<close>

theorem book_entry_binding:
  assumes "hex_lib_ok L" "universalPayrollBookEntryCommitment L e = Inr h" "universalPayrollBookEntryCommitment L f = Inr h"
  shows "entry_values e = entry_values f
    \<or> (\<exists>p q. fields_preimage ''PAYO_PAYROLL_BOOK_ENTRY_V2'' (universal_entry_fields L e) = Inr p
          \<and> fields_preimage ''PAYO_PAYROLL_BOOK_ENTRY_V2'' (universal_entry_fields L f) = Inr q
          \<and> p \<noteq> q \<and> keccak_256 L p = keccak_256 L q)"
proof -
  from assms(2,3) have "hash_fields L ''PAYO_PAYROLL_BOOK_ENTRY_V2'' (universal_entry_fields L e) = Inr h"
    "hash_fields L ''PAYO_PAYROLL_BOOK_ENTRY_V2'' (universal_entry_fields L f) = Inr h"
    by (auto simp: universalPayrollBookEntryCommitment_def rbind_Inr_iff)
  from hash_fields_binding [OF assms(1) this universal_entry_specs [OF assms(1)] universal_entry_specs [OF assms(1)]
      entry_widths] entry_widths [of e f]
  show ?thesis by (metis zip_map_fst_snd)
qed

definition example_commitment :: "char \<Rightarrow> string" where
  "example_commitment c = ''0x'' @ replicate 64 c"

definition example_entry :: "char \<Rightarrow> universal_entry" where
  "example_entry c = \<lparr>ue_entryKind = Ordinary, ue_chainId = ''0x1'', ue_sealAddress = ''0x2'', ue_sourceSealAddress = ''0x3'',
     ue_ownerAddress = ''0x4'', ue_periodStart = ''0'', ue_periodEnd = ''10'', ue_agreementRoot = example_commitment c,
     ue_manifestRoot = example_commitment c, ue_policyRoot = example_commitment c, ue_fxRoot = example_commitment c,
     ue_runNullifier = example_commitment c, ue_subjectNullifier = example_commitment c,
     ue_parentFactCommitment = example_commitment (CHR ''0''), ue_factCommitment = example_commitment (CHR ''0''),
     ue_sourceProofVersion = 2, ue_attestationRoot = example_commitment c, ue_contributorCount = 1,
     ue_totalsDisclosure = Hidden, ue_totalsCommitment = example_commitment c, ue_totalsSTRK = zeroTotals,
     ue_totalsUSDC = zeroTotals, ue_vestingScheduleId = example_commitment (CHR ''0''),
     ue_vestingStateCommitment = example_commitment (CHR ''0'')\<rparr>"

lemma book_example_texts:
  "list_all (\<lambda>c. commitment_ok (example_commitment c)) [CHR ''0'', CHR ''a'', CHR ''A'']"
  "bigint (example_commitment (CHR ''0'')) = 0"
  "bigint (example_commitment (CHR ''a'')) = bigint (example_commitment (CHR ''A''))"
  "bigint (example_commitment (CHR ''A'')) \<noteq> 0"
  "list_all (\<lambda>a. starknet_address_ok a \<and> bigint a \<noteq> 0) [''0x1'', ''0x2'', ''0x3'', ''0x4'']"
  "unixSecondsSchema ''0''" "unixSecondsSchema ''10''" "bigint ''0'' = 0" "bigint ''10'' = 10"
  "payrollBookTokenTotalsSchema zeroTotals"
  by code_simp+

lemma example_entry_ok:
  "universalPayrollBookEntrySchema (example_entry (CHR ''a''))" "universalPayrollBookEntrySchema (example_entry (CHR ''A''))"
  using book_example_texts
  by (simp_all add: universalPayrollBookEntrySchema_def universal_entry_shape_def entry_roots_ok_def entry_vesting_ok_def
      entry_facts_ok_def entry_totals_ok_def payroll_entry_def zero_text_def entry_amounts_def example_entry_def zeroTotals_def)

lemma example_entry_addresses:
  "list_all (\<lambda>a. bigint a < 256 ^ 32) [ue_chainId (example_entry c), ue_sealAddress (example_entry c),
     ue_sourceSealAddress (example_entry c), ue_ownerAddress (example_entry c)]"
  by (simp add: example_entry_def bigint_def value_base_def hex_val_def)

lemma example_entry_same: "universal_entry_fields ref_lib (example_entry (CHR ''A'')) = universal_entry_fields ref_lib (example_entry (CHR ''a''))"
proof -
  have "fixed32 ref_lib (example_commitment (CHR ''A'')) = fixed32 ref_lib (example_commitment (CHR ''a''))" by code_simp
  then show ?thesis by (simp add: universal_entry_fields_def example_entry_def)
qed

theorem book_entry_binding_witness:
  "\<exists>h. universalPayrollBookEntryCommitment ref_lib (example_entry (CHR ''A'')) = Inr h
     \<and> universalPayrollBookEntryCommitment ref_lib (example_entry (CHR ''a'')) = Inr h
     \<and> entry_values (example_entry (CHR ''A'')) = entry_values (example_entry (CHR ''a''))"
proof -
  from universal_commitment_total [OF ref_lib_hex ref_lib_keccak example_entry_ok(1) example_entry_addresses]
  obtain h where h: "universalPayrollBookEntryCommitment ref_lib (example_entry (CHR ''a'')) = Inr h" by blast
  then have "universalPayrollBookEntryCommitment ref_lib (example_entry (CHR ''A'')) = Inr h"
    using example_entry_ok by (simp add: universalPayrollBookEntryCommitment_def example_entry_same)
  from book_entry_binding [OF ref_lib_hex this h] h this show ?thesis by (auto simp: example_entry_same)
qed

end
