(* ===== verification/Vesting_Book.thy ===== *)
theory Vesting_Book
  imports Payroll_Book Schedules
begin

text \<open>
  Model of \<open>lib/domain/vesting-tax.ts\<close>: the private vesting schedule, what has vested, the
  transition a release makes, and the complete payroll book of a period, which an auditor replays
  against the accumulator on chain.
\<close>

section \<open>Vesting schedules and states\<close>

record vesting_terms =
  vt_agreementIdCommitment :: string
  vt_recipientCommitment :: string
  vt_tokenAddress :: string
  vt_startsAt :: string
  vt_cliffAt :: string
  vt_endsAt :: string
  vt_totalAtomic :: string
  vt_planSalt :: string

definition vestingScheduleTermsSchema :: "vesting_terms \<Rightarrow> bool" where
  "vestingScheduleTermsSchema t =
     (commitment_ok (vt_agreementIdCommitment t) \<and> commitment_ok (vt_recipientCommitment t)
      \<and> starknet_address_ok (vt_tokenAddress t)
      \<and> unixSecondsSchema (vt_startsAt t) \<and> unixSecondsSchema (vt_cliffAt t) \<and> unixSecondsSchema (vt_endsAt t)
      \<and> atomicAmount_ok (vt_totalAtomic t) \<and> commitment_ok (vt_planSalt t)
      \<and> (let start = bigint (vt_startsAt t); cliff = bigint (vt_cliffAt t); finish = bigint (vt_endsAt t) in
         \<not> cliff < start \<and> \<not> (finish \<le> start \<or> finish < cliff) \<and> bigint (vt_totalAtomic t) \<noteq> 0))"

record vesting_state =
  vs_scheduleId :: string
  vs_releasedAtomic :: string
  vs_releaseSequence :: int
  vs_stateSalt :: string

definition vestingStateSchema :: "vesting_state \<Rightarrow> bool" where
  "vestingStateSchema s =
     (commitment_ok (vs_scheduleId s) \<and> atomicAmount_ok (vs_releasedAtomic s) \<and> uint32_ok (vs_releaseSequence s)
      \<and> commitment_ok (vs_stateSalt s))"

record vesting_transition =
  vr_schedule :: vesting_terms
  vr_previous :: vesting_state
  vr_releaseAt :: string
  vr_payableAtomic :: string
  vr_next :: vesting_state
  vr_runNullifier :: string

definition vestingTransitionSchema :: "vesting_transition \<Rightarrow> bool" where
  "vestingTransitionSchema t =
     (vestingScheduleTermsSchema (vr_schedule t) \<and> vestingStateSchema (vr_previous t) \<and> unixSecondsSchema (vr_releaseAt t)
      \<and> atomicAmount_ok (vr_payableAtomic t) \<and> vestingStateSchema (vr_next t) \<and> commitment_ok (vr_runNullifier t))"

section \<open>Commitments\<close>

definition STARK_FIELD_PRIME :: int where
  "STARK_FIELD_PRIME = 2 ^ 251 + 17 * 2 ^ 192 + 1"

definition PAYO_ZERO_COMMITMENT :: string where
  "PAYO_ZERO_COMMITMENT = ''0x'' @ concat (replicate 32 ''00'')"

definition addressBytes :: "string \<Rightarrow> byte list result" where
  "addressBytes value =
     (let parsed = bigint value in
      if parsed < 0 \<or> STARK_FIELD_PRIME \<le> parsed then Inl (Thrown ''Address is outside the Starknet field.'')
      else encodeUint parsed 32)"

definition commitmentBytes :: "lib \<Rightarrow> string \<Rightarrow> byte list result" where
  "commitmentBytes L value =
     rbind (zod ''commitmentSchema'' commitment_ok value) (\<lambda>v. normalizedHexBytes L v (Some 32))"

definition commitmentLimbs :: "lib \<Rightarrow> string \<Rightarrow> (int \<times> int) result" where
  "commitmentLimbs L value =
     rbind (commitmentBytes L value) (\<lambda>bytes. Inr (bigint (toHex L (take 16 bytes)), bigint (toHex L (drop 16 bytes))))"

definition poseidon :: "lib \<Rightarrow> int list \<Rightarrow> int" where
  "poseidon L values = bigint (computePoseidonHashOnElements L values)"

definition feltCommitment :: "lib \<Rightarrow> int \<Rightarrow> string result" where
  "feltCommitment L value = rbind (encodeUint value 32) (\<lambda>bytes. Inr (toHex L bytes))"

definition vestingScheduleId :: "lib \<Rightarrow> vesting_terms \<Rightarrow> string result" where
  "vestingScheduleId L input =
     rbind (zod ''vestingScheduleTermsSchema'' vestingScheduleTermsSchema input) (\<lambda>terms.
     hash_fields L ''PAYO_VESTING_SCHEDULE_V1''
       [commitmentBytes L (vt_agreementIdCommitment terms), commitmentBytes L (vt_recipientCommitment terms),
        addressBytes (vt_tokenAddress terms),
        encodeUint (bigint (vt_startsAt terms)) 8, encodeUint (bigint (vt_cliffAt terms)) 8,
        encodeUint (bigint (vt_endsAt terms)) 8, encodeUint (bigint (vt_totalAtomic terms)) 16,
        commitmentBytes L (vt_planSalt terms)])"

definition vestingStateSalt :: "lib \<Rightarrow> string \<Rightarrow> int \<Rightarrow> string result" where
  "vestingStateSalt L planSalt releaseSequence =
     (if releaseSequence < 0 \<or> 0xffffffff < releaseSequence
      then Inl (Thrown ''Vesting state-salt sequence must fit in u32.'')
      else hash_fields L ''PAYO_VESTING_STATE_SALT_V1'' [commitmentBytes L planSalt, encodeU32 releaseSequence])"

definition vestingStateCommitment :: "lib \<Rightarrow> vesting_state \<Rightarrow> string result" where
  "vestingStateCommitment L input =
     rbind (zod ''vestingStateSchema'' vestingStateSchema input) (\<lambda>state.
     hash_fields L ''PAYO_VESTING_STATE_V1''
       [commitmentBytes L (vs_scheduleId state), encodeUint (bigint (vs_releasedAtomic state)) 16,
        encodeU32 (vs_releaseSequence state), commitmentBytes L (vs_stateSalt state)])"

section \<open>Vesting\<close>

definition vestedAt :: "vesting_terms \<Rightarrow> int \<Rightarrow> int result" where
  "vestedAt input at =
     rbind (zod ''vestingScheduleTermsSchema'' vestingScheduleTermsSchema input) (\<lambda>schedule.
     let start = bigint (vt_startsAt schedule); cliff = bigint (vt_cliffAt schedule);
         finish = bigint (vt_endsAt schedule); total = bigint (vt_totalAtomic schedule) in
     if at < cliff then Inr 0
     else if finish \<le> at then Inr total
     else if at \<le> start then Inr 0
     else let elapsed = at - start; duration = finish - start in
       Inr (bdiv total duration * elapsed + bdiv (bmod total duration * elapsed) duration))"

definition vestingReleaseNullifier :: "lib \<Rightarrow> string \<Rightarrow> int \<Rightarrow> int \<Rightarrow> string \<Rightarrow> string \<Rightarrow> string result" where
  "vestingReleaseNullifier L scheduleId nextSequence releaseAt newStateCommitment runNullifier =
     (if nextSequence < 1 \<or> 0xffffffff < nextSequence
      then Inl (Thrown ''Vesting release sequence must be a positive u32.'')
      else hash_fields L ''PAYO_VESTING_RELEASE_V1''
        [commitmentBytes L scheduleId, encodeU32 nextSequence, encodeUint releaseAt 8,
         commitmentBytes L newStateCommitment, commitmentBytes L runNullifier])"

record asserted_transition =
  av_scheduleId :: string
  av_previousStateCommitment :: string
  av_nextStateCommitment :: string
  av_releaseNullifier :: string

definition assertVestingTransition :: "lib \<Rightarrow> vesting_transition \<Rightarrow> asserted_transition result" where
  "assertVestingTransition L input =
     rbind (zod ''vestingTransitionSchema'' vestingTransitionSchema input) (\<lambda>transition.
     rbind (vestingScheduleId L (vr_schedule transition)) (\<lambda>scheduleId.
     if bigint (vs_scheduleId (vr_previous transition)) \<noteq> bigint scheduleId
       \<or> bigint (vs_scheduleId (vr_next transition)) \<noteq> bigint scheduleId
     then Inl (Thrown ''Vesting state is bound to a different immutable schedule.'')
     else let releaseAt = bigint (vr_releaseAt transition) in
       if releaseAt < bigint (vt_cliffAt (vr_schedule transition))
       then Inl (Thrown ''Vesting release precedes its cliff.'')
       else if bigint (vt_endsAt (vr_schedule transition)) < releaseAt
       then Inl (Thrown ''Vesting release exceeds its end.'')
       else if vs_releaseSequence (vr_next transition) \<noteq> vs_releaseSequence (vr_previous transition) + 1
       then Inl (Thrown ''Vesting release sequence must increment exactly once.'')
       else rbind (vestedAt (vr_schedule transition) releaseAt) (\<lambda>earned.
         let released = bigint (vs_releasedAtomic (vr_previous transition));
             payable = bigint (vr_payableAtomic transition) in
         if earned \<le> released then Inl (Thrown ''Vesting schedule has no unreleased value.'')
         else if payable \<noteq> earned - released
         then Inl (Thrown ''Vesting payment is not the exact unpaid vested delta.'')
         else if bigint (vs_releasedAtomic (vr_next transition)) \<noteq> earned
         then Inl (Thrown ''Next vesting state does not record the cumulative earned amount.'')
         else rbind (if vs_releaseSequence (vr_previous transition) = 0 \<and> released = 0
                     then Inr PAYO_ZERO_COMMITMENT
                     else vestingStateCommitment L (vr_previous transition)) (\<lambda>previousStateCommitment.
           rbind (vestingStateCommitment L (vr_next transition)) (\<lambda>nextStateCommitment.
           rbind (vestingReleaseNullifier L scheduleId (vs_releaseSequence (vr_next transition)) releaseAt
                    nextStateCommitment (vr_runNullifier transition)) (\<lambda>releaseNullifier.
           Inr \<lparr>av_scheduleId = scheduleId, av_previousStateCommitment = previousStateCommitment,
                av_nextStateCommitment = nextStateCommitment, av_releaseNullifier = releaseNullifier\<rparr>))))))"

section \<open>The complete book of a period\<close>

record legacy_entry =
  le_chainId :: string
  le_sealAddress :: string
  le_ownerAddress :: string
  le_periodStart :: string
  le_periodEnd :: string
  le_agreementRoot :: string
  le_manifestRoot :: string
  le_runNullifier :: string
  le_payrollProofVersion :: int
  le_vestingScheduleId :: string
  le_vestingStateCommitment :: string

definition legacyPayrollBookEntrySchema :: "legacy_entry \<Rightarrow> bool" where
  "legacyPayrollBookEntrySchema e =
     (list_all starknet_address_ok [le_chainId e, le_sealAddress e, le_ownerAddress e]
      \<and> unixSecondsSchema (le_periodStart e) \<and> unixSecondsSchema (le_periodEnd e)
      \<and> list_all commitment_ok [le_agreementRoot e, le_manifestRoot e, le_runNullifier e, le_vestingScheduleId e,
                                le_vestingStateCommitment e]
      \<and> uint32_ok (le_payrollProofVersion e) \<and> 0 < le_payrollProofVersion e
      \<and> \<not> bigint (le_periodEnd e) \<le> bigint (le_periodStart e)
      \<and> (let hasSchedule = (bigint (le_vestingScheduleId e) \<noteq> 0);
             hasState = (bigint (le_vestingStateCommitment e) \<noteq> 0) in hasSchedule = hasState))"

datatype book_entry = Universal universal_entry | Legacy legacy_entry

fun payrollBookEntrySchema :: "book_entry \<Rightarrow> bool" where
  "payrollBookEntrySchema (Universal e) = universalPayrollBookEntrySchema e"
| "payrollBookEntrySchema (Legacy e) = legacyPayrollBookEntrySchema e"

text \<open>Chain, seal, owner, period start and period end of an entry; the key that makes its run unique.\<close>

fun entry_owner :: "book_entry \<Rightarrow> string \<times> string \<times> string \<times> string \<times> string" where
  "entry_owner (Universal e) =
     (ue_chainId e, ue_sealAddress e, ue_ownerAddress e, ue_periodStart e, ue_periodEnd e)"
| "entry_owner (Legacy e) =
     (le_chainId e, le_sealAddress e, le_ownerAddress e, le_periodStart e, le_periodEnd e)"

fun run_key :: "book_entry \<Rightarrow> string" where
  "run_key (Universal e) = toLowerCase (ue_subjectNullifier e)"
| "run_key (Legacy e) = toLowerCase (le_runNullifier e)"

record book_checkpoint =
  ck_chainId :: string
  ck_sealAddress :: string
  ck_ownerAddress :: string
  ck_periodStart :: string
  ck_periodEnd :: string
  ck_entryCount :: int
  ck_accumulatorRoot :: string

definition payrollBookCheckpointSchema :: "book_checkpoint \<Rightarrow> bool" where
  "payrollBookCheckpointSchema c =
     (starknet_address_ok (ck_chainId c) \<and> starknet_address_ok (ck_sealAddress c) \<and> starknet_address_ok (ck_ownerAddress c)
      \<and> unixSecondsSchema (ck_periodStart c) \<and> unixSecondsSchema (ck_periodEnd c) \<and> uint32_ok (ck_entryCount c)
      \<and> commitment_ok (ck_accumulatorRoot c))"

record disclosure_line =
  dl_recipientReference :: string
  dl_jurisdictionCode :: string
  dl_token :: token
  dl_grossAtomic :: string
  dl_deductionsAtomic :: string
  dl_netAtomic :: string

definition payrollBookDisclosureLineSchema :: "disclosure_line \<Rightarrow> bool" where
  "payrollBookDisclosureLineSchema l =
     (length_between 1 240 (dl_recipientReference l) \<and> jurisdiction_ok (dl_jurisdictionCode l)
      \<and> atomicAmount_ok (dl_grossAtomic l) \<and> atomicAmount_ok (dl_deductionsAtomic l) \<and> atomicAmount_ok (dl_netAtomic l)
      \<and> bigint (dl_grossAtomic l) - bigint (dl_deductionsAtomic l) = bigint (dl_netAtomic l))"

record disclosure_entry =
  de_index :: int
  de_entry :: book_entry
  de_entryCommitment :: string
  de_lines :: "disclosure_line list"
  de_integrityVerificationTransactionHash :: string
  de_settlementTransactionHash :: string

definition payrollBookDisclosureEntrySchema :: "disclosure_entry \<Rightarrow> bool" where
  "payrollBookDisclosureEntrySchema d =
     (uint32_ok (de_index d) \<and> payrollBookEntrySchema (de_entry d) \<and> commitment_ok (de_entryCommitment d)
      \<and> 1 \<le> length (de_lines d) \<and> length (de_lines d) \<le> 50 \<and> list_all payrollBookDisclosureLineSchema (de_lines d)
      \<and> starknet_address_ok (de_integrityVerificationTransactionHash d)
      \<and> starknet_address_ok (de_settlementTransactionHash d))"

datatype book_scope = Employer_scope | Tax_authority_scope

record complete_book =
  pb_scope :: book_scope
  pb_checkpoint :: book_checkpoint
  pb_entries :: "disclosure_entry list"
  pb_generatedAt :: string

definition completePayrollBookSchema :: "complete_book \<Rightarrow> bool" where
  "completePayrollBookSchema b =
     (payrollBookCheckpointSchema (pb_checkpoint b) \<and> list_all payrollBookDisclosureEntrySchema (pb_entries b)
      \<and> datetime_ok (pb_generatedAt b))"

definition payrollBookEntryCommitment :: "lib \<Rightarrow> book_entry \<Rightarrow> string result" where
  "payrollBookEntryCommitment L input =
     rbind (zod ''payrollBookEntrySchema'' payrollBookEntrySchema input) (\<lambda>entry.
     case entry of
       Universal e \<Rightarrow> universalPayrollBookEntryCommitment L e
     | Legacy e \<Rightarrow> hash_fields L ''PAYO_PAYROLL_BOOK_ENTRY_V1''
         [addressBytes (le_chainId e), addressBytes (le_sealAddress e), addressBytes (le_ownerAddress e),
          encodeUint (bigint (le_periodStart e)) 8, encodeUint (bigint (le_periodEnd e)) 8,
          commitmentBytes L (le_agreementRoot e), commitmentBytes L (le_manifestRoot e),
          commitmentBytes L (le_runNullifier e), encodeU32 (le_payrollProofVersion e),
          commitmentBytes L (le_vestingScheduleId e), commitmentBytes L (le_vestingStateCommitment e)])"

definition initialPayrollBookRoot :: "lib \<Rightarrow> book_checkpoint \<Rightarrow> string result" where
  "initialPayrollBookRoot L input =
     rbind (zod ''starknetAddressSchema'' starknet_address_ok (ck_chainId input)) (\<lambda>chainId.
     rbind (zod ''starknetAddressSchema'' starknet_address_ok (ck_sealAddress input)) (\<lambda>sealAddress.
     rbind (zod ''starknetAddressSchema'' starknet_address_ok (ck_ownerAddress input)) (\<lambda>owner.
     let start = bigint (ck_periodStart input); finish = bigint (ck_periodEnd input) in
     if finish \<le> start then Inl (Thrown ''Book period end must follow its start.'')
     else feltCommitment L (poseidon L
       [bigint (encodeShortString L ''PAYO_BOOK_V1''), bigint chainId, bigint sealAddress, bigint owner, start, finish]))))"

definition append_inputs :: "lib \<Rightarrow> string \<Rightarrow> string \<Rightarrow> int \<Rightarrow> int list result" where
  "append_inputs L previousRoot entryCommitment index =
     (if index < 0 \<or> 0xffffffff < index then Inl (Thrown ''Payroll-book index must fit in u32.'')
      else rbind (zod ''commitmentSchema'' commitment_ok previousRoot) (\<lambda>p.
        let previous = bigint p in
        if STARK_FIELD_PRIME \<le> previous then Inl (Thrown ''Payroll-book root is outside the Starknet field.'')
        else rbind (commitmentLimbs L entryCommitment) (\<lambda>(high, low).
          Inr [bigint (encodeShortString L ''PAYO_BOOK_ADD_V1''), previous, high, low, index])))"

definition appendPayrollBookRoot :: "lib \<Rightarrow> string \<Rightarrow> string \<Rightarrow> int \<Rightarrow> string result" where
  "appendPayrollBookRoot L previousRoot entryCommitment index =
     rbind (append_inputs L previousRoot entryCommitment index) (\<lambda>values. feltCommitment L (poseidon L values))"

text \<open>The loop state of \<open>verifyCompletePayrollBook\<close>: the root so far, the run keys seen, the totals.\<close>

record amounts =
  am_gross :: int
  am_deductions :: int
  am_net :: int

record book_loop =
  bl_root :: string
  bl_runs :: "string set"
  bl_totals :: "token \<Rightarrow> amounts"

definition add_line :: "(token \<Rightarrow> amounts) \<Rightarrow> disclosure_line \<Rightarrow> (token \<Rightarrow> amounts) result" where
  "add_line totals rawLine =
     rbind (zod ''payrollBookDisclosureLineSchema'' payrollBookDisclosureLineSchema rawLine) (\<lambda>line.
     let t = totals (dl_token line) in
     Inr (totals(dl_token line := \<lparr>am_gross = am_gross t + bigint (dl_grossAtomic line),
       am_deductions = am_deductions t + bigint (dl_deductionsAtomic line),
       am_net = am_net t + bigint (dl_netAtomic line)\<rparr>)))"

definition book_step :: "lib \<Rightarrow> book_checkpoint \<Rightarrow> book_loop \<Rightarrow> nat \<times> disclosure_entry \<Rightarrow> book_loop result" where
  "book_step L checkpoint s step =
     (case step of (index, disclosure) \<Rightarrow>
      if de_index disclosure \<noteq> int index
      then Inl (Thrown ''Payroll book has an omitted, duplicated, or reordered entry index.'')
      else case entry_owner (de_entry disclosure) of (chainId, sealAddress, ownerAddress, periodStart, periodEnd) \<Rightarrow>
        if bigint chainId \<noteq> bigint (ck_chainId checkpoint) \<or> bigint sealAddress \<noteq> bigint (ck_sealAddress checkpoint)
          \<or> bigint ownerAddress \<noteq> bigint (ck_ownerAddress checkpoint)
          \<or> periodStart \<noteq> ck_periodStart checkpoint \<or> periodEnd \<noteq> ck_periodEnd checkpoint
        then Inl (Thrown ''Payroll-book entry belongs to a different owner or reporting period.'')
        else if run_key (de_entry disclosure) \<in> bl_runs s
        then Inl (Thrown ''Payroll book duplicates a finalized payroll run.'')
        else rbind (payrollBookEntryCommitment L (de_entry disclosure)) (\<lambda>expected.
          if bigint expected \<noteq> bigint (de_entryCommitment disclosure)
          then Inl (Thrown ''Payroll-book entry commitment does not match its disclosed fields.'')
          else rbind (rfold add_line (bl_totals s) (de_lines disclosure)) (\<lambda>totals.
            rbind (appendPayrollBookRoot L (bl_root s) expected (int index)) (\<lambda>root.
            Inr \<lparr>bl_root = root, bl_runs = insert (run_key (de_entry disclosure)) (bl_runs s), bl_totals = totals\<rparr>))))"

record verified_book =
  vb_entryCount :: nat
  vb_accumulatorRoot :: string
  vb_totalsSTRK :: book_totals
  vb_totalsUSDC :: book_totals

definition totals_text :: "amounts \<Rightarrow> book_totals" where
  "totals_text a = \<lparr>bt_grossAtomic = toString (am_gross a), bt_deductionsAtomic = toString (am_deductions a),
     bt_netAtomic = toString (am_net a)\<rparr>"

definition verifyCompletePayrollBook :: "lib \<Rightarrow> complete_book \<Rightarrow> verified_book result" where
  "verifyCompletePayrollBook L input =
     rbind (zod ''completePayrollBookSchema'' completePayrollBookSchema input) (\<lambda>book.
     if int (length (pb_entries book)) \<noteq> ck_entryCount (pb_checkpoint book)
     then Inl (Thrown ''Payroll book is incomplete: disclosed entry count differs from the on-chain checkpoint.'')
     else rbind (initialPayrollBookRoot L (pb_checkpoint book)) (\<lambda>root.
       rbind (rfold (book_step L (pb_checkpoint book))
           \<lparr>bl_root = root, bl_runs = {}, bl_totals = (\<lambda>_. \<lparr>am_gross = 0, am_deductions = 0, am_net = 0\<rparr>)\<rparr>
           (enumerate 0 (pb_entries book))) (\<lambda>s.
       if bigint (bl_root s) \<noteq> bigint (ck_accumulatorRoot (pb_checkpoint book))
       then Inl (Thrown ''Payroll book does not reconstruct the on-chain period accumulator.'')
       else Inr \<lparr>vb_entryCount = length (pb_entries book), vb_accumulatorRoot = bl_root s,
                 vb_totalsSTRK = totals_text (bl_totals s STRK), vb_totalsUSDC = totals_text (bl_totals s USDC)\<rparr>)))"

section \<open>What has vested\<close>

lemma split_share:
  fixes total x d :: int
  assumes "0 < d"
  shows "total div d * x + (total mod d * x) div d = total * x div d"
proof -
  have "(q * d + r) * x = q * x * d + r * x" for q r by (simp add: algebra_simps)
  then have "(total div d * d + total mod d) * x = total div d * x * d + total mod d * x" .
  moreover have "total div d * d + total mod d = total" by simp
  ultimately have "total * x = total div d * x * d + total mod d * x" by simp
  then show ?thesis using assms by simp
qed

definition vested_share :: "vesting_terms \<Rightarrow> int \<Rightarrow> int" where
  "vested_share t at =
     (if at < bigint (vt_cliffAt t) then 0
      else pro_rata (bigint (vt_totalAtomic t)) (bigint (vt_startsAt t)) (bigint (vt_endsAt t)) at)"

lemma terms_window:
  assumes "vestingScheduleTermsSchema t"
  shows "bigint (vt_startsAt t) < bigint (vt_endsAt t)" "bigint (vt_startsAt t) \<le> bigint (vt_cliffAt t)"
    "bigint (vt_cliffAt t) \<le> bigint (vt_endsAt t)"
  using assms by (auto simp: vestingScheduleTermsSchema_def Let_def)

lemma vestedAt_share: "vestingScheduleTermsSchema t \<Longrightarrow> vestedAt t at = Inr (vested_share t at)"
  using terms_window [of t]
  by (simp add: vestedAt_def vested_share_def pro_rata_def Let_def bdiv_nonneg bmod_nonneg split_share)

interpretation vesting: accrual vested_share "\<lambda>t. bigint (vt_totalAtomic t)" vestingScheduleTermsSchema
proof
  fix t at u
  assume ok: "vestingScheduleTermsSchema t"
  show "0 \<le> vested_share t at" "vested_share t at \<le> bigint (vt_totalAtomic t)"
    using pro_rata_bounds [OF _ terms_window(1) [OF ok]] by (simp_all add: vested_share_def)
  show "vested_share t at \<le> vested_share t u" if "at \<le> u"
    using pro_rata_mono [OF _ terms_window(1) [OF ok] that] pro_rata_bounds [OF _ terms_window(1) [OF ok]] that
    by (simp add: vested_share_def)
qed

lemma pro_rata_seconds:
  "pro_rata amount (1000 * s) (1000 * e) (1000 * t) = pro_rata amount s e t"
proof -
  have "amount * (1000 * t - 1000 * s) div (1000 * e - 1000 * s) = (1000 * (amount * (t - s))) div (1000 * (e - s))"
    by (simp add: algebra_simps)
  also have "\<dots> = amount * (t - s) div (e - s)" by (rule div_mult_mult1) simp
  finally show ?thesis by (simp add: pro_rata_def)
qed

section \<open>Accepted releases\<close>

lemma assertVestingTransition_Inr:
  assumes "assertVestingTransition L t = Inr a"
  shows "vestingScheduleTermsSchema (vr_schedule t)"
    and "vs_releaseSequence (vr_next t) = vs_releaseSequence (vr_previous t) + 1"
    and "bigint (vs_releasedAtomic (vr_next t)) = vested_share (vr_schedule t) (bigint (vr_releaseAt t))"
    and "bigint (vr_payableAtomic t) = bigint (vs_releasedAtomic (vr_next t)) - bigint (vs_releasedAtomic (vr_previous t))"
    and "0 < bigint (vr_payableAtomic t)"
    and "bigint (vt_cliffAt (vr_schedule t)) \<le> bigint (vr_releaseAt t)"
    and "bigint (vr_releaseAt t) \<le> bigint (vt_endsAt (vr_schedule t))"
  using assms
  by (auto simp: assertVestingTransition_def vestingTransitionSchema_def rbind_Inr_iff Let_def vestedAt_share
      split: if_splits)

text \<open>A history of releases: each starts from the state the one before left, under the same terms.\<close>

fun linked :: "vesting_transition list \<Rightarrow> bool" where
  "linked (t # u # ts) = (vr_previous u = vr_next t \<and> vr_schedule u = vr_schedule t \<and> linked (u # ts))"
| "linked _ = True"

lemma linked_terms: "linked (t # ts) \<Longrightarrow> u \<in> set ts \<Longrightarrow> vr_schedule u = vr_schedule t"
  by (induction ts arbitrary: t) auto

lemma linked_releases:
  assumes "list_all (\<lambda>t. \<exists>a. assertVestingTransition L t = Inr a) (t # ts)" "linked (t # ts)"
  shows "sum_list (map (\<lambda>t. bigint (vr_payableAtomic t)) (t # ts))
      = bigint (vs_releasedAtomic (vr_next (last (t # ts)))) - bigint (vs_releasedAtomic (vr_previous t))
    \<and> vs_releaseSequence (vr_next (last (t # ts))) = vs_releaseSequence (vr_previous t) + int (length (t # ts))
    \<and> sorted_wrt (<) (map (\<lambda>t. bigint (vr_releaseAt t)) (t # ts))"
  using assms
proof (induction ts arbitrary: t)
  case Nil
  then show ?case using assertVestingTransition_Inr by fastforce
next
  case (Cons u ts)
  from Cons.prems(1) obtain a b where a: "assertVestingTransition L t = Inr a" and b: "assertVestingTransition L u = Inr b"
    by auto
  note A = assertVestingTransition_Inr [OF a] and B = assertVestingTransition_Inr [OF b]
  from Cons.prems(2) have link: "vr_previous u = vr_next t" "vr_schedule u = vr_schedule t" "linked (u # ts)" by simp_all
  from Cons.IH [OF _ link(3)] Cons.prems(1) have IH:
    "sum_list (map (\<lambda>t. bigint (vr_payableAtomic t)) (u # ts))
      = bigint (vs_releasedAtomic (vr_next (last (u # ts)))) - bigint (vs_releasedAtomic (vr_previous u))"
    "vs_releaseSequence (vr_next (last (u # ts))) = vs_releaseSequence (vr_previous u) + int (length (u # ts))"
    "sorted_wrt (<) (map (\<lambda>t. bigint (vr_releaseAt t)) (u # ts))" by simp_all
  have "bigint (vr_releaseAt t) < bigint (vr_releaseAt u)"
  proof (rule ccontr)
    assume "\<not> ?thesis"
    then have "vested_share (vr_schedule t) (bigint (vr_releaseAt u)) \<le> vested_share (vr_schedule t) (bigint (vr_releaseAt t))"
      by (intro vesting.earned_mono A(1)) simp
    with A(3) B(3,4,5) link show False by simp
  qed
  with IH(3) have "sorted_wrt (<) (map (\<lambda>t. bigint (vr_releaseAt t)) (t # u # ts))" by auto
  with A(2,4) IH(1,2) link(1) show ?case by simp
qed

lemma releases_total:
  assumes "list_all (\<lambda>t. \<exists>a. assertVestingTransition L t = Inr a) (t # ts)" "linked (t # ts)"
  shows "bigint (vs_releasedAtomic (vr_next (last (t # ts)))) \<le> bigint (vt_totalAtomic (vr_schedule t))"
proof -
  have "last (t # ts) \<in> set (t # ts)" by (rule last_in_set) simp
  then obtain a where "assertVestingTransition L (last (t # ts)) = Inr a" "vr_schedule (last (t # ts)) = vr_schedule t"
    using assms linked_terms [OF assms(2)] by (auto simp: list_all_iff)
  with assertVestingTransition_Inr(1,3) vesting.earned_upper show ?thesis by metis
qed

section \<open>Replaying a book\<close>

lemma feltCommitment_Inr: "hex_lib_ok L \<Longrightarrow> feltCommitment L v = Inr r \<Longrightarrow> bigint r = v"
  by (auto simp: feltCommitment_def rbind_Inr_iff encodeUint_Inr_iff bigint_toHex)

lemma append_inputs_Inr:
  assumes "hex_lib_ok L" "append_inputs L root c i = Inr v"
  shows "\<exists>high low. v = [bigint (encodeShortString L ''PAYO_BOOK_ADD_V1''), bigint root, high, low, i]
    \<and> bigint c = high * 256 ^ 16 + low"
proof -
  obtain bs where bs: "commitment_ok c" "normalizedHexBytes L c (Some 32) = Inr bs"
    "v = [bigint (encodeShortString L ''PAYO_BOOK_ADD_V1''), bigint root, decodeUint (take 16 bs), decodeUint (drop 16 bs), i]"
    using assms by (auto simp: append_inputs_def commitmentLimbs_def commitmentBytes_def rbind_Inr_iff Let_def bigint_toHex
        split: if_splits)
  from normalizedHexBytes_Inr [OF assms(1) bs(2)] have "length bs = 32" "decodeUint bs = bigint c"
    using commitment_num [OF bs(1)] by simp_all
  then have "bigint c = decodeUint (take 16 bs) * 256 ^ 16 + decodeUint (drop 16 bs)"
    using decodeUint_append [of "take 16 bs" "drop 16 bs"] by simp
  with bs(3) show ?thesis by blast
qed

text \<open>The lists Poseidon hashes while a book is replayed.\<close>

fun replay_inputs :: "lib \<Rightarrow> string \<Rightarrow> nat \<Rightarrow> disclosure_entry list \<Rightarrow> int list list" where
  "replay_inputs L root n [] = []"
| "replay_inputs L root n (d # ds) =
     (case payrollBookEntryCommitment L (de_entry d) of Inl _ \<Rightarrow> [] | Inr expected \<Rightarrow>
      case append_inputs L root expected (int n) of Inl _ \<Rightarrow> [] | Inr values \<Rightarrow>
      case feltCommitment L (poseidon L values) of Inl _ \<Rightarrow> [values]
      | Inr next_root \<Rightarrow> values # replay_inputs L next_root (Suc n) ds)"

lemma book_step_Inr:
  assumes "book_step L ck s (n, d) = Inr s'"
  obtains expected inputs where
    "payrollBookEntryCommitment L (de_entry d) = Inr expected" "bigint expected = bigint (de_entryCommitment d)"
    "append_inputs L (bl_root s) expected (int n) = Inr inputs" "feltCommitment L (poseidon L inputs) = Inr (bl_root s')"
    "run_key (de_entry d) \<notin> bl_runs s" "bl_runs s' = insert (run_key (de_entry d)) (bl_runs s)"
    "rfold add_line (bl_totals s) (de_lines d) = Inr (bl_totals s')" "de_index d = int n"
  using assms
  by (auto simp: book_step_def appendPayrollBookRoot_def rbind_Inr_iff split: if_splits prod.splits)

lemma replay_determines:
  assumes "hex_lib_ok L"
    and "rfold (book_step L ck) s (enumerate n ds) = Inr s'" "rfold (book_step L ck') r (enumerate n es) = Inr r'"
    and "length ds = length es" "bigint (bl_root s') = bigint (bl_root r')"
  shows "(bigint (bl_root s) = bigint (bl_root r)
        \<and> map (\<lambda>d. bigint (de_entryCommitment d)) ds = map (\<lambda>d. bigint (de_entryCommitment d)) es)
    \<or> (\<exists>x \<in> set (replay_inputs L (bl_root s) n ds). \<exists>y \<in> set (replay_inputs L (bl_root r) n es).
         x \<noteq> y \<and> poseidon L x = poseidon L y)"
  using assms(4,2,3,5)
proof (induction ds es arbitrary: n s r rule: list_induct2)
  case Nil
  then show ?case by simp
next
  case (Cons d ds e es)
  from Cons.prems(1) obtain t where t: "book_step L ck s (n, d) = Inr t"
    "rfold (book_step L ck) t (enumerate (Suc n) ds) = Inr s'" by auto
  from Cons.prems(2) obtain u where u: "book_step L ck' r (n, e) = Inr u"
    "rfold (book_step L ck') u (enumerate (Suc n) es) = Inr r'" by auto
  from t(1) obtain c v where c: "payrollBookEntryCommitment L (de_entry d) = Inr c" "bigint c = bigint (de_entryCommitment d)"
    "append_inputs L (bl_root s) c (int n) = Inr v" "feltCommitment L (poseidon L v) = Inr (bl_root t)"
    by (rule book_step_Inr) blast
  from u(1) obtain b w where b: "payrollBookEntryCommitment L (de_entry e) = Inr b" "bigint b = bigint (de_entryCommitment e)"
    "append_inputs L (bl_root r) b (int n) = Inr w" "feltCommitment L (poseidon L w) = Inr (bl_root u)"
    by (rule book_step_Inr) blast
  have inputs: "replay_inputs L (bl_root s) n (d # ds) = v # replay_inputs L (bl_root t) (Suc n) ds"
    "replay_inputs L (bl_root r) n (e # es) = w # replay_inputs L (bl_root u) (Suc n) es"
    using c b by simp_all
  from Cons.IH [OF t(2) u(2) Cons.prems(3)] show ?case
  proof
    assume IH: "bigint (bl_root t) = bigint (bl_root u)
      \<and> map (\<lambda>d. bigint (de_entryCommitment d)) ds = map (\<lambda>d. bigint (de_entryCommitment d)) es"
    then have "poseidon L v = poseidon L w"
      using feltCommitment_Inr [OF assms(1)] c(4) b(4) by metis
    show ?thesis
    proof (cases "v = w")
      case True
      with append_inputs_Inr [OF assms(1) c(3)] append_inputs_Inr [OF assms(1) b(3)]
      have "bigint (bl_root s) = bigint (bl_root r)" "bigint c = bigint b" by auto
      with IH c(2) b(2) show ?thesis by simp
    next
      case False
      with \<open>poseidon L v = poseidon L w\<close> show ?thesis unfolding inputs by auto
    qed
  next
    assume "\<exists>x \<in> set (replay_inputs L (bl_root t) (Suc n) ds). \<exists>y \<in> set (replay_inputs L (bl_root u) (Suc n) es).
         x \<noteq> y \<and> poseidon L x = poseidon L y"
    then show ?thesis unfolding inputs by auto
  qed
qed

section \<open>The totals of a book\<close>

definition line_sum :: "(disclosure_line \<Rightarrow> string) \<Rightarrow> token \<Rightarrow> disclosure_line list \<Rightarrow> int" where
  "line_sum f t ls = sum_list (map (\<lambda>l. bigint (f l)) (filter (\<lambda>l. dl_token l = t) ls))"

definition line_totals :: "token \<Rightarrow> disclosure_line list \<Rightarrow> amounts" where
  "line_totals t ls = \<lparr>am_gross = line_sum dl_grossAtomic t ls, am_deductions = line_sum dl_deductionsAtomic t ls,
     am_net = line_sum dl_netAtomic t ls\<rparr>"

definition add_amounts :: "amounts \<Rightarrow> amounts \<Rightarrow> amounts" where
  "add_amounts a b = \<lparr>am_gross = am_gross a + am_gross b, am_deductions = am_deductions a + am_deductions b,
     am_net = am_net a + am_net b\<rparr>"

lemma add_amounts_simps [simp]:
  "add_amounts a (line_totals t []) = a"
  "add_amounts a (line_totals t (ls @ ms)) = add_amounts (add_amounts a (line_totals t ls)) (line_totals t ms)"
  by (simp_all add: add_amounts_def line_totals_def line_sum_def)

lemma add_lines: "rfold add_line totals ls = Inr totals' \<Longrightarrow> totals' t = add_amounts (totals t) (line_totals t ls)"
proof (induction ls arbitrary: totals)
  case Nil
  then show ?case by simp
next
  case (Cons l ls)
  then obtain m where m: "add_line totals l = Inr m" "rfold add_line m ls = Inr totals'" by auto
  from m(1) have "m t = add_amounts (totals t) (line_totals t [l])"
    by (auto simp: add_line_def rbind_Inr_iff Let_def add_amounts_def line_totals_def line_sum_def)
  with Cons.IH [OF m(2)] add_amounts_simps(2) [of "totals t" t "[l]" ls] show ?case by simp
qed

lemma replay_totals:
  assumes "rfold (book_step L ck) s (enumerate n ds) = Inr s'"
  shows "bl_totals s' t = add_amounts (bl_totals s t) (line_totals t (concat (map de_lines ds)))
    \<and> distinct (map (\<lambda>d. run_key (de_entry d)) ds) \<and> set (map (\<lambda>d. run_key (de_entry d)) ds) \<inter> bl_runs s = {}"
  using assms
proof (induction ds arbitrary: n s)
  case Nil
  then show ?case by simp
next
  case (Cons d ds)
  then obtain u where u: "book_step L ck s (n, d) = Inr u" "rfold (book_step L ck) u (enumerate (Suc n) ds) = Inr s'"
    by auto
  from u(1) have "run_key (de_entry d) \<notin> bl_runs s" "bl_runs u = insert (run_key (de_entry d)) (bl_runs s)"
    "rfold add_line (bl_totals s) (de_lines d) = Inr (bl_totals u)"
    by (auto elim: book_step_Inr)
  with Cons.IH [OF u(2)] add_lines [of "bl_totals s" "de_lines d" "bl_totals u" t] show ?case by auto
qed

section \<open>Properties of vesting\<close>

lemma commitmentBytes_total: "hex_lib_ok L \<Longrightarrow> commitment_ok s \<Longrightarrow> \<exists>bs. commitmentBytes L s = Inr bs"
  using normalizedHexBytes_commitment by (simp add: commitmentBytes_def)

lemma addressBytes_total:
  assumes "0 \<le> bigint a" "bigint a < STARK_FIELD_PRIME"
  shows "\<exists>bs. addressBytes a = Inr bs"
  using assms encodeUint_total [of "bigint a" 32] by (simp add: addressBytes_def Let_def STARK_FIELD_PRIME_def not_less)

lemma vestingScheduleId_total:
  assumes "hex_lib_ok L" "keccak_32 L" "vestingScheduleTermsSchema t"
    and "0 \<le> bigint (vt_tokenAddress t)" "bigint (vt_tokenAddress t) < STARK_FIELD_PRIME"
  shows "\<exists>h. vestingScheduleId L t = Inr h \<and> commitment_ok h"
  using assms hash_fields_total [OF assms(1,2)]
  by (simp add: vestingScheduleId_def vestingScheduleTermsSchema_def commitmentBytes_total addressBytes_total
      encodeUint_amount encodeUint_seconds)

lemma vestingStateCommitment_total:
  "hex_lib_ok L \<Longrightarrow> keccak_32 L \<Longrightarrow> vestingStateSchema s \<Longrightarrow> \<exists>h. vestingStateCommitment L s = Inr h \<and> commitment_ok h"
  using hash_fields_total [of L]
  by (simp add: vestingStateCommitment_def vestingStateSchema_def commitmentBytes_total encodeUint_amount
      uint32_ok_def encodeU32_total)

lemma vestingReleaseNullifier_total:
  assumes "hex_lib_ok L" "keccak_32 L" "commitment_ok i" "1 \<le> n" "n \<le> 0xffffffff" "unixSecondsSchema at"
    and "commitment_ok c" "commitment_ok r"
  shows "\<exists>h. vestingReleaseNullifier L i n (bigint at) c r = Inr h"
  using assms hash_fields_total [OF assms(1,2)]
  by (force simp: vestingReleaseNullifier_def commitmentBytes_total encodeUint_seconds encodeU32_total)

text \<open>Vesting is exact.  Whatever the split of the product that \<open>vestedAt\<close> computes, what has
  vested is nothing before the cliff, everything from the end on and the floor of the pro rata share in
  between; and it is the amount the agreement's schedule (\<open>vestedAtomic\<close>, in milliseconds) computes for
  any texts of the same instants.\<close>

theorem vested_exact:
  assumes "vestingScheduleTermsSchema t"
  shows "vestedAt t at = Inr (if at < bigint (vt_cliffAt t) then 0
      else if bigint (vt_endsAt t) \<le> at then bigint (vt_totalAtomic t)
      else bigint (vt_totalAtomic t) * (at - bigint (vt_startsAt t)) div (bigint (vt_endsAt t) - bigint (vt_startsAt t)))
    \<and> (\<forall>startsAt cliffAt endsAt. getTime startsAt = 1000 * bigint (vt_startsAt t)
         \<longrightarrow> getTime cliffAt = 1000 * bigint (vt_cliffAt t) \<longrightarrow> getTime endsAt = 1000 * bigint (vt_endsAt t)
         \<longrightarrow> vestedAtomic startsAt cliffAt endsAt (vt_totalAtomic t) (1000 * at) = vestedAt t at)"
proof -
  note window = terms_window [OF assms]
  have ok: "atomicAmount_ok (vt_totalAtomic t)" using assms by (simp add: vestingScheduleTermsSchema_def)
  have share: "vested_share t at = (if at < bigint (vt_cliffAt t) then 0
      else if bigint (vt_endsAt t) \<le> at then bigint (vt_totalAtomic t)
      else bigint (vt_totalAtomic t) * (at - bigint (vt_startsAt t)) div (bigint (vt_endsAt t) - bigint (vt_startsAt t)))"
  proof (cases "at < bigint (vt_cliffAt t) \<or> bigint (vt_startsAt t) < at")
    case True
    then show ?thesis using window by (auto simp: vested_share_def pro_rata_def)
  next
    case False
    with window have "at = bigint (vt_startsAt t)" by simp
    then show ?thesis using window by (simp add: vested_share_def pro_rata_def)
  qed
  have "vestedAtomic s c e (vt_totalAtomic t) (1000 * at) = Inr (vested_share t at)"
    if "getTime s = 1000 * bigint (vt_startsAt t)" "getTime c = 1000 * bigint (vt_cliffAt t)"
      "getTime e = 1000 * bigint (vt_endsAt t)" for s c e
    using that window(1) ok by (simp add: vested_pro_rata vested_share_def pro_rata_seconds)
  with share show ?thesis by (simp add: vestedAt_share [OF assms])
qed

definition example_terms :: vesting_terms where
  "example_terms = \<lparr>vt_agreementIdCommitment = example_commitment (CHR ''a''),
     vt_recipientCommitment = example_commitment (CHR ''b''), vt_tokenAddress = ''0x5'', vt_startsAt = ''100'',
     vt_cliffAt = ''130'', vt_endsAt = ''400'', vt_totalAtomic = ''1000'', vt_planSalt = example_commitment (CHR ''c'')\<rparr>"

lemma example_terms_ok: "vestingScheduleTermsSchema example_terms" by code_simp

theorem vested_exact_witness:
  "vestedAt example_terms 250 = Inr 500 \<and> vestedAt example_terms 129 = Inr 0 \<and> vestedAt example_terms 131 = Inr 103
   \<and> vestedAtomic ''1970-01-01T00:01:40Z'' ''1970-01-01T00:02:10Z'' ''1970-01-01T00:06:40Z'' ''1000'' 131000 = Inr 103"
proof -
  have num: "bigint (vt_startsAt example_terms) = 100" "bigint (vt_cliffAt example_terms) = 130"
    "bigint (vt_endsAt example_terms) = 400" "bigint (vt_totalAtomic example_terms) = 1000"
    "vt_totalAtomic example_terms = ''1000''" "bigint ''1000'' = 1000" by code_simp+
  have time: "getTime ''1970-01-01T00:01:40Z'' = 100000" "getTime ''1970-01-01T00:02:10Z'' = 130000"
    "getTime ''1970-01-01T00:06:40Z'' = 400000" by code_simp+
  show ?thesis
    using vested_exact [OF example_terms_ok, of 250] vested_exact [OF example_terms_ok, of 129]
      vested_exact [OF example_terms_ok, of 131, unfolded num] time
    by (auto simp: num)
qed

text \<open>C29: Releases of a vesting schedule are exact.  In any run of accepted releases under one set of
  terms, each starting from the state the one before left and the first from an unreleased state, the
  payments add up to exactly the amount the last state records, which is the vested amount at the last
  release and at most the total; every payment is positive, the sequence number counts the releases,
  and the releases are strictly ordered in time between the cliff and the end.\<close>

theorem vesting_releases_exact:
  assumes "list_all (\<lambda>t. \<exists>a. assertVestingTransition L t = Inr a) (t # ts)" "linked (t # ts)"
    and "bigint (vs_releasedAtomic (vr_previous t)) = 0" "vs_releaseSequence (vr_previous t) = 0"
  shows "vestedAt (vr_schedule t) (bigint (vr_releaseAt (last (t # ts))))
      = Inr (sum_list (map (\<lambda>t. bigint (vr_payableAtomic t)) (t # ts)))
    \<and> sum_list (map (\<lambda>t. bigint (vr_payableAtomic t)) (t # ts)) = bigint (vs_releasedAtomic (vr_next (last (t # ts))))
    \<and> sum_list (map (\<lambda>t. bigint (vr_payableAtomic t)) (t # ts)) \<le> bigint (vt_totalAtomic (vr_schedule t))
    \<and> vs_releaseSequence (vr_next (last (t # ts))) = int (length (t # ts))
    \<and> sorted_wrt (<) (map (\<lambda>t. bigint (vr_releaseAt t)) (t # ts))
    \<and> list_all (\<lambda>u. 0 < bigint (vr_payableAtomic u) \<and> bigint (vt_cliffAt (vr_schedule t)) \<le> bigint (vr_releaseAt u)
        \<and> bigint (vr_releaseAt u) \<le> bigint (vt_endsAt (vr_schedule t))) (t # ts)"
proof -
  have each: "\<exists>a. assertVestingTransition L u = Inr a" "vr_schedule u = vr_schedule t" if "u \<in> set (t # ts)" for u
    using that assms(1) linked_terms [OF assms(2)] by (auto simp: list_all_iff)
  have "last (t # ts) \<in> set (t # ts)" by (rule last_in_set) simp
  from each [OF this] have final: "vestedAt (vr_schedule t) (bigint (vr_releaseAt (last (t # ts))))
      = Inr (bigint (vs_releasedAtomic (vr_next (last (t # ts)))))"
    by (metis assertVestingTransition_Inr(1,3) vestedAt_share)
  have "list_all (\<lambda>u. 0 < bigint (vr_payableAtomic u) \<and> bigint (vt_cliffAt (vr_schedule t)) \<le> bigint (vr_releaseAt u)
        \<and> bigint (vr_releaseAt u) \<le> bigint (vt_endsAt (vr_schedule t))) (t # ts)"
    using each assertVestingTransition_Inr(5-7) by (metis (no_types, lifting) list_all_iff)
  with final linked_releases [OF assms(1,2)] releases_total [OF assms(1,2)] assms(3,4) show ?thesis by simp
qed

definition example_state :: "string \<Rightarrow> string \<Rightarrow> int \<Rightarrow> vesting_state" where
  "example_state i released n = \<lparr>vs_scheduleId = i, vs_releasedAtomic = released, vs_releaseSequence = n,
     vs_stateSalt = example_commitment (CHR ''d'')\<rparr>"

definition example_release :: "string \<Rightarrow> string \<Rightarrow> int \<Rightarrow> string \<Rightarrow> string \<Rightarrow> string \<Rightarrow> vesting_transition" where
  "example_release i released n at payable after = \<lparr>vr_schedule = example_terms, vr_previous = example_state i released n,
     vr_releaseAt = at, vr_payableAtomic = payable, vr_next = example_state i after (n + 1),
     vr_runNullifier = example_commitment (CHR ''e'')\<rparr>"

lemma example_release_accepted:
  assumes "vestingScheduleId ref_lib example_terms = Inr i" "commitment_ok i"
    and "atomicAmount_ok released" "atomicAmount_ok after" "atomicAmount_ok payable" "unixSecondsSchema at"
    and "0 \<le> n" "n < 1000" "130 \<le> bigint at" "bigint at \<le> 400" "vestedAt example_terms (bigint at) = Inr (bigint after)"
    and "bigint released + bigint payable = bigint after" "0 < bigint payable"
  shows "\<exists>a. assertVestingTransition ref_lib (example_release i released n at payable after) = Inr a"
proof -
  have num: "bigint (vt_cliffAt example_terms) = 130" "bigint (vt_endsAt example_terms) = 400" by code_simp+
  have salts: "commitment_ok (example_commitment (CHR ''d''))" "commitment_ok (example_commitment (CHR ''e''))" by code_simp+
  have state: "vestingStateSchema (example_state i released n)" "vestingStateSchema (example_state i after (n + 1))"
    using assms salts(1) by (simp_all add: vestingStateSchema_def example_state_def uint32_ok_def)
  have schema: "vestingTransitionSchema (example_release i released n at payable after)"
    using assms salts(2) state by (simp add: vestingTransitionSchema_def example_release_def example_terms_ok)
  from vestingStateCommitment_total [OF ref_lib_hex ref_lib_keccak state(1)]
  obtain p where p: "vestingStateCommitment ref_lib (example_state i released n) = Inr p" by blast
  from vestingStateCommitment_total [OF ref_lib_hex ref_lib_keccak state(2)]
  obtain q where q: "vestingStateCommitment ref_lib (example_state i after (n + 1)) = Inr q" "commitment_ok q" by blast
  from vestingReleaseNullifier_total [OF ref_lib_hex ref_lib_keccak assms(2) _ _ assms(6) q(2) salts(2), of "n + 1"] assms(7,8)
  obtain r where r: "vestingReleaseNullifier ref_lib i (n + 1) (bigint at) q (example_commitment (CHR ''e'')) = Inr r"
    by auto
  have fields: "vr_schedule (example_release i released n at payable after) = example_terms"
    "vr_previous (example_release i released n at payable after) = example_state i released n"
    "vr_next (example_release i released n at payable after) = example_state i after (n + 1)"
    "vr_releaseAt (example_release i released n at payable after) = at"
    "vr_payableAtomic (example_release i released n at payable after) = payable"
    "vr_runNullifier (example_release i released n at payable after) = example_commitment (CHR ''e'')"
    by (simp_all add: example_release_def)
  have state_fields: "vs_scheduleId (example_state i x m) = i" "vs_releasedAtomic (example_state i x m) = x"
    "vs_releaseSequence (example_state i x m) = m" for x m
    by (simp_all add: example_state_def)
  show ?thesis
    using assms schema p q r
    by (simp add: assertVestingTransition_def fields state_fields num Let_def)
qed

theorem vesting_releases_exact_witness:
  "\<exists>i. list_all (\<lambda>t. \<exists>a. assertVestingTransition ref_lib t = Inr a)
        [example_release i ''0'' 0 ''250'' ''500'' ''500'', example_release i ''500'' 1 ''400'' ''500'' ''1000'']
     \<and> vestedAt example_terms 400 = Inr 1000"
proof -
  have tok: "bigint (vt_tokenAddress example_terms) = 5" by code_simp
  from vestingScheduleId_total [OF ref_lib_hex ref_lib_keccak example_terms_ok] tok
  obtain i where i: "vestingScheduleId ref_lib example_terms = Inr i" "commitment_ok i"
    by (auto simp: STARK_FIELD_PRIME_def)
  have num: "bigint ''0'' = 0" "bigint ''250'' = 250" "bigint ''500'' = 500" "bigint ''400'' = 400" "bigint ''1000'' = 1000"
    "atomicAmount_ok ''0''" "atomicAmount_ok ''500''" "atomicAmount_ok ''1000''" "unixSecondsSchema ''250''"
    "unixSecondsSchema ''400''" by code_simp+
  have vested: "vestedAt example_terms 250 = Inr 500" "vestedAt example_terms 400 = Inr 1000" by code_simp+
  have first: "\<exists>a. assertVestingTransition ref_lib (example_release i ''0'' 0 ''250'' ''500'' ''500'') = Inr a"
    by (rule example_release_accepted [OF i]) (simp_all add: num vested)
  have second: "\<exists>a. assertVestingTransition ref_lib (example_release i ''500'' 1 ''400'' ''500'' ''1000'') = Inr a"
    by (rule example_release_accepted [OF i]) (simp_all add: num vested)
  define t u where "t = example_release i ''0'' 0 ''250'' ''500'' ''500''" and "u = example_release i ''500'' 1 ''400'' ''500'' ''1000''"
  have fields: "vr_schedule t = example_terms" "bigint (vs_releasedAtomic (vr_previous t)) = 0"
    "vs_releaseSequence (vr_previous t) = 0" "linked [t, u]" "bigint (vr_payableAtomic t) = 500"
    "bigint (vr_payableAtomic u) = 500" "bigint (vr_releaseAt u) = 400"
    by (simp_all add: t_def u_def example_release_def example_state_def num)
  have all: "list_all (\<lambda>t. \<exists>a. assertVestingTransition ref_lib t = Inr a) [t, u]"
    using first second by (simp add: t_def u_def)
  from vesting_releases_exact [OF all fields(4,2,3)] fields have "vestedAt example_terms 400 = Inr 1000" by simp
  with all show ?thesis unfolding t_def u_def by blast
qed

end
