(* ===== verification/Book_Properties.thy ===== *)
theory Book_Properties
  imports Vesting_Book
begin

text \<open>
  What the replay of a complete payroll book establishes: the accumulator root fixes the book, and the
  totals reported are those of its lines.
\<close>

section \<open>Properties of the complete book\<close>

definition initial_inputs :: "lib \<Rightarrow> book_checkpoint \<Rightarrow> int list" where
  "initial_inputs L c = [bigint (encodeShortString L ''PAYO_BOOK_V1''), bigint (ck_chainId c), bigint (ck_sealAddress c),
     bigint (ck_ownerAddress c), bigint (ck_periodStart c), bigint (ck_periodEnd c)]"

text \<open>Everything Poseidon hashes while a book is verified.\<close>

definition book_inputs :: "lib \<Rightarrow> complete_book \<Rightarrow> int list list" where
  "book_inputs L b = initial_inputs L (pb_checkpoint b)
     # replay_inputs L (projr (initialPayrollBookRoot L (pb_checkpoint b))) 0 (pb_entries b)"

lemma initialPayrollBookRoot_Inr:
  "initialPayrollBookRoot L c = Inr r \<Longrightarrow> feltCommitment L (poseidon L (initial_inputs L c)) = Inr r"
  by (auto simp: initialPayrollBookRoot_def initial_inputs_def rbind_Inr_iff Let_def split: if_splits)

lemma verifyCompletePayrollBook_Inr:
  assumes "verifyCompletePayrollBook L b = Inr v"
  obtains r s where "initialPayrollBookRoot L (pb_checkpoint b) = Inr r"
    "rfold (book_step L (pb_checkpoint b))
       \<lparr>bl_root = r, bl_runs = {}, bl_totals = (\<lambda>_. \<lparr>am_gross = 0, am_deductions = 0, am_net = 0\<rparr>)\<rparr>
       (enumerate 0 (pb_entries b)) = Inr s"
    "bigint (bl_root s) = bigint (ck_accumulatorRoot (pb_checkpoint b))"
    "int (length (pb_entries b)) = ck_entryCount (pb_checkpoint b)"
    "v = \<lparr>vb_entryCount = length (pb_entries b), vb_accumulatorRoot = bl_root s,
        vb_totalsSTRK = totals_text (bl_totals s STRK), vb_totalsUSDC = totals_text (bl_totals s USDC)\<rparr>"
    "completePayrollBookSchema b"
  using assms by (auto simp: verifyCompletePayrollBook_def rbind_Inr_iff split: if_splits)

text \<open>C8: A complete payroll book is tamper evident.  Two books that verify against the same entry
  count and the same accumulator root (as numbers) list the same entry commitments in the same order,
  for the same chain, seal, owner and period; otherwise two of the lists hashed while verifying them
  are different and collide under Poseidon.  So no entry can be left out, added, reordered or changed.\<close>

theorem book_tamper_evident:
  assumes "hex_lib_ok L" "verifyCompletePayrollBook L b = Inr v" "verifyCompletePayrollBook L c = Inr w"
    and "ck_entryCount (pb_checkpoint b) = ck_entryCount (pb_checkpoint c)"
    and "bigint (ck_accumulatorRoot (pb_checkpoint b)) = bigint (ck_accumulatorRoot (pb_checkpoint c))"
  shows "(map (\<lambda>d. bigint (de_entryCommitment d)) (pb_entries b) = map (\<lambda>d. bigint (de_entryCommitment d)) (pb_entries c)
        \<and> initial_inputs L (pb_checkpoint b) = initial_inputs L (pb_checkpoint c))
    \<or> (\<exists>x \<in> set (book_inputs L b). \<exists>y \<in> set (book_inputs L c). x \<noteq> y \<and> poseidon L x = poseidon L y)"
proof -
  from assms(2) obtain r s where b: "initialPayrollBookRoot L (pb_checkpoint b) = Inr r"
    "rfold (book_step L (pb_checkpoint b))
       \<lparr>bl_root = r, bl_runs = {}, bl_totals = (\<lambda>_. \<lparr>am_gross = 0, am_deductions = 0, am_net = 0\<rparr>)\<rparr>
       (enumerate 0 (pb_entries b)) = Inr s"
    "bigint (bl_root s) = bigint (ck_accumulatorRoot (pb_checkpoint b))"
    "int (length (pb_entries b)) = ck_entryCount (pb_checkpoint b)"
    by (rule verifyCompletePayrollBook_Inr)
  from assms(3) obtain q t where c: "initialPayrollBookRoot L (pb_checkpoint c) = Inr q"
    "rfold (book_step L (pb_checkpoint c))
       \<lparr>bl_root = q, bl_runs = {}, bl_totals = (\<lambda>_. \<lparr>am_gross = 0, am_deductions = 0, am_net = 0\<rparr>)\<rparr>
       (enumerate 0 (pb_entries c)) = Inr t"
    "bigint (bl_root t) = bigint (ck_accumulatorRoot (pb_checkpoint c))"
    "int (length (pb_entries c)) = ck_entryCount (pb_checkpoint c)"
    by (rule verifyCompletePayrollBook_Inr)
  have len: "length (pb_entries b) = length (pb_entries c)" using b(4) c(4) assms(4) by simp
  have root: "bigint (bl_root s) = bigint (bl_root t)" using b(3) c(3) assms(5) by simp
  have inputs: "book_inputs L b = initial_inputs L (pb_checkpoint b) # replay_inputs L r 0 (pb_entries b)"
    "book_inputs L c = initial_inputs L (pb_checkpoint c) # replay_inputs L q 0 (pb_entries c)"
    by (simp_all add: book_inputs_def b(1) c(1))
  from replay_determines [OF assms(1) b(2) c(2) len root] show ?thesis
  proof
    assume same: "bigint (bl_root \<lparr>bl_root = r, bl_runs = {}, bl_totals = (\<lambda>_. \<lparr>am_gross = 0, am_deductions = 0, am_net = 0\<rparr>)\<rparr>)
        = bigint (bl_root \<lparr>bl_root = q, bl_runs = {}, bl_totals = (\<lambda>_. \<lparr>am_gross = 0, am_deductions = 0, am_net = 0\<rparr>)\<rparr>)
      \<and> map (\<lambda>d. bigint (de_entryCommitment d)) (pb_entries b) = map (\<lambda>d. bigint (de_entryCommitment d)) (pb_entries c)"
    then have "bigint r = bigint q" by simp
    then have "poseidon L (initial_inputs L (pb_checkpoint b)) = poseidon L (initial_inputs L (pb_checkpoint c))"
      using feltCommitment_Inr [OF assms(1) initialPayrollBookRoot_Inr [OF b(1)]]
        feltCommitment_Inr [OF assms(1) initialPayrollBookRoot_Inr [OF c(1)]] by simp
    with same show ?thesis unfolding inputs by auto
  qed (auto simp: inputs)
qed

lemma belongs:
  assumes "rfold (book_step L ck) s (enumerate n ds) = Inr s'"
  shows "map de_index ds = map int [n..<n + length ds]
    \<and> list_all (\<lambda>d. case entry_owner (de_entry d) of (chainId, sealAddress, ownerAddress, periodStart, periodEnd) \<Rightarrow>
        bigint chainId = bigint (ck_chainId ck) \<and> bigint sealAddress = bigint (ck_sealAddress ck)
        \<and> bigint ownerAddress = bigint (ck_ownerAddress ck)
        \<and> periodStart = ck_periodStart ck \<and> periodEnd = ck_periodEnd ck) ds"
  using assms
proof (induction ds arbitrary: n s)
  case Nil
  then show ?case by simp
next
  case (Cons d ds)
  then obtain u where u: "book_step L ck s (n, d) = Inr u" "rfold (book_step L ck) u (enumerate (Suc n) ds) = Inr s'"
    by auto
  from Cons.IH [OF u(2)] u(1) show ?case
    by (auto simp: book_step_def upt_rec [of n] split: if_splits prod.splits)
qed

lemma line_sum_net:
  assumes "list_all payrollBookDisclosureLineSchema ls"
  shows "line_sum dl_netAtomic t ls = line_sum dl_grossAtomic t ls - line_sum dl_deductionsAtomic t ls"
  using assms by (induction ls) (auto simp: line_sum_def payrollBookDisclosureLineSchema_def)

lemma verified_book_facts:
  assumes "verifyCompletePayrollBook L b = Inr v"
  shows "int (vb_entryCount v) = ck_entryCount (pb_checkpoint b)"
    and "length (pb_entries b) = vb_entryCount v"
    and "map de_index (pb_entries b) = map int [0..<vb_entryCount v]"
    and "bigint (vb_accumulatorRoot v) = bigint (ck_accumulatorRoot (pb_checkpoint b))"
    and "distinct (map (\<lambda>d. run_key (de_entry d)) (pb_entries b))"
    and "list_all (\<lambda>d. case entry_owner (de_entry d) of (chainId, sealAddress, ownerAddress, periodStart, periodEnd) \<Rightarrow>
        bigint chainId = bigint (ck_chainId (pb_checkpoint b)) \<and> bigint sealAddress = bigint (ck_sealAddress (pb_checkpoint b))
        \<and> bigint ownerAddress = bigint (ck_ownerAddress (pb_checkpoint b))
        \<and> periodStart = ck_periodStart (pb_checkpoint b) \<and> periodEnd = ck_periodEnd (pb_checkpoint b)) (pb_entries b)"
    and "vb_totalsSTRK v = totals_text (line_totals STRK (concat (map de_lines (pb_entries b))))"
    and "vb_totalsUSDC v = totals_text (line_totals USDC (concat (map de_lines (pb_entries b))))"
    and "line_sum dl_netAtomic t (concat (map de_lines (pb_entries b)))
      = line_sum dl_grossAtomic t (concat (map de_lines (pb_entries b))) - line_sum dl_deductionsAtomic t (concat (map de_lines (pb_entries b)))"
proof -
  from assms obtain r s where b:
    "rfold (book_step L (pb_checkpoint b))
       \<lparr>bl_root = r, bl_runs = {}, bl_totals = (\<lambda>_. \<lparr>am_gross = 0, am_deductions = 0, am_net = 0\<rparr>)\<rparr>
       (enumerate 0 (pb_entries b)) = Inr s"
    "bigint (bl_root s) = bigint (ck_accumulatorRoot (pb_checkpoint b))"
    "int (length (pb_entries b)) = ck_entryCount (pb_checkpoint b)"
    "v = \<lparr>vb_entryCount = length (pb_entries b), vb_accumulatorRoot = bl_root s,
        vb_totalsSTRK = totals_text (bl_totals s STRK), vb_totalsUSDC = totals_text (bl_totals s USDC)\<rparr>"
    "completePayrollBookSchema b"
    by (rule verifyCompletePayrollBook_Inr)
  have zero: "add_amounts \<lparr>am_gross = 0, am_deductions = 0, am_net = 0\<rparr> a = a" for a by (simp add: add_amounts_def)
  note totals = replay_totals [OF b(1), unfolded book_loop.simps zero]
  note owner = belongs [OF b(1)]
  have "list_all payrollBookDisclosureLineSchema (concat (map de_lines (pb_entries b)))"
    using b(5) by (auto simp: completePayrollBookSchema_def payrollBookDisclosureEntrySchema_def list_all_iff)
  then show "line_sum dl_netAtomic t (concat (map de_lines (pb_entries b)))
      = line_sum dl_grossAtomic t (concat (map de_lines (pb_entries b))) - line_sum dl_deductionsAtomic t (concat (map de_lines (pb_entries b)))"
    by (rule line_sum_net)
  show "int (vb_entryCount v) = ck_entryCount (pb_checkpoint b)" "length (pb_entries b) = vb_entryCount v"
    "bigint (vb_accumulatorRoot v) = bigint (ck_accumulatorRoot (pb_checkpoint b))" using b by simp_all
  show "map de_index (pb_entries b) = map int [0..<vb_entryCount v]" using owner b(4) by simp
  show "distinct (map (\<lambda>d. run_key (de_entry d)) (pb_entries b))" using totals by blast
  show "list_all (\<lambda>d. case entry_owner (de_entry d) of (chainId, sealAddress, ownerAddress, periodStart, periodEnd) \<Rightarrow>
        bigint chainId = bigint (ck_chainId (pb_checkpoint b)) \<and> bigint sealAddress = bigint (ck_sealAddress (pb_checkpoint b))
        \<and> bigint ownerAddress = bigint (ck_ownerAddress (pb_checkpoint b))
        \<and> periodStart = ck_periodStart (pb_checkpoint b) \<and> periodEnd = ck_periodEnd (pb_checkpoint b)) (pb_entries b)"
    using owner by blast
  show "vb_totalsSTRK v = totals_text (line_totals STRK (concat (map de_lines (pb_entries b))))"
    "vb_totalsUSDC v = totals_text (line_totals USDC (concat (map de_lines (pb_entries b))))"
    using totals b(4) by simp_all
qed

text \<open>C9: A verified book is complete and adds up.  The entries are exactly the number the checkpoint
  counts, numbered in order, each belongs to the checkpoint's chain, seal, owner and period, no run
  occurs twice, and the totals reported for each token are the sums of the gross, deduction and net
  amounts of all lines, with net the difference of the other two.\<close>

theorem verified_book_exact:
  assumes "verifyCompletePayrollBook L b = Inr v"
  shows "int (vb_entryCount v) = ck_entryCount (pb_checkpoint b)
    \<and> map de_index (pb_entries b) = map int [0..<vb_entryCount v]
    \<and> distinct (map (\<lambda>d. run_key (de_entry d)) (pb_entries b))
    \<and> list_all (\<lambda>d. case entry_owner (de_entry d) of (chainId, sealAddress, ownerAddress, periodStart, periodEnd) \<Rightarrow>
        bigint chainId = bigint (ck_chainId (pb_checkpoint b)) \<and> bigint sealAddress = bigint (ck_sealAddress (pb_checkpoint b))
        \<and> bigint ownerAddress = bigint (ck_ownerAddress (pb_checkpoint b))
        \<and> periodStart = ck_periodStart (pb_checkpoint b) \<and> periodEnd = ck_periodEnd (pb_checkpoint b)) (pb_entries b)
    \<and> vb_totalsSTRK v = totals_text (line_totals STRK (concat (map de_lines (pb_entries b))))
    \<and> vb_totalsUSDC v = totals_text (line_totals USDC (concat (map de_lines (pb_entries b))))
    \<and> (\<forall>t. line_sum dl_netAtomic t (concat (map de_lines (pb_entries b)))
        = line_sum dl_grossAtomic t (concat (map de_lines (pb_entries b)))
          - line_sum dl_deductionsAtomic t (concat (map de_lines (pb_entries b))))"
  using verified_book_facts [OF assms] by blast

definition example_line :: disclosure_line where
  "example_line = \<lparr>dl_recipientReference = ''r'', dl_jurisdictionCode = ''PT'', dl_token = USDC,
     dl_grossAtomic = ''100'', dl_deductionsAtomic = ''30'', dl_netAtomic = ''70''\<rparr>"

definition example_book :: "char \<Rightarrow> string \<Rightarrow> string \<Rightarrow> complete_book" where
  "example_book c h r = \<lparr>pb_scope = Employer_scope,
     pb_checkpoint = \<lparr>ck_chainId = ''0x1'', ck_sealAddress = ''0x2'', ck_ownerAddress = ''0x4'', ck_periodStart = ''0'',
       ck_periodEnd = ''10'', ck_entryCount = 1, ck_accumulatorRoot = r\<rparr>,
     pb_entries = [\<lparr>de_index = 0, de_entry = Universal (example_entry c), de_entryCommitment = h, de_lines = [example_line],
       de_integrityVerificationTransactionHash = ''0x1'', de_settlementTransactionHash = ''0x2''\<rparr>],
     pb_generatedAt = ''2025-01-01T00:00:00Z''\<rparr>"


lemma ref_felt:
  "\<exists>r. feltCommitment ref_lib (poseidon ref_lib vs) = Inr r \<and> commitment_ok r \<and> bigint r = poseidon ref_lib vs
     \<and> bigint r < STARK_FIELD_PRIME"
proof -
  define h where "h = foldl (\<lambda>h v. (h * 31 + v) mod (2::int) ^ 250) 7 vs"
  have "0 \<le> h \<and> h < 2 ^ 250" unfolding h_def by (induction vs rule: rev_induct) simp_all
  moreover have p: "poseidon ref_lib vs = h"
    using bigint_toString16 [of h] calculation by (simp add: poseidon_def ref_lib_def ref_poseidon_def h_def)
  ultimately have range: "0 \<le> poseidon ref_lib vs" "poseidon ref_lib vs < 256 ^ 32"
    "poseidon ref_lib vs < STARK_FIELD_PRIME" by (simp_all add: STARK_FIELD_PRIME_def)
  from encodeUint_total [OF range(1,2)] obtain bs where bs: "encodeUint (poseidon ref_lib vs) 32 = Inr bs" by blast
  then have felt: "feltCommitment ref_lib (poseidon ref_lib vs) = Inr (toHex ref_lib bs)" by (simp add: feltCommitment_def)
  moreover have "commitment_ok (toHex ref_lib bs)" using bs by (simp add: toHex_commitment_ok encodeUint_Inr_iff)
  ultimately show ?thesis using feltCommitment_Inr [OF ref_lib_hex felt] range(3) by simp
qed

lemma append_total:
  assumes "commitment_ok p" "bigint p < STARK_FIELD_PRIME" "commitment_ok c" "0 \<le> i" "i \<le> 0xffffffff"
  shows "\<exists>r. appendPayrollBookRoot ref_lib p c i = Inr r \<and> commitment_ok r"
proof -
  obtain bs where "commitmentBytes ref_lib c = Inr bs" using commitmentBytes_total [OF ref_lib_hex assms(3)] by blast
  then obtain v where "append_inputs ref_lib p c i = Inr v"
    using assms by (simp add: append_inputs_def commitmentLimbs_def Let_def)
  with ref_felt [of v] show ?thesis by (auto simp: appendPayrollBookRoot_def)
qed

lemma example_line_ok: "payrollBookDisclosureLineSchema example_line" by code_simp

lemma example_book_texts:
  "list_all starknet_address_ok [''0x1'', ''0x2'', ''0x4'']" "unixSecondsSchema ''0''" "unixSecondsSchema ''10''"
  "bigint ''0'' = 0" "bigint ''10'' = 10" "datetime_ok ''2025-01-01T00:00:00Z''" "bigint ''100'' = 100" "bigint ''30'' = 30"
  "bigint ''70'' = 70"
  by code_simp+

lemma example_book_verified:
  "\<exists>h r. list_all (\<lambda>c. \<exists>v. verifyCompletePayrollBook ref_lib (example_book c h r) = Inr v) [CHR ''a'', CHR ''A'']"
proof -
  from universal_commitment_total [OF ref_lib_hex ref_lib_keccak example_entry_ok(1) example_entry_addresses]
  obtain h where h: "universalPayrollBookEntryCommitment ref_lib (example_entry (CHR ''a'')) = Inr h" "commitment_ok h" by blast
  then have h': "universalPayrollBookEntryCommitment ref_lib (example_entry (CHR ''A'')) = Inr h"
    using example_entry_ok by (simp add: universalPayrollBookEntryCommitment_def example_entry_same)
  define vs where "vs = [bigint (encodeShortString ref_lib ''PAYO_BOOK_V1''), bigint ''0x1'', bigint ''0x2'', bigint ''0x4'', 0, 10]"
  obtain r0 where r0: "feltCommitment ref_lib (poseidon ref_lib vs) = Inr r0" "commitment_ok r0" "bigint r0 < STARK_FIELD_PRIME"
    using ref_felt [of vs] by blast
  have start: "initialPayrollBookRoot ref_lib (pb_checkpoint (example_book c h r)) = Inr r0" for c r
    using r0(1) example_book_texts by (simp add: initialPayrollBookRoot_def example_book_def vs_def)
  from append_total [OF r0(2,3) h(2), of 0] obtain r where r: "appendPayrollBookRoot ref_lib r0 h 0 = Inr r" "commitment_ok r"
    by auto
  have "\<exists>v. verifyCompletePayrollBook ref_lib (example_book c h r) = Inr v"
    if c: "universalPayrollBookEntryCommitment ref_lib (example_entry c) = Inr h" "universalPayrollBookEntrySchema (example_entry c)" for c
  proof -
    have schema: "completePayrollBookSchema (example_book c h r)"
      using c h(2) r(2) example_book_texts example_line_ok
      by (simp add: completePayrollBookSchema_def payrollBookCheckpointSchema_def payrollBookDisclosureEntrySchema_def
          example_book_def uint32_ok_def)
    have line: "add_line (\<lambda>_. a) example_line = Inr ((\<lambda>_. a)(USDC := \<lparr>am_gross = am_gross a + bigint (dl_grossAtomic example_line),
       am_deductions = am_deductions a + bigint (dl_deductionsAtomic example_line),
       am_net = am_net a + bigint (dl_netAtomic example_line)\<rparr>))" for a
      by (simp add: add_line_def example_line_ok) (simp add: example_line_def)
    have commitment: "payrollBookEntryCommitment ref_lib (Universal (example_entry c)) = Inr h"
      using c by (simp add: payrollBookEntryCommitment_def)
    have owner: "ue_chainId (example_entry c) = ''0x1''" "ue_sealAddress (example_entry c) = ''0x2''"
      "ue_ownerAddress (example_entry c) = ''0x4''" "ue_periodStart (example_entry c) = ''0''"
      "ue_periodEnd (example_entry c) = ''10''"
      by (simp_all add: example_entry_def)
    show ?thesis
      using schema start [of c r] r(1)
      by (simp add: verifyCompletePayrollBook_def book_step_def example_book_def commitment owner line)
  qed
  from this [OF h(1) example_entry_ok(1)] this [OF h' example_entry_ok(2)] show ?thesis by auto
qed


theorem book_tamper_evident_witness:
  "\<exists>h r. let b = example_book (CHR ''a'') h r; c = example_book (CHR ''A'') h r in
     (\<exists>v w. verifyCompletePayrollBook ref_lib b = Inr v \<and> verifyCompletePayrollBook ref_lib c = Inr w)
     \<and> ((map (\<lambda>d. bigint (de_entryCommitment d)) (pb_entries b) = map (\<lambda>d. bigint (de_entryCommitment d)) (pb_entries c)
          \<and> initial_inputs ref_lib (pb_checkpoint b) = initial_inputs ref_lib (pb_checkpoint c))
        \<or> (\<exists>x \<in> set (book_inputs ref_lib b). \<exists>y \<in> set (book_inputs ref_lib c). x \<noteq> y \<and> poseidon ref_lib x = poseidon ref_lib y))"
proof -
  from example_book_verified obtain h r v w where
    b: "verifyCompletePayrollBook ref_lib (example_book (CHR ''a'') h r) = Inr v" and
    c: "verifyCompletePayrollBook ref_lib (example_book (CHR ''A'') h r) = Inr w" by auto
  have "pb_checkpoint (example_book (CHR ''a'') h r) = pb_checkpoint (example_book (CHR ''A'') h r)"
    by (simp add: example_book_def)
  with book_tamper_evident [OF ref_lib_hex b c] b c show ?thesis
    unfolding Let_def by (intro exI [of _ h] exI [of _ r]) simp
qed

theorem verified_book_exact_witness:
  "\<exists>h r v. verifyCompletePayrollBook ref_lib (example_book (CHR ''a'') h r) = Inr v \<and> vb_entryCount v = 1
     \<and> vb_totalsUSDC v = \<lparr>bt_grossAtomic = ''100'', bt_deductionsAtomic = ''30'', bt_netAtomic = ''70''\<rparr>"
proof -
  from example_book_verified obtain h r v where
    v: "verifyCompletePayrollBook ref_lib (example_book (CHR ''a'') h r) = Inr v" by auto
  have "totals_text (line_totals USDC (concat (map de_lines (pb_entries (example_book (CHR ''a'') h r)))))
      = \<lparr>bt_grossAtomic = ''100'', bt_deductionsAtomic = ''30'', bt_netAtomic = ''70''\<rparr>"
    by (simp add: example_book_def) code_simp
  moreover have "ck_entryCount (pb_checkpoint (example_book (CHR ''a'') h r)) = 1" by (simp add: example_book_def)
  ultimately show ?thesis using verified_book_exact [OF v] v by auto
qed

end
