(* ===== verification/Fx.thy ===== *)
theory Fx
  imports Payroll Calendar Fixed_Fields Reference_Lib
begin

text \<open>
  Model of \<open>lib/domain/fx.ts\<close>: exchange-rate snapshots, built from several quotes (median and
  haircut) or from a Pragma observation, their conversion to what a proof carries, its commitment, and
  the window in which a catalog of snapshots may be published.  \<open>Date\<close> arguments are integers in
  milliseconds.
\<close>

section \<open>Snapshots\<close>

record source_quote =
  fq_source :: string
  fq_priceAtomic :: string
  fq_observedAt :: string

definition sourceQuoteSchema :: "source_quote \<Rightarrow> bool" where
  "sourceQuoteSchema q =
     (length_between 1 80 (fq_source q) \<and> atomicAmount_ok (fq_priceAtomic q) \<and> datetime_ok (fq_observedAt q))"

record fx_snapshot =
  fx_baseToken :: token
  fx_referenceCurrency :: string
  fx_feedId :: string
  fx_quoteDecimals :: int
  fx_medianPriceAtomic :: string
  fx_conservativePriceAtomic :: string
  fx_haircutBps :: int
  fx_observedAt :: string
  fx_minimumSourceCount :: int
  fx_maximumAgeSeconds :: int
  fx_sources :: "source_quote list"
  fx_aggregatedSourceCount :: "int option"

definition fxSnapshotSchema :: "fx_snapshot \<Rightarrow> bool" where
  "fxSnapshotSchema s =
     (currency_ok (fx_referenceCurrency s) \<and> length_between 1 160 (fx_feedId s)
      \<and> 0 \<le> fx_quoteDecimals s \<and> fx_quoteDecimals s \<le> 18
      \<and> atomicAmount_ok (fx_medianPriceAtomic s) \<and> atomicAmount_ok (fx_conservativePriceAtomic s)
      \<and> 0 \<le> fx_haircutBps s \<and> fx_haircutBps s \<le> 5000 \<and> datetime_ok (fx_observedAt s)
      \<and> 1 \<le> fx_minimumSourceCount s \<and> fx_minimumSourceCount s \<le> 9
      \<and> 0 < fx_maximumAgeSeconds s \<and> fx_maximumAgeSeconds s \<le> 86400
      \<and> 1 \<le> length (fx_sources s) \<and> length (fx_sources s) \<le> 9 \<and> list_all sourceQuoteSchema (fx_sources s)
      \<and> opt_ok (\<lambda>n. 1 \<le> n \<and> n \<le> 255) (fx_aggregatedSourceCount s))"

record pragma_snapshot =
  pg_baseToken :: token
  pg_pairId :: string
  pg_oracleAddress :: string
  pg_summaryStatsAddress :: string
  pg_blockNumber :: string
  pg_blockTimestamp :: string
  pg_spotMedianPriceAtomic :: string
  pg_twapPriceAtomic :: string
  pg_selectedPriceAtomic :: string
  pg_conservativePriceAtomic :: string
  pg_twapWindowSeconds :: int
  pg_haircutBps :: int
  pg_observedAt :: string
  pg_sourceCount :: int
  pg_minimumSourceCount :: int
  pg_maximumAgeSeconds :: int

text \<open>
  The reference currency is the literal \<open>USD\<close> and the quote has six decimals.  An age in seconds is
  a quotient of two \<open>Number\<close>s; comparing it with whole seconds is comparing the milliseconds.
\<close>

definition pragmaProtectedFxSnapshotSchema :: "pragma_snapshot \<Rightarrow> bool" where
  "pragmaProtectedFxSnapshotSchema s =
     ((pg_pairId s = ''STRK/USD'' \<or> pg_pairId s = ''USDC/USD'')
      \<and> starknet_address_ok (pg_oracleAddress s) \<and> starknet_address_ok (pg_summaryStatsAddress s)
      \<and> atomicAmount_ok (pg_blockNumber s) \<and> datetime_ok (pg_blockTimestamp s)
      \<and> atomicAmount_ok (pg_spotMedianPriceAtomic s) \<and> atomicAmount_ok (pg_twapPriceAtomic s)
      \<and> atomicAmount_ok (pg_selectedPriceAtomic s) \<and> atomicAmount_ok (pg_conservativePriceAtomic s)
      \<and> 300 \<le> pg_twapWindowSeconds s \<and> pg_twapWindowSeconds s \<le> 86400
      \<and> 0 \<le> pg_haircutBps s \<and> pg_haircutBps s \<le> 5000 \<and> datetime_ok (pg_observedAt s)
      \<and> 1 \<le> pg_sourceCount s \<and> pg_sourceCount s \<le> 255
      \<and> 1 \<le> pg_minimumSourceCount s \<and> pg_minimumSourceCount s \<le> 255
      \<and> 0 < pg_maximumAgeSeconds s \<and> pg_maximumAgeSeconds s \<le> 3600
      \<and> (let selected = bigint (pg_selectedPriceAtomic s);
             expectedSelected = (if bigint (pg_spotMedianPriceAtomic s) < bigint (pg_twapPriceAtomic s)
                                 then bigint (pg_spotMedianPriceAtomic s) else bigint (pg_twapPriceAtomic s));
             expectedConservative = bdiv (selected * (10000 - pg_haircutBps s)) 10000;
             age = getTime (pg_blockTimestamp s) - getTime (pg_observedAt s) in
         selected = expectedSelected \<and> bigint (pg_conservativePriceAtomic s) = expectedConservative
         \<and> \<not> pg_sourceCount s < pg_minimumSourceCount s
         \<and> \<not> (age < 0 \<or> pg_maximumAgeSeconds s * 1000 < age)))"

text \<open>The selected and the conservative price of the argument are not read.\<close>

definition buildPragmaProtectedFxSnapshot :: "pragma_snapshot \<Rightarrow> pragma_snapshot result" where
  "buildPragmaProtectedFxSnapshot input =
     rbind (zod ''atomicAmountSchema'' atomicAmount_ok (pg_spotMedianPriceAtomic input)) (\<lambda>s.
     rbind (zod ''atomicAmountSchema'' atomicAmount_ok (pg_twapPriceAtomic input)) (\<lambda>t.
     let spot = bigint s; twap = bigint t in
     if spot = 0 \<or> twap = 0 then Inl (Thrown ''Pragma returned a zero FX value.'')
     else let selected = (if spot < twap then spot else twap) in
       zod ''pragmaProtectedFxSnapshotSchema'' pragmaProtectedFxSnapshotSchema
         (input\<lparr>pg_selectedPriceAtomic := toString selected,
                pg_conservativePriceAtomic := toString (bdiv (selected * (10000 - pg_haircutBps input)) 10000)\<rparr>)))"

definition pragma_json :: "pragma_snapshot \<Rightarrow> json" where
  "pragma_json s = JObj
     [(''snapshotVersion'', JStr ''payo-pragma-fx-snapshot-v2''),
      (''baseToken'', JStr (token_symbol (pg_baseToken s))),
      (''referenceCurrency'', JStr ''USD''),
      (''pairId'', JStr (pg_pairId s)),
      (''oracleAddress'', JStr (pg_oracleAddress s)),
      (''summaryStatsAddress'', JStr (pg_summaryStatsAddress s)),
      (''blockNumber'', JStr (pg_blockNumber s)),
      (''blockTimestamp'', JStr (pg_blockTimestamp s)),
      (''quoteDecimals'', JNum 6),
      (''spotMedianPriceAtomic'', JStr (pg_spotMedianPriceAtomic s)),
      (''twapPriceAtomic'', JStr (pg_twapPriceAtomic s)),
      (''selectedPriceAtomic'', JStr (pg_selectedPriceAtomic s)),
      (''conservativePriceAtomic'', JStr (pg_conservativePriceAtomic s)),
      (''selectionRule'', JStr ''min_spot_median_twap''),
      (''twapWindowSeconds'', JNum (pg_twapWindowSeconds s)),
      (''haircutBps'', JNum (pg_haircutBps s)),
      (''observedAt'', JStr (pg_observedAt s)),
      (''sourceCount'', JNum (pg_sourceCount s)),
      (''minimumSourceCount'', JNum (pg_minimumSourceCount s)),
      (''maximumAgeSeconds'', JNum (pg_maximumAgeSeconds s))]"

definition pragmaProtectedFxSnapshotCommitment :: "lib \<Rightarrow> pragma_snapshot \<Rightarrow> string result" where
  "pragmaProtectedFxSnapshotCommitment L snapshotInput =
     rbind (zod ''pragmaProtectedFxSnapshotSchema'' pragmaProtectedFxSnapshotSchema snapshotInput) (\<lambda>snapshot.
     Inr (toHex L (keccak_256 L (utf8 (stableJson (pragma_json snapshot))))))"

section \<open>Building a snapshot from quotes\<close>

record fx_input =
  fi_baseToken :: token
  fi_referenceCurrency :: string
  fi_quoteDecimals :: int
  fi_haircutBps :: int
  fi_maximumAgeSeconds :: int
  fi_minimumSources :: int
  fi_aggregatedSourceCount :: "int option"
  fi_feedId :: "string option"
  fi_quotes :: "source_quote list"
  fi_now :: int

definition check_quote :: "fx_input \<Rightarrow> unit \<Rightarrow> source_quote \<Rightarrow> unit result" where
  "check_quote input _ quote =
     rbind (zod ''sourceQuoteSchema'' sourceQuoteSchema quote) (\<lambda>_.
     let age = fi_now input - getTime (fq_observedAt quote) in
     if age < 0 \<or> fi_maximumAgeSeconds input * 1000 < age
     then Inl (Thrown (''FX quote is stale or future-dated: '' @ fq_source quote @ ''.'')) else Inr ())"

definition median_of :: "int list \<Rightarrow> int" where
  "median_of prices =
     (let middle = length prices div 2 in
      if length prices mod 2 = 1 then prices ! middle else bdiv (prices ! (middle - 1) + prices ! middle) 2)"

definition compare_price :: "int \<Rightarrow> int \<Rightarrow> int" where
  "compare_price a b = (if a < b then -1 else if b < a then 1 else 0)"

text \<open>Without quotes the median is undefined and the multiplication throws.\<close>

definition buildFxSnapshot :: "fx_input \<Rightarrow> fx_snapshot result" where
  "buildFxSnapshot input =
     (let now = fi_now input;
          sourceCount = (case fi_aggregatedSourceCount input of Some n \<Rightarrow> n | None \<Rightarrow> int (length (fi_quotes input))) in
      if sourceCount < fi_minimumSources input
      then Inl (Thrown ''FX snapshot has too few independent sources.'')
      else if card (set (map (\<lambda>q. toLowerCase (fq_source q)) (fi_quotes input))) \<noteq> length (fi_quotes input)
      then Inl (Thrown ''FX sources must be unique.'')
      else rbind (rfold (check_quote input) () (fi_quotes input)) (\<lambda>_.
        let prices = sort_by compare_price (map (\<lambda>q. bigint (fq_priceAtomic q)) (fi_quotes input)) in
        if prices = [] then Inl (Thrown ''TypeError'')
        else let median = median_of prices;
                 conservative = bdiv (median * (10000 - fi_haircutBps input)) 10000;
                 latestCommonTime = foldl (\<lambda>oldest q. if getTime (fq_observedAt q) < oldest then getTime (fq_observedAt q) else oldest)
                   now (fi_quotes input) in
          zod ''fxSnapshotSchema'' fxSnapshotSchema
            \<lparr>fx_baseToken = fi_baseToken input, fx_referenceCurrency = fi_referenceCurrency input,
             fx_feedId = (case fi_feedId input of Some f \<Rightarrow> f
               | None \<Rightarrow> token_symbol (fi_baseToken input) @ ''/'' @ fi_referenceCurrency input),
             fx_quoteDecimals = fi_quoteDecimals input, fx_medianPriceAtomic = toString median,
             fx_conservativePriceAtomic = toString conservative, fx_haircutBps = fi_haircutBps input,
             fx_observedAt = toISOString latestCommonTime, fx_minimumSourceCount = fi_minimumSources input,
             fx_maximumAgeSeconds = fi_maximumAgeSeconds input, fx_sources = fi_quotes input,
             fx_aggregatedSourceCount = fi_aggregatedSourceCount input\<rparr>))"

definition protectedFxSnapshotToPayrollSnapshot :: "lib \<Rightarrow> pragma_snapshot \<Rightarrow> fx_snapshot result" where
  "protectedFxSnapshotToPayrollSnapshot L snapshotInput =
     rbind (zod ''pragmaProtectedFxSnapshotSchema'' pragmaProtectedFxSnapshotSchema snapshotInput) (\<lambda>snapshot.
     rbind (pragmaProtectedFxSnapshotCommitment L snapshot) (\<lambda>protectedCommitment.
     buildFxSnapshot
       \<lparr>fi_baseToken = pg_baseToken snapshot, fi_referenceCurrency = ''USD'', fi_quoteDecimals = 6,
        fi_haircutBps = pg_haircutBps snapshot, fi_maximumAgeSeconds = pg_maximumAgeSeconds snapshot,
        fi_minimumSources = pg_minimumSourceCount snapshot, fi_aggregatedSourceCount = Some (pg_sourceCount snapshot),
        fi_feedId = Some (''pragma-protected-v2:'' @ pg_pairId snapshot @ '':'' @ protectedCommitment),
        fi_quotes = [\<lparr>fq_source = ''pragma-protected-v2:'' @ toLowerCase (pg_pairId snapshot),
          fq_priceAtomic = pg_selectedPriceAtomic snapshot, fq_observedAt = pg_observedAt snapshot\<rparr>],
        fi_now = getTime (pg_blockTimestamp snapshot)\<rparr>))"

section \<open>What a proof carries\<close>

record circuit_fx =
  cf_token :: int
  cf_tokenDecimals :: int
  cf_referenceCurrency :: int
  cf_feedCommitment :: string
  cf_sourcesCommitment :: string
  cf_priceNumerator :: string
  cf_priceDenominator :: string
  cf_observedAt :: string
  cf_sourceCount :: int
  cf_minimumSourceCount :: int
  cf_maximumAgeSeconds :: string
  cf_haircutBps :: int

definition quote_json :: "source_quote \<Rightarrow> json" where
  "quote_json q = JObj [(''source'', JStr (fq_source q)), (''priceAtomic'', JStr (fq_priceAtomic q)),
     (''observedAt'', JStr (fq_observedAt q))]"

definition toCircuitFxSnapshot :: "lib \<Rightarrow> (string \<Rightarrow> string \<Rightarrow> int) \<Rightarrow> fx_snapshot \<Rightarrow> circuit_fx result" where
  "toCircuitFxSnapshot L localeCompare snapshotInput =
     rbind (zod ''fxSnapshotSchema'' fxSnapshotSchema snapshotInput) (\<lambda>snapshot.
     if fx_quoteDecimals snapshot \<noteq> 6
     then Inl (Thrown ''PayrollIntegrity v1 requires 6-decimal USD/GBP reference values.'')
     else if fx_referenceCurrency snapshot \<noteq> ''USD'' \<and> fx_referenceCurrency snapshot \<noteq> ''GBP''
     then Inl (Thrown (''Unsupported circuit reference currency: '' @ fx_referenceCurrency snapshot @ ''.''))
     else
       let sortedSources = sort_by (\<lambda>left right. localeCompare (fq_source left) (fq_source right)) (fx_sources snapshot);
           sourceCount = (case fx_aggregatedSourceCount snapshot of Some n \<Rightarrow> n | None \<Rightarrow> int (length (fx_sources snapshot)));
           sources = JArr (map quote_json sortedSources) in
       rbind (hashTextCommitment L ''PAYO_FX_FEED_V1'' (fx_feedId snapshot)) (\<lambda>feed.
       rbind (hashTextCommitment L ''PAYO_FX_SOURCES_V1''
         (stableJson (case fx_aggregatedSourceCount snapshot of None \<Rightarrow> sources
            | Some _ \<Rightarrow> JObj [(''aggregatedSourceCount'', JNum sourceCount), (''observations'', sources)]))) (\<lambda>srcs.
       Inr \<lparr>cf_token = (if fx_baseToken snapshot = STRK then 0 else 1),
            cf_tokenDecimals = (if fx_baseToken snapshot = STRK then 18 else 6),
            cf_referenceCurrency = (if fx_referenceCurrency snapshot = ''USD'' then 0 else 1),
            cf_feedCommitment = toHex L feed, cf_sourcesCommitment = toHex L srcs,
            cf_priceNumerator = fx_medianPriceAtomic snapshot,
            cf_priceDenominator = toString (10 ^ (if fx_baseToken snapshot = STRK then 18 else 6)),
            cf_observedAt = toString (getTime (fx_observedAt snapshot) div 1000),
            cf_sourceCount = sourceCount, cf_minimumSourceCount = fx_minimumSourceCount snapshot,
            cf_maximumAgeSeconds = toString (fx_maximumAgeSeconds snapshot),
            cf_haircutBps = fx_haircutBps snapshot\<rparr>)))"

text \<open>\<open>BigInt\<close> of a printed number that may be negative (an observation before 1970).\<close>

definition signed_bigint :: "string \<Rightarrow> int" where
  "signed_bigint s = (if take 1 s = ''-'' then - bigint (drop 1 s) else bigint s)"

definition circuit_fx_fields :: "lib \<Rightarrow> circuit_fx \<Rightarrow> byte list result list" where
  "circuit_fx_fields L compiled =
     [Inr [word_of_int (cf_token compiled), word_of_int (cf_tokenDecimals compiled),
           word_of_int (cf_referenceCurrency compiled), 6],
      normalizedHexBytes L (cf_feedCommitment compiled) (Some 32),
      normalizedHexBytes L (cf_sourcesCommitment compiled) (Some 32),
      encodeUint (bigint (cf_priceNumerator compiled)) 16, encodeUint (bigint (cf_priceDenominator compiled)) 16,
      encodeUint (signed_bigint (cf_observedAt compiled)) 8,
      Inr [word_of_int (cf_sourceCount compiled), word_of_int (cf_minimumSourceCount compiled)],
      encodeUint (bigint (cf_maximumAgeSeconds compiled)) 8, encodeUint (cf_haircutBps compiled) 2]"

definition fxSnapshotCommitment :: "lib \<Rightarrow> (string \<Rightarrow> string \<Rightarrow> int) \<Rightarrow> fx_snapshot \<Rightarrow> string result" where
  "fxSnapshotCommitment L localeCompare snapshot =
     rbind (toCircuitFxSnapshot L localeCompare snapshot) (\<lambda>compiled.
     hash_fields L ''PAYO_FX_SNAPSHOT_V1'' (circuit_fx_fields L compiled))"

record publication_window =
  pw_observedAt :: int
  pw_maximumAgeSeconds :: int
  pw_expiresAt :: int

definition fxCatalogPublicationWindow :: "fx_snapshot list \<Rightarrow> publication_window result" where
  "fxCatalogPublicationWindow snapshotsInput =
     (if length snapshotsInput < 1 \<or> 2 < length snapshotsInput
      then Inl (Thrown ''An FX catalog publication requires 1-2 snapshots.'')
      else rbind (rmap (zod ''fxSnapshotSchema'' fxSnapshotSchema) snapshotsInput) (\<lambda>snapshots.
        let observedAt = Max (set (map (\<lambda>s. getTime (fx_observedAt s) div 1000) snapshots));
            expiresAt = Min (set (map (\<lambda>s. getTime (fx_observedAt s) div 1000 + fx_maximumAgeSeconds s) snapshots));
            maximumAgeSeconds = expiresAt - observedAt in
        if maximumAgeSeconds \<le> 0 \<or> 3600 < maximumAgeSeconds
        then Inl (Thrown ''The FX catalog does not share a valid publication window of at most one hour.'')
        else Inr \<lparr>pw_observedAt = observedAt, pw_maximumAgeSeconds = maximumAgeSeconds, pw_expiresAt = expiresAt\<rparr>))"

end
