(* ===== verification/Fx_Properties.thy ===== *)
theory Fx_Properties
  imports Fx
begin

text \<open>
  What the snapshots of theory Fx are: the price is a median with a haircut, and a protected Pragma
  observation keeps its price when it is adapted.
\<close>


section \<open>The median\<close>

lemma half_between: "a \<le> b \<Longrightarrow> a \<le> (a + b) div 2 \<and> (a + b) div 2 \<le> (b::int)"
  by linarith

lemma median_bounds:
  fixes xs :: "int list"
  assumes "sorted xs" "xs \<noteq> []" "\<forall>x \<in> set xs. 0 \<le> x"
  shows "\<forall>i < length xs - length xs div 2. xs ! i \<le> median_of xs"
    and "\<forall>i < length xs. length xs div 2 \<le> i \<longrightarrow> median_of xs \<le> xs ! i"
proof -
  let ?k = "length xs div 2"
  have k: "?k < length xs" using assms(2) by simp
  have "xs ! (length xs - ?k - 1) \<le> median_of xs \<and> median_of xs \<le> xs ! ?k"
  proof (cases "length xs mod 2 = 1")
    case True
    then have "length xs - ?k - 1 = ?k" by presburger
    with True show ?thesis by (simp add: median_of_def)
  next
    case False
    then have idx: "length xs - ?k - 1 = ?k - 1" by presburger
    have "xs ! (?k - 1) \<le> xs ! ?k" using sorted_nth_mono [OF assms(1), of "?k - 1" ?k] k by simp
    moreover have "0 \<le> xs ! (?k - 1)" "0 \<le> xs ! ?k" using assms(3) k by (simp_all add: nth_mem less_imp_diff_less)
    ultimately show ?thesis
      unfolding idx using False half_between [of "xs ! (?k - 1)" "xs ! ?k"] by (simp add: median_of_def Let_def bdiv_nonneg)
  qed
  then have mid: "xs ! (length xs - ?k - 1) \<le> median_of xs" "median_of xs \<le> xs ! ?k" by simp_all
  show "\<forall>i < length xs - ?k. xs ! i \<le> median_of xs"
  proof (intro allI impI)
    fix i assume "i < length xs - ?k"
    then have "xs ! i \<le> xs ! (length xs - ?k - 1)" using k by (intro sorted_nth_mono [OF assms(1)]) simp_all
    with mid(1) show "xs ! i \<le> median_of xs" by simp
  qed
  show "\<forall>i < length xs. ?k \<le> i \<longrightarrow> median_of xs \<le> xs ! i"
    using mid(2) sorted_nth_mono [OF assms(1)] by fastforce
qed

lemma filter_prefix: "\<forall>i < length xs. k \<le> i \<longrightarrow> \<not> P (xs ! i) \<Longrightarrow> length (filter P xs) \<le> k"
proof -
  assume no: "\<forall>i < length xs. k \<le> i \<longrightarrow> \<not> P (xs ! i)"
  have "filter P (drop k xs) = []" using no by (auto simp: filter_empty_conv in_set_conv_nth)
  then have "filter P xs = filter P (take k xs)" by (metis append_Nil2 append_take_drop_id filter_append)
  then show ?thesis using length_filter_le [of P "take k xs"] by simp
qed

lemma filter_suffix: "\<forall>i < k. \<not> P (xs ! i) \<Longrightarrow> k \<le> length xs \<Longrightarrow> length (filter P xs) \<le> length xs - k"
proof -
  assume no: "\<forall>i < k. \<not> P (xs ! i)" and k: "k \<le> length xs"
  have "filter P (take k xs) = []" using no k by (auto simp: filter_empty_conv in_set_conv_nth)
  then have "filter P xs = filter P (drop k xs)" by (metis append_Nil append_take_drop_id filter_append)
  then show ?thesis using length_filter_le [of P "drop k xs"] by simp
qed

lemma median_splits:
  fixes xs :: "int list"
  assumes "sorted xs" "xs \<noteq> []" "\<forall>x \<in> set xs. 0 \<le> x"
  shows "2 * length (filter (\<lambda>x. x < median_of xs) xs) \<le> length xs"
    and "2 * length (filter (\<lambda>x. median_of xs < x) xs) \<le> length xs"
proof -
  note bounds = median_bounds [OF assms]
  have "length (filter (\<lambda>x. x < median_of xs) xs) \<le> length xs div 2"
    using bounds(2) by (intro filter_prefix) (auto simp: not_less)
  then show "2 * length (filter (\<lambda>x. x < median_of xs) xs) \<le> length xs" by simp
  have "length (filter (\<lambda>x. median_of xs < x) xs) \<le> length xs - (length xs - length xs div 2)"
    using bounds(1) by (intro filter_suffix) (auto simp: not_less)
  then show "2 * length (filter (\<lambda>x. median_of xs < x) xs) \<le> length xs" by simp
qed

lemma compare_price_sort: "sort_by compare_price xs = sort xs"
  using sort_by_key [of xs compare_price "\<lambda>x. x"] by (simp add: compare_price_def)

lemma check_quotes:
  "rfold (check_quote input) () qs = Inr () \<longleftrightarrow>
     list_all (\<lambda>q. sourceQuoteSchema q \<and> 0 \<le> fi_now input - getTime (fq_observedAt q)
       \<and> fi_now input - getTime (fq_observedAt q) \<le> fi_maximumAgeSeconds input * 1000) qs"
  by (induction qs) (auto simp: check_quote_def rbind_Inr_iff Let_def)

lemma oldest_foldl:
  fixes now :: int
  shows "foldl (\<lambda>oldest q. if f q < oldest then f q else oldest) now qs = Min (insert now (f ` set qs))"
proof (induction qs arbitrary: now)
  case (Cons q qs)
  have "Min (insert (if f q < now then f q else now) (f ` set qs)) = Min (insert now (insert (f q) (f ` set qs)))"
    by (cases "qs = []") (auto simp: min_def)
  with Cons show ?case by simp
qed simp

lemma buildFxSnapshot_Inr:
  assumes "buildFxSnapshot input = Inr s"
  defines "ps \<equiv> map (\<lambda>q. bigint (fq_priceAtomic q)) (fi_quotes input)"
  shows "fi_quotes input \<noteq> []" "fxSnapshotSchema s"
    "list_all (\<lambda>q. sourceQuoteSchema q \<and> 0 \<le> fi_now input - getTime (fq_observedAt q)
       \<and> fi_now input - getTime (fq_observedAt q) \<le> fi_maximumAgeSeconds input * 1000) (fi_quotes input)"
    "distinct (map (\<lambda>q. toLowerCase (fq_source q)) (fi_quotes input))"
    "s = \<lparr>fx_baseToken = fi_baseToken input, fx_referenceCurrency = fi_referenceCurrency input,
             fx_feedId = (case fi_feedId input of Some f \<Rightarrow> f
               | None \<Rightarrow> token_symbol (fi_baseToken input) @ ''/'' @ fi_referenceCurrency input),
             fx_quoteDecimals = fi_quoteDecimals input, fx_medianPriceAtomic = toString (median_of (sort ps)),
             fx_conservativePriceAtomic = toString (bdiv (median_of (sort ps) * (10000 - fi_haircutBps input)) 10000),
             fx_haircutBps = fi_haircutBps input,
             fx_observedAt = toISOString (Min (insert (fi_now input) ((\<lambda>q. getTime (fq_observedAt q)) ` set (fi_quotes input)))),
             fx_minimumSourceCount = fi_minimumSources input,
             fx_maximumAgeSeconds = fi_maximumAgeSeconds input, fx_sources = fi_quotes input,
             fx_aggregatedSourceCount = fi_aggregatedSourceCount input\<rparr>"
    "fi_minimumSources input \<le> (case fi_aggregatedSourceCount input of Some n \<Rightarrow> n | None \<Rightarrow> int (length (fi_quotes input)))"
proof -
  have card: "card (set (map (\<lambda>q. toLowerCase (fq_source q)) (fi_quotes input))) = length (fi_quotes input) \<longleftrightarrow>
      distinct (map (\<lambda>q. toLowerCase (fq_source q)) (fi_quotes input))"
    using card_set_distinct [of "map (\<lambda>q. toLowerCase (fq_source q)) (fi_quotes input)"] by simp
  have facts: "fi_quotes input \<noteq> [] \<and> fxSnapshotSchema s
    \<and> rfold (check_quote input) () (fi_quotes input) = Inr () \<and> distinct (map (\<lambda>q. toLowerCase (fq_source q)) (fi_quotes input))
    \<and> fi_minimumSources input \<le> (case fi_aggregatedSourceCount input of Some n \<Rightarrow> n | None \<Rightarrow> int (length (fi_quotes input)))
    \<and> s = \<lparr>fx_baseToken = fi_baseToken input, fx_referenceCurrency = fi_referenceCurrency input,
             fx_feedId = (case fi_feedId input of Some f \<Rightarrow> f
               | None \<Rightarrow> token_symbol (fi_baseToken input) @ ''/'' @ fi_referenceCurrency input),
             fx_quoteDecimals = fi_quoteDecimals input, fx_medianPriceAtomic = toString (median_of (sort ps)),
             fx_conservativePriceAtomic = toString (bdiv (median_of (sort ps) * (10000 - fi_haircutBps input)) 10000),
             fx_haircutBps = fi_haircutBps input,
             fx_observedAt = toISOString (Min (insert (fi_now input) ((\<lambda>q. getTime (fq_observedAt q)) ` set (fi_quotes input)))),
             fx_minimumSourceCount = fi_minimumSources input,
             fx_maximumAgeSeconds = fi_maximumAgeSeconds input, fx_sources = fi_quotes input,
             fx_aggregatedSourceCount = fi_aggregatedSourceCount input\<rparr>"
    using assms(1) unfolding buildFxSnapshot_def Let_def compare_price_sort oldest_foldl card ps_def
    by (auto simp: rbind_Inr_iff split: if_splits)
  then show "fi_quotes input \<noteq> []" "fxSnapshotSchema s"
    "list_all (\<lambda>q. sourceQuoteSchema q \<and> 0 \<le> fi_now input - getTime (fq_observedAt q)
       \<and> fi_now input - getTime (fq_observedAt q) \<le> fi_maximumAgeSeconds input * 1000) (fi_quotes input)"
    "distinct (map (\<lambda>q. toLowerCase (fq_source q)) (fi_quotes input))"
    "fi_minimumSources input \<le> (case fi_aggregatedSourceCount input of Some n \<Rightarrow> n | None \<Rightarrow> int (length (fi_quotes input)))"
    "s = \<lparr>fx_baseToken = fi_baseToken input, fx_referenceCurrency = fi_referenceCurrency input,
             fx_feedId = (case fi_feedId input of Some f \<Rightarrow> f
               | None \<Rightarrow> token_symbol (fi_baseToken input) @ ''/'' @ fi_referenceCurrency input),
             fx_quoteDecimals = fi_quoteDecimals input, fx_medianPriceAtomic = toString (median_of (sort ps)),
             fx_conservativePriceAtomic = toString (bdiv (median_of (sort ps) * (10000 - fi_haircutBps input)) 10000),
             fx_haircutBps = fi_haircutBps input,
             fx_observedAt = toISOString (Min (insert (fi_now input) ((\<lambda>q. getTime (fq_observedAt q)) ` set (fi_quotes input)))),
             fx_minimumSourceCount = fi_minimumSources input,
             fx_maximumAgeSeconds = fi_maximumAgeSeconds input, fx_sources = fi_quotes input,
             fx_aggregatedSourceCount = fi_aggregatedSourceCount input\<rparr>"
    unfolding check_quotes by blast+
qed

lemma sort_Nil [simp]: "sort xs = [] \<longleftrightarrow> xs = []"
  by (metis length_0_conv length_sort)

lemma check_quotes_nonneg:
  "list_all (\<lambda>q. sourceQuoteSchema q \<and> P q) qs \<Longrightarrow> \<forall>x \<in> set (sort (map (\<lambda>q. bigint (fq_priceAtomic q)) qs)). 0 \<le> x"
  by (auto simp: list_all_iff sourceQuoteSchema_def bigint_nonneg)

lemma median_nonneg:
  assumes "xs \<noteq> []" "\<forall>x \<in> set xs. 0 \<le> x"
  shows "0 \<le> median_of (sort xs)"
proof -
  have "sort xs ! 0 \<le> median_of (sort xs)" using median_bounds(1) [of "sort xs"] assms by simp
  moreover have "sort xs ! 0 \<in> set xs" using assms(1) nth_mem [of 0 "sort xs"] by simp
  ultimately show ?thesis using assms(2) by force
qed

lemma filter_sort_length: "length (filter P (sort xs)) = length (filter P xs)"
  by (metis filter_sort length_sort)

lemma snapshot_reordered:
  assumes "buildFxSnapshot input = Inr s" and qs: "mset qs = mset (fi_quotes input)"
  shows "buildFxSnapshot (input\<lparr>fi_quotes := qs\<rparr>) = Inr (s\<lparr>fx_sources := qs\<rparr>)"
proof -
  define ps where "ps = map (\<lambda>q. bigint (fq_priceAtomic q)) (fi_quotes input)"
  note facts = buildFxSnapshot_Inr [OF assms(1), folded ps_def]
  have ne: "ps \<noteq> []" using facts(1) by (simp add: ps_def)
  have set: "set qs = set (fi_quotes input)" and len: "length qs = length (fi_quotes input)"
    using qs mset_eq_setD mset_eq_length by blast+
  have prices: "sort (map (\<lambda>q. bigint (fq_priceAtomic q)) qs) = sort ps"
    unfolding ps_def by (rule properties_for_sort) (simp_all add: qs)
  have cards: "card (set (map (\<lambda>q. toLowerCase (fq_source q)) qs)) = length qs"
    using facts(4) card_set_distinct [of "map (\<lambda>q. toLowerCase (fq_source q)) (fi_quotes input)"] by (simp add: set len)
  have checks: "rfold (check_quote (input\<lparr>fi_quotes := qs\<rparr>)) () qs = Inr ()"
    using facts(3) by (simp add: check_quotes list_all_iff set)
  have "qs \<noteq> []" using facts(1) len by auto
  moreover have "fx_sources s = fi_quotes input" by (simp add: facts(5))
  with facts(2) have "fxSnapshotSchema (s\<lparr>fx_sources := qs\<rparr>)" by (simp add: fxSnapshotSchema_def list_all_iff set len)
  ultimately show ?thesis
    using facts(6) cards checks prices ne
    by (simp add: buildFxSnapshot_def Let_def compare_price_sort oldest_foldl facts(5) set len cong: option.case_cong)
qed

section \<open>Properties\<close>

text \<open>C39: A snapshot built from quotes is a robust, conservative price.  The price is the median: at most
  half of the quoted prices are below it and at most half above.  The conservative price is the floor of
  the median after the haircut and never more than it.  Every quote was checked and no older at the
  given time than the maximum age; the snapshot is dated by the oldest of them; the sources differ, up to
  letter case; and the order of the quotes does not matter.\<close>

theorem fx_snapshot_median:
  assumes "buildFxSnapshot input = Inr s"
  shows "2 * length (filter (\<lambda>q. bigint (fq_priceAtomic q) < bigint (fx_medianPriceAtomic s)) (fi_quotes input))
      \<le> length (fi_quotes input)
    \<and> 2 * length (filter (\<lambda>q. bigint (fx_medianPriceAtomic s) < bigint (fq_priceAtomic q)) (fi_quotes input))
      \<le> length (fi_quotes input)
    \<and> bigint (fx_conservativePriceAtomic s) = bigint (fx_medianPriceAtomic s) * (10000 - fi_haircutBps input) div 10000
    \<and> bigint (fx_conservativePriceAtomic s) \<le> bigint (fx_medianPriceAtomic s)
    \<and> fx_observedAt s = toISOString (Min ((\<lambda>q. getTime (fq_observedAt q)) ` set (fi_quotes input)))
    \<and> list_all (\<lambda>q. sourceQuoteSchema q \<and> 0 \<le> fi_now input - getTime (fq_observedAt q)
        \<and> fi_now input - getTime (fq_observedAt q) \<le> fi_maximumAgeSeconds input * 1000) (fi_quotes input)
    \<and> distinct (map (\<lambda>q. toLowerCase (fq_source q)) (fi_quotes input))
    \<and> (\<forall>qs. mset qs = mset (fi_quotes input) \<longrightarrow>
         buildFxSnapshot (input\<lparr>fi_quotes := qs\<rparr>) = Inr (s\<lparr>fx_sources := qs\<rparr>))"
proof -
  define ps where "ps = map (\<lambda>q. bigint (fq_priceAtomic q)) (fi_quotes input)"
  note facts = buildFxSnapshot_Inr [OF assms, folded ps_def]
  have ne: "ps \<noteq> []" and nonneg: "\<forall>x \<in> set ps. 0 \<le> x"
    using facts(1) check_quotes_nonneg [OF facts(3)] by (simp_all add: ps_def)
  have m0: "0 \<le> median_of (sort ps)" by (rule median_nonneg [OF ne nonneg])
  have haircut: "0 \<le> fi_haircutBps input" "fi_haircutBps input \<le> 5000"
    using facts(2) by (simp_all add: facts(5) fxSnapshotSchema_def)
  have cons: "bdiv (median_of (sort ps) * (10000 - fi_haircutBps input)) 10000
      = median_of (sort ps) * (10000 - fi_haircutBps input) div 10000"
    using m0 haircut by (intro bdiv_nonneg) simp_all
  have le: "median_of (sort ps) * (10000 - fi_haircutBps input) div 10000 \<le> median_of (sort ps)"
  proof -
    have "median_of (sort ps) * (10000 - fi_haircutBps input) \<le> median_of (sort ps) * 10000"
      using m0 haircut by (intro mult_left_mono) simp_all
    then show ?thesis by linarith
  qed
  have c0: "0 \<le> median_of (sort ps) * (10000 - fi_haircutBps input) div 10000"
    using m0 haircut by (simp add: pos_imp_zdiv_nonneg_iff)
  have below: "2 * length (filter (\<lambda>x. x < median_of (sort ps)) ps) \<le> length ps"
    "2 * length (filter (\<lambda>x. median_of (sort ps) < x) ps) \<le> length ps"
    using median_splits [of "sort ps"] ne nonneg by (simp_all add: filter_sort_length)
  have now: "insert (fi_now input) ((\<lambda>q. getTime (fq_observedAt q)) ` set (fi_quotes input)) \<noteq> {}" by simp
  have oldest: "Min (insert (fi_now input) ((\<lambda>q. getTime (fq_observedAt q)) ` set (fi_quotes input)))
      = Min ((\<lambda>q. getTime (fq_observedAt q)) ` set (fi_quotes input))"
  proof -
    have "Min ((\<lambda>q. getTime (fq_observedAt q)) ` set (fi_quotes input)) \<le> fi_now input"
      using facts(1,3) by (auto simp: Min_le_iff list_all_iff neq_Nil_conv)
    then show ?thesis using facts(1) by (subst Min_insert) (simp_all add: min_absorb2)
  qed
  have filters: "length (filter (\<lambda>q. P (bigint (fq_priceAtomic q))) (fi_quotes input)) = length (filter P ps)" for P
    by (simp add: ps_def filter_map o_def)
  have len: "length (fi_quotes input) = length ps" by (simp add: ps_def)
  show ?thesis
    using below m0 c0 le facts(3,4) snapshot_reordered [OF assms]
    by (simp add: facts(5) cons oldest filters [of "\<lambda>x. x < median_of (sort ps)"]
        filters [of "\<lambda>x. median_of (sort ps) < x"] len ps_def [symmetric])
qed

lemma pragma_facts:
  assumes "pragmaProtectedFxSnapshotSchema s"
  shows "pg_pairId s = ''STRK/USD'' \<or> pg_pairId s = ''USDC/USD''" "atomicAmount_ok (pg_selectedPriceAtomic s)"
    "atomicAmount_ok (pg_conservativePriceAtomic s)" "datetime_ok (pg_observedAt s)"
    "atomicAmount_ok (pg_spotMedianPriceAtomic s)" "atomicAmount_ok (pg_twapPriceAtomic s)"
    "0 \<le> pg_haircutBps s" "pg_haircutBps s \<le> 5000" "0 < pg_maximumAgeSeconds s" "pg_maximumAgeSeconds s \<le> 3600"
    "1 \<le> pg_minimumSourceCount s" "1 \<le> pg_sourceCount s" "pg_sourceCount s \<le> 255"
    "\<not> pg_sourceCount s < pg_minimumSourceCount s" "\<not> getTime (pg_blockTimestamp s) - getTime (pg_observedAt s) < 0"
    "\<not> pg_maximumAgeSeconds s * 1000 < getTime (pg_blockTimestamp s) - getTime (pg_observedAt s)"
    "bigint (pg_selectedPriceAtomic s) = (if bigint (pg_spotMedianPriceAtomic s) < bigint (pg_twapPriceAtomic s)
      then bigint (pg_spotMedianPriceAtomic s) else bigint (pg_twapPriceAtomic s))"
    "bigint (pg_conservativePriceAtomic s) = bdiv (bigint (pg_selectedPriceAtomic s) * (10000 - pg_haircutBps s)) 10000"
  using assms unfolding pragmaProtectedFxSnapshotSchema_def Let_def by blast+

lemma pragma_texts:
  assumes "pragmaProtectedFxSnapshotSchema s"
  shows "toString (bigint (pg_selectedPriceAtomic s)) = pg_selectedPriceAtomic s"
    "toString (bdiv (bigint (pg_selectedPriceAtomic s) * (10000 - pg_haircutBps s)) 10000) = pg_conservativePriceAtomic s"
  using pragma_facts(2,3) [OF assms]
  by (simp_all add: toString_bigint atomicAmount_ok_iff pragma_facts(18) [OF assms, symmetric])

lemma pragma_built:
  assumes "pragmaProtectedFxSnapshotSchema s" "bigint (pg_spotMedianPriceAtomic s) \<noteq> 0" "bigint (pg_twapPriceAtomic s) \<noteq> 0"
  shows "buildPragmaProtectedFxSnapshot s = Inr s"
proof -
  have "zod ''pragmaProtectedFxSnapshotSchema'' pragmaProtectedFxSnapshotSchema s = Inr s" using assms(1) by simp
  then show ?thesis
    using pragma_facts(5,6) [OF assms(1)] assms(2,3)
    by (simp add: buildPragmaProtectedFxSnapshot_def Let_def pragma_facts(17) [OF assms(1), symmetric]
        pragma_texts [OF assms(1)] del: if_split zod_Inr_iff)
qed

lemma pragma_converted:
  assumes "hex_lib_ok L" "keccak_32 L" "pragmaProtectedFxSnapshotSchema s" "pg_minimumSourceCount s \<le> 9"
    and iso: "datetime_ok (toISOString (getTime (pg_observedAt s)))"
  shows "\<exists>p. protectedFxSnapshotToPayrollSnapshot L s = Inr p
         \<and> fx_medianPriceAtomic p = pg_selectedPriceAtomic s \<and> fx_conservativePriceAtomic p = pg_conservativePriceAtomic s
         \<and> fx_observedAt p = toISOString (getTime (pg_observedAt s)) \<and> fx_baseToken p = pg_baseToken s"
proof -
  note shape = pragma_facts [OF assms(3)]
  define c where "c = toHex L (keccak_256 L (utf8 (stableJson (pragma_json s))))"
  have c: "length c = 66" using assms(1,2) toHex_commitment_ok [OF assms(1)] by (simp add: c_def keccak_32_def commitment_ok_def)
  have quote: "sourceQuoteSchema \<lparr>fq_source = ''pragma-protected-v2:'' @ toLowerCase (pg_pairId s),
          fq_priceAtomic = pg_selectedPriceAtomic s, fq_observedAt = pg_observedAt s\<rparr>"
    using shape(1,2,4) by (auto simp: sourceQuoteSchema_def length_between_def toLowerCase_def)
  have feed: "length_between 1 160 (''pragma-protected-v2:'' @ pg_pairId s @ '':'' @ c)"
    using shape(1) c by (auto simp: length_between_def)
  have usd: "currency_ok ''USD''" by code_simp
  show ?thesis
    using assms(3,4) shape feed quote usd iso pragma_texts [OF assms(3)]
    by (simp add: protectedFxSnapshotToPayrollSnapshot_def pragmaProtectedFxSnapshotCommitment_def buildFxSnapshot_def
        compare_price_sort oldest_foldl median_of_def check_quote_def fxSnapshotSchema_def c_def [symmetric] Let_def)
qed

text \<open>Adapting a Pragma observation keeps its protected price.  Every well-formed observation with
  non-zero prices is the one \<open>buildPragmaProtectedFxSnapshot\<close> builds from its raw prices: its selected price
  is the lower of the spot median and the time-weighted average.  With a
  minimum of at most nine sources it converts to a payroll snapshot, whose median is the selected price and
  whose conservative price, date and token are the observation's.\<close>

theorem pragma_snapshot_adapted:
  assumes "hex_lib_ok L" "keccak_32 L" "pragmaProtectedFxSnapshotSchema s" "pg_minimumSourceCount s \<le> 9"
    and "0 \<le> getUTCFullYear (getTime (pg_observedAt s))" "getUTCFullYear (getTime (pg_observedAt s)) \<le> 9999"
  shows "bigint (pg_selectedPriceAtomic s) = min (bigint (pg_spotMedianPriceAtomic s)) (bigint (pg_twapPriceAtomic s))
    \<and> (bigint (pg_spotMedianPriceAtomic s) \<noteq> 0 \<and> bigint (pg_twapPriceAtomic s) \<noteq> 0
        \<longrightarrow> buildPragmaProtectedFxSnapshot s = Inr s)
    \<and> (\<exists>p. protectedFxSnapshotToPayrollSnapshot L s = Inr p
         \<and> fx_medianPriceAtomic p = pg_selectedPriceAtomic s \<and> fx_conservativePriceAtomic p = pg_conservativePriceAtomic s
         \<and> getTime (fx_observedAt p) = getTime (pg_observedAt s) \<and> fx_baseToken p = pg_baseToken s)"
proof -
  have iso: "getTime (toISOString (getTime (pg_observedAt s))) = getTime (pg_observedAt s)"
    "datetime_ok (toISOString (getTime (pg_observedAt s)))"
    using getTime_toISOString [OF assms(5,6)] by simp_all
  have "bigint (pg_selectedPriceAtomic s) = min (bigint (pg_spotMedianPriceAtomic s)) (bigint (pg_twapPriceAtomic s))"
    using pragma_facts(17) [OF assms(3)] by simp
  with pragma_built [OF assms(3)] pragma_converted [OF assms(1-4) iso(2)] iso(1) show ?thesis by auto
qed

definition example_quotes :: "source_quote list" where
  "example_quotes = [\<lparr>fq_source = ''a'', fq_priceAtomic = ''1000000'', fq_observedAt = ''2026-01-10T09:00:00Z''\<rparr>,
     \<lparr>fq_source = ''b'', fq_priceAtomic = ''9000000'', fq_observedAt = ''2026-01-10T08:59:00Z''\<rparr>,
     \<lparr>fq_source = ''c'', fq_priceAtomic = ''1000200'', fq_observedAt = ''2026-01-10T09:00:30Z''\<rparr>]"

definition example_fx_input :: fx_input where
  "example_fx_input = \<lparr>fi_baseToken = USDC, fi_referenceCurrency = ''USD'', fi_quoteDecimals = 6, fi_haircutBps = 100,
     fi_maximumAgeSeconds = 300, fi_minimumSources = 2, fi_aggregatedSourceCount = None, fi_feedId = None,
     fi_quotes = example_quotes, fi_now = 1768035660000\<rparr>"

theorem fx_snapshot_median_witness:
  "\<exists>s. buildFxSnapshot example_fx_input = Inr s \<and> fx_medianPriceAtomic s = ''1000200''
     \<and> bigint (fx_conservativePriceAtomic s) = 990198
     \<and> buildFxSnapshot (example_fx_input\<lparr>fi_quotes := rev example_quotes\<rparr>) = Inr (s\<lparr>fx_sources := rev example_quotes\<rparr>)"
proof -
  have "case buildFxSnapshot example_fx_input of Inr s \<Rightarrow> fx_medianPriceAtomic s = ''1000200'' \<and> bigint (fx_medianPriceAtomic s) = 1000200
    | Inl _ \<Rightarrow> False" by code_simp
  then obtain s where s: "buildFxSnapshot example_fx_input = Inr s" "fx_medianPriceAtomic s = ''1000200''"
    "bigint (fx_medianPriceAtomic s) = 1000200" by (auto split: sum.splits)
  have input: "mset (rev example_quotes) = mset (fi_quotes example_fx_input)" "fi_haircutBps example_fx_input = 100"
    by (simp_all add: example_fx_input_def)
  from fx_snapshot_median [OF s(1)] s input show ?thesis by (intro exI [of _ s]) simp
qed

definition example_pragma :: pragma_snapshot where
  "example_pragma = \<lparr>pg_baseToken = STRK, pg_pairId = ''STRK/USD'', pg_oracleAddress = ''0x1a'', pg_summaryStatsAddress = ''0x2b'',
     pg_blockNumber = ''77'', pg_blockTimestamp = ''2026-01-10T09:01:00Z'', pg_spotMedianPriceAtomic = ''130000'',
     pg_twapPriceAtomic = ''120000'', pg_selectedPriceAtomic = ''120000'', pg_conservativePriceAtomic = ''118800'',
     pg_twapWindowSeconds = 3600, pg_haircutBps = 100, pg_observedAt = ''2026-01-10T09:00:00Z'', pg_sourceCount = 7,
     pg_minimumSourceCount = 3, pg_maximumAgeSeconds = 300\<rparr>"

theorem pragma_snapshot_adapted_witness:
  "buildPragmaProtectedFxSnapshot example_pragma = Inr example_pragma
   \<and> (\<exists>p. protectedFxSnapshotToPayrollSnapshot ref_lib example_pragma = Inr p \<and> fx_medianPriceAtomic p = ''120000'')"
proof -
  have ok: "pragmaProtectedFxSnapshotSchema example_pragma" by code_simp
  have year: "getUTCFullYear (getTime (pg_observedAt example_pragma)) = 2026" by code_simp
  have num: "bigint (pg_spotMedianPriceAtomic example_pragma) \<noteq> 0" "bigint (pg_twapPriceAtomic example_pragma) \<noteq> 0"
    by code_simp+
  have sel: "pg_selectedPriceAtomic example_pragma = ''120000''" "pg_minimumSourceCount example_pragma \<le> 9"
    by (simp_all add: example_pragma_def)
  from pragma_snapshot_adapted [OF ref_lib_hex ref_lib_keccak ok sel(2)] year num sel(1) show ?thesis by auto
qed

end
