(* ===== verification/Proof_Commitments.thy ===== *)
theory Proof_Commitments
  imports Payroll Reference_Lib
begin

text \<open>
  Model of \<open>lib/proof/commitments.ts\<close>: the commitments the zero-knowledge circuits recompute, built
  on the library's Poseidon2, with the fixed trees, their membership paths and the catalogs.
\<close>

section \<open>Field elements\<close>

definition PAYO_PROOF_DOMAIN_MERKLE_NODE :: int where "PAYO_PROOF_DOMAIN_MERKLE_NODE = 2"
definition PAYO_PROOF_DOMAIN_AGREEMENT :: int where "PAYO_PROOF_DOMAIN_AGREEMENT = 3"
definition PAYO_PROOF_DOMAIN_PAYROLL_LINE :: int where "PAYO_PROOF_DOMAIN_PAYROLL_LINE = 4"
definition PAYO_PROOF_DOMAIN_CATALOG_LEAF :: int where "PAYO_PROOF_DOMAIN_CATALOG_LEAF = 5"
definition PAYO_PROOF_DOMAIN_REMEDIATION :: int where "PAYO_PROOF_DOMAIN_REMEDIATION = 6"
definition PAYO_PROOF_DOMAIN_CLAIM_OBLIGATION :: int where "PAYO_PROOF_DOMAIN_CLAIM_OBLIGATION = 8"
definition PAYO_PROOF_DOMAIN_REMEDIATION_ACTION :: int where "PAYO_PROOF_DOMAIN_REMEDIATION_ACTION = 9"
definition PAYO_PROOF_DOMAIN_EXTERNAL_ATTESTATION :: int where "PAYO_PROOF_DOMAIN_EXTERNAL_ATTESTATION = 10"

definition PAYO_PROOF_EMPTY_LEAF :: string where
  "PAYO_PROOF_EMPTY_LEAF = ''0x168758332d5b3e2d13be8048c8011b454590e06c44bce7f702f09103eef5a373''"

definition PACKED_AMOUNT_LIMIT :: int where
  "PACKED_AMOUNT_LIMIT = push_bit 120 1"

definition packedAmount :: "int \<Rightarrow> int result" where
  "packedAmount amount =
     (if amount < 0 \<or> PACKED_AMOUNT_LIMIT \<le> amount
      then Inl (Thrown ''Amount exceeds the PAYO proof packing limit.'') else Inr amount)"

definition packAmountPair :: "int \<Rightarrow> int \<Rightarrow> int result" where
  "packAmountPair left right =
     rbind (packedAmount left) (\<lambda>l. rbind (packedAmount right) (\<lambda>r. Inr (l + r * PACKED_AMOUNT_LIMIT)))"

definition fieldBytes :: "int \<Rightarrow> byte list result" where
  "fieldBytes value =
     (if value < 0 then Inl (Thrown ''Proof field values cannot be negative.'')
      else let hex = padStart 64 (CHR ''0'') (toString16 value) in
        if 64 < length hex then Inl (Thrown ''Proof field value exceeds 32 bytes.'')
        else Inr (map (\<lambda>index. word_of_nat (value_base 16 (take 2 (drop (index * 2) hex)))) [0..<32]))"

definition paddedField :: "byte list \<Rightarrow> string" where
  "paddedField value = ''0x'' @ concat (map (\<lambda>byte. padStart 2 (CHR ''0'') (toString16 (uint byte))) value)"

definition limbs :: "lib \<Rightarrow> string \<Rightarrow> int list result" where
  "limbs L value = rbind (splitHashToU128 L value) (\<lambda>(high, low). Inr [high, low])"

definition proof_inputs :: "int \<Rightarrow> int list \<Rightarrow> byte list list result" where
  "proof_inputs domain values' = rmap fieldBytes (domain # values')"

definition proofHash :: "lib \<Rightarrow> int \<Rightarrow> int list \<Rightarrow> string result" where
  "proofHash L domain values' =
     rbind (proof_inputs domain values') (\<lambda>inputs. Inr (paddedField (poseidon2Hash L inputs)))"

text \<open>The values a commitment hashes are given in groups, each of which may throw, in order.\<close>

definition proof_groups :: "int list result list \<Rightarrow> int list result" where
  "proof_groups gs = rbind (rmap (\<lambda>g. g) gs) (\<lambda>vs. Inr (concat vs))"

definition single :: "int result \<Rightarrow> int list result" where
  "single r = rbind r (\<lambda>v. Inr [v])"

section \<open>Leaves and nodes\<close>

definition proofMerkleNode :: "lib \<Rightarrow> string \<Rightarrow> string \<Rightarrow> string result" where
  "proofMerkleNode L left right = proofHash L PAYO_PROOF_DOMAIN_MERKLE_NODE [bigint left, bigint right]"

definition proofCatalogLeaf :: "lib \<Rightarrow> string \<Rightarrow> string result" where
  "proofCatalogLeaf L commitment = rbind (limbs L commitment) (proofHash L PAYO_PROOF_DOMAIN_CATALOG_LEAF)"

definition proofClaimObligationCommitment :: "lib \<Rightarrow> string \<Rightarrow> string \<Rightarrow> int \<Rightarrow> string result" where
  "proofClaimObligationCommitment L agreementLeaf claimCapabilityCommitment expectedNetAtomic =
     rbind (proof_groups [Inr [bigint agreementLeaf], limbs L claimCapabilityCommitment,
       single (packedAmount expectedNetAtomic)]) (proofHash L PAYO_PROOF_DOMAIN_CLAIM_OBLIGATION)"

definition proofRemediationActionCommitment :: "lib \<Rightarrow> string \<Rightarrow> string \<Rightarrow> int \<Rightarrow> int \<Rightarrow> string \<Rightarrow> string result" where
  "proofRemediationActionCommitment L claimSubjectNullifier recipientCommitment tok amountAtomic salt' =
     rbind (proof_groups [limbs L claimSubjectNullifier, limbs L recipientCommitment, Inr [tok],
       single (packedAmount amountAtomic), limbs L salt']) (proofHash L PAYO_PROOF_DOMAIN_REMEDIATION_ACTION)"

definition proofExternalAttestationLeaf :: "lib \<Rightarrow> string \<Rightarrow> string result" where
  "proofExternalAttestationLeaf L commitment = rbind (limbs L commitment) (proofHash L PAYO_PROOF_DOMAIN_EXTERNAL_ATTESTATION)"

definition proofRemediationCommitment :: "lib \<Rightarrow> string \<Rightarrow> string \<Rightarrow> int \<Rightarrow> int \<Rightarrow> string \<Rightarrow> string result" where
  "proofRemediationCommitment L claimNullifier agreementLeaf amountAtomic tok salt' =
     rbind (proof_groups [limbs L claimNullifier,
       rbind (normalizedHexBytes L agreementLeaf (Some 32)) (\<lambda>bs. Inr [bigint (toHex L bs)]),
       single (packedAmount amountAtomic), Inr [tok], limbs L salt']) (proofHash L PAYO_PROOF_DOMAIN_REMEDIATION)"

section \<open>The fixed tree and its openings\<close>

definition canonical_leaf :: "lib \<Rightarrow> string \<Rightarrow> string result" where
  "canonical_leaf L leaf = rbind (normalizedHexBytes L leaf (Some 32)) (\<lambda>bs. Inr (toHex L bs))"

definition fixed_level :: "lib \<Rightarrow> string list \<Rightarrow> string list result" where
  "fixed_level L leaves =
     rbind (rmap (canonical_leaf L) leaves) (\<lambda>ls. Inr (padded PAYO_MERKLE_LEAF_COUNT PAYO_PROOF_EMPTY_LEAF ls))"

definition buildProofFixedMerkleRoot :: "lib \<Rightarrow> string list \<Rightarrow> string result" where
  "buildProofFixedMerkleRoot L leaves =
     (if PAYO_MAX_PAYROLL_LINES < length leaves
      then Inl (Thrown ''PAYO supports at most 50 real payroll leaves.'')
      else rbind (fixed_level L leaves) (\<lambda>level.
        rbind (merkle_loop (proofMerkleNode L) level) (\<lambda>top. Inr (top ! 0))))"

record catalog_membership =
  op_siblings :: "string list"
  op_pathBits :: "bool list"

record fixed_membership = catalog_membership +
  mb_root :: string
  mb_leaf :: string

text \<open>The loop collects the siblings and turns of the path while it builds the next level.\<close>

function path_loop :: "(string \<Rightarrow> string \<Rightarrow> string result) \<Rightarrow> nat \<Rightarrow> string list
    \<Rightarrow> (string list \<times> bool list \<times> string list) result" where
  "path_loop node cursor level =
     (if 1 < length level
      then let isRight = odd cursor; sibling = level ! (if isRight then cursor - 1 else cursor + 1) in
        rbind (next_level node level) (\<lambda>next.
        rbind (path_loop node (cursor div 2) next) (\<lambda>(siblings, pathBits, top).
        Inr (sibling # siblings, isRight # pathBits, top)))
      else Inr ([], [], level))"
  by pat_completeness auto
termination
  by (relation "measure (\<lambda>(node, cursor, level). length level)") (auto dest: next_level_length)

declare path_loop.simps [simp del]

definition buildProofFixedMerkleMembership :: "lib \<Rightarrow> string list \<Rightarrow> nat \<Rightarrow> fixed_membership result" where
  "buildProofFixedMerkleMembership L leaves index =
     (if length leaves \<le> index
      then Inl (Thrown ''A proof opening index must select a real manifest leaf.'')
      else if PAYO_MAX_PAYROLL_LINES < length leaves
      then Inl (Thrown ''PAYO supports at most 50 real payroll leaves.'')
      else rbind (fixed_level L leaves) (\<lambda>level.
        rbind (path_loop (proofMerkleNode L) index level) (\<lambda>(siblings, pathBits, top).
        Inr \<lparr>op_siblings = siblings, op_pathBits = pathBits, mb_root = top ! 0, mb_leaf = level ! index\<rparr>)))"

section \<open>Catalogs\<close>

fun empty_siblings :: "(string \<Rightarrow> string \<Rightarrow> string result) \<Rightarrow> nat \<Rightarrow> string \<Rightarrow> string list result" where
  "empty_siblings node 0 emptySubtree = Inr []"
| "empty_siblings node (Suc n) emptySubtree =
     rbind (node emptySubtree emptySubtree) (\<lambda>above.
     rbind (empty_siblings node n above) (\<lambda>siblings. Inr (emptySubtree # siblings)))"

definition firstProofCatalogMembership :: "lib \<Rightarrow> catalog_membership result" where
  "firstProofCatalogMembership L =
     rbind (empty_siblings (proofMerkleNode L) 6 PAYO_PROOF_EMPTY_LEAF) (\<lambda>siblings.
     Inr \<lparr>op_siblings = siblings, op_pathBits = replicate 6 False\<rparr>)"

definition proofCatalogRoot :: "lib \<Rightarrow> string \<Rightarrow> string result" where
  "proofCatalogRoot L leaf =
     rbind (proofCatalogLeaf L leaf) (\<lambda>current.
     rbind (firstProofCatalogMembership L) (\<lambda>m.
     rfold (proofMerkleNode L) current (op_siblings m)))"

fun catalog_leaves :: "lib \<Rightarrow> string set \<Rightarrow> string list \<Rightarrow> string list result" where
  "catalog_leaves L seen [] = Inr []"
| "catalog_leaves L seen (c # cs) =
     rbind (canonical_leaf L c) (\<lambda>canonical.
     if canonical \<in> seen then Inl (Thrown ''Proof catalog commitments must be unique.'')
     else rbind (proofCatalogLeaf L canonical) (\<lambda>leaf.
       rbind (catalog_leaves L (insert canonical seen) cs) (\<lambda>leaves. Inr (leaf # leaves))))"

definition buildProofCatalog :: "lib \<Rightarrow> string list \<Rightarrow> (string \<times> catalog_membership list) result" where
  "buildProofCatalog L commitments =
     (if commitments = [] \<or> PAYO_MERKLE_LEAF_COUNT < length commitments
      then Inl (Thrown ''A proof catalog requires 1-64 commitments.'')
      else rbind (catalog_leaves L {} commitments) (\<lambda>ls.
        let leaves = padded PAYO_MERKLE_LEAF_COUNT PAYO_PROOF_EMPTY_LEAF ls in
        rbind (rmap (\<lambda>index. rbind (path_loop (proofMerkleNode L) index leaves) (\<lambda>(siblings, pathBits, _).
            Inr \<lparr>op_siblings = siblings, op_pathBits = pathBits\<rparr>)) [0..<length commitments]) (\<lambda>memberships.
        rbind (merkle_loop (proofMerkleNode L) leaves) (\<lambda>top. Inr (top ! 0, memberships)))))"

section \<open>Agreements and lines\<close>

definition agreement_metadata :: "agreement_terms \<Rightarrow> int" where
  "agreement_metadata a =
     int (length (at_earningsAtomic a)) + (if at_token a = STRK then 0 else 1) * 16
     + at_classificationDeclared a * 32 + at_classificationScore a * 128
     + at_classificationEmployeeThreshold a * 8388608 + (if at_finalPayMode a then 1 else 0) * 549755813888
     + at_finalRequiredMask a * 1099511627776 + (if at_referenceCurrency a = USD then 0 else 1) * 35184372088832"

definition agreement_groups :: "lib \<Rightarrow> agreement_terms \<Rightarrow> int list result list" where
  "agreement_groups L a =
     (let e = map bigint (padded 8 ''0'' (at_earningsAtomic a));
          f = map bigint (padded 5 ''0'' (at_finalComponentsAtomic a)) in
      [limbs L (at_agreementIdCommitment a), limbs L (at_recipientCommitment a),
       single (packAmountPair (e ! 0) (e ! 1)), single (packAmountPair (e ! 2) (e ! 3)),
       single (packAmountPair (e ! 4) (e ! 5)), single (packAmountPair (e ! 6) (e ! 7)),
       limbs L (at_policyCommitment a), limbs L (at_scheduleCommitment a),
       Inr [at_dueAt a + at_validUntil a * push_bit 64 1],
       single (packAmountPair (f ! 0) (f ! 1)), single (packAmountPair (f ! 2) (f ! 3)), single (packAmountPair (f ! 4) 0),
       single (rbind (packedAmount (bigint (at_fxFloorAtomic a))) (\<lambda>floor.
         Inr (floor + agreement_metadata a * PACKED_AMOUNT_LIMIT))),
       limbs L (at_salt a)])"

definition proofAgreementCommitment :: "lib \<Rightarrow> agreement_terms \<Rightarrow> string result" where
  "proofAgreementCommitment L input =
     rbind (hashAgreementTerms L input) (\<lambda>_.
     rbind (proof_groups (agreement_groups L input)) (proofHash L PAYO_PROOF_DOMAIN_AGREEMENT))"

record line_metadata =
  lm_classificationTreatment :: int
  lm_finalIncludedMask :: int
  lm_referenceValueAtomic :: int

definition proofPayrollCommitment :: "lib \<Rightarrow> calculated_line \<Rightarrow> string \<Rightarrow> line_metadata \<Rightarrow> string result" where
  "proofPayrollCommitment L line agreementCommitment metadata =
     (if 8 < length (deductionsAtomic line) then Inl (Thrown ''A payroll line supports at most eight deductions.'')
      else let d = map bigint (padded 8 ''0'' (deductionsAtomic line));
               lineMetadata = int (length (deductionsAtomic line)) + lm_classificationTreatment metadata * 16
                 + lm_finalIncludedMask metadata * 64 in
        rbind (proof_groups
          [Inr [bigint agreementCommitment],
           single (packAmountPair (d ! 0) (d ! 1)), single (packAmountPair (d ! 2) (d ! 3)),
           single (packAmountPair (d ! 4) (d ! 5)), single (packAmountPair (d ! 6) (d ! 7)),
           single (rbind (packedAmount (lm_referenceValueAtomic metadata)) (\<lambda>v.
             Inr (v + lineMetadata * PACKED_AMOUNT_LIMIT))),
           limbs L (salt line)]) (proofHash L PAYO_PROOF_DOMAIN_PAYROLL_LINE))"

end
