(* ===== verification/Proof_Bindings.thy ===== *)
theory Proof_Bindings
  imports Proof_Commitments
begin

text \<open>
  What the proof commitments of theory Proof_Commitments establish: the bytes of a field element, openings of
  the fixed tree, the catalog of one commitment, and the terms an agreement commitment determines.
\<close>


section \<open>Field elements as bytes\<close>

lemma show_base_length_le: "2 \<le> b \<Longrightarrow> 0 < d \<Longrightarrow> n < b ^ d \<Longrightarrow> length (show_base b n) \<le> d"
proof (induction d arbitrary: n)
  case (Suc d)
  show ?case
  proof (cases "n < b")
    case True
    then show ?thesis by (simp add: show_base.simps [of b n])
  next
    case False
    with Suc.prems have "n div b < b ^ d" by (simp add: div_less_iff_less_mult mult.commute)
    moreover from this False Suc.prems have "0 < d" by (cases d) simp_all
    ultimately have "length (show_base b (n div b)) \<le> d" using Suc by blast
    with False Suc.prems show ?thesis by (simp add: show_base.simps [of b n])
  qed
qed simp

lemma hex_pairs: "even (length s) \<Longrightarrow>
   map (\<lambda>i. word_of_nat (value_base 16 (take 2 (drop (i * 2) s)))) [0..<length s div 2] = ref_hexToBytes s"
proof (induction s rule: ref_hexToBytes.induct)
  case (1 c d s)
  have "[0..<length (c # d # s) div 2] = 0 # map Suc [0..<length s div 2]" by (simp add: upt_conv_Cons map_Suc_upt)
  with 1 show ?case by (simp add: value_base_Cons o_def)
qed simp_all

lemma padStart_hex:
  assumes "0 \<le> v" "length (toString16 v) \<le> n"
  shows "length (padStart n (CHR ''0'') (toString16 v)) = n" "list_all is_hex (padStart n (CHR ''0'') (toString16 v))"
    "int (value_base 16 (padStart n (CHR ''0'') (toString16 v))) = v"
proof -
  show "length (padStart n (CHR ''0'') (toString16 v)) = n" using assms by (simp add: padStart_def)
  have "is_hex (CHR ''0'')" by code_simp
  then show "list_all is_hex (padStart n (CHR ''0'') (toString16 v))"
    using assms(1) show_base_hex [of 16] by (auto simp: padStart_def toString16_def list_all_iff)
  show "int (value_base 16 (padStart n (CHR ''0'') (toString16 v))) = v"
    using assms(1) by (simp add: padStart_def toString16_def value_show_base)
qed

lemma fieldBytes_Inr:
  assumes "fieldBytes v = Inr bs"
  shows "length bs = 32" "decodeUint bs = v"
proof -
  from assms have v: "0 \<le> v" "length (padStart 64 (CHR ''0'') (toString16 v)) \<le> 64"
    and bs: "bs = map (\<lambda>i. word_of_nat (value_base 16 (take 2 (drop (i * 2) (padStart 64 (CHR ''0'') (toString16 v)))))) [0..<32]"
    by (auto simp: fieldBytes_def Let_def split: if_splits)
  from v have len: "length (toString16 v) \<le> 64" by (simp add: padStart_def)
  note hex = padStart_hex [OF v(1) len]
  have "bs = ref_hexToBytes (padStart 64 (CHR ''0'') (toString16 v))"
    using hex_pairs [of "padStart 64 (CHR ''0'') (toString16 v)"] hex(1) bs by simp
  then show "length bs = 32" "decodeUint bs = v" using hex by (simp_all add: length_ref_hexToBytes ref_hexToBytes_value)
qed

lemma fieldBytes_total:
  assumes "0 \<le> v" "v < 2 ^ 256"
  shows "\<exists>bs. fieldBytes v = Inr bs"
proof -
  have "nat v < 16 ^ 64" using assms by (simp add: nat_less_iff)
  then have "length (toString16 v) \<le> 64" using assms(1) show_base_length_le [of 16 64 "nat v"] by (simp add: toString16_def)
  then show ?thesis using assms padStart_hex(1) by (simp add: fieldBytes_def Let_def)
qed

lemma hex_char_pair: "n < 256 \<Longrightarrow> padStart 2 (CHR ''0'') (show_base 16 n) = [hex_char (n div 16), hex_char (n mod 16)]"
  by (cases "n < 16") (simp_all add: padStart_def show_base.simps [of 16 n] show_base.simps [of 16 "n div 16"] hex_char_0)

lemma paddedField_ref: "paddedField bs = toHex ref_lib bs"
proof -
  have "padStart 2 (CHR ''0'') (toString16 (uint b)) = ref_hex_pair b" for b :: byte
    using hex_char_pair [OF unat_byte_lt [of b]] by (simp add: toString16_def ref_hex_pair_def)
  then show ?thesis by (simp add: paddedField_def toHex_def ref_lib_def ref_bytesToHex_def)
qed

lemma paddedField_inj: "paddedField bs = paddedField cs \<longleftrightarrow> bs = cs"
  by (simp add: paddedField_ref toHex_inj)

lemma paddedField_ok: "length bs = 32 \<Longrightarrow> commitment_ok (paddedField bs)"
  by (simp add: paddedField_ref toHex_commitment_ok)

lemma proof_inputs_inj:
  assumes "proof_inputs d xs = Inr p" "proof_inputs d ys = Inr p"
  shows "xs = ys"
proof -
  have "xs = map decodeUint (tl p)" if "proof_inputs d xs = Inr p" for xs
    using that by (auto simp: proof_inputs_def rbind_Inr_iff rmap_Inr_iff fieldBytes_Inr list_all2_conv_all_nth
        intro!: nth_equalityI)
  with assms show ?thesis by metis
qed

lemma proof_inputs_total:
  "list_all (\<lambda>v. 0 \<le> v \<and> v < 2 ^ 256) (d # xs) \<Longrightarrow> \<exists>p. proof_inputs d xs = Inr p"
proof -
  assume "list_all (\<lambda>v. 0 \<le> v \<and> v < 2 ^ 256) (d # xs)"
  then have "fieldBytes v = Inr (projr (fieldBytes v))" if "v \<in> set (d # xs)" for v
    using that fieldBytes_total [of v] by (metis list_all_iff sum.sel(2))
  then have "rmap fieldBytes (d # xs) = Inr (map (\<lambda>v. projr (fieldBytes v)) (d # xs))" by (rule rmap_total)
  then show ?thesis unfolding proof_inputs_def by blast
qed

section \<open>Paths in a tree\<close>

lemma nth_pair_up: "i < length xs div 2 \<Longrightarrow> pair_up f xs ! i = f (xs ! (2 * i)) (xs ! Suc (2 * i))"
proof (induction f xs arbitrary: i rule: pair_up.induct)
  case (1 f l r xs)
  then show ?case by (cases i) simp_all
qed simp_all

text \<open>The circuits fold a leaf with its siblings, on the side each turn of the path says.\<close>

fun proof_merkle_membership :: "('a \<Rightarrow> 'a \<Rightarrow> 'a) \<Rightarrow> 'a \<Rightarrow> 'a list \<Rightarrow> bool list \<Rightarrow> 'a" where
  "proof_merkle_membership node current (s # ss) (b # bs) =
     proof_merkle_membership node (if b then node s current else node current s) ss bs"
| "proof_merkle_membership node current _ _ = current"

lemma sibling_lt: "even n \<Longrightarrow> c < n \<Longrightarrow> (if odd c then c - 1 else c + 1) < (n::nat)"
  by (auto elim!: evenE oddE)

lemma path_loop_tree:
  assumes "\<And>l r. P l \<Longrightarrow> P r \<Longrightarrow> node l r = Inr (f l r) \<and> P (f l r)"
    and "\<forall>x \<in> set xs. P x" "length xs = 2 ^ d" "c < 2 ^ d"
  shows "\<exists>ss. path_loop node c xs = Inr (ss, map (\<lambda>j. odd (c div 2 ^ j)) [0..<d], [tree_root f d xs])
    \<and> length ss = d \<and> (\<forall>x \<in> set ss. P x)
    \<and> proof_merkle_membership f (xs ! c) ss (map (\<lambda>j. odd (c div 2 ^ j)) [0..<d]) = tree_root f d xs"
  using assms(2-4)
proof (induction d arbitrary: xs c)
  case 0
  then obtain x where "xs = [x]" by (metis One_nat_def Suc_length_conv length_0_conv power_0)
  with 0 show ?case by (simp add: path_loop.simps)
next
  case (Suc d)
  have next_lvl: "next_level node xs = Inr (pair_up f xs)"
    using assms(1) Suc.prems by (intro next_level_total [where P = P]) auto
  have "c div 2 < 2 ^ d" using Suc.prems(3) by auto
  have up_all: "\<forall>x \<in> set (pair_up f xs). P x" using assms(1) by (intro pair_up_all [OF _ Suc.prems(1)]) blast
  have up_len: "length (pair_up f xs) = 2 ^ d" using Suc.prems(2) by simp
  then obtain ss where ss: "path_loop node (c div 2) (pair_up f xs)
      = Inr (ss, map (\<lambda>j. odd (c div 2 div 2 ^ j)) [0..<d], [tree_root f d (pair_up f xs)])"
    "length ss = d" "\<forall>x \<in> set ss. P x"
    "proof_merkle_membership f (pair_up f xs ! (c div 2)) ss (map (\<lambda>j. odd (c div 2 div 2 ^ j)) [0..<d])
      = tree_root f d (pair_up f xs)"
    using Suc.IH [OF up_all up_len \<open>c div 2 < 2 ^ d\<close>] by auto
  have bits: "map (\<lambda>j. odd (c div 2 ^ j)) [0..<Suc d] = odd c # map (\<lambda>j. odd (c div 2 div 2 ^ j)) [0..<d]"
    by (simp add: upt_conv_Cons map_Suc_upt [symmetric] div_mult2_eq o_def del: upt_Suc)
  have "1 < length xs" using Suc.prems(2) one_less_power [of "2::nat" "Suc d"] by simp
  define s where "s = xs ! (if odd c then c - 1 else c + 1)"
  have even: "even (length xs)" using Suc.prems(2) by simp
  have idx: "(if odd c then c - 1 else c + 1) < length xs"
    using Suc.prems(2,3) even by (intro sibling_lt) simp_all
  have up: "pair_up f xs ! (c div 2) = (if odd c then f s (xs ! c) else f (xs ! c) s)"
  proof (cases "odd c")
    case True
    then have "2 * (c div 2) = c - 1" "Suc (2 * (c div 2)) = c" by presburger+
    with True Suc.prems(2) \<open>c div 2 < 2 ^ d\<close> show ?thesis by (simp add: nth_pair_up s_def)
  next
    case False
    then have "2 * (c div 2) = c" by presburger
    with False Suc.prems(2) \<open>c div 2 < 2 ^ d\<close> show ?thesis by (simp add: nth_pair_up s_def)
  qed
  have "path_loop node c xs = Inr (s # ss, map (\<lambda>j. odd (c div 2 ^ j)) [0..<Suc d], [tree_root f d (pair_up f xs)])"
    using \<open>1 < length xs\<close> next_lvl ss(1) unfolding bits by (subst path_loop.simps) (simp add: Let_def s_def)
  moreover have "P s" using Suc.prems(1) idx by (simp add: s_def)
  moreover have "proof_merkle_membership f (xs ! c) (s # ss) (odd c # map (\<lambda>j. odd (c div 2 div 2 ^ j)) [0..<d])
      = tree_root f d (pair_up f xs)"
    using ss(4) by (simp add: up)
  ultimately show ?case
    using ss(2,3) tree_root_pair_up [OF Suc.prems(2)] unfolding bits by (intro exI [of _ "s # ss"]) simp
qed

text \<open>The pairs a verifier hashes along a path, and what equality with the root of a tree means.\<close>

fun path_pairs :: "('a \<Rightarrow> 'a \<Rightarrow> 'a) \<Rightarrow> 'a \<Rightarrow> 'a list \<Rightarrow> bool list \<Rightarrow> ('a \<times> 'a) list" where
  "path_pairs node current (s # ss) (b # bs) =
     (let p = (if b then (s, current) else (current, s)) in p # path_pairs node (node (fst p) (snd p)) ss bs)"
| "path_pairs node current _ _ = []"

fun path_index :: "bool list \<Rightarrow> nat" where
  "path_index [] = 0"
| "path_index (b # bs) = of_bool b + 2 * path_index bs"

lemma path_index_snoc: "path_index (bs @ [b]) = path_index bs + 2 ^ length bs * of_bool b"
  by (induction bs) simp_all

lemma path_index_lt: "path_index bs < 2 ^ length bs"
proof (induction bs)
  case (Cons b bs)
  then have "path_index bs + 1 \<le> 2 ^ length bs" by simp
  then have "of_bool b + 2 * path_index bs < 2 * 2 ^ length bs" by (cases b) simp_all
  then show ?case by simp
qed simp

lemma membership_snoc: "length ss = length bs \<Longrightarrow>
   proof_merkle_membership f x (ss @ [s]) (bs @ [b])
     = (let m = proof_merkle_membership f x ss bs in if b then f s m else f m s)"
  by (induction f x ss bs rule: proof_merkle_membership.induct) simp_all

lemma path_pairs_snoc: "length ss = length bs \<Longrightarrow>
   path_pairs f x (ss @ [s]) (bs @ [b])
     = path_pairs f x ss bs @ [let m = proof_merkle_membership f x ss bs in if b then (s, m) else (m, s)]"
proof (induction f x ss bs rule: path_pairs.induct)
  case (1 f x s' ss b' bs)
  then show ?case by (cases b') simp_all
qed simp_all

lemma path_binding:
  assumes "length xs = 2 ^ d" "length ss = d" "length bs = d"
    and "proof_merkle_membership f x ss bs = tree_root f d xs"
  shows "x = xs ! path_index bs
    \<or> (\<exists>p \<in> set (path_pairs f x ss bs). \<exists>q \<in> node_inputs f d xs. p \<noteq> q \<and> f (fst p) (snd p) = f (fst q) (snd q))"
  using assms
proof (induction d arbitrary: xs ss bs)
  case (Suc d)
  obtain ss' s where ss: "ss = ss' @ [s]" using Suc.prems(2) by (cases ss rule: rev_cases) auto
  obtain bs' b where bs: "bs = bs' @ [b]" using Suc.prems(3) by (cases bs rule: rev_cases) auto
  have len: "length ss' = d" "length bs' = d" using Suc.prems(2,3) by (simp_all add: ss bs)
  define m where "m = proof_merkle_membership f x ss' bs'"
  define p where "p = (if b then (s, m) else (m, s))"
  define l r where "l = tree_root f d (take (2 ^ d) xs)" and "r = tree_root f d (drop (2 ^ d) xs)"
  have here: "p \<in> set (path_pairs f x ss bs)" "(l, r) \<in> node_inputs f (Suc d) xs" "f (fst p) (snd p) = f l r"
    using len Suc.prems(4) by (simp_all add: ss bs path_pairs_snoc membership_snoc p_def m_def l_def r_def Let_def split: if_splits)
  show ?case
  proof (cases "p = (l, r)")
    case False
    with here show ?thesis by (metis fst_conv snd_conv)
  next
    case True
    define half where "half = (if b then drop (2 ^ d) xs else take (2 ^ d) xs)"
    have half: "length half = 2 ^ d" "node_inputs f d half \<subseteq> node_inputs f (Suc d) xs"
      using Suc.prems(1) by (auto simp: half_def)
    have "proof_merkle_membership f x ss' bs' = tree_root f d half"
      using True by (simp add: p_def m_def [symmetric] half_def l_def r_def split: if_splits)
    moreover have "half ! path_index bs' = xs ! path_index bs"
      using path_index_lt [of bs'] Suc.prems(1) len by (simp add: half_def bs path_index_snoc add.commute)
    moreover have "set (path_pairs f x ss' bs') \<subseteq> set (path_pairs f x ss bs)"
      using len by (simp add: ss bs path_pairs_snoc subset_insertI)
    ultimately show ?thesis using Suc.IH [OF half(1) len] half(2) by (metis subsetD)
  qed
qed simp

lemma tree_root_all:
  assumes "\<And>l r. P l \<Longrightarrow> P r \<Longrightarrow> P (f l r)" "\<forall>x \<in> set xs. P x" "length xs = 2 ^ d"
  shows "P (tree_root f d xs)"
  using assms(2,3)
proof (induction d arbitrary: xs)
  case 0
  then show ?case by simp
next
  case (Suc d)
  then show ?case by (auto intro!: assms(1) Suc.IH dest: in_set_takeD in_set_dropD)
qed

lemma tree_root_map:
  assumes "\<And>l r. g (f l r) = h (g l) (g r)" "length xs = 2 ^ d"
  shows "g (tree_root f d xs) = tree_root h d (map g xs)"
  using assms(2) by (induction d arbitrary: xs) (simp_all add: assms(1) take_map drop_map)

lemma membership_map:
  assumes "\<And>l r. g (f l r) = h (g l) (g r)"
  shows "g (proof_merkle_membership f x ss bs) = proof_merkle_membership h (g x) (map g ss) bs"
proof (induction ss arbitrary: x bs)
  case (Cons s ss)
  then show ?case by (cases bs) (simp_all add: assms)
qed simp

section \<open>Openings verify\<close>

definition poseidon_32 :: "lib \<Rightarrow> bool" where
  "poseidon_32 L \<longleftrightarrow> (\<forall>inputs. length (poseidon2Hash L inputs) = 32)"

lemma ref_lib_poseidon [simp]: "poseidon_32 ref_lib"
  by (simp add: poseidon_32_def ref_lib_def ref_digest_def)

lemma proofHash_total:
  assumes "poseidon_32 L" "list_all (\<lambda>v. 0 \<le> v \<and> v < 2 ^ 256) (d # xs)"
  shows "\<exists>h. proofHash L d xs = Inr h \<and> commitment_ok h"
  using proof_inputs_total [OF assms(2)] assms(1) by (auto simp: proofHash_def poseidon_32_def paddedField_ok)

definition proof_node :: "lib \<Rightarrow> string \<Rightarrow> string \<Rightarrow> string" where
  "proof_node L l r = projr (proofMerkleNode L l r)"

lemma proofMerkleNode_total:
  assumes "poseidon_32 L" "commitment_ok l" "commitment_ok r"
  shows "proofMerkleNode L l r = Inr (proof_node L l r) \<and> commitment_ok (proof_node L l r)"
  using proofHash_total [OF assms(1), of 2 "[bigint l, bigint r]"] assms(2,3) bigint_commitment_lt
  by (auto simp: proof_node_def proofMerkleNode_def PAYO_PROOF_DOMAIN_MERKLE_NODE_def)

lemma empty_leaf_ok: "commitment_ok PAYO_PROOF_EMPTY_LEAF"
  by code_simp

lemma canonical_leaf_total:
  assumes "hex_lib_ok L" "commitment_ok s"
  shows "canonical_leaf L s = Inr (toHex L (leaf_bytes L s)) \<and> commitment_ok (toHex L (leaf_bytes L s))
    \<and> bigint (toHex L (leaf_bytes L s)) = bigint s"
  using leaf_bytes_commitment [OF assms] assms
  by (simp add: canonical_leaf_def toHex_commitment_ok bigint_toHex)

definition canonical_tree :: "lib \<Rightarrow> string list \<Rightarrow> string list" where
  "canonical_tree L leaves = padded 64 PAYO_PROOF_EMPTY_LEAF (map (\<lambda>s. toHex L (leaf_bytes L s)) leaves)"

lemma padded_all: "list_all P xs \<Longrightarrow> P d \<Longrightarrow> \<forall>x \<in> set (padded n d xs). P x"
  by (auto simp: padded_def list_all_length)

lemma fixed_level_total:
  assumes "hex_lib_ok L" "list_all commitment_ok leaves"
  shows "fixed_level L leaves = Inr (canonical_tree L leaves)" "\<forall>x \<in> set (canonical_tree L leaves). commitment_ok x"
    "length (canonical_tree L leaves) = 2 ^ 6"
proof -
  have each: "canonical_leaf L s = Inr (toHex L (leaf_bytes L s)) \<and> commitment_ok (toHex L (leaf_bytes L s))"
    if "s \<in> set leaves" for s
    using canonical_leaf_total [OF assms(1)] assms(2) that by (auto simp: list_all_iff)
  then have "rmap (canonical_leaf L) leaves = Inr (map (\<lambda>s. toHex L (leaf_bytes L s)) leaves)" by (intro rmap_total) blast
  then show "fixed_level L leaves = Inr (canonical_tree L leaves)"
    by (simp add: fixed_level_def canonical_tree_def PAYO_MERKLE_LEAF_COUNT_def)
  show "\<forall>x \<in> set (canonical_tree L leaves). commitment_ok x"
    unfolding canonical_tree_def by (rule padded_all) (use each empty_leaf_ok in \<open>auto simp: list_all_iff\<close>)
  show "length (canonical_tree L leaves) = 2 ^ 6" by (simp add: canonical_tree_def)
qed

lemma opening_total:
  assumes "hex_lib_ok L" "poseidon_32 L" "length leaves \<le> 50" "list_all commitment_ok leaves" "index < length leaves"
  shows "\<exists>ss. buildProofFixedMerkleMembership L leaves index
      = Inr \<lparr>op_siblings = ss, op_pathBits = map (\<lambda>j. odd (index div 2 ^ j)) [0..<6],
             mb_root = tree_root (proof_node L) 6 (canonical_tree L leaves), mb_leaf = canonical_tree L leaves ! index\<rparr>
    \<and> length ss = 6 \<and> (\<forall>x \<in> set ss. commitment_ok x)
    \<and> proof_merkle_membership (proof_node L) (canonical_tree L leaves ! index) ss (map (\<lambda>j. odd (index div 2 ^ j)) [0..<6])
        = tree_root (proof_node L) 6 (canonical_tree L leaves)"
proof -
  note level = fixed_level_total [OF assms(1,4)]
  have node: "commitment_ok l \<Longrightarrow> commitment_ok r \<Longrightarrow>
      proofMerkleNode L l r = Inr (proof_node L l r) \<and> commitment_ok (proof_node L l r)" for l r
    by (rule proofMerkleNode_total [OF assms(2)])
  have "index < 2 ^ 6" using assms(3,5) by simp
  from path_loop_tree [of commitment_ok "proofMerkleNode L" "proof_node L", OF node level(2,3) this] assms(3,5)
  show ?thesis
    by (auto simp: buildProofFixedMerkleMembership_def level(1) PAYO_MAX_PAYROLL_LINES_def)
qed

lemma fixed_root_total:
  assumes "hex_lib_ok L" "poseidon_32 L" "length leaves \<le> 50" "list_all commitment_ok leaves"
  shows "buildProofFixedMerkleRoot L leaves = Inr (tree_root (proof_node L) 6 (canonical_tree L leaves))"
proof -
  note level = fixed_level_total [OF assms(1,4)]
  have node: "commitment_ok l \<Longrightarrow> commitment_ok r \<Longrightarrow>
      proofMerkleNode L l r = Inr (proof_node L l r) \<and> commitment_ok (proof_node L l r)" for l r
    by (rule proofMerkleNode_total [OF assms(2)])
  have "merkle_loop (proofMerkleNode L) (canonical_tree L leaves) = Inr [tree_root (proof_node L) 6 (canonical_tree L leaves)]"
    by (rule merkle_loop_tree [where P = commitment_ok, OF node level(2,3)])
  with assms(3) show ?thesis by (simp add: buildProofFixedMerkleRoot_def level(1) PAYO_MAX_PAYROLL_LINES_def)
qed

text \<open>Every opening of the fixed proof tree verifies.  For at most fifty well-formed leaves and any
  index of a leaf, building the opening succeeds; its root is the root \<open>buildProofFixedMerkleRoot\<close>
  computes, its leaf is that leaf, it has six siblings, its turns are the bits of the index, and
  folding the leaf along the path, as the circuits do, gives the root.\<close>

theorem proof_opening_verifies:
  assumes "hex_lib_ok L" "poseidon_32 L" "length leaves \<le> 50" "list_all commitment_ok leaves" "index < length leaves"
  shows "\<exists>m. buildProofFixedMerkleMembership L leaves index = Inr m
    \<and> buildProofFixedMerkleRoot L leaves = Inr (mb_root m)
    \<and> canonical_leaf L (leaves ! index) = Inr (mb_leaf m)
    \<and> length (op_siblings m) = 6 \<and> op_pathBits m = map (\<lambda>j. odd (index div 2 ^ j)) [0..<6]
    \<and> proof_merkle_membership (\<lambda>l r. projr (proofMerkleNode L l r)) (mb_leaf m) (op_siblings m) (op_pathBits m) = mb_root m"
proof -
  have leaf: "canonical_tree L leaves ! index = toHex L (leaf_bytes L (leaves ! index))"
    using assms(3,5) by (simp add: canonical_tree_def nth_padded)
  have "commitment_ok (leaves ! index)" using assms(4,5) by (simp add: list_all_length)
  note canonical = canonical_leaf_total [OF assms(1) this]
  have pure: "(\<lambda>l r. projr (proofMerkleNode L l r)) = proof_node L" by (simp add: proof_node_def fun_eq_iff)
  show ?thesis
    using opening_total [OF assms] fixed_root_total [OF assms(1-4)] canonical leaf unfolding pure by fastforce
qed

section \<open>The catalog of one commitment\<close>

fun empty_tower :: "('a \<Rightarrow> 'a \<Rightarrow> 'a) \<Rightarrow> nat \<Rightarrow> 'a \<Rightarrow> 'a list" where
  "empty_tower f 0 e = []"
| "empty_tower f (Suc n) e = e # empty_tower f n (f e e)"

lemma empty_siblings_tower:
  assumes "\<And>l r. P l \<Longrightarrow> P r \<Longrightarrow> node l r = Inr (f l r) \<and> P (f l r)" "P e"
  shows "empty_siblings node n e = Inr (empty_tower f n e) \<and> list_all P (empty_tower f n e)"
  using assms(2) by (induction n arbitrary: e) (simp_all add: assms(1))

lemma pair_up_replicate: "pair_up f (replicate (2 * n) e) = replicate n (f e e)"
  by (induction n) simp_all

lemma path_loop_first:
  assumes "\<And>l r. P l \<Longrightarrow> P r \<Longrightarrow> node l r = Inr (f l r) \<and> P (f l r)" "P x" "P e"
  shows "path_loop node 0 (x # replicate (2 ^ d - 1) e)
      = Inr (empty_tower f d e, replicate d False, [foldl f x (empty_tower f d e)])"
  using assms(2,3)
proof (induction d arbitrary: x e)
  case 0
  show ?case by (simp add: path_loop.simps)
next
  case (Suc d)
  have "(2::nat) ^ Suc d - 1 = Suc (2 * (2 ^ d - 1))" by (cases "2 ^ d :: nat") simp_all
  then have xs: "x # replicate (2 ^ Suc d - 1) e = x # e # replicate (2 * (2 ^ d - 1)) e" by simp
  have "next_level node (x # replicate (2 ^ Suc d - 1) e) = Inr (pair_up f (x # replicate (2 ^ Suc d - 1) e))"
    using assms(1) Suc.prems unfolding xs by (intro next_level_total [where P = P]) auto
  then have "next_level node (x # replicate (2 ^ Suc d - 1) e) = Inr (f x e # replicate (2 ^ d - 1) (f e e))"
    unfolding xs by (simp add: pair_up_replicate)
  with Suc.IH [of "f x e" "f e e"] assms(1) Suc.prems show ?case
    unfolding xs by (subst path_loop.simps) simp
qed

lemma foldl_rfold:
  assumes "\<And>l r. P l \<Longrightarrow> P r \<Longrightarrow> node l r = Inr (f l r) \<and> P (f l r)" "P x" "list_all P ss"
  shows "rfold node x ss = Inr (foldl f x ss)"
  using assms(2,3) by (induction ss arbitrary: x) (simp_all add: assms(1))

lemma catalog_leaf_total:
  assumes "hex_lib_ok L" "poseidon_32 L" "commitment_ok c"
  shows "\<exists>bs x. normalizedHexBytes L c (Some 32) = Inr bs \<and> proofCatalogLeaf L c = Inr x
    \<and> proofCatalogLeaf L (toHex L bs) = Inr x \<and> commitment_ok x"
proof -
  obtain bs where bs: "normalizedHexBytes L c (Some 32) = Inr bs" "length bs = 32"
    using leaf_bytes_commitment [OF assms(1,3)] by blast
  have again: "normalizedHexBytes L (toHex L bs) (Some 32) = Inr bs"
    using normalizedHexBytes_toHex [OF assms(1), of bs] bs(2) by simp
  define high low where "high = decodeUint (take 16 bs)" and "low = decodeUint (take 16 (drop 16 bs))"
  have range: "0 \<le> high" "high < 2 ^ 256" "0 \<le> low" "low < 2 ^ 256"
    using decodeUint_nonneg [of "take 16 bs"] decodeUint_lt [of "take 16 bs"] decodeUint_nonneg [of "take 16 (drop 16 bs)"]
      decodeUint_lt [of "take 16 (drop 16 bs)"] bs(2) by (simp_all add: high_def low_def)
  then obtain x where x: "proofHash L PAYO_PROOF_DOMAIN_CATALOG_LEAF [high, low] = Inr x" "commitment_ok x"
    using proofHash_total [OF assms(2), of PAYO_PROOF_DOMAIN_CATALOG_LEAF "[high, low]"]
    by (auto simp: PAYO_PROOF_DOMAIN_CATALOG_LEAF_def)
  have leaf: "proofCatalogLeaf L c = Inr x" "proofCatalogLeaf L (toHex L bs) = Inr x"
    using x(1) bs(1) again by (simp_all add: proofCatalogLeaf_def limbs_def splitHashToU128_def high_def low_def)
  with bs(1) x(2) show ?thesis by blast
qed

text \<open>The shortcut for a catalog of one commitment is exact.  For every well-formed commitment the
  general construction gives one membership, that membership is the precomputed first one, and
  \<open>proofCatalogRoot\<close>, which folds the leaf with the roots of empty subtrees, gives the root of the
  general construction.\<close>

theorem single_catalog_shortcut:
  assumes "hex_lib_ok L" "poseidon_32 L" "commitment_ok c"
  shows "\<exists>root m. buildProofCatalog L [c] = Inr (root, [m]) \<and> firstProofCatalogMembership L = Inr m
    \<and> proofCatalogRoot L c = Inr root"
proof -
  have node: "commitment_ok l \<Longrightarrow> commitment_ok r \<Longrightarrow>
      proofMerkleNode L l r = Inr (proof_node L l r) \<and> commitment_ok (proof_node L l r)" for l r
    by (rule proofMerkleNode_total [OF assms(2)])
  obtain bs x where bs: "normalizedHexBytes L c (Some 32) = Inr bs" and leaf: "proofCatalogLeaf L c = Inr x"
    "proofCatalogLeaf L (toHex L bs) = Inr x" and x: "commitment_ok x"
    using catalog_leaf_total [OF assms] by blast
  define es where "es = empty_tower (proof_node L) 6 PAYO_PROOF_EMPTY_LEAF"
  have tower: "empty_siblings (proofMerkleNode L) 6 PAYO_PROOF_EMPTY_LEAF = Inr es" "list_all commitment_ok es"
    using empty_siblings_tower [of commitment_ok "proofMerkleNode L" "proof_node L", OF node empty_leaf_ok, of 6]
    by (simp_all add: es_def)
  define leaves where "leaves = padded PAYO_MERKLE_LEAF_COUNT PAYO_PROOF_EMPTY_LEAF [x]"
  have leaves: "leaves = x # replicate (2 ^ 6 - 1) PAYO_PROOF_EMPTY_LEAF"
    by (simp add: leaves_def PAYO_MERKLE_LEAF_COUNT_def padded_short)
  have path: "path_loop (proofMerkleNode L) 0 leaves = Inr (es, replicate 6 False, [foldl (proof_node L) x es])"
    using path_loop_first [of commitment_ok "proofMerkleNode L" "proof_node L", OF node x empty_leaf_ok, of 6]
    unfolding leaves es_def .
  have all: "\<forall>x \<in> set leaves. commitment_ok x" "length leaves = 2 ^ 6"
    using x empty_leaf_ok by (simp_all add: leaves)
  have "merkle_loop (proofMerkleNode L) leaves = Inr [tree_root (proof_node L) 6 leaves]"
    by (rule merkle_loop_tree [where P = commitment_ok, OF node all])
  moreover have "tree_root (proof_node L) 6 leaves = foldl (proof_node L) x es"
    using path_loop_tree [of commitment_ok "proofMerkleNode L" "proof_node L", OF node all, of 0] path by auto
  ultimately have root: "merkle_loop (proofMerkleNode L) leaves = Inr [foldl (proof_node L) x es]" by simp
  have "rfold (proofMerkleNode L) x es = Inr (foldl (proof_node L) x es)"
    by (rule foldl_rfold [where P = commitment_ok, OF node x tower(2)])
  then show ?thesis
    using path root tower(1) leaf bs
    by (simp add: buildProofCatalog_def PAYO_MERKLE_LEAF_COUNT_def canonical_leaf_def firstProofCatalogMembership_def
        proofCatalogRoot_def leaves_def Let_def)
qed

section \<open>What an agreement commitment determines\<close>

lemma packed_eq:
  fixes a b c d m :: int
  assumes "0 \<le> a" "a < m" "0 \<le> c" "c < m" "a + b * m = c + d * m"
  shows "a = c \<and> b = d"
proof -
  have "(a + b * m) mod m = a" "(c + d * m) mod m = c" using assms(1-4) by simp_all
  then have "a = c" using assms(5) by simp
  with assms show ?thesis by simp
qed

lemma packedAmount_Inr: "packedAmount v = Inr w \<Longrightarrow> w = v \<and> 0 \<le> v \<and> v < 2 ^ 120"
  by (auto simp: packedAmount_def PACKED_AMOUNT_LIMIT_def push_bit_eq_mult split: if_splits)

lemma packAmountPair_eq:
  assumes "packAmountPair a b = Inr w" "packAmountPair c d = Inr w"
  shows "a = c \<and> b = d"
  using assms packed_eq [of a "2 ^ 120" c b d]
  by (auto simp: packAmountPair_def rbind_Inr_iff PACKED_AMOUNT_LIMIT_def push_bit_eq_mult dest!: packedAmount_Inr)

lemma limbs_eq:
  assumes "hex_lib_ok L" "limbs L s = Inr v" "limbs L t = Inr v"
  shows "hex_num s = hex_num t"
proof -
  have "hex_num s = decodeUint (take 16 bs) * 256 ^ 16 + decodeUint (take 16 (drop 16 bs))"
    if "normalizedHexBytes L s (Some 32) = Inr bs" for s bs
    using normalizedHexBytes_Inr [OF assms(1) that] decodeUint_append [of "take 16 bs" "drop 16 bs"] by simp
  then show ?thesis using assms(2,3) by (auto simp: limbs_def splitHashToU128_def rbind_Inr_iff)
qed

lemma limbs_length: "limbs L s = Inr v \<Longrightarrow> length v = 2"
  by (auto simp: limbs_def rbind_Inr_iff)

lemma single_Inr: "single r = Inr v \<longleftrightarrow> (\<exists>x. r = Inr x \<and> v = [x])"
  by (auto simp: single_def rbind_Inr_iff)

lemma proof_groups_eq:
  assumes "proof_groups gs = Inr v" "proof_groups hs = Inr v"
    and "list_all2 (\<lambda>g h. \<forall>x y. g = Inr x \<longrightarrow> h = Inr y \<longrightarrow> length x = length y) gs hs"
  shows "list_all2 (\<lambda>g h. \<exists>x. g = Inr x \<and> h = Inr x) gs hs"
  using assms(3,1,2)
proof (induction arbitrary: v rule: list_all2_induct)
  case (Cons g gs h hs)
  from Cons.prems obtain x xs y ys where
    x: "g = Inr x" "rmap (\<lambda>g. g) gs = Inr xs" "v = x @ concat xs" and
    y: "h = Inr y" "rmap (\<lambda>g. g) hs = Inr ys" "v = y @ concat ys"
    by (auto simp: proof_groups_def rbind_Inr_iff)
  moreover have "length x = length y" using Cons.hyps(1) x(1) y(1) by blast
  ultimately have "x = y" "concat xs = concat ys" by simp_all
  with x y Cons.IH [of "concat xs"] show ?case by (simp add: proof_groups_def)
qed simp

lemma hashAgreementTerms_ranges:
  assumes "hashAgreementTerms L a = Inr h"
  shows "length (at_earningsAtomic a) < 16" "0 \<le> at_classificationScore a" "at_classificationScore a < 65536"
    "0 \<le> at_classificationEmployeeThreshold a" "at_classificationEmployeeThreshold a < 65536"
    "0 \<le> at_finalRequiredMask a" "at_finalRequiredMask a < 32" "0 \<le> at_dueAt a" "at_dueAt a < 2 ^ 64"
  using assms by (auto simp: hashAgreementTerms_def agreement_checks_def agreement_fields_def rbind_Inr_iff encodeUint_Inr_iff)

lemma agreement_metadata_eq:
  assumes "hashAgreementTerms L a = Inr g" "hashAgreementTerms L b = Inr h"
    and "at_classificationDeclared a \<in> {1, 2}" "at_classificationDeclared b \<in> {1, 2}"
    and "agreement_metadata a = agreement_metadata b"
  shows "length (at_earningsAtomic a) = length (at_earningsAtomic b) \<and> at_token a = at_token b
    \<and> at_classificationDeclared a = at_classificationDeclared b \<and> at_classificationScore a = at_classificationScore b
    \<and> at_classificationEmployeeThreshold a = at_classificationEmployeeThreshold b \<and> at_finalPayMode a = at_finalPayMode b
    \<and> at_finalRequiredMask a = at_finalRequiredMask b \<and> at_referenceCurrency a = at_referenceCurrency b"
proof -
  note A = hashAgreementTerms_ranges [OF assms(1)] and B = hashAgreementTerms_ranges [OF assms(2)]
  define tok where "tok a = (if at_token a = STRK then 0 else 1 :: int)" for a :: agreement_terms
  define mode where "mode a = (if at_finalPayMode a then 1 else 0 :: int)" for a :: agreement_terms
  define cur where "cur a = (if at_referenceCurrency a = USD then 0 else 1 :: int)" for a :: agreement_terms
  have nested: "agreement_metadata a = int (length (at_earningsAtomic a)) + (tok a + (at_classificationDeclared a
      + (at_classificationScore a + (at_classificationEmployeeThreshold a + (mode a + (at_finalRequiredMask a
      + cur a * 32) * 2) * 65536) * 65536) * 4) * 2) * 16" for a :: agreement_terms
    by (simp add: agreement_metadata_def tok_def mode_def cur_def)
  have bits: "0 \<le> tok a" "tok a < 2" "0 \<le> mode a" "mode a < 2" for a :: agreement_terms by (simp_all add: tok_def mode_def)
  have declared: "0 \<le> at_classificationDeclared a" "at_classificationDeclared a < 4" "0 \<le> at_classificationDeclared b"
    "at_classificationDeclared b < 4" using assms(3,4) by auto
  have 1: "int (length (at_earningsAtomic a)) = int (length (at_earningsAtomic b)) \<and> tok a + (at_classificationDeclared a
      + (at_classificationScore a + (at_classificationEmployeeThreshold a + (mode a + (at_finalRequiredMask a
      + cur a * 32) * 2) * 65536) * 65536) * 4) * 2 = tok b + (at_classificationDeclared b
      + (at_classificationScore b + (at_classificationEmployeeThreshold b + (mode b + (at_finalRequiredMask b
      + cur b * 32) * 2) * 65536) * 65536) * 4) * 2"
    by (rule packed_eq [OF _ _ _ _ assms(5) [unfolded nested]]) (use A(1) B(1) in simp_all)
  note 2 = packed_eq [OF bits(1,2) bits(1,2) 1 [THEN conjunct2]]
  note 3 = packed_eq [OF declared 2 [THEN conjunct2]]
  note 4 = packed_eq [OF A(2,3) B(2,3) 3 [THEN conjunct2]]
  note 5 = packed_eq [OF A(4,5) B(4,5) 4 [THEN conjunct2]]
  note 6 = packed_eq [OF bits(3,4) bits(3,4) 5 [THEN conjunct2]]
  note 7 = packed_eq [OF A(6,7) B(6,7) 6 [THEN conjunct2]]
  have "at_token a = at_token b" using 2 by (cases "at_token a"; cases "at_token b") (simp_all add: tok_def)
  moreover have "at_finalPayMode a = at_finalPayMode b" using 6 by (simp add: mode_def split: if_splits)
  moreover have "at_referenceCurrency a = at_referenceCurrency b"
    using 7 by (cases "at_referenceCurrency a"; cases "at_referenceCurrency b") (simp_all add: cur_def)
  ultimately show ?thesis using 1 3 4 5 7 by simp
qed

text \<open>Everything an agreement commits to, as numbers.\<close>

definition agreement_values :: "agreement_terms \<Rightarrow> int list" where
  "agreement_values a =
     map hex_num [at_agreementIdCommitment a, at_recipientCommitment a, at_policyCommitment a, at_scheduleCommitment a, at_salt a]
     @ [int (length (at_earningsAtomic a)), if at_token a = STRK then 0 else 1, at_dueAt a, at_validUntil a,
        at_classificationDeclared a, at_classificationScore a, at_classificationEmployeeThreshold a,
        if at_finalPayMode a then 1 else 0, at_finalRequiredMask a, bigint (at_fxFloorAtomic a),
        if at_referenceCurrency a = USD then 0 else 1]
     @ map bigint (padded 8 ''0'' (at_earningsAtomic a)) @ map bigint (padded 5 ''0'' (at_finalComponentsAtomic a))"

lemma list_8: "length xs = 8 \<Longrightarrow> xs = [xs ! 0, xs ! 1, xs ! 2, xs ! 3, xs ! 4, xs ! 5, xs ! 6, xs ! 7]"
  by (rule nth_equalityI) (auto simp: less_Suc_eq numeral_eq_Suc)

lemma list_5: "length xs = 5 \<Longrightarrow> xs = [xs ! 0, xs ! 1, xs ! 2, xs ! 3, xs ! 4]"
  by (rule nth_equalityI) (auto simp: less_Suc_eq numeral_eq_Suc)

lemma pair_group_eq:
  "\<exists>x. single (packAmountPair a b) = Inr x \<and> single (packAmountPair c d) = Inr x \<Longrightarrow> a = c \<and> b = d"
  using packAmountPair_eq by (auto simp: single_Inr)

lemma limbs_group_eq: "hex_lib_ok L \<Longrightarrow> \<exists>x. limbs L s = Inr x \<and> limbs L t = Inr x \<Longrightarrow> hex_num s = hex_num t"
  using limbs_eq by blast

lemma floor_group_eq:
  assumes "\<exists>x. single (rbind (packedAmount a) (\<lambda>v. Inr (v + m * PACKED_AMOUNT_LIMIT))) = Inr x
    \<and> single (rbind (packedAmount b) (\<lambda>v. Inr (v + n * PACKED_AMOUNT_LIMIT))) = Inr x"
  shows "a = b \<and> m = n"
  using assms packed_eq [of a PACKED_AMOUNT_LIMIT b m n]
  by (auto simp: single_Inr rbind_Inr_iff packedAmount_def split: if_splits)

lemma agreement_groups_determine:
  assumes "hex_lib_ok L" "hashAgreementTerms L a = Inr g" "hashAgreementTerms L b = Inr h"
    and "at_classificationDeclared a \<in> {1, 2}" "at_classificationDeclared b \<in> {1, 2}"
    and "proof_groups (agreement_groups L a) = Inr v" "proof_groups (agreement_groups L b) = Inr v"
  shows "agreement_values a = agreement_values b"
proof -
  note A = hashAgreementTerms_ranges [OF assms(2)] and B = hashAgreementTerms_ranges [OF assms(3)]
  have "list_all2 (\<lambda>g h. \<forall>x y. g = Inr x \<longrightarrow> h = Inr y \<longrightarrow> length x = length y) (agreement_groups L a) (agreement_groups L b)"
    by (auto simp: agreement_groups_def single_Inr limbs_length Let_def)
  from proof_groups_eq [OF assms(6,7) this]
  have same: "\<exists>x. agreement_groups L a ! i = Inr x \<and> agreement_groups L b ! i = Inr x" if "i < 14" for i
    using that by (auto simp: list_all2_conv_all_nth) (simp add: agreement_groups_def Let_def)
  define e f where "e a = map bigint (padded 8 ''0'' (at_earningsAtomic a))"
    and "f a = map bigint (padded 5 ''0'' (at_finalComponentsAtomic a))" for a :: agreement_terms
  have group: "agreement_groups L a =
     [limbs L (at_agreementIdCommitment a), limbs L (at_recipientCommitment a),
       single (packAmountPair (e a ! 0) (e a ! 1)), single (packAmountPair (e a ! 2) (e a ! 3)),
       single (packAmountPair (e a ! 4) (e a ! 5)), single (packAmountPair (e a ! 6) (e a ! 7)),
       limbs L (at_policyCommitment a), limbs L (at_scheduleCommitment a),
       Inr [at_dueAt a + at_validUntil a * push_bit 64 1],
       single (packAmountPair (f a ! 0) (f a ! 1)), single (packAmountPair (f a ! 2) (f a ! 3)), single (packAmountPair (f a ! 4) 0),
       single (rbind (packedAmount (bigint (at_fxFloorAtomic a))) (\<lambda>floor.
         Inr (floor + agreement_metadata a * PACKED_AMOUNT_LIMIT))),
       limbs L (at_salt a)]" for a
    unfolding agreement_groups_def Let_def e_def f_def ..
  have texts: "hex_num (at_agreementIdCommitment a) = hex_num (at_agreementIdCommitment b)"
    "hex_num (at_recipientCommitment a) = hex_num (at_recipientCommitment b)"
    "hex_num (at_policyCommitment a) = hex_num (at_policyCommitment b)"
    "hex_num (at_scheduleCommitment a) = hex_num (at_scheduleCommitment b)" "hex_num (at_salt a) = hex_num (at_salt b)"
    using same [of 0] same [of 1] same [of 6] same [of 7] same [of 13] limbs_group_eq [OF assms(1)]
    by (simp_all only: group) simp_all
  have earnings: "e a ! 0 = e b ! 0 \<and> e a ! 1 = e b ! 1" "e a ! 2 = e b ! 2 \<and> e a ! 3 = e b ! 3"
    "e a ! 4 = e b ! 4 \<and> e a ! 5 = e b ! 5" "e a ! 6 = e b ! 6 \<and> e a ! 7 = e b ! 7"
    using same [of 2] same [of 3] same [of 4] same [of 5] by (intro pair_group_eq; simp add: group)+
  have finals: "f a ! 0 = f b ! 0 \<and> f a ! 1 = f b ! 1" "f a ! 2 = f b ! 2 \<and> f a ! 3 = f b ! 3" "f a ! 4 = f b ! 4 \<and> (0::int) = 0"
    using same [of 9] same [of 10] same [of 11] by (intro pair_group_eq; simp add: group)+
  have times: "at_dueAt a = at_dueAt b \<and> at_validUntil a = at_validUntil b"
    using same [of 8] packed_eq [OF A(8,9) B(8,9), of "at_validUntil a" "at_validUntil b"] by (simp add: group push_bit_eq_mult)
  have floor: "bigint (at_fxFloorAtomic a) = bigint (at_fxFloorAtomic b) \<and> agreement_metadata a = agreement_metadata b"
    using same [of 12] by (intro floor_group_eq; simp add: group)
  have "length (e x) = 8" "length (f x) = 5" for x by (simp_all add: e_def f_def)
  then have "e a = e b" "f a = f b" using earnings finals list_8 [of "e a"] list_8 [of "e b"] list_5 [of "f a"] list_5 [of "f b"]
    by metis+
  with texts times floor agreement_metadata_eq [OF assms(2-5)] show ?thesis
    by (simp add: agreement_values_def e_def f_def)
qed

text \<open>The commitment a proof carries for an agreement binds all of its terms, through the packing of
  amounts and metadata into field elements.  Two agreements with the same commitment agree in every
  term as a number (identifiers, recipient, policy, schedule, salt, the count and values of the earnings,
  the final-pay components, token, due and validity times, classification, mask, floor, currency), or the
  two lists of field elements hashed are different and collide under Poseidon2.\<close>

theorem proof_agreement_binding:
  assumes "hex_lib_ok L" "proofAgreementCommitment L a = Inr c" "proofAgreementCommitment L b = Inr c"
    and "at_classificationDeclared a \<in> {1, 2}" "at_classificationDeclared b \<in> {1, 2}"
  shows "agreement_values a = agreement_values b
    \<or> (\<exists>v w p q. proof_groups (agreement_groups L a) = Inr v \<and> proof_groups (agreement_groups L b) = Inr w
          \<and> proof_inputs PAYO_PROOF_DOMAIN_AGREEMENT v = Inr p \<and> proof_inputs PAYO_PROOF_DOMAIN_AGREEMENT w = Inr q
          \<and> p \<noteq> q \<and> poseidon2Hash L p = poseidon2Hash L q)"
proof -
  from assms(2) obtain g v p where a: "hashAgreementTerms L a = Inr g" "proof_groups (agreement_groups L a) = Inr v"
    "proof_inputs PAYO_PROOF_DOMAIN_AGREEMENT v = Inr p" "c = paddedField (poseidon2Hash L p)"
    by (auto simp: proofAgreementCommitment_def proofHash_def rbind_Inr_iff)
  from assms(3) obtain h w q where b: "hashAgreementTerms L b = Inr h" "proof_groups (agreement_groups L b) = Inr w"
    "proof_inputs PAYO_PROOF_DOMAIN_AGREEMENT w = Inr q" "c = paddedField (poseidon2Hash L q)"
    by (auto simp: proofAgreementCommitment_def proofHash_def rbind_Inr_iff)
  have eq: "poseidon2Hash L p = poseidon2Hash L q" using a(4) b(4) by (simp add: paddedField_inj)
  show ?thesis
  proof (cases "p = q")
    case True
    with proof_inputs_inj a(3) b(3) have "v = w" by blast
    with agreement_groups_determine [OF assms(1) a(1) b(1) assms(4,5) a(2)] b(2) show ?thesis by blast
  next
    case False
    with a b eq show ?thesis by blast
  qed
qed

section \<open>Commitments of well-formed agreements\<close>

definition small_amount :: "string \<Rightarrow> bool" where
  "small_amount s \<longleftrightarrow> atomicAmount_ok s \<and> bigint s < 2 ^ 120"

lemma padded_bigint:
  "list_all small_amount xs \<Longrightarrow> i < n \<Longrightarrow> 0 \<le> map bigint (padded n ''0'' xs) ! i \<and> map bigint (padded n ''0'' xs) ! i < 2 ^ 120"
  by (auto simp: nth_padded small_amount_def list_all_length bigint_def value_base_def hex_val_def)

lemma rmap_encode_total:
  assumes "\<And>i. i < n \<Longrightarrow> 0 \<le> map bigint (padded n ''0'' xs) ! i \<and> map bigint (padded n ''0'' xs) ! i < 2 ^ 120"
  shows "\<exists>es. rmap (\<lambda>v. encodeUint (bigint v) 16) (padded n ''0'' xs) = Inr es"
proof -
  have "encodeUint (bigint v) 16 = Inr (projr (encodeUint (bigint v) 16))" if "v \<in> set (padded n ''0'' xs)" for v
  proof -
    from that obtain i where "i < n" "v = padded n ''0'' xs ! i" by (auto simp: in_set_conv_nth)
    with assms [of i] encodeUint_total [of "bigint v" 16] show ?thesis by (auto simp: sum.sel(2))
  qed
  then have "rmap (\<lambda>v. encodeUint (bigint v) 16) (padded n ''0'' xs)
      = Inr (map (\<lambda>v. projr (encodeUint (bigint v) 16)) (padded n ''0'' xs))" by (rule rmap_total)
  then show ?thesis by (rule exI)
qed

lemma limbs_total: "hex_lib_ok L \<Longrightarrow> commitment_ok s \<Longrightarrow>
    \<exists>h l. limbs L s = Inr [h, l] \<and> 0 \<le> h \<and> h < 2 ^ 256 \<and> 0 \<le> l \<and> l < 2 ^ 256"
proof -
  assume L: "hex_lib_ok L" "commitment_ok s"
  then have "limbs L s = Inr [decodeUint (take 16 (leaf_bytes L s)), decodeUint (take 16 (drop 16 (leaf_bytes L s)))]"
    by (simp add: limbs_def splitHashToU128_def leaf_bytes_commitment)
  moreover have "decodeUint (take 16 bs) < 2 ^ 256" for bs
    using decodeUint_lt [of "take 16 bs"] power_increasing [of "length (take 16 bs)" 16 "256::int"] by simp
  ultimately show ?thesis using decodeUint_nonneg by blast
qed

text \<open>A group of field elements that is given and in range.\<close>

definition group_ok :: "int list result \<Rightarrow> bool" where
  "group_ok r \<longleftrightarrow> (\<exists>v. r = Inr v \<and> list_all (\<lambda>x. 0 \<le> x \<and> x < 2 ^ 256) v)"

lemma proof_groups_ok:
  assumes "list_all group_ok gs"
  shows "group_ok (proof_groups gs)"
proof -
  have "rmap (\<lambda>g. g) gs = Inr (map projr gs)" by (rule rmap_total) (use assms in \<open>auto simp: list_all_iff group_ok_def\<close>)
  moreover have "list_all (\<lambda>x. 0 \<le> x \<and> x < 2 ^ 256) (concat (map projr gs))"
    using assms by (force simp: list_all_iff group_ok_def)
  ultimately show ?thesis by (simp add: proof_groups_def group_ok_def)
qed

lemma limbs_ok: "hex_lib_ok L \<Longrightarrow> commitment_ok s \<Longrightarrow> group_ok (limbs L s)"
  using limbs_total by (fastforce simp: group_ok_def)

lemma packed_below: "0 \<le> a \<Longrightarrow> a < 2 ^ 120 \<Longrightarrow> 0 \<le> b \<Longrightarrow> b < 2 ^ 120 \<Longrightarrow> 0 \<le> a + b * 2 ^ 120 \<and> a + b * 2 ^ 120 < (2::int) ^ 256"
  by auto

lemma pair_ok:
  assumes "0 \<le> a" "a < 2 ^ 120" "0 \<le> b" "b < 2 ^ 120"
  shows "group_ok (single (packAmountPair a b))"
  using assms packed_below [OF assms]
  by (simp add: group_ok_def single_def packAmountPair_def packedAmount_def PACKED_AMOUNT_LIMIT_def push_bit_eq_mult)

lemma floor_ok:
  assumes "0 \<le> a" "a < 2 ^ 120" "0 \<le> b" "b < 2 ^ 120"
  shows "group_ok (single (rbind (packedAmount a) (\<lambda>v. Inr (v + b * PACKED_AMOUNT_LIMIT))))"
  using assms packed_below [OF assms]
  by (simp add: group_ok_def single_def packedAmount_def PACKED_AMOUNT_LIMIT_def push_bit_eq_mult)

lemma packed_amount_ok:
  assumes "0 \<le> a" "a < 2 ^ 120"
  shows "group_ok (single (packedAmount a))"
  using assms by (simp add: group_ok_def single_def packedAmount_def PACKED_AMOUNT_LIMIT_def push_bit_eq_mult)

lemma grouped_hash_total:
  assumes "poseidon_32 L" "list_all group_ok gs" "0 \<le> d" "d < 2 ^ 256"
  shows "\<exists>h. rbind (proof_groups gs) (proofHash L d) = Inr h \<and> commitment_ok h"
proof -
  obtain v where v: "proof_groups gs = Inr v" "list_all (\<lambda>x. 0 \<le> x \<and> x < 2 ^ 256) v"
    using proof_groups_ok [OF assms(2)] by (auto simp: group_ok_def)
  with assms(3,4) have "list_all (\<lambda>x. 0 \<le> x \<and> x < 2 ^ 256) (d # v)" by simp
  from proofHash_total [OF assms(1) this] v(1) show ?thesis by simp
qed

text \<open>The terms a well-formed agreement has.\<close>

definition terms_ok :: "agreement_terms \<Rightarrow> bool" where
  "terms_ok a \<longleftrightarrow>
     list_all commitment_ok [at_agreementIdCommitment a, at_recipientCommitment a, at_policyCommitment a,
       at_scheduleCommitment a, at_salt a]
     \<and> 1 \<le> length (at_earningsAtomic a) \<and> length (at_earningsAtomic a) \<le> 8 \<and> list_all small_amount (at_earningsAtomic a)
     \<and> length (at_finalComponentsAtomic a) \<le> 5 \<and> list_all small_amount (at_finalComponentsAtomic a)
     \<and> small_amount (at_fxFloorAtomic a) \<and> 0 \<le> at_dueAt a \<and> at_dueAt a < 2 ^ 64 \<and> 0 \<le> at_validUntil a \<and> at_validUntil a < 2 ^ 64
     \<and> at_classificationDeclared a \<in> {1, 2} \<and> 0 \<le> at_classificationScore a \<and> at_classificationScore a \<le> 0xffff
     \<and> 1 \<le> at_classificationEmployeeThreshold a \<and> at_classificationEmployeeThreshold a \<le> 0xffff
     \<and> 0 \<le> at_finalRequiredMask a \<and> at_finalRequiredMask a \<le> 31"

lemma agreement_terms_hash_total:
  assumes "hex_lib_ok L" "terms_ok a"
  shows "\<exists>h. hashAgreementTerms L a = Inr h"
proof -
  have hex: "\<exists>bs. normalizedHexBytes L s (Some 32) = Inr bs" if "commitment_ok s" for s
    using leaf_bytes_commitment [OF assms(1) that] by blast
  have num: "\<exists>bs. encodeUint v n = Inr bs" if "0 \<le> v" "v < 256 ^ n" for v n using encodeUint_total that by blast
  have amounts: "\<exists>es. rmap (\<lambda>v. encodeUint (bigint v) 16) (padded n ''0'' xs) = Inr es" if "list_all small_amount xs" for n xs
    using rmap_encode_total [OF padded_bigint [OF that]] by blast
  have "\<exists>es. rmap (\<lambda>v. encodeUint (bigint v) 16) (padded 8 ''0'' (at_earningsAtomic a)) = Inr es"
    "\<exists>es. rmap (\<lambda>v. encodeUint (bigint v) 16) (padded 5 ''0'' (at_finalComponentsAtomic a)) = Inr es"
    "\<exists>bs. normalizedHexBytes L (at_agreementIdCommitment a) (Some 32) = Inr bs"
    "\<exists>bs. normalizedHexBytes L (at_recipientCommitment a) (Some 32) = Inr bs"
    "\<exists>bs. normalizedHexBytes L (at_policyCommitment a) (Some 32) = Inr bs"
    "\<exists>bs. normalizedHexBytes L (at_scheduleCommitment a) (Some 32) = Inr bs"
    "\<exists>bs. normalizedHexBytes L (at_salt a) (Some 32) = Inr bs" "\<exists>bs. encodeU32 (int (length (at_earningsAtomic a))) = Inr bs"
    "\<exists>bs. encodeUint (at_dueAt a) 8 = Inr bs" "\<exists>bs. encodeUint (at_validUntil a) 8 = Inr bs"
    "\<exists>bs. encodeUint (at_classificationScore a) 2 = Inr bs" "\<exists>bs. encodeUint (at_classificationEmployeeThreshold a) 2 = Inr bs"
    "\<exists>bs. encodeUint (bigint (at_fxFloorAtomic a)) 16 = Inr bs"
    using assms(2) by (auto simp: terms_ok_def encodeU32_def small_amount_def intro!: hex num amounts)
  moreover have "agreement_checks a = Inr ()" using assms(2) by (simp add: agreement_checks_def terms_ok_def)
  ultimately show ?thesis by (auto simp: hashAgreementTerms_def agreement_fields_def)
qed

lemma agreement_commitment_total:
  assumes "hex_lib_ok L" "poseidon_32 L" "terms_ok a"
  shows "\<exists>h. proofAgreementCommitment L a = Inr h \<and> commitment_ok h"
proof -
  have b: "0 \<le> map bigint (padded n ''0'' xs) ! i \<and> map bigint (padded n ''0'' xs) ! i < 2 ^ 120" if "list_all small_amount xs" "i < n" for xs n i
    using padded_bigint that by blast
  have e: "list_all small_amount (at_earningsAtomic a)" "list_all small_amount (at_finalComponentsAtomic a)"
    using assms(3) by (simp_all add: terms_ok_def)
  have floor: "0 \<le> bigint (at_fxFloorAtomic a)" "bigint (at_fxFloorAtomic a) < 2 ^ 120"
    using assms(3) by (simp_all add: terms_ok_def small_amount_def)
  have meta: "0 \<le> agreement_metadata a" "agreement_metadata a < 2 ^ 120"
    using assms(3) by (auto simp: terms_ok_def agreement_metadata_def)
  have times: "0 \<le> at_dueAt a + at_validUntil a * push_bit 64 1" "at_dueAt a + at_validUntil a * push_bit 64 1 < 2 ^ 256"
    using assms(3) by (auto simp: terms_ok_def push_bit_eq_mult)
  note b8 = b [OF e(1), of _ 8] and b5 = b [OF e(2), of _ 5]
  have "list_all group_ok (agreement_groups L a)"
    unfolding agreement_groups_def Let_def list.pred_inject
    by (intro conjI TrueI limbs_ok [OF assms(1)] pair_ok floor_ok)
      (use assms(3) b8 b5 floor meta times in \<open>auto simp: terms_ok_def group_ok_def\<close>)
  from grouped_hash_total [OF assms(2) this, of PAYO_PROOF_DOMAIN_AGREEMENT] agreement_terms_hash_total [OF assms(1,3)]
  show ?thesis by (auto simp: proofAgreementCommitment_def PAYO_PROOF_DOMAIN_AGREEMENT_def)
qed

section \<open>Witnesses\<close>

theorem proof_opening_verifies_witness:
  "\<exists>m. buildProofFixedMerkleMembership ref_lib [PAYO_PROOF_EMPTY_LEAF, PAYO_PROOF_EMPTY_LEAF] 1 = Inr m
     \<and> buildProofFixedMerkleRoot ref_lib [PAYO_PROOF_EMPTY_LEAF, PAYO_PROOF_EMPTY_LEAF] = Inr (mb_root m)
     \<and> op_pathBits m = [True, False, False, False, False, False]"
proof -
  have leaves: "list_all commitment_ok [PAYO_PROOF_EMPTY_LEAF, PAYO_PROOF_EMPTY_LEAF]" by (simp add: empty_leaf_ok)
  have bits: "map (\<lambda>j. odd ((1::nat) div 2 ^ j)) [0..<6] = [True, False, False, False, False, False]"
    by (simp add: upt_conv_Cons)
  from proof_opening_verifies [OF ref_lib_hex ref_lib_poseidon _ leaves, of 1] show ?thesis
    unfolding bits by auto
qed

theorem single_catalog_shortcut_witness:
  "\<exists>root m. buildProofCatalog ref_lib [PAYO_PROOF_EMPTY_LEAF] = Inr (root, [m])
     \<and> proofCatalogRoot ref_lib PAYO_PROOF_EMPTY_LEAF = Inr root"
  using single_catalog_shortcut [OF ref_lib_hex ref_lib_poseidon empty_leaf_ok] by blast

definition example_agreement :: "char \<Rightarrow> agreement_terms" where
  "example_agreement c = \<lparr>at_agreementIdCommitment = ''0x'' @ replicate 64 c, at_recipientCommitment = ''0x'' @ replicate 64 c,
     at_earningsAtomic = [''1000'', ''250''], at_token = USDC, at_policyCommitment = ''0x'' @ replicate 64 c,
     at_scheduleCommitment = ''0x'' @ replicate 64 c, at_dueAt = 1700000000, at_validUntil = 1800000000,
     at_classificationDeclared = 2, at_classificationScore = 40, at_classificationEmployeeThreshold = 60,
     at_finalPayMode = False, at_finalRequiredMask = 3, at_finalComponentsAtomic = [''7''], at_fxFloorAtomic = ''990000'',
     at_referenceCurrency = USD, at_salt = ''0x'' @ replicate 64 c\<rparr>"

lemma example_agreement_committed:
  "list_all (\<lambda>c. \<exists>h. proofAgreementCommitment ref_lib (example_agreement c) = Inr h) [CHR ''a'', CHR ''A'']"
proof -
  have texts: "list_all (\<lambda>c. commitment_ok (''0x'' @ replicate 64 c)) [CHR ''a'', CHR ''A'']"
    "list_all small_amount [''1000'', ''250'', ''7'', ''990000'']" by code_simp+
  have "terms_ok (example_agreement c)" if "commitment_ok (''0x'' @ replicate 64 c)" for c
    using that texts(2) by (simp add: terms_ok_def example_agreement_def)
  with agreement_commitment_total [OF ref_lib_hex ref_lib_poseidon] texts(1) show ?thesis by fastforce
qed

lemma example_agreement_values: "agreement_values (example_agreement (CHR ''A'')) = agreement_values (example_agreement (CHR ''a''))"
proof -
  have texts: "commitment_ok (''0x'' @ replicate 64 (CHR ''A''))" "commitment_ok (''0x'' @ replicate 64 (CHR ''a''))"
    "bigint (''0x'' @ replicate 64 (CHR ''A'')) = bigint (''0x'' @ replicate 64 (CHR ''a''))" by code_simp+
  then have "hex_num (''0x'' @ replicate 64 (CHR ''A'')) = hex_num (''0x'' @ replicate 64 (CHR ''a''))"
    by (metis hex_num_bigint)
  then show ?thesis by (simp add: agreement_values_def example_agreement_def)
qed

lemma example_agreement_same:
  "agreement_groups ref_lib (example_agreement (CHR ''A'')) = agreement_groups ref_lib (example_agreement (CHR ''a''))"
proof -
  have "limbs ref_lib (''0x'' @ replicate 64 (CHR ''A'')) = limbs ref_lib (''0x'' @ replicate 64 (CHR ''a''))" by code_simp
  then show ?thesis by (simp add: agreement_groups_def agreement_metadata_def example_agreement_def Let_def)
qed

theorem proof_agreement_binding_witness:
  "\<exists>c. proofAgreementCommitment ref_lib (example_agreement (CHR ''A'')) = Inr c
     \<and> proofAgreementCommitment ref_lib (example_agreement (CHR ''a'')) = Inr c
     \<and> agreement_values (example_agreement (CHR ''A'')) = agreement_values (example_agreement (CHR ''a''))"
proof -
  from example_agreement_committed obtain c d where
    c: "proofAgreementCommitment ref_lib (example_agreement (CHR ''a'')) = Inr c" and
    d: "proofAgreementCommitment ref_lib (example_agreement (CHR ''A'')) = Inr d" by auto
  have hash: "rbind (proof_groups (agreement_groups L a)) (proofHash L PAYO_PROOF_DOMAIN_AGREEMENT) = Inr k"
    if "proofAgreementCommitment L a = Inr k" for L a k
    using that unfolding proofAgreementCommitment_def by (cases "hashAgreementTerms L a") simp_all
  have same: "c = d" using hash [OF c] hash [OF d] unfolding example_agreement_same by simp
  have declared: "at_classificationDeclared (example_agreement x) \<in> {1, 2}" for x by (simp add: example_agreement_def)
  from proof_agreement_binding [OF ref_lib_hex d c [unfolded same] declared declared]
  have "agreement_values (example_agreement (CHR ''A'')) = agreement_values (example_agreement (CHR ''a''))"
    by (rule disjE) (assumption, rule example_agreement_values)
  with c d same show ?thesis by simp
qed

end
