(* ===== verification/Records.thy ===== *)
theory Records
  imports Encoding
begin

text \<open>
  The identifiers of \<open>lib/domain/records.ts\<close>: the pattern of a UUIDv7 and its generator.
\<close>

definition uuid_pattern :: "(char \<Rightarrow> bool) list" where
  "uuid_pattern =
     replicate 8 is_hex @ [(=) (CHR ''-'')] @ replicate 4 is_hex @ [(=) (CHR ''-''), (=) (CHR ''7'')] @ replicate 3 is_hex
     @ [(=) (CHR ''-''), \<lambda>c. c \<in> set ''89abAB''] @ replicate 3 is_hex @ [(=) (CHR ''-'')] @ replicate 12 is_hex"

definition uuidV7Schema :: "string \<Rightarrow> bool" where
  "uuidV7Schema s = list_all2 (\<lambda>p c. p c) uuid_pattern s"

text \<open>The loop that writes the timestamp into the first six bytes, from the last to the first.\<close>

fun timestamp_bytes :: "nat \<Rightarrow> int \<Rightarrow> byte list \<Rightarrow> byte list" where
  "timestamp_bytes 0 remaining acc = acc"
| "timestamp_bytes (Suc index) remaining acc =
     timestamp_bytes index (drop_bit 8 remaining) (word_of_int (and remaining 255) # acc)"

definition byte_hex :: "byte \<Rightarrow> string" where
  "byte_hex value = padStart 2 (CHR ''0'') (toString16 (uint value))"

definition generateUuidV7 :: "int \<Rightarrow> byte list \<Rightarrow> string result" where
  "generateUuidV7 timestamp random =
     (if 9007199254740991 < \<bar>timestamp\<bar> \<or> timestamp < 0 \<or> 281474976710655 < timestamp
      then Inl (Thrown ''UUIDv7 timestamp must fit in 48 unsigned bits.'')
      else if length random \<noteq> 10 then Inl (Thrown ''UUIDv7 requires exactly 10 random bytes.'')
      else let bytes = timestamp_bytes 6 timestamp [] @ random;
               versioned = bytes[6 := or (and (bytes ! 6) 15) 112, 8 := or (and (bytes ! 8) 63) 128];
               hex = concat (map byte_hex versioned) in
        Inr (take 8 hex @ ''-'' @ take 4 (drop 8 hex) @ ''-'' @ take 4 (drop 12 hex) @ ''-''
             @ take 4 (drop 16 hex) @ ''-'' @ drop 20 hex))"

end
