(* ===== verification/Attestations.thy ===== *)
theory Attestations
  imports Proof_Bindings Capability Records Js_BigInt
begin

text \<open>
  Model of \<open>lib/domain/external-attestation.ts\<close>: the facts an outside issuer signs about a worker, their
  verification and use, the catalog of approved attestations whose root the chain registers, and the
  package that opens the catalog for one worker.
\<close>

section \<open>Attestations\<close>

definition PAYO_EXTERNAL_ATTESTATION_ACTIVE_STATUS :: "lib \<Rightarrow> string" where
  "PAYO_EXTERNAL_ATTESTATION_ACTIVE_STATUS L = toHex L (keccak_256 L (utf8 ''PAYO_EXTERNAL_ATTESTATION_STATUS_V1ACTIVE''))"

definition PAYO_EXTERNAL_ATTESTATION_ALL_FACTS :: int where
  "PAYO_EXTERNAL_ATTESTATION_ALL_FACTS = 7"

definition u64StringSchema :: "string \<Rightarrow> bool" where
  "u64StringSchema s = (canonical_dec s \<and> bigint s < push_bit 64 1)"

definition base64Bytes :: "nat \<Rightarrow> string \<Rightarrow> bool" where
  "base64Bytes len value =
     (1 \<le> length value \<and> (case fromBase64 value of Inl _ \<Rightarrow> False | Inr bytes \<Rightarrow> length bytes = len))"

record external_attestation =
  ea_issuerPublicKey :: string
  ea_subjectCommitment :: string
  ea_factMask :: int
  ea_jurisdictionCode :: string
  ea_jurisdictionCommitment :: string
  ea_policyRoot :: string
  ea_statusCommitment :: string
  ea_validFrom :: string
  ea_validUntil :: string
  ea_nonce :: string

definition jurisdictionCommitment :: "lib \<Rightarrow> string \<Rightarrow> string result" where
  "jurisdictionCommitment L code =
     rbind (zod ''jurisdictionCode'' jurisdiction_ok code) (\<lambda>parsed.
     Inr (toHex L (keccak_256 L (concatBytes [utf8 ''PAYO_JURISDICTION_V1'', utf8 parsed]))))"

definition externalAttestationSchema :: "lib \<Rightarrow> external_attestation \<Rightarrow> bool" where
  "externalAttestationSchema L a =
     (base64Bytes 32 (ea_issuerPublicKey a) \<and> commitment_ok (ea_subjectCommitment a)
      \<and> 1 \<le> ea_factMask a \<and> ea_factMask a \<le> 7 \<and> jurisdiction_ok (ea_jurisdictionCode a)
      \<and> commitment_ok (ea_jurisdictionCommitment a) \<and> commitment_ok (ea_policyRoot a)
      \<and> commitment_ok (ea_statusCommitment a) \<and> u64StringSchema (ea_validFrom a) \<and> u64StringSchema (ea_validUntil a)
      \<and> commitment_ok (ea_nonce a)
      \<and> bigint (ea_validFrom a) < bigint (ea_validUntil a)
      \<and> bigint (ea_subjectCommitment a) \<noteq> 0 \<and> bigint (ea_policyRoot a) \<noteq> 0
      \<and> bigint (ea_statusCommitment a) = bigint (PAYO_EXTERNAL_ATTESTATION_ACTIVE_STATUS L)
      \<and> bigint (ea_nonce a) \<noteq> 0
      \<and> jurisdictionCommitment L (ea_jurisdictionCode a) = Inr (ea_jurisdictionCommitment a))"

record signed_attestation =
  sa_attestation :: external_attestation
  sa_commitment :: string
  sa_signature :: string

definition signedExternalAttestationSchema :: "lib \<Rightarrow> signed_attestation \<Rightarrow> bool" where
  "signedExternalAttestationSchema L s =
     (externalAttestationSchema L (sa_attestation s) \<and> commitment_ok (sa_commitment s) \<and> base64Bytes 64 (sa_signature s))"

definition attestation_fields :: "lib \<Rightarrow> external_attestation \<Rightarrow> byte list result list" where
  "attestation_fields L a =
     [encodeUint 1 1, fromBase64 (ea_issuerPublicKey a), normalizedHexBytes L (ea_subjectCommitment a) (Some 32),
      encodeUint (ea_factMask a) 1, normalizedHexBytes L (ea_jurisdictionCommitment a) (Some 32),
      normalizedHexBytes L (ea_statusCommitment a) (Some 32), encodeUint (bigint (ea_validFrom a)) 8,
      encodeUint (bigint (ea_validUntil a)) 8, normalizedHexBytes L (ea_nonce a) (Some 32),
      normalizedHexBytes L (ea_policyRoot a) (Some 32)]"

definition externalAttestationCommitment :: "lib \<Rightarrow> external_attestation \<Rightarrow> string result" where
  "externalAttestationCommitment L input =
     rbind (zod ''externalAttestationSchema'' (externalAttestationSchema L) input) (\<lambda>attestation.
     rbind (rmap (\<lambda>f. f) (attestation_fields L attestation)) (\<lambda>fields.
     Inr (toHex L (keccak_256 L (concatBytes (utf8 ''PAYO_EXTERNAL_ATTESTATION_V1'' # fields))))))"

text \<open>The issuer's key in \<open>input\<close>, which the source's type omits, is overwritten.\<close>

definition signExternalAttestation :: "lib \<Rightarrow> external_attestation \<Rightarrow> byte list \<Rightarrow> signed_attestation result" where
  "signExternalAttestation L input issuerSecretKey =
     rbind (ed25519_getPublicKey L issuerSecretKey) (\<lambda>publicKey.
     rbind (zod ''externalAttestationSchema'' (externalAttestationSchema L) (input\<lparr>ea_issuerPublicKey := toBase64 publicKey\<rparr>)) (\<lambda>attestation.
     rbind (externalAttestationCommitment L attestation) (\<lambda>commitment.
     rbind (normalizedHexBytes L commitment (Some 32)) (\<lambda>message.
     rbind (ed25519_sign L message issuerSecretKey) (\<lambda>signature.
     Inr \<lparr>sa_attestation = attestation, sa_commitment = commitment, sa_signature = toBase64 signature\<rparr>)))))"

definition verifySignedExternalAttestation :: "lib \<Rightarrow> string list option \<Rightarrow> signed_attestation \<Rightarrow> signed_attestation result" where
  "verifySignedExternalAttestation L trustedIssuerPublicKeys input =
     rbind (zod ''signedExternalAttestationSchema'' (signedExternalAttestationSchema L) input) (\<lambda>signed.
     rbind (externalAttestationCommitment L (sa_attestation signed)) (\<lambda>commitment.
     if bigint commitment \<noteq> bigint (sa_commitment signed)
     then Inl (Thrown ''External attestation commitment does not match its signed payload.'')
     else if (case trustedIssuerPublicKeys of None \<Rightarrow> False
              | Some keys \<Rightarrow> ea_issuerPublicKey (sa_attestation signed) \<notin> set keys)
     then Inl (Thrown ''External attestation issuer is not approved.'')
     else rbind (fromBase64 (sa_signature signed)) (\<lambda>signature.
       rbind (normalizedHexBytes L commitment (Some 32)) (\<lambda>message.
       rbind (fromBase64 (ea_issuerPublicKey (sa_attestation signed))) (\<lambda>publicKey.
       if \<not> ed25519_verify L signature message publicKey
       then Inl (Thrown ''External attestation signature is invalid.'')
       else Inr signed)))))"

record usage_options =
  uo_subjectCommitment :: string
  uo_policyRoot :: string
  uo_requiredFactMask :: int
  uo_at :: int
  uo_revokedNonces :: "string list option"

text \<open>A revoked set is iterated in order; its texts are not validated.\<close>

definition is_revoked :: "string list option \<Rightarrow> external_attestation \<Rightarrow> bool result" where
  "is_revoked revokedNonces a =
     (case revokedNonces of None \<Rightarrow> Inr False
      | Some nonces \<Rightarrow> rsome (\<lambda>nonce. rbind (BigInt nonce) (\<lambda>n. Inr (n = bigint (ea_nonce a)))) nonces)"

definition assertExternalAttestationUsable :: "lib \<Rightarrow> usage_options \<Rightarrow> signed_attestation \<Rightarrow> signed_attestation result" where
  "assertExternalAttestationUsable L options input =
     rbind (verifySignedExternalAttestation L None input) (\<lambda>signed.
     let attestation = sa_attestation signed in
     rbind (BigInt (uo_subjectCommitment options)) (\<lambda>subject.
     if bigint (ea_subjectCommitment attestation) \<noteq> subject
     then Inl (Thrown ''External attestation belongs to another private subject.'')
     else rbind (BigInt (uo_policyRoot options)) (\<lambda>policyRoot.
     if bigint (ea_policyRoot attestation) \<noteq> policyRoot
     then Inl (Thrown ''External attestation is bound to another payroll policy catalog.'')
     else if and (ea_factMask attestation) (uo_requiredFactMask options) \<noteq> uo_requiredFactMask options
     then Inl (Thrown ''External attestation does not cover the required facts.'')
     else if uo_at options < bigint (ea_validFrom attestation) \<or> bigint (ea_validUntil attestation) < uo_at options
     then Inl (Thrown ''External attestation is outside its validity window.'')
     else rbind (is_revoked (uo_revokedNonces options) attestation) (\<lambda>revoked.
     if revoked then Inl (Thrown ''External attestation has been revoked.'')
     else Inr signed))))"

section \<open>The catalog\<close>

record catalog_entry =
  ce_signed :: signed_attestation
  ce_leaf :: string
  ce_siblings :: "string list"
  ce_pathBits :: "bool list"

record attestation_catalog =
  ac_root :: string
  ac_entries :: "catalog_entry list"

fun not_revoked :: "string list option \<Rightarrow> signed_attestation list \<Rightarrow> signed_attestation list result" where
  "not_revoked revokedNonces [] = Inr []"
| "not_revoked revokedNonces (s # ss) =
     rbind (is_revoked revokedNonces (sa_attestation s)) (\<lambda>revoked.
     rbind (not_revoked revokedNonces ss) (\<lambda>kept. Inr (if revoked then kept else s # kept)))"

fun check_unique :: "string set \<Rightarrow> string set \<Rightarrow> signed_attestation list \<Rightarrow> unit result" where
  "check_unique nonces commitments [] = Inr ()"
| "check_unique nonces commitments (value # vs) =
     (let nonce = toString (bigint (ea_nonce (sa_attestation value)));
          commitment = toString (bigint (sa_commitment value)) in
      if nonce \<in> nonces \<or> commitment \<in> commitments
      then Inl (Thrown ''The attestation catalog contains a duplicate nonce or commitment.'')
      else check_unique (insert nonce nonces) (insert commitment commitments) vs)"

definition catalog_entries :: "lib \<Rightarrow> string list \<Rightarrow> signed_attestation list \<Rightarrow> catalog_entry list result" where
  "catalog_entries L leaves verified =
     rmap (\<lambda>(signed, index). rbind (buildProofFixedMerkleMembership L leaves index) (\<lambda>opening.
       Inr \<lparr>ce_signed = signed, ce_leaf = mb_leaf opening, ce_siblings = op_siblings opening,
            ce_pathBits = op_pathBits opening\<rparr>)) (zip verified [0..<length verified])"

definition buildExternalAttestationCatalog ::
    "lib \<Rightarrow> signed_attestation list \<Rightarrow> string list \<Rightarrow> string list option \<Rightarrow> attestation_catalog result" where
  "buildExternalAttestationCatalog L attestations trustedIssuerPublicKeys revokedNonces =
     (if attestations = [] \<or> 50 < length attestations
      then Inl (Thrown ''An external-attestation catalog requires 1-50 entries.'')
      else rbind (rmap (verifySignedExternalAttestation L (Some trustedIssuerPublicKeys)) attestations) (\<lambda>signed.
        rbind (not_revoked revokedNonces signed) (\<lambda>verified.
        if verified = [] then Inl (Thrown ''The attestation catalog has no approved, non-revoked entries.'')
        else rbind (check_unique {} {} verified) (\<lambda>_.
        rbind (rmap (\<lambda>s. proofExternalAttestationLeaf L (sa_commitment s)) verified) (\<lambda>leaves.
        rbind (buildProofFixedMerkleRoot L leaves) (\<lambda>root.
        rbind (catalog_entries L leaves verified) (\<lambda>entries.
        Inr \<lparr>ac_root = root, ac_entries = entries\<rparr>)))))))"

section \<open>Packages\<close>

record proof_package =
  pp_agreementId :: string
  pp_catalogRoot :: string
  pp_signed :: signed_attestation
  pp_siblings :: "string list"
  pp_pathBits :: "bool list"

definition externalAttestationProofPackageSchema :: "lib \<Rightarrow> proof_package \<Rightarrow> bool" where
  "externalAttestationProofPackageSchema L p =
     (uuidV7Schema (pp_agreementId p) \<and> commitment_ok (pp_catalogRoot p) \<and> bigint (pp_catalogRoot p) \<noteq> 0
      \<and> signedExternalAttestationSchema L (pp_signed p)
      \<and> length (pp_siblings p) = 6 \<and> list_all commitment_ok (pp_siblings p) \<and> length (pp_pathBits p) = 6)"

definition createExternalAttestationProofPackage ::
    "lib \<Rightarrow> string \<Rightarrow> attestation_catalog \<Rightarrow> int \<Rightarrow> proof_package result" where
  "createExternalAttestationProofPackage L agreement_id catalog entryIndex =
     (if entryIndex < 0 \<or> int (length (ac_entries catalog)) \<le> entryIndex
      then Inl (Thrown ''External attestation package selects a missing catalog entry.'')
      else let entry = ac_entries catalog ! nat entryIndex in
        zod ''externalAttestationProofPackageSchema'' (externalAttestationProofPackageSchema L)
          \<lparr>pp_agreementId = agreement_id, pp_catalogRoot = ac_root catalog, pp_signed = ce_signed entry,
           pp_siblings = ce_siblings entry, pp_pathBits = ce_pathBits entry\<rparr>)"

definition openExternalAttestationProofPackage :: "lib \<Rightarrow> proof_package \<Rightarrow> proof_package result" where
  "openExternalAttestationProofPackage L input =
     rbind (zod ''externalAttestationProofPackageSchema'' (externalAttestationProofPackageSchema L) input) (\<lambda>parsed.
     rbind (verifySignedExternalAttestation L None (pp_signed parsed)) (\<lambda>signed.
     if ea_factMask (sa_attestation signed) \<noteq> PAYO_EXTERNAL_ATTESTATION_ALL_FACTS
     then Inl (Thrown ''External attestation must cover residency, employment and tax status.'')
     else rbind (proofExternalAttestationLeaf L (sa_commitment signed)) (\<lambda>leaf.
       rbind (rfold (\<lambda>current (sibling, bit). if bit then proofMerkleNode L sibling current
                                               else proofMerkleNode L current sibling)
                leaf (zip (pp_siblings parsed) (pp_pathBits parsed))) (\<lambda>current.
       if bigint current \<noteq> bigint (pp_catalogRoot parsed)
       then Inl (Thrown ''External attestation membership does not reconstruct its catalog root.'')
       else Inr (parsed\<lparr>pp_signed := signed\<rparr>)))))"

end
