(* ===== verification/Attestation_Properties.thy ===== *)
theory Attestation_Properties
  imports Attestations
begin

text \<open>
  What verification, the catalog and the packages of theory Attestations establish.
\<close>

section \<open>Verification\<close>

lemma verify_same: "verifySignedExternalAttestation L keys s = Inr t \<Longrightarrow> t = s"
  by (auto simp: verifySignedExternalAttestation_def rbind_Inr_iff split: if_splits)

lemma verify_trusted:
  "verifySignedExternalAttestation L (Some keys) s = Inr t
     \<longleftrightarrow> verifySignedExternalAttestation L None s = Inr t \<and> ea_issuerPublicKey (sa_attestation s) \<in> set keys"
  by (auto simp: verifySignedExternalAttestation_def rbind_Inr_iff split: if_splits)

lemma verify_schema: "verifySignedExternalAttestation L keys s = Inr t \<Longrightarrow> signedExternalAttestationSchema L s"
  by (auto simp: verifySignedExternalAttestation_def rbind_Inr_iff)

lemma verify_commitment:
  "verifySignedExternalAttestation L keys s = Inr t \<Longrightarrow>
     \<exists>c. externalAttestationCommitment L (sa_attestation s) = Inr c \<and> bigint c = bigint (sa_commitment s)"
  by (auto simp: verifySignedExternalAttestation_def rbind_Inr_iff split: if_splits)

definition revoked_in :: "string list option \<Rightarrow> external_attestation \<Rightarrow> bool" where
  "revoked_in nonces a = (case nonces of None \<Rightarrow> False | Some ns \<Rightarrow> bigint (ea_nonce a) \<in> bigint ` set ns)"

lemma is_revoked_total:
  assumes "opt_ok (list_all commitment_ok) nonces"
  shows "is_revoked nonces a = Inr (revoked_in nonces a)"
proof (cases nonces)
  case (Some ns)
  have image: "bigint (ea_nonce a) \<in> bigint ` set ns \<longleftrightarrow> (\<exists>n \<in> set ns. bigint n = bigint (ea_nonce a))"
    by (metis image_iff)
  from Some assms have "rsome (\<lambda>nonce. rbind (BigInt nonce) (\<lambda>n. Inr (n = bigint (ea_nonce a)))) ns
      = Inr (\<exists>n \<in> set ns. bigint n = bigint (ea_nonce a))"
    by (intro rsome_total) (simp add: BigInt_hex list_all_iff)
  with Some image show ?thesis by (simp add: is_revoked_def revoked_in_def)
qed (simp add: is_revoked_def revoked_in_def)

lemma mask_covers: "and (m::int) r = r \<longleftrightarrow> (\<forall>i. bit r i \<longrightarrow> bit m i)"
  by (auto simp: bit_eq_iff bit_and_iff)

text \<open>Exactly when a signed attestation may be used.  For well-formed options it is accepted, unchanged,
  if and only if it verifies, is about that subject under that policy catalog (compared as numbers),
  covers every fact whose bit the required mask has, the time is in its validity window with both
  ends included, and its nonce is not among the revoked ones; every other case throws.\<close>

theorem attestation_usable_iff:
  assumes "commitment_ok (uo_subjectCommitment options)" "commitment_ok (uo_policyRoot options)"
    and "opt_ok (list_all commitment_ok) (uo_revokedNonces options)"
  shows "assertExternalAttestationUsable L options s = Inr t \<longleftrightarrow>
    t = s \<and> verifySignedExternalAttestation L None s = Inr s
    \<and> bigint (ea_subjectCommitment (sa_attestation s)) = bigint (uo_subjectCommitment options)
    \<and> bigint (ea_policyRoot (sa_attestation s)) = bigint (uo_policyRoot options)
    \<and> (\<forall>i. bit (uo_requiredFactMask options) i \<longrightarrow> bit (ea_factMask (sa_attestation s)) i)
    \<and> bigint (ea_validFrom (sa_attestation s)) \<le> uo_at options \<and> uo_at options \<le> bigint (ea_validUntil (sa_attestation s))
    \<and> \<not> revoked_in (uo_revokedNonces options) (sa_attestation s)"
proof (cases "verifySignedExternalAttestation L None s")
  case (Inr u)
  with verify_same have "u = s" by blast
  with Inr assms show ?thesis
    unfolding mask_covers [symmetric]
    by (auto simp: assertExternalAttestationUsable_def BigInt_hex is_revoked_total Let_def)
qed (simp add: assertExternalAttestationUsable_def)

section \<open>The catalog\<close>

lemma not_revoked_filter:
  "opt_ok (list_all commitment_ok) nonces \<Longrightarrow>
     not_revoked nonces ss = Inr (filter (\<lambda>s. \<not> revoked_in nonces (sa_attestation s)) ss)"
  by (induction ss) (simp_all add: is_revoked_total)

lemma check_unique_Inr:
  assumes "check_unique ns cs ss = Inr u"
  shows "distinct (map (\<lambda>s. bigint (ea_nonce (sa_attestation s))) ss) \<and> distinct (map (\<lambda>s. bigint (sa_commitment s)) ss)
    \<and> (\<forall>s \<in> set ss. toString (bigint (ea_nonce (sa_attestation s))) \<notin> ns \<and> toString (bigint (sa_commitment s)) \<notin> cs)"
  using assms
proof (induction ns cs ss rule: check_unique.induct)
  case (2 ns cs v vs)
  define n c where "n = toString (bigint (ea_nonce (sa_attestation v)))" and "c = toString (bigint (sa_commitment v))"
  from 2(2) have new: "n \<notin> ns" "c \<notin> cs" "check_unique (insert n ns) (insert c cs) vs = Inr u"
    by (simp_all add: n_def c_def Let_def split: if_splits)
  have "\<not> (n \<in> ns \<or> c \<in> cs)" using new by simp
  note IH = 2(1) [OF n_def c_def this new(3)]
  then have "bigint (ea_nonce (sa_attestation v)) \<notin> (\<lambda>s. bigint (ea_nonce (sa_attestation s))) ` set vs"
    "bigint (sa_commitment v) \<notin> (\<lambda>s. bigint (sa_commitment s)) ` set vs"
    by (auto simp: n_def c_def)
  with IH new(1,2) show ?case by (simp add: n_def c_def)
qed simp

lemma catalog_stages:
  assumes "buildExternalAttestationCatalog L ats keys revoked = Inr cat"
  obtains sgd verified leaves where
    "length ats \<le> 50" "rmap (verifySignedExternalAttestation L (Some keys)) ats = Inr sgd"
    "not_revoked revoked sgd = Inr verified" "verified \<noteq> []" "check_unique {} {} verified = Inr ()"
    "rmap (\<lambda>s. proofExternalAttestationLeaf L (sa_commitment s)) verified = Inr leaves"
    "buildProofFixedMerkleRoot L leaves = Inr (ac_root cat)"
    "catalog_entries L leaves verified = Inr (ac_entries cat)"
  using assms
  by (auto simp: buildExternalAttestationCatalog_def rbind_Inr_iff split: if_splits)

lemma rmap_verify:
  "rmap (verifySignedExternalAttestation L keys) ats = Inr sgd \<Longrightarrow>
     sgd = ats \<and> (\<forall>s \<in> set ats. verifySignedExternalAttestation L keys s = Inr s)"
  by (induction ats arbitrary: sgd) (auto simp: rbind_Inr_iff dest: verify_same)

lemma catalog_entries_signed:
  assumes "catalog_entries L leaves verified = Inr es"
  shows "map ce_signed es = verified"
proof -
  from assms have "list_all2 (\<lambda>(s, i) e. ce_signed e = s) (zip verified [0..<length verified]) es"
    unfolding catalog_entries_def rmap_Inr_iff by (rule list_all2_mono) (auto simp: rbind_Inr_iff)
  then show ?thesis by (auto simp: list_all2_conv_all_nth intro: nth_equalityI)
qed

text \<open>C25: What a catalog contains.  When the catalog is built and the revoked nonces, if any are given, are
  well-formed commitments, every attestation given was verified and its
  issuer is trusted, whether or not it is revoked; the entries are exactly the attestations given, in
  order, without the revoked ones; at least one remains; and no two of them share a nonce or a
  commitment, as numbers.\<close>

theorem attestation_catalog_exact:
  assumes "buildExternalAttestationCatalog L ats keys revoked = Inr cat"
    and "opt_ok (list_all commitment_ok) revoked"
  shows "(\<forall>s \<in> set ats. verifySignedExternalAttestation L None s = Inr s \<and> ea_issuerPublicKey (sa_attestation s) \<in> set keys)
    \<and> map ce_signed (ac_entries cat) = filter (\<lambda>s. \<not> revoked_in revoked (sa_attestation s)) ats
    \<and> ac_entries cat \<noteq> []
    \<and> distinct (map (\<lambda>e. bigint (ea_nonce (sa_attestation (ce_signed e)))) (ac_entries cat))
    \<and> distinct (map (\<lambda>e. bigint (sa_commitment (ce_signed e))) (ac_entries cat))"
  using assms(1)
proof (rule catalog_stages)
  fix sgd verified leaves
  assume v: "rmap (verifySignedExternalAttestation L (Some keys)) ats = Inr sgd"
    "not_revoked revoked sgd = Inr verified" "verified \<noteq> []" "check_unique {} {} verified = Inr ()"
    "catalog_entries L leaves verified = Inr (ac_entries cat)"
  note entries = catalog_entries_signed [OF v(5)]
  have maps: "map (\<lambda>e. g (ce_signed e)) (ac_entries cat) = map g verified" for g :: "signed_attestation \<Rightarrow> int"
    unfolding entries [symmetric] by simp
  have "verified = filter (\<lambda>s. \<not> revoked_in revoked (sa_attestation s)) ats"
    using v(2) not_revoked_filter [OF assms(2)] rmap_verify [OF v(1)] by simp
  with entries v(3) check_unique_Inr [OF v(4)] rmap_verify [OF v(1)] show ?thesis
    unfolding maps [of "\<lambda>s. bigint (ea_nonce (sa_attestation s))"] maps [of "\<lambda>s. bigint (sa_commitment s)"]
    by (auto simp: verify_trusted)
qed

section \<open>Packages open the catalog\<close>

lemma attestation_leaf_total:
  assumes "hex_lib_ok L" "poseidon_32 L" "commitment_ok c"
  shows "\<exists>x. proofExternalAttestationLeaf L c = Inr x \<and> commitment_ok x"
proof -
  obtain h l where hl: "limbs L c = Inr [h, l]" "0 \<le> h" "h < 2 ^ 256" "0 \<le> l" "l < 2 ^ 256"
    using limbs_total [OF assms(1,3)] by blast
  then show ?thesis
    using proofHash_total [OF assms(2), of PAYO_PROOF_DOMAIN_EXTERNAL_ATTESTATION "[h, l]"]
    by (simp add: proofExternalAttestationLeaf_def PAYO_PROOF_DOMAIN_EXTERNAL_ATTESTATION_def)
qed

definition open_path :: "lib \<Rightarrow> string \<Rightarrow> string list \<Rightarrow> bool list \<Rightarrow> string result" where
  "open_path L leaf siblings pathBits =
     rfold (\<lambda>current (sibling, bit). if bit then proofMerkleNode L sibling current else proofMerkleNode L current sibling)
       leaf (zip siblings pathBits)"

lemma open_path_total:
  assumes "poseidon_32 L" "commitment_ok x" "list_all commitment_ok ss"
  shows "open_path L x ss bs = Inr (proof_merkle_membership (proof_node L) x ss bs)
    \<and> commitment_ok (proof_merkle_membership (proof_node L) x ss bs)"
  using assms(2,3)
proof (induction "proof_node L" x ss bs rule: proof_merkle_membership.induct)
  case (1 x s ss b bs)
  then have "commitment_ok (if b then proof_node L s x else proof_node L x s)"
    using proofMerkleNode_total [OF assms(1)] by simp
  with 1 show ?case using proofMerkleNode_total [OF assms(1)] by (auto simp: open_path_def)
qed (simp_all add: open_path_def)

lemma proof_node_number: "bigint l = bigint m \<Longrightarrow> bigint r = bigint s \<Longrightarrow> proof_node L l r = proof_node L m s"
  by (simp add: proof_node_def proofMerkleNode_def)

lemma membership_number:
  "bigint x = bigint y \<Longrightarrow>
     bigint (proof_merkle_membership (proof_node L) x ss bs) = bigint (proof_merkle_membership (proof_node L) y ss bs)"
proof (induction "proof_node L" x ss bs arbitrary: y rule: proof_merkle_membership.induct)
  case (1 x s ss b bs)
  then have "bigint (if b then proof_node L s x else proof_node L x s) = bigint (if b then proof_node L s y else proof_node L y s)"
    using proof_node_number by metis
  from 1(1) [OF this] show ?case by simp
qed simp_all

lemma catalog_entry:
  assumes "catalog_entries L leaves verified = Inr es" "i < length verified"
  shows "\<exists>m. buildProofFixedMerkleMembership L leaves i = Inr m
    \<and> es ! i = \<lparr>ce_signed = verified ! i, ce_leaf = mb_leaf m, ce_siblings = op_siblings m, ce_pathBits = op_pathBits m\<rparr>"
  using assms by (auto simp: catalog_entries_def rmap_Inr_iff list_all2_conv_all_nth rbind_Inr_iff)

lemma catalog_leaves_ok:
  assumes "hex_lib_ok L" "poseidon_32 L" "rmap (\<lambda>s. proofExternalAttestationLeaf L (sa_commitment s)) verified = Inr leaves"
    and "\<forall>s \<in> set verified. verifySignedExternalAttestation L keys s = Inr s"
  shows "list_all commitment_ok leaves"
proof -
  have "commitment_ok y" if "y \<in> set leaves" for y
  proof -
    from rmap_setD [OF assms(3) that] obtain s where s: "s \<in> set verified" "proofExternalAttestationLeaf L (sa_commitment s) = Inr y"
      by blast
    with assms(4) have "commitment_ok (sa_commitment s)"
      using verify_schema by (auto simp: signedExternalAttestationSchema_def)
    from attestation_leaf_total [OF assms(1,2) this] s(2) show ?thesis by auto
  qed
  then show ?thesis by (simp add: list_all_iff)
qed

lemma not_revoked_kept: "not_revoked revoked ss = Inr kept \<Longrightarrow> set kept \<subseteq> set ss \<and> length kept \<le> length ss"
proof (induction ss arbitrary: kept)
  case (Cons s ss)
  from Cons.prems obtain b ks where ks: "not_revoked revoked ss = Inr ks" "kept = (if b then ks else s # ks)"
    by (auto simp: rbind_Inr_iff)
  from Cons.IH [OF ks(1)] show ?case by (cases b) (auto simp: ks(2))
qed simp

lemma catalog_verified:
  assumes "hex_lib_ok L" "poseidon_32 L" "length ats \<le> 50"
    and "rmap (verifySignedExternalAttestation L (Some keys)) ats = Inr sgd" "not_revoked revoked sgd = Inr verified"
    and "rmap (\<lambda>s. proofExternalAttestationLeaf L (sa_commitment s)) verified = Inr leaves"
    and "buildProofFixedMerkleRoot L leaves = Inr root" "catalog_entries L leaves verified = Inr es"
  shows "\<forall>s \<in> set verified. verifySignedExternalAttestation L None s = Inr s" "list_all commitment_ok leaves"
    "length leaves \<le> 50" "commitment_ok root"
proof -
  show v: "\<forall>s \<in> set verified. verifySignedExternalAttestation L None s = Inr s"
    using rmap_verify [OF assms(4)] not_revoked_kept [OF assms(5)] by (auto simp: verify_trusted)
  show leaves: "list_all commitment_ok leaves" by (rule catalog_leaves_ok [OF assms(1,2,6) v])
  show len: "length leaves \<le> 50"
    using rmap_length [OF assms(6)] not_revoked_kept [OF assms(5)] rmap_length [OF assms(4)] assms(3) by simp
  note level = fixed_level_total [OF assms(1) leaves]
  have "commitment_ok (tree_root (proof_node L) 6 (canonical_tree L leaves))"
    by (rule tree_root_all [where P = commitment_ok, OF _ level(2,3)]) (use proofMerkleNode_total [OF assms(2)] in blast)
  with fixed_root_total [OF assms(1,2) len leaves] assms(7) show "commitment_ok root" by simp
qed

lemma package_opens:
  assumes "hex_lib_ok L" "poseidon_32 L" "buildExternalAttestationCatalog L ats keys revoked = Inr cat"
    and "uuidV7Schema agreement_id" "bigint (ac_root cat) \<noteq> 0"
    and "i < length (ac_entries cat)" "ea_factMask (sa_attestation (ce_signed (ac_entries cat ! i))) = 7"
  shows "\<exists>p. createExternalAttestationProofPackage L agreement_id cat (int i) = Inr p
    \<and> pp_signed p = ce_signed (ac_entries cat ! i) \<and> pp_catalogRoot p = ac_root cat
    \<and> openExternalAttestationProofPackage L p = Inr p"
  using assms(3)
proof (rule catalog_stages)
  fix sgd verified leaves
  assume v: "length ats \<le> 50" "rmap (verifySignedExternalAttestation L (Some keys)) ats = Inr sgd"
    "not_revoked revoked sgd = Inr verified"
    "rmap (\<lambda>s. proofExternalAttestationLeaf L (sa_commitment s)) verified = Inr leaves"
    "buildProofFixedMerkleRoot L leaves = Inr (ac_root cat)" "catalog_entries L leaves verified = Inr (ac_entries cat)"
  note stages = catalog_verified [OF assms(1,2) v]
  have i: "i < length verified" "length leaves = length verified"
    using assms(6) catalog_entries_signed [OF v(6)] rmap_length [OF v(4)] by (metis length_map)+
  obtain ss where ss: "buildProofFixedMerkleMembership L leaves i
      = Inr \<lparr>op_siblings = ss, op_pathBits = map (\<lambda>j. odd (i div 2 ^ j)) [0..<6],
             mb_root = tree_root (proof_node L) 6 (canonical_tree L leaves), mb_leaf = canonical_tree L leaves ! i\<rparr>"
    "length ss = 6" "list_all commitment_ok ss"
    "proof_merkle_membership (proof_node L) (canonical_tree L leaves ! i) ss (map (\<lambda>j. odd (i div 2 ^ j)) [0..<6])
      = tree_root (proof_node L) 6 (canonical_tree L leaves)"
    using opening_total [OF assms(1,2) stages(3,2), of i] i by (auto simp: list_all_iff)
  define bits where "bits = map (\<lambda>j. odd (i div 2 ^ j)) [0..<6]"
  have entry: "ac_entries cat ! i = \<lparr>ce_signed = verified ! i, ce_leaf = canonical_tree L leaves ! i, ce_siblings = ss, ce_pathBits = bits\<rparr>"
    using catalog_entry [OF v(6) i(1)] ss(1) by (simp add: bits_def)
  have sgd: "verifySignedExternalAttestation L None (verified ! i) = Inr (verified ! i)"
    using stages(1) i(1) by simp
  have leaf: "proofExternalAttestationLeaf L (sa_commitment (verified ! i)) = Inr (leaves ! i)" "commitment_ok (leaves ! i)"
    using v(4) stages(2) i by (simp_all add: rmap_Inr_iff list_all2_conv_all_nth list_all_length)
  have "bigint (canonical_tree L leaves ! i) = bigint (leaves ! i)"
    using i stages(3) canonical_leaf_total [OF assms(1) leaf(2)] by (simp add: canonical_tree_def nth_padded)
  from membership_number [OF this, of L ss bits] ss(4)
  have root: "bigint (proof_merkle_membership (proof_node L) (leaves ! i) ss bits) = bigint (ac_root cat)"
    using fixed_root_total [OF assms(1,2) stages(3,2)] v(5) by (simp add: bits_def)
  define p where "p = \<lparr>pp_agreementId = agreement_id, pp_catalogRoot = ac_root cat, pp_signed = verified ! i,
      pp_siblings = ss, pp_pathBits = bits\<rparr>"
  have schema: "externalAttestationProofPackageSchema L p"
    using assms(4,5) ss(2,3) stages(4) verify_schema [OF sgd] by (simp add: externalAttestationProofPackageSchema_def p_def bits_def)
  have "openExternalAttestationProofPackage L p = Inr p"
    using schema sgd leaf open_path_total [OF assms(2) leaf(2) ss(3), of bits] root assms(7) entry
    by (simp add: openExternalAttestationProofPackage_def PAYO_EXTERNAL_ATTESTATION_ALL_FACTS_def p_def open_path_def)
  with schema entry assms(6) show ?thesis
    by (simp add: createExternalAttestationProofPackage_def Let_def p_def)
qed

text \<open>C36: A package made from a catalog opens.  For every entry of a built catalog that attests all facts, a
  UUIDv7 agreement identifier and a root other than zero, creating the package succeeds, carries that
  signed attestation and the catalog's root, and opening it verifies the signature again, folds the leaf
  along the stored path back to the root, and returns the package unchanged.\<close>

theorem attestation_package_opens:
  assumes "hex_lib_ok L" "poseidon_32 L" "buildExternalAttestationCatalog L ats keys revoked = Inr cat"
    and "uuidV7Schema agreement_id" "bigint (ac_root cat) \<noteq> 0"
    and "i < length (ac_entries cat)" "ea_factMask (sa_attestation (ce_signed (ac_entries cat ! i))) = 7"
  shows "\<exists>p. createExternalAttestationProofPackage L agreement_id cat (int i) = Inr p
    \<and> pp_signed p = ce_signed (ac_entries cat ! i) \<and> pp_catalogRoot p = ac_root cat
    \<and> openExternalAttestationProofPackage L p = Inr p"
  using assms by (rule package_opens)

section \<open>Only the catalog opens\<close>

text \<open>The hashes of a path and of a leaf, as functions of numbers.\<close>

definition node_number :: "lib \<Rightarrow> int \<Rightarrow> int \<Rightarrow> int" where
  "node_number L a b = bigint (projr (proofHash L PAYO_PROOF_DOMAIN_MERKLE_NODE [a, b]))"

definition leaf_number :: "lib \<Rightarrow> string \<Rightarrow> int" where
  "leaf_number L c = bigint (projr (proofExternalAttestationLeaf L c))"

lemma proof_node_bigint: "bigint (proof_node L l r) = node_number L (bigint l) (bigint r)"
  by (simp add: proof_node_def node_number_def proofMerkleNode_def)

definition catalog_numbers :: "lib \<Rightarrow> attestation_catalog \<Rightarrow> int list" where
  "catalog_numbers L cat =
     padded 64 (bigint PAYO_PROOF_EMPTY_LEAF) (map (\<lambda>e. leaf_number L (sa_commitment (ce_signed e))) (ac_entries cat))"

lemma canonical_tree_numbers:
  assumes "hex_lib_ok L" "list_all commitment_ok leaves"
  shows "map bigint (canonical_tree L leaves) = padded 64 (bigint PAYO_PROOF_EMPTY_LEAF) (map bigint leaves)"
  using canonical_leaf_total [OF assms(1)] assms(2)
  by (intro nth_equalityI) (simp_all add: canonical_tree_def nth_padded list_all_length)

lemma catalog_root_numbers:
  assumes "hex_lib_ok L" "poseidon_32 L" "buildExternalAttestationCatalog L ats keys revoked = Inr cat"
  shows "bigint (ac_root cat) = tree_root (node_number L) 6 (catalog_numbers L cat) \<and> length (ac_entries cat) \<le> 50"
  using assms(3)
proof (rule catalog_stages)
  fix sgd verified leaves
  assume v: "length ats \<le> 50" "rmap (verifySignedExternalAttestation L (Some keys)) ats = Inr sgd"
    "not_revoked revoked sgd = Inr verified"
    "rmap (\<lambda>s. proofExternalAttestationLeaf L (sa_commitment s)) verified = Inr leaves"
    "buildProofFixedMerkleRoot L leaves = Inr (ac_root cat)" "catalog_entries L leaves verified = Inr (ac_entries cat)"
  note stages = catalog_verified [OF assms(1,2) v]
  have "map bigint leaves = map (\<lambda>s. leaf_number L (sa_commitment s)) verified"
    using v(4) by (auto simp: rmap_Inr_iff list_all2_conv_all_nth leaf_number_def intro!: nth_equalityI)
  then have "map bigint leaves = map (\<lambda>e. leaf_number L (sa_commitment (ce_signed e))) (ac_entries cat)"
    by (simp add: catalog_entries_signed [OF v(6), symmetric])
  then have numbers: "map bigint (canonical_tree L leaves) = catalog_numbers L cat"
    using canonical_tree_numbers [OF assms(1) stages(2)] by (simp add: catalog_numbers_def)
  have "bigint (tree_root (proof_node L) 6 (canonical_tree L leaves)) = tree_root (node_number L) 6 (map bigint (canonical_tree L leaves))"
    by (rule tree_root_map [of bigint "proof_node L" "node_number L", OF proof_node_bigint]) (simp add: canonical_tree_def)
  with numbers fixed_root_total [OF assms(1,2) stages(3,2)] v(5) stages(3) rmap_length [OF v(4)] catalog_entries_signed [OF v(6)]
  show ?thesis by (metis length_map sum.inject(2))
qed

text \<open>C26: Only what the catalog contains can be opened against its root.  When a package opens and its root is
  the root of a built catalog, its commitment is the commitment of an entry, as a number; or else a named
  failure of Poseidon2 is at hand: the leaf of its commitment is the constant empty leaf, or equals the
  leaf of an entry with another commitment, or two different pairs of children, one on the package's path
  and one in the catalog's tree, have the same parent.\<close>

theorem opened_attestation_catalogued:
  assumes "hex_lib_ok L" "poseidon_32 L" "buildExternalAttestationCatalog L ats keys revoked = Inr cat"
    and "openExternalAttestationProofPackage L p = Inr q" "bigint (pp_catalogRoot p) = bigint (ac_root cat)"
    and "c = sa_commitment (pp_signed p)"
  shows "(\<exists>e \<in> set (ac_entries cat). bigint (sa_commitment (ce_signed e)) = bigint c)
    \<or> leaf_number L c = bigint PAYO_PROOF_EMPTY_LEAF
    \<or> (\<exists>e \<in> set (ac_entries cat). bigint (sa_commitment (ce_signed e)) \<noteq> bigint c
          \<and> leaf_number L (sa_commitment (ce_signed e)) = leaf_number L c)
    \<or> (\<exists>u \<in> set (path_pairs (node_number L) (leaf_number L c) (map bigint (pp_siblings p)) (pp_pathBits p)).
        \<exists>v \<in> node_inputs (node_number L) 6 (catalog_numbers L cat).
          u \<noteq> v \<and> node_number L (fst u) (snd u) = node_number L (fst v) (snd v))"
proof -
  have schema: "externalAttestationProofPackageSchema L p" and verified: "verifySignedExternalAttestation L None (pp_signed p) = Inr (pp_signed p)"
    using assms(4) by (auto simp: openExternalAttestationProofPackage_def rbind_Inr_iff dest: verify_same)
  have "commitment_ok c" using schema assms(6)
    by (simp add: externalAttestationProofPackageSchema_def signedExternalAttestationSchema_def)
  then obtain x where x: "proofExternalAttestationLeaf L c = Inr x" "commitment_ok x"
    using attestation_leaf_total [OF assms(1,2)] by blast
  have shape: "length (pp_siblings p) = 6" "list_all commitment_ok (pp_siblings p)" "length (pp_pathBits p) = 6"
    using schema by (simp_all add: externalAttestationProofPackageSchema_def)
  have "bigint (proof_merkle_membership (proof_node L) x (pp_siblings p) (pp_pathBits p)) = bigint (pp_catalogRoot p)"
    using assms(4,6) x(1) schema verified open_path_total [OF assms(2) x(2) shape(2), of "pp_pathBits p"]
    by (auto simp: openExternalAttestationProofPackage_def open_path_def split: if_splits)
  then have root: "proof_merkle_membership (node_number L) (leaf_number L c) (map bigint (pp_siblings p)) (pp_pathBits p)
      = tree_root (node_number L) 6 (catalog_numbers L cat)"
    using membership_map [of bigint "proof_node L" "node_number L", OF proof_node_bigint] assms(5)
      catalog_root_numbers [OF assms(1-3)] x(1) by (simp add: leaf_number_def)
  have "path_index (pp_pathBits p) < 64" using path_index_lt [of "pp_pathBits p"] shape(3) by simp
  then have leaf: "catalog_numbers L cat ! path_index (pp_pathBits p) = bigint PAYO_PROOF_EMPTY_LEAF
      \<or> (\<exists>e \<in> set (ac_entries cat). catalog_numbers L cat ! path_index (pp_pathBits p) = leaf_number L (sa_commitment (ce_signed e)))"
    by (auto simp: catalog_numbers_def nth_padded)
  have "length (catalog_numbers L cat) = 2 ^ 6" by (simp add: catalog_numbers_def)
  from path_binding [OF this _ shape(3) root] shape(1) leaf show ?thesis by (simp del: path_pairs.simps node_inputs.simps) metis
qed

section \<open>An example\<close>

lemma attestation_commitment_total:
  assumes "hex_lib_ok L" "keccak_32 L" "externalAttestationSchema L a"
  shows "\<exists>c. externalAttestationCommitment L a = Inr c \<and> commitment_ok c"
proof -
  have "\<forall>f \<in> set (attestation_fields L a). \<exists>bs. f = Inr bs"
  proof -
    have hex: "\<exists>bs. normalizedHexBytes L s (Some 32) = Inr bs" if "commitment_ok s" for s
      using leaf_bytes_commitment [OF assms(1) that] by blast
    have num: "\<exists>bs. encodeUint v n = Inr bs" if "0 \<le> v" "v < 256 ^ n" for v n using encodeUint_total that by blast
    have key: "\<exists>bs. fromBase64 (ea_issuerPublicKey a) = Inr bs"
      using assms(3) by (auto simp: externalAttestationSchema_def base64Bytes_def split: sum.splits)
    show ?thesis
      using assms(3) key
      by (auto simp: attestation_fields_def externalAttestationSchema_def u64StringSchema_def push_bit_eq_mult intro!: hex num)
  qed
  then have "rmap (\<lambda>f. f) (attestation_fields L a) = Inr (map projr (attestation_fields L a))"
    by (intro rmap_total) force
  then show ?thesis using assms
    by (simp add: externalAttestationCommitment_def keccak_32_def toHex_commitment_ok)
qed

lemma sign_verifies:
  assumes "hex_lib_ok L" "keccak_32 L" "signatures_ok L"
    and "length sk = 32" "ed25519_getPublicKey L sk = Inr pk" "externalAttestationSchema L (a\<lparr>ea_issuerPublicKey := toBase64 pk\<rparr>)"
  shows "\<exists>s. signExternalAttestation L a sk = Inr s \<and> verifySignedExternalAttestation L None s = Inr s
    \<and> sa_attestation s = a\<lparr>ea_issuerPublicKey := toBase64 pk\<rparr>"
proof -
  let ?a = "a\<lparr>ea_issuerPublicKey := toBase64 pk\<rparr>"
  obtain c where c: "externalAttestationCommitment L ?a = Inr c" "commitment_ok c"
    using attestation_commitment_total [OF assms(1,2,6)] by blast
  obtain m where m: "normalizedHexBytes L c (Some 32) = Inr m" using leaf_bytes_commitment [OF assms(1) c(2)] by blast
  obtain sg where sg: "ed25519_sign L m sk = Inr sg" "length sg = 64" "ed25519_verify L sg m pk"
    by (rule signatures_okE [OF assms(3,4)]) (metis assms(5) sum.inject(2))
  let ?s = "\<lparr>sa_attestation = ?a, sa_commitment = c, sa_signature = toBase64 sg\<rparr>"
  have "base64Bytes 64 (sa_signature ?s)" using sg(2) toBase64_size by (simp add: base64Bytes_def fromBase64_toBase64)
  then have "verifySignedExternalAttestation L None ?s = Inr ?s"
    using c m sg(3) assms(6)
    by (simp add: verifySignedExternalAttestation_def signedExternalAttestationSchema_def fromBase64_toBase64)
  moreover have "signExternalAttestation L a sk = Inr ?s" using c m sg(1) assms(5,6) by (simp add: signExternalAttestation_def)
  ultimately show ?thesis by simp
qed

lemma single_catalog:
  assumes "hex_lib_ok L" "poseidon_32 L" "verifySignedExternalAttestation L None s = Inr s"
  shows "\<exists>cat. buildExternalAttestationCatalog L [s] [ea_issuerPublicKey (sa_attestation s)] None = Inr cat
    \<and> map ce_signed (ac_entries cat) = [s]"
proof -
  have "commitment_ok (sa_commitment s)"
    using verify_schema [OF assms(3)] by (simp add: signedExternalAttestationSchema_def)
  then obtain x where x: "proofExternalAttestationLeaf L (sa_commitment s) = Inr x" "list_all commitment_ok [x]"
    using attestation_leaf_total [OF assms(1,2)] by auto
  have "verifySignedExternalAttestation L (Some [ea_issuerPublicKey (sa_attestation s)]) s = Inr s"
    using assms(3) by (simp add: verify_trusted)
  then show ?thesis
    using x opening_total [OF assms(1,2) _ x(2), of 0] fixed_root_total [OF assms(1,2) _ x(2)]
    by (auto simp: buildExternalAttestationCatalog_def is_revoked_def catalog_entries_def Let_def)
qed

definition example_attestation :: external_attestation where
  "example_attestation = \<lparr>ea_issuerPublicKey = toBase64 (ref_digest (replicate 32 7)),
     ea_subjectCommitment = ''0x'' @ replicate 64 (CHR ''1''), ea_factMask = 7, ea_jurisdictionCode = ''GB'',
     ea_jurisdictionCommitment = toHex ref_lib (keccak_256 ref_lib (utf8 ''PAYO_JURISDICTION_V1GB'')),
     ea_policyRoot = ''0x'' @ replicate 64 (CHR ''2''), ea_statusCommitment = PAYO_EXTERNAL_ATTESTATION_ACTIVE_STATUS ref_lib,
     ea_validFrom = ''1'', ea_validUntil = ''100'', ea_nonce = ''0x'' @ replicate 64 (CHR ''5'')\<rparr>"

lemma example_attestation_ok: "externalAttestationSchema ref_lib example_attestation"
proof -
  have facts: "jurisdiction_ok ''GB''" "commitment_ok (''0x'' @ replicate 64 (CHR ''1''))"
    "commitment_ok (''0x'' @ replicate 64 (CHR ''2''))" "commitment_ok (''0x'' @ replicate 64 (CHR ''5''))"
    "canonical_dec ''1''" "canonical_dec ''100''" "bigint ''1'' = 1" "bigint ''100'' = 100"
    "bigint (''0x'' @ replicate 64 (CHR ''1'')) \<noteq> 0" "bigint (''0x'' @ replicate 64 (CHR ''2'')) \<noteq> 0"
    "bigint (''0x'' @ replicate 64 (CHR ''5'')) \<noteq> 0" by code_simp+
  have digest: "commitment_ok (toHex ref_lib (keccak_256 ref_lib bs))" for bs
    using ref_lib_keccak by (intro toHex_commitment_ok) (simp_all add: keccak_32_def)
  have key: "base64Bytes 32 (toBase64 (ref_digest sk))" for sk
    using toBase64_size [of "ref_digest sk"] by (simp add: base64Bytes_def fromBase64_toBase64 ref_digest_def)
  have "jurisdictionCommitment ref_lib ''GB'' = Inr (toHex ref_lib (keccak_256 ref_lib (utf8 ''PAYO_JURISDICTION_V1GB'')))"
    using facts(1) by (simp add: jurisdictionCommitment_def concatBytes_concat utf8_def)
  then show ?thesis
    using facts digest key
    by (simp add: externalAttestationSchema_def example_attestation_def PAYO_EXTERNAL_ATTESTATION_ACTIVE_STATUS_def u64StringSchema_def)
qed

lemma example_signed:
  "\<exists>s. verifySignedExternalAttestation ref_lib None s = Inr s \<and> sa_attestation s = example_attestation"
  using sign_verifies [OF ref_lib_hex ref_lib_keccak ref_lib_signatures, where a = example_attestation and sk = "replicate 32 7"
      and pk = "ref_digest (replicate 32 7)"] example_attestation_ok
  by (auto simp: example_attestation_def ref_lib_def ref_secret_def)

text \<open>Under the reference library the root of a tree is its last leaf, reduced.\<close>

lemma ref_node_number:
  assumes "0 \<le> a" "a < 2 ^ 256" "0 \<le> b" "b < 2 ^ 256"
  shows "node_number ref_lib a b = b mod 2 ^ 250"
proof -
  obtain p where p: "proof_inputs PAYO_PROOF_DOMAIN_MERKLE_NODE [a, b] = Inr p"
    using proof_inputs_total [of PAYO_PROOF_DOMAIN_MERKLE_NODE "[a, b]"] assms by (auto simp: PAYO_PROOF_DOMAIN_MERKLE_NODE_def)
  then obtain u v w where "p = [u, v, w]" "fieldBytes b = Inr w"
    by (auto simp: proof_inputs_def rbind_Inr_iff)
  moreover from this fieldBytes_Inr have w: "length w = 32" "decodeUint w = b" by blast+
  moreover have "(x * 256 ^ 32 + b) mod 2 ^ 250 = b mod 2 ^ 250" for x
  proof -
    have "x * 256 ^ 32 + b = b + x * 2 ^ 6 * 2 ^ 250" by simp
    then show ?thesis by (simp only: mod_mult_self1)
  qed
  moreover have "decodeUint (concat p) = decodeUint (u @ v) * 256 ^ 32 + b"
    using calculation(1) w decodeUint_append [of "u @ v" w] by simp
  ultimately have "decodeUint (ref_digest (concat p)) = b mod 2 ^ 250" by (simp only: ref_digest_value)
  then show ?thesis using p by (simp add: node_number_def proofHash_def paddedField_ref bigint_toHex) (simp add: ref_lib_def)
qed

lemma last_tree_root:
  fixes f :: "int \<Rightarrow> int \<Rightarrow> int"
  assumes "\<And>a b. 0 \<le> a \<Longrightarrow> a < n \<Longrightarrow> 0 \<le> b \<Longrightarrow> b < n \<Longrightarrow> f a b = b mod m" "0 < m" "m \<le> n"
    and "length xs = 2 ^ d" "\<forall>x \<in> set xs. 0 \<le> x \<and> x < n"
  shows "tree_root f d xs mod m = last xs mod m \<and> 0 \<le> tree_root f d xs \<and> tree_root f d xs < n"
  using assms(4,5)
proof (induction d arbitrary: xs)
  case 0
  then have "xs = [xs ! 0]" by (cases xs) simp_all
  with 0 show ?case by (metis last.simps list.set_intros(1) tree_root.simps(1))
next
  case (Suc d)
  let ?l = "take (2 ^ d) xs" and ?r = "drop (2 ^ d) xs"
  have len: "length ?l = 2 ^ d" "length ?r = 2 ^ d" "last ?r = last xs" using Suc.prems(1) by (simp_all add: last_drop)
  have l: "0 \<le> tree_root f d ?l" "tree_root f d ?l < n"
    using Suc.IH [OF len(1)] Suc.prems(2) by (auto dest: in_set_takeD)
  have r: "tree_root f d ?r mod m = last xs mod m" "0 \<le> tree_root f d ?r" "tree_root f d ?r < n"
    using Suc.IH [OF len(2)] Suc.prems(2) len(3) by (auto dest: in_set_dropD)
  have "0 \<le> tree_root f d ?r mod m" "tree_root f d ?r mod m < n"
    using assms(2,3) pos_mod_sign [of m "tree_root f d ?r"] less_le_trans [OF pos_mod_bound assms(3), of "tree_root f d ?r"]
    by blast+
  with r assms(1) [OF l r(2,3)] show ?case by simp
qed

lemma leaf_number_range:
  assumes "hex_lib_ok L" "poseidon_32 L" "commitment_ok c"
  shows "0 \<le> leaf_number L c \<and> leaf_number L c < 2 ^ 256"
  using attestation_leaf_total [OF assms] bigint_commitment_lt by (auto simp: leaf_number_def)

lemma ref_catalog_root:
  assumes "buildExternalAttestationCatalog ref_lib ats keys revoked = Inr cat"
    and "\<forall>e \<in> set (ac_entries cat). commitment_ok (sa_commitment (ce_signed e))"
  shows "bigint (ac_root cat) \<noteq> 0"
proof -
  have root: "bigint (ac_root cat) = tree_root (node_number ref_lib) 6 (catalog_numbers ref_lib cat)"
    "length (ac_entries cat) \<le> 50"
    using catalog_root_numbers [OF ref_lib_hex ref_lib_poseidon assms(1)] by simp_all
  have empty: "0 \<le> bigint PAYO_PROOF_EMPTY_LEAF \<and> bigint PAYO_PROOF_EMPTY_LEAF < 2 ^ 256"
    using bigint_commitment_lt [OF empty_leaf_ok] by simp
  have len: "length (catalog_numbers ref_lib cat) = 2 ^ 6" by (simp add: catalog_numbers_def)
  have range: "\<forall>x \<in> set (catalog_numbers ref_lib cat). 0 \<le> x \<and> x < 2 ^ 256"
    unfolding catalog_numbers_def
    by (rule padded_all) (use empty leaf_number_range [OF ref_lib_hex ref_lib_poseidon] assms(2) in \<open>auto simp: list_all_iff\<close>)
  have sizes: "(0::int) < 2 ^ 250" "(2::int) ^ 250 \<le> 2 ^ 256" by simp_all
  have "bigint (ac_root cat) mod 2 ^ 250 = last (catalog_numbers ref_lib cat) mod 2 ^ 250"
    unfolding root(1)
    by (rule last_tree_root [of "2 ^ 256" "node_number ref_lib" "2 ^ 250", OF ref_node_number sizes len range, THEN conjunct1])
  moreover have "last (catalog_numbers ref_lib cat) = bigint PAYO_PROOF_EMPTY_LEAF"
    using root(2) by (simp add: catalog_numbers_def padded_short)
  moreover have "bigint PAYO_PROOF_EMPTY_LEAF mod 2 ^ 250 \<noteq> 0" by code_simp
  ultimately show ?thesis by auto
qed

lemma example_catalog:
  "\<exists>s cat. buildExternalAttestationCatalog ref_lib [s] [ea_issuerPublicKey (sa_attestation s)] None = Inr cat
     \<and> map ce_signed (ac_entries cat) = [s] \<and> sa_attestation s = example_attestation \<and> bigint (ac_root cat) \<noteq> 0
     \<and> verifySignedExternalAttestation ref_lib None s = Inr s"
proof -
  obtain s where s: "verifySignedExternalAttestation ref_lib None s = Inr s" "sa_attestation s = example_attestation"
    using example_signed by blast
  obtain cat where cat: "buildExternalAttestationCatalog ref_lib [s] [ea_issuerPublicKey (sa_attestation s)] None = Inr cat"
    "map ce_signed (ac_entries cat) = [s]" using single_catalog [OF ref_lib_hex ref_lib_poseidon s(1)] by (elim exE conjE)
  have "commitment_ok (sa_commitment s)" using verify_schema [OF s(1)] by (simp add: signedExternalAttestationSchema_def)
  then have "\<forall>e \<in> set (ac_entries cat). commitment_ok (sa_commitment (ce_signed e))" using cat(2) by auto
  from ref_catalog_root [OF cat(1) this] cat s show ?thesis by metis
qed

definition example_agreement_id :: string where
  "example_agreement_id = ''01890a5d-ac96-774b-bcce-b302099a8057''"

lemma example_agreement_id_ok: "uuidV7Schema example_agreement_id"
  by code_simp

theorem attestation_usable_iff_witness:
  "\<exists>s. assertExternalAttestationUsable ref_lib \<lparr>uo_subjectCommitment = ''0x'' @ replicate 64 (CHR ''1''),
       uo_policyRoot = ''0x'' @ replicate 64 (CHR ''2''), uo_requiredFactMask = 5, uo_at = 100,
       uo_revokedNonces = Some [''0x'' @ replicate 64 (CHR ''6'')]\<rparr> s = Inr s"
proof -
  obtain s where s: "verifySignedExternalAttestation ref_lib None s = Inr s" "sa_attestation s = example_attestation"
    using example_signed by blast
  have ok: "commitment_ok (''0x'' @ replicate 64 (CHR ''1''))" "commitment_ok (''0x'' @ replicate 64 (CHR ''2''))"
    "commitment_ok (''0x'' @ replicate 64 (CHR ''6''))" by code_simp+
  have nonce: "bigint (''0x'' @ replicate 64 (CHR ''5'')) \<noteq> bigint (''0x'' @ replicate 64 (CHR ''6''))"
    "bigint ''1'' = 1" "bigint ''100'' = 100" by code_simp+
  have "\<forall>i. bit (5::int) i \<longrightarrow> bit (7::int) i" unfolding mask_covers [symmetric] by simp
  with s ok nonce show ?thesis
    by (intro exI [of _ s], subst attestation_usable_iff) (simp_all add: example_attestation_def revoked_in_def)
qed

theorem attestation_catalog_exact_witness:
  "\<exists>s cat. buildExternalAttestationCatalog ref_lib [s] [ea_issuerPublicKey (sa_attestation s)] None = Inr cat
     \<and> map ce_signed (ac_entries cat) = [s]"
proof -
  obtain s cat where cat: "buildExternalAttestationCatalog ref_lib [s] [ea_issuerPublicKey (sa_attestation s)] None = Inr cat"
    using example_catalog by metis
  from attestation_catalog_exact [OF this] have "map ce_signed (ac_entries cat) = [s]" by (simp add: revoked_in_def)
  with cat show ?thesis by metis
qed

theorem attestation_package_opens_witness:
  "\<exists>s cat p. buildExternalAttestationCatalog ref_lib [s] [ea_issuerPublicKey (sa_attestation s)] None = Inr cat
     \<and> createExternalAttestationProofPackage ref_lib example_agreement_id cat 0 = Inr p
     \<and> openExternalAttestationProofPackage ref_lib p = Inr p"
proof -
  obtain s cat where cat: "buildExternalAttestationCatalog ref_lib [s] [ea_issuerPublicKey (sa_attestation s)] None = Inr cat"
    "map ce_signed (ac_entries cat) = [s]" "sa_attestation s = example_attestation" "bigint (ac_root cat) \<noteq> 0"
    using example_catalog by metis
  from cat(2,3) have "0 < length (ac_entries cat)" "ea_factMask (sa_attestation (ce_signed (ac_entries cat ! 0))) = 7"
    by (auto simp: example_attestation_def)
  from attestation_package_opens [OF ref_lib_hex ref_lib_poseidon cat(1) example_agreement_id_ok cat(4) this] cat(1)
  show ?thesis by auto
qed

theorem opened_attestation_catalogued_witness:
  "\<exists>s cat p. buildExternalAttestationCatalog ref_lib [s] [ea_issuerPublicKey (sa_attestation s)] None = Inr cat
     \<and> openExternalAttestationProofPackage ref_lib p = Inr p \<and> bigint (pp_catalogRoot p) = bigint (ac_root cat)
     \<and> map ce_signed (ac_entries cat) = [s] \<and> bigint (sa_commitment s) = bigint (sa_commitment (pp_signed p))"
proof -
  obtain s cat where cat: "buildExternalAttestationCatalog ref_lib [s] [ea_issuerPublicKey (sa_attestation s)] None = Inr cat"
    "map ce_signed (ac_entries cat) = [s]" "sa_attestation s = example_attestation" "bigint (ac_root cat) \<noteq> 0"
    using example_catalog by metis
  from cat(2,3) have entry: "0 < length (ac_entries cat)" "ea_factMask (sa_attestation (ce_signed (ac_entries cat ! 0))) = 7"
    "ce_signed (ac_entries cat ! 0) = s" by (auto simp: example_attestation_def)
  from package_opens [OF ref_lib_hex ref_lib_poseidon cat(1) example_agreement_id_ok cat(4) entry(1,2)] obtain p where
    p: "pp_signed p = s" "pp_catalogRoot p = ac_root cat" "openExternalAttestationProofPackage ref_lib p = Inr p"
    using entry(3) by auto
  have member: "\<exists>e \<in> set (ac_entries cat). bigint (sa_commitment (ce_signed e)) = bigint (sa_commitment (pp_signed p))"
    using cat(2) p(1) entry(1,3) nth_mem by metis
  have "bigint (pp_catalogRoot p) = bigint (ac_root cat)" using p(2) by simp
  from opened_attestation_catalogued [OF ref_lib_hex ref_lib_poseidon cat(1) p(3) this refl] member
  have "\<exists>e \<in> set (ac_entries cat). bigint (sa_commitment (ce_signed e)) = bigint (sa_commitment (pp_signed p))" by blast
  with cat(1,2) p show ?thesis by metis
qed

end
