(* ===== verification/Payroll_Inputs.thy ===== *)
theory Payroll_Inputs
  imports Policy_Engine Proof_Commitments Fx Js_BigInt
begin

text \<open>
  Model of \<open>lib/proof/input-builder.ts\<close>: how a payroll run becomes the inputs of the PayrollIntegrity
  circuit.  Every line is calculated, checked against its policy, its classification, its window and its
  currency floor, committed twice (the agreement and the paid line), and the two trees are cut into the
  two shards the circuit proves.  A circuit value is its decimal text, a byte array a list of bytes;
  \<open>localeCompare\<close> orders the sources of a snapshot and is the host's.
\<close>

section \<open>What a run is built from\<close>

definition ZERO :: string where
  "ZERO = ''0x'' @ concat (replicate 32 ''00'')"

definition MAX_LINES :: nat where "MAX_LINES = 50"

definition PAYO_NET_INVOICE_POLICY :: policy_pack where
  "PAYO_NET_INVOICE_POLICY =
     \<lparr>pk_id = ''payo-net-invoice-no-withholding-v1'', pk_revision = 1, pk_jurisdictionCode = ''US'',
      pk_appliesTo = [Contractor, Agent_service], pk_effectiveFrom = ''2026-01-01'', pk_effectiveUntil = ''2027-12-31'',
      pk_sourceUri = ''https://github.com/Tutulii/private-payroll/blob/main/docs/policies/net-invoice-v1.md'',
      pk_instructions = [I_CONST ''no_withholding'' ''0''],
      pk_outputs = [(''statutoryWithholding'', ''no_withholding'')]\<rparr>"

record final_pay_input =
  fin_requiredMask :: int
  fin_includedMask :: int
  fin_componentsAtomic :: "string list"

record line_input =
  li_agreementId :: string
  li_recipientAddress :: string
  li_recipientSalt :: string
  li_agreementSalt :: string
  li_lineSalt :: string
  li_token :: token
  li_earningsAtomic :: "string list"
  li_deductionsAtomic :: "string list"
  li_policyId :: string
  li_scheduleCommitment :: string
  li_dueAt :: int
  li_validUntil :: int
  li_declared :: int
  li_score :: int
  li_employeeThreshold :: int
  li_finalPay :: "final_pay_input option"
  li_fxFloorAtomic :: "string option"
  li_referenceCurrency :: reference_currency

fun reference_currency_name :: "reference_currency \<Rightarrow> string" where
  "reference_currency_name USD = ''USD''"
| "reference_currency_name GBP = ''GBP''"

section \<open>What the circuit reads\<close>

record agreement_witness =
  aw_enabled :: bool
  aw_id_commitment :: "byte list"
  aw_recipient_commitment :: "byte list"
  aw_earnings :: "string list"
  aw_earnings_count :: string
  aw_token :: string
  aw_policy_commitment :: "byte list"
  aw_schedule_commitment :: "byte list"
  aw_due_at :: string
  aw_valid_until :: string
  aw_classification_declared :: string
  aw_classification_score :: string
  aw_classification_employee_threshold :: string
  aw_final_pay_mode :: bool
  aw_final_required_mask :: string
  aw_final_components :: "string list"
  aw_fx_floor_atomic :: string
  aw_reference_currency :: string
  aw_salt :: "byte list"

record line_witness =
  lw_active :: bool
  lw_deductions :: "string list"
  lw_deductions_count :: string
  lw_policy_slot :: string
  lw_fx_slot :: string
  lw_salt :: "byte list"
  lw_classification_treatment :: string
  lw_final_included_mask :: string
  lw_reference_value_atomic :: string

record snapshot_witness =
  sw_token :: string
  sw_token_decimals :: string
  sw_reference_currency :: string
  sw_quote_decimals :: string
  sw_feed_commitment :: "byte list"
  sw_sources_commitment :: "byte list"
  sw_price_numerator :: string
  sw_price_denominator :: string
  sw_observed_at :: string
  sw_source_count :: string
  sw_minimum_source_count :: string
  sw_maximum_age_seconds :: string
  sw_haircut_bps :: string

record merkle_witness =
  mw_siblings :: "string list"
  mw_path_bits :: "bool list"

record program_witness =
  gw_metadata_commitment :: "byte list"
  gw_instruction_count :: string
  gw_opcodes :: "string list"
  gw_left :: "string list"
  gw_right :: "string list"
  gw_immediate :: "string list"
  gw_numerator :: "string list"
  gw_denominator :: "string list"
  gw_output_register :: string

record policy_slot_witness =
  ps_enabled :: bool
  ps_program :: program_witness
  ps_membership :: merkle_witness

record fx_slot_witness =
  fs_enabled :: bool
  fs_snapshot :: snapshot_witness
  fs_membership :: merkle_witness

section \<open>Helpers\<close>

definition bytes32 :: "lib \<Rightarrow> string \<Rightarrow> byte list result" where
  "bytes32 L value = normalizedHexBytes L value (Some 32)"

definition root_limbs :: "lib \<Rightarrow> string \<Rightarrow> (string \<times> string) result" where
  "root_limbs L root = rbind (splitHashToU128 L root) (\<lambda>(high, low). Inr (toString high, toString low))"

definition boundedUnsigned :: "int \<Rightarrow> nat \<Rightarrow> string \<Rightarrow> string result" where
  "boundedUnsigned value bits label =
     (if value < 0 \<or> push_bit bits 1 \<le> value
      then Inl (Thrown (label @ '' does not fit in u'' @ toString (int bits) @ ''.'')) else Inr (toString value))"

text \<open>The bytes of \<open>ZERO\<close>, which \<open>bytes32\<close> gives the empty slots.\<close>

definition zero_bytes :: "byte list" where "zero_bytes = replicate 32 0"

definition emptyProgram :: program_witness where
  "emptyProgram = \<lparr>gw_metadata_commitment = zero_bytes, gw_instruction_count = ''0'', gw_opcodes = replicate 16 ''0'',
     gw_left = replicate 16 ''0'', gw_right = replicate 16 ''0'', gw_immediate = replicate 16 ''0'',
     gw_numerator = replicate 16 ''0'', gw_denominator = replicate 16 ''0'', gw_output_register = ''0''\<rparr>"

definition emptyMembership :: merkle_witness where
  "emptyMembership = \<lparr>mw_siblings = replicate 6 ''0'', mw_path_bits = replicate 6 False\<rparr>"

definition emptyAgreement :: agreement_witness where
  "emptyAgreement = \<lparr>aw_enabled = False, aw_id_commitment = zero_bytes, aw_recipient_commitment = zero_bytes,
     aw_earnings = replicate 8 ''0'', aw_earnings_count = ''0'', aw_token = ''0'', aw_policy_commitment = zero_bytes,
     aw_schedule_commitment = zero_bytes, aw_due_at = ''0'', aw_valid_until = ''0'', aw_classification_declared = ''0'',
     aw_classification_score = ''0'', aw_classification_employee_threshold = ''0'', aw_final_pay_mode = False,
     aw_final_required_mask = ''0'', aw_final_components = replicate 5 ''0'', aw_fx_floor_atomic = ''0'',
     aw_reference_currency = ''0'', aw_salt = zero_bytes\<rparr>"

definition emptyLine :: line_witness where
  "emptyLine = \<lparr>lw_active = False, lw_deductions = replicate 8 ''0'', lw_deductions_count = ''0'', lw_policy_slot = ''0'',
     lw_fx_slot = ''0'', lw_salt = zero_bytes, lw_classification_treatment = ''0'', lw_final_included_mask = ''0'',
     lw_reference_value_atomic = ''0''\<rparr>"

definition emptySnapshot :: snapshot_witness where
  "emptySnapshot = \<lparr>sw_token = ''0'', sw_token_decimals = ''0'', sw_reference_currency = ''0'', sw_quote_decimals = ''0'',
     sw_feed_commitment = zero_bytes, sw_sources_commitment = zero_bytes, sw_price_numerator = ''0'',
     sw_price_denominator = ''0'', sw_observed_at = ''0'', sw_source_count = ''0'', sw_minimum_source_count = ''0'',
     sw_maximum_age_seconds = ''0'', sw_haircut_bps = ''0''\<rparr>"

definition pad_to :: "'a list \<Rightarrow> nat \<Rightarrow> 'a \<Rightarrow> 'a list result" where
  "pad_to items len fill =
     (if len < length items
      then Inl (Thrown (''Cannot pad '' @ toString (int (length items)) @ '' values into '' @ toString (int len) @ '' slots.''))
      else Inr (padded len fill items))"

text \<open>\<open>Array.prototype.findIndex\<close>, with no index for -1.\<close>

fun findIndex :: "('a \<Rightarrow> bool) \<Rightarrow> 'a list \<Rightarrow> nat option" where
  "findIndex p [] = None"
| "findIndex p (x # xs) = (if p x then Some 0 else map_option Suc (findIndex p xs))"

section \<open>Policies and agreements\<close>

definition policy_inputs :: "calculated_line \<Rightarrow> string \<rightharpoonup> string" where
  "policy_inputs line =
     foldl (\<lambda>inputs (index, earning). inputs(''earning_'' @ toString (int index) \<mapsto> earning))
       [''gross'' \<mapsto> grossAtomic line, ''taxable_gross'' \<mapsto> grossAtomic line]
       (enumerate 0 (earningsAtomic line))"

definition policyOutput :: "lib \<Rightarrow> policy_pack \<Rightarrow> calculated_line \<Rightarrow> int result" where
  "policyOutput L pack line =
     rbind (evaluatePolicyPack L pack (policy_inputs line)) (\<lambda>evaluated.
     case statutory_output evaluated of
       None \<Rightarrow> Inl (Thrown (''Policy '' @ pk_id pack @ '' has no evaluated deduction output.''))
     | Some output \<Rightarrow> Inr (bigint output))"

record prepared_policy =
  dp_pack :: policy_pack
  dp_compiled :: compiled_program
  dp_commitment :: string

definition prepare_policy :: "lib \<Rightarrow> policy_pack \<Rightarrow> prepared_policy result" where
  "prepare_policy L pack =
     rbind (compilePolicyPack L pack) (\<lambda>compiled.
     rbind (policyPackCommitment L pack) (\<lambda>commitment.
     Inr \<lparr>dp_pack = pack, dp_compiled = compiled, dp_commitment = commitment\<rparr>))"

record prepared_agreement =
  prep_source :: line_input
  prep_calculated :: calculated_line
  prep_idCommitment :: string
  prep_recipientCommitment :: string
  prep_agreementTerms :: string
  prep_policySlot :: nat

definition final_components :: "line_input \<Rightarrow> string list" where
  "final_components line = (case li_finalPay line of None \<Rightarrow> [] | Some f \<Rightarrow> fin_componentsAtomic f)"

definition required_mask :: "line_input \<Rightarrow> int" where
  "required_mask line = (case li_finalPay line of None \<Rightarrow> 0 | Some f \<Rightarrow> fin_requiredMask f)"

definition included_mask :: "line_input \<Rightarrow> int" where
  "included_mask line = (case li_finalPay line of None \<Rightarrow> 0 | Some f \<Rightarrow> fin_includedMask f)"

definition fx_floor :: "line_input \<Rightarrow> string" where
  "fx_floor line = (case li_fxFloorAtomic line of None \<Rightarrow> ''0'' | Some floor \<Rightarrow> floor)"

definition input_line :: "line_input \<Rightarrow> private_line" where
  "input_line line = \<lparr>agreementId = li_agreementId line, recipientAddress = li_recipientAddress line,
     line_token = li_token line, earningsAtomic = li_earningsAtomic line, deductionsAtomic = li_deductionsAtomic line,
     committedPolicyId = li_policyId line, scheduleCommitment = li_scheduleCommitment line, salt = li_lineSalt line\<rparr>"

definition line_terms :: "line_input \<Rightarrow> calculated_line \<Rightarrow> string \<Rightarrow> string \<Rightarrow> string \<Rightarrow> agreement_terms" where
  "line_terms line calculated idCommitment recipientCommitment policyCommitment =
     \<lparr>at_agreementIdCommitment = idCommitment, at_recipientCommitment = recipientCommitment,
      at_earningsAtomic = earningsAtomic calculated, at_token = line_token calculated,
      at_policyCommitment = policyCommitment, at_scheduleCommitment = li_scheduleCommitment line,
      at_dueAt = li_dueAt line, at_validUntil = li_validUntil line,
      at_classificationDeclared = li_declared line, at_classificationScore = li_score line,
      at_classificationEmployeeThreshold = li_employeeThreshold line, at_finalPayMode = (li_finalPay line \<noteq> None),
      at_finalRequiredMask = required_mask line, at_finalComponentsAtomic = final_components line,
      at_fxFloorAtomic = fx_floor line, at_referenceCurrency = li_referenceCurrency line, at_salt = li_agreementSalt line\<rparr>"

definition prepare_line :: "lib \<Rightarrow> prepared_policy list \<Rightarrow> line_input \<Rightarrow> prepared_agreement result" where
  "prepare_line L policyDetails line =
     (case findIndex (\<lambda>p. pk_id (dp_pack p) = li_policyId line) policyDetails of
        None \<Rightarrow> Inl (Thrown (''Agreement '' @ li_agreementId line @ '' selects an unavailable policy.''))
      | Some policySlot \<Rightarrow>
          rbind (calculatePayrollLine (input_line line)) (\<lambda>calculated.
          rbind (policyOutput L (dp_pack (policyDetails ! policySlot)) calculated) (\<lambda>output.
          if output \<noteq> bigint (deductionsTotalAtomic calculated)
          then Inl (Thrown (''Agreement '' @ li_agreementId line @ '' deductions do not match its policy.''))
          else
            let expectedClassification = (if li_employeeThreshold line \<le> li_score line then 1 else 2) in
            if li_employeeThreshold line \<le> 0 \<or> 2 ^ 16 \<le> li_employeeThreshold line
            then Inl (Thrown (''Agreement '' @ li_agreementId line @ '' has an invalid classification threshold.''))
            else if li_declared line \<noteq> expectedClassification
            then Inl (Thrown (''Agreement '' @ li_agreementId line @ '' classification facts do not match its treatment.''))
            else if 5 < length (final_components line)
            then Inl (Thrown ''Final pay supports at most five components.'')
            else
              rbind (hashTextCommitment L ''PAYO_AGREEMENT_ID_V1'' (li_agreementId line)) (\<lambda>ident.
              rbind (hashRecipientCommitment L (li_recipientAddress line) (li_recipientSalt line)) (\<lambda>recipient.
              rbind (proofAgreementCommitment L (line_terms line calculated (toHex L ident) (toHex L recipient)
                (dp_commitment (policyDetails ! policySlot)))) (\<lambda>agreementTerms.
              Inr \<lparr>prep_source = line, prep_calculated = calculated, prep_idCommitment = toHex L ident,
                   prep_recipientCommitment = toHex L recipient, prep_agreementTerms = agreementTerms,
                   prep_policySlot = policySlot\<rparr>))))))"

text \<open>The comparison cannot throw on lines that were calculated.\<close>

definition compare_prepared :: "lib \<Rightarrow> prepared_agreement \<Rightarrow> prepared_agreement \<Rightarrow> int" where
  "compare_prepared L left right =
     (case comparePayrollAgreementIds L (li_agreementId (prep_source left)) (li_agreementId (prep_source right)) of
        Inr n \<Rightarrow> n | Inl _ \<Rightarrow> 0)"

definition prepareAgreementDetails :: "lib \<Rightarrow> line_input list \<Rightarrow> prepared_policy list \<Rightarrow> prepared_agreement list result" where
  "prepareAgreementDetails L lines policyDetails =
     rbind (rmap (prepare_line L policyDetails) lines) (\<lambda>unsorted.
     let prepared = sort_by (compare_prepared L) unsorted in
     if \<exists>index \<in> set [1..<length prepared]. compare_prepared L (prepared ! (index - 1)) (prepared ! index) = 0
     then Inl (Thrown ''Payroll agreement identifiers must be unique.'')
     else Inr prepared)"

definition agreement_witness_of :: "lib \<Rightarrow> prepared_policy list \<Rightarrow> prepared_agreement \<Rightarrow> agreement_witness result" where
  "agreement_witness_of L policyDetails entry =
     (let source = prep_source entry; calculated = prep_calculated entry in
      rbind (bytes32 L (prep_idCommitment entry)) (\<lambda>ident.
      rbind (bytes32 L (prep_recipientCommitment entry)) (\<lambda>recipient.
      rbind (pad_to (earningsAtomic calculated) 8 ''0'') (\<lambda>earnings.
      rbind (bytes32 L (dp_commitment (policyDetails ! prep_policySlot entry))) (\<lambda>policy.
      rbind (bytes32 L (li_scheduleCommitment source)) (\<lambda>schedule.
      rbind (boundedUnsigned (li_dueAt source) 64 ''Agreement due timestamp'') (\<lambda>dueAt.
      rbind (boundedUnsigned (li_validUntil source) 64 ''Agreement expiry timestamp'') (\<lambda>validUntil.
      rbind (pad_to (final_components source) 5 ''0'') (\<lambda>components.
      rbind (bytes32 L (li_agreementSalt source)) (\<lambda>agreementSalt.
      Inr \<lparr>aw_enabled = True, aw_id_commitment = ident, aw_recipient_commitment = recipient, aw_earnings = earnings,
           aw_earnings_count = toString (int (length (earningsAtomic calculated))),
           aw_token = (if line_token calculated = STRK then ''0'' else ''1''),
           aw_policy_commitment = policy, aw_schedule_commitment = schedule, aw_due_at = dueAt, aw_valid_until = validUntil,
           aw_classification_declared = toString (li_declared source), aw_classification_score = toString (li_score source),
           aw_classification_employee_threshold = toString (li_employeeThreshold source),
           aw_final_pay_mode = (li_finalPay source \<noteq> None), aw_final_required_mask = toString (required_mask source),
           aw_final_components = components, aw_fx_floor_atomic = fx_floor source,
           aw_reference_currency = (if li_referenceCurrency source = USD then ''0'' else ''1''),
           aw_salt = agreementSalt\<rparr>))))))))))"

definition buildAgreementWitnesses :: "lib \<Rightarrow> prepared_agreement list \<Rightarrow> prepared_policy list \<Rightarrow> agreement_witness list result" where
  "buildAgreementWitnesses L prepared policyDetails = rmap (agreement_witness_of L policyDetails) prepared"

definition cycleBytes :: "string \<Rightarrow> (byte list \<times> int) result" where
  "cycleBytes cycleId =
     (let encoded = utf8 cycleId in
      if length encoded = 0 \<or> 64 < length encoded then Inl (Thrown ''Cycle ID must contain 1-64 UTF-8 bytes.'')
      else Inr (encoded @ replicate (64 - length encoded) 0, int (length encoded)))"

section \<open>Catalogs and roots\<close>

definition buildPolicyCatalogRoot :: "lib \<Rightarrow> policy_pack list \<Rightarrow> string result" where
  "buildPolicyCatalogRoot L policies =
     (if length policies < 1 \<or> 4 < length policies
      then Inl (Thrown ''A proof policy catalog requires 1-4 policy programs.'')
      else rbind (rmap (policyPackCommitment L) policies) (\<lambda>commitments.
        rbind (buildProofCatalog L commitments) (\<lambda>(root, _). Inr root)))"

record fx_detail =
  fd_snapshot :: fx_snapshot
  fd_circuit :: circuit_fx
  fd_commitment :: string

definition fx_detail_of :: "lib \<Rightarrow> (string \<Rightarrow> string \<Rightarrow> int) \<Rightarrow> fx_snapshot \<Rightarrow> fx_detail result" where
  "fx_detail_of L localeCompare snapshot =
     rbind (toCircuitFxSnapshot L localeCompare snapshot) (\<lambda>circuit.
     rbind (fxSnapshotCommitment L localeCompare snapshot) (\<lambda>commitment.
     Inr \<lparr>fd_snapshot = snapshot, fd_circuit = circuit, fd_commitment = commitment\<rparr>))"

definition buildFxCatalog ::
    "lib \<Rightarrow> (string \<Rightarrow> string \<Rightarrow> int) \<Rightarrow> fx_snapshot list \<Rightarrow> (fx_detail list \<times> string \<times> catalog_membership list) result" where
  "buildFxCatalog L localeCompare snapshots =
     (if length snapshots < 1 \<or> 2 < length snapshots
      then Inl (Thrown ''An FX catalog requires 1-2 snapshots.'')
      else rbind (rmap (fx_detail_of L localeCompare) snapshots) (\<lambda>details.
        rbind (buildProofCatalog L (map fd_commitment details)) (\<lambda>catalog. Inr (details, catalog))))"

definition buildFxCatalogRoot :: "lib \<Rightarrow> (string \<Rightarrow> string \<Rightarrow> int) \<Rightarrow> fx_snapshot list \<Rightarrow> string result" where
  "buildFxCatalogRoot L localeCompare snapshots =
     rbind (buildFxCatalog L localeCompare snapshots) (\<lambda>(details, root, memberships). Inr root)"

definition buildPayrollAgreementRoot :: "lib \<Rightarrow> policy_pack list \<Rightarrow> line_input list \<Rightarrow> string result" where
  "buildPayrollAgreementRoot L policies lines =
     (if length lines < 1 \<or> MAX_LINES < length lines
      then Inl (Thrown ''An obligation root requires 1-50 agreement lines.'')
      else if length policies < 1 \<or> 4 < length policies
      then Inl (Thrown ''An obligation root requires 1-4 policy programs.'')
      else rbind (rmap (prepare_policy L) policies) (\<lambda>policyDetails.
        rbind (prepareAgreementDetails L lines policyDetails) (\<lambda>prepared.
        buildProofFixedMerkleRoot L (map prep_agreementTerms prepared))))"

section \<open>The snapshot before payday\<close>

record snapshot_binding =
  bn_index :: nat
  bn_agreementId :: string
  bn_source :: line_input
  bn_calculated :: calculated_line
  bn_agreementLeaf :: string
  bn_agreement :: agreement_witness

record agreement_snapshot =
  as_agreementRoot :: string
  as_policyRoot :: string
  as_runNullifier :: string
  as_calculatedLines :: "calculated_line list"
  as_proofBindings :: "snapshot_binding list"

record run_input =
  ri_chainId :: string
  ri_sealAddress :: string
  ri_organizationSecret :: string
  ri_cycleId :: string
  ri_revision :: int
  ri_validityStart :: int
  ri_validityExpiry :: int
  ri_policies :: "policy_pack list"
  ri_fxSnapshots :: "fx_snapshot list"
  ri_lines :: "line_input list"

definition binding_of :: "(nat \<times> prepared_agreement) \<times> agreement_witness \<Rightarrow> snapshot_binding" where
  "binding_of = (\<lambda>((index, entry), agreement).
     \<lparr>bn_index = index, bn_agreementId = li_agreementId (prep_source entry), bn_source = prep_source entry,
      bn_calculated = prep_calculated entry, bn_agreementLeaf = prep_agreementTerms entry, bn_agreement = agreement\<rparr>)"

text \<open>Of the run it reads the secret, the cycle, the revision, the policies and the lines.\<close>

definition buildPayrollAgreementSnapshot :: "lib \<Rightarrow> run_input \<Rightarrow> agreement_snapshot result" where
  "buildPayrollAgreementSnapshot L input =
     (if length (ri_lines input) < 1 \<or> MAX_LINES < length (ri_lines input)
      then Inl (Thrown ''An obligation snapshot requires 1-50 agreement lines.'')
      else if length (ri_policies input) < 1 \<or> 4 < length (ri_policies input)
      then Inl (Thrown ''An obligation snapshot requires 1-4 policy programs.'')
      else if ri_revision input < 1 \<or> 2 ^ 32 \<le> ri_revision input
      then Inl (Thrown ''Payroll snapshot revision must be a positive u32.'')
      else
        rbind (bytes32 L (ri_organizationSecret input)) (\<lambda>_.
        rbind (cycleBytes (ri_cycleId input)) (\<lambda>_.
        rbind (rmap (prepare_policy L) (ri_policies input)) (\<lambda>policyDetails.
        rbind (buildProofCatalog L (map dp_commitment policyDetails)) (\<lambda>(policyRoot, _).
        rbind (prepareAgreementDetails L (ri_lines input) policyDetails) (\<lambda>prepared.
        rbind (buildProofFixedMerkleRoot L (map prep_agreementTerms prepared)) (\<lambda>agreementRoot.
        rbind (deriveRunNullifier L (ri_organizationSecret input) (ri_cycleId input) (ri_revision input)) (\<lambda>runNullifier.
        rbind (buildAgreementWitnesses L prepared policyDetails) (\<lambda>agreements.
        Inr \<lparr>as_agreementRoot = agreementRoot, as_policyRoot = policyRoot, as_runNullifier = runNullifier,
             as_calculatedLines = map prep_calculated prepared,
             as_proofBindings = map binding_of (zip (enumerate 0 prepared) agreements)\<rparr>)))))))))"

section \<open>The inputs of the proof\<close>

record prepared_line =
  ln_agreement :: prepared_agreement
  ln_payrollLeaf :: string
  ln_fxSlot :: nat
  ln_referenceValue :: int

record public_inputs =
  up_chainId :: string
  up_sealAddress :: string
  up_proofVersion :: string
  up_schemaVersion :: string
  up_agreementRoot :: "string \<times> string"     \<comment> \<open>the high and the low limb, likewise below\<close>
  up_manifestRoot :: "string \<times> string"
  up_policyRoot :: "string \<times> string"
  up_fxRoot :: "string \<times> string"
  up_runNullifier :: "string \<times> string"
  up_validityStart :: string
  up_validityExpiry :: string
  up_shardIndex :: string

record shard_inputs =
  sh_public :: public_inputs
  sh_organization_secret :: "byte list"
  sh_cycle_id :: "byte list"
  sh_cycle_id_len :: string
  sh_revision :: string
  sh_agreement_leaves :: "string list"
  sh_payroll_leaves :: "string list"
  sh_agreements :: "agreement_witness list"
  sh_lines :: "line_witness list"
  sh_policies :: "policy_slot_witness list"
  sh_fx_snapshots :: "fx_slot_witness list"

record proof_binding = snapshot_binding +
  bn_payrollLeaf :: string
  bn_line :: line_witness
  bn_fxSnapshot :: snapshot_witness
  bn_fxMembership :: merkle_witness

record input_build =
  ib_circuitInputs :: "shard_inputs \<times> shard_inputs"
  ib_publicInputs :: "public_inputs \<times> public_inputs"
  ib_agreementRoot :: string
  ib_manifestRoot :: string
  ib_policyRoot :: string
  ib_fxRoot :: string
  ib_runNullifier :: string
  ib_calculatedLines :: "calculated_line list"
  ib_proofBindings :: "proof_binding list"

definition input_checks :: "lib \<Rightarrow> run_input \<Rightarrow> (int \<times> int \<times> byte list) result" where
  "input_checks L input =
     (if length (ri_lines input) < 1 \<or> MAX_LINES < length (ri_lines input)
      then Inl (Thrown ''PayrollIntegrity requires 1-50 lines.'')
      else if length (ri_policies input) < 1 \<or> 4 < length (ri_policies input)
      then Inl (Thrown ''PayrollIntegrity requires 1-4 policy programs.'')
      else if length (ri_fxSnapshots input) < 1 \<or> 2 < length (ri_fxSnapshots input)
      then Inl (Thrown ''PayrollIntegrity requires 1-2 FX snapshots.'')
      else if ri_revision input < 1 \<or> 2 ^ 32 \<le> ri_revision input
      then Inl (Thrown ''Payroll revision must be a positive u32.'')
      else if ri_validityStart input < 0 \<or> ri_validityExpiry input < ri_validityStart input
          \<or> 3600 < ri_validityExpiry input - ri_validityStart input
      then Inl (Thrown ''PayrollIntegrity validity must be ordered and no longer than one hour.'')
      else rbind (BigInt (ri_chainId input)) (\<lambda>chainId.
        if chainId = 0 then Inl (Thrown ''PayrollIntegrity requires non-zero deployment binding.'')
        else rbind (BigInt (ri_sealAddress input)) (\<lambda>sealAddress.
          if sealAddress = 0 then Inl (Thrown ''PayrollIntegrity requires non-zero deployment binding.'')
          else rbind (bytes32 L (ri_organizationSecret input)) (\<lambda>secret. Inr (chainId, sealAddress, secret)))))"

definition check_fx_age :: "int \<Rightarrow> unit \<Rightarrow> fx_detail \<Rightarrow> unit result" where
  "check_fx_age validityStart _ detail =
     (let observedAt = signed_bigint (cf_observedAt (fd_circuit detail));
          maximumAge = bigint (cf_maximumAgeSeconds (fd_circuit detail)) in
      if validityStart < observedAt
      then Inl (Thrown ''FX snapshot is from the future relative to the proof window.'')
      else if maximumAge < validityStart - observedAt
      then Inl (Thrown ''FX snapshot is stale relative to the proof window.'')
      else Inr ())"

definition reference_value :: "circuit_fx \<Rightarrow> int \<Rightarrow> int" where
  "reference_value circuitFx net =
     (let rawReference = bdiv (net * bigint (cf_priceNumerator circuitFx)) (bigint (cf_priceDenominator circuitFx)) in
      bdiv (rawReference * (10000 - cf_haircutBps circuitFx)) 10000)"

definition integrity_line :: "lib \<Rightarrow> int \<Rightarrow> fx_detail list \<Rightarrow> prepared_agreement \<Rightarrow> prepared_line result" where
  "integrity_line L validityStart fxDetails entry =
     (let line = prep_source entry in
      case findIndex (\<lambda>d. fx_baseToken (fd_snapshot d) = li_token line
             \<and> fx_referenceCurrency (fd_snapshot d) = reference_currency_name (li_referenceCurrency line)) fxDetails of
        None \<Rightarrow> Inl (Thrown (''Agreement '' @ li_agreementId line @ '' has no matching FX snapshot.''))
      | Some fxSlot \<Rightarrow>
          if validityStart < li_dueAt line \<or> li_validUntil line < validityStart
          then Inl (Thrown (''Agreement '' @ li_agreementId line @ '' is not due in the proof window.''))
          else
            let referenceValue = reference_value (fd_circuit (fxDetails ! fxSlot)) (bigint (netAtomic (prep_calculated entry))) in
            rbind (BigInt (fx_floor line)) (\<lambda>fxFloor.
            if referenceValue < fxFloor
            then Inl (Thrown (''Agreement '' @ li_agreementId line @ '' does not meet its FX floor.''))
            else
              rbind (proofPayrollCommitment L (prep_calculated entry) (prep_agreementTerms entry)
                \<lparr>lm_classificationTreatment = li_declared line, lm_finalIncludedMask = included_mask line,
                 lm_referenceValueAtomic = referenceValue\<rparr>) (\<lambda>payrollLeaf.
              Inr \<lparr>ln_agreement = entry, ln_payrollLeaf = payrollLeaf, ln_fxSlot = fxSlot,
                   ln_referenceValue = referenceValue\<rparr>)))"

definition line_witness_of :: "lib \<Rightarrow> prepared_line \<Rightarrow> line_witness result" where
  "line_witness_of L entry =
     (let source = prep_source (ln_agreement entry); calculated = prep_calculated (ln_agreement entry) in
      rbind (pad_to (deductionsAtomic calculated) 8 ''0'') (\<lambda>deductions.
      rbind (bytes32 L (li_lineSalt source)) (\<lambda>lineSalt.
      Inr \<lparr>lw_active = True, lw_deductions = deductions,
           lw_deductions_count = toString (int (length (deductionsAtomic calculated))),
           lw_policy_slot = toString (int (prep_policySlot (ln_agreement entry))), lw_fx_slot = toString (int (ln_fxSlot entry)),
           lw_salt = lineSalt, lw_classification_treatment = toString (li_declared source),
           lw_final_included_mask = toString (included_mask source),
           lw_reference_value_atomic = toString (ln_referenceValue entry)\<rparr>)))"

definition merkle_witness_of :: "catalog_membership \<Rightarrow> merkle_witness" where
  "merkle_witness_of m = \<lparr>mw_siblings = map (\<lambda>v. toString (bigint v)) (op_siblings m), mw_path_bits = op_pathBits m\<rparr>"

definition policy_witness_of :: "lib \<Rightarrow> prepared_policy \<times> catalog_membership \<Rightarrow> policy_slot_witness result" where
  "policy_witness_of L = (\<lambda>(entry, membership).
     let compiled = dp_compiled entry in
     rbind (bytes32 L (cp_metadataCommitment compiled)) (\<lambda>metadata.
     Inr \<lparr>ps_enabled = True,
          ps_program = \<lparr>gw_metadata_commitment = metadata, gw_instruction_count = toString (cp_instructionCount compiled),
            gw_opcodes = map toString (cp_opcodes compiled), gw_left = map toString (cp_left compiled),
            gw_right = map toString (cp_right compiled), gw_immediate = cp_immediate compiled,
            gw_numerator = cp_numerator compiled, gw_denominator = cp_denominator compiled,
            gw_output_register = toString (cp_outputRegister compiled)\<rparr>,
          ps_membership = merkle_witness_of membership\<rparr>))"

definition fx_witness_of :: "lib \<Rightarrow> fx_detail \<times> catalog_membership \<Rightarrow> fx_slot_witness result" where
  "fx_witness_of L = (\<lambda>(entry, membership).
     let circuit = fd_circuit entry in
     rbind (bytes32 L (cf_feedCommitment circuit)) (\<lambda>feed.
     rbind (bytes32 L (cf_sourcesCommitment circuit)) (\<lambda>srcs.
     Inr \<lparr>fs_enabled = True,
          fs_snapshot = \<lparr>sw_token = toString (cf_token circuit), sw_token_decimals = toString (cf_tokenDecimals circuit),
            sw_reference_currency = toString (cf_referenceCurrency circuit), sw_quote_decimals = ''6'',
            sw_feed_commitment = feed, sw_sources_commitment = srcs,
            sw_price_numerator = cf_priceNumerator circuit, sw_price_denominator = cf_priceDenominator circuit,
            sw_observed_at = cf_observedAt circuit, sw_source_count = toString (cf_sourceCount circuit),
            sw_minimum_source_count = toString (cf_minimumSourceCount circuit),
            sw_maximum_age_seconds = cf_maximumAgeSeconds circuit, sw_haircut_bps = toString (cf_haircutBps circuit)\<rparr>,
          fs_membership = merkle_witness_of membership\<rparr>)))"

definition no_policy :: policy_slot_witness where
  "no_policy = \<lparr>ps_enabled = False, ps_program = emptyProgram, ps_membership = emptyMembership\<rparr>"

definition no_fx :: fx_slot_witness where
  "no_fx = \<lparr>fs_enabled = False, fs_snapshot = emptySnapshot, fs_membership = emptyMembership\<rparr>"

definition policy_slots :: "lib \<Rightarrow> prepared_policy list \<Rightarrow> catalog_membership list \<Rightarrow> policy_slot_witness list result" where
  "policy_slots L policyDetails memberships =
     rbind (rmap (policy_witness_of L) (zip policyDetails memberships)) (\<lambda>ws. pad_to ws 4 no_policy)"

definition fx_slots :: "lib \<Rightarrow> fx_detail list \<Rightarrow> catalog_membership list \<Rightarrow> fx_slot_witness list result" where
  "fx_slots L fxDetails memberships =
     rbind (rmap (fx_witness_of L) (zip fxDetails memberships)) (\<lambda>ws. pad_to ws 2 no_fx)"

text \<open>The leaves of a tree, as the circuit's field elements.\<close>

definition leaf_texts :: "string list \<Rightarrow> string list result" where
  "leaf_texts leaves = pad_to (map (\<lambda>l. toString (bigint l)) leaves) 64 (toString (bigint PAYO_PROOF_EMPTY_LEAF))"

definition proof_binding_of :: "fx_slot_witness list \<Rightarrow> (nat \<times> prepared_line) \<times> agreement_witness \<times> line_witness \<Rightarrow> proof_binding" where
  "proof_binding_of fxWitnesses = (\<lambda>((index, entry), agreement, line).
     \<lparr>bn_index = index, bn_agreementId = li_agreementId (prep_source (ln_agreement entry)),
      bn_source = prep_source (ln_agreement entry), bn_calculated = prep_calculated (ln_agreement entry),
      bn_agreementLeaf = prep_agreementTerms (ln_agreement entry), bn_agreement = agreement,
      bn_payrollLeaf = ln_payrollLeaf entry, bn_line = line,
      bn_fxSnapshot = fs_snapshot (fxWitnesses ! ln_fxSlot entry), bn_fxMembership = fs_membership (fxWitnesses ! ln_fxSlot entry)\<rparr>)"

text \<open>Each shard proves 25 lines; it is given one agreement more, on the side where the shards meet.\<close>

definition makeShard ::
    "lib \<Rightarrow> run_input \<Rightarrow> (string \<Rightarrow> public_inputs) \<Rightarrow> (byte list \<times> int) \<Rightarrow> string list \<Rightarrow> string list \<Rightarrow> agreement_witness list
      \<Rightarrow> line_witness list \<Rightarrow> policy_slot_witness list \<Rightarrow> fx_slot_witness list \<Rightarrow> nat \<Rightarrow> shard_inputs result" where
  "makeShard L input common cycle agreementLeaves payrollLeaves agreementWitnesses lineWitnesses policyWitnesses fxWitnesses shardIndex =
     (let agreementOffset = (if shardIndex = 0 then 0 else 24); lineOffset = (if shardIndex = 0 then 0 else 25) in
      rbind (boundedUnsigned (ri_validityStart input) 64 ''Validity start'') (\<lambda>validityStart.
      rbind (boundedUnsigned (ri_validityExpiry input) 64 ''Validity expiry'') (\<lambda>validityExpiry.
      rbind (bytes32 L (ri_organizationSecret input)) (\<lambda>secret.
      rbind (pad_to (take 26 (drop agreementOffset agreementWitnesses)) 26 emptyAgreement) (\<lambda>agreements.
      rbind (pad_to (take 25 (drop lineOffset lineWitnesses)) 25 emptyLine) (\<lambda>lines.
      Inr \<lparr>sh_public = (common (toString (int shardIndex)))\<lparr>up_validityStart := validityStart, up_validityExpiry := validityExpiry\<rparr>,
           sh_organization_secret = secret, sh_cycle_id = fst cycle, sh_cycle_id_len = toString (snd cycle),
           sh_revision = toString (ri_revision input), sh_agreement_leaves = agreementLeaves,
           sh_payroll_leaves = payrollLeaves, sh_agreements = agreements, sh_lines = lines,
           sh_policies = policyWitnesses, sh_fx_snapshots = fxWitnesses\<rparr>))))))"

definition common_inputs ::
    "run_input \<Rightarrow> int \<Rightarrow> int \<Rightarrow> string \<times> string \<Rightarrow> string \<times> string \<Rightarrow> string \<times> string \<Rightarrow> string \<times> string \<Rightarrow> string \<times> string
      \<Rightarrow> string \<Rightarrow> public_inputs" where
  "common_inputs input chainId sealAddress agreement manifest policy fx nullifier shardIndex =
     \<lparr>up_chainId = toString chainId, up_sealAddress = toString sealAddress, up_proofVersion = ''1'', up_schemaVersion = ''1'',
      up_agreementRoot = agreement, up_manifestRoot = manifest, up_policyRoot = policy, up_fxRoot = fx,
      up_runNullifier = nullifier, up_validityStart = toString (ri_validityStart input),
      up_validityExpiry = toString (ri_validityExpiry input), up_shardIndex = shardIndex\<rparr>"

text \<open>The middle part of the builder: both trees, with the nullifier of the run.\<close>

record run_roots =
  rr_agreement :: string
  rr_manifest :: string
  rr_nullifier :: string

definition build_roots :: "lib \<Rightarrow> run_input \<Rightarrow> prepared_line list \<Rightarrow> run_roots result" where
  "build_roots L input prepared =
     rbind (buildProofFixedMerkleRoot L (map (\<lambda>e. prep_agreementTerms (ln_agreement e)) prepared)) (\<lambda>agreementRoot.
     rbind (buildProofFixedMerkleRoot L (map ln_payrollLeaf prepared)) (\<lambda>manifestRoot.
     rbind (deriveRunNullifier L (ri_organizationSecret input) (ri_cycleId input) (ri_revision input)) (\<lambda>nullifier.
     Inr \<lparr>rr_agreement = agreementRoot, rr_manifest = manifestRoot, rr_nullifier = nullifier\<rparr>)))"

definition build_common ::
    "lib \<Rightarrow> run_input \<Rightarrow> int \<Rightarrow> int \<Rightarrow> run_roots \<Rightarrow> string \<Rightarrow> string \<Rightarrow> (string \<Rightarrow> public_inputs) result" where
  "build_common L input chainId sealAddress roots policyRoot fxRoot =
     rbind (root_limbs L (rr_agreement roots)) (\<lambda>agreement.
     rbind (root_limbs L (rr_manifest roots)) (\<lambda>manifest.
     rbind (root_limbs L policyRoot) (\<lambda>policy.
     rbind (root_limbs L fxRoot) (\<lambda>fx.
     rbind (root_limbs L (rr_nullifier roots)) (\<lambda>nullifier.
     Inr (common_inputs input chainId sealAddress agreement manifest policy fx nullifier))))))"

definition buildPayrollIntegrityInputs :: "lib \<Rightarrow> (string \<Rightarrow> string \<Rightarrow> int) \<Rightarrow> run_input \<Rightarrow> input_build result" where
  "buildPayrollIntegrityInputs L localeCompare input =
     rbind (input_checks L input) (\<lambda>(chainId, sealAddress, _).
     rbind (rmap (prepare_policy L) (ri_policies input)) (\<lambda>policyDetails.
     rbind (buildProofCatalog L (map dp_commitment policyDetails)) (\<lambda>(policyRoot, policyMemberships).
     rbind (buildFxCatalog L localeCompare (ri_fxSnapshots input)) (\<lambda>(fxDetails, fxRoot, fxMemberships).
     rbind (rfold (check_fx_age (ri_validityStart input)) () fxDetails) (\<lambda>_.
     rbind (prepareAgreementDetails L (ri_lines input) policyDetails) (\<lambda>agreementPrepared.
     rbind (rmap (integrity_line L (ri_validityStart input) fxDetails) agreementPrepared) (\<lambda>prepared.
     rbind (build_roots L input prepared) (\<lambda>roots.
     rbind (build_common L input chainId sealAddress roots policyRoot fxRoot) (\<lambda>common.
     rbind (leaf_texts (map (\<lambda>e. prep_agreementTerms (ln_agreement e)) prepared)) (\<lambda>agreementLeaves.
     rbind (leaf_texts (map ln_payrollLeaf prepared)) (\<lambda>payrollLeaves.
     rbind (buildAgreementWitnesses L (map ln_agreement prepared) policyDetails) (\<lambda>agreementWitnesses.
     rbind (rmap (line_witness_of L) prepared) (\<lambda>lineWitnesses.
     rbind (policy_slots L policyDetails policyMemberships) (\<lambda>policyWitnesses.
     rbind (fx_slots L fxDetails fxMemberships) (\<lambda>fxWitnesses.
     rbind (cycleBytes (ri_cycleId input)) (\<lambda>cycle.
     let shard = makeShard L input common cycle agreementLeaves payrollLeaves agreementWitnesses lineWitnesses policyWitnesses fxWitnesses in
     rbind (shard 0) (\<lambda>first.
     rbind (shard 1) (\<lambda>second.
     Inr \<lparr>ib_circuitInputs = (first, second), ib_publicInputs = (common ''0'', common ''1''),
          ib_agreementRoot = rr_agreement roots, ib_manifestRoot = rr_manifest roots, ib_policyRoot = policyRoot,
          ib_fxRoot = fxRoot, ib_runNullifier = rr_nullifier roots,
          ib_calculatedLines = map (\<lambda>e. prep_calculated (ln_agreement e)) prepared,
          ib_proofBindings = map (proof_binding_of fxWitnesses)
            (zip (enumerate 0 prepared) (zip agreementWitnesses lineWitnesses))\<rparr>))))))))))))))))))"

section \<open>Serialised requests\<close>

record line_request =
  lq_line :: line_input      \<comment> \<open>the other members; its two times are not part of the request\<close>
  lq_dueAt :: string
  lq_validUntil :: string

record build_request =
  bq_run :: run_input        \<comment> \<open>likewise without the window and the lines\<close>
  bq_validityStart :: string
  bq_validityExpiry :: string
  bq_lines :: "line_request list"

definition serializePayrollIntegrityBuildRequest :: "run_input \<Rightarrow> build_request" where
  "serializePayrollIntegrityBuildRequest input =
     \<lparr>bq_run = input\<lparr>ri_validityStart := 0, ri_validityExpiry := 0, ri_lines := []\<rparr>,
      bq_validityStart = toString (ri_validityStart input), bq_validityExpiry = toString (ri_validityExpiry input),
      bq_lines = map (\<lambda>line. \<lparr>lq_line = line\<lparr>li_dueAt := 0, li_validUntil := 0\<rparr>, lq_dueAt = toString (li_dueAt line),
        lq_validUntil = toString (li_validUntil line)\<rparr>) (ri_lines input)\<rparr>"

definition line_from_request :: "line_request \<Rightarrow> line_input result" where
  "line_from_request q =
     rbind (BigInt (lq_dueAt q)) (\<lambda>dueAt.
     rbind (BigInt (lq_validUntil q)) (\<lambda>validUntil.
     Inr ((lq_line q)\<lparr>li_dueAt := dueAt, li_validUntil := validUntil\<rparr>)))"

definition buildPayrollIntegrityInputsFromSerialized ::
    "lib \<Rightarrow> (string \<Rightarrow> string \<Rightarrow> int) \<Rightarrow> build_request \<Rightarrow> input_build result" where
  "buildPayrollIntegrityInputsFromSerialized L localeCompare q =
     rbind (BigInt (bq_validityStart q)) (\<lambda>validityStart.
     rbind (BigInt (bq_validityExpiry q)) (\<lambda>validityExpiry.
     rbind (rmap line_from_request (bq_lines q)) (\<lambda>lines.
     buildPayrollIntegrityInputs L localeCompare
       ((bq_run q)\<lparr>ri_validityStart := validityStart, ri_validityExpiry := validityExpiry, ri_lines := lines\<rparr>))))"

end
