(* ===== verification/Settlement_Match.thy ===== *)
theory Settlement_Match
  imports Payroll_Inputs Vesting_Book
begin

text \<open>
  Model of \<open>lib/proof/settlement-match.ts\<close>: the encrypted notes a settlement emits, the tree that commits to
  them, and the inputs of the circuit that matches them with the lines of a proven run.  A value the source
  takes as \<open>string | bigint\<close> is a \<open>bigint_like\<close>; the empty agreement and line are those of theory
  Payroll_Inputs, which this file of the source repeats.
\<close>

section \<open>Field elements and digests\<close>

definition PAYO_SETTLEMENT_MATCH_PROOF_VERSION :: int where "PAYO_SETTLEMENT_MATCH_PROOF_VERSION = 8"
definition PAYO_SETTLEMENT_CHUNK_LINES :: nat where "PAYO_SETTLEMENT_CHUNK_LINES = 3"
definition PAYO_SETTLEMENT_TREE_LEAVES :: nat where "PAYO_SETTLEMENT_TREE_LEAVES = 64"
definition PAYO_SETTLEMENT_TREE_DEPTH :: nat where "PAYO_SETTLEMENT_TREE_DEPTH = 6"
definition U128_MODULUS :: int where "U128_MODULUS = push_bit 128 1"
definition U120_LIMIT :: int where "U120_LIMIT = push_bit 120 1"

definition SETTLEMENT_EMPTY_LEAF :: "lib \<Rightarrow> string" where
  "SETTLEMENT_EMPTY_LEAF L = toHex L (keccak_256 L (utf8 ''PAYO_SETTLEMENT_EMPTY_V1''))"

datatype bigint_like = Digits string | Big int

fun to_BigInt :: "bigint_like \<Rightarrow> int result" where
  "to_BigInt (Digits s) = BigInt s"
| "to_BigInt (Big n) = Inr n"

definition canonicalFelt :: "bigint_like \<Rightarrow> string \<Rightarrow> int result" where
  "canonicalFelt value label =
     (case to_BigInt value of
        Inl _ \<Rightarrow> Inl (Thrown (label @ '' is not a Starknet felt.''))
      | Inr parsed \<Rightarrow>
          if parsed < 0 \<or> STARK_FIELD_PRIME \<le> parsed then Inl (Thrown (label @ '' is outside the Starknet field.''))
          else Inr parsed)"

definition digest :: "string \<Rightarrow> string \<Rightarrow> string result" where
  "digest value label =
     (if commitment_ok value then Inr (toLowerCase value) else Inl (Thrown (label @ '' must be exactly 32 bytes.'')))"

definition feltBytes :: "bigint_like \<Rightarrow> string \<Rightarrow> byte list result" where
  "feltBytes value label = rbind (canonicalFelt value label) (\<lambda>felt. encodeUint felt 32)"

definition digestBytes :: "lib \<Rightarrow> string \<Rightarrow> string \<Rightarrow> byte list result" where
  "digestBytes L value label = rbind (digest value label) (\<lambda>d. normalizedHexBytes L d (Some 32))"

definition tag :: "lib \<Rightarrow> string \<Rightarrow> int" where
  "tag L value = bigint (encodeShortString L value)"

section \<open>Encrypted notes\<close>

definition deriveStrk20ChannelKey :: "lib \<Rightarrow> bigint_like \<Rightarrow> bigint_like \<Rightarrow> bigint_like \<Rightarrow> bigint_like \<Rightarrow> int result" where
  "deriveStrk20ChannelKey L senderAddress viewingKey toAddress recipientPublicKey =
     rbind (canonicalFelt senderAddress ''Settlement sender'') (\<lambda>sender.
     rbind (canonicalFelt viewingKey ''Settlement viewing key'') (\<lambda>key.
     rbind (canonicalFelt toAddress ''Settlement recipient'') (\<lambda>recipient.
     rbind (canonicalFelt recipientPublicKey ''Settlement recipient public key'') (\<lambda>publicKey.
     Inr (poseidon L [tag L ''CHANNEL_KEY_TAG:V1'', sender, key, recipient, publicKey])))))"

definition deriveStrk20NoteId :: "lib \<Rightarrow> bigint_like \<Rightarrow> bigint_like \<Rightarrow> int \<Rightarrow> int result" where
  "deriveStrk20NoteId L channelKey tokenAddress noteIndex =
     (if noteIndex < 0 \<or> 0xffffffff < noteIndex then Inl (Thrown ''Settlement note index must fit in u32.'')
      else rbind (canonicalFelt channelKey ''Settlement channel key'') (\<lambda>channel.
        rbind (canonicalFelt tokenAddress ''Settlement token'') (\<lambda>tok.
        Inr (poseidon L [tag L ''NOTE_ID_TAG:V1'', channel, tok, noteIndex, 0]))))"

definition deriveStrk20PackedValue ::
    "lib \<Rightarrow> bigint_like \<Rightarrow> bigint_like \<Rightarrow> int \<Rightarrow> bigint_like \<Rightarrow> bigint_like \<Rightarrow> int result" where
  "deriveStrk20PackedValue L channelKey tokenAddress noteIndex noteSalt amountAtomic =
     (if noteIndex < 0 \<or> 0xffffffff < noteIndex then Inl (Thrown ''Settlement note index must fit in u32.'')
      else rbind (to_BigInt noteSalt) (\<lambda>saltValue.
        rbind (to_BigInt amountAtomic) (\<lambda>amount.
        if saltValue \<le> 0 \<or> U120_LIMIT \<le> saltValue
        then Inl (Thrown ''Encrypted settlement-note salt must be a nonzero 120-bit integer.'')
        else if amount \<le> 0 \<or> U128_MODULUS \<le> amount
        then Inl (Thrown ''Encrypted settlement-note amount must be a positive u128.'')
        else rbind (canonicalFelt channelKey ''Settlement channel key'') (\<lambda>channel.
          rbind (canonicalFelt tokenAddress ''Settlement token'') (\<lambda>tok.
          let pad = poseidon L [tag L ''ENC_AMOUNT_TAG:V1'', channel, tok, noteIndex, 0, saltValue] in
          Inr (or (push_bit 128 saltValue) (bmod (pad + amount) U128_MODULUS)))))))"

record encrypted_note =
  en_channelKey :: int
  en_noteId :: string
  en_packedValue :: string

definition deriveStrk20EncryptedNote ::
    "lib \<Rightarrow> bigint_like \<Rightarrow> bigint_like \<Rightarrow> bigint_like \<Rightarrow> bigint_like \<Rightarrow> bigint_like \<Rightarrow> int \<Rightarrow> bigint_like \<Rightarrow> bigint_like
      \<Rightarrow> encrypted_note result" where
  "deriveStrk20EncryptedNote L senderAddress viewingKey toAddress recipientPublicKey tokenAddress noteIndex noteSalt amountAtomic =
     rbind (deriveStrk20ChannelKey L senderAddress viewingKey toAddress recipientPublicKey) (\<lambda>channelKey.
     rbind (deriveStrk20NoteId L (Big channelKey) tokenAddress noteIndex) (\<lambda>noteId.
     rbind (encodeUint noteId 32) (\<lambda>noteIdBytes.
     rbind (deriveStrk20PackedValue L (Big channelKey) tokenAddress noteIndex noteSalt amountAtomic) (\<lambda>packed.
     rbind (encodeUint packed 32) (\<lambda>packedBytes.
     Inr \<lparr>en_channelKey = channelKey, en_noteId = toHex L noteIdBytes, en_packedValue = toHex L packedBytes\<rparr>)))))"

section \<open>The tree of emitted notes\<close>

record emitted_note =
  nt_noteId :: string
  nt_packedValue :: string

definition hashSettlementNoteLeaf :: "lib \<Rightarrow> int \<Rightarrow> 'x emitted_note_scheme \<Rightarrow> string result" where
  "hashSettlementNoteLeaf L position note =
     (if position < 0 \<or> int PAYO_SETTLEMENT_TREE_LEAVES \<le> position
      then Inl (Thrown ''Settlement-note position is outside the fixed 64-leaf tree.'')
      else rbind (encodeU32 position) (\<lambda>index.
        rbind (digestBytes L (nt_noteId note) ''Settlement note ID'') (\<lambda>noteId.
        rbind (digestBytes L (nt_packedValue note) ''Settlement packed value'') (\<lambda>packed.
        Inr (toHex L (keccak_256 L (concatBytes [utf8 ''PAYO_SETTLEMENT_NOTE_V1'', index, noteId, packed])))))))"

definition hashSettlementNode :: "lib \<Rightarrow> string \<Rightarrow> string \<Rightarrow> string result" where
  "hashSettlementNode L left right =
     rbind (digestBytes L left ''Settlement left node'') (\<lambda>l.
     rbind (digestBytes L right ''Settlement right node'') (\<lambda>r.
     Inr (toHex L (keccak_256 L (concatBytes [utf8 ''PAYO_SETTLEMENT_NODE_V1'', l, r])))))"

text \<open>The leaves of the notes, from a position on, with the ids already seen.\<close>

fun note_leaves :: "lib \<Rightarrow> string set \<Rightarrow> nat \<Rightarrow> 'x emitted_note_scheme list \<Rightarrow> string list result" where
  "note_leaves L ids position [] = Inr []"
| "note_leaves L ids position (note # notes) =
     rbind (digest (nt_noteId note) (''Settlement note ID '' @ toString (int position))) (\<lambda>normalizedId.
     if normalizedId \<in> ids then Inl (Thrown ''Settlement note IDs must be unique.'')
     else rbind (hashSettlementNoteLeaf L (int position) note) (\<lambda>leaf.
       rbind (note_leaves L (insert normalizedId ids) (Suc position) notes) (\<lambda>leaves. Inr (leaf # leaves))))"

text \<open>\<open>Array.from(\<lbrace> length: level.length / 2 \<rbrace>)\<close> rounds an odd length down.\<close>

fun settlement_level :: "('a \<Rightarrow> 'a \<Rightarrow> 'a result) \<Rightarrow> 'a list \<Rightarrow> 'a list result" where
  "settlement_level node (l # r # level) =
     rbind (node l r) (\<lambda>n. rbind (settlement_level node level) (\<lambda>ns. Inr (n # ns)))"
| "settlement_level node _ = Inr []"

lemma settlement_level_length: "settlement_level node level = Inr ns \<Longrightarrow> length ns = length level div 2"
  by (induction node level arbitrary: ns rule: settlement_level.induct) (auto simp: rbind_Inr_iff)

function settlement_levels :: "('a \<Rightarrow> 'a \<Rightarrow> 'a result) \<Rightarrow> 'a list \<Rightarrow> 'a list list result" where
  "settlement_levels node level =
     (if 1 < length level
      then rbind (settlement_level node level) (\<lambda>next. rbind (settlement_levels node next) (\<lambda>levels. Inr (level # levels)))
      else Inr [level])"
  by pat_completeness auto
termination
  by (relation "measure (\<lambda>(node, level). length level)") (auto dest: settlement_level_length)

declare settlement_levels.simps [simp del]

definition settlementTree :: "lib \<Rightarrow> 'x emitted_note_scheme list \<Rightarrow> string list list result" where
  "settlementTree L notes =
     (if length notes < 1 \<or> PAYO_SETTLEMENT_TREE_LEAVES < length notes
      then Inl (Thrown (''Settlement evidence requires 1-'' @ toString (int PAYO_SETTLEMENT_TREE_LEAVES) @ '' emitted notes.''))
      else rbind (note_leaves L {} 0 notes) (\<lambda>leaves.
        settlement_levels (hashSettlementNode L) (padded PAYO_SETTLEMENT_TREE_LEAVES (SETTLEMENT_EMPTY_LEAF L) leaves)))"

definition buildSettlementRoot :: "lib \<Rightarrow> 'x emitted_note_scheme list \<Rightarrow> string result" where
  "buildSettlementRoot L notes = rbind (settlementTree L notes) (\<lambda>levels. Inr (last levels ! 0))"

fun level_path :: "'a list list \<Rightarrow> nat \<Rightarrow> ('a \<times> bool) list" where
  "level_path [] cursor = []"
| "level_path (level # levels) cursor =
     (let isRight = (cursor mod 2 = 1) in
      (level ! (if isRight then cursor - 1 else cursor + 1), isRight) # level_path levels (cursor div 2))"

record settlement_membership =
  sm_root :: string
  sm_siblings :: "string list"
  sm_pathBits :: "bool list"

definition buildSettlementMembership :: "lib \<Rightarrow> 'x emitted_note_scheme list \<Rightarrow> int \<Rightarrow> settlement_membership result" where
  "buildSettlementMembership L notes position =
     (if position < 0 \<or> int (length notes) \<le> position
      then Inl (Thrown ''Settlement membership must select an emitted note.'')
      else rbind (settlementTree L notes) (\<lambda>levels.
        let path = level_path (take PAYO_SETTLEMENT_TREE_DEPTH levels) (nat position) in
        Inr \<lparr>sm_root = last levels ! 0, sm_siblings = map fst path, sm_pathBits = map snd path\<rparr>))"

definition settlementTransactionReference :: "lib \<Rightarrow> string \<Rightarrow> string \<Rightarrow> string \<Rightarrow> string list \<Rightarrow> string result" where
  "settlementTransactionReference L chainId policyAccountAddress poolAddress poolCalldata =
     (if length poolCalldata < 1 \<or> 12000 < length poolCalldata
      then Inl (Thrown ''Settlement transaction calldata is outside PAYO's bounded size.'')
      else rbind (feltBytes (Digits chainId) ''Settlement chain ID'') (\<lambda>chain.
        rbind (feltBytes (Digits policyAccountAddress) ''Settlement policy account'') (\<lambda>account.
        rbind (feltBytes (Digits poolAddress) ''Settlement pool'') (\<lambda>pool.
        rbind (encodeU32 (int (length poolCalldata))) (\<lambda>len.
        rbind (rmap (\<lambda>(index, value). feltBytes (Digits value) (''Settlement pool calldata '' @ toString (int index)))
                 (enumerate 0 poolCalldata)) (\<lambda>calldata.
        Inr (toHex L (keccak_256 L (concatBytes
          ([utf8 ''PAYO_SETTLEMENT_TX_V1'', chain, account, pool, len] @ calldata))))))))))"

section \<open>The inputs of the match\<close>

record payroll_note = emitted_note +
  pn_position :: int
  pn_recipientAddress :: string
  pn_recipientPublicKey :: string
  pn_tokenAddress :: string
  pn_amountAtomic :: string
  pn_noteIndex :: int
  pn_salt :: string

record match_public =
  mp_proofVersion :: string
  mp_manifestRoot :: "string \<times> string"     \<comment> \<open>the high and the low limb, likewise below\<close>
  mp_runNullifier :: "string \<times> string"
  mp_transactionReference :: "string \<times> string"
  mp_settlementRoot :: "string \<times> string"
  mp_chunkIndex :: string
  mp_chunkCount :: string

record note_witness =
  nw_recipient_address :: "byte list"
  nw_recipient_public_key :: "byte list"
  nw_recipient_commitment_salt :: "byte list"
  nw_note_index :: string
  nw_note_id :: "byte list"
  nw_packed_value :: "byte list"
  nw_settlement_siblings :: "byte list list"
  nw_settlement_path_bits :: "bool list"

record chunk_inputs =
  ck_public :: match_public
  ck_payroll_leaves :: "string list"
  ck_sender_address_bytes :: "byte list"
  ck_viewing_key_bytes :: "byte list"
  ck_agreements :: "agreement_witness list"
  ck_lines :: "line_witness list"
  ck_notes :: "note_witness list"

record match_build =
  mt_settlementRoot :: string
  mt_transactionReference :: string
  mt_publicInputs :: "match_public list"
  mt_circuitInputs :: "chunk_inputs list"

record match_input =
  mi_payroll :: input_build
  mi_senderAddress :: string
  mi_viewingKey :: string
  mi_transactionReference :: string
  mi_payrollNotes :: "payroll_note list"
  mi_emittedNotes :: "emitted_note list"

definition emptyNote :: note_witness where
  "emptyNote = \<lparr>nw_recipient_address = zero_bytes, nw_recipient_public_key = zero_bytes,
     nw_recipient_commitment_salt = zero_bytes, nw_note_index = ''0'', nw_note_id = zero_bytes, nw_packed_value = zero_bytes,
     nw_settlement_siblings = replicate PAYO_SETTLEMENT_TREE_DEPTH zero_bytes,
     nw_settlement_path_bits = replicate PAYO_SETTLEMENT_TREE_DEPTH False\<rparr>"

definition tokenSymbol :: "string \<Rightarrow> string \<Rightarrow> token result" where
  "tokenSymbol address label =
     rbind (canonicalFelt (Digits address) label) (\<lambda>felt.
     case find (\<lambda>symbol. bigint (token_address symbol) = felt) [STRK, USDC] of
       None \<Rightarrow> Inl (Thrown (label @ '' is not PAYO's native STRK or USDC address.''))
     | Some symbol \<Rightarrow> Inr symbol)"

text \<open>A note of the run against the line it pays: position, recipient, token and amount.\<close>

definition note_pays :: "nat \<Rightarrow> proof_binding \<Rightarrow> payroll_note \<Rightarrow> unit result" where
  "note_pays index binding note =
     (let at = toString (int index) in
      if pn_position note \<noteq> int index then Inl (Thrown ''Settlement payroll notes are reordered.'')
      else rbind (canonicalFelt (Digits (pn_recipientAddress note)) (''Settlement recipient '' @ at)) (\<lambda>noteRecipient.
        rbind (canonicalFelt (Digits (li_recipientAddress (bn_source binding))) (''Manifest recipient '' @ at)) (\<lambda>manifestRecipient.
        if noteRecipient \<noteq> manifestRecipient
        then Inl (Thrown ''Settlement recipient does not match the approved manifest.'')
        else rbind (tokenSymbol (pn_tokenAddress note) (''Settlement token '' @ at)) (\<lambda>symbol.
          if symbol \<noteq> li_token (bn_source binding)
          then Inl (Thrown ''Settlement token does not match the approved manifest.'')
          else rbind (BigInt (pn_amountAtomic note)) (\<lambda>amount.
            if amount \<noteq> bigint (netAtomic (bn_calculated binding))
            then Inl (Thrown ''Settlement amount does not match the proved net payroll amount.'')
            else Inr ())))))"

text \<open>It is encrypted to the recipient, and it is the note emitted at its position.\<close>

definition note_emitted :: "lib \<Rightarrow> int \<Rightarrow> int \<Rightarrow> nat \<Rightarrow> payroll_note \<Rightarrow> 'x emitted_note_scheme \<Rightarrow> (string \<times> string) result" where
  "note_emitted L sender viewingKey index note emitted =
     (let at = toString (int index) in
      rbind (deriveStrk20EncryptedNote L (Big sender) (Big viewingKey) (Digits (pn_recipientAddress note))
        (Digits (pn_recipientPublicKey note)) (Digits (pn_tokenAddress note)) (pn_noteIndex note) (Digits (pn_salt note))
        (Digits (pn_amountAtomic note))) (\<lambda>expected.
      rbind (digest (nt_noteId note) (''Settlement note ID '' @ at)) (\<lambda>noteId.
      rbind (digest (nt_packedValue note) (''Settlement packed value '' @ at)) (\<lambda>packedValue.
      if en_noteId expected \<noteq> noteId \<or> en_packedValue expected \<noteq> packedValue
      then Inl (Thrown ''Settlement note ciphertext does not match its private transfer witness.'')
      else rbind (digest (nt_noteId emitted) (''Emitted note ID '' @ at)) (\<lambda>emittedId.
        if emittedId \<noteq> noteId
        then Inl (Thrown ''Settlement output order does not match the approved payroll order.'')
        else rbind (digest (nt_packedValue emitted) (''Emitted packed value '' @ at)) (\<lambda>emittedValue.
          if emittedValue \<noteq> packedValue
          then Inl (Thrown ''Settlement output order does not match the approved payroll order.'')
          else Inr (noteId, packedValue)))))))"

definition note_witness_of ::
    "lib \<Rightarrow> int \<Rightarrow> int \<Rightarrow> emitted_note list \<Rightarrow> nat \<times> proof_binding \<times> payroll_note \<Rightarrow> note_witness result" where
  "note_witness_of L sender viewingKey emittedNotes = (\<lambda>(index, binding, note).
     let at = toString (int index) in
     rbind (note_pays index binding note) (\<lambda>_.
     rbind (note_emitted L sender viewingKey index note (emittedNotes ! index)) (\<lambda>(noteId, packedValue).
     rbind (buildSettlementMembership L emittedNotes (int index)) (\<lambda>membership.
     rbind (feltBytes (Digits (pn_recipientAddress note)) (''Settlement recipient '' @ at)) (\<lambda>recipient.
     rbind (feltBytes (Digits (pn_recipientPublicKey note)) (''Settlement public key '' @ at)) (\<lambda>publicKey.
     rbind (digestBytes L (li_recipientSalt (bn_source binding)) (''Recipient salt '' @ at)) (\<lambda>recipientSalt.
     rbind (digestBytes L noteId (''Settlement note ID '' @ at)) (\<lambda>noteIdBytes.
     rbind (digestBytes L packedValue (''Settlement packed value '' @ at)) (\<lambda>packedBytes.
     rbind (rmap (\<lambda>(level, sibling). digestBytes L sibling (''Settlement sibling '' @ at @ '':'' @ toString (int level)))
              (enumerate 0 (sm_siblings membership))) (\<lambda>siblings.
     Inr \<lparr>nw_recipient_address = recipient, nw_recipient_public_key = publicKey,
          nw_recipient_commitment_salt = recipientSalt, nw_note_index = toString (pn_noteIndex note),
          nw_note_id = noteIdBytes, nw_packed_value = packedBytes, nw_settlement_siblings = siblings,
          nw_settlement_path_bits = sm_pathBits membership\<rparr>))))))))))"

definition entry_or :: "'a list \<Rightarrow> 'a \<Rightarrow> nat \<Rightarrow> 'a" where
  "entry_or xs d i = (if i < length xs then xs ! i else d)"

text \<open>The three lines a chunk proves.\<close>

definition chunk_of :: "'a list \<Rightarrow> 'a \<Rightarrow> nat \<Rightarrow> 'a list" where
  "chunk_of xs d chunkIndex =
     map (\<lambda>offset. entry_or xs d (chunkIndex * PAYO_SETTLEMENT_CHUNK_LINES + offset)) [0..<PAYO_SETTLEMENT_CHUNK_LINES]"

definition match_public_of ::
    "string \<times> string \<Rightarrow> string \<times> string \<Rightarrow> string \<times> string \<Rightarrow> string \<times> string \<Rightarrow> nat \<Rightarrow> nat \<Rightarrow> match_public" where
  "match_public_of manifest nullifier reference root chunkCount chunkIndex =
     \<lparr>mp_proofVersion = toString PAYO_SETTLEMENT_MATCH_PROOF_VERSION, mp_manifestRoot = manifest, mp_runNullifier = nullifier,
      mp_transactionReference = reference, mp_settlementRoot = root, mp_chunkIndex = toString (int chunkIndex),
      mp_chunkCount = toString (int chunkCount)\<rparr>"

definition chunk_inputs_of ::
    "proof_binding list \<Rightarrow> note_witness list \<Rightarrow> string list \<Rightarrow> int \<Rightarrow> int \<Rightarrow> match_public \<Rightarrow> nat \<Rightarrow> chunk_inputs result" where
  "chunk_inputs_of bindings noteWitnesses payrollLeaves sender viewingKey currentPublic chunkIndex =
     rbind (feltBytes (Big sender) ''Settlement sender'') (\<lambda>senderBytes.
     rbind (feltBytes (Big viewingKey) ''Settlement viewing key'') (\<lambda>keyBytes.
     Inr \<lparr>ck_public = currentPublic, ck_payroll_leaves = payrollLeaves, ck_sender_address_bytes = senderBytes,
          ck_viewing_key_bytes = keyBytes, ck_agreements = chunk_of (map bn_agreement bindings) emptyAgreement chunkIndex,
          ck_lines = chunk_of (map bn_line bindings) emptyLine chunkIndex,
          ck_notes = chunk_of noteWitnesses emptyNote chunkIndex\<rparr>))"

text \<open>The checks before the notes, giving the transaction reference, the sender and the viewing key.\<close>

definition match_checks :: "match_input \<Rightarrow> (string \<times> int \<times> int) result" where
  "match_checks input =
     (let count = length (ib_proofBindings (mi_payroll input)) in
      if count < 1 \<or> 50 < count \<or> length (mi_payrollNotes input) \<noteq> count
      then Inl (Thrown ''Settlement payroll-note evidence must cover every manifest line exactly once.'')
      else if length (mi_emittedNotes input) < count
      then Inl (Thrown ''Settlement output omits one or more payroll notes.'')
      else rbind (digest (mi_transactionReference input) ''Settlement transaction reference'') (\<lambda>transactionReference.
        if bigint transactionReference = 0 then Inl (Thrown ''Settlement transaction reference is zero.'')
        else rbind (canonicalFelt (Digits (mi_senderAddress input)) ''Settlement sender'') (\<lambda>sender.
          rbind (canonicalFelt (Digits (mi_viewingKey input)) ''Settlement viewing key'') (\<lambda>viewingKey.
          if sender = 0 \<or> viewingKey = 0 then Inl (Thrown ''Settlement sender and viewing key must be nonzero.'')
          else Inr (transactionReference, sender, viewingKey)))))"

definition buildSettlementMatchInputs :: "lib \<Rightarrow> match_input \<Rightarrow> match_build result" where
  "buildSettlementMatchInputs L input =
     rbind (match_checks input) (\<lambda>(transactionReference, sender, viewingKey).
     let bindings = ib_proofBindings (mi_payroll input); count = length bindings in
     rbind (buildSettlementRoot L (mi_emittedNotes input)) (\<lambda>settlementRoot.
     rbind (rmap (note_witness_of L sender viewingKey (mi_emittedNotes input))
              (enumerate 0 (zip bindings (mi_payrollNotes input)))) (\<lambda>noteWitnesses.
     rbind (root_limbs L (ib_manifestRoot (mi_payroll input))) (\<lambda>manifest.
     rbind (root_limbs L (ib_runNullifier (mi_payroll input))) (\<lambda>nullifier.
     rbind (root_limbs L transactionReference) (\<lambda>reference.
     rbind (root_limbs L settlementRoot) (\<lambda>root.
     let chunkCount = (count + PAYO_SETTLEMENT_CHUNK_LINES - 1) div PAYO_SETTLEMENT_CHUNK_LINES;
         payrollLeaves = map (\<lambda>index. toString (bigint (entry_or (map bn_payrollLeaf bindings) PAYO_PROOF_EMPTY_LEAF index))) [0..<64];
         publicInputs = map (match_public_of manifest nullifier reference root chunkCount) [0..<chunkCount] in
     rbind (rmap (\<lambda>chunkIndex. chunk_inputs_of bindings noteWitnesses payrollLeaves sender viewingKey
                    (publicInputs ! chunkIndex) chunkIndex) [0..<chunkCount]) (\<lambda>circuitInputs.
     Inr \<lparr>mt_settlementRoot = settlementRoot, mt_transactionReference = transactionReference,
          mt_publicInputs = publicInputs, mt_circuitInputs = circuitInputs\<rparr>))))))))"

end
