(* ===== verification/Input_Properties.thy ===== *)
theory Input_Properties
  imports Payroll_Inputs Policy_Compiler Proof_Bindings
begin

text \<open>
  What the inputs built by theory Payroll_Inputs guarantee: which lines are accepted and how they are
  ordered, how the shards cover the run, that the snapshot taken before payday is reproduced, that the
  policy program of the circuit gives the deductions the line carries, and the serialised form.
\<close>

section \<open>The stages of a build\<close>

lemma rbind_pairE:
  assumes "rbind r (\<lambda>(a, b). f a b) = Inr y"
  obtains a b where "r = Inr (a, b)" "f a b = Inr y"
  using assms by (auto simp: rbind_Inr_iff)

lemma rbind_tripleE:
  assumes "rbind r (\<lambda>(a, b, c). f a b c) = Inr y"
  obtains a b c where "r = Inr (a, b, c)" "f a b c = Inr y"
  using assms by (auto simp: rbind_Inr_iff)

lemma build_stages:
  assumes "buildPayrollIntegrityInputs L localeCompare input = Inr b"
  obtains chainId sealAddress secret policyDetails policyMemberships fxDetails fxMemberships agreements prepared roots common
      agreementLeaves payrollLeaves agreementWitnesses lineWitnesses policyWitnesses fxWitnesses cycle first second where
    "input_checks L input = Inr (chainId, sealAddress, secret)"
    "rmap (prepare_policy L) (ri_policies input) = Inr policyDetails"
    "buildProofCatalog L (map dp_commitment policyDetails) = Inr (ib_policyRoot b, policyMemberships)"
    "buildFxCatalog L localeCompare (ri_fxSnapshots input) = Inr (fxDetails, ib_fxRoot b, fxMemberships)"
    "rfold (check_fx_age (ri_validityStart input)) () fxDetails = Inr ()"
    "prepareAgreementDetails L (ri_lines input) policyDetails = Inr agreements"
    "rmap (integrity_line L (ri_validityStart input) fxDetails) agreements = Inr prepared"
    "build_roots L input prepared = Inr roots" "ib_agreementRoot b = rr_agreement roots" "ib_manifestRoot b = rr_manifest roots"
    "ib_runNullifier b = rr_nullifier roots"
    "build_common L input chainId sealAddress roots (ib_policyRoot b) (ib_fxRoot b) = Inr common"
    "leaf_texts (map (\<lambda>e. prep_agreementTerms (ln_agreement e)) prepared) = Inr agreementLeaves"
    "leaf_texts (map ln_payrollLeaf prepared) = Inr payrollLeaves"
    "buildAgreementWitnesses L (map ln_agreement prepared) policyDetails = Inr agreementWitnesses"
    "rmap (line_witness_of L) prepared = Inr lineWitnesses"
    "policy_slots L policyDetails policyMemberships = Inr policyWitnesses"
    "fx_slots L fxDetails fxMemberships = Inr fxWitnesses"
    "cycleBytes (ri_cycleId input) = Inr cycle"
    "makeShard L input common cycle agreementLeaves payrollLeaves agreementWitnesses lineWitnesses policyWitnesses fxWitnesses 0 = Inr first"
    "makeShard L input common cycle agreementLeaves payrollLeaves agreementWitnesses lineWitnesses policyWitnesses fxWitnesses 1 = Inr second"
    "ib_circuitInputs b = (first, second)" "ib_calculatedLines b = map (\<lambda>e. prep_calculated (ln_agreement e)) prepared"
    "ib_proofBindings b = map (proof_binding_of fxWitnesses) (zip (enumerate 0 prepared) (zip agreementWitnesses lineWitnesses))"
proof -
  from assms obtain chainId sealAddress secret policyDetails policyRoot policyMemberships fxDetails fxRoot fxMemberships agreements
      prepared roots common agreementLeaves payrollLeaves agreementWitnesses lineWitnesses policyWitnesses fxWitnesses cycle first second u
    where s: "input_checks L input = Inr (chainId, sealAddress, secret)"
    "rmap (prepare_policy L) (ri_policies input) = Inr policyDetails"
    "buildProofCatalog L (map dp_commitment policyDetails) = Inr (policyRoot, policyMemberships)"
    "buildFxCatalog L localeCompare (ri_fxSnapshots input) = Inr (fxDetails, fxRoot, fxMemberships)"
    "rfold (check_fx_age (ri_validityStart input)) () fxDetails = Inr u"
    "prepareAgreementDetails L (ri_lines input) policyDetails = Inr agreements"
    "rmap (integrity_line L (ri_validityStart input) fxDetails) agreements = Inr prepared"
    "build_roots L input prepared = Inr roots"
    "build_common L input chainId sealAddress roots policyRoot fxRoot = Inr common"
    "leaf_texts (map (\<lambda>e. prep_agreementTerms (ln_agreement e)) prepared) = Inr agreementLeaves"
    "leaf_texts (map ln_payrollLeaf prepared) = Inr payrollLeaves"
    "buildAgreementWitnesses L (map ln_agreement prepared) policyDetails = Inr agreementWitnesses"
    "rmap (line_witness_of L) prepared = Inr lineWitnesses"
    "policy_slots L policyDetails policyMemberships = Inr policyWitnesses"
    "fx_slots L fxDetails fxMemberships = Inr fxWitnesses"
    "cycleBytes (ri_cycleId input) = Inr cycle"
    "makeShard L input common cycle agreementLeaves payrollLeaves agreementWitnesses lineWitnesses policyWitnesses fxWitnesses 0 = Inr first"
    "makeShard L input common cycle agreementLeaves payrollLeaves agreementWitnesses lineWitnesses policyWitnesses fxWitnesses 1 = Inr second"
    "b = \<lparr>ib_circuitInputs = (first, second), ib_publicInputs = (common ''0'', common ''1''),
          ib_agreementRoot = rr_agreement roots, ib_manifestRoot = rr_manifest roots, ib_policyRoot = policyRoot,
          ib_fxRoot = fxRoot, ib_runNullifier = rr_nullifier roots,
          ib_calculatedLines = map (\<lambda>e. prep_calculated (ln_agreement e)) prepared,
          ib_proofBindings = map (proof_binding_of fxWitnesses)
            (zip (enumerate 0 prepared) (zip agreementWitnesses lineWitnesses))\<rparr>"
    unfolding buildPayrollIntegrityInputs_def Let_def
    by (elim rbind_tripleE rbind_pairE rbindE, simp only: sum.inject)
  show thesis
    by (rule that [OF s(1,2) _ _ _ s(6-8) _ _ _ _ s(10-18)]) (simp_all add: s)
qed

section \<open>The order of a run\<close>

lemma findIndex_Some: "findIndex p xs = Some i \<longleftrightarrow> i < length xs \<and> p (xs ! i) \<and> (\<forall>j < i. \<not> p (xs ! j))"
proof (induction xs arbitrary: i)
  case (Cons x xs)
  show ?case
  proof (cases i)
    case 0
    then show ?thesis by auto
  next
    case (Suc k)
    then show ?thesis using Cons.IH [of k] by (auto simp: All_less_Suc2)
  qed
qed simp

text \<open>What a line is when it has been prepared.\<close>

definition line_ok :: "lib \<Rightarrow> prepared_policy list \<Rightarrow> prepared_agreement \<Rightarrow> bool" where
  "line_ok L policyDetails e \<longleftrightarrow>
     (let line = prep_source e; slot = prep_policySlot e in
      slot < length policyDetails \<and> pk_id (dp_pack (policyDetails ! slot)) = li_policyId line
      \<and> calculatePayrollLine (input_line line) = Inr (prep_calculated e)
      \<and> policyOutput L (dp_pack (policyDetails ! slot)) (prep_calculated e) = Inr (bigint (deductionsTotalAtomic (prep_calculated e)))
      \<and> 0 < li_employeeThreshold line \<and> li_employeeThreshold line < 2 ^ 16
      \<and> li_declared line = (if li_employeeThreshold line \<le> li_score line then 1 else 2))"

lemma prepare_line_ok:
  assumes "prepare_line L policyDetails line = Inr e"
  shows "prep_source e = line" "line_ok L policyDetails e"
proof -
  from assms obtain slot calc where s: "findIndex (\<lambda>p. pk_id (dp_pack p) = li_policyId line) policyDetails = Some slot"
    "calculatePayrollLine (input_line line) = Inr calc"
    "policyOutput L (dp_pack (policyDetails ! slot)) calc = Inr (bigint (deductionsTotalAtomic calc))"
    "0 < li_employeeThreshold line" "li_employeeThreshold line < 2 ^ 16"
    "li_declared line = (if li_employeeThreshold line \<le> li_score line then 1 else 2)"
    "prep_source e = line" "prep_calculated e = calc" "prep_policySlot e = slot"
    unfolding prepare_line_def Let_def by (auto simp: rbind_Inr_iff split: option.split_asm if_split_asm)
  then show "prep_source e = line" "line_ok L policyDetails e"
    by (simp_all add: line_ok_def findIndex_Some Let_def)
qed

definition line_key :: "lib \<Rightarrow> line_input \<Rightarrow> int" where
  "line_key L line = id_commitment L (li_agreementId line)"

lemma line_ok_id:
  assumes "line_ok L pd e"
  shows "agreementId (prep_calculated e) = li_agreementId (prep_source e) \<and> length (li_agreementId (prep_source e)) \<le> 160"
proof -
  have calc: "calculatePayrollLine (input_line (prep_source e)) = Inr (prep_calculated e)"
    using assms by (simp add: line_ok_def Let_def)
  have "privatePayrollLine_ok (input_line (prep_source e))"
    using calc unfolding calculatePayrollLine_Inr_iff Let_def by blast
  with calculatePayrollLine_fields(1) [OF calc] show ?thesis by (simp add: input_line_def privatePayrollLine_ok_def)
qed

lemma compare_prepared_le:
  assumes "keccak_32 L" "line_ok L pd a" "line_ok L pd b"
  shows "compare_prepared L a b \<le> 0 \<longleftrightarrow> line_key L (prep_source a) \<le> line_key L (prep_source b)"
proof -
  have "compare_prepared L a b = compare_lines L (prep_calculated a) (prep_calculated b)"
    using line_ok_id assms(2,3) by (simp add: compare_prepared_def compare_lines_def)
  then show ?thesis
    using compare_lines_sgn [OF assms(1), of "prep_calculated a" "prep_calculated b"] line_ok_id [OF assms(2)] line_ok_id [OF assms(3)]
    by (simp add: line_key_def)
qed

lemma compare_prepared_same:
  assumes "keccak_32 L" "line_ok L pd a" "line_ok L pd b" "line_key L (prep_source a) = line_key L (prep_source b)"
  shows "compare_prepared L a b = 0"
proof -
  obtain g h where g: "hashTextCommitment L ''PAYO_AGREEMENT_ID_V1'' (li_agreementId (prep_source a)) = Inr g"
    and h: "hashTextCommitment L ''PAYO_AGREEMENT_ID_V1'' (li_agreementId (prep_source b)) = Inr h"
    using hashTextCommitment_total line_ok_id [OF assms(2)] line_ok_id [OF assms(3)] by blast
  have "decodeUint g = decodeUint h" using assms(4) g h by (simp add: line_key_def id_commitment_def)
  then have "g = h" using hashTextCommitment_length [OF assms(1)] g h decodeUint_inj by metis
  moreover have "compare_bytes x x = 0" for x by (induction x) simp_all
  ultimately show ?thesis using g h by (simp add: compare_prepared_def comparePayrollAgreementIds_def)
qed

lemma prepared_ok: "prepareAgreementDetails L lines pd = Inr ps \<Longrightarrow> e \<in> set ps \<Longrightarrow> line_ok L pd e"
  unfolding prepareAgreementDetails_def Let_def
  by (auto simp: rbind_Inr_iff prepare_line_ok(2) dest!: rmap_setD split: if_split_asm)

lemma prepared_run:
  assumes "keccak_32 L" "prepareAgreementDetails L lines pd = Inr ps"
  shows "mset (map prep_source ps) = mset lines" "\<forall>e \<in> set ps. line_ok L pd e"
    "sorted_wrt (<) (map (\<lambda>e. line_key L (prep_source e)) ps)"
proof -
  obtain us where us: "rmap (prepare_line L pd) lines = Inr us" "ps = sort_by (compare_prepared L) us"
    and no: "\<And>i. i \<in> set [1..<length ps] \<Longrightarrow> compare_prepared L (ps ! (i - 1)) (ps ! i) \<noteq> 0"
    using assms(2) unfolding prepareAgreementDetails_def Let_def by (auto simp: rbind_Inr_iff split: if_split_asm)
  have each: "\<forall>e \<in> set us. line_ok L pd e"
    using rmap_setD [OF us(1)] prepare_line_ok by blast
  have "map prep_source us = lines"
    using us(1) prepare_line_ok(1) by (auto simp: rmap_Inr_iff list_all2_conv_all_nth intro!: nth_equalityI)
  then show "mset (map prep_source ps) = mset lines" by (metis mset_map mset_sort_by us(2))
  show oks: "\<forall>e \<in> set ps. line_ok L pd e" using each us(2) by simp
  have sort: "ps = sort_key (\<lambda>e. line_key L (prep_source e)) us"
    unfolding us(2) by (rule sort_by_key) (use compare_prepared_le [OF assms(1)] each in blast)
  define key where "key = (\<lambda>e :: prepared_agreement. line_key L (prep_source e))"
  have "sorted (map key ps)" unfolding sort key_def by simp
  moreover have "key (ps ! i) \<noteq> key (ps ! Suc i)" if "Suc i < length ps" for i
  proof
    assume "key (ps ! i) = key (ps ! Suc i)"
    moreover have "line_ok L pd (ps ! i)" "line_ok L pd (ps ! Suc i)" using oks that by simp_all
    ultimately have "compare_prepared L (ps ! i) (ps ! Suc i) = 0"
      using compare_prepared_same [OF assms(1)] by (simp add: key_def)
    with no [of "Suc i"] that show False by simp
  qed
  ultimately have "\<forall>i. Suc i < length ps \<longrightarrow> key (ps ! i) < key (ps ! Suc i)"
    by (fastforce simp: sorted_iff_nth_Suc order.strict_iff_order)
  then have "sorted_wrt (<) (map key ps)" by (subst sorted_wrt_iff_nth_Suc_transp) simp_all
  then show "sorted_wrt (<) (map (\<lambda>e. line_key L (prep_source e)) ps)" by (simp add: key_def)
qed

section \<open>Every line is checked\<close>

text \<open>What a proof binding of an accepted run satisfies, written over the source and the calculated line.\<close>

definition binding_ok :: "lib \<Rightarrow> run_input \<Rightarrow> proof_binding \<Rightarrow> bool" where
  "binding_ok L input q \<longleftrightarrow>
     calculatePayrollLine (input_line (bn_source q)) = Inr (bn_calculated q)
     \<and> (\<exists>pack \<in> set (ri_policies input). pk_id pack = li_policyId (bn_source q)
          \<and> policyOutput L pack (bn_calculated q) = Inr (bigint (deductionsTotalAtomic (bn_calculated q))))
     \<and> li_declared (bn_source q) = (if li_employeeThreshold (bn_source q) \<le> li_score (bn_source q) then 1 else 2)
     \<and> li_dueAt (bn_source q) \<le> ri_validityStart input \<and> ri_validityStart input \<le> li_validUntil (bn_source q)
     \<and> (\<exists>floor. BigInt (fx_floor (bn_source q)) = Inr floor \<and> floor \<le> bigint (lw_reference_value_atomic (bn_line q)))"

text \<open>The snapshot the circuit is given for the line is fresh, and the reference value is the net amount at its
  price and haircut.\<close>

definition fx_ok :: "run_input \<Rightarrow> proof_binding \<Rightarrow> bool" where
  "fx_ok input q \<longleftrightarrow>
     (let s = bn_fxSnapshot q; observedAt = signed_bigint (sw_observed_at s) in
      observedAt \<le> ri_validityStart input \<and> ri_validityStart input - observedAt \<le> bigint (sw_maximum_age_seconds s)
      \<and> bigint (lw_reference_value_atomic (bn_line q))
          = bdiv (bdiv (bigint (netAtomic (bn_calculated q)) * bigint (sw_price_numerator s)) (bigint (sw_price_denominator s))
                  * (10000 - bigint (sw_haircut_bps s))) 10000)"

lemma integrity_line_ok:
  assumes "integrity_line L start fxDetails e = Inr p"
  shows "ln_agreement p = e" "ln_fxSlot p < length fxDetails"
    "li_dueAt (prep_source e) \<le> start" "start \<le> li_validUntil (prep_source e)"
    "\<exists>floor. BigInt (fx_floor (prep_source e)) = Inr floor \<and> floor \<le> ln_referenceValue p"
    "ln_referenceValue p = reference_value (fd_circuit (fxDetails ! ln_fxSlot p)) (bigint (netAtomic (prep_calculated e)))"
  using assms unfolding integrity_line_def Let_def
  by (auto simp: rbind_Inr_iff findIndex_Some split: option.split_asm if_split_asm)

lemma line_witness_reference: "line_witness_of L p = Inr w \<Longrightarrow> lw_reference_value_atomic w = toString (ln_referenceValue p)"
  by (auto simp: line_witness_of_def Let_def rbind_Inr_iff)

lemma payroll_commitment_reference:
  assumes "proofPayrollCommitment L c a m = Inr h"
  shows "0 \<le> lm_referenceValueAtomic m"
proof -
  from assms have "\<exists>v. packedAmount (lm_referenceValueAtomic m) = Inr v"
    unfolding proofPayrollCommitment_def Let_def proof_groups_def single_def by (auto simp: rbind_Inr_iff split: if_split_asm)
  then show ?thesis by (auto dest: packedAmount_Inr)
qed

lemma integrity_line_reference: "integrity_line L start fxDetails e = Inr p \<Longrightarrow> 0 \<le> ln_referenceValue p"
  unfolding integrity_line_def Let_def
  by (auto simp: rbind_Inr_iff split: option.split_asm if_split_asm dest!: payroll_commitment_reference)

lemma prepared_lines:
  assumes "rmap (integrity_line L start fxDetails) agreements = Inr prepared"
  shows "map ln_agreement prepared = agreements"
    "\<forall>p \<in> set prepared. integrity_line L start fxDetails (ln_agreement p) = Inr p"
proof -
  have each: "list_all2 (\<lambda>e p. ln_agreement p = e \<and> integrity_line L start fxDetails (ln_agreement p) = Inr p) agreements prepared"
    using assms unfolding rmap_Inr_iff by (rule list_all2_mono) (use integrity_line_ok(1) in blast)
  then show "map ln_agreement prepared = agreements" by (auto simp: list_all2_conv_all_nth intro!: nth_equalityI)
  show "\<forall>p \<in> set prepared. integrity_line L start fxDetails (ln_agreement p) = Inr p"
    using each by (auto simp: list_all2_conv_all_nth in_set_conv_nth)
qed

lemma prepare_policies:
  assumes "rmap (prepare_policy L) packs = Inr pd"
  shows "map dp_pack pd = packs" "\<forall>p \<in> set pd. compilePolicyPack L (dp_pack p) = Inr (dp_compiled p)"
    "rmap (policyPackCommitment L) packs = Inr (map dp_commitment pd)"
proof -
  have "list_all2 (\<lambda>pack p. dp_pack p = pack \<and> compilePolicyPack L pack = Inr (dp_compiled p)
      \<and> policyPackCommitment L pack = Inr (dp_commitment p)) packs pd"
    using assms unfolding rmap_Inr_iff
    by (rule list_all2_mono) (auto simp: prepare_policy_def rbind_Inr_iff)
  then show "map dp_pack pd = packs" "\<forall>p \<in> set pd. compilePolicyPack L (dp_pack p) = Inr (dp_compiled p)"
    "rmap (policyPackCommitment L) packs = Inr (map dp_commitment pd)"
    by (auto simp: rmap_Inr_iff list_all2_conv_all_nth in_set_conv_nth intro!: nth_equalityI)
qed

lemma bindings_zip:
  assumes "rmap (line_witness_of L) prepared = Inr lineWitnesses"
    and "buildAgreementWitnesses L (map ln_agreement prepared) pd = Inr agreementWitnesses"
    and "bindings = map (proof_binding_of fxWitnesses) (zip (enumerate 0 prepared) (zip agreementWitnesses lineWitnesses))"
  shows "length bindings = length prepared" "length lineWitnesses = length prepared" "length agreementWitnesses = length prepared"
    and "\<And>i. i < length prepared \<Longrightarrow> bindings ! i = proof_binding_of fxWitnesses ((i, prepared ! i), agreementWitnesses ! i, lineWitnesses ! i)"
proof -
  show len: "length lineWitnesses = length prepared" "length agreementWitnesses = length prepared"
    using rmap_length [OF assms(1)] rmap_length [OF assms(2) [unfolded buildAgreementWitnesses_def]] by simp_all
  show "length bindings = length prepared" using len by (simp add: assms(3))
  show "\<And>i. i < length prepared \<Longrightarrow> bindings ! i = proof_binding_of fxWitnesses ((i, prepared ! i), agreementWitnesses ! i, lineWitnesses ! i)"
    using len by (simp add: assms(3) nth_enumerate_eq)
qed

lemma catalog_memberships_length: "buildProofCatalog L cs = Inr (root, ms) \<Longrightarrow> length ms = length cs"
  by (auto simp: buildProofCatalog_def rbind_Inr_iff Let_def dest!: rmap_length split: if_split_asm)

lemma fx_details:
  assumes "buildFxCatalog L localeCompare snapshots = Inr (details, root, ms)"
  shows "length ms = length details" "\<forall>d \<in> set details. 0 \<le> cf_haircutBps (fd_circuit d)"
proof -
  have each: "rmap (fx_detail_of L localeCompare) snapshots = Inr details"
    and cat: "buildProofCatalog L (map fd_commitment details) = Inr (root, ms)"
    using assms by (auto simp: buildFxCatalog_def rbind_Inr_iff split: if_split_asm)
  show "length ms = length details" using catalog_memberships_length [OF cat] by simp
  have "0 \<le> cf_haircutBps (fd_circuit d)" if "fx_detail_of L localeCompare s = Inr d" for s d
    using that by (auto simp: fx_detail_of_def toCircuitFxSnapshot_def rbind_Inr_iff fxSnapshotSchema_def Let_def split: if_split_asm)
  with rmap_setD [OF each] show "\<forall>d \<in> set details. 0 \<le> cf_haircutBps (fd_circuit d)" by blast
qed

lemma fx_slots_nth:
  assumes "fx_slots L details ms = Inr ws" "length ms = length details" "i < length details"
  shows "sw_price_numerator (fs_snapshot (ws ! i)) = cf_priceNumerator (fd_circuit (details ! i))"
    "sw_price_denominator (fs_snapshot (ws ! i)) = cf_priceDenominator (fd_circuit (details ! i))"
    "sw_observed_at (fs_snapshot (ws ! i)) = cf_observedAt (fd_circuit (details ! i))"
    "sw_maximum_age_seconds (fs_snapshot (ws ! i)) = cf_maximumAgeSeconds (fd_circuit (details ! i))"
    "sw_haircut_bps (fs_snapshot (ws ! i)) = toString (cf_haircutBps (fd_circuit (details ! i)))"
proof -
  obtain vs where vs: "rmap (fx_witness_of L) (zip details ms) = Inr vs" "pad_to vs 2 no_fx = Inr ws"
    using assms(1) by (auto simp: fx_slots_def)
  have "length vs = length details" using rmap_length [OF vs(1)] assms(2) by simp
  then have "ws ! i = vs ! i" using vs(2) assms(3) by (auto simp: pad_to_def nth_padded split: if_split_asm)
  moreover obtain w where w: "fx_witness_of L (details ! i, ms ! i) = Inr w" "vs ! i = w"
    using vs(1) assms(2,3) by (auto simp: rmap_Inr_iff list_all2_conv_all_nth)
  moreover have "sw_price_numerator (fs_snapshot w) = cf_priceNumerator (fd_circuit (details ! i))
    \<and> sw_price_denominator (fs_snapshot w) = cf_priceDenominator (fd_circuit (details ! i))
    \<and> sw_observed_at (fs_snapshot w) = cf_observedAt (fd_circuit (details ! i))
    \<and> sw_maximum_age_seconds (fs_snapshot w) = cf_maximumAgeSeconds (fd_circuit (details ! i))
    \<and> sw_haircut_bps (fs_snapshot w) = toString (cf_haircutBps (fd_circuit (details ! i)))"
    using w(1) by (auto simp: fx_witness_of_def Let_def rbind_Inr_iff)
  ultimately show "sw_price_numerator (fs_snapshot (ws ! i)) = cf_priceNumerator (fd_circuit (details ! i))"
    "sw_price_denominator (fs_snapshot (ws ! i)) = cf_priceDenominator (fd_circuit (details ! i))"
    "sw_observed_at (fs_snapshot (ws ! i)) = cf_observedAt (fd_circuit (details ! i))"
    "sw_maximum_age_seconds (fs_snapshot (ws ! i)) = cf_maximumAgeSeconds (fd_circuit (details ! i))"
    "sw_haircut_bps (fs_snapshot (ws ! i)) = toString (cf_haircutBps (fd_circuit (details ! i)))" by simp_all
qed

lemma fx_ages:
  "rfold (check_fx_age start) () details = Inr () \<longleftrightarrow>
     (\<forall>d \<in> set details. signed_bigint (cf_observedAt (fd_circuit d)) \<le> start
        \<and> start - signed_bigint (cf_observedAt (fd_circuit d)) \<le> bigint (cf_maximumAgeSeconds (fd_circuit d)))"
  by (induction details) (auto simp: check_fx_age_def Let_def not_less)

text \<open>C3: What an accepted run proves about.  The bindings are the lines of the run, each exactly once, in the
  strict order of their agreement id commitments.  Every line is calculated from its source, its
  deductions are what a policy of the run with the line's policy id computes, its declared classification
  is the one its score and threshold give, it is due and not expired when the window opens, and its
  reference value, the net amount at the price and haircut of a snapshot that is fresh at that time, is at
  least its currency floor.\<close>

theorem run_inputs_checked:
  assumes "keccak_32 L" "buildPayrollIntegrityInputs L localeCompare input = Inr b"
  shows "mset (map bn_source (ib_proofBindings b)) = mset (ri_lines input)
    \<and> sorted_wrt (<) (map (\<lambda>q. line_key L (bn_source q)) (ib_proofBindings b))
    \<and> (\<forall>q \<in> set (ib_proofBindings b). binding_ok L input q \<and> fx_ok input q)"
  using assms(2)
proof (rule build_stages)
  fix pd fxDetails fxMemberships agreements prepared agreementWitnesses lineWitnesses fxWitnesses
  assume fx: "buildFxCatalog L localeCompare (ri_fxSnapshots input) = Inr (fxDetails, ib_fxRoot b, fxMemberships)"
    "rfold (check_fx_age (ri_validityStart input)) () fxDetails = Inr ()" "fx_slots L fxDetails fxMemberships = Inr fxWitnesses"
  assume s: "rmap (prepare_policy L) (ri_policies input) = Inr pd"
    "prepareAgreementDetails L (ri_lines input) pd = Inr agreements"
    "rmap (integrity_line L (ri_validityStart input) fxDetails) agreements = Inr prepared"
    "buildAgreementWitnesses L (map ln_agreement prepared) pd = Inr agreementWitnesses"
    "rmap (line_witness_of L) prepared = Inr lineWitnesses"
    "ib_proofBindings b = map (proof_binding_of fxWitnesses) (zip (enumerate 0 prepared) (zip agreementWitnesses lineWitnesses))"
  note run = prepared_run [OF assms(1) s(2)] and lines = prepared_lines [OF s(3)] and packs = prepare_policies [OF s(1)]
  note bs = bindings_zip [OF s(5,4,6)]
  have src: "map bn_source (ib_proofBindings b) = map prep_source agreements"
    unfolding lines(1) [symmetric] using bs by (auto simp: proof_binding_of_def intro!: nth_equalityI)
  have "binding_ok L input (ib_proofBindings b ! i) \<and> fx_ok input (ib_proofBindings b ! i)" if i: "i < length prepared" for i
  proof -
    let ?p = "prepared ! i"
    have line: "integrity_line L (ri_validityStart input) fxDetails (ln_agreement ?p) = Inr ?p" using lines(2) i by simp
    have ok: "line_ok L pd (ln_agreement ?p)" using run(2) lines(1) i by (metis length_map nth_map nth_mem)
    have "line_witness_of L ?p = Inr (lineWitnesses ! i)" using s(5) i by (simp add: rmap_Inr_iff list_all2_conv_all_nth)
    then have ref: "bigint (lw_reference_value_atomic (lineWitnesses ! i)) = ln_referenceValue ?p"
      using line_witness_reference integrity_line_reference [OF line] by simp
    have "dp_pack (pd ! prep_policySlot (ln_agreement ?p)) \<in> set (ri_policies input)"
      using ok unfolding packs(1) [symmetric] by (auto simp: line_ok_def Let_def)
    moreover note integrity_line_ok(3-5) [OF line] ok ref bs(4) [OF i]
    ultimately have binding: "binding_ok L input (ib_proofBindings b ! i)"
      by (auto simp: binding_ok_def proof_binding_of_def line_ok_def Let_def intro!: bexI)
    note slot = integrity_line_ok(2,6) [OF line] and det = fx_details [OF fx(1)]
    have "fx_ok input (ib_proofBindings b ! i)"
      using slot fx(2) det(2) ref fx_slots_nth [OF fx(3) det(1) slot(1)]
      by (simp add: fx_ok_def bs(4) [OF i] proof_binding_of_def fx_ages reference_value_def Let_def)
    with binding show ?thesis ..
  qed
  moreover have "map (\<lambda>q. line_key L (bn_source q)) (ib_proofBindings b) = map (\<lambda>e. line_key L (prep_source e)) agreements"
    using arg_cong [OF src, of "map (line_key L)"] by (simp add: o_def)
  ultimately show ?thesis
    using run(1,3) arg_cong [OF src, of mset] bs(1) by (auto simp: in_set_conv_nth)
qed

section \<open>The snapshot before payday is reproduced\<close>

lemma input_checks_Inr:
  assumes "input_checks L input = Inr (chainId, sealAddress, secret)"
  shows "ri_lines input \<noteq> []" "length (ri_lines input) \<le> 50" "ri_policies input \<noteq> []" "length (ri_policies input) \<le> 4"
    "1 \<le> ri_revision input" "ri_revision input < 2 ^ 32" "0 \<le> ri_validityStart input" "ri_validityStart input \<le> ri_validityExpiry input"
    "bytes32 L (ri_organizationSecret input) = Inr secret"
  using assms unfolding input_checks_def MAX_LINES_def
  by (auto simp: rbind_Inr_iff split: if_split_asm)

lemma truncated_bindings:
  assumes "length aw = length ps" "length lw = length ps"
  shows "map snapshot_binding.truncate (map (proof_binding_of fxWitnesses) (zip (enumerate n ps) (zip aw lw)))
    = map binding_of (zip (enumerate n (map ln_agreement ps)) aw)"
  using assms
  by (intro nth_equalityI) (simp_all add: proof_binding_of_def binding_of_def snapshot_binding.truncate_def nth_enumerate_eq)

text \<open>C24: The commitments made before payday are the ones the later proof uses.  Whenever the inputs of a run are
  built, the snapshot built from the same input, which computes no exchange rates, payroll leaves or manifest root, succeeds with the same
  agreement root, policy root, nullifier, calculated lines and agreement side of every binding; and the
  stand-alone functions that compute the agreement, policy and exchange-rate roots give the same roots.\<close>

theorem snapshot_reproduced:
  assumes "buildPayrollIntegrityInputs L localeCompare input = Inr b"
  shows "(\<exists>s. buildPayrollAgreementSnapshot L input = Inr s \<and> as_agreementRoot s = ib_agreementRoot b
      \<and> as_policyRoot s = ib_policyRoot b \<and> as_runNullifier s = ib_runNullifier b
      \<and> as_calculatedLines s = ib_calculatedLines b
      \<and> as_proofBindings s = map snapshot_binding.truncate (ib_proofBindings b))
    \<and> buildPayrollAgreementRoot L (ri_policies input) (ri_lines input) = Inr (ib_agreementRoot b)
    \<and> buildPolicyCatalogRoot L (ri_policies input) = Inr (ib_policyRoot b)
    \<and> buildFxCatalogRoot L localeCompare (ri_fxSnapshots input) = Inr (ib_fxRoot b)"
  using assms
proof (rule build_stages)
  fix chainId sealAddress secret pd policyMemberships fxDetails fxMemberships agreements prepared roots agreementWitnesses
    lineWitnesses fxWitnesses cycle
  assume s: "input_checks L input = Inr (chainId, sealAddress, secret)" "rmap (prepare_policy L) (ri_policies input) = Inr pd"
    "buildProofCatalog L (map dp_commitment pd) = Inr (ib_policyRoot b, policyMemberships)"
    "buildFxCatalog L localeCompare (ri_fxSnapshots input) = Inr (fxDetails, ib_fxRoot b, fxMemberships)"
    "prepareAgreementDetails L (ri_lines input) pd = Inr agreements"
    "rmap (integrity_line L (ri_validityStart input) fxDetails) agreements = Inr prepared"
    "build_roots L input prepared = Inr roots" "ib_agreementRoot b = rr_agreement roots" "ib_runNullifier b = rr_nullifier roots"
    "buildAgreementWitnesses L (map ln_agreement prepared) pd = Inr agreementWitnesses"
    "rmap (line_witness_of L) prepared = Inr lineWitnesses" "cycleBytes (ri_cycleId input) = Inr cycle"
    "ib_calculatedLines b = map (\<lambda>e. prep_calculated (ln_agreement e)) prepared"
    "ib_proofBindings b = map (proof_binding_of fxWitnesses) (zip (enumerate 0 prepared) (zip agreementWitnesses lineWitnesses))"
  note checks = input_checks_Inr [OF s(1)] and lines = prepared_lines(1) [OF s(6)] and packs = prepare_policies(3) [OF s(2)]
  have terms: "map (\<lambda>e. prep_agreementTerms (ln_agreement e)) prepared = map prep_agreementTerms agreements"
    unfolding lines [symmetric] by simp
  have roots: "buildProofFixedMerkleRoot L (map prep_agreementTerms agreements) = Inr (ib_agreementRoot b)"
    "deriveRunNullifier L (ri_organizationSecret input) (ri_cycleId input) (ri_revision input) = Inr (ib_runNullifier b)"
    using s(7) unfolding s(8,9) build_roots_def terms by (auto simp: rbind_Inr_iff)
  have len: "length agreementWitnesses = length prepared" "length lineWitnesses = length prepared"
    using bindings_zip(2,3) [OF s(11,10)] by simp_all
  have "buildPayrollAgreementSnapshot L input = Inr \<lparr>as_agreementRoot = ib_agreementRoot b, as_policyRoot = ib_policyRoot b,
      as_runNullifier = ib_runNullifier b, as_calculatedLines = map prep_calculated agreements,
      as_proofBindings = map binding_of (zip (enumerate 0 agreements) agreementWitnesses)\<rparr>"
    using checks s(2,3,5,12) roots s(10) unfolding lines
    by (simp add: buildPayrollAgreementSnapshot_def MAX_LINES_def not_less)
  moreover have "map snapshot_binding.truncate (ib_proofBindings b) = map binding_of (zip (enumerate 0 agreements) agreementWitnesses)"
    unfolding s(14) truncated_bindings [OF len] lines ..
  moreover have "ib_calculatedLines b = map prep_calculated agreements" unfolding s(13) lines [symmetric] by simp
  ultimately show ?thesis
    using checks s(2-5) roots(1) packs
    by (simp add: buildPayrollAgreementRoot_def buildPolicyCatalogRoot_def buildFxCatalogRoot_def MAX_LINES_def not_less)
qed

section \<open>Serialised requests\<close>

lemma BigInt_toString [simp]: "BigInt (toString n) = Inr n"
proof (cases "n < 0")
  case False
  then have "canonical_dec (toString n)" by (simp add: canonical_dec_toString)
  with False show ?thesis using canonical_dec_digits BigInt_dec by simp
next
  case True
  define d where "d = show_base 10 (nat (- n))"
  have d: "list_all is_digit d" "d \<noteq> []" "value_base 10 d = nat (- n)"
    by (simp_all add: d_def show_base_dec value_show_base)
  have "js_trim (CHR ''-'' # d) = CHR ''-'' # d"
    using d(1) is_hex_not_space is_digit_is_hex by (intro js_trim_id) (auto simp: is_space_def list_all_iff)
  moreover have "list_all (\<lambda>c. is_hex c \<and> hex_val c < 10) d"
    using d(1) is_digit_is_hex hex_val_digit_lt by (auto simp: list_all_iff)
  ultimately show ?thesis using True d by (simp add: BigInt_def toString_def radix_digits_def d_def [symmetric])
qed

text \<open>A run survives being sent to the prover: building from the serialised request of a run is building from
  the run, for every run, the ones that are rejected included.\<close>

theorem build_request_round_trip:
  "buildPayrollIntegrityInputsFromSerialized L localeCompare (serializePayrollIntegrityBuildRequest input)
     = buildPayrollIntegrityInputs L localeCompare input"
proof -
  have "rmap line_from_request (map (\<lambda>line. \<lparr>lq_line = line\<lparr>li_dueAt := 0, li_validUntil := 0\<rparr>,
      lq_dueAt = toString (li_dueAt line), lq_validUntil = toString (li_validUntil line)\<rparr>) ls) = Inr ls" for ls
    by (induction ls) (simp_all add: line_from_request_def)
  then show ?thesis
    by (simp add: buildPayrollIntegrityInputsFromSerialized_def serializePayrollIntegrityBuildRequest_def)
qed

section \<open>The shards cover the run\<close>

lemma padded_slices:
  assumes "length xs \<le> 50"
  shows "padded 26 d (take 26 xs) = take 26 (padded 50 d xs)" "padded 26 d (take 26 (drop 24 xs)) = drop 24 (padded 50 d xs)"
    "padded 25 d (take 25 xs) = take 25 (padded 50 d xs)" "padded 25 d (take 25 (drop 25 xs)) = drop 25 (padded 50 d xs)"
  using assms by (intro nth_equalityI; auto simp: nth_padded)+

lemma pad_to_take [simp]: "pad_to (take n xs) n d = Inr (padded n d (take n xs))"
  by (simp add: pad_to_def)

lemma makeShard_slices:
  assumes "makeShard L input common cycle al pl aw lw pw fw i = Inr s"
  shows "sh_agreements s = padded 26 emptyAgreement (take 26 (drop (if i = 0 then 0 else 24) aw))"
    "sh_lines s = padded 25 emptyLine (take 25 (drop (if i = 0 then 0 else 25) lw))"
    "sh_agreement_leaves s = al" "sh_payroll_leaves s = pl" "sh_policies s = pw" "sh_fx_snapshots s = fw"
    "up_shardIndex (sh_public s) = up_shardIndex (common (toString (int i)))"
  using assms unfolding makeShard_def Let_def by (auto simp: rbind_Inr_iff)

lemma prepared_length: "prepareAgreementDetails L lines pd = Inr ps \<Longrightarrow> length ps = length lines"
  unfolding prepareAgreementDetails_def Let_def by (auto simp: rbind_Inr_iff dest!: rmap_length split: if_split_asm)

lemma leaf_texts_Inr: "leaf_texts ls = Inr ts \<Longrightarrow> ts = padded 64 (toString (bigint PAYO_PROOF_EMPTY_LEAF)) (map (\<lambda>l. toString (bigint l)) ls)"
  by (auto simp: leaf_texts_def pad_to_def split: if_split_asm)

text \<open>C19: The two shards prove the whole run.  Side by side their lines are the lines of the run padded to fifty, so
  no line is proved twice and none is left out; each shard has the agreements of its own lines and the one
  next to them across the boundary, which is how the order of the run is checked through it; and both
  shards are given all the leaves of both trees, whose roots are the roots of the build.\<close>

theorem shards_cover_run:
  assumes "buildPayrollIntegrityInputs L localeCompare input = Inr b" "ib_circuitInputs b = (first, second)"
  shows "sh_lines first @ sh_lines second = padded 50 emptyLine (map bn_line (ib_proofBindings b))
    \<and> length (sh_lines first) = 25
    \<and> sh_agreements first = take 26 (padded 50 emptyAgreement (map bn_agreement (ib_proofBindings b)))
    \<and> sh_agreements second = drop 24 (padded 50 emptyAgreement (map bn_agreement (ib_proofBindings b)))
    \<and> (\<forall>shard \<in> {first, second}.
         sh_agreement_leaves shard = padded 64 (toString (bigint PAYO_PROOF_EMPTY_LEAF))
           (map (\<lambda>q. toString (bigint (bn_agreementLeaf q))) (ib_proofBindings b))
         \<and> sh_payroll_leaves shard = padded 64 (toString (bigint PAYO_PROOF_EMPTY_LEAF))
           (map (\<lambda>q. toString (bigint (bn_payrollLeaf q))) (ib_proofBindings b)))
    \<and> buildProofFixedMerkleRoot L (map bn_agreementLeaf (ib_proofBindings b)) = Inr (ib_agreementRoot b)
    \<and> buildProofFixedMerkleRoot L (map bn_payrollLeaf (ib_proofBindings b)) = Inr (ib_manifestRoot b)"
  using assms(1)
proof (rule build_stages)
  fix chainId sealAddress secret pd fxDetails agreements prepared roots common al pl aw lw pw fw cycle f s
  assume c: "input_checks L input = Inr (chainId, sealAddress, secret)"
    "prepareAgreementDetails L (ri_lines input) pd = Inr agreements"
    "rmap (integrity_line L (ri_validityStart input) fxDetails) agreements = Inr prepared"
    "build_roots L input prepared = Inr roots" "ib_agreementRoot b = rr_agreement roots" "ib_manifestRoot b = rr_manifest roots"
    "leaf_texts (map (\<lambda>e. prep_agreementTerms (ln_agreement e)) prepared) = Inr al" "leaf_texts (map ln_payrollLeaf prepared) = Inr pl"
    "buildAgreementWitnesses L (map ln_agreement prepared) pd = Inr aw" "rmap (line_witness_of L) prepared = Inr lw"
    "makeShard L input common cycle al pl aw lw pw fw 0 = Inr f" "makeShard L input common cycle al pl aw lw pw fw 1 = Inr s"
    "ib_circuitInputs b = (f, s)"
    "ib_proofBindings b = map (proof_binding_of fw) (zip (enumerate 0 prepared) (zip aw lw))"
  note bs = bindings_zip [OF c(10,9,14)]
  have small: "length prepared \<le> 50"
    using input_checks_Inr(2) [OF c(1)] prepared_length [OF c(2)] rmap_length [OF c(3)] by simp
  have maps: "map bn_line (ib_proofBindings b) = lw" "map bn_agreement (ib_proofBindings b) = aw"
    "map bn_agreementLeaf (ib_proofBindings b) = map (\<lambda>e. prep_agreementTerms (ln_agreement e)) prepared"
    "map bn_payrollLeaf (ib_proofBindings b) = map ln_payrollLeaf prepared"
    using bs by (auto intro!: nth_equalityI simp: proof_binding_of_def)
  then have texts: "map (\<lambda>q. toString (bigint (bn_agreementLeaf q))) (ib_proofBindings b)
      = map (\<lambda>l. toString (bigint l)) (map (\<lambda>e. prep_agreementTerms (ln_agreement e)) prepared)"
    "map (\<lambda>q. toString (bigint (bn_payrollLeaf q))) (ib_proofBindings b)
      = map (\<lambda>l. toString (bigint l)) (map ln_payrollLeaf prepared)"
    by (metis (no_types, lifting) map_map o_def map_eq_conv)+
  have fs: "first = f" "second = s" using assms(2) c(13) by simp_all
  have "length lw \<le> 50" "length aw \<le> 50" using bs(2,3) small by simp_all
  note slices = padded_slices [OF this(1)] padded_slices [OF this(2)]
  show ?thesis
    using makeShard_slices [OF c(11)] makeShard_slices [OF c(12)] leaf_texts_Inr [OF c(7)] leaf_texts_Inr [OF c(8)] c(4)
    unfolding maps texts fs c(5,6) by (auto simp: slices build_roots_def rbind_Inr_iff)
qed

section \<open>The circuit's policy gives the line's deductions\<close>

lemma instruction_value_mono:
  "inputs \<subseteq>\<^sub>m inputs' \<Longrightarrow> instruction_value inputs registers i = Inr v \<Longrightarrow> instruction_value inputs' registers i = Inr v"
  by (cases i) (auto simp: map_le_def dom_def split: option.splits)

lemma evaluate_steps_mono:
  "inputs \<subseteq>\<^sub>m inputs' \<Longrightarrow> rfold (evaluate_step inputs) r is = Inr s \<Longrightarrow> rfold (evaluate_step inputs') r is = Inr s"
proof (induction "is" arbitrary: r)
  case (Cons i "is")
  from Cons.prems(2) obtain r' where r': "evaluate_step inputs r i = Inr r'" "rfold (evaluate_step inputs) r' is = Inr s"
    by (auto simp: rbind_Inr_iff)
  have "evaluate_step inputs' r i = Inr r'"
    using r'(1) instruction_value_mono [OF Cons.prems(1)] by (auto simp: evaluate_step_def rbind_Inr_iff)
  with Cons.IH [OF Cons.prems(1) r'(2)] show ?case by simp
qed simp

lemma evaluatePolicyPack_mono:
  "inputs \<subseteq>\<^sub>m inputs' \<Longrightarrow> evaluatePolicyPack L pack inputs = Inr outputs \<Longrightarrow> evaluatePolicyPack L pack inputs' = Inr outputs"
  by (auto simp: evaluatePolicyPack_def rbind_Inr_iff dest: evaluate_steps_mono)

definition earning_key :: "nat \<Rightarrow> string" where
  "earning_key i = ''earning_'' @ toString (int i)"

lemma earning_key_inj: "earning_key i = earning_key j \<longleftrightarrow> i = j"
  by (simp add: earning_key_def toString_inj)

lemma fold_inputs:
  "foldl (\<lambda>inputs (index, earning). inputs(earning_key index \<mapsto> earning)) m (enumerate n es) (earning_key j)
     = (if n \<le> j \<and> j < n + length es then Some (es ! (j - n)) else m (earning_key j))"
  by (induction es arbitrary: m n) (auto simp: earning_key_inj nth_Cons' Suc_le_eq)

lemma fold_inputs_other:
  "(\<And>j. k \<noteq> earning_key j) \<Longrightarrow>
     foldl (\<lambda>inputs (index, earning). inputs(earning_key index \<mapsto> earning)) m (enumerate n es) k = m k"
  by (induction es arbitrary: m n) auto

lemma policy_inputs_keys:
  "policy_inputs line (earning_key j) = (if j < length (earningsAtomic line) then Some (earningsAtomic line ! j) else None)"
  "policy_inputs line ''gross'' = Some (grossAtomic line)" "policy_inputs line ''taxable_gross'' = Some (grossAtomic line)"
proof -
  have fold: "policy_inputs line = foldl (\<lambda>inputs (index, earning). inputs(earning_key index \<mapsto> earning))
      [''gross'' \<mapsto> grossAtomic line, ''taxable_gross'' \<mapsto> grossAtomic line] (enumerate 0 (earningsAtomic line))"
    by (simp add: policy_inputs_def earning_key_def)
  have other: "''gross'' \<noteq> earning_key i" "''taxable_gross'' \<noteq> earning_key i" for i by (simp_all add: earning_key_def)
  then show "policy_inputs line (earning_key j) = (if j < length (earningsAtomic line) then Some (earningsAtomic line ! j) else None)"
    unfolding fold fold_inputs by (metis add_0 diff_zero fun_upd_apply le0)
  show "policy_inputs line ''gross'' = Some (grossAtomic line)" "policy_inputs line ''taxable_gross'' = Some (grossAtomic line)"
    unfolding fold using other by (simp_all add: fold_inputs_other)
qed

lemma earning_index_key: "earning_index k = Some i \<Longrightarrow> k = earning_key i \<and> i < 8"
proof -
  assume k: "earning_index k = Some i"
  then have shape: "length k = 9" "take 8 k = ''earning_''" "is_digit (k ! 8)" "hex_val (k ! 8) \<le> 7" "i = hex_val (k ! 8)"
    by (auto simp: earning_index_def split: if_split_asm)
  have "k = take 8 k @ [k ! 8]" using shape(1) by (metis Cons_nth_drop_Suc One_nat_def append_take_drop_id drop_all le_refl lessI numeral_eq_Suc pred_numeral_simps)
  moreover have "toString (int i) = [k ! 8]"
    using shape(3-5) hex_char_hex_val_digit show_base.simps [of 10 "hex_val (k ! 8)"] by (simp add: toString_def)
  ultimately show ?thesis using shape by (simp add: earning_key_def)
qed

text \<open>The circuit reads zero where the line has fewer than eight earnings; the evaluator has no such input.\<close>

definition circuit_inputs :: "calculated_line \<Rightarrow> string \<rightharpoonup> string" where
  "circuit_inputs line key =
     (case policy_inputs line key of Some t \<Rightarrow> Some t | None \<Rightarrow> if earning_index key = None then None else Some ''0'')"

lemma circuit_inputs_match:
  assumes "calculatePayrollLine l = Inr line"
  shows "inputs_match (circuit_inputs line) (bigint (grossAtomic line)) (map bigint (padded 8 ''0'' (earningsAtomic line)))"
proof -
  have ok: "list_all atomicAmount_ok (earningsAtomic line)" "atomicAmount_ok (grossAtomic line)" "atomicAmount_ok ''0''"
    using assms calculatePayrollLine_fields(7) [OF assms]
    by (auto simp: calculatePayrollLine_Inr_iff Let_def privatePayrollLine_ok_def private_line.defs calculated_line.defs
        atomicAmount_ok_iff canonical_dec_def PAYO_MAX_U128_value bigint_def value_base_def hex_val_def)
  have "\<exists>t. circuit_inputs line key = Some t \<and> atomicAmount_ok t \<and> bigint t = map bigint (padded 8 ''0'' (earningsAtomic line)) ! i"
    if key: "earning_index key = Some i" for key i
  proof -
    from earning_index_key [OF key] have i: "key = earning_key i" "i < 8" by simp_all
    show ?thesis
      using ok key i by (auto simp: circuit_inputs_def policy_inputs_keys(1) nth_padded list_all_length)
  qed
  then show ?thesis using ok(2) by (auto simp: inputs_match_def circuit_inputs_def policy_inputs_keys(2,3))
qed

lemma statutory_output_values:
  assumes "list_all2 (\<lambda>(n, r) (m, t). n = m \<and> t = g r) outs evaluated"
  shows "statutory_output evaluated = map_option g (statutory_output outs)"
proof -
  have "map_of evaluated n = map_option g (map_of outs n)" for n
    using assms by (induction rule: list_all2_induct) auto
  moreover have "outs = [] \<longleftrightarrow> evaluated = []" using assms by (auto dest: list_all2_lengthD)
  moreover have "fst (hd outs) = fst (hd evaluated) \<and> snd (hd evaluated) = g (snd (hd outs))" if "outs \<noteq> []"
    using assms that by (cases outs; cases evaluated) auto
  ultimately show ?thesis
    by (auto simp: statutory_output_def split: option.split list.split)
qed

lemma statutory_output_mem: "statutory_output outs = Some r \<Longrightarrow> \<exists>n. (n, r) \<in> set outs"
  by (auto simp: statutory_output_def dest!: map_of_SomeD split: option.splits list.splits)

text \<open>When the evaluator of the pack gives \<open>d\<close> and the circuit gives \<open>v\<close> on the same line, they are equal.\<close>

lemma policy_output_circuit:
  assumes "calculatePayrollLine l = Inr line" "policyOutput L pack line = Inr d" "compilePolicyPack L pack = Inr program"
    and "evaluate_policy program (bigint (grossAtomic line)) (map bigint (padded 8 ''0'' (earningsAtomic line))) = Some v"
  shows "v = d"
proof -
  obtain ev t where ev: "evaluatePolicyPack L pack (policy_inputs line) = Inr ev" "statutory_output ev = Some t" "d = bigint t"
    using assms(2) by (auto simp: policyOutput_def rbind_Inr_iff split: option.splits)
  have "policy_inputs line \<subseteq>\<^sub>m circuit_inputs line" by (auto simp: map_le_def circuit_inputs_def)
  note ev' = evaluatePolicyPack_mono [OF this ev(1)]
  obtain out reg where out: "evaluatePolicyPack L pack (circuit_inputs line) = Inr out"
    "statutory_output (pk_outputs pack) = Some reg" "\<And>n. (n, reg) \<in> set (pk_outputs pack) \<Longrightarrow> (n, toString v) \<in> set out" "0 \<le> v"
    using compile_correct [OF assms(3,4) circuit_inputs_match [OF assms(1)]] by blast
  have "out = ev" using out(1) ev' by simp
  obtain regs where regs: "rmap (\<lambda>(name, register). rbind (load regs register) (\<lambda>v. Inr (name, toString v))) (pk_outputs pack) = Inr ev"
    and distinct: "distinct (map fst (pk_outputs pack))"
    using ev(1) by (auto simp: evaluatePolicyPack_def policyPackSchema_def rbind_Inr_iff)
  then have vals: "list_all2 (\<lambda>(n, r) (m, t). n = m \<and> t = toString (the (regs r))) (pk_outputs pack) ev"
    by (auto simp: rmap_Inr_iff rbind_Inr_iff load_def elim!: list_all2_mono split: option.splits)
  then have t: "t = toString (the (regs reg))" using statutory_output_values [OF vals] ev(2) out(2) by simp
  obtain n where n: "(n, reg) \<in> set (pk_outputs pack)" using statutory_output_mem [OF out(2)] by blast
  from out(3) [OF n] have mem: "(n, toString v) \<in> set ev" using \<open>out = ev\<close> by simp
  have keys: "map fst ev = map fst (pk_outputs pack)"
    using vals by (auto simp: list_all2_conv_all_nth split_beta intro!: nth_equalityI)
  have "(n, toString (the (regs reg))) \<in> set ev"
    using n vals by (force simp: list_all2_conv_all_nth in_set_conv_nth split_beta prod_eq_iff)
  then have "toString v = toString (the (regs reg))" using mem distinct keys by (metis eq_key_imp_eq_value)
  then have "toString v = t" using t by simp
  then show ?thesis using ev(3) out(4) by (metis bigint_toString)
qed

text \<open>The texts of a slot are a compiled program.\<close>

definition carries_program :: "program_witness \<Rightarrow> compiled_program \<Rightarrow> bool" where
  "carries_program w p \<longleftrightarrow>
     gw_instruction_count w = toString (cp_instructionCount p) \<and> gw_opcodes w = map toString (cp_opcodes p)
     \<and> gw_left w = map toString (cp_left p) \<and> gw_right w = map toString (cp_right p) \<and> gw_immediate w = cp_immediate p
     \<and> gw_numerator w = cp_numerator p \<and> gw_denominator w = cp_denominator p
     \<and> gw_output_register w = toString (cp_outputRegister p)"

lemma policy_witness_program:
  "policy_witness_of L (d, m) = Inr w \<Longrightarrow> ps_enabled w \<and> carries_program (ps_program w) (dp_compiled d)"
  by (auto simp: policy_witness_of_def Let_def rbind_Inr_iff carries_program_def)

lemma policy_slots_nth:
  assumes "policy_slots L pd ms = Inr ws" "length ms = length pd" "i < length pd"
  shows "ps_enabled (ws ! i) \<and> carries_program (ps_program (ws ! i)) (dp_compiled (pd ! i))"
proof -
  obtain vs where vs: "rmap (policy_witness_of L) (zip pd ms) = Inr vs" "pad_to vs 4 no_policy = Inr ws"
    using assms(1) by (auto simp: policy_slots_def)
  have "length vs = length pd" using rmap_length [OF vs(1)] assms(2) by simp
  then have "ws ! i = vs ! i" using vs(2) assms(3) by (auto simp: pad_to_def nth_padded split: if_split_asm)
  moreover have "policy_witness_of L (pd ! i, ms ! i) = Inr (vs ! i)"
    using vs(1) assms(2,3) by (auto simp: rmap_Inr_iff list_all2_conv_all_nth)
  ultimately show ?thesis using policy_witness_program by simp
qed

lemma line_witness_slot: "line_witness_of L p = Inr w \<Longrightarrow> lw_policy_slot w = toString (int (prep_policySlot (ln_agreement p)))"
  by (auto simp: line_witness_of_def Let_def rbind_Inr_iff)

text \<open>C10: The circuit agrees with the deductions of the run.  For every line of a built run, the policy slot its
  witness names is enabled in both shards and carries the texts of the compiled program of a policy with
  the line's policy id; and if the circuit's machine evaluates that program on the line's gross and its
  earnings, padded with zeros to eight, the value is the sum of the line's deductions.\<close>

theorem circuit_policy_matches:
  assumes "buildPayrollIntegrityInputs L localeCompare input = Inr b" "ib_circuitInputs b = (first, second)"
    and "q \<in> set (ib_proofBindings b)"
  shows "\<exists>slot pack program. lw_policy_slot (bn_line q) = toString (int slot)
    \<and> pack \<in> set (ri_policies input) \<and> pk_id pack = li_policyId (bn_source q) \<and> compilePolicyPack L pack = Inr program
    \<and> (\<forall>shard \<in> {first, second}. ps_enabled (sh_policies shard ! slot)
         \<and> carries_program (ps_program (sh_policies shard ! slot)) program)
    \<and> (\<forall>v. evaluate_policy program (bigint (grossAtomic (bn_calculated q)))
             (map bigint (padded 8 ''0'' (earningsAtomic (bn_calculated q)))) = Some v
           \<longrightarrow> v = bigint (deductionsTotalAtomic (bn_calculated q)))"
  using assms(1)
proof (rule build_stages)
  fix pd policyMemberships fxDetails agreements prepared common al pl aw lw pw fw cycle f s
  assume c: "rmap (prepare_policy L) (ri_policies input) = Inr pd"
    "buildProofCatalog L (map dp_commitment pd) = Inr (ib_policyRoot b, policyMemberships)"
    "prepareAgreementDetails L (ri_lines input) pd = Inr agreements"
    "rmap (integrity_line L (ri_validityStart input) fxDetails) agreements = Inr prepared"
    "buildAgreementWitnesses L (map ln_agreement prepared) pd = Inr aw" "rmap (line_witness_of L) prepared = Inr lw"
    "policy_slots L pd policyMemberships = Inr pw"
    "makeShard L input common cycle al pl aw lw pw fw 0 = Inr f" "makeShard L input common cycle al pl aw lw pw fw 1 = Inr s"
    "ib_circuitInputs b = (f, s)"
    "ib_proofBindings b = map (proof_binding_of fw) (zip (enumerate 0 prepared) (zip aw lw))"
  note bs = bindings_zip [OF c(6,5,11)] and packs = prepare_policies [OF c(1)]
  obtain i where i: "i < length prepared" "q = ib_proofBindings b ! i" using assms(3) bs(1) by (metis in_set_conv_nth)
  define e slot where "e = ln_agreement (prepared ! i)" and "slot = prep_policySlot e"
  have q: "bn_source q = prep_source e" "bn_calculated q = prep_calculated e" "bn_line q = lw ! i"
    using bs(4) [OF i(1)] by (simp_all add: i(2) proof_binding_of_def e_def)
  have "e \<in> set agreements" using prepared_lines(1) [OF c(4)] i(1) by (metis e_def length_map nth_map nth_mem)
  then have ok: "line_ok L pd e" by (rule prepared_ok [OF c(3)])
  then have slot: "slot < length pd" "pk_id (dp_pack (pd ! slot)) = li_policyId (bn_source q)"
    "calculatePayrollLine (input_line (bn_source q)) = Inr (bn_calculated q)"
    "policyOutput L (dp_pack (pd ! slot)) (bn_calculated q) = Inr (bigint (deductionsTotalAtomic (bn_calculated q)))"
    by (simp_all add: line_ok_def slot_def q Let_def)
  have program: "compilePolicyPack L (dp_pack (pd ! slot)) = Inr (dp_compiled (pd ! slot))" using packs(2) slot(1) by simp
  have member: "dp_pack (pd ! slot) \<in> set (ri_policies input)" unfolding packs(1) [symmetric] using slot(1) by simp
  have "line_witness_of L (prepared ! i) = Inr (lw ! i)" using c(6) i(1) by (simp add: rmap_Inr_iff list_all2_conv_all_nth)
  from line_witness_slot [OF this] have "lw_policy_slot (bn_line q) = toString (int slot)" by (simp add: q slot_def e_def)
  moreover have "length policyMemberships = length pd" using catalog_memberships_length [OF c(2)] by simp
  from policy_slots_nth [OF c(7) this slot(1)]
  have "\<forall>shard \<in> {first, second}. ps_enabled (sh_policies shard ! slot)
      \<and> carries_program (ps_program (sh_policies shard ! slot)) (dp_compiled (pd ! slot))"
    using makeShard_slices(5) [OF c(8)] makeShard_slices(5) [OF c(9)] assms(2) c(10) by auto
  ultimately show ?thesis
    using member slot(2) program policy_output_circuit [OF slot(3,4) program] by blast
qed

end
