(* ===== verification/Input_Example.thy ===== *)
theory Input_Example
  imports Input_Properties
begin

text \<open>
  A run with one line, taken through the whole input builder under the reference library: what it needs to
  succeed at each step, and the run at which the properties of theory Input_Properties are instantiated.
\<close>

section \<open>The steps that hash succeed\<close>

lemma single_catalog_total:
  assumes "hex_lib_ok L" "poseidon_32 L" "commitment_ok c"
  shows "\<exists>root m. buildProofCatalog L [c] = Inr (root, [m]) \<and> commitment_ok root"
proof -
  have node: "commitment_ok l \<Longrightarrow> commitment_ok r \<Longrightarrow>
      proofMerkleNode L l r = Inr (proof_node L l r) \<and> commitment_ok (proof_node L l r)" for l r
    by (rule proofMerkleNode_total [OF assms(2)])
  obtain bs x where x: "normalizedHexBytes L c (Some 32) = Inr bs" "proofCatalogLeaf L (toHex L bs) = Inr x" "commitment_ok x"
    using catalog_leaf_total [OF assms] by blast
  define leaves where "leaves = padded PAYO_MERKLE_LEAF_COUNT PAYO_PROOF_EMPTY_LEAF [x]"
  have all: "\<forall>x \<in> set leaves. commitment_ok x" "length leaves = 2 ^ 6"
    using x(3) empty_leaf_ok padded_all [of commitment_ok "[x]"] by (simp_all add: leaves_def PAYO_MERKLE_LEAF_COUNT_def)
  have loop: "merkle_loop (proofMerkleNode L) leaves = Inr [tree_root (proof_node L) 6 leaves]"
    by (rule merkle_loop_tree [where P = commitment_ok, OF node all])
  obtain ss bits where path: "path_loop (proofMerkleNode L) 0 leaves = Inr (ss, bits, [tree_root (proof_node L) 6 leaves])"
    using path_loop_tree [of commitment_ok "proofMerkleNode L" "proof_node L", OF node all, of 0] by auto
  have "commitment_ok (tree_root (proof_node L) 6 leaves)"
    by (rule tree_root_all [where P = commitment_ok, OF _ all]) (use node in blast)
  then show ?thesis
    using x(1,2) loop path
    by (simp add: buildProofCatalog_def PAYO_MERKLE_LEAF_COUNT_def canonical_leaf_def leaves_def [unfolded PAYO_MERKLE_LEAF_COUNT_def, symmetric])
qed

lemma demo_commitment_total:
  assumes "commitment_ok m"
  shows "\<exists>h. compiledPolicyProgramCommitment ref_lib (demo_program m) = Inr h \<and> commitment_ok h"
proof -
  obtain metadata where metadata: "normalizedHexBytes ref_lib m (Some 32) = Inr metadata"
    using leaf_bytes_commitment [OF ref_lib_hex assms] by blast
  have small: "list_all (\<lambda>i. bigint (cp_immediate (demo_program m) ! i) < 256 ^ 8 \<and> bigint (cp_numerator (demo_program m) ! i) < 256 ^ 8
      \<and> bigint (cp_denominator (demo_program m) ! i) < 256 ^ 8) [0..<PAYO_MAX_POLICY_STEPS]"
    by code_simp
  have enc: "\<exists>bs. encodeUint v n = Inr bs" if "0 \<le> v" "v < 256 ^ 8" "8 \<le> n" for v n
  proof -
    have "(256::int) ^ 8 \<le> 256 ^ n" using that(3) by (rule power_increasing) simp
    with that show ?thesis using encodeUint_total [of v n] by simp
  qed
  define chunk where "chunk index = rbind (encodeUint (bigint (cp_immediate (demo_program m) ! index)) 16) (\<lambda>immediate.
            rbind (encodeUint (bigint (cp_numerator (demo_program m) ! index)) 8) (\<lambda>numerator.
            rbind (encodeUint (bigint (cp_denominator (demo_program m) ! index)) 8) (\<lambda>denominator.
            Inr [[word_of_int (cp_opcodes (demo_program m) ! index), word_of_int (cp_left (demo_program m) ! index),
                  word_of_int (cp_right (demo_program m) ! index)], immediate, numerator, denominator])))" for index
  have "chunk i = Inr (projr (chunk i))" if "i \<in> set [0..<PAYO_MAX_POLICY_STEPS]" for i
  proof -
    from small that have "bigint (cp_immediate (demo_program m) ! i) < 256 ^ 8" "bigint (cp_numerator (demo_program m) ! i) < 256 ^ 8"
      "bigint (cp_denominator (demo_program m) ! i) < 256 ^ 8" unfolding list_all_iff by blast+
    then have "\<exists>a. encodeUint (bigint (cp_immediate (demo_program m) ! i)) 16 = Inr a"
      "\<exists>b. encodeUint (bigint (cp_numerator (demo_program m) ! i)) 8 = Inr b"
      "\<exists>c. encodeUint (bigint (cp_denominator (demo_program m) ! i)) 8 = Inr c"
      by (intro enc; simp)+
    then obtain a b c where "encodeUint (bigint (cp_immediate (demo_program m) ! i)) 16 = Inr a"
      "encodeUint (bigint (cp_numerator (demo_program m) ! i)) 8 = Inr b" "encodeUint (bigint (cp_denominator (demo_program m) ! i)) 8 = Inr c"
      by blast
    then show ?thesis by (simp add: chunk_def)
  qed
  then have "rmap chunk [0..<PAYO_MAX_POLICY_STEPS] = Inr (map (\<lambda>i. projr (chunk i)) [0..<PAYO_MAX_POLICY_STEPS])"
    by (rule rmap_total)
  moreover have "cp_instructionCount (demo_program m) = 16" "cp_metadataCommitment (demo_program m) = m"
    by (simp_all add: demo_program_def)
  moreover have "\<exists>bs. encodeU32 16 = Inr bs" by (simp add: encodeU32_def)
  ultimately show ?thesis
    using metadata ref_lib_keccak
    by (auto simp: compiledPolicyProgramCommitment_def PAYO_MAX_POLICY_STEPS_def chunk_def [abs_def] toHex_commitment_ok keccak_32_def)
qed

section \<open>The run\<close>

definition example_hex :: string where "example_hex = ''0x'' @ replicate 64 (CHR ''c'')"

lemma example_hex_ok: "commitment_ok example_hex"
  by code_simp

definition example_input_line :: line_input where
  "example_input_line = \<lparr>li_agreementId = ''a1'', li_recipientAddress = ''0x1'', li_recipientSalt = example_hex,
     li_agreementSalt = example_hex, li_lineSalt = example_hex, li_token = USDC, li_earningsAtomic = [''3000''],
     li_deductionsAtomic = [''500''], li_policyId = ''demo-progressive-reference-v1'', li_scheduleCommitment = example_hex,
     li_dueAt = 1768000000, li_validUntil = 1799999999, li_declared = 2, li_score = 40, li_employeeThreshold = 60,
     li_finalPay = None, li_fxFloorAtomic = None, li_referenceCurrency = USD\<rparr>"

definition example_snapshot :: fx_snapshot where
  "example_snapshot = \<lparr>fx_baseToken = USDC, fx_referenceCurrency = ''USD'', fx_feedId = ''USDC/USD'', fx_quoteDecimals = 6,
     fx_medianPriceAtomic = ''1000000'', fx_conservativePriceAtomic = ''990000'', fx_haircutBps = 100,
     fx_observedAt = ''2026-01-10T09:00:00Z'', fx_minimumSourceCount = 1, fx_maximumAgeSeconds = 3600,
     fx_sources = [\<lparr>fq_source = ''a'', fq_priceAtomic = ''1000000'', fq_observedAt = ''2026-01-10T09:00:00Z''\<rparr>],
     fx_aggregatedSourceCount = None\<rparr>"

definition example_run :: run_input where
  "example_run = \<lparr>ri_chainId = ''0x1'', ri_sealAddress = ''0x2'', ri_organizationSecret = example_hex, ri_cycleId = ''2026-01'',
     ri_revision = 1, ri_validityStart = 1768035700, ri_validityExpiry = 1768036000,
     ri_policies = [DEMO_PROGRESSIVE_POLICY], ri_fxSnapshots = [example_snapshot], ri_lines = [example_input_line]\<rparr>"

abbreviation same_text :: "string \<Rightarrow> string \<Rightarrow> int" where
  "same_text \<equiv> (\<lambda>_ _. 0)"

text \<open>The exchange rate.\<close>

definition example_circuit :: "string \<Rightarrow> string \<Rightarrow> circuit_fx" where
  "example_circuit feed srcs = \<lparr>cf_token = 1, cf_tokenDecimals = 6, cf_referenceCurrency = 0, cf_feedCommitment = feed,
     cf_sourcesCommitment = srcs, cf_priceNumerator = ''1000000'', cf_priceDenominator = ''1000000'',
     cf_observedAt = ''1768035600'', cf_sourceCount = 1, cf_minimumSourceCount = 1, cf_maximumAgeSeconds = ''3600'',
     cf_haircutBps = 100\<rparr>"

lemma example_fx:
  "\<exists>feed srcs c. fx_detail_of ref_lib same_text example_snapshot
       = Inr \<lparr>fd_snapshot = example_snapshot, fd_circuit = example_circuit feed srcs, fd_commitment = c\<rparr>
     \<and> commitment_ok feed \<and> commitment_ok srcs \<and> commitment_ok c"
proof -
  have schema: "fxSnapshotSchema example_snapshot" by code_simp
  have short: "length (stableJson (JArr (map quote_json (fx_sources example_snapshot)))) \<le> 160" by code_simp
  have texts: "toString (10 ^ 6) = ''1000000''" "toString (getTime ''2026-01-10T09:00:00Z'' div 1000) = ''1768035600''"
    "toString 3600 = ''3600''" by code_simp+
  obtain f g where f: "hashTextCommitment ref_lib ''PAYO_FX_FEED_V1'' ''USDC/USD'' = Inr f"
    and g: "hashTextCommitment ref_lib ''PAYO_FX_SOURCES_V1'' (stableJson (JArr (map quote_json (fx_sources example_snapshot)))) = Inr g"
    using hashTextCommitment_total [OF short] hashTextCommitment_total [of "''USDC/USD''"] by fastforce
  have ok: "commitment_ok (toHex ref_lib f)" "commitment_ok (toHex ref_lib g)"
    using hashTextCommitment_length [OF ref_lib_keccak f] hashTextCommitment_length [OF ref_lib_keccak g]
    by (simp_all add: toHex_commitment_ok)
  have sort: "sort_by (\<lambda>left right. (0::int)) [q] = [q]" for q :: source_quote by (simp add: sort_by_def)
  have circuit: "toCircuitFxSnapshot ref_lib same_text example_snapshot = Inr (example_circuit (toHex ref_lib f) (toHex ref_lib g))"
    using schema f g texts
    by (simp add: toCircuitFxSnapshot_def example_snapshot_def sort Let_def example_circuit_def)
  obtain u v where uv: "normalizedHexBytes ref_lib (toHex ref_lib f) (Some 32) = Inr u"
    "normalizedHexBytes ref_lib (toHex ref_lib g) (Some 32) = Inr v"
    using leaf_bytes_commitment [OF ref_lib_hex] ok by blast
  have nums: "bigint ''1000000'' = 1000000" "signed_bigint ''1768035600'' = 1768035600" "bigint ''3600'' = 3600" by code_simp+
  have "\<exists>bs. encodeUint w n = Inr bs" if "0 \<le> w" "w < 256 ^ n" for w n using encodeUint_total that by blast
  then have "list_all (\<lambda>r. \<exists>bs. r = Inr bs) (circuit_fx_fields ref_lib (example_circuit (toHex ref_lib f) (toHex ref_lib g)))"
    using uv nums by (simp add: circuit_fx_fields_def example_circuit_def)
  from hash_fields_total [OF ref_lib_hex ref_lib_keccak this]
  obtain c where "fxSnapshotCommitment ref_lib same_text example_snapshot = Inr c" "commitment_ok c"
    unfolding fxSnapshotCommitment_def circuit by auto
  with ok show ?thesis by (auto simp: fx_detail_of_def circuit)
qed

text \<open>The policy and the line.\<close>

definition example_calculated :: calculated_line where
  "example_calculated = \<lparr>agreementId = ''a1'', recipientAddress = ''0x1'', line_token = USDC, earningsAtomic = [''3000''],
     deductionsAtomic = [''500''], committedPolicyId = ''demo-progressive-reference-v1'', scheduleCommitment = example_hex,
     salt = example_hex, grossAtomic = ''3000'', deductionsTotalAtomic = ''500'', netAtomic = ''2500''\<rparr>"

lemma example_line_facts:
  "calculatePayrollLine (input_line example_input_line) = Inr example_calculated"
  "policyOutput ref_lib DEMO_PROGRESSIVE_POLICY example_calculated = Inr 500"
  "bigint ''500'' = 500" "bigint ''0'' = 0" "bigint ''2500'' = 2500" "bigint ''1000000'' = 1000000" "BigInt ''0'' = Inr 0"
  "BigInt ''0x1'' = Inr 1" "BigInt ''0x2'' = Inr 2" "signed_bigint ''1768035600'' = 1768035600" "bigint ''3600'' = 3600"
  "list_all small_amount [''3000'', ''500'', ''0'']" "starknet_address_ok ''0x1''"
  by code_simp+

lemma example_recipient: "\<exists>a. normalizedHexBytes ref_lib ''0x1'' (Some 32) = Inr a"
proof -
  have "list_all is_hex ''01''" by code_simp
  then show ?thesis by (simp add: normalizedHexBytes_def ref_lib_def)
qed

lemma example_policy:
  "\<exists>m c. prepare_policy ref_lib DEMO_PROGRESSIVE_POLICY
       = Inr \<lparr>dp_pack = DEMO_PROGRESSIVE_POLICY, dp_compiled = demo_program m, dp_commitment = c\<rparr>
     \<and> commitment_ok m \<and> commitment_ok c"
proof -
  obtain m where m: "compilePolicyPack ref_lib DEMO_PROGRESSIVE_POLICY = Inr (demo_program m)"
    "policyMetadataCommitment ref_lib DEMO_PROGRESSIVE_POLICY = Inr m" using demo_compiled by blast
  then obtain h where h: "hashTextCommitment ref_lib ''PAYO_POLICY_METADATA_V1'' (stableJson (pack_json DEMO_PROGRESSIVE_POLICY)) = Inr h"
    "m = toHex ref_lib h" by (auto simp: policyMetadataCommitment_def rbind_Inr_iff)
  have "commitment_ok m" using hashTextCommitment_length [OF ref_lib_keccak h(1)] by (simp add: h(2) toHex_commitment_ok)
  moreover from demo_commitment_total [OF this] obtain c where
    "compiledPolicyProgramCommitment ref_lib (demo_program m) = Inr c" "commitment_ok c" by blast
  ultimately show ?thesis using m(1) by (auto simp: prepare_policy_def policyPackCommitment_def)
qed

lemma example_prepared:
  assumes "pd = [\<lparr>dp_pack = DEMO_PROGRESSIVE_POLICY, dp_compiled = demo_program m, dp_commitment = c\<rparr>]" "commitment_ok c"
  shows "\<exists>e. prepareAgreementDetails ref_lib [example_input_line] pd = Inr [e] \<and> prep_source e = example_input_line
    \<and> prep_calculated e = example_calculated \<and> prep_policySlot e = 0 \<and> commitment_ok (prep_idCommitment e)
    \<and> commitment_ok (prep_recipientCommitment e) \<and> commitment_ok (prep_agreementTerms e)"
proof -
  obtain g where g: "hashTextCommitment ref_lib ''PAYO_AGREEMENT_ID_V1'' ''a1'' = Inr g"
    using hashTextCommitment_total [of "''a1''"] by auto
  obtain a b where ab: "normalizedHexBytes ref_lib ''0x1'' (Some 32) = Inr a" "normalizedHexBytes ref_lib example_hex (Some 32) = Inr b"
    using leaf_bytes_commitment [OF ref_lib_hex example_hex_ok] example_recipient by blast
  have len: "length a = 32" "length b = 32" using normalizedHexBytes_Inr(1) [OF ref_lib_hex] ab by blast+
  obtain r where r: "hashRecipientCommitment ref_lib ''0x1'' example_hex = Inr r"
    using hashDomain_total [of "[a, b]" ref_lib "''PAYO_RECIPIENT_V1''"] len ab by (fastforce simp: hashRecipientCommitment_def)
  have "length r = 32" using r ref_lib_keccak by (auto simp: hashRecipientCommitment_def rbind_Inr_iff hashDomain_Inr_iff keccak_32_def)
  then have ok: "commitment_ok (toHex ref_lib g)" "commitment_ok (toHex ref_lib r)"
    using hashTextCommitment_length [OF ref_lib_keccak g] by (simp_all add: toHex_commitment_ok)
  have "terms_ok (line_terms example_input_line example_calculated (toHex ref_lib g) (toHex ref_lib r) c)"
    using ok assms(2) example_line_facts(12) example_hex_ok
    by (simp add: terms_ok_def line_terms_def example_input_line_def example_calculated_def final_components_def required_mask_def fx_floor_def)
  from agreement_commitment_total [OF ref_lib_hex ref_lib_poseidon this] obtain h where
    h: "proofAgreementCommitment ref_lib (line_terms example_input_line example_calculated (toHex ref_lib g) (toHex ref_lib r) c) = Inr h"
    "commitment_ok h" by blast
  let ?e = "\<lparr>prep_source = example_input_line, prep_calculated = example_calculated, prep_idCommitment = toHex ref_lib g,
     prep_recipientCommitment = toHex ref_lib r, prep_agreementTerms = h, prep_policySlot = 0\<rparr>"
  have line: "li_agreementId example_input_line = ''a1''" "li_recipientAddress example_input_line = ''0x1''"
    "li_recipientSalt example_input_line = example_hex" "li_policyId example_input_line = pk_id DEMO_PROGRESSIVE_POLICY"
    "li_employeeThreshold example_input_line = 60" "li_score example_input_line = 40" "li_declared example_input_line = 2"
    "final_components example_input_line = []" "deductionsTotalAtomic example_calculated = ''500''"
    by (simp_all add: example_input_line_def DEMO_PROGRESSIVE_POLICY_def final_components_def example_calculated_def)
  have "prepare_line ref_lib pd example_input_line = Inr ?e"
    using g r h(1) example_line_facts(1,2,3) line by (simp add: prepare_line_def assms(1))
  then have "prepareAgreementDetails ref_lib [example_input_line] pd = Inr [?e]"
    by (simp add: prepareAgreementDetails_def sort_by_def)
  with ok h(2) show ?thesis by auto
qed

section \<open>The inputs are built\<close>

lemma example_payroll_leaf:
  assumes "commitment_ok terms"
  shows "\<exists>h. proofPayrollCommitment ref_lib example_calculated terms
      \<lparr>lm_classificationTreatment = 2, lm_finalIncludedMask = 0, lm_referenceValueAtomic = 2475\<rparr> = Inr h \<and> commitment_ok h"
proof -
  have pads: "map bigint (padded 8 ''0'' (deductionsAtomic example_calculated)) = [500, 0, 0, 0, 0, 0, 0, 0]"
    "length (deductionsAtomic example_calculated) = 1" "salt example_calculated = example_hex"
    using example_line_facts(3,4) by (simp_all add: example_calculated_def padded_def numeral_nat)
  have "group_ok (Inr [bigint terms])" using bigint_commitment_lt [OF assms] by (simp add: group_ok_def)
  moreover have "group_ok (single (packAmountPair 500 0))" "group_ok (single (packAmountPair 0 0))"
    "group_ok (single (rbind (packedAmount 2475) (\<lambda>v. Inr (v + 33 * PACKED_AMOUNT_LIMIT))))"
    by (intro pair_ok floor_ok; simp)+
  moreover have "group_ok (limbs ref_lib example_hex)" by (rule limbs_ok [OF ref_lib_hex example_hex_ok])
  ultimately have groups: "list_all group_ok [Inr [bigint terms], single (packAmountPair 500 0), single (packAmountPair 0 0),
      single (packAmountPair 0 0), single (packAmountPair 0 0),
      single (rbind (packedAmount 2475) (\<lambda>v. Inr (v + 33 * PACKED_AMOUNT_LIMIT))), limbs ref_lib example_hex]"
    by simp
  have domain: "0 \<le> PAYO_PROOF_DOMAIN_PAYROLL_LINE" "PAYO_PROOF_DOMAIN_PAYROLL_LINE < 2 ^ 256" by code_simp+
  from grouped_hash_total [OF ref_lib_poseidon groups domain] show ?thesis
    by (simp add: proofPayrollCommitment_def pads Let_def)
qed

lemma example_line:
  assumes "prep_source e = example_input_line" "prep_calculated e = example_calculated" "commitment_ok (prep_agreementTerms e)"
  shows "\<exists>p. integrity_line ref_lib 1768035700
        [\<lparr>fd_snapshot = example_snapshot, fd_circuit = example_circuit feed srcs, fd_commitment = c\<rparr>] e = Inr p
      \<and> ln_agreement p = e \<and> ln_fxSlot p = 0 \<and> ln_referenceValue p = 2475 \<and> commitment_ok (ln_payrollLeaf p)"
proof -
  have price: "reference_value (example_circuit feed srcs) 2500 = 2475"
    by (simp add: reference_value_def example_circuit_def example_line_facts(6) bdiv_def)
  obtain h where h: "proofPayrollCommitment ref_lib example_calculated (prep_agreementTerms e)
      \<lparr>lm_classificationTreatment = 2, lm_finalIncludedMask = 0, lm_referenceValueAtomic = 2475\<rparr> = Inr h" "commitment_ok h"
    using example_payroll_leaf [OF assms(3)] by blast
  have line: "li_token example_input_line = USDC" "li_referenceCurrency example_input_line = USD" "li_dueAt example_input_line = 1768000000"
    "li_validUntil example_input_line = 1799999999" "fx_floor example_input_line = ''0''" "li_declared example_input_line = 2"
    "included_mask example_input_line = 0" "fx_baseToken example_snapshot = USDC" "fx_referenceCurrency example_snapshot = ''USD''"
    "netAtomic example_calculated = ''2500''"
    by (simp_all add: example_input_line_def example_snapshot_def example_calculated_def fx_floor_def included_mask_def)
  show ?thesis
    using h example_line_facts(5,7) price by (simp add: integrity_line_def assms(1,2) line)
qed

lemma bytes32_total: "commitment_ok s \<Longrightarrow> \<exists>bs. bytes32 ref_lib s = Inr bs"
  unfolding bytes32_def by (rule normalizedHexBytes_commitment [OF ref_lib_hex])

lemma root_limbs_total: "commitment_ok s \<Longrightarrow> \<exists>q. root_limbs ref_lib s = Inr q"
  using normalizedHexBytes_commitment [OF ref_lib_hex] by (fastforce simp: root_limbs_def splitHashToU128_def)

lemma single_root_total:
  assumes "commitment_ok l"
  shows "\<exists>r. buildProofFixedMerkleRoot ref_lib [l] = Inr r \<and> commitment_ok r"
proof -
  have ok: "list_all commitment_ok [l]" using assms by simp
  have node: "commitment_ok l \<Longrightarrow> commitment_ok r \<Longrightarrow> commitment_ok (proof_node ref_lib l r)" for l r
    using proofMerkleNode_total [OF ref_lib_poseidon] by blast
  have "commitment_ok (tree_root (proof_node ref_lib) 6 (canonical_tree ref_lib [l]))"
    by (rule tree_root_all [where P = commitment_ok, OF node fixed_level_total(2,3) [OF ref_lib_hex ok]])
  with fixed_root_total [OF ref_lib_hex ref_lib_poseidon _ ok] show ?thesis by simp
qed

lemma example_run_nullifier: "\<exists>n. deriveRunNullifier ref_lib example_hex ''2026-01'' 1 = Inr n \<and> commitment_ok n"
proof -
  obtain a where a: "normalizedHexBytes ref_lib example_hex (Some 32) = Inr a"
    using normalizedHexBytes_commitment [OF ref_lib_hex example_hex_ok] by blast
  have len: "length a = 32" using normalizedHexBytes_Inr [OF ref_lib_hex a] by simp
  obtain r where r: "encodeU32 1 = Inr r" "length r = 4" by (auto simp: encodeU32_def encodeUint_Inr_iff)
  obtain h where h: "hashDomain ref_lib ''PAYO_RUN_V1'' [a, utf8 ''2026-01'', r] = Inr h"
    using hashDomain_total [of "[a, utf8 ''2026-01'', r]" ref_lib "''PAYO_RUN_V1''"] len r(2) by (fastforce simp: utf8_def)
  then have "length h = 32" using ref_lib_keccak by (auto simp: hashDomain_Inr_iff keccak_32_def)
  with a r(1) h show ?thesis by (simp add: deriveRunNullifier_def toHex_commitment_ok)
qed

lemma example_roots:
  assumes "commitment_ok (prep_agreementTerms (ln_agreement p))" "commitment_ok (ln_payrollLeaf p)"
  shows "\<exists>r. build_roots ref_lib example_run [p] = Inr r \<and> commitment_ok (rr_agreement r) \<and> commitment_ok (rr_manifest r)
    \<and> commitment_ok (rr_nullifier r)"
proof -
  obtain a where a: "buildProofFixedMerkleRoot ref_lib [prep_agreementTerms (ln_agreement p)] = Inr a" "commitment_ok a"
    using single_root_total [OF assms(1)] by blast
  obtain b where b: "buildProofFixedMerkleRoot ref_lib [ln_payrollLeaf p] = Inr b" "commitment_ok b"
    using single_root_total [OF assms(2)] by blast
  obtain n where n: "deriveRunNullifier ref_lib example_hex ''2026-01'' 1 = Inr n" "commitment_ok n"
    using example_run_nullifier by blast
  show ?thesis using a b n by (simp add: build_roots_def example_run_def)
qed

lemma example_common:
  assumes "commitment_ok (rr_agreement r)" "commitment_ok (rr_manifest r)" "commitment_ok (rr_nullifier r)" "commitment_ok p" "commitment_ok f"
  shows "\<exists>common. build_common ref_lib example_run 1 2 r p f = Inr common"
  using assms [THEN root_limbs_total] by (auto simp: build_common_def)

lemma example_agreement_witness:
  assumes "prep_source e = example_input_line" "prep_calculated e = example_calculated" "prep_policySlot e = 0"
    "commitment_ok (prep_idCommitment e)" "commitment_ok (prep_recipientCommitment e)" "commitment_ok c"
    "pd = [\<lparr>dp_pack = DEMO_PROGRESSIVE_POLICY, dp_compiled = demo_program m, dp_commitment = c\<rparr>]"
  shows "\<exists>w. buildAgreementWitnesses ref_lib [e] pd = Inr [w]"
proof -
  have line: "li_scheduleCommitment example_input_line = example_hex" "li_agreementSalt example_input_line = example_hex"
    "li_dueAt example_input_line = 1768000000" "li_validUntil example_input_line = 1799999999"
    "final_components example_input_line = []" "earningsAtomic example_calculated = [''3000'']"
    by (simp_all add: example_input_line_def final_components_def example_calculated_def)
  have "\<exists>w. agreement_witness_of ref_lib pd e = Inr w"
    using bytes32_total [OF assms(4)] bytes32_total [OF assms(5)] bytes32_total [OF assms(6)] bytes32_total [OF example_hex_ok]
    by (auto simp: agreement_witness_of_def assms(1,2,3,7) line pad_to_def boundedUnsigned_def Let_def push_bit_eq_mult)
  then show ?thesis by (auto simp: buildAgreementWitnesses_def)
qed

lemma example_line_witness:
  assumes "prep_source (ln_agreement p) = example_input_line" "prep_calculated (ln_agreement p) = example_calculated"
  shows "\<exists>w. line_witness_of ref_lib p = Inr w"
  using bytes32_total [OF example_hex_ok]
  by (auto simp: line_witness_of_def assms example_input_line_def example_calculated_def pad_to_def Let_def)

lemma example_policy_slots:
  assumes "commitment_ok m" "pd = [\<lparr>dp_pack = DEMO_PROGRESSIVE_POLICY, dp_compiled = demo_program m, dp_commitment = c\<rparr>]"
  shows "\<exists>ws. policy_slots ref_lib pd [k] = Inr ws"
  using bytes32_total [OF assms(1)]
  by (auto simp: policy_slots_def policy_witness_of_def assms(2) Let_def pad_to_def demo_program_def)

lemma example_fx_slots:
  assumes "commitment_ok feed" "commitment_ok srcs"
  shows "\<exists>ws. fx_slots ref_lib [\<lparr>fd_snapshot = s, fd_circuit = example_circuit feed srcs, fd_commitment = c\<rparr>] [k] = Inr ws"
  using bytes32_total [OF assms(1)] bytes32_total [OF assms(2)]
  by (auto simp: fx_slots_def fx_witness_of_def Let_def pad_to_def example_circuit_def)

lemma below_two: "0 < (2 :: nat)" "1 < (2 :: nat)"
  by simp_all

lemma example_shard: "i < 2 \<Longrightarrow> \<exists>s. makeShard ref_lib example_run common cycle al pl aw lw pw fw i = Inr s"
proof -
  have "ri_validityStart example_run = 1768035700" "ri_validityExpiry example_run = 1768036000" "ri_organizationSecret example_run = example_hex"
    by (simp_all add: example_run_def)
  then show ?thesis using bytes32_total [OF example_hex_ok]
    by (auto simp: makeShard_def boundedUnsigned_def Let_def push_bit_eq_mult)
qed

text \<open>The whole run.\<close>

lemma example_catalog_fx:
  "\<exists>feed srcs c root k. buildFxCatalog ref_lib same_text [example_snapshot]
      = Inr ([\<lparr>fd_snapshot = example_snapshot, fd_circuit = example_circuit feed srcs, fd_commitment = c\<rparr>], root, [k])
    \<and> commitment_ok feed \<and> commitment_ok srcs \<and> commitment_ok root"
proof -
  obtain feed srcs c where fx: "fx_detail_of ref_lib same_text example_snapshot
      = Inr \<lparr>fd_snapshot = example_snapshot, fd_circuit = example_circuit feed srcs, fd_commitment = c\<rparr>"
    "commitment_ok feed" "commitment_ok srcs" "commitment_ok c"
    using example_fx by blast
  obtain root k where "buildProofCatalog ref_lib [c] = Inr (root, [k])" "commitment_ok root"
    using single_catalog_total [OF ref_lib_hex ref_lib_poseidon fx(4)] by blast
  then have "buildFxCatalog ref_lib same_text [example_snapshot]
      = Inr ([\<lparr>fd_snapshot = example_snapshot, fd_circuit = example_circuit feed srcs, fd_commitment = c\<rparr>], root, [k])"
    using fx(1) by (simp add: buildFxCatalog_def)
  with fx(2,3) \<open>commitment_ok root\<close> show ?thesis by blast
qed

lemma example_checks: "\<exists>secret. input_checks ref_lib example_run = Inr (1, 2, secret)"
proof -
  have "length (ri_lines example_run) = 1" "length (ri_policies example_run) = 1" "length (ri_fxSnapshots example_run) = 1"
    "ri_revision example_run = 1" "ri_validityStart example_run = 1768035700" "ri_validityExpiry example_run = 1768036000"
    "ri_chainId example_run = ''0x1''" "ri_sealAddress example_run = ''0x2''" "ri_organizationSecret example_run = example_hex"
    by (simp_all add: example_run_def)
  then show ?thesis using bytes32_total [OF example_hex_ok] example_line_facts(8,9)
    by (auto simp: input_checks_def MAX_LINES_def)
qed

lemma example_age:
  "rfold (check_fx_age 1768035700) () [\<lparr>fd_snapshot = s, fd_circuit = example_circuit feed srcs, fd_commitment = c\<rparr>] = Inr ()"
  using example_line_facts(10,11) by (simp add: check_fx_age_def example_circuit_def)

lemma build_from_stages:
  assumes "input_checks L input = Inr (chainId, sealAddress, secret)"
    and "rmap (prepare_policy L) (ri_policies input) = Inr pd"
    and "buildProofCatalog L (map dp_commitment pd) = Inr (policyRoot, policyMemberships)"
    and "buildFxCatalog L localeCompare (ri_fxSnapshots input) = Inr (fd, fxRoot, fxMemberships)"
    and "rfold (check_fx_age (ri_validityStart input)) () fd = Inr ()"
    and "prepareAgreementDetails L (ri_lines input) pd = Inr agreements"
    and "rmap (integrity_line L (ri_validityStart input) fd) agreements = Inr prepared"
    and "build_roots L input prepared = Inr roots"
    and "build_common L input chainId sealAddress roots policyRoot fxRoot = Inr common"
    and "leaf_texts (map (\<lambda>e. prep_agreementTerms (ln_agreement e)) prepared) = Inr al"
    and "leaf_texts (map ln_payrollLeaf prepared) = Inr pl"
    and "buildAgreementWitnesses L (map ln_agreement prepared) pd = Inr aw"
    and "rmap (line_witness_of L) prepared = Inr lw" and "policy_slots L pd policyMemberships = Inr pw"
    and "fx_slots L fd fxMemberships = Inr fw" and "cycleBytes (ri_cycleId input) = Inr cycle"
    and "makeShard L input common cycle al pl aw lw pw fw 0 = Inr s0" "makeShard L input common cycle al pl aw lw pw fw 1 = Inr s1"
  shows "\<exists>b. buildPayrollIntegrityInputs L localeCompare input = Inr b
    \<and> ib_proofBindings b = map (proof_binding_of fw) (zip (enumerate 0 prepared) (zip aw lw))
    \<and> ib_manifestRoot b = rr_manifest roots \<and> ib_runNullifier b = rr_nullifier roots"
  unfolding buildPayrollIntegrityInputs_def Let_def assms rbind_simps prod.case by simp

lemma example_built:
  "\<exists>b q. buildPayrollIntegrityInputs ref_lib same_text example_run = Inr b \<and> ib_proofBindings b = [q]
     \<and> bn_source q = example_input_line \<and> bn_calculated q = example_calculated
     \<and> commitment_ok (ib_manifestRoot b) \<and> commitment_ok (ib_runNullifier b)"
proof -
  obtain m c where policy: "prepare_policy ref_lib DEMO_PROGRESSIVE_POLICY
      = Inr \<lparr>dp_pack = DEMO_PROGRESSIVE_POLICY, dp_compiled = demo_program m, dp_commitment = c\<rparr>" "commitment_ok m" "commitment_ok c"
    using example_policy by blast
  define pd where "pd = [\<lparr>dp_pack = DEMO_PROGRESSIVE_POLICY, dp_compiled = demo_program m, dp_commitment = c\<rparr>]"
  obtain pr pk where pc: "buildProofCatalog ref_lib [c] = Inr (pr, [pk])" "commitment_ok pr"
    using single_catalog_total [OF ref_lib_hex ref_lib_poseidon policy(3)] by blast
  obtain feed srcs fc fr fk where fx: "buildFxCatalog ref_lib same_text [example_snapshot]
      = Inr ([\<lparr>fd_snapshot = example_snapshot, fd_circuit = example_circuit feed srcs, fd_commitment = fc\<rparr>], fr, [fk])"
    "commitment_ok feed" "commitment_ok srcs" "commitment_ok fr"
    using example_catalog_fx by blast
  let ?fd = "[\<lparr>fd_snapshot = example_snapshot, fd_circuit = example_circuit feed srcs, fd_commitment = fc\<rparr>]"
  obtain e where e: "prepareAgreementDetails ref_lib [example_input_line] pd = Inr [e]" "prep_source e = example_input_line"
    "prep_calculated e = example_calculated" "prep_policySlot e = 0" "commitment_ok (prep_idCommitment e)"
    "commitment_ok (prep_recipientCommitment e)" "commitment_ok (prep_agreementTerms e)"
    using example_prepared [OF pd_def policy(3)] by blast
  obtain p where p: "integrity_line ref_lib 1768035700 ?fd e = Inr p" "ln_agreement p = e" "ln_fxSlot p = 0" "commitment_ok (ln_payrollLeaf p)"
    using example_line [OF e(2,3,7)] by blast
  obtain r where r: "build_roots ref_lib example_run [p] = Inr r" "commitment_ok (rr_agreement r)" "commitment_ok (rr_manifest r)"
    "commitment_ok (rr_nullifier r)" using example_roots [of p] p(2,4) e(7) by blast
  obtain common where common: "build_common ref_lib example_run 1 2 r pr fr = Inr common"
    using example_common [OF r(2-4) pc(2) fx(4)] by blast
  obtain aw where aw: "buildAgreementWitnesses ref_lib [e] pd = Inr [aw]"
    using example_agreement_witness [OF e(2-6) policy(3) pd_def] by blast
  obtain lw where lw: "line_witness_of ref_lib p = Inr lw" using example_line_witness p(2) e(2,3) by blast
  obtain pw where pw: "policy_slots ref_lib pd [pk] = Inr pw" using example_policy_slots [OF policy(2) pd_def] by blast
  obtain fw where fw: "fx_slots ref_lib ?fd [fk] = Inr fw" using example_fx_slots [OF fx(2,3)] by blast
  obtain cycle where cycle: "cycleBytes ''2026-01'' = Inr cycle" by (auto simp: cycleBytes_def utf8_def)
  obtain al pl where leaves: "leaf_texts [prep_agreementTerms e] = Inr al" "leaf_texts [ln_payrollLeaf p] = Inr pl"
    by (auto simp: leaf_texts_def pad_to_def)
  obtain s0 s1 where shards: "makeShard ref_lib example_run common cycle al pl [aw] [lw] pw fw 0 = Inr s0"
    "makeShard ref_lib example_run common cycle al pl [aw] [lw] pw fw 1 = Inr s1"
    using example_shard [OF below_two(1)] example_shard [OF below_two(2)] by blast
  have run: "ri_policies example_run = [DEMO_PROGRESSIVE_POLICY]" "ri_fxSnapshots example_run = [example_snapshot]"
    "ri_lines example_run = [example_input_line]" "ri_validityStart example_run = 1768035700" "ri_cycleId example_run = ''2026-01''"
    by (simp_all add: example_run_def)
  obtain secret where checks: "input_checks ref_lib example_run = Inr (1, 2, secret)" using example_checks by blast
  have packs: "rmap (prepare_policy ref_lib) [DEMO_PROGRESSIVE_POLICY] = Inr pd" "map dp_commitment pd = [c]"
    using policy(1) by (simp_all add: pd_def)
  have "\<exists>b. buildPayrollIntegrityInputs ref_lib same_text example_run = Inr b
      \<and> ib_proofBindings b = map (proof_binding_of fw) (zip (enumerate 0 [p]) (zip [aw] [lw]))
      \<and> ib_manifestRoot b = rr_manifest r \<and> ib_runNullifier b = rr_nullifier r"
    by (rule build_from_stages [where input = example_run, unfolded run, OF checks packs(1) _ fx(1) example_age e(1) _ r(1) common
          _ _ _ _ pw fw cycle shards])
      (simp_all add: packs(2) pc(1) p(1,2) leaves aw lw)
  moreover have "bn_source (proof_binding_of fw ((0, p), aw, lw)) = example_input_line"
    "bn_calculated (proof_binding_of fw ((0, p), aw, lw)) = example_calculated"
    by (simp_all add: proof_binding_of_def p(2) e(2,3))
  ultimately show ?thesis using r(3,4) by auto
qed

lemma example_build:
  "\<exists>b q. buildPayrollIntegrityInputs ref_lib same_text example_run = Inr b \<and> q \<in> set (ib_proofBindings b)"
  using example_built by fastforce

section \<open>The properties at this run\<close>

theorem run_inputs_checked_witness:
  "\<exists>b q. buildPayrollIntegrityInputs ref_lib same_text example_run = Inr b \<and> q \<in> set (ib_proofBindings b)
     \<and> bn_source q = example_input_line \<and> binding_ok ref_lib example_run q \<and> fx_ok example_run q"
proof -
  obtain b q where b: "buildPayrollIntegrityInputs ref_lib same_text example_run = Inr b" "q \<in> set (ib_proofBindings b)"
    using example_build by blast
  note all = run_inputs_checked [OF ref_lib_keccak b(1)]
  have "ri_lines example_run = [example_input_line]" by (simp add: example_run_def)
  then have "mset (map bn_source (ib_proofBindings b)) = {#example_input_line#}" using conjunct1 [OF all] by simp
  then have "set (map bn_source (ib_proofBindings b)) = {example_input_line}" by (metis set_mset_mset set_mset_single)
  then have "bn_source q = example_input_line" using b(2) by auto
  with all b show ?thesis by blast
qed

theorem snapshot_reproduced_witness:
  "\<exists>b s. buildPayrollIntegrityInputs ref_lib same_text example_run = Inr b \<and> buildPayrollAgreementSnapshot ref_lib example_run = Inr s
     \<and> as_agreementRoot s = ib_agreementRoot b"
proof -
  obtain b where b: "buildPayrollIntegrityInputs ref_lib same_text example_run = Inr b" using example_build by blast
  from snapshot_reproduced [OF b] b show ?thesis by blast
qed

theorem shards_cover_run_witness:
  "\<exists>b l. buildPayrollIntegrityInputs ref_lib same_text example_run = Inr b
     \<and> sh_lines (fst (ib_circuitInputs b)) @ sh_lines (snd (ib_circuitInputs b)) = padded 50 emptyLine l \<and> l \<noteq> []"
proof -
  obtain b q where b: "buildPayrollIntegrityInputs ref_lib same_text example_run = Inr b" "q \<in> set (ib_proofBindings b)"
    using example_build by blast
  obtain f s where fs: "ib_circuitInputs b = (f, s)" by (cases "ib_circuitInputs b")
  have "map bn_line (ib_proofBindings b) \<noteq> []" using b(2) by auto
  with shards_cover_run [OF b(1) fs] b(1) fs show ?thesis by fastforce
qed

theorem circuit_policy_matches_witness:
  "\<exists>b q slot. buildPayrollIntegrityInputs ref_lib same_text example_run = Inr b \<and> q \<in> set (ib_proofBindings b)
     \<and> lw_policy_slot (bn_line q) = toString (int slot) \<and> ps_enabled (sh_policies (fst (ib_circuitInputs b)) ! slot)"
proof -
  obtain b q where b: "buildPayrollIntegrityInputs ref_lib same_text example_run = Inr b" "q \<in> set (ib_proofBindings b)"
    using example_build by blast
  obtain f s where fs: "ib_circuitInputs b = (f, s)" by (cases "ib_circuitInputs b")
  from circuit_policy_matches [OF b(1) fs b(2)] b fs show ?thesis by fastforce
qed

end
