(* ===== verification/Match_Properties.thy ===== *)
theory Match_Properties
  imports Settlement_Match Input_Example
begin

text \<open>
  What theory Settlement_Match guarantees: the tree of emitted notes is complete and its openings verify, its root
  binds the notes, an encrypted note carries its amount, and the inputs of a match exist only when the
  emitted notes pay the lines of the run, in their order, every line in exactly one chunk.
\<close>

section \<open>Digests\<close>

lemma lower_hex: "list_all is_hex s \<Longrightarrow> list_all is_hex (toLowerCase s) \<and> map hex_val (toLowerCase s) = map hex_val s"
  by (induction s) (auto simp: toLowerCase_def is_hex_def is_digit_def hex_val_def Let_def)

lemma value_base_hex_vals: "value_base b s = foldl (\<lambda>v d. v * b + d) 0 (map hex_val s)"
  by (simp add: value_base_def foldl_map)

lemma lower_commitment:
  assumes "commitment_ok s"
  shows "commitment_ok (toLowerCase s)" "bigint (toLowerCase s) = bigint s" "toLowerCase (toLowerCase s) = toLowerCase s"
proof -
  have "s = ''0x'' @ drop 2 s" using assms unfolding commitment_ok_def by (metis append_take_drop_id)
  then obtain t where s: "s = ''0x'' @ t" by blast
  have t: "length t = 64" "list_all is_hex t" using assms by (simp_all add: s commitment_ok_def)
  have lower: "toLowerCase s = ''0x'' @ toLowerCase t" by (simp add: s toLowerCase_def)
  have len: "length (toLowerCase t) = length t" by (simp add: toLowerCase_def)
  show "commitment_ok (toLowerCase s)" using lower_hex [OF t(2)] t(1) by (simp add: lower len commitment_ok_def)
  have "bigint (''0x'' @ toLowerCase t) = bigint (''0x'' @ t)"
    by (simp add: bigint_def value_base_hex_vals lower_hex [OF t(2)])
  then show "bigint (toLowerCase s) = bigint s" unfolding lower by (simp add: s)
  show "toLowerCase (toLowerCase s) = toLowerCase s" by (auto simp: toLowerCase_def)
qed

lemma digest_Inr: "digest s l = Inr d \<longleftrightarrow> commitment_ok s \<and> d = toLowerCase s"
  by (auto simp: digest_def)

lemma leaf_bytes_lower:
  assumes "hex_lib_ok L" "commitment_ok s"
  shows "leaf_bytes L (toLowerCase s) = leaf_bytes L s"
  using leaf_bytes_commitment [OF assms] leaf_bytes_commitment [OF assms(1) lower_commitment(1) [OF assms(2)]]
    lower_commitment(2) [OF assms(2)]
  by (intro decodeUint_inj) simp_all

lemma digestBytes_Inr:
  assumes "hex_lib_ok L"
  shows "digestBytes L s l = Inr bs \<longleftrightarrow> commitment_ok s \<and> bs = leaf_bytes L s"
proof -
  have "normalizedHexBytes L (toLowerCase s) (Some 32) = Inr (leaf_bytes L s)" if "commitment_ok s"
    using leaf_bytes_commitment(1) [OF assms lower_commitment(1) [OF that]] leaf_bytes_lower [OF assms that] by simp
  then show ?thesis by (auto simp: digestBytes_def rbind_Inr_iff digest_Inr)
qed

section \<open>The levels of the tree\<close>

lemma settlement_level_total:
  assumes "\<And>l r. P l \<Longrightarrow> P r \<Longrightarrow> node l r = Inr (f l r)" "\<forall>x \<in> set xs. P x"
  shows "settlement_level node xs = Inr (pair_up f xs)"
  using assms by (induction node xs rule: settlement_level.induct) auto

text \<open>On \<open>2 ^ d\<close> leaves the loop makes \<open>d + 1\<close> levels, and the path read off them is the one the proof trees use.\<close>

lemma settlement_levels_tree:
  assumes "\<And>l r. P l \<Longrightarrow> P r \<Longrightarrow> node l r = Inr (f l r) \<and> P (f l r)" "\<forall>x \<in> set xs. P x" "length xs = 2 ^ d"
  shows "\<exists>ls. settlement_levels node xs = Inr ls \<and> length ls = Suc d \<and> ls ! 0 = xs \<and> last ls = [tree_root f d xs]
    \<and> (\<forall>k \<le> d. length (ls ! k) = 2 ^ (d - k)) \<and> (\<forall>k < d. ls ! Suc k = pair_up f (ls ! k))
    \<and> (\<forall>c. \<exists>top. path_loop node c xs = Inr (map fst (level_path (take d ls) c), map snd (level_path (take d ls) c), top))"
  using assms(2,3)
proof (induction d arbitrary: xs)
  case 0
  then obtain x where "xs = [x]" by (metis One_nat_def Suc_length_conv length_0_conv power_0)
  then show ?case by (simp add: settlement_levels.simps path_loop.simps)
next
  case (Suc d)
  have two: "1 < length xs" using Suc.prems(2) one_less_power [of "2::nat" "Suc d"] by simp
  have up: "settlement_level node xs = Inr (pair_up f xs)" "next_level node xs = Inr (pair_up f xs)"
    using assms(1) Suc.prems settlement_level_total [of P node f xs] next_level_total [of P node f xs] by auto
  have "\<forall>x \<in> set (pair_up f xs). P x" using assms(1) by (intro pair_up_all [OF _ Suc.prems(1)]) blast
  moreover have "length (pair_up f xs) = 2 ^ d" using Suc.prems(2) by simp
  ultimately obtain ls where ls: "settlement_levels node (pair_up f xs) = Inr ls" "length ls = Suc d" "ls ! 0 = pair_up f xs"
    "last ls = [tree_root f d (pair_up f xs)]" "\<forall>k \<le> d. length (ls ! k) = 2 ^ (d - k)" "\<forall>k < d. ls ! Suc k = pair_up f (ls ! k)"
    "\<And>c. \<exists>top. path_loop node c (pair_up f xs) = Inr (map fst (level_path (take d ls) c), map snd (level_path (take d ls) c), top)"
    using Suc.IH by blast
  have levels: "settlement_levels node xs = Inr (xs # ls)" using two up(1) ls(1) by (simp add: settlement_levels.simps)
  have "\<exists>top. path_loop node c xs
      = Inr (map fst (level_path (take (Suc d) (xs # ls)) c), map snd (level_path (take (Suc d) (xs # ls)) c), top)" for c
    using ls(7) [of "c div 2"] two up(2) by (subst path_loop.simps) (auto simp: Let_def odd_iff_mod_2_eq_one)
  moreover have "\<forall>k \<le> Suc d. length ((xs # ls) ! k) = 2 ^ (Suc d - k)" using ls(5) Suc.prems(2) by (auto simp: nth_Cons split: nat.split)
  moreover have "\<forall>k < Suc d. (xs # ls) ! Suc k = pair_up f ((xs # ls) ! k)" using ls(3,6) by (auto simp: nth_Cons split: nat.split)
  moreover have "last (xs # ls) = [tree_root f (Suc d) xs]" using ls(2,4) tree_root_pair_up [OF Suc.prems(2)] by auto
  ultimately show ?case using levels ls(2) by auto
qed

section \<open>The tree of a list of notes\<close>

definition settlement_node :: "lib \<Rightarrow> string \<Rightarrow> string \<Rightarrow> string" where
  "settlement_node L l r = toHex L (keccak_256 L (utf8 ''PAYO_SETTLEMENT_NODE_V1'' @ leaf_bytes L l @ leaf_bytes L r))"

definition note_bytes :: "lib \<Rightarrow> nat \<Rightarrow> 'x emitted_note_scheme \<Rightarrow> byte list" where
  "note_bytes L i n = utf8 ''PAYO_SETTLEMENT_NOTE_V1'' @ projr (encodeU32 (int i)) @ leaf_bytes L (nt_noteId n) @ leaf_bytes L (nt_packedValue n)"

definition note_ok :: "'x emitted_note_scheme \<Rightarrow> bool" where
  "note_ok n \<longleftrightarrow> commitment_ok (nt_noteId n) \<and> commitment_ok (nt_packedValue n)"

lemma settlement_node_total:
  assumes "hex_lib_ok L" "keccak_32 L" "commitment_ok l" "commitment_ok r"
  shows "hashSettlementNode L l r = Inr (settlement_node L l r) \<and> commitment_ok (settlement_node L l r)"
proof -
  have "digestBytes L l ''Settlement left node'' = Inr (leaf_bytes L l)" "digestBytes L r ''Settlement right node'' = Inr (leaf_bytes L r)"
    using assms(3,4) by (simp_all add: digestBytes_Inr [OF assms(1)])
  then show ?thesis
    using assms(1,2) by (simp add: hashSettlementNode_def settlement_node_def concatBytes_concat toHex_commitment_ok keccak_32_def)
qed

lemma note_leaf_Inr:
  assumes "hex_lib_ok L"
  shows "hashSettlementNoteLeaf L (int i) n = Inr h
    \<longleftrightarrow> i < 64 \<and> note_ok n \<and> h = toHex L (keccak_256 L (note_bytes L i n))"
proof -
  have "encodeU32 (int i) = Inr (projr (encodeU32 (int i)))" if "i < 64"
    using that encodeUint_total [of "int i" 4] by (auto simp: encodeU32_def)
  then show ?thesis
    by (auto simp: hashSettlementNoteLeaf_def rbind_Inr_iff digestBytes_Inr [OF assms] note_ok_def note_bytes_def
        concatBytes_concat PAYO_SETTLEMENT_TREE_LEAVES_def not_le)
qed

text \<open>The leaves are made exactly when the notes fit, are well formed and have different ids.\<close>

lemma note_leaves_Inr:
  assumes "hex_lib_ok L"
  shows "note_leaves L ids p ns = Inr ls \<longleftrightarrow>
     (ns = [] \<or> p + length ns \<le> 64) \<and> list_all note_ok ns
     \<and> distinct (map (\<lambda>n. toLowerCase (nt_noteId n)) ns) \<and> set (map (\<lambda>n. toLowerCase (nt_noteId n)) ns) \<inter> ids = {}
     \<and> ls = map (\<lambda>(i, n). toHex L (keccak_256 L (note_bytes L i n))) (enumerate p ns)"
proof (induction ns arbitrary: ids p ls)
  case (Cons n ns)
  show ?case
    by (auto simp: rbind_Inr_iff digest_Inr note_leaf_Inr [OF assms] Cons.IH note_ok_def)
qed auto

definition note_tree :: "lib \<Rightarrow> 'x emitted_note_scheme list \<Rightarrow> string list" where
  "note_tree L ns = padded 64 (SETTLEMENT_EMPTY_LEAF L) (map (\<lambda>(i, n). toHex L (keccak_256 L (note_bytes L i n))) (enumerate 0 ns))"

definition notes_ok :: "'x emitted_note_scheme list \<Rightarrow> bool" where
  "notes_ok ns \<longleftrightarrow> ns \<noteq> [] \<and> length ns \<le> 64 \<and> list_all note_ok ns \<and> distinct (map (\<lambda>n. toLowerCase (nt_noteId n)) ns)"

lemma note_tree_ok:
  assumes "hex_lib_ok L" "keccak_32 L"
  shows "\<forall>x \<in> set (note_tree L ns). commitment_ok x" "length ns \<le> 64 \<Longrightarrow> length (note_tree L ns) = 2 ^ 6"
proof -
  have hash: "commitment_ok (toHex L (keccak_256 L bs))" for bs
    using assms by (simp add: toHex_commitment_ok keccak_32_def)
  then show "\<forall>x \<in> set (note_tree L ns). commitment_ok x"
    unfolding note_tree_def by (intro padded_all) (auto simp: list_all_iff SETTLEMENT_EMPTY_LEAF_def)
  show "length ns \<le> 64 \<Longrightarrow> length (note_tree L ns) = 2 ^ 6" by (simp add: note_tree_def)
qed

lemma settlementTree_Inr:
  assumes "hex_lib_ok L"
  shows "settlementTree L ns = Inr levels \<longleftrightarrow> notes_ok ns \<and> settlement_levels (hashSettlementNode L) (note_tree L ns) = Inr levels"
  by (auto simp: settlementTree_def rbind_Inr_iff note_leaves_Inr [OF assms] notes_ok_def note_tree_def PAYO_SETTLEMENT_TREE_LEAVES_def
      Suc_le_eq not_less)

lemma settlement_tree_levels:
  assumes "hex_lib_ok L" "keccak_32 L" "notes_ok ns"
  shows "\<exists>ls. settlementTree L ns = Inr ls \<and> length ls = 7 \<and> ls ! 0 = note_tree L ns
    \<and> last ls = [tree_root (settlement_node L) 6 (note_tree L ns)]
    \<and> (\<forall>k \<le> 6. length (ls ! k) = 2 ^ (6 - k)) \<and> (\<forall>k < 6. ls ! Suc k = pair_up (settlement_node L) (ls ! k))
    \<and> (\<forall>c. \<exists>top. path_loop (hashSettlementNode L) c (note_tree L ns)
          = Inr (map fst (level_path (take 6 ls) c), map snd (level_path (take 6 ls) c), top))"
proof -
  have node: "commitment_ok l \<Longrightarrow> commitment_ok r \<Longrightarrow>
      hashSettlementNode L l r = Inr (settlement_node L l r) \<and> commitment_ok (settlement_node L l r)" for l r
    by (rule settlement_node_total [OF assms(1,2)])
  have "length ns \<le> 64" using assms(3) by (simp add: notes_ok_def)
  note ok = note_tree_ok(1) [OF assms(1,2)] note_tree_ok(2) [OF assms(1,2) this]
  from settlement_levels_tree [where P = commitment_ok, OF node ok] show ?thesis
    using assms(3) by (auto simp: settlementTree_Inr [OF assms(1)])
qed

text \<open>C28: The loop that builds the tree ends.  One to sixty-four well-formed notes with different ids give seven
  levels, of 64, 32, 16, 8, 4, 2 and 1 nodes; the lowest starts with the hashes of the notes at their
  positions, and every other level holds the hashes of the pairs of the one below.  Any other list is
  rejected.\<close>

theorem settlement_tree_complete:
  assumes "hex_lib_ok L" "keccak_32 L"
  shows "if notes_ok ns
     then \<exists>levels. settlementTree L ns = Inr levels \<and> map length levels = [64, 32, 16, 8, 4, 2, 1]
       \<and> (\<forall>i < length ns. hashSettlementNoteLeaf L (int i) (ns ! i) = Inr (levels ! 0 ! i))
       \<and> (\<forall>k < 6. \<forall>i < length (levels ! Suc k).
            hashSettlementNode L (levels ! k ! (2 * i)) (levels ! k ! Suc (2 * i)) = Inr (levels ! Suc k ! i))
     else \<exists>e. settlementTree L ns = Inl e"
proof (cases "notes_ok ns")
  case True
  then obtain ls where ls: "settlementTree L ns = Inr ls" "length ls = 7" "ls ! 0 = note_tree L ns"
    "\<forall>k \<le> 6. length (ls ! k) = 2 ^ (6 - k)" "\<forall>k < 6. ls ! Suc k = pair_up (settlement_node L) (ls ! k)"
    using settlement_tree_levels [OF assms] by metis
  have small: "length ns \<le> 64" "list_all note_ok ns" using True by (simp_all add: notes_ok_def)
  have "map length ls = map (\<lambda>k. 2 ^ (6 - k)) [0..<7]" using ls(2,4) by (intro nth_equalityI) simp_all
  then have "map length ls = [64, 32, 16, 8, 4, 2, 1]" by (simp add: numeral_nat)
  moreover have "hashSettlementNoteLeaf L (int i) (ns ! i) = Inr (ls ! 0 ! i)" if "i < length ns" for i
    using that small by (simp add: ls(3) note_tree_def nth_padded note_leaf_Inr [OF assms(1)] nth_enumerate_eq list_all_length)
  moreover have "hashSettlementNode L (ls ! k ! (2 * i)) (ls ! k ! Suc (2 * i)) = Inr (ls ! Suc k ! i)"
    if k: "k < 6" and i: "i < length (ls ! Suc k)" for k i
  proof -
    have ok: "\<forall>x \<in> set (ls ! k). commitment_ok x" using k
    proof (induction k)
      case 0
      show ?case using note_tree_ok(1) [OF assms] by (simp add: ls(3))
    next
      case (Suc j)
      have eq: "ls ! Suc j = pair_up (settlement_node L) (ls ! j)" and low: "\<forall>x \<in> set (ls ! j). commitment_ok x"
        using Suc ls(5) by simp_all
      show ?case
        unfolding eq by (rule pair_up_all [OF _ low]) (use settlement_node_total [OF assms] in blast)
    qed
    have "length (ls ! Suc k) = length (ls ! k) div 2" using ls(5) k by simp
    then have "i < length (ls ! k) div 2" using i by simp
    moreover from this have "Suc (2 * i) < length (ls ! k)" by linarith
    ultimately show ?thesis using ok ls(5) k settlement_node_total [OF assms] by (simp add: nth_pair_up)
  qed
  ultimately show ?thesis using True ls(1) by auto
next
  case False
  then show ?thesis using settlementTree_Inr [OF assms(1), of ns] by (cases "settlementTree L ns") auto
qed

section \<open>Openings\<close>

lemma rfold_membership:
  assumes "\<And>l r. P l \<Longrightarrow> P r \<Longrightarrow> node l r = Inr (f l r) \<and> P (f l r)" "P x" "\<forall>s \<in> set ss. P s"
  shows "rfold (\<lambda>current (sibling, bit). if bit then node sibling current else node current sibling) x (zip ss bs)
    = Inr (proof_merkle_membership f x ss bs)"
  using assms(2,3)
proof (induction ss arbitrary: x bs)
  case (Cons s ss)
  show ?case
  proof (cases bs)
    case (Cons b bs')
    have step: "(if b then node s x else node x s) = Inr (if b then f s x else f x s)" "P (if b then f s x else f x s)"
      using assms(1) Cons.prems by auto
    have "\<forall>s \<in> set ss. P s" using Cons.prems(2) by simp
    from Cons.IH [OF step(2) this] step(1) show ?thesis by (simp add: Cons)
  qed simp
qed simp

text \<open>The opening of every emitted note verifies.  Whenever a list of notes has a root, the membership of the
  note at any position is built with that root, six siblings and the bits of the position as turns, and
  hashing the note's leaf with the siblings along the turns gives the root.\<close>

theorem settlement_membership_verifies:
  assumes "hex_lib_ok L" "keccak_32 L" "buildSettlementRoot L ns = Inr root" "i < length ns"
  shows "\<exists>m leaf. buildSettlementMembership L ns (int i) = Inr m \<and> sm_root m = root
    \<and> length (sm_siblings m) = 6 \<and> sm_pathBits m = map (\<lambda>j. odd (i div 2 ^ j)) [0..<6]
    \<and> hashSettlementNoteLeaf L (int i) (ns ! i) = Inr leaf
    \<and> rfold (\<lambda>current (sibling, bit). if bit then hashSettlementNode L sibling current else hashSettlementNode L current sibling)
        leaf (zip (sm_siblings m) (sm_pathBits m)) = Inr root"
proof -
  have ok: "notes_ok ns" using assms(3) by (auto simp: buildSettlementRoot_def rbind_Inr_iff settlementTree_Inr [OF assms(1)])
  then obtain ls top where ls: "settlementTree L ns = Inr ls" "last ls = [tree_root (settlement_node L) 6 (note_tree L ns)]"
    "path_loop (hashSettlementNode L) i (note_tree L ns) = Inr (map fst (level_path (take 6 ls) i), map snd (level_path (take 6 ls) i), top)"
    using settlement_tree_levels [OF assms(1,2)] by metis
  have root: "root = tree_root (settlement_node L) 6 (note_tree L ns)" using assms(3) ls(1,2) by (simp add: buildSettlementRoot_def)
  have small: "length ns \<le> 64" "list_all note_ok ns" using ok by (simp_all add: notes_ok_def)
  have node: "commitment_ok l \<Longrightarrow> commitment_ok r \<Longrightarrow>
      hashSettlementNode L l r = Inr (settlement_node L l r) \<and> commitment_ok (settlement_node L l r)" for l r
    by (rule settlement_node_total [OF assms(1,2)])
  note tree = note_tree_ok(1) [OF assms(1,2), of ns] note_tree_ok(2) [OF assms(1,2) small(1)]
  have "i < 2 ^ 6" using assms(4) small(1) by simp
  from path_loop_tree [of commitment_ok "hashSettlementNode L" "settlement_node L", OF node tree this]
  obtain ss where ss: "map fst (level_path (take 6 ls) i) = ss" "map snd (level_path (take 6 ls) i) = map (\<lambda>j. odd (i div 2 ^ j)) [0..<6]"
    "length ss = 6" "\<forall>x \<in> set ss. commitment_ok x"
    "proof_merkle_membership (settlement_node L) (note_tree L ns ! i) ss (map (\<lambda>j. odd (i div 2 ^ j)) [0..<6]) = root"
    using ls(3) root by auto
  have leaf: "hashSettlementNoteLeaf L (int i) (ns ! i) = Inr (note_tree L ns ! i)"
    using assms(4) small
    by (simp add: note_tree_def nth_padded note_leaf_Inr [OF assms(1)] nth_enumerate_eq list_all_length)
  have leaf_ok: "commitment_ok (note_tree L ns ! i)" using assms(4) small(1) tree by simp
  show ?thesis
    using assms(4) ls(1,2) leaf ss(3) rfold_membership [of commitment_ok "hashSettlementNode L" "settlement_node L", OF node leaf_ok ss(4)]
    by (simp add: buildSettlementMembership_def PAYO_SETTLEMENT_TREE_DEPTH_def Let_def root [symmetric] ss(1,2,5) del: upt.simps)
qed

section \<open>The root binds the notes\<close>

lemma leaf_bytes_toHex: "hex_lib_ok L \<Longrightarrow> length bs = 32 \<Longrightarrow> leaf_bytes L (toHex L bs) = bs"
  using leaf_bytes_commitment [of L "toHex L bs"] toHex_commitment_ok [of L bs]
  by (intro decodeUint_inj) (simp_all add: bigint_toHex)

lemma node_inputs_all:
  assumes "\<And>l r. P l \<Longrightarrow> P r \<Longrightarrow> P (f l r)" "\<forall>x \<in> set xs. P x" "length xs = 2 ^ d"
  shows "\<forall>p \<in> node_inputs f d xs. P (fst p) \<and> P (snd p)"
  using assms(2,3)
proof (induction d arbitrary: xs)
  case (Suc d)
  have half: "\<forall>x \<in> set (take (2 ^ d) xs). P x" "length (take (2 ^ d) xs) = 2 ^ d"
    "\<forall>x \<in> set (drop (2 ^ d) xs). P x" "length (drop (2 ^ d) xs) = 2 ^ d"
    using Suc.prems by (auto dest: in_set_takeD in_set_dropD)
  show ?case
    using Suc.IH [OF half(1,2)] Suc.IH [OF half(3,4)] tree_root_all [of P f, OF assms(1) half(1,2)] tree_root_all [of P f, OF assms(1) half(3,4)]
    by auto
qed simp

text \<open>The same tree over bytes, and all that is hashed to build it.\<close>

definition note_node :: "lib \<Rightarrow> byte list \<Rightarrow> byte list \<Rightarrow> byte list" where
  "note_node L l r = keccak_256 L (utf8 ''PAYO_SETTLEMENT_NODE_V1'' @ l @ r)"

definition empty_note_bytes :: "byte list" where
  "empty_note_bytes = utf8 ''PAYO_SETTLEMENT_EMPTY_V1''"

definition note_preimages :: "lib \<Rightarrow> 'x emitted_note_scheme list \<Rightarrow> byte list list" where
  "note_preimages L ns = padded 64 empty_note_bytes (map (\<lambda>(i, n). note_bytes L i n) (enumerate 0 ns))"

definition settlement_preimages :: "lib \<Rightarrow> 'x emitted_note_scheme list \<Rightarrow> byte list set" where
  "settlement_preimages L ns = set (note_preimages L ns)
     \<union> (\<lambda>(l, r). utf8 ''PAYO_SETTLEMENT_NODE_V1'' @ l @ r) ` node_inputs (note_node L) 6 (map (keccak_256 L) (note_preimages L ns))"

lemma note_tree_bytes:
  assumes "hex_lib_ok L" "keccak_32 L"
  shows "map (leaf_bytes L) (note_tree L ns) = map (keccak_256 L) (note_preimages L ns)"
  using assms
  by (intro nth_equalityI)
    (auto simp: note_tree_def note_preimages_def nth_padded leaf_bytes_toHex keccak_32_def SETTLEMENT_EMPTY_LEAF_def empty_note_bytes_def
      nth_enumerate_eq)

lemma root_bytes:
  assumes "hex_lib_ok L" "keccak_32 L" "buildSettlementRoot L ns = Inr root"
  shows "notes_ok ns" "leaf_bytes L root = tree_root (note_node L) 6 (map (keccak_256 L) (note_preimages L ns))"
proof -
  show ok: "notes_ok ns" using assms(3) by (auto simp: buildSettlementRoot_def rbind_Inr_iff settlementTree_Inr [OF assms(1)])
  then obtain ls where "settlementTree L ns = Inr ls" "last ls = [tree_root (settlement_node L) 6 (note_tree L ns)]"
    using settlement_tree_levels [OF assms(1,2)] by metis
  then have "root = tree_root (settlement_node L) 6 (note_tree L ns)" using assms(3) by (simp add: buildSettlementRoot_def)
  moreover have "leaf_bytes L (settlement_node L l r) = note_node L (leaf_bytes L l) (leaf_bytes L r)" for l r
    using assms(2) by (simp add: settlement_node_def note_node_def leaf_bytes_toHex [OF assms(1)] keccak_32_def)
  moreover have "length (note_tree L ns) = 2 ^ 6" using ok by (intro note_tree_ok(2) [OF assms(1,2)]) (simp add: notes_ok_def)
  ultimately show "leaf_bytes L root = tree_root (note_node L) 6 (map (keccak_256 L) (note_preimages L ns))"
    using tree_root_map [of "leaf_bytes L" "settlement_node L" "note_node L"] note_tree_bytes [OF assms(1,2), of ns] by simp
qed

lemma note_bytes_determine:
  assumes "hex_lib_ok L" "note_ok n" "note_ok m" "note_bytes L i n = note_bytes L i m"
  shows "bigint (nt_noteId n) = bigint (nt_noteId m) \<and> bigint (nt_packedValue n) = bigint (nt_packedValue m)"
proof -
  note ok = assms(2,3) [unfolded note_ok_def]
  have "length (leaf_bytes L (nt_noteId n)) = length (leaf_bytes L (nt_noteId m))"
    using ok leaf_bytes_commitment(2) [OF assms(1)] by simp
  then have "leaf_bytes L (nt_noteId n) = leaf_bytes L (nt_noteId m)" "leaf_bytes L (nt_packedValue n) = leaf_bytes L (nt_packedValue m)"
    using assms(4) by (simp_all add: note_bytes_def)
  then show ?thesis using ok leaf_bytes_commitment(3) [OF assms(1)] by metis
qed

lemma note_preimages_determine:
  fixes ns ms :: "emitted_note list"
  assumes "hex_lib_ok L" "notes_ok ns" "notes_ok ms" "note_preimages L ns = note_preimages L ms"
  shows "map (\<lambda>n. (bigint (nt_noteId n), bigint (nt_packedValue n))) ns = map (\<lambda>n. (bigint (nt_noteId n), bigint (nt_packedValue n))) ms"
proof -
  have small: "length ns \<le> 64" "length ms \<le> 64" "list_all note_ok ns" "list_all note_ok ms"
    using assms(2,3) by (simp_all add: notes_ok_def)
  have at: "note_preimages L ks ! i = (if i < length ks then note_bytes L i (ks ! i) else empty_note_bytes)"
    if "i < 64" for ks :: "emitted_note list" and i
    using that by (simp add: note_preimages_def nth_padded nth_enumerate_eq)
  have differ: "note_bytes L i n \<noteq> empty_note_bytes" if "note_ok n" for i and n :: emitted_note
  proof -
    have "length (note_bytes L i n) \<noteq> length empty_note_bytes"
      using that leaf_bytes_commitment(2) [OF assms(1)] by (simp add: note_bytes_def empty_note_bytes_def note_ok_def utf8_def)
    then show ?thesis by metis
  qed
  have same: "i < length ns \<longleftrightarrow> i < length ms" if "i < 64" for i
    using at [OF that, of ns] at [OF that, of ms] assms(4) small(3,4) differ by (auto simp: list_all_length split: if_splits) metis+
  have len: "length ns = length ms"
    using same [of "length ns"] same [of "length ms"] small(1,2) by (cases "length ns" "length ms" rule: linorder_cases) auto
  show ?thesis
  proof (rule nth_equalityI)
    fix i assume "i < length (map (\<lambda>n. (bigint (nt_noteId n), bigint (nt_packedValue n))) ns)"
    then have i: "i < length ns" "i < length ms" "i < 64" using len small(1) by simp_all
    then have "note_bytes L i (ns ! i) = note_bytes L i (ms ! i)" using at [OF i(3), of ns] at [OF i(3), of ms] assms(4) by simp
    from note_bytes_determine [OF assms(1) _ _ this] i small(3,4)
    show "map (\<lambda>n. (bigint (nt_noteId n), bigint (nt_packedValue n))) ns ! i
        = map (\<lambda>n. (bigint (nt_noteId n), bigint (nt_packedValue n))) ms ! i" by (simp add: list_all_length)
  qed (simp add: len)
qed

text \<open>C27: The settlement root binds the emitted notes.  When two lists of notes have the same root, they are the
  same ids and packed values in the same order, or two different byte strings that are hashed to build the
  two trees (notes, the empty leaf, pairs of nodes) have the same Keccak digest.\<close>

theorem settlement_root_binding:
  fixes ns ms :: "emitted_note list"
  assumes "hex_lib_ok L" "keccak_32 L" "buildSettlementRoot L ns = Inr root" "buildSettlementRoot L ms = Inr root"
  shows "map (\<lambda>n. (bigint (nt_noteId n), bigint (nt_packedValue n))) ns = map (\<lambda>n. (bigint (nt_noteId n), bigint (nt_packedValue n))) ms
    \<or> (\<exists>x \<in> settlement_preimages L ns. \<exists>y \<in> settlement_preimages L ms. x \<noteq> y \<and> keccak_256 L x = keccak_256 L y)"
proof -
  note a = root_bytes [OF assms(1-3)] and b = root_bytes [OF assms(1,2,4)]
  let ?hs = "map (keccak_256 L) (note_preimages L ns)" and ?gs = "map (keccak_256 L) (note_preimages L ms)"
  have len: "length ?hs = 2 ^ 6" "length ?gs = 2 ^ 6" by (simp_all add: note_preimages_def)
  have slots: "length (note_preimages L ks) = 64" for ks :: "emitted_note list" by (simp add: note_preimages_def)
  consider (same) "note_preimages L ns = note_preimages L ms"
    | (leaf) "note_preimages L ns \<noteq> note_preimages L ms" "?hs = ?gs" | (node) "?hs \<noteq> ?gs" by blast
  then show ?thesis
  proof cases
    case same
    then show ?thesis using note_preimages_determine [OF assms(1) a(1) b(1)] by simp
  next
    case leaf
    then obtain i where i: "i < 64" "note_preimages L ns ! i \<noteq> note_preimages L ms ! i"
      by (metis nth_equalityI slots)
    have "keccak_256 L (note_preimages L ns ! i) = keccak_256 L (note_preimages L ms ! i)"
      using leaf(2) i(1) by (metis nth_map slots)
    moreover have "note_preimages L ks ! i \<in> settlement_preimages L ks" for ks :: "emitted_note list"
      using i(1) by (simp add: settlement_preimages_def note_preimages_def)
    ultimately show ?thesis using i(2) by blast
  next
    case node
    have all: "\<forall>p \<in> node_inputs (note_node L) 6 (map (keccak_256 L) (note_preimages L ks)). length (fst p) = 32 \<and> length (snd p) = 32"
      for ks :: "emitted_note list"
      using assms(2) by (intro node_inputs_all [where P = "\<lambda>x. length x = 32"]) (auto simp: note_node_def keccak_32_def note_preimages_def)
    obtain p q where pq: "p \<in> node_inputs (note_node L) 6 ?hs" "q \<in> node_inputs (note_node L) 6 ?gs" "p \<noteq> q"
      "note_node L (fst p) (snd p) = note_node L (fst q) (snd q)"
      using tree_root_binding [OF len node] a(2) b(2) by metis
    let ?x = "utf8 ''PAYO_SETTLEMENT_NODE_V1'' @ fst p @ snd p" and ?y = "utf8 ''PAYO_SETTLEMENT_NODE_V1'' @ fst q @ snd q"
    have "?x \<noteq> ?y" using pq(1-3) all by (auto simp: prod_eq_iff)
    moreover have "?x \<in> settlement_preimages L ns" "?y \<in> settlement_preimages L ms"
      using pq(1,2) unfolding settlement_preimages_def by (force simp: case_prod_beta)+
    ultimately show ?thesis using pq(4) unfolding note_node_def by blast
  qed
qed

section \<open>Notes carry their amounts\<close>

text \<open>What the recipient reads: the salt is the upper part, and the pad it gives is taken off the lower part.\<close>

definition open_note :: "lib \<Rightarrow> int \<Rightarrow> int \<Rightarrow> int \<Rightarrow> int \<Rightarrow> int" where
  "open_note L channel tok noteIndex packed =
     (packed mod 2 ^ 128 - poseidon L [tag L ''ENC_AMOUNT_TAG:V1'', channel, tok, noteIndex, 0, packed div 2 ^ 128]) mod 2 ^ 128"

lemma canonicalFelt_Inr: "canonicalFelt v l = Inr n \<longleftrightarrow> to_BigInt v = Inr n \<and> 0 \<le> n \<and> n < STARK_FIELD_PRIME"
  by (auto simp: canonicalFelt_def not_less not_le split: sum.splits)

lemma packed_value_opens:
  assumes "deriveStrk20PackedValue L channelKey tokenAddress noteIndex noteSalt amountAtomic = Inr v"
    and "to_BigInt channelKey = Inr channel" "to_BigInt tokenAddress = Inr tok" "to_BigInt amountAtomic = Inr amount"
  shows "0 < v" "v < 2 ^ 248" "open_note L channel tok noteIndex v = amount"
proof -
  obtain n where n: "0 < n" "n < 2 ^ 120" "0 < amount" "amount < 2 ^ 128"
    "v = or (push_bit 128 n) (bmod (poseidon L [tag L ''ENC_AMOUNT_TAG:V1'', channel, tok, noteIndex, 0, n] + amount) (2 ^ 128))"
    using assms unfolding deriveStrk20PackedValue_def Let_def
    by (auto simp: rbind_Inr_iff canonicalFelt_Inr U120_LIMIT_def U128_MODULUS_def push_bit_eq_mult not_le split: if_split_asm)
  define pad where "pad = poseidon L [tag L ''ENC_AMOUNT_TAG:V1'', channel, tok, noteIndex, 0, n]"
  have "0 \<le> pad" by (simp add: pad_def poseidon_def bigint_def)
  then have "bmod (pad + amount) (2 ^ 128) = take_bit 128 (pad + amount)"
    using n(3) by (simp add: bmod_def bdiv_nonneg take_bit_eq_mod minus_div_mult_eq_mod)
  then have v: "v = n * 2 ^ 128 + (pad + amount) mod 2 ^ 128"
    using n(5) concat_bit_def [of 128 "pad + amount" n] concat_bit_eq [of 128 "pad + amount" n]
    by (simp add: pad_def or.commute push_bit_eq_mult take_bit_eq_mod)
  have low: "0 \<le> (pad + amount) mod 2 ^ 128" "(pad + amount) mod 2 ^ 128 < 2 ^ 128" by simp_all
  then have parts: "v div 2 ^ 128 = n" "v mod 2 ^ 128 = (pad + amount) mod 2 ^ 128"
    unfolding v by simp_all
  show "0 < v" using n(1) low(1) unfolding v by (simp add: add_pos_nonneg)
  show "v < 2 ^ 248" using n(2) low(2) unfolding v by simp
  have "open_note L channel tok noteIndex v = ((pad + amount) mod 2 ^ 128 - pad) mod 2 ^ 128"
    unfolding open_note_def parts pad_def ..
  also have "\<dots> = amount mod 2 ^ 128" by (simp only: mod_diff_left_eq add_diff_cancel_left')
  finally show "open_note L channel tok noteIndex v = amount" using n(3,4) by simp
qed

section \<open>The match pays the run\<close>

lemma match_stages:
  assumes "buildSettlementMatchInputs L input = Inr m"
  obtains sender key ws manifest nullifier reference root where
    "match_checks input = Inr (mt_transactionReference m, sender, key)"
    "buildSettlementRoot L (mi_emittedNotes input) = Inr (mt_settlementRoot m)"
    "rmap (note_witness_of L sender key (mi_emittedNotes input))
       (enumerate 0 (zip (ib_proofBindings (mi_payroll input)) (mi_payrollNotes input))) = Inr ws"
    "root_limbs L (ib_manifestRoot (mi_payroll input)) = Inr manifest" "root_limbs L (ib_runNullifier (mi_payroll input)) = Inr nullifier"
    "root_limbs L (mt_transactionReference m) = Inr reference" "root_limbs L (mt_settlementRoot m) = Inr root"
    "mt_publicInputs m = map (match_public_of manifest nullifier reference root ((length (ib_proofBindings (mi_payroll input)) + 2) div 3))
       [0..<(length (ib_proofBindings (mi_payroll input)) + 2) div 3]"
    "rmap (\<lambda>chunkIndex. chunk_inputs_of (ib_proofBindings (mi_payroll input)) ws
         (map (\<lambda>index. toString (bigint (entry_or (map bn_payrollLeaf (ib_proofBindings (mi_payroll input))) PAYO_PROOF_EMPTY_LEAF index))) [0..<64])
         sender key (mt_publicInputs m ! chunkIndex) chunkIndex)
       [0..<(length (ib_proofBindings (mi_payroll input)) + 2) div 3] = Inr (mt_circuitInputs m)"
proof -
  let ?bs = "ib_proofBindings (mi_payroll input)"
  from assms obtain reference sender key settlementRoot ws manifest nullifier ref root circuits where s:
    "match_checks input = Inr (reference, sender, key)" "buildSettlementRoot L (mi_emittedNotes input) = Inr settlementRoot"
    "rmap (note_witness_of L sender key (mi_emittedNotes input)) (enumerate 0 (zip ?bs (mi_payrollNotes input))) = Inr ws"
    "root_limbs L (ib_manifestRoot (mi_payroll input)) = Inr manifest" "root_limbs L (ib_runNullifier (mi_payroll input)) = Inr nullifier"
    "root_limbs L reference = Inr ref" "root_limbs L settlementRoot = Inr root"
    "rmap (\<lambda>chunkIndex. chunk_inputs_of ?bs ws
         (map (\<lambda>index. toString (bigint (entry_or (map bn_payrollLeaf ?bs) PAYO_PROOF_EMPTY_LEAF index))) [0..<64])
         sender key (map (match_public_of manifest nullifier ref root ((length ?bs + 3 - 1) div 3)) [0..<(length ?bs + 3 - 1) div 3] ! chunkIndex)
         chunkIndex) [0..<(length ?bs + 3 - 1) div 3] = Inr circuits"
    "m = \<lparr>mt_settlementRoot = settlementRoot, mt_transactionReference = reference,
       mt_publicInputs = map (match_public_of manifest nullifier ref root ((length ?bs + 3 - 1) div 3)) [0..<(length ?bs + 3 - 1) div 3],
       mt_circuitInputs = circuits\<rparr>"
    unfolding buildSettlementMatchInputs_def Let_def PAYO_SETTLEMENT_CHUNK_LINES_def
    by (elim rbind_tripleE rbindE, simp only: sum.inject)
  have three: "n + 3 - 1 = n + (2::nat)" for n by simp
  have fields: "mt_settlementRoot m = settlementRoot" "mt_transactionReference m = reference" "mt_circuitInputs m = circuits"
    "mt_publicInputs m = map (match_public_of manifest nullifier ref root ((length ?bs + 2) div 3)) [0..<(length ?bs + 2) div 3]"
    unfolding s(9) three by simp_all
  show thesis
    by (rule that [of sender key ws manifest nullifier ref root]; (unfold fields)?; rule s [unfolded three] refl)
qed

lemma match_checks_Inr:
  assumes "match_checks input = Inr (reference, sender, key)"
  shows "1 \<le> length (ib_proofBindings (mi_payroll input))" "length (ib_proofBindings (mi_payroll input)) \<le> 50"
    "length (mi_payrollNotes input) = length (ib_proofBindings (mi_payroll input))"
    "length (ib_proofBindings (mi_payroll input)) \<le> length (mi_emittedNotes input)"
    "canonicalFelt (Digits (mi_senderAddress input)) ''Settlement sender'' = Inr sender"
    "canonicalFelt (Digits (mi_viewingKey input)) ''Settlement viewing key'' = Inr key"
    "commitment_ok (mi_transactionReference input)" "reference = toLowerCase (mi_transactionReference input)"
  using assms unfolding match_checks_def Let_def
  by (auto simp: rbind_Inr_iff digest_Inr Suc_le_eq split: if_split_asm)

lemma token_address_value: "tokenSymbol address label = Inr t \<longleftrightarrow> canonicalFelt (Digits address) label = Inr (bigint (token_address t))"
proof -
  have "bigint (token_address STRK) \<noteq> bigint (token_address USDC)" by code_simp
  then show ?thesis
    by (cases t; cases "canonicalFelt (Digits address) label") (auto simp: tokenSymbol_def simp del: token_address.simps)
qed

text \<open>What a note that passed the checks says about its line.\<close>

lemma note_witness_checked:
  assumes "hex_lib_ok L" "canonicalFelt (Digits senderText) ''Settlement sender'' = Inr sender"
    and "canonicalFelt (Digits keyText) ''Settlement viewing key'' = Inr key"
    and "note_witness_of L sender key es (i, q, n) = Inr w"
  shows "\<exists>channel recipient.
      BigInt (pn_recipientAddress n) = Inr recipient \<and> BigInt (li_recipientAddress (bn_source q)) = Inr recipient
    \<and> deriveStrk20ChannelKey L (Digits senderText) (Digits keyText) (Digits (pn_recipientAddress n)) (Digits (pn_recipientPublicKey n)) = Inr channel
    \<and> deriveStrk20NoteId L (Big channel) (Digits (pn_tokenAddress n)) (pn_noteIndex n) = Inr (bigint (nt_noteId (es ! i)))
    \<and> canonicalFelt (Digits (pn_tokenAddress n)) ''Settlement token'' = Inr (bigint (token_address (li_token (bn_source q))))
    \<and> open_note L channel (bigint (token_address (li_token (bn_source q)))) (pn_noteIndex n) (bigint (nt_packedValue (es ! i)))
        = bigint (netAtomic (bn_calculated q))
    \<and> pn_position n = int i \<and> nw_note_id w = leaf_bytes L (nt_noteId (es ! i)) \<and> nw_packed_value w = leaf_bytes L (nt_packedValue (es ! i))"
proof -
  from assms(4) obtain noteId packed where c: "note_pays i q n = Inr ()" "note_emitted L sender key i n (es ! i) = Inr (noteId, packed)"
    "digestBytes L noteId (''Settlement note ID '' @ toString (int i)) = Inr (nw_note_id w)"
    "digestBytes L packed (''Settlement packed value '' @ toString (int i)) = Inr (nw_packed_value w)"
    by (auto simp: note_witness_of_def Let_def rbind_Inr_iff)
  from c(1) obtain recipient where p: "pn_position n = int i" "BigInt (pn_recipientAddress n) = Inr recipient"
    "BigInt (li_recipientAddress (bn_source q)) = Inr recipient"
    "BigInt (pn_tokenAddress n) = Inr (bigint (token_address (li_token (bn_source q))))"
    "bigint (token_address (li_token (bn_source q))) < STARK_FIELD_PRIME"
    "BigInt (pn_amountAtomic n) = Inr (bigint (netAtomic (bn_calculated q)))"
    by (auto simp: note_pays_def Let_def rbind_Inr_iff token_address_value canonicalFelt_Inr simp del: token_address.simps
        split: if_split_asm)
  from c(2) obtain expected where e: "deriveStrk20EncryptedNote L (Big sender) (Big key) (Digits (pn_recipientAddress n))
      (Digits (pn_recipientPublicKey n)) (Digits (pn_tokenAddress n)) (pn_noteIndex n) (Digits (pn_salt n))
      (Digits (pn_amountAtomic n)) = Inr expected"
    "en_noteId expected = noteId" "en_packedValue expected = packed" "noteId = toLowerCase (nt_noteId (es ! i))"
    "packed = toLowerCase (nt_packedValue (es ! i))" "commitment_ok (nt_noteId (es ! i))" "commitment_ok (nt_packedValue (es ! i))"
    by (auto simp: note_emitted_def Let_def rbind_Inr_iff digest_Inr split: if_split_asm)
  from e(1) obtain channel idNumber a packedNumber b where d:
    "deriveStrk20ChannelKey L (Big sender) (Big key) (Digits (pn_recipientAddress n)) (Digits (pn_recipientPublicKey n)) = Inr channel"
    "deriveStrk20NoteId L (Big channel) (Digits (pn_tokenAddress n)) (pn_noteIndex n) = Inr idNumber" "encodeUint idNumber 32 = Inr a"
    "deriveStrk20PackedValue L (Big channel) (Digits (pn_tokenAddress n)) (pn_noteIndex n) (Digits (pn_salt n)) (Digits (pn_amountAtomic n))
      = Inr packedNumber" "encodeUint packedNumber 32 = Inr b"
    "en_noteId expected = toHex L a" "en_packedValue expected = toHex L b"
    by (auto simp: deriveStrk20EncryptedNote_def rbind_Inr_iff)
  have sender: "canonicalFelt (Big sender) l = Inr sender" "canonicalFelt (Big key) l = Inr key" for l
    using assms(2,3) by (simp_all add: canonicalFelt_Inr)
  have channel: "deriveStrk20ChannelKey L (Digits senderText) (Digits keyText) (Digits (pn_recipientAddress n)) (Digits (pn_recipientPublicKey n)) = Inr channel"
    using d(1) assms(2,3) by (simp add: deriveStrk20ChannelKey_def sender)
  have "bigint (nt_noteId (es ! i)) = idNumber" "bigint (nt_packedValue (es ! i)) = packedNumber"
    using d(3,5,6,7) e(2-7) lower_commitment(2) bigint_toHex [OF assms(1)] by (metis encodeUint_Inr_iff)+
  moreover have "open_note L channel (bigint (token_address (li_token (bn_source q)))) (pn_noteIndex n) packedNumber = bigint (netAtomic (bn_calculated q))"
    by (rule packed_value_opens(3) [OF d(4)]) (simp_all add: p del: token_address.simps)
  moreover have "nw_note_id w = leaf_bytes L (nt_noteId (es ! i)) \<and> nw_packed_value w = leaf_bytes L (nt_packedValue (es ! i))"
    using c(3,4) digestBytes_Inr [OF assms(1)] e(4-7) leaf_bytes_lower [OF assms(1)] by simp
  moreover have "0 \<le> bigint (token_address (li_token (bn_source q)))" by (simp add: bigint_def)
  ultimately show ?thesis
    using channel d(2) p by (intro exI [of _ channel] exI [of _ recipient]) (simp add: canonicalFelt_Inr del: token_address.simps)
qed

definition pays_line :: "lib \<Rightarrow> match_input \<Rightarrow> proof_binding \<Rightarrow> payroll_note \<Rightarrow> emitted_note \<Rightarrow> bool" where
  "pays_line L input q n e \<longleftrightarrow>
     (\<exists>channel recipient. BigInt (pn_recipientAddress n) = Inr recipient \<and> BigInt (li_recipientAddress (bn_source q)) = Inr recipient
       \<and> deriveStrk20ChannelKey L (Digits (mi_senderAddress input)) (Digits (mi_viewingKey input))
           (Digits (pn_recipientAddress n)) (Digits (pn_recipientPublicKey n)) = Inr channel
       \<and> deriveStrk20NoteId L (Big channel) (Digits (pn_tokenAddress n)) (pn_noteIndex n) = Inr (bigint (nt_noteId e))
       \<and> canonicalFelt (Digits (pn_tokenAddress n)) ''Settlement token'' = Inr (bigint (token_address (li_token (bn_source q))))
       \<and> open_note L channel (bigint (token_address (li_token (bn_source q)))) (pn_noteIndex n) (bigint (nt_packedValue e))
           = bigint (netAtomic (bn_calculated q)))"

text \<open>C11: A settlement matches a run only when it pays it.  If the inputs of the match are built, there is one note
  for every line of the run, and the note emitted at the position of a line has the id of the channel from
  the sender to the line's recipient for the line's token, and opens in that channel to exactly the line's
  net amount.\<close>

theorem match_pays_run:
  assumes "hex_lib_ok L" "buildSettlementMatchInputs L input = Inr m"
  shows "length (mi_payrollNotes input) = length (ib_proofBindings (mi_payroll input))
    \<and> length (ib_proofBindings (mi_payroll input)) \<le> length (mi_emittedNotes input)
    \<and> (\<forall>i < length (ib_proofBindings (mi_payroll input)).
         pays_line L input (ib_proofBindings (mi_payroll input) ! i) (mi_payrollNotes input ! i) (mi_emittedNotes input ! i))"
  using assms(2)
proof (rule match_stages)
  fix sender key ws
  assume checks: "match_checks input = Inr (mt_transactionReference m, sender, key)"
    and made: "rmap (note_witness_of L sender key (mi_emittedNotes input))
       (enumerate 0 (zip (ib_proofBindings (mi_payroll input)) (mi_payrollNotes input))) = Inr ws"
  note c = match_checks_Inr [OF checks]
  have "pays_line L input (ib_proofBindings (mi_payroll input) ! i) (mi_payrollNotes input ! i) (mi_emittedNotes input ! i)"
    if i: "i < length (ib_proofBindings (mi_payroll input))" for i
  proof -
    have "note_witness_of L sender key (mi_emittedNotes input)
        (i, ib_proofBindings (mi_payroll input) ! i, mi_payrollNotes input ! i) = Inr (ws ! i)"
      using made i c(3) by (simp add: rmap_Inr_iff list_all2_conv_all_nth nth_enumerate_eq)
    from note_witness_checked [OF assms(1) c(5,6) this] show ?thesis unfolding pays_line_def by blast
  qed
  with c(3,4) show ?thesis by simp
qed

section \<open>Every line is in one chunk\<close>

lemma padded_entries: "padded n d xs = map (entry_or xs d) [0..<n]"
  by (simp add: padded_def entry_or_def)

lemma chunks_concat: "concat (map (chunk_of xs d) [0..<c]) = padded (3 * c) d xs"
proof (induction c)
  case (Suc c)
  have "chunk_of xs d c = map (entry_or xs d) [3 * c..<3 * c + 3]"
    unfolding chunk_of_def PAYO_SETTLEMENT_CHUNK_LINES_def
    by (intro nth_equalityI) (simp_all add: mult.commute del: upt_Suc upt.simps)
  moreover have "[0..<3 * Suc c] = [0..<3 * c] @ [3 * c..<3 * c + 3]" using upt_add_eq_append [of 0 "3 * c" 3] by (simp add: add.commute)
  ultimately show ?case using Suc.IH by (simp add: padded_entries)
qed (simp add: padded_entries)

lemma chunk_inputs_fields:
  "chunk_inputs_of bs ws leaves sender key public i = Inr w \<Longrightarrow>
     ck_public w = public \<and> ck_lines w = chunk_of (map bn_line bs) emptyLine i
     \<and> ck_agreements w = chunk_of (map bn_agreement bs) emptyAgreement i \<and> ck_notes w = chunk_of ws emptyNote i"
  by (auto simp: chunk_inputs_of_def rbind_Inr_iff)

text \<open>C20: The chunks of a match are the run.  There is one chunk for every three lines, at most seventeen; put together in order they
  hold the lines and agreements of the run, padded with empty ones in the last chunk, and the notes emitted
  for these lines; and the chunks are numbered and agree on the roots of the run, the transaction and the
  settlement.\<close>

theorem match_chunks_cover:
  assumes "hex_lib_ok L" "buildSettlementMatchInputs L input = Inr m"
  shows "let bindings = ib_proofBindings (mi_payroll input); count = length (mt_circuitInputs m) in
      length bindings \<le> 3 * count \<and> 3 * count < length bindings + 3 \<and> count \<le> 17
    \<and> concat (map ck_lines (mt_circuitInputs m)) = padded (3 * count) emptyLine (map bn_line bindings)
    \<and> concat (map ck_agreements (mt_circuitInputs m)) = padded (3 * count) emptyAgreement (map bn_agreement bindings)
    \<and> map nw_note_id (concat (map ck_notes (mt_circuitInputs m)))
        = padded (3 * count) zero_bytes (map (\<lambda>n. leaf_bytes L (nt_noteId n)) (take (length bindings) (mi_emittedNotes input)))
    \<and> (\<exists>manifest nullifier reference root.
          root_limbs L (ib_manifestRoot (mi_payroll input)) = Inr manifest \<and> root_limbs L (ib_runNullifier (mi_payroll input)) = Inr nullifier
        \<and> root_limbs L (mt_transactionReference m) = Inr reference \<and> root_limbs L (mt_settlementRoot m) = Inr root
        \<and> map ck_public (mt_circuitInputs m) = map (match_public_of manifest nullifier reference root count) [0..<count])
    \<and> map ck_public (mt_circuitInputs m) = mt_publicInputs m"
  using assms(2)
proof (rule match_stages)
  fix sender key ws manifest nullifier reference root
  let ?bs = "ib_proofBindings (mi_payroll input)"
  define c where "c = (length ?bs + 2) div 3"
  assume checks: "match_checks input = Inr (mt_transactionReference m, sender, key)"
    and made: "rmap (note_witness_of L sender key (mi_emittedNotes input)) (enumerate 0 (zip ?bs (mi_payrollNotes input))) = Inr ws"
    and limbs: "root_limbs L (ib_manifestRoot (mi_payroll input)) = Inr manifest" "root_limbs L (ib_runNullifier (mi_payroll input)) = Inr nullifier"
      "root_limbs L (mt_transactionReference m) = Inr reference" "root_limbs L (mt_settlementRoot m) = Inr root"
    and public_raw: "mt_publicInputs m = map (match_public_of manifest nullifier reference root ((length ?bs + 2) div 3)) [0..<(length ?bs + 2) div 3]"
    and chunks_raw: "rmap (\<lambda>chunkIndex. chunk_inputs_of ?bs ws
         (map (\<lambda>index. toString (bigint (entry_or (map bn_payrollLeaf ?bs) PAYO_PROOF_EMPTY_LEAF index))) [0..<64])
         sender key (mt_publicInputs m ! chunkIndex) chunkIndex) [0..<(length ?bs + 2) div 3] = Inr (mt_circuitInputs m)"
  note public = public_raw [folded c_def] and chunks = chunks_raw [folded c_def]
  note k = match_checks_Inr [OF checks]
  have len: "length (mt_circuitInputs m) = c" using rmap_length [OF chunks] by simp
  have each: "ck_public (mt_circuitInputs m ! i) = mt_publicInputs m ! i \<and> ck_lines (mt_circuitInputs m ! i) = chunk_of (map bn_line ?bs) emptyLine i
      \<and> ck_agreements (mt_circuitInputs m ! i) = chunk_of (map bn_agreement ?bs) emptyAgreement i
      \<and> ck_notes (mt_circuitInputs m ! i) = chunk_of ws emptyNote i" if "i < c" for i
    using chunks that by (intro chunk_inputs_fields) (auto simp: rmap_Inr_iff list_all2_conv_all_nth)
  have maps: "map ck_public (mt_circuitInputs m) = mt_publicInputs m"
    "map ck_lines (mt_circuitInputs m) = map (chunk_of (map bn_line ?bs) emptyLine) [0..<c]"
    "map ck_agreements (mt_circuitInputs m) = map (chunk_of (map bn_agreement ?bs) emptyAgreement) [0..<c]"
    "map ck_notes (mt_circuitInputs m) = map (chunk_of ws emptyNote) [0..<c]"
    using len each public by (auto intro!: nth_equalityI)
  have ws: "length ws = length ?bs" using rmap_length [OF made] k(3) by simp
  have "nw_note_id (ws ! i) = leaf_bytes L (nt_noteId (mi_emittedNotes input ! i))" if i: "i < length ?bs" for i
  proof -
    have "note_witness_of L sender key (mi_emittedNotes input) (i, ?bs ! i, mi_payrollNotes input ! i) = Inr (ws ! i)"
      using made i k(3) by (simp add: rmap_Inr_iff list_all2_conv_all_nth nth_enumerate_eq)
    from note_witness_checked [OF assms(1) k(5,6) this] show ?thesis by blast
  qed
  then have ids: "map nw_note_id (padded (3 * c) emptyNote ws)
      = padded (3 * c) zero_bytes (map (\<lambda>n. leaf_bytes L (nt_noteId n)) (take (length ?bs) (mi_emittedNotes input)))"
    using ws k(4) by (intro nth_equalityI) (simp_all add: nth_padded emptyNote_def)
  have "length ?bs \<le> 3 * c" "3 * c < length ?bs + 3" "c \<le> 17" using k(2) unfolding c_def by linarith+
  then show ?thesis
    unfolding Let_def len maps(2-4) chunks_concat ids maps(1) using limbs public by blast
qed

end
