(* ===== verification/Match_Example.thy ===== *)
theory Match_Example
  imports Match_Properties Book_Properties
begin

text \<open>
  The settlement of the run of theory Input_Example: its one line is paid by one encrypted note, and the match is
  built from it, under the reference library.
\<close>

section \<open>The note\<close>

lemma ref_poseidon_felt:
  "0 \<le> poseidon ref_lib vs" "poseidon ref_lib vs < STARK_FIELD_PRIME" "\<exists>bs. encodeUint (poseidon ref_lib vs) 32 = Inr bs"
  using ref_felt [of vs] by (auto simp: feltCommitment_def rbind_Inr_iff poseidon_def bigint_def)

lemma toLowerCase_toHex: "hex_lib_ok L \<Longrightarrow> toLowerCase (toHex L bs) = toHex L bs"
  by (simp add: toHex_def toLowerCase_append hex_lib_ok_def) (simp add: toLowerCase_def)

definition usdc :: string where "usdc = ''0x033068f6539f8e6e6b131e6b2b814e6c34a5224bc66947c47dab9dfee93b35fb''"

definition example_note :: "string \<Rightarrow> string \<Rightarrow> payroll_note" where
  "example_note noteId packed = \<lparr>nt_noteId = noteId, nt_packedValue = packed, pn_position = 0, pn_recipientAddress = ''0x1'',
     pn_recipientPublicKey = ''0x9'', pn_tokenAddress = usdc, pn_amountAtomic = ''2500'', pn_noteIndex = 0, pn_salt = ''1''\<rparr>"

lemma example_felts:
  "canonicalFelt (Digits ''0x5'') l = Inr 5" "canonicalFelt (Digits ''0x7'') l = Inr 7" "canonicalFelt (Digits ''0x1'') l = Inr 1"
  "canonicalFelt (Digits ''0x9'') l = Inr 9" "canonicalFelt (Digits usdc) l = Inr (bigint usdc)"
  "BigInt ''2500'' = Inr 2500" "BigInt ''1'' = Inr 1"
proof -
  have "BigInt ''0x5'' = Inr 5" "BigInt ''0x7'' = Inr 7" "BigInt ''0x1'' = Inr 1" "BigInt ''0x9'' = Inr 9"
    by code_simp+
  moreover have "starknet_address_ok usdc" "bigint usdc < 2 ^ 251" by code_simp+
  moreover have "(2::int) ^ 251 < STARK_FIELD_PRIME" by (simp add: STARK_FIELD_PRIME_def)
  moreover have "0 \<le> bigint usdc" by (simp add: bigint_def)
  ultimately have "BigInt ''0x5'' = Inr 5" "BigInt ''0x7'' = Inr 7" "BigInt ''0x1'' = Inr 1" "BigInt ''0x9'' = Inr 9"
    "BigInt usdc = Inr (bigint usdc)" "0 \<le> bigint usdc" "bigint usdc < STARK_FIELD_PRIME"
    using BigInt_hex by auto
  then show "canonicalFelt (Digits ''0x5'') l = Inr 5" "canonicalFelt (Digits ''0x7'') l = Inr 7"
    "canonicalFelt (Digits ''0x1'') l = Inr 1" "canonicalFelt (Digits ''0x9'') l = Inr 9"
    "canonicalFelt (Digits usdc) l = Inr (bigint usdc)"
    by (simp_all add: canonicalFelt_Inr STARK_FIELD_PRIME_def)
  show "BigInt ''2500'' = Inr 2500" "BigInt ''1'' = Inr 1" by code_simp+
qed

lemma example_encrypted:
  "\<exists>e. deriveStrk20EncryptedNote ref_lib (Big 5) (Big 7) (Digits ''0x1'') (Digits ''0x9'') (Digits usdc) 0 (Digits ''1'') (Digits ''2500'')
      = Inr e \<and> commitment_ok (en_noteId e) \<and> toLowerCase (en_noteId e) = en_noteId e
    \<and> commitment_ok (en_packedValue e) \<and> toLowerCase (en_packedValue e) = en_packedValue e"
proof -
  define channel where "channel = poseidon ref_lib [tag ref_lib ''CHANNEL_KEY_TAG:V1'', 5, 7, 1, 9]"
  have felt: "canonicalFelt (Big channel) l = Inr channel" for l
    using ref_poseidon_felt by (simp add: canonicalFelt_Inr channel_def)
  have small: "canonicalFelt (Big 5) l = Inr 5" "canonicalFelt (Big 7) l = Inr 7" for l
    by (simp_all add: canonicalFelt_Inr STARK_FIELD_PRIME_def)
  have key: "deriveStrk20ChannelKey ref_lib (Big 5) (Big 7) (Digits ''0x1'') (Digits ''0x9'') = Inr channel"
    by (simp add: deriveStrk20ChannelKey_def small example_felts channel_def)
  obtain n a where n: "deriveStrk20NoteId ref_lib (Big channel) (Digits usdc) 0 = Inr n" "encodeUint n 32 = Inr a"
    using ref_poseidon_felt(3) [of "[tag ref_lib ''NOTE_ID_TAG:V1'', channel, bigint usdc, 0, 0]"]
    by (auto simp: deriveStrk20NoteId_def felt example_felts)
  obtain v where v: "deriveStrk20PackedValue ref_lib (Big channel) (Digits usdc) 0 (Digits ''1'') (Digits ''2500'') = Inr v"
    by (auto simp: deriveStrk20PackedValue_def felt example_felts U120_LIMIT_def U128_MODULUS_def push_bit_eq_mult Let_def)
  have "0 \<le> v" "v < 256 ^ 32"
    using packed_value_opens(1,2) [OF v, of channel "bigint usdc" 2500] example_felts by (simp_all add: canonicalFelt_Inr)
  then obtain b where b: "encodeUint v 32 = Inr b" using encodeUint_total by blast
  have "length a = 32" "length b = 32" using n(2) b by (simp_all add: encodeUint_Inr_iff)
  then show ?thesis
    using key n v b by (simp add: deriveStrk20EncryptedNote_def toHex_commitment_ok toLowerCase_toHex)
qed

section \<open>The match\<close>

definition example_match :: "input_build \<Rightarrow> encrypted_note \<Rightarrow> match_input" where
  "example_match b e = \<lparr>mi_payroll = b, mi_senderAddress = ''0x5'', mi_viewingKey = ''0x7'', mi_transactionReference = example_hex,
     mi_payrollNotes = [example_note (en_noteId e) (en_packedValue e)],
     mi_emittedNotes = [\<lparr>nt_noteId = en_noteId e, nt_packedValue = en_packedValue e\<rparr>]\<rparr>"

lemma one_note_root:
  assumes "commitment_ok (nt_noteId e)" "commitment_ok (nt_packedValue e)"
  shows "\<exists>root m. buildSettlementRoot ref_lib [e] = Inr root \<and> commitment_ok root
    \<and> buildSettlementMembership ref_lib [e] 0 = Inr m \<and> (\<forall>s \<in> set (sm_siblings m). commitment_ok s)"
proof -
  have "notes_ok [e]" using assms by (simp add: notes_ok_def note_ok_def)
  from settlement_tree_levels [OF ref_lib_hex ref_lib_keccak this] obtain ls top where ls: "settlementTree ref_lib [e] = Inr ls"
    "last ls = [tree_root (settlement_node ref_lib) 6 (note_tree ref_lib [e])]"
    "path_loop (hashSettlementNode ref_lib) 0 (note_tree ref_lib [e])
       = Inr (map fst (level_path (take 6 ls) 0), map snd (level_path (take 6 ls) 0), top)" by metis
  have node: "commitment_ok l \<Longrightarrow> commitment_ok r \<Longrightarrow>
      hashSettlementNode ref_lib l r = Inr (settlement_node ref_lib l r) \<and> commitment_ok (settlement_node ref_lib l r)" for l r
    by (rule settlement_node_total [OF ref_lib_hex ref_lib_keccak])
  have tree: "\<forall>x \<in> set (note_tree ref_lib [e]). commitment_ok x" "length (note_tree ref_lib [e]) = 2 ^ 6"
    using note_tree_ok [OF ref_lib_hex ref_lib_keccak, of "[e]"] by simp_all
  have "commitment_ok (tree_root (settlement_node ref_lib) 6 (note_tree ref_lib [e]))"
    by (rule tree_root_all [where P = commitment_ok, OF _ tree]) (use node in blast)
  moreover from path_loop_tree [of commitment_ok "hashSettlementNode ref_lib" "settlement_node ref_lib", OF node tree, of 0]
  have "\<forall>s \<in> set (map fst (level_path (take 6 ls) 0)). commitment_ok s" using ls(3) by auto
  ultimately show ?thesis
    using ls(1,2) by (simp add: buildSettlementRoot_def buildSettlementMembership_def PAYO_SETTLEMENT_TREE_DEPTH_def Let_def)
qed

lemma felt_bytes_total: "canonicalFelt v l = Inr n \<Longrightarrow> \<exists>bs. feltBytes v l = Inr bs"
proof -
  assume v: "canonicalFelt v l = Inr n"
  then have "0 \<le> n" "n < 256 ^ 32" by (auto simp: canonicalFelt_Inr STARK_FIELD_PRIME_def)
  from encodeUint_total [OF this] show ?thesis using v by (simp add: feltBytes_def)
qed

lemma digest_bytes_total: "commitment_ok s \<Longrightarrow> digestBytes ref_lib s l = Inr (leaf_bytes ref_lib s)"
  by (simp add: digestBytes_Inr [OF ref_lib_hex])

lemma sibling_bytes_total:
  "\<forall>s \<in> set ss. commitment_ok s \<Longrightarrow>
     \<exists>bs. rmap (\<lambda>(level, sibling). digestBytes ref_lib sibling (l level)) (enumerate n ss) = Inr bs"
proof (induction ss arbitrary: n)
  case (Cons s ss)
  then obtain bs where "rmap (\<lambda>(level, sibling). digestBytes ref_lib sibling (l level)) (enumerate (Suc n) ss) = Inr bs" by auto
  with Cons.prems show ?case by (simp add: digest_bytes_total)
qed simp

lemma example_note_witness:
  assumes "bn_source q = example_input_line" "bn_calculated q = example_calculated" "emitted = \<lparr>nt_noteId = en_noteId e, nt_packedValue = en_packedValue e\<rparr>"
    and e: "deriveStrk20EncryptedNote ref_lib (Big 5) (Big 7) (Digits ''0x1'') (Digits ''0x9'') (Digits usdc) 0 (Digits ''1'')
      (Digits ''2500'') = Inr e" "commitment_ok (en_noteId e)" "toLowerCase (en_noteId e) = en_noteId e"
    "commitment_ok (en_packedValue e)" "toLowerCase (en_packedValue e) = en_packedValue e"
  shows "\<exists>w. note_witness_of ref_lib 5 7 [emitted] (0, q, example_note (en_noteId e) (en_packedValue e)) = Inr w"
proof -
  let ?n = "example_note (en_noteId e) (en_packedValue e)"
  have n: "pn_recipientAddress ?n = ''0x1''" "pn_recipientPublicKey ?n = ''0x9''" "pn_tokenAddress ?n = usdc" "pn_amountAtomic ?n = ''2500''"
    "pn_noteIndex ?n = 0" "pn_salt ?n = ''1''" "pn_position ?n = 0" "nt_noteId ?n = en_noteId e" "nt_packedValue ?n = en_packedValue e"
    by (simp_all add: example_note_def)
  have q: "li_recipientAddress (bn_source q) = ''0x1''" "li_token (bn_source q) = USDC" "netAtomic (bn_calculated q) = ''2500''"
    "li_recipientSalt (bn_source q) = example_hex"
    by (simp_all add: assms(1,2) example_input_line_def example_calculated_def)
  have symbol: "tokenSymbol usdc l = Inr USDC" for l
    using example_felts(5) by (simp add: token_address_value usdc_def)
  have pays: "note_pays 0 q ?n = Inr ()"
    by (simp add: note_pays_def n q symbol example_felts example_line_facts(5) Let_def)
  have emits: "note_emitted ref_lib 5 7 0 ?n emitted = Inr (en_noteId e, en_packedValue e)"
    using e by (simp add: note_emitted_def n assms(3) digest_def Let_def)
  obtain k where k: "buildSettlementMembership ref_lib [emitted] 0 = Inr k" "\<forall>s \<in> set (sm_siblings k). commitment_ok s"
    using one_note_root [of emitted] e(2,4) assms(3) by auto
  obtain r p where bytes: "feltBytes (Digits ''0x1'') (''Settlement recipient '' @ toString 0) = Inr r"
    "feltBytes (Digits ''0x9'') (''Settlement public key '' @ toString 0) = Inr p"
    using felt_bytes_total [OF example_felts(3)] felt_bytes_total [OF example_felts(4)] by blast
  obtain ss where "rmap (\<lambda>(level, sibling). digestBytes ref_lib sibling (''Settlement sibling '' @ toString 0 @ '':'' @ toString (int level)))
      (enumerate 0 (sm_siblings k)) = Inr ss"
    using sibling_bytes_total [OF k(2), of "\<lambda>level. ''Settlement sibling '' @ toString 0 @ '':'' @ toString (int level)"] by blast
  then show ?thesis
    using pays emits k(1) bytes by (simp add: note_witness_of_def n q Let_def digest_bytes_total e(2,4) example_hex_ok)
qed

lemma example_matched:
  "\<exists>b q e m. buildPayrollIntegrityInputs ref_lib same_text example_run = Inr b \<and> ib_proofBindings b = [q]
     \<and> bn_calculated q = example_calculated \<and> buildSettlementMatchInputs ref_lib (example_match b e) = Inr m"
proof -
  obtain b q where b: "buildPayrollIntegrityInputs ref_lib same_text example_run = Inr b" "ib_proofBindings b = [q]"
    "bn_source q = example_input_line" "bn_calculated q = example_calculated" "commitment_ok (ib_manifestRoot b)"
    "commitment_ok (ib_runNullifier b)" using example_built by blast
  obtain e where e: "deriveStrk20EncryptedNote ref_lib (Big 5) (Big 7) (Digits ''0x1'') (Digits ''0x9'') (Digits usdc) 0 (Digits ''1'')
      (Digits ''2500'') = Inr e" "commitment_ok (en_noteId e)" "toLowerCase (en_noteId e) = en_noteId e"
    "commitment_ok (en_packedValue e)" "toLowerCase (en_packedValue e) = en_packedValue e" using example_encrypted by blast
  define emitted :: emitted_note where "emitted = \<lparr>nt_noteId = en_noteId e, nt_packedValue = en_packedValue e\<rparr>"
  obtain root k where root: "buildSettlementRoot ref_lib [emitted] = Inr root" "commitment_ok root"
    "buildSettlementMembership ref_lib [emitted] 0 = Inr k" "\<forall>s \<in> set (sm_siblings k). commitment_ok s"
    using one_note_root [of emitted] e(2,4) by (auto simp: emitted_def)
  obtain w where "note_witness_of ref_lib 5 7 [emitted] (0, q, example_note (en_noteId e) (en_packedValue e)) = Inr w"
    using example_note_witness [OF b(3,4) emitted_def e] by blast
  then have ws: "rmap (note_witness_of ref_lib 5 7 [emitted]) (enumerate 0 (zip [q] [example_note (en_noteId e) (en_packedValue e)])) = Inr [w]"
    by simp
  note hex = lower_commitment(1,2) [OF example_hex_ok]
  have "bigint example_hex \<noteq> 0" by code_simp
  then have checks: "match_checks (example_match b e) = Inr (toLowerCase example_hex, 5, 7)"
    using b(2) example_felts(1,2) example_hex_ok hex by (simp add: match_checks_def example_match_def digest_def Let_def)
  obtain l1 l2 l3 l4 where limbs: "root_limbs ref_lib (ib_manifestRoot b) = Inr l1" "root_limbs ref_lib (ib_runNullifier b) = Inr l2"
    "root_limbs ref_lib (toLowerCase example_hex) = Inr l3" "root_limbs ref_lib root = Inr l4"
    using root_limbs_total b(5,6) hex(1) root(2) by meson
  have small: "canonicalFelt (Big 5) l = Inr 5" "canonicalFelt (Big 7) l = Inr 7" for l
    by (simp_all add: canonicalFelt_Inr STARK_FIELD_PRIME_def)
  obtain r p where bytes: "feltBytes (Big 5) ''Settlement sender'' = Inr r" "feltBytes (Big 7) ''Settlement viewing key'' = Inr p"
    using felt_bytes_total [OF small(1)] felt_bytes_total [OF small(2)] by blast
  have fields: "mi_payroll (example_match b e) = b" "mi_emittedNotes (example_match b e) = [emitted]"
    "mi_payrollNotes (example_match b e) = [example_note (en_noteId e) (en_packedValue e)]"
    by (simp_all add: example_match_def emitted_def)
  have "\<exists>m. buildSettlementMatchInputs ref_lib (example_match b e) = Inr m"
    unfolding buildSettlementMatchInputs_def Let_def checks fields b(2) rbind_simps prod.case root(1) ws limbs chunk_inputs_of_def bytes
    by (simp add: PAYO_SETTLEMENT_CHUNK_LINES_def)
  with b show ?thesis by blast
qed

section \<open>The properties here\<close>

definition spelled_note :: "char \<Rightarrow> emitted_note" where
  "spelled_note c = \<lparr>nt_noteId = ''0x'' @ replicate 64 c, nt_packedValue = example_hex\<rparr>"

lemma spelled_ok:
  "commitment_ok (nt_noteId (spelled_note CHR ''A''))" "commitment_ok (nt_noteId (spelled_note CHR ''a''))"
  "toLowerCase (nt_noteId (spelled_note CHR ''A'')) = nt_noteId (spelled_note CHR ''a'')"
  "commitment_ok (nt_packedValue (spelled_note c))"
  using example_hex_ok by (simp_all add: spelled_note_def) code_simp+

theorem settlement_tree_complete_witness:
  "\<exists>levels. settlementTree ref_lib [spelled_note CHR ''A''] = Inr levels \<and> map length levels = [64, 32, 16, 8, 4, 2, 1]"
proof -
  have "notes_ok [spelled_note CHR ''A'']" using spelled_ok(1,4) by (simp add: notes_ok_def note_ok_def)
  then show ?thesis using settlement_tree_complete [OF ref_lib_hex ref_lib_keccak, of "[spelled_note CHR ''A'']"] by auto
qed

theorem settlement_membership_verifies_witness:
  "\<exists>root m. buildSettlementRoot ref_lib [spelled_note CHR ''A''] = Inr root
     \<and> buildSettlementMembership ref_lib [spelled_note CHR ''A''] 0 = Inr m \<and> sm_root m = root"
proof -
  obtain root where root: "buildSettlementRoot ref_lib [spelled_note CHR ''A''] = Inr root"
    using one_note_root [OF spelled_ok(1) spelled_ok(4)] by blast
  from settlement_membership_verifies [OF ref_lib_hex ref_lib_keccak root, of 0] root show ?thesis by auto
qed

theorem settlement_root_binding_witness:
  "\<exists>root. buildSettlementRoot ref_lib [spelled_note CHR ''A''] = Inr root \<and> buildSettlementRoot ref_lib [spelled_note CHR ''a''] = Inr root
     \<and> (bigint (nt_noteId (spelled_note CHR ''A'')) = bigint (nt_noteId (spelled_note CHR ''a''))
        \<or> (\<exists>x \<in> settlement_preimages ref_lib [spelled_note CHR ''A'']. \<exists>y \<in> settlement_preimages ref_lib [spelled_note CHR ''a''].
             x \<noteq> y \<and> keccak_256 ref_lib x = keccak_256 ref_lib y))"
proof -
  let ?A = "[spelled_note CHR ''A'']" and ?a = "[spelled_note CHR ''a'']"
  have "note_bytes ref_lib i (spelled_note CHR ''A'') = note_bytes ref_lib i (spelled_note CHR ''a'')" for i
    using leaf_bytes_lower [OF ref_lib_hex spelled_ok(1)] spelled_ok(3) by (simp add: note_bytes_def) (simp add: spelled_note_def)
  then have "note_tree ref_lib ?A = note_tree ref_lib ?a" by (simp add: note_tree_def)
  moreover have "notes_ok ?A" "notes_ok ?a" using spelled_ok by (simp_all add: notes_ok_def note_ok_def)
  ultimately have "settlementTree ref_lib ?A = Inr ls \<longleftrightarrow> settlementTree ref_lib ?a = Inr ls" for ls
    by (simp add: settlementTree_Inr [OF ref_lib_hex])
  then have same: "buildSettlementRoot ref_lib ?A = Inr r \<longleftrightarrow> buildSettlementRoot ref_lib ?a = Inr r" for r
    by (simp add: buildSettlementRoot_def rbind_Inr_iff)
  obtain root where root: "buildSettlementRoot ref_lib ?A = Inr root"
    using one_note_root [OF spelled_ok(1) spelled_ok(4)] by blast
  from settlement_root_binding [OF ref_lib_hex ref_lib_keccak root root [unfolded same]] root same show ?thesis by auto
qed

theorem match_pays_run_witness:
  "\<exists>b q e m. buildSettlementMatchInputs ref_lib (example_match b e) = Inr m \<and> ib_proofBindings b = [q]
     \<and> pays_line ref_lib (example_match b e) q (example_note (en_noteId e) (en_packedValue e))
         \<lparr>nt_noteId = en_noteId e, nt_packedValue = en_packedValue e\<rparr>"
proof -
  obtain b q e m where b: "ib_proofBindings b = [q]" "buildSettlementMatchInputs ref_lib (example_match b e) = Inr m"
    using example_matched by blast
  have "mi_payroll (example_match b e) = b" "mi_payrollNotes (example_match b e) = [example_note (en_noteId e) (en_packedValue e)]"
    "mi_emittedNotes (example_match b e) = [\<lparr>nt_noteId = en_noteId e, nt_packedValue = en_packedValue e\<rparr>]"
    by (simp_all add: example_match_def)
  with match_pays_run [OF ref_lib_hex b(2)] b show ?thesis by auto
qed

theorem match_chunks_cover_witness:
  "\<exists>b q e m. buildSettlementMatchInputs ref_lib (example_match b e) = Inr m \<and> ib_proofBindings b = [q]
     \<and> concat (map ck_lines (mt_circuitInputs m)) = padded (3 * length (mt_circuitInputs m)) emptyLine [bn_line q]"
proof -
  obtain b q e m where b: "ib_proofBindings b = [q]" "buildSettlementMatchInputs ref_lib (example_match b e) = Inr m"
    using example_matched by blast
  have "mi_payroll (example_match b e) = b" by (simp add: example_match_def)
  then have "concat (map ck_lines (mt_circuitInputs m)) = padded (3 * length (mt_circuitInputs m)) emptyLine [bn_line q]"
    using match_chunks_cover [OF ref_lib_hex b(2)] b(1) by (simp add: Let_def)
  with b show ?thesis by blast
qed

end
