(* ===== verification/Exceptions.thy ===== *)
theory Exceptions
  imports Tokens Fixed_Fields Attestations Settlement_Match
begin

text \<open>
  Model of \<open>lib/domain/exception-protocol.ts\<close>: the records of the exception protocol (the snapshot of what
  is owed before payday, the statement of what was paid, the claim of a worker, its remediation) and the
  commitments and nullifiers that identify them; and \<open>lib/domain/wage-claim-commitment.ts\<close>.  A schema's version literal is left out of its record; \<open>u64StringSchema\<close> is the
  one of theory Attestations.
\<close>

section \<open>Codes\<close>

definition PAYO_EXCEPTION_SCHEMA_VERSION :: int where "PAYO_EXCEPTION_SCHEMA_VERSION = 2"

datatype claim_kind = Missing_obligation | Below_committed_floor | Incomplete_final_pay

datatype evidence_source = Unsettled_period | Payo_run | Employer_statement | Settlement_match

datatype shortfall_unit = Strk_atomic | Usdc_atomic | Usd_6 | Gbp_6

fun exceptionClaimKinds :: "claim_kind \<Rightarrow> int" where
  "exceptionClaimKinds Missing_obligation = 0"
| "exceptionClaimKinds Below_committed_floor = 1"
| "exceptionClaimKinds Incomplete_final_pay = 2"

fun claimEvidenceSources :: "evidence_source \<Rightarrow> int" where
  "claimEvidenceSources Unsettled_period = 0"
| "claimEvidenceSources Payo_run = 1"
| "claimEvidenceSources Employer_statement = 2"
| "claimEvidenceSources Settlement_match = 3"

fun claimShortfallUnits :: "shortfall_unit \<Rightarrow> int" where
  "claimShortfallUnits Strk_atomic = 0"
| "claimShortfallUnits Usdc_atomic = 1"
| "claimShortfallUnits Usd_6 = 2"
| "claimShortfallUnits Gbp_6 = 3"

fun exceptionTokens :: "token \<Rightarrow> int" where
  "exceptionTokens STRK = 0"
| "exceptionTokens USDC = 1"

section \<open>Schemas\<close>

definition exceptionAddress_ok :: "string \<Rightarrow> bool" where
  "exceptionAddress_ok s = (starknet_address_ok s \<and> length s \<le> 66)"

definition positiveU128StringSchema :: "string \<Rightarrow> bool" where
  "positiveU128StringSchema s = (canonical_dec s \<and> s \<noteq> ''0'' \<and> bigint s < push_bit 128 1)"

record obligation_snapshot =
  os_runNullifier :: string
  os_baseAgreementRoot :: string
  os_obligationRoot :: string
  os_policyRoot :: string
  os_ownerAddress :: string
  os_dueAt :: string
  os_graceEndsAt :: string
  os_claimEndsAt :: string
  os_availabilityCommitment :: string

definition obligationSnapshotV2Schema :: "obligation_snapshot \<Rightarrow> bool" where
  "obligationSnapshotV2Schema s =
     (commitment_ok (os_runNullifier s) \<and> commitment_ok (os_baseAgreementRoot s) \<and> commitment_ok (os_obligationRoot s)
      \<and> commitment_ok (os_policyRoot s) \<and> exceptionAddress_ok (os_ownerAddress s)
      \<and> u64StringSchema (os_dueAt s) \<and> u64StringSchema (os_graceEndsAt s) \<and> u64StringSchema (os_claimEndsAt s)
      \<and> commitment_ok (os_availabilityCommitment s)
      \<and> \<not> bigint (os_graceEndsAt s) < bigint (os_dueAt s) \<and> \<not> bigint (os_claimEndsAt s) \<le> bigint (os_graceEndsAt s))"

record payroll_statement =
  pst_runNullifier :: string
  pst_snapshotCommitment :: string
  pst_manifestRoot :: string
  pst_fxRoot :: string
  pst_availabilityCommitment :: string
  pst_observedAt :: string
  pst_source :: evidence_source

definition payrollStatementV2Schema :: "payroll_statement \<Rightarrow> bool" where
  "payrollStatementV2Schema s =
     (commitment_ok (pst_runNullifier s) \<and> commitment_ok (pst_snapshotCommitment s) \<and> commitment_ok (pst_manifestRoot s)
      \<and> commitment_ok (pst_fxRoot s) \<and> commitment_ok (pst_availabilityCommitment s) \<and> u64StringSchema (pst_observedAt s)
      \<and> pst_source s \<in> {Employer_statement, Settlement_match})"

record claim_fact =
  cl_claimSubjectNullifier :: string
  cl_runNullifier :: string
  cl_snapshotCommitment :: string
  cl_statementCommitment :: string
  cl_manifestRoot :: string
  cl_agreementLeaf :: string
  cl_targetIndex :: int
  cl_claimKind :: claim_kind
  cl_shortfallAtomic :: string
  cl_shortfallUnit :: shortfall_unit
  cl_obligationToken :: token
  cl_evidenceSource :: evidence_source

definition exceptionClaimFactSchema :: "claim_fact \<Rightarrow> bool" where
  "exceptionClaimFactSchema c =
     (commitment_ok (cl_claimSubjectNullifier c) \<and> commitment_ok (cl_runNullifier c) \<and> commitment_ok (cl_snapshotCommitment c)
      \<and> commitment_ok (cl_statementCommitment c) \<and> commitment_ok (cl_manifestRoot c) \<and> commitment_ok (cl_agreementLeaf c)
      \<and> 0 \<le> cl_targetIndex c \<and> cl_targetIndex c \<le> 49 \<and> positiveU128StringSchema (cl_shortfallAtomic c)
      \<and> \<not> (cl_claimKind c = Below_committed_floor \<and> cl_shortfallUnit c \<notin> {Usd_6, Gbp_6})
      \<and> \<not> (cl_claimKind c \<noteq> Below_committed_floor
            \<and> cl_shortfallUnit c \<noteq> (if cl_obligationToken c = STRK then Strk_atomic else Usdc_atomic))
      \<and> \<not> (cl_claimKind c \<noteq> Missing_obligation \<and> cl_evidenceSource c = Unsettled_period)
      \<and> cl_evidenceSource c \<noteq> Payo_run)"

section \<open>Commitments\<close>

definition hashFixed :: "lib \<Rightarrow> string \<Rightarrow> byte list result list \<Rightarrow> string result" where
  "hashFixed L domain encoded = hash_fields L domain encoded"

definition fixed_u8 :: "int \<Rightarrow> string \<Rightarrow> byte list result" where
  "fixed_u8 value label = (if value < 0 \<or> 255 < value then Inl (Thrown (label @ '' must fit in u8.'')) else Inr [word_of_int value])"

definition fixed_u64 :: "bigint_like \<Rightarrow> string \<Rightarrow> byte list result" where
  "fixed_u64 value label =
     rbind (to_BigInt value) (\<lambda>parsed.
     if parsed < 0 \<or> push_bit 64 1 \<le> parsed then Inl (Thrown (label @ '' must fit in u64.'')) else encodeUint parsed 8)"

definition fixed_u128 :: "bigint_like \<Rightarrow> string \<Rightarrow> bool \<Rightarrow> byte list result" where
  "fixed_u128 value label positive =
     rbind (to_BigInt value) (\<lambda>parsed.
     if parsed < (if positive then 1 else 0) \<or> push_bit 128 1 \<le> parsed
     then Inl (Thrown (label @ '' must fit in '' @ (if positive then ''a positive '' else []) @ ''u128.''))
     else encodeUint parsed 16)"

abbreviation hex32 :: "lib \<Rightarrow> string \<Rightarrow> byte list result" where
  "hex32 L s \<equiv> normalizedHexBytes L s (Some 32)"

definition claimCapabilityCommitmentV2 :: "lib \<Rightarrow> string \<Rightarrow> string result" where
  "claimCapabilityCommitmentV2 L secret = hashFixed L ''PAYO_CLAIM_CAPABILITY_V2'' [hex32 L secret]"

definition snapshot_fields :: "lib \<Rightarrow> obligation_snapshot \<Rightarrow> byte list result list" where
  "snapshot_fields L s =
     [fixed_u8 PAYO_EXCEPTION_SCHEMA_VERSION ''Snapshot schema version'', hex32 L (os_runNullifier s), hex32 L (os_baseAgreementRoot s),
      hex32 L (os_obligationRoot s), hex32 L (os_policyRoot s), hex32 L (os_ownerAddress s),
      fixed_u64 (Digits (os_dueAt s)) ''Snapshot payday'', fixed_u64 (Digits (os_graceEndsAt s)) ''Snapshot grace deadline'',
      fixed_u64 (Digits (os_claimEndsAt s)) ''Snapshot claim deadline'', hex32 L (os_availabilityCommitment s)]"

definition obligationSnapshotCommitmentV2 :: "lib \<Rightarrow> obligation_snapshot \<Rightarrow> string result" where
  "obligationSnapshotCommitmentV2 L input =
     rbind (zod ''obligationSnapshotV2Schema'' obligationSnapshotV2Schema input) (\<lambda>snapshot.
     hashFixed L ''PAYO_OBLIGATION_SNAPSHOT_V2'' (snapshot_fields L snapshot))"

definition statement_fields :: "lib \<Rightarrow> payroll_statement \<Rightarrow> byte list result list" where
  "statement_fields L s =
     [fixed_u8 PAYO_EXCEPTION_SCHEMA_VERSION ''Statement schema version'', hex32 L (pst_runNullifier s), hex32 L (pst_snapshotCommitment s),
      hex32 L (pst_manifestRoot s), hex32 L (pst_fxRoot s), hex32 L (pst_availabilityCommitment s),
      fixed_u64 (Digits (pst_observedAt s)) ''Statement observation time'',
      fixed_u8 (claimEvidenceSources (pst_source s)) ''Statement source'']"

definition payrollStatementCommitmentV2 :: "lib \<Rightarrow> payroll_statement \<Rightarrow> string result" where
  "payrollStatementCommitmentV2 L input =
     rbind (zod ''payrollStatementV2Schema'' payrollStatementV2Schema input) (\<lambda>statement.
     hashFixed L ''PAYO_PAYROLL_STATEMENT_V2'' (statement_fields L statement))"

definition claimSubjectNullifierV2 :: "lib \<Rightarrow> string \<Rightarrow> string \<Rightarrow> string \<Rightarrow> claim_kind \<Rightarrow> string result" where
  "claimSubjectNullifierV2 L claimCapabilitySecret runNullifier agreementLeaf claimKind =
     hashFixed L ''PAYO_CLAIM_SUBJECT_V2'' [hex32 L claimCapabilitySecret, hex32 L runNullifier, hex32 L agreementLeaf,
       fixed_u8 (exceptionClaimKinds claimKind) ''Claim kind'']"

text \<open>Its callers give it a parsed fact, whose amount is a text.\<close>

definition claim_fields :: "lib \<Rightarrow> claim_fact \<Rightarrow> byte list result list" where
  "claim_fields L c =
     [hex32 L (cl_claimSubjectNullifier c), hex32 L (cl_runNullifier c), hex32 L (cl_snapshotCommitment c),
      hex32 L (cl_statementCommitment c), hex32 L (cl_manifestRoot c), hex32 L (cl_agreementLeaf c),
      fixed_u8 (cl_targetIndex c) ''Claim target index'', fixed_u8 (exceptionClaimKinds (cl_claimKind c)) ''Claim kind'',
      fixed_u128 (Digits (cl_shortfallAtomic c)) ''Claim shortfall'' True,
      fixed_u8 (claimShortfallUnits (cl_shortfallUnit c)) ''Claim shortfall unit'',
      fixed_u8 (exceptionTokens (cl_obligationToken c)) ''Claim obligation token'',
      fixed_u8 (claimEvidenceSources (cl_evidenceSource c)) ''Claim evidence source'']"

definition claimFactCommitmentV2 :: "lib \<Rightarrow> claim_fact \<Rightarrow> string result" where
  "claimFactCommitmentV2 L input = hashFixed L ''PAYO_CLAIM_FACT_V2'' (claim_fields L input)"

definition remediationSubjectNullifierV2 :: "lib \<Rightarrow> string \<Rightarrow> string \<Rightarrow> string result" where
  "remediationSubjectNullifierV2 L claimSubjectNullifier remediationSecret =
     hashFixed L ''PAYO_REMEDIATION_SUBJECT_V2'' [hex32 L claimSubjectNullifier, hex32 L remediationSecret]"

record remediation_fact =
  rm_remediationSubjectNullifier :: string
  rm_claimSubjectNullifier :: string
  rm_claimFactCommitment :: string
  rm_recipientCommitment :: string
  rm_token :: token
  rm_amountAtomic :: bigint_like
  rm_referenceValueAtomic :: bigint_like
  rm_referenceUnit :: shortfall_unit
  rm_fxRoot :: string

definition remediation_fields :: "lib \<Rightarrow> remediation_fact \<Rightarrow> byte list result list" where
  "remediation_fields L r =
     [hex32 L (rm_remediationSubjectNullifier r), hex32 L (rm_claimSubjectNullifier r), hex32 L (rm_claimFactCommitment r),
      hex32 L (rm_recipientCommitment r), fixed_u8 (exceptionTokens (rm_token r)) ''Remediation token'',
      fixed_u128 (rm_amountAtomic r) ''Remediation amount'' True, fixed_u128 (rm_referenceValueAtomic r) ''Remediation reference value'' False,
      fixed_u8 (claimShortfallUnits (rm_referenceUnit r)) ''Remediation reference unit'', hex32 L (rm_fxRoot r)]"

definition remediationFactCommitmentV2 :: "lib \<Rightarrow> remediation_fact \<Rightarrow> string result" where
  "remediationFactCommitmentV2 L input = hashFixed L ''PAYO_REMEDIATION_FACT_V2'' (remediation_fields L input)"

section \<open>The claim nullifier of the first version\<close>

definition wageClaimKinds :: "claim_kind \<Rightarrow> int" where
  "wageClaimKinds = exceptionClaimKinds"

definition wageClaimNullifier :: "lib \<Rightarrow> string \<Rightarrow> string \<Rightarrow> string \<Rightarrow> claim_kind \<Rightarrow> bigint_like \<Rightarrow> string \<Rightarrow> string result" where
  "wageClaimNullifier L originalRunNullifier disputedManifestRoot agreementLeaf claimKind shortfallAtomic claimSalt =
     rbind (to_BigInt shortfallAtomic) (\<lambda>shortfall.
     if shortfall \<le> 0 \<or> push_bit 128 1 \<le> shortfall then Inl (Thrown ''A wage claim shortfall must fit in a positive u128.'')
     else hash_fields L ''PAYO_WAGE_CLAIM_V1_BINARY''
       [hex32 L originalRunNullifier, hex32 L disputedManifestRoot, hex32 L agreementLeaf,
        Inr [word_of_int (wageClaimKinds claimKind)], encodeUint shortfall 16, hex32 L claimSalt])"

section \<open>Public inputs\<close>

definition exceptionPublicInputV2Keys :: "string list" where
  "exceptionPublicInputV2Keys =
     [''chainId'', ''sealAddress'', ''proofVersion'', ''schemaVersion'', ''agreementRootHigh'', ''agreementRootLow'',
      ''manifestRootHigh'', ''manifestRootLow'', ''policyRootHigh'', ''policyRootLow'', ''fxRootHigh'', ''fxRootLow'',
      ''subjectNullifierHigh'', ''subjectNullifierLow'', ''parentNullifierHigh'', ''parentNullifierLow'',
      ''factCommitmentHigh'', ''factCommitmentLow'', ''parentFactCommitmentHigh'', ''parentFactCommitmentLow'',
      ''validityStart'', ''validityExpiry'', ''shardIndex'']"

definition PAYO_EXCEPTION_PUBLIC_INPUT_COUNT :: nat where
  "PAYO_EXCEPTION_PUBLIC_INPUT_COUNT = length exceptionPublicInputV2Keys"

record exception_public =
  ep_chainId :: string
  ep_sealAddress :: string
  ep_proofVersion :: string
  ep_schemaVersion :: string
  ep_agreementRoot :: "string \<times> string"     \<comment> \<open>the high and the low limb, likewise below\<close>
  ep_manifestRoot :: "string \<times> string"
  ep_policyRoot :: "string \<times> string"
  ep_fxRoot :: "string \<times> string"
  ep_subjectNullifier :: "string \<times> string"
  ep_parentNullifier :: "string \<times> string"
  ep_factCommitment :: "string \<times> string"
  ep_parentFactCommitment :: "string \<times> string"
  ep_validityStart :: string
  ep_validityExpiry :: string
  ep_shardIndex :: string

definition mapExceptionPublicInputsV2 :: "string list \<Rightarrow> exception_public result" where
  "mapExceptionPublicInputsV2 vs =
     (if length vs \<noteq> PAYO_EXCEPTION_PUBLIC_INPUT_COUNT
      then Inl (Thrown (''Expected '' @ toString (int PAYO_EXCEPTION_PUBLIC_INPUT_COUNT) @ '' exception public inputs; received ''
        @ toString (int (length vs)) @ ''.''))
      else Inr \<lparr>ep_chainId = vs ! 0, ep_sealAddress = vs ! 1, ep_proofVersion = vs ! 2, ep_schemaVersion = vs ! 3,
        ep_agreementRoot = (vs ! 4, vs ! 5), ep_manifestRoot = (vs ! 6, vs ! 7), ep_policyRoot = (vs ! 8, vs ! 9),
        ep_fxRoot = (vs ! 10, vs ! 11), ep_subjectNullifier = (vs ! 12, vs ! 13), ep_parentNullifier = (vs ! 14, vs ! 15),
        ep_factCommitment = (vs ! 16, vs ! 17), ep_parentFactCommitment = (vs ! 18, vs ! 19),
        ep_validityStart = vs ! 20, ep_validityExpiry = vs ! 21, ep_shardIndex = vs ! 22\<rparr>)"

end
