(* ===== verification/Claim_Inputs.thy ===== *)
theory Claim_Inputs
  imports Exceptions
begin

text \<open>
  Model of \<open>lib/proof/exception-input-builder.ts\<close>: the inputs of the three exception circuits.  Before payday
  the employer commits to what every worker is owed; after the grace period a worker proves a shortfall against
  that snapshot; the employer then proves that a payment covers the shortfall.  \<open>BigInt\<close> is applied to texts of
  the caller, so it may throw; \<open>ZERO\<close>, the empty witnesses and \<open>bytes32\<close> are those of theory Payroll_Inputs,
  which this file of the source repeats.
\<close>

section \<open>Helpers\<close>

definition MAX_REAL_LINES :: nat where "MAX_REAL_LINES = 50"

definition boundedU64 :: "int \<Rightarrow> string \<Rightarrow> string result" where
  "boundedU64 value label =
     (if value < 0 \<or> push_bit 64 1 \<le> value then Inl (Thrown (label @ '' must fit in u64.'')) else Inr (toString value))"

definition boundedU128 :: "int \<Rightarrow> string \<Rightarrow> bool \<Rightarrow> string result" where
  "boundedU128 value label positive =
     (if value < (if positive then 1 else 0) \<or> push_bit 128 1 \<le> value
      then Inl (Thrown (label @ '' must fit in '' @ (if positive then ''a positive '' else []) @ ''u128.''))
      else Inr (toString value))"

text \<open>
  \<open>Number\<close> of a text that is a whole number; any other text gives \<open>NaN\<close>, the value None.  Masks and counts
  are below 2^53, where \<open>Number\<close> is exact.
\<close>

definition js_Number :: "string \<Rightarrow> int option" where
  "js_Number text = (case BigInt text of Inr n \<Rightarrow> Some n | Inl _ \<Rightarrow> None)"

text \<open>\<open>xs.slice(0, n)\<close>\<close>

definition js_slice :: "'a list \<Rightarrow> int option \<Rightarrow> 'a list" where
  "js_slice xs n =
     (case n of None \<Rightarrow> []
      | Some k \<Rightarrow> take (if 0 \<le> k then nat k else length xs - nat (- k)) xs)"

definition circuitFx :: "lib \<Rightarrow> (string \<Rightarrow> string \<Rightarrow> int) \<Rightarrow> fx_snapshot \<Rightarrow> snapshot_witness result" where
  "circuitFx L localeCompare snapshot =
     rbind (toCircuitFxSnapshot L localeCompare snapshot) (\<lambda>circuit.
     rbind (bytes32 L (cf_feedCommitment circuit)) (\<lambda>feed.
     rbind (bytes32 L (cf_sourcesCommitment circuit)) (\<lambda>srcs.
     Inr \<lparr>sw_token = toString (cf_token circuit), sw_token_decimals = toString (cf_tokenDecimals circuit),
          sw_reference_currency = toString (cf_referenceCurrency circuit), sw_quote_decimals = ''6'',
          sw_feed_commitment = feed, sw_sources_commitment = srcs,
          sw_price_numerator = cf_priceNumerator circuit, sw_price_denominator = cf_priceDenominator circuit,
          sw_observed_at = cf_observedAt circuit, sw_source_count = toString (cf_sourceCount circuit),
          sw_minimum_source_count = toString (cf_minimumSourceCount circuit),
          sw_maximum_age_seconds = cf_maximumAgeSeconds circuit, sw_haircut_bps = toString (cf_haircutBps circuit)\<rparr>)))"

record exception_binding =
  xb_chainId :: string
  xb_sealAddress :: string
  xb_proofVersion :: int
  xb_agreementRoot :: string
  xb_manifestRoot :: string
  xb_policyRoot :: string
  xb_fxRoot :: string
  xb_subjectNullifier :: string
  xb_parentNullifier :: string
  xb_factCommitment :: string
  xb_parentFactCommitment :: string
  xb_validityStart :: int
  xb_validityExpiry :: int

definition binding_checks :: "exception_binding \<Rightarrow> (int \<times> int) result" where
  "binding_checks input =
     rbind (BigInt (xb_chainId input)) (\<lambda>chainId.
     if chainId = 0 then Inl (Thrown ''An exception proof requires non-zero deployment binding.'')
     else rbind (BigInt (xb_sealAddress input)) (\<lambda>sealAddress.
       if sealAddress = 0 then Inl (Thrown ''An exception proof requires non-zero deployment binding.'')
       else if xb_validityStart input < 0 \<or> xb_validityExpiry input < xb_validityStart input
           \<or> 3600 < xb_validityExpiry input - xb_validityStart input
       then Inl (Thrown ''Exception proof validity must be ordered and no longer than one hour.'')
       else Inr (chainId, sealAddress)))"

definition publicInputs :: "lib \<Rightarrow> exception_binding \<Rightarrow> exception_public result" where
  "publicInputs L input =
     rbind (binding_checks input) (\<lambda>(chainId, sealAddress).
     rbind (root_limbs L (xb_agreementRoot input)) (\<lambda>agreement.
     rbind (root_limbs L (xb_manifestRoot input)) (\<lambda>manifest.
     rbind (root_limbs L (xb_policyRoot input)) (\<lambda>policy.
     rbind (root_limbs L (xb_fxRoot input)) (\<lambda>fx.
     rbind (root_limbs L (xb_subjectNullifier input)) (\<lambda>subject.
     rbind (root_limbs L (xb_parentNullifier input)) (\<lambda>parent.
     rbind (root_limbs L (xb_factCommitment input)) (\<lambda>fact.
     rbind (root_limbs L (xb_parentFactCommitment input)) (\<lambda>parentFact.
     rbind (boundedU64 (xb_validityStart input) ''Validity start'') (\<lambda>validityStart.
     rbind (boundedU64 (xb_validityExpiry input) ''Validity expiry'') (\<lambda>validityExpiry.
     Inr \<lparr>ep_chainId = toString chainId, ep_sealAddress = toString sealAddress,
          ep_proofVersion = toString (xb_proofVersion input), ep_schemaVersion = ''2'', ep_agreementRoot = agreement,
          ep_manifestRoot = manifest, ep_policyRoot = policy, ep_fxRoot = fx, ep_subjectNullifier = subject,
          ep_parentNullifier = parent, ep_factCommitment = fact, ep_parentFactCommitment = parentFact,
          ep_validityStart = validityStart, ep_validityExpiry = validityExpiry, ep_shardIndex = ''0''\<rparr>)))))))))))"

section \<open>The snapshot of what is owed\<close>

record snapshot_line =
  wl_index :: nat
  wl_agreementId :: string
  wl_calculated :: calculated_line
  wl_agreementLeaf :: string
  wl_agreement :: agreement_witness
  wl_claimCapabilityCommitment :: string
  wl_expectedNetAtomic :: string
  wl_claimLeaf :: string
  wl_agreementMembership :: merkle_witness
  wl_claimMembership :: merkle_witness

record snapshot_plan =
  pl_snapshot :: obligation_snapshot
  pl_snapshotCommitment :: string
  pl_claimRoot :: string
  pl_lines :: "snapshot_line list"

text \<open>The part of a build the snapshot reads; a full build of the run has it too.\<close>

definition build_snapshot :: "input_build \<Rightarrow> agreement_snapshot" where
  "build_snapshot b = \<lparr>as_agreementRoot = ib_agreementRoot b, as_policyRoot = ib_policyRoot b, as_runNullifier = ib_runNullifier b,
     as_calculatedLines = ib_calculatedLines b, as_proofBindings = map snapshot_binding.truncate (ib_proofBindings b)\<rparr>"

definition fixed_witness_of :: "fixed_membership \<Rightarrow> merkle_witness" where
  "fixed_witness_of m = merkle_witness_of (catalog_membership.truncate m)"

definition claim_leaf_of :: "lib \<Rightarrow> (string \<rightharpoonup> string) \<Rightarrow> snapshot_binding \<Rightarrow> string result" where
  "claim_leaf_of L capabilities binding =
     (case capabilities (bn_agreementId binding) of
        None \<Rightarrow> Inl (Thrown (''Agreement '' @ bn_agreementId binding @ '' has no worker claim capability commitment.''))
      | Some capability \<Rightarrow>
          if capability = [] then Inl (Thrown (''Agreement '' @ bn_agreementId binding @ '' has no worker claim capability commitment.''))
          else rbind (BigInt (netAtomic (bn_calculated binding))) (\<lambda>net.
            rbind (boundedU128 net ''Expected claim minimum'' True) (\<lambda>_.
            proofClaimObligationCommitment L (bn_agreementLeaf binding) capability net)))"

definition snapshot_line_of ::
    "lib \<Rightarrow> (string \<rightharpoonup> string) \<Rightarrow> string list \<Rightarrow> string list \<Rightarrow> nat \<times> snapshot_binding \<Rightarrow> snapshot_line result" where
  "snapshot_line_of L capabilities baseLeaves claimLeaves = (\<lambda>(index, binding).
     rbind (bytes32 L (the (capabilities (bn_agreementId binding)))) (\<lambda>capability.
     rbind (buildProofFixedMerkleMembership L baseLeaves index) (\<lambda>agreementMembership.
     rbind (buildProofFixedMerkleMembership L claimLeaves index) (\<lambda>claimMembership.
     Inr \<lparr>wl_index = index, wl_agreementId = bn_agreementId binding, wl_calculated = bn_calculated binding,
          wl_agreementLeaf = bn_agreementLeaf binding, wl_agreement = bn_agreement binding,
          wl_claimCapabilityCommitment = toHex L capability, wl_expectedNetAtomic = netAtomic (bn_calculated binding),
          wl_claimLeaf = claimLeaves ! index, wl_agreementMembership = fixed_witness_of agreementMembership,
          wl_claimMembership = fixed_witness_of claimMembership\<rparr>))))"

record snapshot_terms =
  st_ownerAddress :: string
  st_claimCapabilityCommitments :: "string \<rightharpoonup> string"
  st_graceEndsAt :: int
  st_claimEndsAt :: int

definition snapshot_of :: "lib \<Rightarrow> agreement_snapshot \<Rightarrow> 'x snapshot_terms_scheme \<Rightarrow> int \<Rightarrow> string \<Rightarrow> obligation_snapshot result" where
  "snapshot_of L payroll terms dueAt claimRoot =
     rbind (bytes32 L (st_ownerAddress terms)) (\<lambda>owner.
     rbind (boundedU64 dueAt ''Snapshot payday'') (\<lambda>due.
     rbind (boundedU64 (st_graceEndsAt terms) ''Snapshot grace deadline'') (\<lambda>grace.
     rbind (boundedU64 (st_claimEndsAt terms) ''Snapshot claim deadline'') (\<lambda>claimEnds.
     zod ''obligationSnapshotV2Schema'' obligationSnapshotV2Schema
       \<lparr>os_runNullifier = as_runNullifier payroll, os_baseAgreementRoot = as_agreementRoot payroll, os_obligationRoot = claimRoot,
        os_policyRoot = as_policyRoot payroll, os_ownerAddress = toHex L owner, os_dueAt = due, os_graceEndsAt = grace,
        os_claimEndsAt = claimEnds, os_availabilityCommitment = claimRoot\<rparr>))))"

definition buildObligationSnapshotPlanInputs :: "lib \<Rightarrow> agreement_snapshot \<Rightarrow> 'x snapshot_terms_scheme \<Rightarrow> snapshot_plan result" where
  "buildObligationSnapshotPlanInputs L payroll terms =
     (let bindings = as_proofBindings payroll; capabilities = st_claimCapabilityCommitments terms in
      if length bindings < 1 \<or> MAX_REAL_LINES < length bindings
      then Inl (Thrown ''An obligation snapshot requires 1-50 payroll obligations.'')
      else
        let dueAt = li_dueAt (bn_source (bindings ! 0)) in
        if \<exists>binding \<in> set bindings. li_dueAt (bn_source binding) \<noteq> dueAt
        then Inl (Thrown ''One obligation snapshot can contain only obligations with the same payday.'')
        else
          let baseLeaves = map bn_agreementLeaf bindings in
          rbind (rmap (claim_leaf_of L capabilities) bindings) (\<lambda>claimLeaves.
          rbind (buildProofFixedMerkleRoot L claimLeaves) (\<lambda>claimRoot.
          rbind (buildProofFixedMerkleRoot L baseLeaves) (\<lambda>baseRoot.
          if baseRoot \<noteq> as_agreementRoot payroll
          then Inl (Thrown ''The snapshot agreement leaves do not reconstruct PayrollIntegrity's agreement root.'')
          else
            rbind (snapshot_of L payroll terms dueAt claimRoot) (\<lambda>snapshot.
            rbind (obligationSnapshotCommitmentV2 L snapshot) (\<lambda>snapshotCommitment.
            rbind (rmap (snapshot_line_of L capabilities baseLeaves claimLeaves) (enumerate 0 bindings)) (\<lambda>lines.
            Inr \<lparr>pl_snapshot = snapshot, pl_snapshotCommitment = snapshotCommitment, pl_claimRoot = claimRoot,
                 pl_lines = lines\<rparr>)))))))"

record link_input = snapshot_terms +
  ki_chainId :: string
  ki_sealAddress :: string
  ki_payroll :: input_build
  ki_validityStart :: int
  ki_validityExpiry :: int

record link_circuit =
  lk_public :: exception_public
  lk_run_nullifier :: "byte list"
  lk_policy_root :: "byte list"
  lk_owner_address :: "byte list"
  lk_due_at :: string
  lk_grace_ends_at :: string
  lk_claim_ends_at :: string
  lk_base_agreement_leaves :: "string list"
  lk_claim_capability_commitments :: "byte list list"
  lk_expected_net_amounts :: "string list"

record link_build = snapshot_plan +
  lb_publicInputs :: exception_public
  lb_circuitInputs :: link_circuit

definition link_binding :: "link_input \<Rightarrow> snapshot_plan \<Rightarrow> exception_binding" where
  "link_binding input plan =
     \<lparr>xb_chainId = ki_chainId input, xb_sealAddress = ki_sealAddress input, xb_proofVersion = 5,
      xb_agreementRoot = ib_agreementRoot (ki_payroll input), xb_manifestRoot = pl_claimRoot plan,
      xb_policyRoot = ib_policyRoot (ki_payroll input), xb_fxRoot = ZERO,
      xb_subjectNullifier = ib_runNullifier (ki_payroll input), xb_parentNullifier = ZERO,
      xb_factCommitment = pl_snapshotCommitment plan, xb_parentFactCommitment = ZERO,
      xb_validityStart = ki_validityStart input, xb_validityExpiry = ki_validityExpiry input\<rparr>"

definition link_circuit_of :: "lib \<Rightarrow> input_build \<Rightarrow> snapshot_plan \<Rightarrow> exception_public \<Rightarrow> link_circuit result" where
  "link_circuit_of L payroll plan public =
     rbind (bytes32 L (ib_runNullifier payroll)) (\<lambda>runNullifier.
     rbind (bytes32 L (ib_policyRoot payroll)) (\<lambda>policyRoot.
     rbind (bytes32 L (os_ownerAddress (pl_snapshot plan))) (\<lambda>owner.
     rbind (leaf_texts (map wl_agreementLeaf (pl_lines plan))) (\<lambda>leaves.
     rbind (rmap (\<lambda>l. bytes32 L (wl_claimCapabilityCommitment l)) (pl_lines plan)) (\<lambda>capabilities.
     rbind (pad_to capabilities MAX_REAL_LINES zero_bytes) (\<lambda>capabilities50.
     rbind (pad_to (map wl_expectedNetAtomic (pl_lines plan)) MAX_REAL_LINES ''0'') (\<lambda>amounts.
     Inr \<lparr>lk_public = public, lk_run_nullifier = runNullifier, lk_policy_root = policyRoot, lk_owner_address = owner,
          lk_due_at = os_dueAt (pl_snapshot plan), lk_grace_ends_at = os_graceEndsAt (pl_snapshot plan),
          lk_claim_ends_at = os_claimEndsAt (pl_snapshot plan), lk_base_agreement_leaves = leaves,
          lk_claim_capability_commitments = capabilities50, lk_expected_net_amounts = amounts\<rparr>)))))))"

definition buildObligationSnapshotLinkInputs :: "lib \<Rightarrow> link_input \<Rightarrow> link_build result" where
  "buildObligationSnapshotLinkInputs L input =
     rbind (buildObligationSnapshotPlanInputs L (build_snapshot (ki_payroll input)) input) (\<lambda>plan.
     rbind (publicInputs L (link_binding input plan)) (\<lambda>public.
     rbind (link_circuit_of L (ki_payroll input) plan public) (\<lambda>circuit.
     Inr (snapshot_plan.extend plan (link_build.fields public circuit)))))"

end
