(* ===== verification/Wage_Claims.thy ===== *)
theory Wage_Claims
  imports Claim_Inputs
begin

text \<open>
  The second part of \<open>lib/proof/exception-input-builder.ts\<close>: a worker's claim of a shortfall against the snapshot
  of theory Claim_Inputs, and the remediation of an accepted claim.
\<close>

section \<open>What a statement says\<close>

record line_evidence =
  le_deductionsAtomic :: "string list"
  le_lineSalt :: string
  le_classificationTreatment :: int
  le_finalIncludedMask :: int
  le_referenceValueAtomic :: string

text \<open>The target is empty or the line that was paid; the manifest and its opening are optional.\<close>

text \<open>A statement comes from the employer or from a settlement match; its type has no other source.\<close>

datatype statement_source = Source_employer | Source_settlement

fun statement_source_name :: "statement_source \<Rightarrow> evidence_source" where
  "statement_source_name Source_employer = Employer_statement"
| "statement_source_name Source_settlement = Settlement_match"

record statement_evidence =
  se_source :: statement_source
  se_observedAt :: int
  se_availabilityCommitment :: string
  se_target :: "line_evidence option"
  se_manifestRoot :: "string option"
  se_manifestMembership :: "catalog_membership option"
  se_fxSnapshots :: "fx_snapshot list option"
  se_selectedFxIndex :: "int option"

datatype claim_evidence = No_statement | Statement statement_evidence

fun evidence_source_of :: "claim_evidence \<Rightarrow> evidence_source" where
  "evidence_source_of No_statement = Unsettled_period"
| "evidence_source_of (Statement e) = statement_source_name (se_source e)"

definition statement_line_input :: "calculated_line \<Rightarrow> line_evidence \<Rightarrow> string \<Rightarrow> private_line" where
  "statement_line_input original evidence lineSalt =
     \<lparr>agreementId = agreementId original, recipientAddress = recipientAddress original, line_token = line_token original,
      earningsAtomic = earningsAtomic original, deductionsAtomic = le_deductionsAtomic evidence,
      committedPolicyId = committedPolicyId original, scheduleCommitment = scheduleCommitment original, salt = lineSalt\<rparr>"

text \<open>The leaf is a promise: what it throws is only seen where it is awaited.\<close>

definition statementLine :: "lib \<Rightarrow> snapshot_line \<Rightarrow> line_evidence \<Rightarrow> (line_witness \<times> string result) result" where
  "statementLine L target evidence =
     (let count = length (le_deductionsAtomic evidence) in
      if 8 < count then Inl (Thrown ''A statement line supports at most eight deductions.'')
      else
        rbind (bytes32 L (le_lineSalt evidence)) (\<lambda>lineSalt.
        rbind (calculatePayrollLine (statement_line_input (wl_calculated target) evidence (toHex L lineSalt))) (\<lambda>calculated.
        rbind (pad_to (le_deductionsAtomic evidence) 8 ''0'') (\<lambda>deductions.
        rbind (BigInt (le_referenceValueAtomic evidence)) (\<lambda>reference.
        rbind (boundedU128 reference ''Statement reference value'' False) (\<lambda>referenceText.
        Inr (\<lparr>lw_active = True, lw_deductions = deductions, lw_deductions_count = toString (int count), lw_policy_slot = ''0'',
              lw_fx_slot = ''0'', lw_salt = lineSalt,
              lw_classification_treatment = toString (le_classificationTreatment evidence),
              lw_final_included_mask = toString (le_finalIncludedMask evidence), lw_reference_value_atomic = referenceText\<rparr>,
             proofPayrollCommitment L calculated (wl_agreementLeaf target)
               \<lparr>lm_classificationTreatment = le_classificationTreatment evidence,
                lm_finalIncludedMask = le_finalIncludedMask evidence, lm_referenceValueAtomic = reference\<rparr>)))))))"

record fx_evidence =
  fe_root :: string
  fe_snapshot :: snapshot_witness
  fe_membership :: merkle_witness

definition no_fx_evidence :: fx_evidence where
  "no_fx_evidence = \<lparr>fe_root = ZERO, fe_snapshot = emptySnapshot, fe_membership = emptyMembership\<rparr>"

definition fxEvidence ::
    "lib \<Rightarrow> (string \<Rightarrow> string \<Rightarrow> int) \<Rightarrow> fx_snapshot list option \<Rightarrow> int option \<Rightarrow> fx_evidence result" where
  "fxEvidence L localeCompare snapshots selected =
     (case snapshots of
        None \<Rightarrow> Inr no_fx_evidence
      | Some [] \<Rightarrow> Inr no_fx_evidence
      | Some ss \<Rightarrow>
          if 2 < length ss then Inl (Thrown ''An exception FX catalog supports at most two snapshots.'')
          else
            let selectedIndex = (case selected of None \<Rightarrow> 0 | Some i \<Rightarrow> i) in
            if selectedIndex < 0 \<or> int (length ss) \<le> selectedIndex
            then Inl (Thrown ''The selected exception FX snapshot is unavailable.'')
            else
              rbind (rmap (fxSnapshotCommitment L localeCompare) ss) (\<lambda>commitments.
              rbind (buildProofCatalog L commitments) (\<lambda>(root, memberships).
              rbind (circuitFx L localeCompare (ss ! nat selectedIndex)) (\<lambda>snapshot.
              Inr \<lparr>fe_root = root, fe_snapshot = snapshot,
                   fe_membership = merkle_witness_of (memberships ! nat selectedIndex)\<rparr>))))"

text \<open>One component of final pay: required, and not in the statement.\<close>

definition final_step :: "agreement_witness \<Rightarrow> int option \<Rightarrow> int option \<Rightarrow> int \<Rightarrow> nat \<Rightarrow> int result" where
  "final_step agreement requiredMask includedMask shortfall index =
     (let has = (\<lambda>mask. case mask of None \<Rightarrow> False | Some m \<Rightarrow> bit m index) in
      if has requiredMask \<and> \<not> has includedMask
      then if length (aw_final_components agreement) \<le> index then Inl (Thrown ''TypeError'')
        else rbind (BigInt (aw_final_components agreement ! index)) (\<lambda>component.
          if component \<le> 0 then Inl (Thrown ''A required final-pay component is zero.'') else Inr (shortfall + component))
      else Inr shortfall)"

definition sumRequiredFinalShortfall :: "agreement_witness \<Rightarrow> int option \<Rightarrow> int result" where
  "sumRequiredFinalShortfall agreement includedMask =
     (let requiredMask = js_Number (aw_final_required_mask agreement) in
      if \<not> aw_final_pay_mode agreement \<or> requiredMask = Some 0
      then Inl (Thrown ''The selected agreement has no committed final-pay requirement.'')
      else rbind (rfold (final_step agreement requiredMask includedMask) 0 [0..<5]) (\<lambda>shortfall.
        if shortfall = 0 then Inl (Thrown ''The statement contains every required final-pay component.'') else Inr shortfall))"

section \<open>The claim\<close>

record claim_input =
  wc_chainId :: string
  wc_sealAddress :: string
  wc_snapshot :: snapshot_plan
  wc_agreementId :: string
  wc_claimCapabilitySecret :: string
  wc_claimKind :: claim_kind
  wc_evidence :: claim_evidence
  wc_validityStart :: int
  wc_validityExpiry :: int

definition claim_target :: "lib \<Rightarrow> claim_input \<Rightarrow> snapshot_line result" where
  "claim_target L input =
     (case find (\<lambda>l. wl_agreementId l = wc_agreementId input) (pl_lines (wc_snapshot input)) of
        None \<Rightarrow> Inl (Thrown ''The selected agreement is not part of the immutable obligation snapshot.'')
      | Some target \<Rightarrow>
          rbind (claimCapabilityCommitmentV2 L (wc_claimCapabilitySecret input)) (\<lambda>capability.
          if capability \<noteq> wl_claimCapabilityCommitment target
          then Inl (Thrown ''This vault does not control the worker claim capability committed before payday.'')
          else rbind (BigInt (os_graceEndsAt (pl_snapshot (wc_snapshot input)))) (\<lambda>grace.
            if wc_validityStart input < grace then Inl (Thrown ''The committed wage-claim grace period has not ended.'')
            else rbind (BigInt (os_claimEndsAt (pl_snapshot (wc_snapshot input)))) (\<lambda>deadline.
              if deadline < wc_validityStart input then Inl (Thrown ''The committed wage-claim deadline has passed.'')
              else if evidence_source_of (wc_evidence input) = Unsettled_period \<and> wc_claimKind input \<noteq> Missing_obligation
              then Inl (Thrown ''FX-floor and final-pay claims require an immutable employer statement or SettlementMatch anchor.'')
              else Inr target))))"

text \<open>\<open>proofMerkleNode\<close> of texts no schema has checked.\<close>

definition open_node :: "lib \<Rightarrow> string \<Rightarrow> string \<Rightarrow> string result" where
  "open_node L left right =
     rbind (BigInt left) (\<lambda>l. rbind (BigInt right) (\<lambda>r. proofHash L PAYO_PROOF_DOMAIN_MERKLE_NODE [l, r]))"

definition reconstruct :: "lib \<Rightarrow> string \<Rightarrow> (string \<times> bool) list \<Rightarrow> string result" where
  "reconstruct L leaf path =
     rfold (\<lambda>current (sibling, bit). if bit then open_node L sibling current else open_node L current sibling) leaf path"

text \<open>The root of the manifest of the statement, with the opening of the line in it.\<close>

definition statement_manifest ::
    "lib \<Rightarrow> claim_input \<Rightarrow> snapshot_line \<Rightarrow> statement_evidence \<Rightarrow> string \<Rightarrow> (string \<times> merkle_witness) result" where
  "statement_manifest L input target evidence targetLeaf =
     (case se_manifestMembership evidence of
        Some m \<Rightarrow>
          if length (op_siblings m) \<noteq> 6 \<or> length (op_pathBits m) \<noteq> 6
          then Inl (Thrown ''The statement manifest opening must contain six Merkle levels.'')
          else if op_pathBits m \<noteq> map (bit (wl_index target)) [0..<6]
          then Inl (Thrown ''The statement manifest opening targets a different payroll slot.'')
          else
            rbind (reconstruct L targetLeaf (zip (op_siblings m) (op_pathBits m))) (\<lambda>reconstructed.
            case se_manifestRoot evidence of
              None \<Rightarrow> Inl (Thrown ''The worker statement line does not open the registered manifest root.'')
            | Some root \<Rightarrow>
                if root = [] then Inl (Thrown ''The worker statement line does not open the registered manifest root.'')
                else rbind (BigInt reconstructed) (\<lambda>n. rbind (BigInt root) (\<lambda>r.
                  if n \<noteq> r then Inl (Thrown ''The worker statement line does not open the registered manifest root.'')
                  else rbind (bytes32 L root) (\<lambda>rootBytes.
                    rbind (rmap BigInt (op_siblings m)) (\<lambda>siblings.
                    Inr (toHex L rootBytes, \<lparr>mw_siblings = map toString siblings, mw_path_bits = op_pathBits m\<rparr>))))))
      | None \<Rightarrow>
          if length (pl_lines (wc_snapshot input)) \<noteq> 1 \<or> wl_index target \<noteq> 0
          then Inl (Thrown ''A multi-worker statement requires the target worker Merkle opening.'')
          else rbind (buildProofFixedMerkleMembership L [targetLeaf] 0) (\<lambda>m. Inr (mb_root m, fixed_witness_of m)))"

record anchored =
  an_line :: line_witness
  an_statement :: "payroll_statement option"
  an_statementCommitment :: string
  an_manifestRoot :: string
  an_manifestMembership :: merkle_witness
  an_fx :: fx_evidence

definition no_anchor :: anchored where
  "no_anchor = \<lparr>an_line = emptyLine, an_statement = None, an_statementCommitment = ZERO, an_manifestRoot = ZERO,
     an_manifestMembership = emptyMembership, an_fx = no_fx_evidence\<rparr>"

text \<open>The line the statement shows and its leaf; a claim of a missing payment has none.\<close>

definition statement_target :: "lib \<Rightarrow> claim_kind \<Rightarrow> snapshot_line \<Rightarrow> line_evidence option \<Rightarrow> (line_witness \<times> string) result" where
  "statement_target L claimKind target evidence =
     (case evidence of
        None \<Rightarrow>
          if claimKind \<noteq> Missing_obligation then Inl (Thrown ''The selected claim requires an actual anchored settlement line.'')
          else Inr (emptyLine, PAYO_PROOF_EMPTY_LEAF)
      | Some e \<Rightarrow>
          rbind (statementLine L target e) (\<lambda>(line, leaf).
          if claimKind = Missing_obligation
          then Inl (Thrown ''A missing-obligation statement must keep the target settlement slot empty.'')
          else rbind leaf (\<lambda>targetLeaf. Inr (line, targetLeaf))))"

definition statement_fx ::
    "lib \<Rightarrow> (string \<Rightarrow> string \<Rightarrow> int) \<Rightarrow> claim_kind \<Rightarrow> fx_snapshot list option \<Rightarrow> int option \<Rightarrow> string \<Rightarrow> fx_evidence result" where
  "statement_fx L localeCompare claimKind snapshots selected missing =
     (if claimKind = Below_committed_floor
      then rbind (fxEvidence L localeCompare snapshots selected) (\<lambda>fx.
        if fe_root fx = ZERO then Inl (Thrown missing) else Inr fx)
      else Inr no_fx_evidence)"

definition anchor_statement ::
    "lib \<Rightarrow> (string \<Rightarrow> string \<Rightarrow> int) \<Rightarrow> claim_input \<Rightarrow> snapshot_line \<Rightarrow> statement_evidence \<Rightarrow> anchored result" where
  "anchor_statement L localeCompare input target evidence =
     rbind (statement_target L (wc_claimKind input) target (se_target evidence)) (\<lambda>(line, targetLeaf).
     rbind (statement_manifest L input target evidence targetLeaf) (\<lambda>(manifestRoot, manifestMembership).
     rbind (statement_fx L localeCompare (wc_claimKind input) (se_fxSnapshots evidence) (se_selectedFxIndex evidence)
              ''An FX-floor claim requires its original committed FX snapshot.'') (\<lambda>fx.
     rbind (bytes32 L (se_availabilityCommitment evidence)) (\<lambda>availability.
     rbind (boundedU64 (se_observedAt evidence) ''Statement observation time'') (\<lambda>observedAt.
     rbind (zod ''payrollStatementV2Schema'' payrollStatementV2Schema
       \<lparr>pst_runNullifier = os_runNullifier (pl_snapshot (wc_snapshot input)),
        pst_snapshotCommitment = pl_snapshotCommitment (wc_snapshot input), pst_manifestRoot = manifestRoot,
        pst_fxRoot = (if wc_claimKind input = Below_committed_floor then fe_root fx else ZERO),
        pst_availabilityCommitment = toHex L availability, pst_observedAt = observedAt, pst_source = statement_source_name (se_source evidence)\<rparr>) (\<lambda>statement.
     rbind (payrollStatementCommitmentV2 L statement) (\<lambda>statementCommitment.
     Inr \<lparr>an_line = line, an_statement = Some statement, an_statementCommitment = statementCommitment,
          an_manifestRoot = manifestRoot, an_manifestMembership = manifestMembership, an_fx = fx\<rparr>)))))))"

definition anchor_of :: "lib \<Rightarrow> (string \<Rightarrow> string \<Rightarrow> int) \<Rightarrow> claim_input \<Rightarrow> snapshot_line \<Rightarrow> anchored result" where
  "anchor_of L localeCompare input target =
     (case wc_evidence input of No_statement \<Rightarrow> Inr no_anchor
      | Statement evidence \<Rightarrow> anchor_statement L localeCompare input target evidence)"

text \<open>Amounts of a witness, of which a leading part is used.\<close>

definition sum_first :: "string list \<Rightarrow> string \<Rightarrow> int result" where
  "sum_first amounts used =
     rfold (\<lambda>total amount. rbind (BigInt amount) (\<lambda>n. Inr (total + n))) 0 (js_slice amounts (js_Number used))"

text \<open>An amount at the rate of a snapshot, after its haircut.\<close>

definition convert_at :: "snapshot_witness \<Rightarrow> int \<Rightarrow> int result" where
  "convert_at fx amount =
     rbind (BigInt (sw_price_numerator fx)) (\<lambda>numerator.
     rbind (BigInt (sw_price_denominator fx)) (\<lambda>denominator.
     if denominator = 0 then Inl (Thrown ''RangeError'')
     else case js_Number (sw_haircut_bps fx) of None \<Rightarrow> Inl (Thrown ''RangeError'')
       | Some haircut \<Rightarrow> Inr (bdiv (bdiv (amount * numerator) denominator * (10000 - haircut)) 10000)))"

definition obligation_token :: "agreement_witness \<Rightarrow> token" where
  "obligation_token agreement = (if aw_token agreement = ''0'' then STRK else USDC)"

definition token_unit :: "token \<Rightarrow> shortfall_unit" where
  "token_unit tok = (if tok = STRK then Strk_atomic else Usdc_atomic)"

definition floor_shortfall :: "agreement_witness \<Rightarrow> line_witness \<Rightarrow> snapshot_witness \<Rightarrow> int result" where
  "floor_shortfall agreement line fx =
     rbind (BigInt (aw_fx_floor_atomic agreement)) (\<lambda>floor.
     rbind (BigInt (lw_reference_value_atomic line)) (\<lambda>actual.
     if floor = 0 \<or> floor \<le> actual then Inl (Thrown ''The anchored statement meets the committed FX floor.'')
     else
       rbind (sum_first (aw_earnings agreement) (aw_earnings_count agreement)) (\<lambda>earnings.
       rbind (sum_first (lw_deductions line) (lw_deductions_count line)) (\<lambda>deductions.
       rbind (convert_at fx (earnings - deductions)) (\<lambda>reference.
       if reference \<noteq> actual then Inl (Thrown ''The statement reference value does not match its committed FX snapshot.'')
       else Inr (floor - actual))))))"

definition claim_shortfall :: "claim_kind \<Rightarrow> snapshot_line \<Rightarrow> anchored \<Rightarrow> (int \<times> shortfall_unit) result" where
  "claim_shortfall claimKind target anchor =
     (let agreement = wl_agreement target; tok = obligation_token agreement in
      case claimKind of
        Missing_obligation \<Rightarrow> rbind (BigInt (wl_expectedNetAtomic target)) (\<lambda>n. Inr (n, token_unit tok))
      | Below_committed_floor \<Rightarrow>
          rbind (floor_shortfall agreement (an_line anchor) (fe_snapshot (an_fx anchor))) (\<lambda>n.
          Inr (n, if aw_reference_currency agreement = ''0'' then Usd_6 else Gbp_6))
      | Incomplete_final_pay \<Rightarrow>
          rbind (sumRequiredFinalShortfall agreement (js_Number (lw_final_included_mask (an_line anchor)))) (\<lambda>n.
          Inr (n, token_unit tok)))"

record claim_circuit =
  cq_public :: exception_public
  cq_run_nullifier :: "byte list"
  cq_policy_root :: "byte list"
  cq_snapshot_owner_address :: "byte list"
  cq_snapshot_due_at :: string
  cq_snapshot_grace_ends_at :: string
  cq_snapshot_claim_ends_at :: string
  cq_target_index :: string
  cq_agreement :: agreement_witness
  cq_agreement_opening :: merkle_witness
  cq_claim_capability_secret :: "byte list"
  cq_expected_net_atomic :: string
  cq_claim_opening :: merkle_witness
  cq_claim_kind :: string
  cq_evidence_source :: string
  cq_statement_availability_commitment :: "byte list"
  cq_statement_observed_at :: string
  cq_line :: line_witness
  cq_manifest_opening :: merkle_witness
  cq_fx_snapshot :: snapshot_witness
  cq_fx_membership :: merkle_witness

record claim_build =
  wb_circuitInputs :: claim_circuit
  wb_publicInputs :: exception_public
  wb_claimFact :: claim_fact
  wb_claimFactCommitment :: string
  wb_claimSubjectNullifier :: string
  wb_statement :: "payroll_statement option"
  wb_statementCommitment :: string
  wb_snapshot :: snapshot_plan
  wb_target :: snapshot_line

definition claim_fact_of :: "claim_input \<Rightarrow> snapshot_line \<Rightarrow> anchored \<Rightarrow> string \<Rightarrow> int \<times> shortfall_unit \<Rightarrow> claim_fact result" where
  "claim_fact_of input target anchor subject = (\<lambda>(shortfall, unit).
     rbind (boundedU128 shortfall ''Claim shortfall'' True) (\<lambda>amount.
     zod ''exceptionClaimFactSchema'' exceptionClaimFactSchema
       \<lparr>cl_claimSubjectNullifier = subject, cl_runNullifier = os_runNullifier (pl_snapshot (wc_snapshot input)),
        cl_snapshotCommitment = pl_snapshotCommitment (wc_snapshot input),
        cl_statementCommitment = an_statementCommitment anchor, cl_manifestRoot = an_manifestRoot anchor,
        cl_agreementLeaf = wl_agreementLeaf target, cl_targetIndex = int (wl_index target), cl_claimKind = wc_claimKind input,
        cl_shortfallAtomic = amount, cl_shortfallUnit = unit, cl_obligationToken = obligation_token (wl_agreement target),
        cl_evidenceSource = evidence_source_of (wc_evidence input)\<rparr>))"

definition claim_binding :: "claim_input \<Rightarrow> anchored \<Rightarrow> string \<Rightarrow> string \<Rightarrow> exception_binding" where
  "claim_binding input anchor subject factText =
     (let plan = wc_snapshot input; snapshot = pl_snapshot plan in
      \<lparr>xb_chainId = wc_chainId input, xb_sealAddress = wc_sealAddress input, xb_proofVersion = 6,
       xb_agreementRoot = os_baseAgreementRoot snapshot, xb_manifestRoot = an_manifestRoot anchor,
       xb_policyRoot = os_policyRoot snapshot, xb_fxRoot = fe_root (an_fx anchor), xb_subjectNullifier = subject,
       xb_parentNullifier = os_runNullifier snapshot, xb_factCommitment = factText,
       xb_parentFactCommitment =
         (if an_statementCommitment anchor = ZERO then pl_snapshotCommitment plan else an_statementCommitment anchor),
       xb_validityStart = wc_validityStart input, xb_validityExpiry = wc_validityExpiry input\<rparr>)"

text \<open>The codes of the sources a proof may use; another source has none and throws.\<close>

definition evidence_code :: "evidence_source \<Rightarrow> string result" where
  "evidence_code source =
     (case source of Unsettled_period \<Rightarrow> Inr (toString 0) | Employer_statement \<Rightarrow> Inr (toString 2)
      | Settlement_match \<Rightarrow> Inr (toString 3) | Payo_run \<Rightarrow> Inl (Thrown ''TypeError''))"

definition claim_circuit_of :: "lib \<Rightarrow> claim_input \<Rightarrow> snapshot_line \<Rightarrow> anchored \<Rightarrow> exception_public \<Rightarrow> claim_circuit result" where
  "claim_circuit_of L input target anchor public =
     (let snapshot = pl_snapshot (wc_snapshot input) in
      rbind (bytes32 L (os_runNullifier snapshot)) (\<lambda>runNullifier.
      rbind (bytes32 L (os_policyRoot snapshot)) (\<lambda>policyRoot.
      rbind (bytes32 L (os_ownerAddress snapshot)) (\<lambda>owner.
      rbind (bytes32 L (wc_claimCapabilitySecret input)) (\<lambda>secret.
      rbind (evidence_code (evidence_source_of (wc_evidence input))) (\<lambda>source.
      rbind (case an_statement anchor of None \<Rightarrow> Inr zero_bytes | Some s \<Rightarrow> bytes32 L (pst_availabilityCommitment s)) (\<lambda>availability.
      Inr \<lparr>cq_public = public, cq_run_nullifier = runNullifier, cq_policy_root = policyRoot, cq_snapshot_owner_address = owner,
           cq_snapshot_due_at = os_dueAt snapshot, cq_snapshot_grace_ends_at = os_graceEndsAt snapshot,
           cq_snapshot_claim_ends_at = os_claimEndsAt snapshot, cq_target_index = toString (int (wl_index target)),
           cq_agreement = wl_agreement target, cq_agreement_opening = wl_agreementMembership target,
           cq_claim_capability_secret = secret, cq_expected_net_atomic = wl_expectedNetAtomic target,
           cq_claim_opening = wl_claimMembership target, cq_claim_kind = toString (exceptionClaimKinds (wc_claimKind input)),
           cq_evidence_source = source, cq_statement_availability_commitment = availability,
           cq_statement_observed_at = (case an_statement anchor of None \<Rightarrow> ''0'' | Some s \<Rightarrow> pst_observedAt s),
           cq_line = an_line anchor, cq_manifest_opening = an_manifestMembership anchor,
           cq_fx_snapshot = fe_snapshot (an_fx anchor), cq_fx_membership = fe_membership (an_fx anchor)\<rparr>)))))))"

definition buildWageClaimV2Inputs :: "lib \<Rightarrow> (string \<Rightarrow> string \<Rightarrow> int) \<Rightarrow> claim_input \<Rightarrow> claim_build result" where
  "buildWageClaimV2Inputs L localeCompare input =
     rbind (claim_target L input) (\<lambda>target.
     rbind (anchor_of L localeCompare input target) (\<lambda>anchor.
     rbind (claim_shortfall (wc_claimKind input) target anchor) (\<lambda>shortfall.
     rbind (claimSubjectNullifierV2 L (wc_claimCapabilitySecret input) (os_runNullifier (pl_snapshot (wc_snapshot input)))
              (wl_agreementLeaf target) (wc_claimKind input)) (\<lambda>subject.
     rbind (claim_fact_of input target anchor subject shortfall) (\<lambda>claimFact.
     rbind (claimFactCommitmentV2 L claimFact) (\<lambda>factCommitment.
     rbind (publicInputs L (claim_binding input anchor subject factCommitment)) (\<lambda>public.
     rbind (claim_circuit_of L input target anchor public) (\<lambda>circuit.
     Inr \<lparr>wb_circuitInputs = circuit, wb_publicInputs = public, wb_claimFact = claimFact,
          wb_claimFactCommitment = factCommitment, wb_claimSubjectNullifier = subject, wb_statement = an_statement anchor,
          wb_statementCommitment = an_statementCommitment anchor, wb_snapshot = wc_snapshot input, wb_target = target\<rparr>))))))))"

section \<open>The remediation\<close>

record accepted_claim =
  ac_claimFact :: claim_fact
  ac_claimFactCommitment :: string
  ac_claimSubjectNullifier :: string
  ac_baseAgreementRoot :: string
  ac_policyRoot :: string
  ac_agreement :: agreement_witness
  ac_agreementMembership :: merkle_witness

text \<open>A claim that was built has every member the remediation reads.\<close>

definition accepted_of :: "claim_build \<Rightarrow> accepted_claim" where
  "accepted_of b = \<lparr>ac_claimFact = wb_claimFact b, ac_claimFactCommitment = wb_claimFactCommitment b,
     ac_claimSubjectNullifier = wb_claimSubjectNullifier b,
     ac_baseAgreementRoot = os_baseAgreementRoot (pl_snapshot (wb_snapshot b)),
     ac_policyRoot = os_policyRoot (pl_snapshot (wb_snapshot b)), ac_agreement = wl_agreement (wb_target b),
     ac_agreementMembership = wl_agreementMembership (wb_target b)\<rparr>"

record remediation_input =
  ra_chainId :: string
  ra_sealAddress :: string
  ra_claim :: accepted_claim
  ra_remediationSecret :: string
  ra_actionSalt :: string
  ra_amountAtomic :: string
  ra_token :: token
  ra_fxSnapshots :: "fx_snapshot list option"
  ra_selectedFxIndex :: "int option"
  ra_validityStart :: int
  ra_validityExpiry :: int

record remediation_circuit =
  rq_public :: exception_public
  rq_policy_root :: "byte list"
  rq_accepted_claim_subject :: "byte list"
  rq_accepted_claim_run_nullifier :: "byte list"
  rq_accepted_snapshot_commitment :: "byte list"
  rq_accepted_statement_commitment :: "byte list"
  rq_accepted_manifest_root :: "byte list"
  rq_accepted_target_index :: string
  rq_accepted_claim_kind :: string
  rq_accepted_claim_shortfall :: string
  rq_accepted_claim_shortfall_unit :: string
  rq_accepted_obligation_token :: string
  rq_accepted_evidence_source :: string
  rq_agreement :: agreement_witness
  rq_agreement_opening :: merkle_witness
  rq_remediation_secret :: "byte list"
  rq_remediation_action_salt :: "byte list"
  rq_remediation_amount_atomic :: string
  rq_remediation_token :: string
  rq_fx_snapshot :: snapshot_witness
  rq_fx_membership :: merkle_witness

record remediation_build =
  rb_circuitInputs :: remediation_circuit
  rb_publicInputs :: exception_public
  rb_remediationSubjectNullifier :: string
  rb_remediationFactCommitment :: string
  rb_actionCommitment :: string
  rb_fxRoot :: string
  rb_referenceValueAtomic :: string
  rb_claim :: accepted_claim

definition remediation_binding :: "remediation_input \<Rightarrow> string \<Rightarrow> string \<Rightarrow> string \<Rightarrow> string \<Rightarrow> exception_binding" where
  "remediation_binding input fxRoot action subject factText =
     (let claim = ra_claim input in
      \<lparr>xb_chainId = ra_chainId input, xb_sealAddress = ra_sealAddress input, xb_proofVersion = 7,
       xb_agreementRoot = ac_baseAgreementRoot claim, xb_manifestRoot = action, xb_policyRoot = ac_policyRoot claim,
       xb_fxRoot = fxRoot, xb_subjectNullifier = subject, xb_parentNullifier = ac_claimSubjectNullifier claim,
       xb_factCommitment = factText, xb_parentFactCommitment = ac_claimFactCommitment claim,
       xb_validityStart = ra_validityStart input, xb_validityExpiry = ra_validityExpiry input\<rparr>)"

definition remediation_circuit_of :: "lib \<Rightarrow> remediation_input \<Rightarrow> fx_evidence \<Rightarrow> exception_public \<Rightarrow> remediation_circuit result" where
  "remediation_circuit_of L input fx public =
     (let claim = ra_claim input; fact = ac_claimFact claim in
      rbind (bytes32 L (ac_policyRoot claim)) (\<lambda>policyRoot.
      rbind (bytes32 L (ac_claimSubjectNullifier claim)) (\<lambda>subject.
      rbind (bytes32 L (cl_runNullifier fact)) (\<lambda>runNullifier.
      rbind (bytes32 L (cl_snapshotCommitment fact)) (\<lambda>snapshot.
      rbind (bytes32 L (cl_statementCommitment fact)) (\<lambda>statement.
      rbind (bytes32 L (cl_manifestRoot fact)) (\<lambda>manifest.
      rbind (evidence_code (cl_evidenceSource fact)) (\<lambda>source.
      rbind (bytes32 L (ra_remediationSecret input)) (\<lambda>secret.
      rbind (bytes32 L (ra_actionSalt input)) (\<lambda>actionSalt.
      Inr \<lparr>rq_public = public, rq_policy_root = policyRoot, rq_accepted_claim_subject = subject,
           rq_accepted_claim_run_nullifier = runNullifier, rq_accepted_snapshot_commitment = snapshot,
           rq_accepted_statement_commitment = statement, rq_accepted_manifest_root = manifest,
           rq_accepted_target_index = toString (cl_targetIndex fact),
           rq_accepted_claim_kind = toString (exceptionClaimKinds (cl_claimKind fact)),
           rq_accepted_claim_shortfall = cl_shortfallAtomic fact,
           rq_accepted_claim_shortfall_unit = toString (claimShortfallUnits (cl_shortfallUnit fact)),
           rq_accepted_obligation_token = toString (exceptionTokens (cl_obligationToken fact)),
           rq_accepted_evidence_source = source, rq_agreement = ac_agreement claim,
           rq_agreement_opening = ac_agreementMembership claim, rq_remediation_secret = secret,
           rq_remediation_action_salt = actionSalt, rq_remediation_amount_atomic = ra_amountAtomic input,
           rq_remediation_token = toString (exceptionTokens (ra_token input)),
           rq_fx_snapshot = fe_snapshot fx, rq_fx_membership = fe_membership fx\<rparr>))))))))))"

text \<open>The amount, the rate it is counted at and its value in the unit of the shortfall.\<close>

definition remediation_value ::
    "lib \<Rightarrow> (string \<Rightarrow> string \<Rightarrow> int) \<Rightarrow> remediation_input \<Rightarrow> (int \<times> fx_evidence \<times> int) result" where
  "remediation_value L localeCompare input =
     (let fact = ac_claimFact (ra_claim input) in
      if ra_token input \<noteq> cl_obligationToken fact
      then Inl (Thrown ''The remediation token must equal the accepted claim obligation token.'')
      else
        rbind (BigInt (ra_amountAtomic input)) (\<lambda>amount.
        rbind (boundedU128 amount ''Remediation amount'' True) (\<lambda>_.
        rbind (statement_fx L localeCompare (cl_claimKind fact) (ra_fxSnapshots input) (ra_selectedFxIndex input)
                 ''An FX remediation requires a fresh committed conversion snapshot.'') (\<lambda>fx.
        rbind (if cl_claimKind fact = Below_committed_floor then convert_at (fe_snapshot fx) amount else Inr amount) (\<lambda>referenceValue.
        rbind (BigInt (cl_shortfallAtomic fact)) (\<lambda>shortfall.
        if referenceValue < shortfall then Inl (Thrown ''The remediation is below the accepted typed shortfall.'')
        else Inr (amount, fx, referenceValue)))))))"

definition buildWageRemediationV2Inputs ::
    "lib \<Rightarrow> (string \<Rightarrow> string \<Rightarrow> int) \<Rightarrow> remediation_input \<Rightarrow> remediation_build result" where
  "buildWageRemediationV2Inputs L localeCompare input =
     (let claim = ra_claim input; recipient = toHex L (aw_recipient_commitment (ac_agreement claim)) in
      rbind (remediation_value L localeCompare input) (\<lambda>(amount, fx, referenceValue).
      rbind (remediationSubjectNullifierV2 L (ac_claimSubjectNullifier claim) (ra_remediationSecret input)) (\<lambda>subject.
      rbind (proofRemediationActionCommitment L (ac_claimSubjectNullifier claim) recipient
               (exceptionTokens (ra_token input)) amount (ra_actionSalt input)) (\<lambda>action.
      rbind (remediationFactCommitmentV2 L
        \<lparr>rm_remediationSubjectNullifier = subject, rm_claimSubjectNullifier = ac_claimSubjectNullifier claim,
         rm_claimFactCommitment = ac_claimFactCommitment claim, rm_recipientCommitment = recipient, rm_token = ra_token input,
         rm_amountAtomic = Big amount, rm_referenceValueAtomic = Big referenceValue,
         rm_referenceUnit = cl_shortfallUnit (ac_claimFact claim), rm_fxRoot = fe_root fx\<rparr>) (\<lambda>fact.
      rbind (publicInputs L (remediation_binding input (fe_root fx) action subject fact)) (\<lambda>public.
      rbind (remediation_circuit_of L input fx public) (\<lambda>circuit.
      Inr \<lparr>rb_circuitInputs = circuit, rb_publicInputs = public, rb_remediationSubjectNullifier = subject,
           rb_remediationFactCommitment = fact, rb_actionCommitment = action, rb_fxRoot = fe_root fx,
           rb_referenceValueAtomic = toString referenceValue, rb_claim = claim\<rparr>)))))))"

end
