(* ===== verification/Claim_Properties.thy ===== *)
theory Claim_Properties
  imports Wage_Claims Input_Properties Proof_Bindings
begin

text \<open>
  Properties of the exception protocol: the snapshot opens for every worker, a claim is made by its worker in
  its window and measures exactly what is missing, the line a statement shows opens its manifest, and a
  remediation covers the shortfall it answers.
\<close>

lemma guardE:
  assumes "(if c then Inl e else r) = Inr x"
  obtains "\<not> c" "r = Inr x"
  using assms by (simp split: if_splits)

lemma InrE:
  assumes "Inr a = (Inr b :: 'a result)"
  obtains "b = a"
  using assms by simp

section \<open>Openings given as texts\<close>

lemma open_node_texts: "BigInt l = BigInt l' \<Longrightarrow> BigInt r = BigInt r' \<Longrightarrow> open_node L l r = open_node L l' r'"
  by (simp add: open_node_def)

lemma reconstruct_same:
  "list_all2 (\<lambda>(s, b) (t, c). BigInt s = BigInt t \<and> b = c) p q \<Longrightarrow> reconstruct L leaf p = reconstruct L leaf q"
proof (induction p arbitrary: q leaf)
  case (Cons x p)
  then obtain y q' where q: "q = y # q'" "BigInt (fst x) = BigInt (fst y)" "snd x = snd y"
    "list_all2 (\<lambda>(s, b) (t, c). BigInt s = BigInt t \<and> b = c) p q'" by (auto simp: list_all2_Cons1 split: prod.splits)
  have "open_node L (fst x) leaf = open_node L (fst y) leaf" "open_node L leaf (fst x) = open_node L leaf (fst y)"
    using q(2) by (auto intro: open_node_texts)
  moreover have "reconstruct L l p = reconstruct L l q'" for l by (rule Cons.IH [OF q(4)])
  ultimately show ?case
    using q(1,3) by (cases x; cases y) (simp add: reconstruct_def rbind_def split: sum.splits)
qed (simp add: reconstruct_def)

lemma reconstruct_leaf:
  "BigInt leaf = BigInt leaf' \<Longrightarrow> p \<noteq> [] \<Longrightarrow> reconstruct L leaf p = reconstruct L leaf' p"
proof (cases p)
  case (Cons x q)
  assume "BigInt leaf = BigInt leaf'"
  then have "open_node L (fst x) leaf = open_node L (fst x) leaf'" "open_node L leaf (fst x) = open_node L leaf' (fst x)"
    by (auto intro: open_node_texts)
  then show ?thesis unfolding Cons by (cases x) (simp add: reconstruct_def)
qed simp

lemma reconstruct_membership:
  assumes "poseidon_32 L" "commitment_ok leaf" "\<forall>s \<in> set ss. commitment_ok s"
  shows "reconstruct L leaf (zip ss bits) = Inr (proof_merkle_membership (proof_node L) leaf ss bits)"
  using assms(2,3)
proof (induction ss arbitrary: leaf bits)
  case Nil
  then show ?case by (simp add: reconstruct_def)
next
  case (Cons s ss)
  have node: "open_node L l r = Inr (proof_node L l r) \<and> commitment_ok (proof_node L l r)"
    if "commitment_ok l" "commitment_ok r" for l r
    using proofMerkleNode_total [OF assms(1) that] that by (simp add: open_node_def proofMerkleNode_def BigInt_hex)
  show ?case
  proof (cases bits)
    case (Cons b bs)
    have "commitment_ok s" using Cons.prems by simp
    with Cons.IH [of "if b then proof_node L s leaf else proof_node L leaf s" bs] Cons.prems node show ?thesis
      unfolding Cons by (cases b) (simp_all add: reconstruct_def)
  qed (simp add: reconstruct_def)
qed

text \<open>A witness opens a root for a leaf when folding the leaf along it gives the number of the root.\<close>

definition witness_opens :: "lib \<Rightarrow> string \<Rightarrow> nat \<Rightarrow> merkle_witness \<Rightarrow> string \<Rightarrow> bool" where
  "witness_opens L leaf index w root \<longleftrightarrow>
     length (mw_siblings w) = 6 \<and> mw_path_bits w = map (bit index) [0..<6]
     \<and> (\<exists>x. reconstruct L leaf (zip (mw_siblings w) (mw_path_bits w)) = Inr x \<and> BigInt x = BigInt root)"

lemma bit_turns: "map (\<lambda>j. odd (index div 2 ^ j)) xs = map (bit (index :: nat)) xs"
  by (simp add: bit_iff_odd)

lemma fixed_witness_opens:
  assumes "hex_lib_ok L" "poseidon_32 L" "list_all commitment_ok leaves"
    and "buildProofFixedMerkleMembership L leaves index = Inr m"
  shows "witness_opens L (leaves ! index) index (fixed_witness_of m) (mb_root m)
    \<and> buildProofFixedMerkleRoot L leaves = Inr (mb_root m) \<and> commitment_ok (mb_root m)"
proof -
  have small: "length leaves \<le> 50" "index < length leaves"
    using assms(4) by (auto simp: buildProofFixedMerkleMembership_def PAYO_MAX_PAYROLL_LINES_def split: if_splits)
  note level = fixed_level_total [OF assms(1,3)]
  define t where "t = canonical_tree L leaves ! index"
  have leaf: "commitment_ok (leaves ! index)" using assms(3) small(2) by (simp add: list_all_length)
  have t_ok: "commitment_ok t" using level(2,3) small by (simp add: t_def)
  have "t = toHex L (leaf_bytes L (leaves ! index))" using small by (simp add: t_def canonical_tree_def nth_padded)
  then have t: "BigInt (leaves ! index) = BigInt t"
    using canonical_leaf_total [OF assms(1) leaf] leaf by (simp add: BigInt_hex)
  obtain ss where m: "m = \<lparr>op_siblings = ss, op_pathBits = map (bit index) [0..<6],
       mb_root = tree_root (proof_node L) 6 (canonical_tree L leaves), mb_leaf = t\<rparr>"
    and ss: "length ss = 6" "\<forall>x \<in> set ss. commitment_ok x"
    and fold: "proof_merkle_membership (proof_node L) t ss (map (bit index) [0..<6]) = mb_root m"
    using opening_total [OF assms(1,2) small(1) assms(3) small(2)] assms(4) by (auto simp: bit_turns t_def)
  have node: "commitment_ok l \<Longrightarrow> commitment_ok r \<Longrightarrow> commitment_ok (proof_node L l r)" for l r
    using proofMerkleNode_total [OF assms(2)] by blast
  have root: "commitment_ok (mb_root m)"
    using tree_root_all [of commitment_ok "proof_node L", OF node level(2,3)] by (simp add: m)
  have texts: "list_all2 (\<lambda>(s, b) (u, c). BigInt s = BigInt u \<and> b = c)
      (zip (map (\<lambda>v. toString (bigint v)) ss) (map (bit index) [0..<6])) (zip ss (map (bit index) [0..<6]))"
    using ss by (simp add: list_all2_conv_all_nth BigInt_hex)
  have "zip ss (map (bit index) [0..<6]) \<noteq> []" using ss(1) by (cases ss) (simp_all add: upt_conv_Cons)
  then have "reconstruct L (leaves ! index) (zip (map (\<lambda>v. toString (bigint v)) ss) (map (bit index) [0..<6])) = Inr (mb_root m)"
    using reconstruct_same [OF texts] reconstruct_leaf [OF t] reconstruct_membership [OF assms(2) t_ok ss(2)] fold by simp
  with ss(1) fixed_root_total [OF assms(1,2) small(1) assms(3)] root show ?thesis
    by (simp add: witness_opens_def fixed_witness_of_def merkle_witness_of_def m catalog_membership.defs)
qed

section \<open>What a claim measures\<close>

text \<open>The number of a text, and what of the amounts of a witness counts.\<close>

definition text_num :: "string \<Rightarrow> int" where
  "text_num s = (case BigInt s of Inr n \<Rightarrow> n | Inl _ \<Rightarrow> 0)"

definition mask_has :: "string \<Rightarrow> nat \<Rightarrow> bool" where
  "mask_has maskText i = (case BigInt maskText of Inr m \<Rightarrow> bit m i | Inl _ \<Rightarrow> False)"

definition net_of :: "agreement_witness \<Rightarrow> line_witness \<Rightarrow> int" where
  "net_of agreement line =
     sum_list (map text_num (js_slice (aw_earnings agreement) (js_Number (aw_earnings_count agreement))))
     - sum_list (map text_num (js_slice (lw_deductions line) (js_Number (lw_deductions_count line))))"

definition value_at :: "snapshot_witness \<Rightarrow> int \<Rightarrow> int" where
  "value_at fx amount =
     bdiv (bdiv (amount * text_num (sw_price_numerator fx)) (text_num (sw_price_denominator fx)) * (10000 - text_num (sw_haircut_bps fx))) 10000"

definition missing_components :: "agreement_witness \<Rightarrow> line_witness \<Rightarrow> nat list" where
  "missing_components agreement line =
     filter (\<lambda>i. mask_has (aw_final_required_mask agreement) i \<and> \<not> mask_has (lw_final_included_mask line) i) [0..<5]"

text \<open>
  The amount a claim of each kind may be for, from the witnesses of its circuit: all of the expected pay, what
  the paid line is short of the floor, or the required components of final pay the line does not include.
\<close>

definition claim_measured :: "claim_kind \<Rightarrow> claim_circuit \<Rightarrow> int \<Rightarrow> bool" where
  "claim_measured kind c amount \<longleftrightarrow>
     (case kind of
        Missing_obligation \<Rightarrow> amount = text_num (cq_expected_net_atomic c)
      | Below_committed_floor \<Rightarrow>
          let floor = text_num (aw_fx_floor_atomic (cq_agreement c));
              paid = value_at (cq_fx_snapshot c) (net_of (cq_agreement c) (cq_line c)) in
          text_num (lw_reference_value_atomic (cq_line c)) = paid \<and> paid < floor \<and> amount = floor - paid
      | Incomplete_final_pay \<Rightarrow>
          aw_final_pay_mode (cq_agreement c)
          \<and> amount = (\<Sum>i\<leftarrow>missing_components (cq_agreement c) (cq_line c). text_num (aw_final_components (cq_agreement c) ! i)))"

lemma text_num_Inr: "BigInt s = Inr n \<Longrightarrow> text_num s = n"
  by (simp add: text_num_def)

lemma text_num_toString [simp]: "text_num (toString n) = n"
  by (simp add: text_num_def)

lemma sum_texts:
  "rfold (\<lambda>total amount. rbind (BigInt amount) (\<lambda>n. Inr (total + n))) t xs = Inr s \<Longrightarrow> s = t + sum_list (map text_num xs)"
proof (induction xs arbitrary: t)
  case (Cons x xs)
  then show ?case by (fastforce simp: rbind_Inr_iff text_num_Inr)
qed simp

lemma sum_first_Inr: "sum_first xs used = Inr s \<Longrightarrow> s = sum_list (map text_num (js_slice xs (js_Number used)))"
  unfolding sum_first_def by (drule sum_texts) simp

lemma convert_at_Inr: "convert_at fx amount = Inr v \<Longrightarrow> v = value_at fx amount"
  by (auto simp: convert_at_def value_at_def rbind_Inr_iff js_Number_def text_num_def split: if_splits option.splits sum.splits)

lemma floor_shortfall_Inr:
  assumes "floor_shortfall agreement line fx = Inr s"
  shows "text_num (lw_reference_value_atomic line) = value_at fx (net_of agreement line)"
    and "value_at fx (net_of agreement line) < text_num (aw_fx_floor_atomic agreement)"
    and "s = text_num (aw_fx_floor_atomic agreement) - value_at fx (net_of agreement line)"
  using assms
  by (auto simp: floor_shortfall_def rbind_Inr_iff text_num_Inr net_of_def dest!: sum_first_Inr convert_at_Inr split: if_splits)

lemma final_step_Inr:
  assumes "final_step agreement (js_Number req) (js_Number inc) s i = Inr s'"
  shows "s' = s + (if mask_has req i \<and> \<not> mask_has inc i then text_num (aw_final_components agreement ! i) else 0)"
  using assms
  by (auto simp: final_step_def mask_has_def js_Number_def Let_def rbind_Inr_iff text_num_Inr split: sum.splits if_splits)

lemma final_loop:
  "rfold (final_step agreement (js_Number req) (js_Number inc)) s is = Inr s' \<Longrightarrow>
     s' = s + (\<Sum>i\<leftarrow>filter (\<lambda>i. mask_has req i \<and> \<not> mask_has inc i) is. text_num (aw_final_components agreement ! i))"
proof (induction "is" arbitrary: s)
  case (Cons i "is")
  then obtain t where t: "final_step agreement (js_Number req) (js_Number inc) s i = Inr t"
    "rfold (final_step agreement (js_Number req) (js_Number inc)) t is = Inr s'" by auto
  from Cons.IH [OF t(2)] final_step_Inr [OF t(1)] show ?case by simp
qed simp

lemma final_shortfall_Inr:
  assumes "sumRequiredFinalShortfall agreement (js_Number (lw_final_included_mask line)) = Inr s"
  shows "aw_final_pay_mode agreement
    \<and> s = (\<Sum>i\<leftarrow>missing_components agreement line. text_num (aw_final_components agreement ! i))"
  using assms by (auto simp: sumRequiredFinalShortfall_def rbind_Inr_iff missing_components_def Let_def dest!: final_loop split: if_splits)

section \<open>The stages of a claim\<close>

lemma claim_stages:
  assumes "buildWageClaimV2Inputs L lc input = Inr b"
  obtains target anchor amount kind_unit subject factCommitment public circuit where
    "claim_target L input = Inr target" "anchor_of L lc input target = Inr anchor"
    "claim_shortfall (wc_claimKind input) target anchor = Inr (amount, kind_unit)"
    "claimSubjectNullifierV2 L (wc_claimCapabilitySecret input) (os_runNullifier (pl_snapshot (wc_snapshot input)))
       (wl_agreementLeaf target) (wc_claimKind input) = Inr subject"
    "claim_fact_of input target anchor subject (amount, kind_unit) = Inr (wb_claimFact b)"
    "claimFactCommitmentV2 L (wb_claimFact b) = Inr factCommitment"
    "publicInputs L (claim_binding input anchor subject factCommitment) = Inr public"
    "claim_circuit_of L input target anchor public = Inr (wb_circuitInputs b)"
    "wb_claimFactCommitment b = factCommitment" "wb_claimSubjectNullifier b = subject"
    "wb_target b = target" "wb_snapshot b = wc_snapshot input" "wb_publicInputs b = public"
  using assms unfolding buildWageClaimV2Inputs_def
  by (elim rbindE) (metis (no_types, lifting) claim_build.select_convs prod.collapse sum.inject(2))

lemma claim_circuit_fields:
  assumes "claim_circuit_of L input target anchor public = Inr c"
  shows "cq_agreement c = wl_agreement target" "cq_line c = an_line anchor" "cq_fx_snapshot c = fe_snapshot (an_fx anchor)"
    "cq_expected_net_atomic c = wl_expectedNetAtomic target" "cq_manifest_opening c = an_manifestMembership anchor"
    "cq_public c = public"
  using assms unfolding claim_circuit_of_def Let_def by (elim rbindE; auto)+

lemma claim_fact_fields:
  assumes "claim_fact_of input target anchor subject (amount, u) = Inr f"
  shows "cl_shortfallAtomic f = toString amount" "0 < amount" "cl_claimKind f = wc_claimKind input"
    "cl_targetIndex f = int (wl_index target)" "cl_manifestRoot f = an_manifestRoot anchor"
    "cl_agreementLeaf f = wl_agreementLeaf target" "cl_claimSubjectNullifier f = subject"
    "cl_obligationToken f = obligation_token (wl_agreement target)" "cl_shortfallUnit f = u" "exceptionClaimFactSchema f"
  using assms by (auto simp: claim_fact_of_def rbind_Inr_iff boundedU128_def split: if_splits)

lemma claim_shortfall_measured:
  assumes "claim_shortfall kind target anchor = Inr (amount, u)" "claim_circuit_of L input target anchor public = Inr c"
  shows "claim_measured kind c amount"
proof (cases kind)
  case Missing_obligation
  with assms(1) claim_circuit_fields(4) [OF assms(2)] show ?thesis
    by (auto simp: claim_shortfall_def claim_measured_def Let_def rbind_Inr_iff text_num_Inr)
next
  case Below_committed_floor
  with assms(1) have "floor_shortfall (wl_agreement target) (an_line anchor) (fe_snapshot (an_fx anchor)) = Inr amount"
    by (auto simp: claim_shortfall_def Let_def rbind_Inr_iff)
  from floor_shortfall_Inr [OF this] Below_committed_floor show ?thesis
    by (simp add: claim_measured_def Let_def claim_circuit_fields [OF assms(2)])
next
  case Incomplete_final_pay
  with assms(1) have "sumRequiredFinalShortfall (wl_agreement target) (js_Number (lw_final_included_mask (an_line anchor))) = Inr amount"
    by (auto simp: claim_shortfall_def Let_def rbind_Inr_iff)
  from final_shortfall_Inr [OF this] show ?thesis
    unfolding claim_measured_def Incomplete_final_pay claim_kind.case claim_circuit_fields [OF assms(2)] .
qed

text \<open>C14: A claim is for exactly what is missing.  When the builder accepts a claim, the amount of the fact it
  commits to is what the witnesses of its circuit leave unpaid: for a missing obligation the whole expected pay,
  below a floor the distance between the floor and the value of the net pay at the rate of the statement's
  snapshot, for final pay the sum of the required components the line does not include.\<close>

theorem claim_amount_exact:
  assumes "buildWageClaimV2Inputs L localeCompare input = Inr b"
  shows "claim_measured (wc_claimKind input) (wb_circuitInputs b) (bigint (cl_shortfallAtomic (wb_claimFact b)))"
proof -
  obtain target anchor amount u subject public where s:
    "claim_shortfall (wc_claimKind input) target anchor = Inr (amount, u)"
    "claim_fact_of input target anchor subject (amount, u) = Inr (wb_claimFact b)"
    "claim_circuit_of L input target anchor public = Inr (wb_circuitInputs b)"
    by (rule claim_stages [OF assms]) (rule that; assumption)
  from claim_fact_fields(1,2) [OF s(2)] have "bigint (cl_shortfallAtomic (wb_claimFact b)) = amount" by simp
  with claim_shortfall_measured [OF s(1,3)] show ?thesis by simp
qed

section \<open>Who claims, and when\<close>

lemma claim_target_Inr:
  assumes "claim_target L input = Inr target"
  shows "target \<in> set (pl_lines (wc_snapshot input))" "wl_agreementId target = wc_agreementId input"
    "claimCapabilityCommitmentV2 L (wc_claimCapabilitySecret input) = Inr (wl_claimCapabilityCommitment target)"
    "text_num (os_graceEndsAt (pl_snapshot (wc_snapshot input))) \<le> wc_validityStart input"
    "wc_validityStart input \<le> text_num (os_claimEndsAt (pl_snapshot (wc_snapshot input)))"
    "evidence_source_of (wc_evidence input) = Unsettled_period \<Longrightarrow> wc_claimKind input = Missing_obligation"
  using assms
  by (auto simp: claim_target_def rbind_Inr_iff text_num_Inr find_Some_iff split: option.splits if_splits)

text \<open>C22: A claim is made by its worker, in time, for one agreement of the snapshot.  When the builder accepts a
  claim there is a line of the snapshot with the agreement of the claim, whose capability commitment the secret of
  the claim opens; the proof window starts after the grace period and not after the deadline; and the nullifier
  of the claim is derived from this secret, the run, this line's agreement leaf and the kind of the claim.\<close>

theorem claim_authorised:
  assumes "buildWageClaimV2Inputs L localeCompare input = Inr b"
  shows "\<exists>target \<in> set (pl_lines (wc_snapshot input)). wl_agreementId target = wc_agreementId input
    \<and> claimCapabilityCommitmentV2 L (wc_claimCapabilitySecret input) = Inr (wl_claimCapabilityCommitment target)
    \<and> text_num (os_graceEndsAt (pl_snapshot (wc_snapshot input))) \<le> wc_validityStart input
    \<and> wc_validityStart input \<le> text_num (os_claimEndsAt (pl_snapshot (wc_snapshot input)))
    \<and> cl_agreementLeaf (wb_claimFact b) = wl_agreementLeaf target
    \<and> claimSubjectNullifierV2 L (wc_claimCapabilitySecret input) (os_runNullifier (pl_snapshot (wc_snapshot input)))
         (wl_agreementLeaf target) (wc_claimKind input) = Inr (cl_claimSubjectNullifier (wb_claimFact b))"
proof -
  obtain target anchor amount u subject where s: "claim_target L input = Inr target"
    "claim_fact_of input target anchor subject (amount, u) = Inr (wb_claimFact b)"
    "claimSubjectNullifierV2 L (wc_claimCapabilitySecret input) (os_runNullifier (pl_snapshot (wc_snapshot input)))
       (wl_agreementLeaf target) (wc_claimKind input) = Inr subject"
    by (rule claim_stages [OF assms]) (rule that; assumption)
  from claim_target_Inr(1-5) [OF s(1)] claim_fact_fields(6,7) [OF s(2)] s(3) show ?thesis
    by (intro bexI [of _ target] conjI) simp_all
qed

section \<open>The manifest of a statement\<close>

lemma proofHash_ok: "poseidon_32 L \<Longrightarrow> proofHash L d vs = Inr h \<Longrightarrow> commitment_ok h"
  by (auto simp: proofHash_def rbind_Inr_iff poseidon_32_def paddedField_ok)

lemma statement_target_leaf:
  assumes "poseidon_32 L" "statement_target L kind target evidence = Inr (line, leaf)"
  shows "commitment_ok leaf"
proof (cases evidence)
  case None
  with assms(2) show ?thesis by (auto simp: statement_target_def empty_leaf_ok split: if_splits)
next
  case (Some e)
  with assms(2) obtain l where l: "statementLine L target e = Inr (line, l)" "l = Inr leaf"
    by (auto simp: statement_target_def rbind_Inr_iff split: if_splits)
  then obtain calculated metadata where "proofPayrollCommitment L calculated (wl_agreementLeaf target) metadata = Inr leaf"
    by (auto simp: statementLine_def rbind_Inr_iff Let_def split: if_splits)
  then show ?thesis
    using proofHash_ok [OF assms(1)] by (auto simp: proofPayrollCommitment_def Let_def rbind_Inr_iff split: if_splits)
qed

lemma canonical_number:
  assumes "hex_lib_ok L" "commitment_ok s" "bytes32 L s = Inr bs"
  shows "BigInt (toHex L bs) = BigInt s"
  using canonical_leaf_total [OF assms(1,2)] assms(2,3)
  by (auto simp: canonical_leaf_def bytes32_def BigInt_hex)

lemma statement_manifest_opens:
  assumes "hex_lib_ok L" "poseidon_32 L" "opt_ok commitment_ok (se_manifestRoot e)" "commitment_ok leaf"
    and "statement_manifest L input target e leaf = Inr (root, w)"
  shows "witness_opens L leaf (wl_index target) w root"
proof (cases "se_manifestMembership e")
  case None
  with assms(5) obtain m where m: "wl_index target = 0" "buildProofFixedMerkleMembership L [leaf] 0 = Inr m"
    "root = mb_root m" "w = fixed_witness_of m"
    by (auto simp: statement_manifest_def rbind_Inr_iff split: if_splits)
  from fixed_witness_opens [OF assms(1,2) _ m(2)] assms(4) m show ?thesis by simp
next
  case (Some m)
  then obtain x text_root r rootBytes ns where s: "length (op_siblings m) = 6" "op_pathBits m = map (bit (wl_index target)) [0..<6]"
    "reconstruct L leaf (zip (op_siblings m) (op_pathBits m)) = Inr x" "se_manifestRoot e = Some text_root"
    "BigInt x = Inr r" "BigInt text_root = Inr r" "bytes32 L text_root = Inr rootBytes" "rmap BigInt (op_siblings m) = Inr ns"
    "root = toHex L rootBytes" "w = \<lparr>mw_siblings = map toString ns, mw_path_bits = op_pathBits m\<rparr>"
    using assms(5) by (auto simp: statement_manifest_def rbind_Inr_iff split: if_splits option.splits)
  have len: "length ns = 6" using rmap_length [OF s(8)] s(1) by simp
  have "list_all2 (\<lambda>(s, b) (t, c). BigInt s = BigInt t \<and> b = c) (zip (map toString ns) (op_pathBits m)) (zip (op_siblings m) (op_pathBits m))"
    using s(8) by (auto simp: rmap_Inr_iff list_all2_conv_all_nth)
  then have "reconstruct L leaf (zip (map toString ns) (op_pathBits m)) = Inr x"
    using reconstruct_same s(3) by metis
  moreover have "commitment_ok text_root" using assms(3) s(4) by simp
  then have "BigInt root = BigInt text_root" using canonical_number [OF assms(1) _ s(7)] s(9) by simp
  ultimately show ?thesis using s(2,5,6,10) len by (simp add: witness_opens_def)
qed

text \<open>C23: The statement a claim is anchored to shows the worker's own line.  When the builder accepts a claim
  with a statement, whose manifest root is a 32-byte text where it is given, the leaf of the line the circuit is
  given (the empty leaf when the claim is that nothing was paid) opens the manifest root of the claim's fact, at the
  slot of the claim, along the path the circuit is given.\<close>

theorem claim_statement_opens:
  assumes "hex_lib_ok L" "poseidon_32 L" "buildWageClaimV2Inputs L localeCompare input = Inr b"
    and "wc_evidence input = Statement e" "opt_ok commitment_ok (se_manifestRoot e)"
  shows "\<exists>leaf. statement_target L (wc_claimKind input) (wb_target b) (se_target e) = Inr (cq_line (wb_circuitInputs b), leaf)
    \<and> witness_opens L leaf (nat (cl_targetIndex (wb_claimFact b))) (cq_manifest_opening (wb_circuitInputs b))
        (cl_manifestRoot (wb_claimFact b))"
proof -
  obtain target anchor amount u subject public where s: "anchor_of L localeCompare input target = Inr anchor"
    "claim_fact_of input target anchor subject (amount, u) = Inr (wb_claimFact b)"
    "claim_circuit_of L input target anchor public = Inr (wb_circuitInputs b)" "wb_target b = target"
    by (rule claim_stages [OF assms(3)]) (rule that; assumption)
  from s(1) assms(4) obtain leaf where leaf:
    "statement_target L (wc_claimKind input) target (se_target e) = Inr (an_line anchor, leaf)"
    "statement_manifest L input target e leaf = Inr (an_manifestRoot anchor, an_manifestMembership anchor)"
    by (auto simp: anchor_of_def anchor_statement_def rbind_Inr_iff)
  from statement_manifest_opens [OF assms(1,2,5) statement_target_leaf [OF assms(2) leaf(1)] leaf(2)] leaf(1)
  show ?thesis by (simp add: claim_circuit_fields [OF s(3)] claim_fact_fields [OF s(2)] s(4))
qed

section \<open>Remediation\<close>

lemma remediation_stages:
  assumes "buildWageRemediationV2Inputs L lc input = Inr r"
  obtains amount fx referenceValue public where
    "remediation_value L lc input = Inr (amount, fx, referenceValue)"
    "remediation_circuit_of L input fx public = Inr (rb_circuitInputs r)"
    "rb_referenceValueAtomic r = toString referenceValue" "rb_fxRoot r = fe_root fx"
  using assms unfolding buildWageRemediationV2Inputs_def Let_def
  by (elim rbind_tripleE rbindE) auto

lemma remediation_value_Inr:
  assumes "remediation_value L lc input = Inr (amount, fx, referenceValue)"
  shows "ra_token input = cl_obligationToken (ac_claimFact (ra_claim input))" "BigInt (ra_amountAtomic input) = Inr amount"
    "0 < amount" "amount < 2 ^ 128" "text_num (cl_shortfallAtomic (ac_claimFact (ra_claim input))) \<le> referenceValue"
    "referenceValue = (if cl_claimKind (ac_claimFact (ra_claim input)) = Below_committed_floor
       then value_at (fe_snapshot fx) amount else amount)"
  using assms
  by (auto simp: remediation_value_def Let_def rbind_Inr_iff boundedU128_def push_bit_eq_mult text_num_Inr
      dest!: convert_at_Inr split: if_splits)

lemma remediation_circuit_fields:
  assumes "remediation_circuit_of L input fx public = Inr c"
  shows "rq_fx_snapshot c = fe_snapshot fx" "rq_remediation_amount_atomic c = ra_amountAtomic input"
    "rq_agreement c = ac_agreement (ra_claim input)"
  using assms unfolding remediation_circuit_of_def Let_def by (elim rbindE; auto)+

text \<open>C13: A remediation repairs the claim it answers.  Take a claim the builder accepted and a remediation of it
  that the builder accepts.  The remediation pays a positive amount below 2^128 in the token of the worker's
  agreement; the value of this amount (at the rate of the remediation's own snapshot when the claim is about a
  currency floor) is the one it reports, and it is at least what the claim measured as missing.\<close>

theorem remediation_repairs_claim:
  assumes "buildWageClaimV2Inputs L localeCompare claim = Inr b"
    and "buildWageRemediationV2Inputs L localeCompare input = Inr r" "ra_claim input = accepted_of b"
  shows "\<exists>amount missing. BigInt (ra_amountAtomic input) = Inr amount \<and> 0 < amount \<and> amount < 2 ^ 128
    \<and> ra_token input = obligation_token (cq_agreement (wb_circuitInputs b))
    \<and> claim_measured (wc_claimKind claim) (wb_circuitInputs b) missing
    \<and> missing \<le> text_num (rb_referenceValueAtomic r)
    \<and> text_num (rb_referenceValueAtomic r)
        = (if wc_claimKind claim = Below_committed_floor then value_at (rq_fx_snapshot (rb_circuitInputs r)) amount else amount)"
proof -
  obtain target anchor missing u subject public where s:
    "claim_shortfall (wc_claimKind claim) target anchor = Inr (missing, u)"
    "claim_fact_of claim target anchor subject (missing, u) = Inr (wb_claimFact b)"
    "claim_circuit_of L claim target anchor public = Inr (wb_circuitInputs b)"
    by (rule claim_stages [OF assms(1)]) (rule that; assumption)
  obtain amount fx value' public' where t: "remediation_value L localeCompare input = Inr (amount, fx, value')"
    "remediation_circuit_of L input fx public' = Inr (rb_circuitInputs r)" "rb_referenceValueAtomic r = toString value'"
    by (rule remediation_stages [OF assms(2)]) (rule that; assumption)
  have fact: "ac_claimFact (ra_claim input) = wb_claimFact b" by (simp add: assms(3) accepted_of_def)
  note worth = remediation_value_Inr [OF t(1), unfolded fact claim_fact_fields(1,3,8) [OF s(2)]]
  have "missing \<le> value'" using worth(5) by simp
  with worth claim_shortfall_measured [OF s(1,3)] show ?thesis
    by (intro exI [of _ amount] exI [of _ missing])
      (simp add: t(3) remediation_circuit_fields [OF t(2)] claim_circuit_fields(1) [OF s(3)])
qed

section \<open>The snapshot before payday\<close>

lemma claim_leaf_ok:
  assumes "poseidon_32 L" "claim_leaf_of L capabilities binding = Inr leaf"
  shows "commitment_ok leaf"
  using assms(2) proofHash_ok [OF assms(1)]
  by (auto simp: claim_leaf_of_def rbind_Inr_iff proofClaimObligationCommitment_def split: option.splits if_splits)

lemma plan_stages:
  assumes "buildObligationSnapshotPlanInputs L payroll terms = Inr p"
  obtains claimLeaves where
    "rmap (claim_leaf_of L (st_claimCapabilityCommitments terms)) (as_proofBindings payroll) = Inr claimLeaves"
    "buildProofFixedMerkleRoot L claimLeaves = Inr (pl_claimRoot p)"
    "buildProofFixedMerkleRoot L (map bn_agreementLeaf (as_proofBindings payroll)) = Inr (as_agreementRoot payroll)"
    "\<forall>binding \<in> set (as_proofBindings payroll). li_dueAt (bn_source binding) = li_dueAt (bn_source (as_proofBindings payroll ! 0))"
    "snapshot_of L payroll terms (li_dueAt (bn_source (as_proofBindings payroll ! 0))) (pl_claimRoot p) = Inr (pl_snapshot p)"
    "obligationSnapshotCommitmentV2 L (pl_snapshot p) = Inr (pl_snapshotCommitment p)"
    "rmap (snapshot_line_of L (st_claimCapabilityCommitments terms) (map bn_agreementLeaf (as_proofBindings payroll)) claimLeaves)
       (enumerate 0 (as_proofBindings payroll)) = Inr (pl_lines p)"
proof -
  from assms obtain claimLeaves claimRoot baseRoot snapshot snapshotCommitment lines where
    "rmap (claim_leaf_of L (st_claimCapabilityCommitments terms)) (as_proofBindings payroll) = Inr claimLeaves"
    "buildProofFixedMerkleRoot L claimLeaves = Inr claimRoot"
    "buildProofFixedMerkleRoot L (map bn_agreementLeaf (as_proofBindings payroll)) = Inr baseRoot" "\<not> baseRoot \<noteq> as_agreementRoot payroll"
    "\<not> (\<exists>binding \<in> set (as_proofBindings payroll). li_dueAt (bn_source binding) \<noteq> li_dueAt (bn_source (as_proofBindings payroll ! 0)))"
    "snapshot_of L payroll terms (li_dueAt (bn_source (as_proofBindings payroll ! 0))) claimRoot = Inr snapshot"
    "obligationSnapshotCommitmentV2 L snapshot = Inr snapshotCommitment"
    "rmap (snapshot_line_of L (st_claimCapabilityCommitments terms) (map bn_agreementLeaf (as_proofBindings payroll)) claimLeaves)
       (enumerate 0 (as_proofBindings payroll)) = Inr lines"
    "p = \<lparr>pl_snapshot = snapshot, pl_snapshotCommitment = snapshotCommitment, pl_claimRoot = claimRoot, pl_lines = lines\<rparr>"
    unfolding buildObligationSnapshotPlanInputs_def Let_def
    by (elim guardE rbindE InrE) (rule that; assumption)
  then show thesis by (intro that [of claimLeaves]) simp_all
qed

lemma snapshot_line_fields:
  assumes "snapshot_line_of L capabilities baseLeaves claimLeaves (index, binding) = Inr l"
  obtains am cm where
    "buildProofFixedMerkleMembership L baseLeaves index = Inr am" "buildProofFixedMerkleMembership L claimLeaves index = Inr cm"
    "wl_agreementMembership l = fixed_witness_of am" "wl_claimMembership l = fixed_witness_of cm"
    "wl_claimLeaf l = claimLeaves ! index" "wl_index l = index" "wl_agreementId l = bn_agreementId binding"
    "wl_agreementLeaf l = bn_agreementLeaf binding" "wl_expectedNetAtomic l = netAtomic (bn_calculated binding)"
  using assms unfolding snapshot_line_of_def by (auto simp: rbind_Inr_iff)

text \<open>C21: Every worker of a run can open the snapshot taken before payday.  When the snapshot is built from
  bindings with well-formed agreement leaves, it has one line for each binding, in order; the line at an index
  carries that binding's agreement and expected net pay, its claim leaf commits to the agreement leaf, the
  worker's capability and that pay, and its two openings open, at that index, the agreement root of the run and the
  obligation root of the snapshot.\<close>

theorem snapshot_plan_opens:
  assumes "hex_lib_ok L" "poseidon_32 L" "buildObligationSnapshotPlanInputs L payroll terms = Inr p"
    and "list_all commitment_ok (map bn_agreementLeaf (as_proofBindings payroll))"
  shows "list_all2 (\<lambda>(index, binding) l. wl_index l = index \<and> wl_agreementId l = bn_agreementId binding
      \<and> wl_expectedNetAtomic l = netAtomic (bn_calculated binding)
      \<and> claim_leaf_of L (st_claimCapabilityCommitments terms) binding = Inr (wl_claimLeaf l)
      \<and> witness_opens L (wl_agreementLeaf l) index (wl_agreementMembership l) (os_baseAgreementRoot (pl_snapshot p))
      \<and> witness_opens L (wl_claimLeaf l) index (wl_claimMembership l) (os_obligationRoot (pl_snapshot p)))
    (enumerate 0 (as_proofBindings payroll)) (pl_lines p)"
proof -
  obtain leaves where s: "rmap (claim_leaf_of L (st_claimCapabilityCommitments terms)) (as_proofBindings payroll) = Inr leaves"
    "buildProofFixedMerkleRoot L leaves = Inr (pl_claimRoot p)"
    "buildProofFixedMerkleRoot L (map bn_agreementLeaf (as_proofBindings payroll)) = Inr (as_agreementRoot payroll)"
    "snapshot_of L payroll terms (li_dueAt (bn_source (as_proofBindings payroll ! 0))) (pl_claimRoot p) = Inr (pl_snapshot p)"
    "rmap (snapshot_line_of L (st_claimCapabilityCommitments terms) (map bn_agreementLeaf (as_proofBindings payroll)) leaves)
       (enumerate 0 (as_proofBindings payroll)) = Inr (pl_lines p)"
    by (rule plan_stages [OF assms(3)]) (rule that; assumption)
  have roots: "os_baseAgreementRoot (pl_snapshot p) = as_agreementRoot payroll" "os_obligationRoot (pl_snapshot p) = pl_claimRoot p"
    using s(4) by (auto simp: snapshot_of_def rbind_Inr_iff)
  have ok: "list_all commitment_ok leaves"
    using rmap_setD [OF s(1)] claim_leaf_ok [OF assms(2)] by (fastforce simp: list_all_iff)
  have step: "wl_index l = i \<and> wl_agreementId l = bn_agreementId binding \<and> wl_expectedNetAtomic l = netAtomic (bn_calculated binding)
      \<and> claim_leaf_of L (st_claimCapabilityCommitments terms) binding = Inr (wl_claimLeaf l)
      \<and> witness_opens L (wl_agreementLeaf l) i (wl_agreementMembership l) (as_agreementRoot payroll)
      \<and> witness_opens L (wl_claimLeaf l) i (wl_claimMembership l) (pl_claimRoot p)"
    if i: "i < length (as_proofBindings payroll)" "binding = as_proofBindings payroll ! i"
      and l: "snapshot_line_of L (st_claimCapabilityCommitments terms) (map bn_agreementLeaf (as_proofBindings payroll)) leaves
        (i, binding) = Inr l" for i binding l
  proof -
    from snapshot_line_fields [OF l] obtain am cm where
      m: "buildProofFixedMerkleMembership L (map bn_agreementLeaf (as_proofBindings payroll)) i = Inr am"
        "buildProofFixedMerkleMembership L leaves i = Inr cm"
      and f: "wl_agreementMembership l = fixed_witness_of am" "wl_claimMembership l = fixed_witness_of cm" "wl_claimLeaf l = leaves ! i"
        "wl_index l = i" "wl_agreementId l = bn_agreementId binding" "wl_agreementLeaf l = bn_agreementLeaf binding"
        "wl_expectedNetAtomic l = netAtomic (bn_calculated binding)" by blast
    have "claim_leaf_of L (st_claimCapabilityCommitments terms) binding = Inr (leaves ! i)"
      using s(1) i by (simp add: rmap_Inr_iff list_all2_conv_all_nth)
    with fixed_witness_opens [OF assms(1,2,4) m(1)] fixed_witness_opens [OF assms(1,2) ok m(2)] s(2,3) f i
    show ?thesis by simp
  qed
  show ?thesis
    using s(5) step unfolding roots
    by (fastforce simp: rmap_Inr_iff list_all2_conv_all_nth nth_enumerate_eq)
qed

end
