(* ===== verification/Claim_Totals.thy ===== *)
theory Claim_Totals
  imports Claim_Properties
begin

text \<open>
  What the exception builders need to succeed, up to the property that a worker who was not paid can claim.
\<close>

section \<open>Fields that encode\<close>

definition field_ok :: "byte list result \<Rightarrow> bool" where
  "field_ok r \<longleftrightarrow> (\<exists>bs. r = Inr bs)"

lemma field_ok_hex: "hex_lib_ok L \<Longrightarrow> commitment_ok s \<Longrightarrow> field_ok (hex32 L s)"
  using normalizedHexBytes_commitment by (simp add: field_ok_def)

lemma field_ok_u8: "0 \<le> v \<Longrightarrow> v \<le> 255 \<Longrightarrow> field_ok (fixed_u8 v l)"
  by (simp add: field_ok_def fixed_u8_def)

lemma field_ok_code: "field_ok (fixed_u8 (exceptionClaimKinds k) l)" "field_ok (fixed_u8 (claimShortfallUnits u) l)"
  "field_ok (fixed_u8 (exceptionTokens t) l)" "field_ok (fixed_u8 (claimEvidenceSources e) l)"
proof -
  show "field_ok (fixed_u8 (exceptionClaimKinds k) l)" by (cases k) (simp_all add: field_ok_u8)
  show "field_ok (fixed_u8 (claimShortfallUnits u) l)" by (cases u) (simp_all add: field_ok_u8)
  show "field_ok (fixed_u8 (exceptionTokens t) l)" by (cases t) (simp_all add: field_ok_u8)
  show "field_ok (fixed_u8 (claimEvidenceSources e) l)" by (cases e) (simp_all add: field_ok_u8)
qed

lemma field_ok_u64: "to_BigInt v = Inr n \<Longrightarrow> 0 \<le> n \<Longrightarrow> n < 2 ^ 64 \<Longrightarrow> field_ok (fixed_u64 v l)"
  using encodeUint_total [of n 8] by (simp add: field_ok_def fixed_u64_def push_bit_eq_mult)

lemma field_ok_u128:
  "to_BigInt v = Inr n \<Longrightarrow> (if positive then 1 else 0) \<le> n \<Longrightarrow> n < 2 ^ 128 \<Longrightarrow> field_ok (fixed_u128 v l positive)"
  using encodeUint_total [of n 16] by (auto simp: field_ok_def fixed_u128_def push_bit_eq_mult split: if_splits)

lemma BigInt_u64: "u64StringSchema s \<Longrightarrow> BigInt s = Inr (bigint s) \<and> 0 \<le> bigint s \<and> bigint s < 2 ^ 64"
  using canonical_dec_digits BigInt_dec by (auto simp: u64StringSchema_def push_bit_eq_mult)

lemma hashFixed_total:
  "hex_lib_ok L \<Longrightarrow> keccak_32 L \<Longrightarrow> list_all field_ok fs \<Longrightarrow> \<exists>h. hashFixed L d fs = Inr h \<and> commitment_ok h"
  unfolding hashFixed_def field_ok_def by (rule hash_fields_total)

lemma toHex_toHex:
  assumes "hex_lib_ok L" "keccak_32 L" "hashFixed L d fs = Inr h"
  shows "commitment_ok h" "bytes32 L h = Inr bs \<Longrightarrow> toHex L bs = h"
proof -
  from assms(3) obtain p where h: "h = toHex L (keccak_256 L p)" by (auto simp: hashFixed_def hash_fields_def rbind_Inr_iff)
  have len: "length (keccak_256 L p) = 32" using assms(2) by (simp add: keccak_32_def)
  show "commitment_ok h" using toHex_commitment_ok [OF assms(1) len] h by simp
  show "bytes32 L h = Inr bs \<Longrightarrow> toHex L bs = h"
    using normalizedHexBytes_toHex [OF assms(1), of "keccak_256 L p"] by (simp add: bytes32_def h len)
qed

lemma snapshot_commitment_total:
  assumes "hex_lib_ok L" "keccak_32 L" "obligationSnapshotV2Schema s" "commitment_ok (os_ownerAddress s)"
  shows "\<exists>h. obligationSnapshotCommitmentV2 L s = Inr h \<and> commitment_ok h"
proof -
  have times: "u64StringSchema (os_dueAt s)" "u64StringSchema (os_graceEndsAt s)" "u64StringSchema (os_claimEndsAt s)"
    using assms(3) by (simp_all add: obligationSnapshotV2Schema_def)
  have "list_all field_ok (snapshot_fields L s)"
    using assms(3,4) times [THEN BigInt_u64]
    by (auto simp: snapshot_fields_def obligationSnapshotV2Schema_def PAYO_EXCEPTION_SCHEMA_VERSION_def
        intro!: field_ok_hex [OF assms(1)] field_ok_u8 field_ok_u64)
  from hashFixed_total [OF assms(1,2) this] assms(3) show ?thesis by (simp add: obligationSnapshotCommitmentV2_def)
qed

lemma statement_commitment_total:
  assumes "hex_lib_ok L" "keccak_32 L" "payrollStatementV2Schema s"
  shows "\<exists>h. payrollStatementCommitmentV2 L s = Inr h \<and> commitment_ok h"
proof -
  have "u64StringSchema (pst_observedAt s)" using assms(3) by (simp add: payrollStatementV2Schema_def)
  then have "list_all field_ok (statement_fields L s)"
    using assms(3) BigInt_u64
    by (auto simp: statement_fields_def payrollStatementV2Schema_def PAYO_EXCEPTION_SCHEMA_VERSION_def field_ok_code
        intro!: field_ok_hex [OF assms(1)] field_ok_u8 field_ok_u64)
  from hashFixed_total [OF assms(1,2) this] assms(3) show ?thesis by (simp add: payrollStatementCommitmentV2_def)
qed

lemma claim_commitment_total:
  assumes "hex_lib_ok L" "keccak_32 L" "exceptionClaimFactSchema f"
  shows "\<exists>h. claimFactCommitmentV2 L f = Inr h \<and> commitment_ok h"
proof -
  have amount: "BigInt (cl_shortfallAtomic f) = Inr (bigint (cl_shortfallAtomic f))" "1 \<le> bigint (cl_shortfallAtomic f)"
    "bigint (cl_shortfallAtomic f) < 2 ^ 128"
  proof -
    have s: "canonical_dec (cl_shortfallAtomic f)" "cl_shortfallAtomic f \<noteq> ''0''" "bigint (cl_shortfallAtomic f) < 2 ^ 128"
      using assms(3) by (simp_all add: exceptionClaimFactSchema_def positiveU128StringSchema_def push_bit_eq_mult)
    then show "BigInt (cl_shortfallAtomic f) = Inr (bigint (cl_shortfallAtomic f))" "bigint (cl_shortfallAtomic f) < 2 ^ 128"
      using canonical_dec_digits BigInt_dec by auto
    have "toString 0 = ''0''" by code_simp
    then have "bigint (cl_shortfallAtomic f) \<noteq> 0" using toString_bigint [OF s(1)] s(2) by metis
    then show "1 \<le> bigint (cl_shortfallAtomic f)" using bigint_nonneg [of "cl_shortfallAtomic f"] by linarith
  qed
  have "list_all field_ok (claim_fields L f)"
    using assms(3) amount
    by (auto simp: claim_fields_def exceptionClaimFactSchema_def field_ok_code intro!: field_ok_hex [OF assms(1)] field_ok_u8 field_ok_u128)
  from hashFixed_total [OF assms(1,2) this] show ?thesis by (simp add: claimFactCommitmentV2_def)
qed

lemma public_inputs_total:
  assumes "hex_lib_ok L" "BigInt (xb_chainId x) = Inr c" "c \<noteq> 0" "BigInt (xb_sealAddress x) = Inr a" "a \<noteq> 0"
    and "0 \<le> xb_validityStart x" "xb_validityStart x \<le> xb_validityExpiry x" "xb_validityExpiry x \<le> xb_validityStart x + 3600"
      "xb_validityExpiry x < 2 ^ 64"
    and "list_all commitment_ok [xb_agreementRoot x, xb_manifestRoot x, xb_policyRoot x, xb_fxRoot x, xb_subjectNullifier x,
      xb_parentNullifier x, xb_factCommitment x, xb_parentFactCommitment x]"
  shows "\<exists>p. publicInputs L x = Inr p"
proof -
  have limb: "\<exists>q. root_limbs L s = Inr q" if "commitment_ok s" for s
    using normalizedHexBytes_commitment [OF assms(1) that] by (fastforce simp: root_limbs_def splitHashToU128_def)
  have "commitment_ok (xb_agreementRoot x)" "commitment_ok (xb_manifestRoot x)" "commitment_ok (xb_policyRoot x)"
    "commitment_ok (xb_fxRoot x)" "commitment_ok (xb_subjectNullifier x)" "commitment_ok (xb_parentNullifier x)"
    "commitment_ok (xb_factCommitment x)" "commitment_ok (xb_parentFactCommitment x)" using assms(10) by simp_all
  note this [THEN limb]
  moreover have "binding_checks x = Inr (c, a)" using assms(2-8) by (simp add: binding_checks_def)
  ultimately show ?thesis
    using assms(6-9) by (auto simp: publicInputs_def boundedU64_def push_bit_eq_mult)
qed

section \<open>A worker who was not paid\<close>

lemma zero_ok: "commitment_ok ZERO"
  by code_simp

lemma zero_digits: "toString 0 = ''0''"
  by code_simp

lemma missing_fact_total:
  assumes "wc_claimKind input = Missing_obligation" "evidence_source_of (wc_evidence input) \<noteq> Payo_run"
    and "0 < n" "n < 2 ^ 128" "wl_index target \<le> 49" "commitment_ok (wl_agreementLeaf target)" "commitment_ok subject"
    and "commitment_ok (os_runNullifier (pl_snapshot (wc_snapshot input)))" "commitment_ok (pl_snapshotCommitment (wc_snapshot input))"
    and "commitment_ok (an_statementCommitment anchor)" "commitment_ok (an_manifestRoot anchor)"
  shows "\<exists>f. claim_fact_of input target anchor subject (n, token_unit (obligation_token (wl_agreement target))) = Inr f"
proof -
  have "toString n \<noteq> ''0''" using assms(3) toString_inj [of n 0] zero_digits by simp
  then have "positiveU128StringSchema (toString n)"
    using assms(3,4) by (simp add: positiveU128StringSchema_def canonical_dec_toString push_bit_eq_mult)
  then show ?thesis
    using assms by (simp add: claim_fact_of_def boundedU128_def push_bit_eq_mult exceptionClaimFactSchema_def token_unit_def)
qed

lemma missing_claim_total:
  assumes L: "hex_lib_ok L" "keccak_32 L"
    and target: "claim_target L input = Inr target" "anchor_of L lc input target = Inr anchor"
    and kind: "wc_claimKind input = Missing_obligation" "evidence_source_of (wc_evidence input) \<noteq> Payo_run"
    and amount: "BigInt (wl_expectedNetAtomic target) = Inr n" "0 < n" "n < 2 ^ 128"
    and line: "wl_index target \<le> 49" "commitment_ok (wl_agreementLeaf target)" "commitment_ok (wc_claimCapabilitySecret input)"
    and snapshot: "obligationSnapshotV2Schema (pl_snapshot (wc_snapshot input))"
      "commitment_ok (os_ownerAddress (pl_snapshot (wc_snapshot input)))" "commitment_ok (pl_snapshotCommitment (wc_snapshot input))"
    and anchored: "commitment_ok (an_statementCommitment anchor)" "commitment_ok (an_manifestRoot anchor)"
      "commitment_ok (fe_root (an_fx anchor))" "opt_ok (\<lambda>s. commitment_ok (pst_availabilityCommitment s)) (an_statement anchor)"
    and deployment: "BigInt (wc_chainId input) = Inr c" "c \<noteq> 0" "BigInt (wc_sealAddress input) = Inr a" "a \<noteq> 0"
    and window: "0 \<le> wc_validityStart input" "wc_validityStart input \<le> wc_validityExpiry input"
      "wc_validityExpiry input \<le> wc_validityStart input + 3600" "wc_validityExpiry input < 2 ^ 64"
  shows "\<exists>b. buildWageClaimV2Inputs L lc input = Inr b"
proof -
  have roots: "commitment_ok (os_runNullifier (pl_snapshot (wc_snapshot input)))"
    "commitment_ok (os_baseAgreementRoot (pl_snapshot (wc_snapshot input)))" "commitment_ok (os_policyRoot (pl_snapshot (wc_snapshot input)))"
    using snapshot(1) by (simp_all add: obligationSnapshotV2Schema_def)
  have shortfall: "claim_shortfall (wc_claimKind input) target anchor = Inr (n, token_unit (obligation_token (wl_agreement target)))"
    by (simp add: claim_shortfall_def kind(1) amount(1) Let_def)
  obtain subject where subject: "claimSubjectNullifierV2 L (wc_claimCapabilitySecret input)
      (os_runNullifier (pl_snapshot (wc_snapshot input))) (wl_agreementLeaf target) (wc_claimKind input) = Inr subject" "commitment_ok subject"
    using hashFixed_total [OF L, where d = "''PAYO_CLAIM_SUBJECT_V2''" and fs = "[hex32 L (wc_claimCapabilitySecret input), hex32 L (os_runNullifier (pl_snapshot (wc_snapshot input))),
      hex32 L (wl_agreementLeaf target), fixed_u8 (exceptionClaimKinds (wc_claimKind input)) ''Claim kind'']"]
      field_ok_hex [OF L(1)] field_ok_code(1) line roots(1)
    by (auto simp: claimSubjectNullifierV2_def)
  obtain f where f: "claim_fact_of input target anchor subject (n, token_unit (obligation_token (wl_agreement target))) = Inr f"
    using missing_fact_total [OF kind amount(2,3) line(1,2) subject(2) roots(1) snapshot(3) anchored(1,2)] by blast
  obtain h where h: "claimFactCommitmentV2 L f = Inr h" "commitment_ok h"
    using claim_commitment_total [OF L claim_fact_fields(10) [OF f]] by blast
  have "\<exists>p. publicInputs L (claim_binding input anchor subject h) = Inr p"
    by (rule public_inputs_total [OF L(1), where c = c and a = a])
      (use deployment window roots subject(2) h(2) anchored snapshot(3) in \<open>simp_all add: claim_binding_def Let_def\<close>)
  then obtain p where p: "publicInputs L (claim_binding input anchor subject h) = Inr p" by blast
  have bytes: "\<exists>bs. bytes32 L s = Inr bs" if "commitment_ok s" for s
    using normalizedHexBytes_commitment [OF L(1) that] by (simp add: bytes32_def)
  have "\<exists>code. evidence_code (evidence_source_of (wc_evidence input)) = Inr code"
    using kind(2) by (cases "evidence_source_of (wc_evidence input)") (simp_all add: evidence_code_def)
  moreover have "\<exists>bs. (case an_statement anchor of None \<Rightarrow> Inr zero_bytes | Some s \<Rightarrow> bytes32 L (pst_availabilityCommitment s)) = Inr bs"
    using anchored(4) bytes by (cases "an_statement anchor") auto
  ultimately obtain q where "claim_circuit_of L input target anchor p = Inr q"
    using bytes [OF roots(1)] bytes [OF roots(3)] bytes [OF snapshot(2)] bytes [OF line(3)]
    by (auto simp: claim_circuit_of_def Let_def)
  then show ?thesis
    using target shortfall subject(1) f h(1) p by (simp add: buildWageClaimV2Inputs_def)
qed

text \<open>The lines of a snapshot, as a claim needs them.\<close>

lemma plan_snapshot_ok:
  assumes "hex_lib_ok L" "keccak_32 L" "buildObligationSnapshotPlanInputs L payroll terms = Inr p"
  shows "obligationSnapshotV2Schema (pl_snapshot p)" "commitment_ok (os_ownerAddress (pl_snapshot p))"
    "commitment_ok (pl_snapshotCommitment p)" "BigInt (os_graceEndsAt (pl_snapshot p)) = Inr (st_graceEndsAt terms)"
    "BigInt (os_claimEndsAt (pl_snapshot p)) = Inr (st_claimEndsAt terms)"
    "0 \<le> st_graceEndsAt terms" "length (as_proofBindings payroll) \<le> 50"
proof -
  obtain dueAt where s: "snapshot_of L payroll terms dueAt (pl_claimRoot p) = Inr (pl_snapshot p)"
    "obligationSnapshotCommitmentV2 L (pl_snapshot p) = Inr (pl_snapshotCommitment p)"
    by (rule plan_stages [OF assms(3)]) (rule that; assumption)
  then show "obligationSnapshotV2Schema (pl_snapshot p)" "commitment_ok (os_ownerAddress (pl_snapshot p))"
    "BigInt (os_graceEndsAt (pl_snapshot p)) = Inr (st_graceEndsAt terms)"
    "BigInt (os_claimEndsAt (pl_snapshot p)) = Inr (st_claimEndsAt terms)" "0 \<le> st_graceEndsAt terms"
    using normalizedHexBytes_Inr [OF assms(1)] toHex_commitment_ok [OF assms(1)]
    by (auto simp: snapshot_of_def rbind_Inr_iff boundedU64_def bytes32_def split: if_splits)
  from s(2) obtain fs where "hashFixed L ''PAYO_OBLIGATION_SNAPSHOT_V2'' fs = Inr (pl_snapshotCommitment p)"
    by (auto simp: obligationSnapshotCommitmentV2_def rbind_Inr_iff)
  then show "commitment_ok (pl_snapshotCommitment p)" by (rule toHex_toHex(1) [OF assms(1,2)])
  show "length (as_proofBindings payroll) \<le> 50"
    using assms(3) unfolding buildObligationSnapshotPlanInputs_def Let_def MAX_REAL_LINES_def
    by (elim guardE) simp
qed

lemma plan_line_target:
  assumes "hex_lib_ok L" "keccak_32 L" "buildObligationSnapshotPlanInputs L payroll terms = Inr p"
    and "list_all commitment_ok (map bn_agreementLeaf (as_proofBindings payroll))"
    and "distinct (map bn_agreementId (as_proofBindings payroll))" "l \<in> set (pl_lines p)"
  shows "find (\<lambda>k. wl_agreementId k = wl_agreementId l) (pl_lines p) = Some l" "wl_index l \<le> 49" "commitment_ok (wl_agreementLeaf l)"
    "\<exists>n. BigInt (wl_expectedNetAtomic l) = Inr n \<and> 0 < n \<and> n < 2 ^ 128"
proof -
  obtain leaves where s: "rmap (claim_leaf_of L (st_claimCapabilityCommitments terms)) (as_proofBindings payroll) = Inr leaves"
    "rmap (snapshot_line_of L (st_claimCapabilityCommitments terms) (map bn_agreementLeaf (as_proofBindings payroll)) leaves)
       (enumerate 0 (as_proofBindings payroll)) = Inr (pl_lines p)"
    by (rule plan_stages [OF assms(3)]) (rule that; assumption)
  have line: "wl_index (pl_lines p ! i) = i \<and> wl_agreementId (pl_lines p ! i) = bn_agreementId (as_proofBindings payroll ! i)
      \<and> wl_agreementLeaf (pl_lines p ! i) = bn_agreementLeaf (as_proofBindings payroll ! i)
      \<and> wl_expectedNetAtomic (pl_lines p ! i) = netAtomic (bn_calculated (as_proofBindings payroll ! i))"
    if "i < length (as_proofBindings payroll)" for i
  proof -
    have "snapshot_line_of L (st_claimCapabilityCommitments terms) (map bn_agreementLeaf (as_proofBindings payroll)) leaves
        (i, as_proofBindings payroll ! i) = Inr (pl_lines p ! i)"
      using s(2) that by (simp add: rmap_Inr_iff list_all2_conv_all_nth nth_enumerate_eq)
    from snapshot_line_fields [OF this] show ?thesis by metis
  qed
  have len: "length (pl_lines p) = length (as_proofBindings payroll)" using rmap_length [OF s(2)] by simp
  obtain i where i: "i < length (as_proofBindings payroll)" "l = pl_lines p ! i" using assms(6) len by (auto simp: in_set_conv_nth)
  note here = line [OF i(1), folded i(2)]
  have "map wl_agreementId (pl_lines p) = map bn_agreementId (as_proofBindings payroll)"
    using line len by (intro nth_equalityI) simp_all
  then have "distinct (map wl_agreementId (pl_lines p))" using assms(5) by simp
  then show "find (\<lambda>k. wl_agreementId k = wl_agreementId l) (pl_lines p) = Some l"
    using i len by (auto simp: find_Some_iff distinct_conv_nth)
  show "wl_index l \<le> 49" using here i(1) plan_snapshot_ok(7) [OF assms(1-3)] by simp
  show "commitment_ok (wl_agreementLeaf l)" using here i(1) assms(4) by (simp add: list_all_length)
  have "claim_leaf_of L (st_claimCapabilityCommitments terms) (as_proofBindings payroll ! i) = Inr (leaves ! i)"
    using s(1) i(1) by (simp add: rmap_Inr_iff list_all2_conv_all_nth)
  with here show "\<exists>n. BigInt (wl_expectedNetAtomic l) = Inr n \<and> 0 < n \<and> n < 2 ^ 128"
    by (auto simp: claim_leaf_of_def rbind_Inr_iff boundedU128_def push_bit_eq_mult split: option.splits if_splits)
qed

definition unpaid_claim :: "snapshot_plan \<Rightarrow> snapshot_line \<Rightarrow> string \<Rightarrow> string \<Rightarrow> string \<Rightarrow> int \<Rightarrow> int \<Rightarrow> claim_input" where
  "unpaid_claim p l secret chainId sealAddress start expiry =
     \<lparr>wc_chainId = chainId, wc_sealAddress = sealAddress, wc_snapshot = p, wc_agreementId = wl_agreementId l,
      wc_claimCapabilitySecret = secret, wc_claimKind = Missing_obligation, wc_evidence = No_statement,
      wc_validityStart = start, wc_validityExpiry = expiry\<rparr>"

lemma unpaid_claim_target:
  assumes "hex_lib_ok L" "keccak_32 L" "buildObligationSnapshotPlanInputs L payroll terms = Inr p"
    and "list_all commitment_ok (map bn_agreementLeaf (as_proofBindings payroll))"
    and "distinct (map bn_agreementId (as_proofBindings payroll))" "l \<in> set (pl_lines p)"
    and "claimCapabilityCommitmentV2 L secret = Inr (wl_claimCapabilityCommitment l)"
    and "st_graceEndsAt terms \<le> start" "start \<le> st_claimEndsAt terms"
    and "wc_snapshot input = p" "wc_agreementId input = wl_agreementId l" "wc_claimCapabilitySecret input = secret"
      "wc_claimKind input = Missing_obligation" "wc_validityStart input = start"
  shows "claim_target L input = Inr l"
  using plan_line_target(1) [OF assms(1-6)] plan_snapshot_ok(4,5) [OF assms(1-3)] assms(7-14)
  by (simp add: claim_target_def)

lemma unpaid_claim_total:
  assumes "hex_lib_ok L" "keccak_32 L" "buildObligationSnapshotPlanInputs L payroll terms = Inr p"
    and "list_all commitment_ok (map bn_agreementLeaf (as_proofBindings payroll))"
    and "distinct (map bn_agreementId (as_proofBindings payroll))" "l \<in> set (pl_lines p)"
    and "claimCapabilityCommitmentV2 L secret = Inr (wl_claimCapabilityCommitment l)" "commitment_ok secret"
    and "BigInt chainId = Inr c" "c \<noteq> 0" "BigInt sealAddress = Inr a" "a \<noteq> 0"
    and "st_graceEndsAt terms \<le> start" "start \<le> st_claimEndsAt terms"
    and "start \<le> expiry" "expiry \<le> start + 3600" "expiry < 2 ^ 64"
  shows "\<exists>b. buildWageClaimV2Inputs L localeCompare (unpaid_claim p l secret chainId sealAddress start expiry) = Inr b"
proof -
  let ?input = "unpaid_claim p l secret chainId sealAddress start expiry"
  have target: "claim_target L ?input = Inr l"
    by (rule unpaid_claim_target [OF assms(1-7,13,14)]) (simp_all add: unpaid_claim_def)
  have anchor: "anchor_of L localeCompare ?input l = Inr no_anchor" by (simp add: anchor_of_def unpaid_claim_def)
  obtain n where n: "BigInt (wl_expectedNetAtomic l) = Inr n" "0 < n" "n < 2 ^ 128"
    using plan_line_target(4) [OF assms(1-6)] by blast
  show ?thesis
    by (rule missing_claim_total [OF assms(1,2) target anchor _ _ n, where c = c and a = a])
      (use plan_line_target(2,3) [OF assms(1-6)] plan_snapshot_ok [OF assms(1-3)] assms(8-17) zero_ok in
        \<open>auto simp: unpaid_claim_def no_anchor_def no_fx_evidence_def\<close>)
qed

text \<open>The amount of such a claim, and the token and kind of its fact.\<close>

lemma unpaid_claim_fact:
  assumes "buildWageClaimV2Inputs L lc input = Inr b" "claim_target L input = Inr l" "wc_claimKind input = Missing_obligation"
  shows "\<exists>n. BigInt (wl_expectedNetAtomic l) = Inr n \<and> cl_shortfallAtomic (wb_claimFact b) = toString n"
    and "cl_obligationToken (wb_claimFact b) = obligation_token (wl_agreement l)"
    "cl_claimKind (wb_claimFact b) = Missing_obligation" "exceptionClaimFactSchema (wb_claimFact b)"
    "wb_target b = l" "wb_snapshot b = wc_snapshot input"
    "claimFactCommitmentV2 L (wb_claimFact b) = Inr (wb_claimFactCommitment b)"
    "wb_claimSubjectNullifier b = cl_claimSubjectNullifier (wb_claimFact b)"
proof -
  obtain target anchor amount u subject h where s: "claim_target L input = Inr target"
    "claim_shortfall (wc_claimKind input) target anchor = Inr (amount, u)"
    "claim_fact_of input target anchor subject (amount, u) = Inr (wb_claimFact b)"
    "claimFactCommitmentV2 L (wb_claimFact b) = Inr h" "wb_claimFactCommitment b = h" "wb_claimSubjectNullifier b = subject"
    "wb_target b = target" "wb_snapshot b = wc_snapshot input"
    by (rule claim_stages [OF assms(1)]) (rule that; assumption)
  have "target = l" using s(1) assms(2) by simp
  moreover from this s(2) assms(3) have "BigInt (wl_expectedNetAtomic l) = Inr amount"
    by (auto simp: claim_shortfall_def Let_def rbind_Inr_iff)
  ultimately show "\<exists>n. BigInt (wl_expectedNetAtomic l) = Inr n \<and> cl_shortfallAtomic (wb_claimFact b) = toString n"
    "cl_obligationToken (wb_claimFact b) = obligation_token (wl_agreement l)"
    "cl_claimKind (wb_claimFact b) = Missing_obligation" "exceptionClaimFactSchema (wb_claimFact b)"
    "wb_target b = l" "wb_snapshot b = wc_snapshot input"
    "claimFactCommitmentV2 L (wb_claimFact b) = Inr (wb_claimFactCommitment b)"
    "wb_claimSubjectNullifier b = cl_claimSubjectNullifier (wb_claimFact b)"
    using claim_fact_fields [OF s(3)] s(4-8) assms(3) by simp_all
qed

text \<open>C12: A worker who was not paid can always claim.  Take a snapshot the employer built from bindings with
  distinct agreements and well-formed leaves, one of its lines, and the 32-byte secret of that line's capability.
  In every window of at most an hour that starts between the grace period and the deadline, on any non-zero
  deployment, the builder accepts the claim that the obligation is missing, without any statement of the
  employer, and the claim is for the whole expected pay of the line.\<close>

theorem unpaid_worker_can_claim:
  assumes "hex_lib_ok L" "keccak_32 L" "buildObligationSnapshotPlanInputs L payroll terms = Inr p"
    and "list_all commitment_ok (map bn_agreementLeaf (as_proofBindings payroll))"
    and "distinct (map bn_agreementId (as_proofBindings payroll))" "l \<in> set (pl_lines p)"
    and "claimCapabilityCommitmentV2 L secret = Inr (wl_claimCapabilityCommitment l)" "commitment_ok secret"
    and "BigInt chainId = Inr c" "c \<noteq> 0" "BigInt sealAddress = Inr a" "a \<noteq> 0"
    and "st_graceEndsAt terms \<le> start" "start \<le> st_claimEndsAt terms"
    and "start \<le> expiry" "expiry \<le> start + 3600" "expiry < 2 ^ 64"
  shows "\<exists>b. buildWageClaimV2Inputs L localeCompare (unpaid_claim p l secret chainId sealAddress start expiry) = Inr b
    \<and> BigInt (cl_shortfallAtomic (wb_claimFact b)) = BigInt (wl_expectedNetAtomic l)"
proof -
  let ?input = "unpaid_claim p l secret chainId sealAddress start expiry"
  obtain b where b: "buildWageClaimV2Inputs L localeCompare ?input = Inr b" using unpaid_claim_total [OF assms] by blast
  have "claim_target L ?input = Inr l"
    by (rule unpaid_claim_target [OF assms(1-7,13,14)]) (simp_all add: unpaid_claim_def)
  from unpaid_claim_fact(1) [OF b this] b show ?thesis by (auto simp: unpaid_claim_def)
qed

end
