(* ===== verification/Claim_Example.thy ===== *)
theory Claim_Example
  imports Claim_Totals Input_Example
begin

text \<open>
  One obligation taken through the exception protocol under the reference library: the snapshot of the line of
  theory Input_Example, a claim that it was not paid, the same claim against a statement of the employer, and the
  remediation.  The properties of theories Claim_Properties and Claim_Totals are instantiated there.
\<close>

section \<open>The snapshot\<close>

definition example_snapshot_terms :: "string \<Rightarrow> snapshot_terms" where
  "example_snapshot_terms capability = \<lparr>st_ownerAddress = example_hex, st_claimCapabilityCommitments = [''a1'' \<mapsto> capability],
     st_graceEndsAt = 1768100000, st_claimEndsAt = 1770000000\<rparr>"

definition example_binding :: snapshot_binding where
  "example_binding = \<lparr>bn_index = 0, bn_agreementId = ''a1'', bn_source = example_input_line, bn_calculated = example_calculated,
     bn_agreementLeaf = example_hex,
     bn_agreement = emptyAgreement\<lparr>aw_enabled := True, aw_token := ''1'', aw_recipient_commitment := replicate 32 1\<rparr>\<rparr>"

definition example_payroll :: "string \<Rightarrow> agreement_snapshot" where
  "example_payroll root = \<lparr>as_agreementRoot = root, as_policyRoot = example_hex, as_runNullifier = example_hex,
     as_calculatedLines = [example_calculated], as_proofBindings = [example_binding]\<rparr>"

lemma example_claim_capability:
  "\<exists>h. claimCapabilityCommitmentV2 ref_lib example_hex = Inr h \<and> commitment_ok h \<and> h \<noteq> []
     \<and> (\<exists>bs. bytes32 ref_lib h = Inr bs \<and> toHex ref_lib bs = h)"
proof -
  obtain h where h: "hashFixed ref_lib ''PAYO_CLAIM_CAPABILITY_V2'' [hex32 ref_lib example_hex] = Inr h" "commitment_ok h"
    using hashFixed_total [OF ref_lib_hex ref_lib_keccak, where d = "''PAYO_CLAIM_CAPABILITY_V2''" and fs = "[hex32 ref_lib example_hex]"]
      field_ok_hex [OF ref_lib_hex example_hex_ok] by auto
  moreover have "h \<noteq> []" using h(2) by (auto simp: commitment_ok_def)
  ultimately show ?thesis
    using bytes32_total [OF h(2)] toHex_toHex(2) [OF ref_lib_hex ref_lib_keccak h(1)]
    by (auto simp: claimCapabilityCommitmentV2_def)
qed

lemma example_claim_leaf:
  assumes "commitment_ok capability"
  shows "\<exists>h. proofClaimObligationCommitment ref_lib example_hex capability 2500 = Inr h \<and> commitment_ok h"
proof -
  have "list_all group_ok [Inr [bigint example_hex], limbs ref_lib capability, single (packedAmount 2500)]"
    using bigint_commitment_lt [OF example_hex_ok] limbs_ok [OF ref_lib_hex assms] packed_amount_ok [of 2500]
    by (simp add: group_ok_def)
  moreover have "0 \<le> PAYO_PROOF_DOMAIN_CLAIM_OBLIGATION" "PAYO_PROOF_DOMAIN_CLAIM_OBLIGATION < 2 ^ 256" by code_simp+
  ultimately show ?thesis
    using grouped_hash_total [OF ref_lib_poseidon] unfolding proofClaimObligationCommitment_def by blast
qed

lemma single_opening_total:
  assumes "commitment_ok l"
  shows "\<exists>m. buildProofFixedMerkleMembership ref_lib [l] 0 = Inr m"
  using opening_total [OF ref_lib_hex ref_lib_poseidon, of "[l]" 0] assms by auto

lemma example_due_times:
  "u64StringSchema (toString 1768000000)" "u64StringSchema (toString 1768100000)" "u64StringSchema (toString 1770000000)"
  by (simp_all add: u64StringSchema_def canonical_dec_toString push_bit_eq_mult)

lemma example_plan:
  "\<exists>capability root p. buildObligationSnapshotPlanInputs ref_lib (example_payroll root) (example_snapshot_terms capability) = Inr p
     \<and> claimCapabilityCommitmentV2 ref_lib example_hex = Inr capability
     \<and> (\<exists>l. pl_lines p = [l] \<and> wl_index l = 0 \<and> wl_claimCapabilityCommitment l = capability
          \<and> wl_agreement l = bn_agreement example_binding \<and> wl_expectedNetAtomic l = ''2500'')"
proof -
  obtain k bs where k: "claimCapabilityCommitmentV2 ref_lib example_hex = Inr k" "commitment_ok k" "k \<noteq> []"
    "bytes32 ref_lib k = Inr bs" "toHex ref_lib bs = k" using example_claim_capability by blast
  obtain leaf where leaf: "proofClaimObligationCommitment ref_lib example_hex k 2500 = Inr leaf" "commitment_ok leaf"
    using example_claim_leaf [OF k(2)] by blast
  obtain root where root: "buildProofFixedMerkleRoot ref_lib [example_hex] = Inr root" "commitment_ok root"
    using single_root_total [OF example_hex_ok] by blast
  obtain claimRoot where claimRoot: "buildProofFixedMerkleRoot ref_lib [leaf] = Inr claimRoot" "commitment_ok claimRoot"
    using single_root_total [OF leaf(2)] by blast
  obtain am where am: "buildProofFixedMerkleMembership ref_lib [example_hex] 0 = Inr am"
    using single_opening_total [OF example_hex_ok] by blast
  obtain cm where cm: "buildProofFixedMerkleMembership ref_lib [leaf] 0 = Inr cm"
    using single_opening_total [OF leaf(2)] by blast
  obtain owner where owner: "bytes32 ref_lib example_hex = Inr owner" using bytes32_total [OF example_hex_ok] by blast
  have owner_ok: "commitment_ok (toHex ref_lib owner)"
    using normalizedHexBytes_Inr [OF ref_lib_hex] owner by (auto simp: bytes32_def intro: toHex_commitment_ok)
  have net: "BigInt ''2500'' = Inr 2500" by code_simp
  have binding: "bn_agreementId example_binding = ''a1''" "netAtomic (bn_calculated example_binding) = ''2500''"
    "bn_agreementLeaf example_binding = example_hex" "li_dueAt (bn_source example_binding) = 1768000000"
    by (simp_all add: example_binding_def example_calculated_def example_input_line_def)
  define snapshot where "snapshot = \<lparr>os_runNullifier = example_hex, os_baseAgreementRoot = root, os_obligationRoot = claimRoot,
     os_policyRoot = example_hex, os_ownerAddress = toHex ref_lib owner, os_dueAt = toString 1768000000,
     os_graceEndsAt = toString 1768100000, os_claimEndsAt = toString 1770000000, os_availabilityCommitment = claimRoot\<rparr>"
  have "exceptionAddress_ok (toHex ref_lib owner)"
    using owner_ok by (auto simp: exceptionAddress_ok_def starknet_address_ok_def commitment_ok_def)
  then have schema: "obligationSnapshotV2Schema snapshot"
    using example_hex_ok root(2) claimRoot(2) example_due_times by (simp add: obligationSnapshotV2Schema_def snapshot_def)
  then have snap: "snapshot_of ref_lib (example_payroll root) (example_snapshot_terms k) 1768000000 claimRoot = Inr snapshot"
    using owner by (simp add: snapshot_of_def example_payroll_def example_snapshot_terms_def boundedU64_def push_bit_eq_mult snapshot_def)
  obtain h where h: "obligationSnapshotCommitmentV2 ref_lib snapshot = Inr h"
    using snapshot_commitment_total [OF ref_lib_hex ref_lib_keccak schema] owner_ok by (auto simp: snapshot_def)
  have caps: "st_claimCapabilityCommitments (example_snapshot_terms k) = [''a1'' \<mapsto> k]" by (simp add: example_snapshot_terms_def)
  have "claim_leaf_of ref_lib [''a1'' \<mapsto> k] example_binding = Inr leaf"
    using k(3) leaf(1) net by (simp add: claim_leaf_of_def binding boundedU128_def push_bit_eq_mult)
  moreover obtain l where l: "snapshot_line_of ref_lib [''a1'' \<mapsto> k] [example_hex] [leaf] (0, example_binding) = Inr l"
    "wl_index l = 0" "wl_claimCapabilityCommitment l = k" "wl_agreement l = bn_agreement example_binding" "wl_expectedNetAtomic l = ''2500''"
    using k(4,5) am cm by (auto simp: snapshot_line_of_def binding)
  ultimately have "buildObligationSnapshotPlanInputs ref_lib (example_payroll root) (example_snapshot_terms k)
      = Inr \<lparr>pl_snapshot = snapshot, pl_snapshotCommitment = h, pl_claimRoot = claimRoot, pl_lines = [l]\<rparr>"
    using root(1) claimRoot(1) snap h
    unfolding buildObligationSnapshotPlanInputs_def caps
    by (simp add: example_payroll_def MAX_REAL_LINES_def binding Let_def)
  with k(1) l(2-5) show ?thesis by fastforce
qed

lemma example_bindings:
  "list_all commitment_ok (map bn_agreementLeaf (as_proofBindings (example_payroll root)))"
  "distinct (map bn_agreementId (as_proofBindings (example_payroll root)))"
  using example_hex_ok by (simp_all add: example_payroll_def example_binding_def)

lemma example_deployment: "BigInt ''0x1'' = Inr 1" "BigInt ''0x2'' = Inr 2" "(1::int) \<noteq> 0" "(2::int) \<noteq> 0"
  using example_line_facts by simp_all

theorem snapshot_plan_opens_witness:
  "\<exists>capability root p. buildObligationSnapshotPlanInputs ref_lib (example_payroll root) (example_snapshot_terms capability) = Inr p
     \<and> list_all2 (\<lambda>(index, binding) l. wl_index l = index \<and> wl_agreementId l = bn_agreementId binding
         \<and> wl_expectedNetAtomic l = netAtomic (bn_calculated binding)
         \<and> claim_leaf_of ref_lib (st_claimCapabilityCommitments (example_snapshot_terms capability)) binding = Inr (wl_claimLeaf l)
         \<and> witness_opens ref_lib (wl_agreementLeaf l) index (wl_agreementMembership l) (os_baseAgreementRoot (pl_snapshot p))
         \<and> witness_opens ref_lib (wl_claimLeaf l) index (wl_claimMembership l) (os_obligationRoot (pl_snapshot p)))
       (enumerate 0 (as_proofBindings (example_payroll root))) (pl_lines p)"
proof -
  obtain k root p where p: "buildObligationSnapshotPlanInputs ref_lib (example_payroll root) (example_snapshot_terms k) = Inr p"
    using example_plan by blast
  from snapshot_plan_opens [OF ref_lib_hex ref_lib_poseidon p example_bindings(1)] p show ?thesis by blast
qed

section \<open>The claim\<close>

lemma example_unpaid:
  obtains capability root p l where
    "buildObligationSnapshotPlanInputs ref_lib (example_payroll root) (example_snapshot_terms capability) = Inr p" "l \<in> set (pl_lines p)"
    "claimCapabilityCommitmentV2 ref_lib example_hex = Inr (wl_claimCapabilityCommitment l)" "pl_lines p = [l]"
    "wl_agreement l = bn_agreement example_binding" "wl_expectedNetAtomic l = ''2500''"
    "st_graceEndsAt (example_snapshot_terms capability) \<le> 1768100000" "1768100000 \<le> st_claimEndsAt (example_snapshot_terms capability)"
proof -
  obtain k root p l where "buildObligationSnapshotPlanInputs ref_lib (example_payroll root) (example_snapshot_terms k) = Inr p"
    "claimCapabilityCommitmentV2 ref_lib example_hex = Inr k" "pl_lines p = [l]" "wl_claimCapabilityCommitment l = k"
    "wl_agreement l = bn_agreement example_binding" "wl_expectedNetAtomic l = ''2500''"
    using example_plan by blast
  then show thesis by (intro that [of root k p l]) (simp_all add: example_snapshot_terms_def)
qed

lemma example_window: "1768100000 \<le> (1768100300 :: int)" "1768100300 \<le> 1768100000 + (3600 :: int)" "1768100300 < (2 :: int) ^ 64"
  by simp_all

definition example_claim :: "snapshot_plan \<Rightarrow> snapshot_line \<Rightarrow> claim_input" where
  "example_claim p l = unpaid_claim p l example_hex ''0x1'' ''0x2'' 1768100000 1768100300"

theorem unpaid_worker_can_claim_witness:
  "\<exists>p l b. pl_lines p = [l] \<and> buildWageClaimV2Inputs ref_lib same_text (unpaid_claim p l example_hex ''0x1'' ''0x2'' 1768100000 1768100300) = Inr b
     \<and> BigInt (cl_shortfallAtomic (wb_claimFact b)) = Inr 2500"
proof -
  obtain k root p l where e: "buildObligationSnapshotPlanInputs ref_lib (example_payroll root) (example_snapshot_terms k) = Inr p" "l \<in> set (pl_lines p)"
    "claimCapabilityCommitmentV2 ref_lib example_hex = Inr (wl_claimCapabilityCommitment l)" "pl_lines p = [l]"
    "wl_expectedNetAtomic l = ''2500''"
    "st_graceEndsAt (example_snapshot_terms k) \<le> 1768100000" "1768100000 \<le> st_claimEndsAt (example_snapshot_terms k)"
    by (rule example_unpaid) (rule that; assumption)
  have "BigInt ''2500'' = Inr 2500" by code_simp
  with unpaid_worker_can_claim [OF ref_lib_hex ref_lib_keccak e(1) example_bindings e(2,3) example_hex_ok example_deployment(1,3,2,4)
      e(6,7) example_window, of same_text] e(4,5)
  show ?thesis by metis
qed

lemma example_claim_built:
  "\<exists>p l b. buildWageClaimV2Inputs ref_lib same_text (example_claim p l) = Inr b \<and> claim_target ref_lib (example_claim p l) = Inr l
     \<and> wl_agreement l = bn_agreement example_binding \<and> wl_expectedNetAtomic l = ''2500'' \<and> obligationSnapshotV2Schema (pl_snapshot p)"
proof -
  obtain k root p l where e: "buildObligationSnapshotPlanInputs ref_lib (example_payroll root) (example_snapshot_terms k) = Inr p" "l \<in> set (pl_lines p)"
    "claimCapabilityCommitmentV2 ref_lib example_hex = Inr (wl_claimCapabilityCommitment l)"
    "wl_agreement l = bn_agreement example_binding" "wl_expectedNetAtomic l = ''2500''"
    "st_graceEndsAt (example_snapshot_terms k) \<le> 1768100000" "1768100000 \<le> st_claimEndsAt (example_snapshot_terms k)"
    by (rule example_unpaid) (rule that; assumption)
  obtain b where "buildWageClaimV2Inputs ref_lib same_text (example_claim p l) = Inr b"
    using unpaid_claim_total [OF ref_lib_hex ref_lib_keccak e(1) example_bindings e(2,3) example_hex_ok example_deployment(1,3,2,4)
        e(6,7) example_window] unfolding example_claim_def by blast
  moreover have "claim_target ref_lib (example_claim p l) = Inr l"
    by (rule unpaid_claim_target [OF ref_lib_hex ref_lib_keccak e(1) example_bindings e(2,3,6,7)])
      (simp_all add: example_claim_def unpaid_claim_def)
  ultimately show ?thesis using e(4,5) plan_snapshot_ok(1) [OF ref_lib_hex ref_lib_keccak e(1)] by blast
qed

theorem claim_amount_exact_witness:
  "\<exists>p l b. buildWageClaimV2Inputs ref_lib same_text (example_claim p l) = Inr b
     \<and> claim_measured Missing_obligation (wb_circuitInputs b) (bigint (cl_shortfallAtomic (wb_claimFact b)))"
proof -
  obtain p l b where b: "buildWageClaimV2Inputs ref_lib same_text (example_claim p l) = Inr b" using example_claim_built by blast
  from claim_amount_exact [OF b] b show ?thesis by (auto simp: example_claim_def unpaid_claim_def)
qed

theorem claim_authorised_witness:
  "\<exists>p l b target. buildWageClaimV2Inputs ref_lib same_text (example_claim p l) = Inr b \<and> target \<in> set (pl_lines p)
     \<and> claimCapabilityCommitmentV2 ref_lib example_hex = Inr (wl_claimCapabilityCommitment target)
     \<and> text_num (os_graceEndsAt (pl_snapshot p)) \<le> 1768100000"
proof -
  obtain p l b where b: "buildWageClaimV2Inputs ref_lib same_text (example_claim p l) = Inr b" using example_claim_built by blast
  from claim_authorised [OF b] b show ?thesis by (auto simp: example_claim_def unpaid_claim_def)
qed

section \<open>The remediation\<close>

definition example_remediation :: "claim_build \<Rightarrow> remediation_input" where
  "example_remediation b = \<lparr>ra_chainId = ''0x1'', ra_sealAddress = ''0x2'', ra_claim = accepted_of b, ra_remediationSecret = example_hex,
     ra_actionSalt = example_hex, ra_amountAtomic = ''2500'', ra_token = USDC, ra_fxSnapshots = None, ra_selectedFxIndex = None,
     ra_validityStart = 1768200000, ra_validityExpiry = 1768200300\<rparr>"

lemma example_action:
  assumes "commitment_ok subject" "commitment_ok recipient"
  shows "\<exists>h. proofRemediationActionCommitment ref_lib subject recipient 1 2500 example_hex = Inr h \<and> commitment_ok h"
proof -
  have "list_all group_ok [limbs ref_lib subject, limbs ref_lib recipient, Inr [1], single (packedAmount 2500), limbs ref_lib example_hex]"
    using limbs_ok [OF ref_lib_hex] assms example_hex_ok packed_amount_ok [of 2500] by (simp add: group_ok_def)
  moreover have "0 \<le> PAYO_PROOF_DOMAIN_REMEDIATION_ACTION" "PAYO_PROOF_DOMAIN_REMEDIATION_ACTION < 2 ^ 256" by code_simp+
  ultimately show ?thesis
    using grouped_hash_total [OF ref_lib_poseidon] unfolding proofRemediationActionCommitment_def by blast
qed

lemma example_remediation_fact:
  assumes "commitment_ok a" "commitment_ok b" "commitment_ok c" "commitment_ok d"
  shows "\<exists>h. remediationFactCommitmentV2 ref_lib
      \<lparr>rm_remediationSubjectNullifier = a, rm_claimSubjectNullifier = b, rm_claimFactCommitment = c, rm_recipientCommitment = d,
       rm_token = USDC, rm_amountAtomic = Big 2500, rm_referenceValueAtomic = Big 2500, rm_referenceUnit = u, rm_fxRoot = ZERO\<rparr> = Inr h
    \<and> commitment_ok h"
  unfolding remediationFactCommitmentV2_def
  by (rule hashFixed_total [OF ref_lib_hex ref_lib_keccak])
    (use assms zero_ok in \<open>auto simp: remediation_fields_def field_ok_code intro!: field_ok_hex field_ok_u8 field_ok_u128\<close>)

lemma example_remediation_built:
  assumes "buildWageClaimV2Inputs ref_lib same_text (example_claim p l) = Inr b" "claim_target ref_lib (example_claim p l) = Inr l"
    and "wl_agreement l = bn_agreement example_binding" "wl_expectedNetAtomic l = ''2500''" "obligationSnapshotV2Schema (pl_snapshot p)"
  shows "\<exists>r. buildWageRemediationV2Inputs ref_lib same_text (example_remediation b) = Inr r"
proof -
  have kind: "wc_claimKind (example_claim p l) = Missing_obligation" "wc_snapshot (example_claim p l) = p"
    by (simp_all add: example_claim_def unpaid_claim_def)
  note claim = unpaid_claim_fact [OF assms(1,2) kind(1)]
  have net: "BigInt ''2500'' = Inr 2500" by code_simp
  have amount: "BigInt (cl_shortfallAtomic (wb_claimFact b)) = Inr 2500" using claim(1) net assms(4) by auto
  have tok: "cl_obligationToken (wb_claimFact b) = USDC"
    using claim(2) assms(3) by (simp add: obligation_token_def example_binding_def emptyAgreement_def)
  have recipient: "commitment_ok (toHex ref_lib (aw_recipient_commitment (wl_agreement l)))"
    using assms(3) by (simp add: example_binding_def toHex_commitment_ok)
  have ok: "commitment_ok (cl_claimSubjectNullifier (wb_claimFact b))" "commitment_ok (cl_runNullifier (wb_claimFact b))"
    "commitment_ok (cl_snapshotCommitment (wb_claimFact b))" "commitment_ok (cl_statementCommitment (wb_claimFact b))"
    "commitment_ok (cl_manifestRoot (wb_claimFact b))" "cl_evidenceSource (wb_claimFact b) \<noteq> Payo_run"
    using claim(4) by (simp_all add: exceptionClaimFactSchema_def)
  have roots: "commitment_ok (os_baseAgreementRoot (pl_snapshot p))" "commitment_ok (os_policyRoot (pl_snapshot p))"
    using assms(5) by (simp_all add: obligationSnapshotV2Schema_def)
  have h: "commitment_ok (wb_claimFactCommitment b)"
    using claim_commitment_total [OF ref_lib_hex ref_lib_keccak claim(4)] claim(7) by simp
  have worth: "remediation_value ref_lib same_text (example_remediation b) = Inr (2500, no_fx_evidence, 2500)"
    using net amount tok claim(3)
    by (simp add: remediation_value_def example_remediation_def accepted_of_def statement_fx_def boundedU128_def push_bit_eq_mult)
  obtain subject where subject: "remediationSubjectNullifierV2 ref_lib (cl_claimSubjectNullifier (wb_claimFact b)) example_hex = Inr subject"
    "commitment_ok subject"
    using hashFixed_total [OF ref_lib_hex ref_lib_keccak, where d = "''PAYO_REMEDIATION_SUBJECT_V2''"
        and fs = "[hex32 ref_lib (cl_claimSubjectNullifier (wb_claimFact b)), hex32 ref_lib example_hex]"]
      field_ok_hex [OF ref_lib_hex] ok(1) example_hex_ok by (auto simp: remediationSubjectNullifierV2_def)
  obtain action where action: "proofRemediationActionCommitment ref_lib (cl_claimSubjectNullifier (wb_claimFact b))
      (toHex ref_lib (aw_recipient_commitment (wl_agreement l))) 1 2500 example_hex = Inr action" "commitment_ok action"
    using example_action [OF ok(1) recipient] by blast
  define fact where "fact = \<lparr>rm_remediationSubjectNullifier = subject, rm_claimSubjectNullifier = cl_claimSubjectNullifier (wb_claimFact b),
    rm_claimFactCommitment = wb_claimFactCommitment b, rm_recipientCommitment = toHex ref_lib (aw_recipient_commitment (wl_agreement l)),
    rm_token = USDC, rm_amountAtomic = Big 2500, rm_referenceValueAtomic = Big 2500,
    rm_referenceUnit = cl_shortfallUnit (wb_claimFact b), rm_fxRoot = ZERO\<rparr>"
  obtain f where f: "remediationFactCommitmentV2 ref_lib fact = Inr f" "commitment_ok f"
    using example_remediation_fact [OF subject(2) ok(1) h recipient] unfolding fact_def by blast
  have "\<exists>q. publicInputs ref_lib (remediation_binding (example_remediation b) ZERO action subject f) = Inr q"
    by (rule public_inputs_total [OF ref_lib_hex, where c = 1 and a = 2])
      (use example_deployment roots ok h subject(2) action(2) f(2) zero_ok claim(5,6,8) kind(2) in
        \<open>simp_all add: remediation_binding_def example_remediation_def accepted_of_def Let_def\<close>)
  then obtain q where q: "publicInputs ref_lib (remediation_binding (example_remediation b) ZERO action subject f) = Inr q" by blast
  have "\<exists>code. evidence_code (cl_evidenceSource (wb_claimFact b)) = Inr code"
    using ok(6) by (cases "cl_evidenceSource (wb_claimFact b)") (simp_all add: evidence_code_def)
  then obtain c where c: "remediation_circuit_of ref_lib (example_remediation b) no_fx_evidence q = Inr c"
    using ok(1-5) [THEN bytes32_total] roots [THEN bytes32_total] bytes32_total [OF example_hex_ok] claim(6,8) kind(2)
    by (auto simp: remediation_circuit_of_def Let_def example_remediation_def accepted_of_def)
  show ?thesis
    using worth subject(1) action(1) f(1) [unfolded fact_def] q c claim(5,8)
    by (auto simp: buildWageRemediationV2Inputs_def Let_def example_remediation_def accepted_of_def no_fx_evidence_def)
qed

theorem remediation_repairs_claim_witness:
  "\<exists>p l b r missing. buildWageClaimV2Inputs ref_lib same_text (example_claim p l) = Inr b
     \<and> buildWageRemediationV2Inputs ref_lib same_text (example_remediation b) = Inr r
     \<and> claim_measured Missing_obligation (wb_circuitInputs b) missing \<and> missing \<le> text_num (rb_referenceValueAtomic r)"
proof -
  obtain p l b where b: "buildWageClaimV2Inputs ref_lib same_text (example_claim p l) = Inr b" "claim_target ref_lib (example_claim p l) = Inr l"
    "wl_agreement l = bn_agreement example_binding" "wl_expectedNetAtomic l = ''2500''" "obligationSnapshotV2Schema (pl_snapshot p)"
    using example_claim_built by blast
  obtain r where r: "buildWageRemediationV2Inputs ref_lib same_text (example_remediation b) = Inr r"
    using example_remediation_built [OF b] by blast
  have "ra_claim (example_remediation b) = accepted_of b" "wc_claimKind (example_claim p l) = Missing_obligation"
    by (simp_all add: example_remediation_def example_claim_def unpaid_claim_def)
  with remediation_repairs_claim [OF b(1) r] b(1) r show ?thesis by metis
qed

section \<open>A statement that shows no payment\<close>

definition example_evidence :: statement_evidence where
  "example_evidence = \<lparr>se_source = Source_employer, se_observedAt = 1768050000, se_availabilityCommitment = example_hex,
     se_target = None, se_manifestRoot = None, se_manifestMembership = None, se_fxSnapshots = None, se_selectedFxIndex = None\<rparr>"

definition example_disputed :: "snapshot_plan \<Rightarrow> snapshot_line \<Rightarrow> claim_input" where
  "example_disputed p l = (example_claim p l)\<lparr>wc_evidence := Statement example_evidence\<rparr>"

lemma example_anchor:
  assumes "obligationSnapshotV2Schema (pl_snapshot p)" "commitment_ok (pl_snapshotCommitment p)" "pl_lines p = [l]" "wl_index l = 0"
  shows "\<exists>a. anchor_of ref_lib same_text (example_disputed p l) l = Inr a \<and> commitment_ok (an_statementCommitment a)
     \<and> commitment_ok (an_manifestRoot a) \<and> fe_root (an_fx a) = ZERO
     \<and> opt_ok (\<lambda>s. commitment_ok (pst_availabilityCommitment s)) (an_statement a)"
proof -
  obtain m where m: "buildProofFixedMerkleMembership ref_lib [PAYO_PROOF_EMPTY_LEAF] 0 = Inr m"
    using single_opening_total [OF empty_leaf_ok] by blast
  have root: "commitment_ok (mb_root m)"
    using fixed_witness_opens [OF ref_lib_hex ref_lib_poseidon _ m] empty_leaf_ok by simp
  obtain bs where bs: "bytes32 ref_lib example_hex = Inr bs" using bytes32_total [OF example_hex_ok] by blast
  have available: "commitment_ok (toHex ref_lib bs)"
    using normalizedHexBytes_Inr [OF ref_lib_hex] bs by (auto simp: bytes32_def intro: toHex_commitment_ok)
  define statement where "statement = \<lparr>pst_runNullifier = os_runNullifier (pl_snapshot p), pst_snapshotCommitment = pl_snapshotCommitment p,
    pst_manifestRoot = mb_root m, pst_fxRoot = ZERO, pst_availabilityCommitment = toHex ref_lib bs, pst_observedAt = toString 1768050000,
    pst_source = Employer_statement\<rparr>"
  have schema: "payrollStatementV2Schema statement"
    using assms(1,2) root available zero_ok
    by (simp add: statement_def payrollStatementV2Schema_def obligationSnapshotV2Schema_def u64StringSchema_def canonical_dec_toString push_bit_eq_mult)
  obtain h where h: "payrollStatementCommitmentV2 ref_lib statement = Inr h" "commitment_ok h"
    using statement_commitment_total [OF ref_lib_hex ref_lib_keccak schema] by blast
  have facts: "wc_snapshot (example_disputed p l) = p" "wc_claimKind (example_disputed p l) = Missing_obligation"
    "wc_evidence (example_disputed p l) = Statement example_evidence"
    by (simp_all add: example_disputed_def example_claim_def unpaid_claim_def)
  show ?thesis
    using m bs schema h root available assms(3,4)
    by (simp add: anchor_of_def anchor_statement_def facts example_evidence_def statement_target_def statement_manifest_def
        statement_fx_def no_fx_evidence_def boundedU64_def push_bit_eq_mult statement_def)
qed

lemma example_disputed_built:
  "\<exists>p l b. buildWageClaimV2Inputs ref_lib same_text (example_disputed p l) = Inr b"
proof -
  obtain k root p l where e: "buildObligationSnapshotPlanInputs ref_lib (example_payroll root) (example_snapshot_terms k) = Inr p" "l \<in> set (pl_lines p)"
    "claimCapabilityCommitmentV2 ref_lib example_hex = Inr (wl_claimCapabilityCommitment l)" "pl_lines p = [l]"
    "wl_agreement l = bn_agreement example_binding" "wl_expectedNetAtomic l = ''2500''"
    "st_graceEndsAt (example_snapshot_terms k) \<le> 1768100000" "1768100000 \<le> st_claimEndsAt (example_snapshot_terms k)"
    by (rule example_unpaid) (rule that; assumption)
  note plan = plan_snapshot_ok [OF ref_lib_hex ref_lib_keccak e(1)]
  note line = plan_line_target [OF ref_lib_hex ref_lib_keccak e(1) example_bindings e(2)]
  have "wl_index l = 0"
  proof -
    obtain leaves where "rmap (snapshot_line_of ref_lib (st_claimCapabilityCommitments (example_snapshot_terms k))
        (map bn_agreementLeaf (as_proofBindings (example_payroll root))) leaves) (enumerate 0 (as_proofBindings (example_payroll root)))
      = Inr (pl_lines p)"
      by (rule plan_stages [OF e(1)]) (rule that; assumption)
    then show ?thesis using e(4) by (auto simp: example_payroll_def rbind_Inr_iff elim: snapshot_line_fields)
  qed
  from example_anchor [OF plan(1,3) e(4) this] obtain a where a: "anchor_of ref_lib same_text (example_disputed p l) l = Inr a"
    "commitment_ok (an_statementCommitment a)" "commitment_ok (an_manifestRoot a)" "fe_root (an_fx a) = ZERO"
    "opt_ok (\<lambda>s. commitment_ok (pst_availabilityCommitment s)) (an_statement a)" by blast
  have target: "claim_target ref_lib (example_disputed p l) = Inr l"
    by (rule unpaid_claim_target [OF ref_lib_hex ref_lib_keccak e(1) example_bindings e(2,3,7,8)])
      (simp_all add: example_disputed_def example_claim_def unpaid_claim_def)
  obtain n where n: "BigInt (wl_expectedNetAtomic l) = Inr n" "0 < n" "n < 2 ^ 128" using line(4) by blast
  have "\<exists>b. buildWageClaimV2Inputs ref_lib same_text (example_disputed p l) = Inr b"
    by (rule missing_claim_total [OF ref_lib_hex ref_lib_keccak target a(1) _ _ n, where c = 1 and a = 2])
      (use line(2,3) plan a(2-5) zero_ok example_hex_ok example_deployment in
        \<open>simp_all add: example_disputed_def example_claim_def unpaid_claim_def example_evidence_def\<close>)
  then show ?thesis by blast
qed

theorem claim_statement_opens_witness:
  "\<exists>p l b leaf. buildWageClaimV2Inputs ref_lib same_text (example_disputed p l) = Inr b
     \<and> statement_target ref_lib Missing_obligation (wb_target b) None = Inr (cq_line (wb_circuitInputs b), leaf)
     \<and> witness_opens ref_lib leaf (nat (cl_targetIndex (wb_claimFact b))) (cq_manifest_opening (wb_circuitInputs b))
         (cl_manifestRoot (wb_claimFact b))"
proof -
  obtain p l b where b: "buildWageClaimV2Inputs ref_lib same_text (example_disputed p l) = Inr b"
    using example_disputed_built by blast
  have e: "wc_evidence (example_disputed p l) = Statement example_evidence" "opt_ok commitment_ok (se_manifestRoot example_evidence)"
    by (simp_all add: example_disputed_def example_evidence_def)
  from claim_statement_opens [OF ref_lib_hex ref_lib_poseidon b e] b show ?thesis
    by (auto simp: example_disputed_def example_claim_def unpaid_claim_def example_evidence_def)
qed

end
