(* ===== verification/Book_Inputs.thy ===== *)
theory Book_Inputs
  imports Wage_Claims Payroll_Book
begin

text \<open>
  Model of \<open>lib/proof/universal-payroll-book-input.ts\<close>: the entry of the payroll book a proven run becomes, with
  the two halves of its circuit's witness, and the entry of a wage claim or a remediation.  The empty agreement and
  line are those of theory Payroll_Inputs, which this file of the source repeats.
\<close>

section \<open>Totals\<close>

record shard_aggregate =
  ag_contributorCount :: int
  ag_STRK :: book_totals
  ag_USDC :: book_totals

definition emptyAggregate :: shard_aggregate where
  "emptyAggregate = \<lparr>ag_contributorCount = 0, ag_STRK = zeroTotals, ag_USDC = zeroTotals\<rparr>"

text \<open>Sums of the texts of amounts.  The lines of a build are calculated, so their amounts are decimal.\<close>

definition add_text :: "string \<Rightarrow> string \<Rightarrow> string" where
  "add_text a b = toString (bigint a + bigint b)"

definition add_calculated :: "book_totals \<Rightarrow> calculated_line \<Rightarrow> book_totals" where
  "add_calculated t line =
     \<lparr>bt_grossAtomic = add_text (bt_grossAtomic t) (grossAtomic line),
      bt_deductionsAtomic = add_text (bt_deductionsAtomic t) (deductionsTotalAtomic line),
      bt_netAtomic = add_text (bt_netAtomic t) (netAtomic line)\<rparr>"

definition aggregate_step :: "shard_aggregate \<Rightarrow> calculated_line \<Rightarrow> shard_aggregate" where
  "aggregate_step a line =
     (case line_token line of
        STRK \<Rightarrow> a\<lparr>ag_contributorCount := ag_contributorCount a + 1, ag_STRK := add_calculated (ag_STRK a) line\<rparr>
      | USDC \<Rightarrow> a\<lparr>ag_contributorCount := ag_contributorCount a + 1, ag_USDC := add_calculated (ag_USDC a) line\<rparr>)"

text \<open>The loop over the slice from one index up to another of the bindings.\<close>

definition aggregateBindings :: "input_build \<Rightarrow> nat \<Rightarrow> nat \<Rightarrow> shard_aggregate" where
  "aggregateBindings payroll start stop =
     foldl aggregate_step emptyAggregate (map bn_calculated (take (stop - start) (drop start (ib_proofBindings payroll))))"

definition add_totals :: "book_totals \<Rightarrow> book_totals \<Rightarrow> book_totals" where
  "add_totals l r =
     \<lparr>bt_grossAtomic = add_text (bt_grossAtomic l) (bt_grossAtomic r),
      bt_deductionsAtomic = add_text (bt_deductionsAtomic l) (bt_deductionsAtomic r),
      bt_netAtomic = add_text (bt_netAtomic l) (bt_netAtomic r)\<rparr>"

definition sumAggregate :: "shard_aggregate \<Rightarrow> shard_aggregate \<Rightarrow> book_totals \<times> book_totals" where
  "sumAggregate l r = (add_totals (ag_STRK l) (ag_STRK r), add_totals (ag_USDC l) (ag_USDC r))"

section \<open>Shards\<close>

record book_shard =
  ws_agreementLeaves :: "string list"
  ws_payrollLeaves :: "string list"
  ws_agreements :: "agreement_witness list"
  ws_lines :: "line_witness list"
  ws_aggregate :: shard_aggregate

record book_build =
  ub_entry :: universal_entry
  ub_entryCommitment :: string
  ub_entryCommitmentLimbs :: "string \<times> string"
  ub_entryKindCode :: int
  ub_totals :: "book_totals \<times> book_totals"
  ub_salt :: string
  ub_shards :: "book_shard \<times> book_shard"

definition fit :: "'a list \<Rightarrow> nat \<Rightarrow> 'a \<Rightarrow> 'a list result" where
  "fit vs slots fill =
     (if slots < length vs
      then Inl (Thrown (''Cannot fit '' @ toString (int (length vs)) @ '' values into '' @ toString (int slots) @ '' slots.''))
      else Inr (padded slots fill vs))"

text \<open>What the two shards of a run must agree on, in the order of the keys.\<close>

definition common_texts :: "public_inputs \<Rightarrow> string list" where
  "common_texts p =
     [up_chainId p, up_sealAddress p, up_proofVersion p, up_schemaVersion p, fst (up_agreementRoot p), snd (up_agreementRoot p),
      fst (up_manifestRoot p), snd (up_manifestRoot p), fst (up_policyRoot p), snd (up_policyRoot p), fst (up_fxRoot p),
      snd (up_fxRoot p), fst (up_runNullifier p), snd (up_runNullifier p), up_validityStart p, up_validityExpiry p]"

definition assertCommonPayrollState :: "input_build \<Rightarrow> public_inputs result" where
  "assertCommonPayrollState payroll =
     (let (first, second) = ib_publicInputs payroll in
      if up_shardIndex first \<noteq> ''0'' \<or> up_shardIndex second \<noteq> ''1''
      then Inl (Thrown ''Payroll proof shards are not canonically ordered.'')
      else rbind (rfold (\<lambda>_ (a, b). rbind (BigInt a) (\<lambda>x. rbind (BigInt b) (\<lambda>y.
               if x \<noteq> y then Inl (Thrown ''Payroll proof shards do not expose one common statement.'') else Inr ())))
             () (zip (common_texts first) (common_texts second))) (\<lambda>_. Inr first))"

record book_input =
  bi_payroll :: input_build
  bi_entryKind :: entry_kind
  bi_ownerAddress :: string
  bi_bookSealAddress :: "string option"
  bi_sourceSealAddress :: string
  bi_periodStart :: int
  bi_periodEnd :: int
  bi_totalsDisclosure :: totals_disclosure
  bi_totalsSalt :: string
  bi_attestationRoot :: "string option"
  bi_vestingScheduleId :: "string option"
  bi_vestingStateCommitment :: "string option"

definition text_or :: "string option \<Rightarrow> string \<Rightarrow> string" where
  "text_or v d = (case v of Some s \<Rightarrow> s | None \<Rightarrow> d)"

definition hex_number :: "string \<Rightarrow> string result" where
  "hex_number s = rbind (BigInt s) (\<lambda>n. Inr (''0x'' @ toString16 n))"

definition salt_text :: "string \<Rightarrow> string result" where
  "salt_text s = rbind (BigInt s) (\<lambda>n. Inr (''0x'' @ padStart 64 (CHR ''0'') (toString16 n)))"

text \<open>The period must contain the time at which the proof becomes valid.\<close>

definition check_period :: "int \<Rightarrow> int \<Rightarrow> string \<Rightarrow> string \<Rightarrow> unit result" where
  "check_period periodStart periodEnd validityStart message =
     (if periodStart < 0 \<or> periodEnd \<le> periodStart then Inl (Thrown message)
      else rbind (BigInt validityStart) (\<lambda>start.
        if start < periodStart \<or> periodEnd \<le> start then Inl (Thrown message) else Inr ()))"

definition makeBookShard :: "input_build \<Rightarrow> string list \<Rightarrow> string list \<Rightarrow> nat \<Rightarrow> shard_aggregate \<Rightarrow> book_shard result" where
  "makeBookShard payroll agreementLeaves payrollLeaves start aggregate =
     (let slice = take 25 (drop start (ib_proofBindings payroll)) in
      rbind (fit (map bn_agreement slice) 25 emptyAgreement) (\<lambda>agreements.
      rbind (fit (map bn_line slice) 25 emptyLine) (\<lambda>lines.
      Inr \<lparr>ws_agreementLeaves = agreementLeaves, ws_payrollLeaves = payrollLeaves, ws_agreements = agreements, ws_lines = lines,
           ws_aggregate = aggregate\<rparr>)))"

definition leaf_slots :: "string list \<Rightarrow> string list result" where
  "leaf_slots leaves =
     rbind (rmap (\<lambda>l. rbind (BigInt l) (\<lambda>n. Inr (toString n))) leaves) (\<lambda>ts.
     fit ts 64 (toString (bigint PAYO_PROOF_EMPTY_LEAF)))"

definition run_entry ::
    "book_input \<Rightarrow> public_inputs \<Rightarrow> int \<Rightarrow> book_totals \<times> book_totals \<Rightarrow> string \<Rightarrow> universal_entry result" where
  "run_entry input state contributorCount totals totalsCommitment =
     (let payroll = bi_payroll input;
          shown = (if bi_totalsDisclosure input = Public then totals else hiddenPayrollBookTotals) in
      rbind (hex_number (up_chainId state)) (\<lambda>chainId.
      rbind (hex_number (text_or (bi_bookSealAddress input) (up_sealAddress state))) (\<lambda>sealAddress.
      rbind (hex_number (bi_sourceSealAddress input)) (\<lambda>sourceSealAddress.
      rbind (hex_number (bi_ownerAddress input)) (\<lambda>ownerAddress.
      zod ''universalPayrollBookEntrySchema'' universalPayrollBookEntrySchema
        \<lparr>ue_entryKind = bi_entryKind input, ue_chainId = chainId, ue_sealAddress = sealAddress,
         ue_sourceSealAddress = sourceSealAddress, ue_ownerAddress = ownerAddress,
         ue_periodStart = toString (bi_periodStart input), ue_periodEnd = toString (bi_periodEnd input),
         ue_agreementRoot = ib_agreementRoot payroll, ue_manifestRoot = ib_manifestRoot payroll,
         ue_policyRoot = ib_policyRoot payroll, ue_fxRoot = ib_fxRoot payroll, ue_runNullifier = ib_runNullifier payroll,
         ue_subjectNullifier = ib_runNullifier payroll, ue_parentFactCommitment = ZERO, ue_factCommitment = ZERO,
         ue_sourceProofVersion = 2, ue_attestationRoot = text_or (bi_attestationRoot input) ZERO,
         ue_contributorCount = contributorCount, ue_totalsDisclosure = bi_totalsDisclosure input,
         ue_totalsCommitment = totalsCommitment, ue_totalsSTRK = fst shown, ue_totalsUSDC = snd shown,
         ue_vestingScheduleId = text_or (bi_vestingScheduleId input) ZERO,
         ue_vestingStateCommitment = text_or (bi_vestingStateCommitment input) ZERO\<rparr>)))))"

definition buildUniversalPayrollBookInput :: "lib \<Rightarrow> book_input \<Rightarrow> book_build result" where
  "buildUniversalPayrollBookInput L input =
     (let payroll = bi_payroll input; bindings = ib_proofBindings payroll in
      rbind (assertCommonPayrollState payroll) (\<lambda>state.
      if length bindings < 1 \<or> 50 < length bindings
      then Inl (Thrown ''A universal payroll-book entry requires 1-50 proved contributors.'')
      else
        rbind (check_period (bi_periodStart input) (bi_periodEnd input) (up_validityStart state)
                 ''The payroll validity time is outside the reporting period.'') (\<lambda>_.
        rbind (leaf_slots (map bn_agreementLeaf bindings)) (\<lambda>agreementLeaves.
        rbind (leaf_slots (map bn_payrollLeaf bindings)) (\<lambda>payrollLeaves.
        let aggregateZero = aggregateBindings payroll 0 25; aggregateOne = aggregateBindings payroll 25 50;
            actualTotals = sumAggregate aggregateZero aggregateOne;
            contributorCount = ag_contributorCount aggregateZero + ag_contributorCount aggregateOne in
        rbind (salt_text (bi_totalsSalt input)) (\<lambda>totalsSalt.
        rbind (payrollBookTotalsCommitment L (ib_runNullifier payroll) contributorCount (fst actualTotals) (snd actualTotals)
                 totalsSalt) (\<lambda>totalsCommitment.
        rbind (run_entry input state contributorCount actualTotals totalsCommitment) (\<lambda>entry.
        rbind (universalPayrollBookEntryCommitment L entry) (\<lambda>entryCommitment.
        rbind (root_limbs L entryCommitment) (\<lambda>entryLimbs.
        rbind (makeBookShard payroll agreementLeaves payrollLeaves 0 aggregateZero) (\<lambda>shardZero.
        rbind (makeBookShard payroll agreementLeaves payrollLeaves 25 aggregateOne) (\<lambda>shardOne.
        Inr \<lparr>ub_entry = entry, ub_entryCommitment = entryCommitment, ub_entryCommitmentLimbs = entryLimbs,
             ub_entryKindCode = PAYROLL_BOOK_ENTRY_KIND_CODE (bi_entryKind input), ub_totals = actualTotals, ub_salt = totalsSalt,
             ub_shards = (shardZero, shardOne)\<rparr>))))))))))))"

section \<open>Exceptions\<close>

definition commitmentFromLimbs :: "string \<times> string \<Rightarrow> string result" where
  "commitmentFromLimbs = (\<lambda>(high, low).
     rbind (BigInt high) (\<lambda>highValue.
     rbind (BigInt low) (\<lambda>lowValue.
     if highValue < 0 \<or> push_bit 128 1 \<le> highValue \<or> lowValue < 0 \<or> push_bit 128 1 \<le> lowValue
     then Inl (Thrown ''Commitment limbs must fit in u128.'')
     else Inr (''0x'' @ padStart 32 (CHR ''0'') (toString16 highValue) @ padStart 32 (CHR ''0'') (toString16 lowValue)))))"

definition emptyWitnessShard :: "shard_aggregate \<Rightarrow> book_shard" where
  "emptyWitnessShard aggregate =
     \<lparr>ws_agreementLeaves = replicate 64 (toString (bigint PAYO_PROOF_EMPTY_LEAF)),
      ws_payrollLeaves = replicate 64 (toString (bigint PAYO_PROOF_EMPTY_LEAF)), ws_agreements = replicate 25 emptyAgreement,
      ws_lines = replicate 25 emptyLine, ws_aggregate = aggregate\<rparr>"

record exception_book_input =
  xe_source :: exception_public
  xe_entryKind :: entry_kind
  xe_bookSealAddress :: string
  xe_sourceSealAddress :: string
  xe_ownerAddress :: string
  xe_runNullifier :: string
  xe_periodStart :: int
  xe_periodEnd :: int
  xe_totalsSalt :: string
  xe_totalsDisclosure :: "totals_disclosure option"
  xe_payment :: "(token \<times> string) option"

definition expected_version :: "entry_kind \<Rightarrow> int" where
  "expected_version kind = (if kind = Claim then 6 else 7)"

fun kind_name :: "entry_kind \<Rightarrow> string" where
  "kind_name Ordinary = ''ordinary''"
| "kind_name Vesting_entry = ''vesting''"
| "kind_name Agent_entry = ''agent''"
| "kind_name Claim = ''claim''"
| "kind_name Remediation = ''remediation''"

text \<open>The checks of the source proof, of the period, of the payment and of the run of a claim, in this order.\<close>

definition check_source :: "exception_book_input \<Rightarrow> unit result" where
  "check_source input =
     (let source = xe_source input; expected = expected_version (xe_entryKind input);
          wrong = Inl (Thrown (''A '' @ kind_name (xe_entryKind input) @ '' book entry requires its v'' @ toString expected
            @ '' source proof.'')) in
      rbind (BigInt (ep_proofVersion source)) (\<lambda>version.
      if version \<noteq> expected then wrong
      else rbind (BigInt (ep_schemaVersion source)) (\<lambda>schema.
        if schema \<noteq> 2 then wrong
        else rbind (BigInt (ep_sealAddress source)) (\<lambda>sealAddress.
          rbind (BigInt (xe_sourceSealAddress input)) (\<lambda>sourceSeal.
          if sealAddress \<noteq> sourceSeal then Inl (Thrown ''Exception book source seal does not match its proof.'') else Inr ())))))"

definition check_payment :: "exception_book_input \<Rightarrow> unit result" where
  "check_payment input =
     (if xe_entryKind input = Claim \<and> xe_payment input \<noteq> None then Inl (Thrown ''A claim book entry cannot contain a payment.'')
      else if xe_entryKind input = Remediation
      then (case xe_payment input of
          None \<Rightarrow> Inl (Thrown ''A remediation book entry requires its positive private payment.'')
        | Some (_, amount) \<Rightarrow> rbind (BigInt amount) (\<lambda>n.
            if n \<le> 0 then Inl (Thrown ''A remediation book entry requires its positive private payment.'') else Inr ()))
      else Inr ())"

definition check_claim_run :: "exception_book_input \<Rightarrow> unit result" where
  "check_claim_run input =
     (if xe_entryKind input \<noteq> Claim then Inr ()
      else rbind (BigInt (xe_runNullifier input)) (\<lambda>run.
        rbind (commitmentFromLimbs (ep_parentNullifier (xe_source input))) (\<lambda>parent.
        if run \<noteq> bigint parent then Inl (Thrown ''Claim book run nullifier differs from its v6 parent.'') else Inr ())))"

definition exception_totals :: "exception_book_input \<Rightarrow> (book_totals \<times> book_totals) result" where
  "exception_totals input =
     (case xe_payment input of
        None \<Rightarrow> Inr hiddenPayrollBookTotals
      | Some (tok, amount) \<Rightarrow>
          rbind (BigInt amount) (\<lambda>n.
          let paid = \<lparr>bt_grossAtomic = toString n, bt_deductionsAtomic = ''0'', bt_netAtomic = toString n\<rparr> in
          Inr (if tok = STRK then (paid, zeroTotals) else (zeroTotals, paid))))"

definition exception_disclosure :: "exception_book_input \<Rightarrow> totals_disclosure" where
  "exception_disclosure input =
     (if xe_entryKind input = Claim then Hidden else case xe_totalsDisclosure input of None \<Rightarrow> Hidden | Some d \<Rightarrow> d)"

definition exception_entry ::
    "exception_book_input \<Rightarrow> string \<Rightarrow> book_totals \<times> book_totals \<Rightarrow> string \<Rightarrow> universal_entry result" where
  "exception_entry input subject totals totalsCommitment =
     (let source = xe_source input;
          shown = (if exception_disclosure input = Public then totals else hiddenPayrollBookTotals) in
      rbind (hex_number (ep_chainId source)) (\<lambda>chainId.
      rbind (hex_number (xe_bookSealAddress input)) (\<lambda>sealAddress.
      rbind (hex_number (xe_sourceSealAddress input)) (\<lambda>sourceSealAddress.
      rbind (hex_number (xe_ownerAddress input)) (\<lambda>ownerAddress.
      rbind (commitmentFromLimbs (ep_agreementRoot source)) (\<lambda>agreementRoot.
      rbind (commitmentFromLimbs (ep_manifestRoot source)) (\<lambda>manifestRoot.
      rbind (commitmentFromLimbs (ep_policyRoot source)) (\<lambda>policyRoot.
      rbind (commitmentFromLimbs (ep_fxRoot source)) (\<lambda>fxRoot.
      rbind (commitmentFromLimbs (ep_parentFactCommitment source)) (\<lambda>parentFact.
      rbind (commitmentFromLimbs (ep_factCommitment source)) (\<lambda>factCommitment.
      zod ''universalPayrollBookEntrySchema'' universalPayrollBookEntrySchema
        \<lparr>ue_entryKind = xe_entryKind input, ue_chainId = chainId, ue_sealAddress = sealAddress,
         ue_sourceSealAddress = sourceSealAddress, ue_ownerAddress = ownerAddress,
         ue_periodStart = toString (xe_periodStart input), ue_periodEnd = toString (xe_periodEnd input),
         ue_agreementRoot = agreementRoot, ue_manifestRoot = manifestRoot, ue_policyRoot = policyRoot, ue_fxRoot = fxRoot,
         ue_runNullifier = xe_runNullifier input, ue_subjectNullifier = subject, ue_parentFactCommitment = parentFact,
         ue_factCommitment = factCommitment, ue_sourceProofVersion = expected_version (xe_entryKind input),
         ue_attestationRoot = ZERO, ue_contributorCount = 1, ue_totalsDisclosure = exception_disclosure input,
         ue_totalsCommitment = totalsCommitment, ue_totalsSTRK = fst shown, ue_totalsUSDC = snd shown,
         ue_vestingScheduleId = ZERO, ue_vestingStateCommitment = ZERO\<rparr>)))))))))))"

definition buildUniversalExceptionPayrollBookInput :: "lib \<Rightarrow> exception_book_input \<Rightarrow> book_build result" where
  "buildUniversalExceptionPayrollBookInput L input =
     rbind (check_source input) (\<lambda>_.
     rbind (check_period (xe_periodStart input) (xe_periodEnd input) (ep_validityStart (xe_source input))
              ''The exception proof time is outside the reporting period.'') (\<lambda>_.
     rbind (check_payment input) (\<lambda>_.
     rbind (check_claim_run input) (\<lambda>_.
     rbind (exception_totals input) (\<lambda>actualTotals.
     rbind (salt_text (xe_totalsSalt input)) (\<lambda>totalsSalt.
     rbind (commitmentFromLimbs (ep_subjectNullifier (xe_source input))) (\<lambda>subject.
     rbind (payrollBookTotalsCommitment L subject 1 (fst actualTotals) (snd actualTotals) totalsSalt) (\<lambda>totalsCommitment.
     rbind (exception_entry input subject actualTotals totalsCommitment) (\<lambda>entry.
     rbind (universalPayrollBookEntryCommitment L entry) (\<lambda>entryCommitment.
     rbind (root_limbs L entryCommitment) (\<lambda>entryLimbs.
     Inr \<lparr>ub_entry = entry, ub_entryCommitment = entryCommitment, ub_entryCommitmentLimbs = entryLimbs,
          ub_entryKindCode = PAYROLL_BOOK_ENTRY_KIND_CODE (xe_entryKind input), ub_totals = actualTotals, ub_salt = totalsSalt,
          ub_shards = (emptyWitnessShard \<lparr>ag_contributorCount = 1, ag_STRK = fst actualTotals, ag_USDC = snd actualTotals\<rparr>,
            emptyWitnessShard emptyAggregate)\<rparr>)))))))))))"

end
