(* ===== verification/Book_Proofs.thy ===== *)
theory Book_Proofs
  imports Book_Inputs Attestations Agreements Vesting_Book
begin

text \<open>
  Model of \<open>lib/proof/vesting-transition-input.ts\<close> and \<open>lib/proof/advanced-plan-commitment.ts\<close>: the inputs of the
  circuit that links a payroll run, a vesting release, a claim or a remediation to its entry in the payroll book.
  It composes payment plans, vesting, attestations, the trees of a run and the book entries.  The empty witnesses of
  an agreement and a line are those of theory Payroll_Inputs, which this file of the source repeats; the halves of a
  commitment are a pair, and so are the totals of the two tokens and the two shards.
\<close>

section \<open>The proof commitment of a payment plan\<close>

definition PAYO_PROOF_DOMAIN_ADVANCED_PLAN :: int where
  "PAYO_PROOF_DOMAIN_ADVANCED_PLAN = 7"

definition pack_plan_pair :: "int \<Rightarrow> int \<Rightarrow> int result" where
  "pack_plan_pair left right =
     (if left < 0 \<or> right < 0 \<or> push_bit 120 1 \<le> left \<or> push_bit 120 1 \<le> right
      then Inl (Thrown ''Advanced obligation amount exceeds the proof packing limit.'')
      else Inr (left + right * push_bit 120 1))"

definition plan_metadata :: "obligation_encoding \<Rightarrow> int" where
  "plan_metadata e = 1 + oe_kind e * push_bit 8 1 + oe_cadence e * push_bit 16 1 + oe_flags e * push_bit 24 1
     + oe_occurrence e * push_bit 32 1 + oe_releaseSequence e * push_bit 64 1 + oe_checkpointSequence e * push_bit 96 1
     + oe_minimumCheckpointSeconds e * push_bit 128 1"

definition advancedPlanProofCommitment :: "lib \<Rightarrow> agreement \<Rightarrow> string result" where
  "advancedPlanProofCommitment L agreement =
     rbind (encodeAdvancedObligation L agreement) (\<lambda>encoded.
     rbind (rmap (\<lambda>i. pack_plan_pair (oe_amounts encoded ! (2 * i)) (oe_amounts encoded ! (2 * i + 1))) [0..<5]) (\<lambda>amounts.
     rbind (rmap (limbs L) (oe_commitments encoded)) (\<lambda>commitments.
     rbind (limbs L (oe_salt encoded)) (\<lambda>saltLimbs.
     proofHash L PAYO_PROOF_DOMAIN_ADVANCED_PLAN
       ([plan_metadata encoded]
        @ map (\<lambda>i. oe_timestamps encoded ! (2 * i) + oe_timestamps encoded ! (2 * i + 1) * push_bit 64 1) [0..<6]
        @ amounts @ [oe_requiredMask encoded + oe_includedMask encoded * 256] @ concat commitments @ saltLimbs)))))"

section \<open>Witnesses\<close>

definition hexFromBytes :: "lib \<Rightarrow> byte list \<Rightarrow> string result" where
  "hexFromBytes L value =
     (if length value \<noteq> 32 then Inl (Thrown ''Circuit commitment must contain exactly 32 bytes.'') else Inr (toHex L value))"

text \<open>The texts are those of a parsed plan, so the time is a number.\<close>

definition unix_seconds :: "string \<Rightarrow> string result" where
  "unix_seconds value =
     (let timestamp = getTime value in
      if timestamp < - (2 ^ 53 - 1) \<or> 2 ^ 53 - 1 < timestamp then Inl (Thrown ''Vesting timestamp is invalid.'')
      else Inr (toString (timestamp div 1000)))"

record plan_witness =
  nw_enabled :: bool
  nw_kind :: string
  nw_cadence :: string
  nw_flags :: string
  nw_occurrence :: string
  nw_release_sequence :: string
  nw_checkpoint_sequence :: string
  nw_minimum_checkpoint_seconds :: string
  nw_timestamps :: "string list"
  nw_amounts :: "string list"
  nw_required_mask :: string
  nw_included_mask :: string
  nw_commitments :: "byte list list"
  nw_salt :: "byte list"

definition advancedPlanWitness :: "lib \<Rightarrow> agreement \<Rightarrow> plan_witness result" where
  "advancedPlanWitness L agreement =
     rbind (encodeAdvancedObligation L agreement) (\<lambda>encoded.
     rbind (rmap (bytes32 L) (oe_commitments encoded)) (\<lambda>commitments.
     rbind (bytes32 L (oe_salt encoded)) (\<lambda>saltBytes.
     Inr \<lparr>nw_enabled = True, nw_kind = toString (oe_kind encoded), nw_cadence = toString (oe_cadence encoded),
          nw_flags = toString (oe_flags encoded), nw_occurrence = toString (oe_occurrence encoded),
          nw_release_sequence = toString (oe_releaseSequence encoded),
          nw_checkpoint_sequence = toString (oe_checkpointSequence encoded),
          nw_minimum_checkpoint_seconds = toString (oe_minimumCheckpointSeconds encoded),
          nw_timestamps = map toString (oe_timestamps encoded), nw_amounts = map toString (oe_amounts encoded),
          nw_required_mask = toString (oe_requiredMask encoded), nw_included_mask = toString (oe_includedMask encoded),
          nw_commitments = commitments, nw_salt = saltBytes\<rparr>)))"

definition emptyAdvancedPlanWitness :: plan_witness where
  "emptyAdvancedPlanWitness =
     \<lparr>nw_enabled = False, nw_kind = ''0'', nw_cadence = ''0'', nw_flags = ''0'', nw_occurrence = ''0'',
      nw_release_sequence = ''0'', nw_checkpoint_sequence = ''0'', nw_minimum_checkpoint_seconds = ''0'',
      nw_timestamps = replicate 12 ''0'', nw_amounts = replicate 10 ''0'', nw_required_mask = ''0'',
      nw_included_mask = ''0'', nw_commitments = replicate 6 zero_bytes, nw_salt = zero_bytes\<rparr>"

record exception_witness =
  ew_enabled :: bool
  ew_claim_subject_nullifier :: "byte list"
  ew_snapshot_commitment :: "byte list"
  ew_statement_commitment :: "byte list"
  ew_claim_manifest_root :: "byte list"
  ew_agreement_leaf :: "byte list"
  ew_target_index :: string
  ew_claim_kind :: string
  ew_shortfall_atomic :: string
  ew_shortfall_unit :: string
  ew_obligation_token :: string
  ew_evidence_source :: string
  ew_remediation_secret :: "byte list"
  ew_recipient_commitment :: "byte list"
  ew_remediation_amount_atomic :: string
  ew_remediation_reference_value_atomic :: string
  ew_remediation_action_salt :: "byte list"

definition emptyExceptionEntryWitness :: exception_witness where
  "emptyExceptionEntryWitness =
     \<lparr>ew_enabled = False, ew_claim_subject_nullifier = zero_bytes, ew_snapshot_commitment = zero_bytes,
      ew_statement_commitment = zero_bytes, ew_claim_manifest_root = zero_bytes, ew_agreement_leaf = zero_bytes,
      ew_target_index = ''0'', ew_claim_kind = ''0'', ew_shortfall_atomic = ''0'', ew_shortfall_unit = ''0'',
      ew_obligation_token = ''0'', ew_evidence_source = ''0'', ew_remediation_secret = zero_bytes,
      ew_recipient_commitment = zero_bytes, ew_remediation_amount_atomic = ''0'',
      ew_remediation_reference_value_atomic = ''0'', ew_remediation_action_salt = zero_bytes\<rparr>"

section \<open>Attestations\<close>

text \<open>The attestation a caller gives has the fields of a package.\<close>

type_synonym attestation_input = proof_package

record attestation_witness =
  xw_enabled :: bool
  xw_issuer_public_key :: "byte list"
  xw_subject_commitment :: "byte list"
  xw_fact_mask :: string
  xw_jurisdiction_commitment :: "byte list"
  xw_status_commitment :: "byte list"
  xw_valid_from :: string
  xw_valid_until :: string
  xw_nonce :: "byte list"
  xw_policy_root :: "byte list"

record attestation_circuit =
  xc_root :: string
  xc_witness :: attestation_witness
  xc_membership :: merkle_witness

definition emptyExternalAttestationCircuitFields :: attestation_circuit where
  "emptyExternalAttestationCircuitFields =
     \<lparr>xc_root = ZERO,
      xc_witness = \<lparr>xw_enabled = False, xw_issuer_public_key = zero_bytes, xw_subject_commitment = zero_bytes,
        xw_fact_mask = ''0'', xw_jurisdiction_commitment = zero_bytes, xw_status_commitment = zero_bytes,
        xw_valid_from = ''0'', xw_valid_until = ''0'', xw_nonce = zero_bytes, xw_policy_root = zero_bytes\<rparr>,
      xc_membership = emptyMembership\<rparr>"

definition attestation_witness_of :: "lib \<Rightarrow> external_attestation \<Rightarrow> attestation_witness result" where
  "attestation_witness_of L a =
     rbind (fromBase64 (ea_issuerPublicKey a)) (\<lambda>key.
     rbind (bytes32 L (ea_subjectCommitment a)) (\<lambda>subject.
     rbind (bytes32 L (ea_jurisdictionCommitment a)) (\<lambda>jurisdiction.
     rbind (bytes32 L (ea_statusCommitment a)) (\<lambda>status.
     rbind (bytes32 L (ea_nonce a)) (\<lambda>nonce.
     rbind (bytes32 L (ea_policyRoot a)) (\<lambda>policy.
     Inr \<lparr>xw_enabled = True, xw_issuer_public_key = key, xw_subject_commitment = subject,
          xw_fact_mask = toString (ea_factMask a), xw_jurisdiction_commitment = jurisdiction, xw_status_commitment = status,
          xw_valid_from = ea_validFrom a, xw_valid_until = ea_validUntil a, xw_nonce = nonce, xw_policy_root = policy\<rparr>))))))"

definition externalAttestationCircuitFields :: "lib \<Rightarrow> attestation_input option \<Rightarrow> string \<Rightarrow> attestation_circuit result" where
  "externalAttestationCircuitFields L input policyRoot =
     (case input of None \<Rightarrow> Inr emptyExternalAttestationCircuitFields
      | Some i \<Rightarrow>
        rbind (verifySignedExternalAttestation L None (pp_signed i)) (\<lambda>s.
        let attestation = sa_attestation s in
        rbind (BigInt policyRoot) (\<lambda>policy.
        if bigint (ea_policyRoot attestation) \<noteq> policy
        then Inl (Thrown ''External attestation is bound to another payroll policy catalog.'')
        else if ea_factMask attestation \<noteq> PAYO_EXTERNAL_ATTESTATION_ALL_FACTS
        then Inl (Thrown ''External attestation must cover residency, employment and tax status.'')
        else if length (pp_siblings i) \<noteq> 6 \<or> length (pp_pathBits i) \<noteq> 6
        then Inl (Thrown ''External attestation membership must contain exactly six levels.'')
        else rbind (BigInt (pp_catalogRoot i)) (\<lambda>root.
        if root = 0 then Inl (Thrown ''External attestation catalog root is zero.'')
        else rbind (bytes32 L (pp_catalogRoot i)) (\<lambda>rootBytes.
        rbind (attestation_witness_of L attestation) (\<lambda>witness.
        rbind (rmap (\<lambda>v. rbind (BigInt v) (\<lambda>n. Inr (toString n))) (pp_siblings i)) (\<lambda>siblings.
        Inr \<lparr>xc_root = toHex L rootBytes, xc_witness = witness,
             xc_membership = \<lparr>mw_siblings = siblings, mw_path_bits = pp_pathBits i\<rparr>\<rparr>)))))))"

section \<open>Public inputs\<close>

definition PAYO_VESTING_TRANSITION_PROOF_VERSION :: int where
  "PAYO_VESTING_TRANSITION_PROOF_VERSION = 3"

definition PAYO_VESTING_TRANSITION_PUBLIC_INPUT_COUNT :: nat where
  "PAYO_VESTING_TRANSITION_PUBLIC_INPUT_COUNT = 58"

record transition_public =
  tp_chainId :: string
  tp_sealAddress :: string
  tp_proofVersion :: string
  tp_schemaVersion :: string
  tp_entryKind :: string
  tp_agreementRoot :: "string \<times> string"
  tp_manifestRoot :: "string \<times> string"
  tp_policyRoot :: "string \<times> string"
  tp_fxRoot :: "string \<times> string"
  tp_runNullifier :: "string \<times> string"
  tp_subjectNullifier :: "string \<times> string"
  tp_parentFact :: "string \<times> string"
  tp_fact :: "string \<times> string"
  tp_ownerAddress :: string
  tp_sourceSealAddress :: string
  tp_sourceProofVersion :: string
  tp_attestationRoot :: "string \<times> string"
  tp_contributorCounts :: "string \<times> string"
  tp_totalsDisclosed :: string
  tp_totalsCommitment :: "string \<times> string"
  tp_shard0 :: "book_totals \<times> book_totals"
  tp_shard1 :: "book_totals \<times> book_totals"
  tp_scheduleId :: "string \<times> string"
  tp_previousState :: "string \<times> string"
  tp_nextState :: "string \<times> string"
  tp_releaseNullifier :: "string \<times> string"
  tp_bookEntry :: "string \<times> string"
  tp_periodStart :: string
  tp_periodEnd :: string
  tp_validityStart :: string
  tp_validityExpiry :: string
  tp_shardIndex :: string

definition totals_at :: "string list \<Rightarrow> nat \<Rightarrow> book_totals" where
  "totals_at vs i = \<lparr>bt_grossAtomic = vs ! i, bt_deductionsAtomic = vs ! (i + 1), bt_netAtomic = vs ! (i + 2)\<rparr>"

definition normalize_felts :: "string list \<Rightarrow> string list result" where
  "normalize_felts felts =
     rmap (\<lambda>(index, v). rbind (BigInt v) (\<lambda>n. Inr (if index < 2 then ''0x'' @ toString16 n else toString n))) (enumerate 0 felts)"

definition check_felt :: "string list \<Rightarrow> nat \<Rightarrow> int \<Rightarrow> int \<Rightarrow> string \<Rightarrow> unit result" where
  "check_felt felts i low high message =
     rbind (BigInt (felts ! i)) (\<lambda>n. if n < low \<or> high < n then Inl (Thrown message) else Inr ())"

definition mapVestingTransitionPublicInputs :: "string list \<Rightarrow> transition_public result" where
  "mapVestingTransitionPublicInputs felts =
     (if length felts \<noteq> PAYO_VESTING_TRANSITION_PUBLIC_INPUT_COUNT
      then Inl (Thrown (''Expected '' @ toString (int PAYO_VESTING_TRANSITION_PUBLIC_INPUT_COUNT)
        @ '' vesting-transition public inputs; received '' @ toString (int (length felts)) @ ''.''))
      else
        rbind (check_felt felts 2 3 3 ''Vesting transition returned the wrong versioned public-input ABI.'') (\<lambda>_.
        rbind (check_felt felts 3 1 1 ''Vesting transition returned the wrong versioned public-input ABI.'') (\<lambda>_.
        rbind (check_felt felts 4 0 4 ''Vesting transition returned an invalid entry kind.'') (\<lambda>_.
        rbind (check_felt felts 28 0 1 ''Vesting transition returned an invalid totals-disclosure mode.'') (\<lambda>_.
        rbind (check_felt felts 57 0 1 ''Vesting transition returned an invalid shard index.'') (\<lambda>_.
        rbind (normalize_felts felts) (\<lambda>vs.
        Inr \<lparr>tp_chainId = vs ! 0, tp_sealAddress = vs ! 1, tp_proofVersion = ''3'', tp_schemaVersion = ''1'', tp_entryKind = vs ! 4,
             tp_agreementRoot = (vs ! 5, vs ! 6), tp_manifestRoot = (vs ! 7, vs ! 8), tp_policyRoot = (vs ! 9, vs ! 10),
             tp_fxRoot = (vs ! 11, vs ! 12), tp_runNullifier = (vs ! 13, vs ! 14), tp_subjectNullifier = (vs ! 15, vs ! 16),
             tp_parentFact = (vs ! 17, vs ! 18), tp_fact = (vs ! 19, vs ! 20), tp_ownerAddress = vs ! 21,
             tp_sourceSealAddress = vs ! 22, tp_sourceProofVersion = vs ! 23, tp_attestationRoot = (vs ! 24, vs ! 25),
             tp_contributorCounts = (vs ! 26, vs ! 27), tp_totalsDisclosed = (if bigint (vs ! 28) = 0 then ''0'' else ''1''),
             tp_totalsCommitment = (vs ! 29, vs ! 30), tp_shard0 = (totals_at vs 31, totals_at vs 34),
             tp_shard1 = (totals_at vs 37, totals_at vs 40), tp_scheduleId = (vs ! 43, vs ! 44),
             tp_previousState = (vs ! 45, vs ! 46), tp_nextState = (vs ! 47, vs ! 48), tp_releaseNullifier = (vs ! 49, vs ! 50),
             tp_bookEntry = (vs ! 51, vs ! 52), tp_periodStart = vs ! 53, tp_periodEnd = vs ! 54, tp_validityStart = vs ! 55,
             tp_validityExpiry = vs ! 56, tp_shardIndex = (if bigint (vs ! 57) = 0 then ''0'' else ''1'')\<rparr>)))))))"

section \<open>The fields both shards share\<close>

record book_common =
  cm_chain_id :: string
  cm_seal_address :: string
  cm_proof_version :: string
  cm_schema_version :: string
  cm_entry_kind :: string
  cm_agreement_root :: "string \<times> string"
  cm_manifest_root :: "string \<times> string"
  cm_policy_root :: "string \<times> string"
  cm_fx_root :: "string \<times> string"
  cm_run_nullifier :: "string \<times> string"
  cm_subject_nullifier :: "string \<times> string"
  cm_parent_fact :: "string \<times> string"
  cm_fact :: "string \<times> string"
  cm_owner_address :: string
  cm_source_seal_address :: string
  cm_source_proof_version :: string
  cm_attestation_root :: "string \<times> string"
  cm_contributor_counts :: "string \<times> string"
  cm_totals_disclosed :: string
  cm_totals_commitment :: "string \<times> string"
  cm_private_shard_0 :: "book_totals \<times> book_totals"
  cm_private_shard_1 :: "book_totals \<times> book_totals"
  cm_totals_salt :: "byte list"
  cm_shard_0 :: "book_totals \<times> book_totals"
  cm_shard_1 :: "book_totals \<times> book_totals"
  cm_schedule_id :: "string \<times> string"
  cm_previous_state :: "string \<times> string"
  cm_next_state :: "string \<times> string"
  cm_release_nullifier :: "string \<times> string"
  cm_book_entry :: "string \<times> string"
  cm_period_start :: string
  cm_period_end :: string
  cm_validity_start :: string
  cm_validity_expiry :: string

definition exposedAggregate :: "shard_aggregate \<Rightarrow> bool \<Rightarrow> shard_aggregate" where
  "exposedAggregate aggregate disclosed =
     (if disclosed then aggregate
      else \<lparr>ag_contributorCount = ag_contributorCount aggregate, ag_STRK = zeroTotals, ag_USDC = zeroTotals\<rparr>)"

definition aggregate_pair :: "shard_aggregate \<Rightarrow> book_totals \<times> book_totals" where
  "aggregate_pair a = (ag_STRK a, ag_USDC a)"

record common_input =
  ci_payroll :: input_build
  ci_universal :: book_build
  ci_ownerAddress :: string
  ci_periodStart :: int
  ci_periodEnd :: int
  ci_attestationRoot :: string
  ci_totalsSalt :: string
  ci_scheduleId :: string
  ci_previousStateCommitment :: string
  ci_nextStateCommitment :: string
  ci_releaseNullifier :: string

definition commonBookFields :: "lib \<Rightarrow> common_input \<Rightarrow> book_common result" where
  "commonBookFields L input =
     (let payroll = fst (ib_publicInputs (ci_payroll input)); universal = ci_universal input; entry = ub_entry universal;
          disclosed = (ue_totalsDisclosure entry = Public);
          aggregateZero = ws_aggregate (fst (ub_shards universal)); aggregateOne = ws_aggregate (snd (ub_shards universal));
          shardZero = exposedAggregate aggregateZero disclosed; shardOne = exposedAggregate aggregateOne disclosed in
      rbind (root_limbs L (ci_scheduleId input)) (\<lambda>schedule.
      rbind (root_limbs L (ci_previousStateCommitment input)) (\<lambda>previous.
      rbind (root_limbs L (ci_nextStateCommitment input)) (\<lambda>nextState.
      rbind (root_limbs L (ci_releaseNullifier input)) (\<lambda>release.
      rbind (root_limbs L (ci_attestationRoot input)) (\<lambda>attestation.
      rbind (root_limbs L (ue_totalsCommitment entry)) (\<lambda>totalsCommitment.
      rbind (BigInt (ue_sealAddress entry)) (\<lambda>sealAddress.
      rbind (BigInt (ci_ownerAddress input)) (\<lambda>ownerAddress.
      rbind (BigInt (ue_sourceSealAddress entry)) (\<lambda>sourceSealAddress.
      rbind (bytes32 L (ci_totalsSalt input)) (\<lambda>totalsSalt.
      Inr \<lparr>cm_chain_id = up_chainId payroll, cm_seal_address = toString sealAddress,
           cm_proof_version = toString PAYO_VESTING_TRANSITION_PROOF_VERSION, cm_schema_version = ''1'',
           cm_entry_kind = toString (ub_entryKindCode universal), cm_agreement_root = up_agreementRoot payroll,
           cm_manifest_root = up_manifestRoot payroll, cm_policy_root = up_policyRoot payroll, cm_fx_root = up_fxRoot payroll,
           cm_run_nullifier = up_runNullifier payroll, cm_subject_nullifier = up_runNullifier payroll,
           cm_parent_fact = (''0'', ''0''), cm_fact = (''0'', ''0''), cm_owner_address = toString ownerAddress,
           cm_source_seal_address = toString sourceSealAddress, cm_source_proof_version = ''2'', cm_attestation_root = attestation,
           cm_contributor_counts = (toString (ag_contributorCount shardZero), toString (ag_contributorCount shardOne)),
           cm_totals_disclosed = (if disclosed then ''1'' else ''0''), cm_totals_commitment = totalsCommitment,
           cm_private_shard_0 = aggregate_pair aggregateZero, cm_private_shard_1 = aggregate_pair aggregateOne,
           cm_totals_salt = totalsSalt, cm_shard_0 = aggregate_pair shardZero, cm_shard_1 = aggregate_pair shardOne,
           cm_schedule_id = schedule, cm_previous_state = previous, cm_next_state = nextState, cm_release_nullifier = release,
           cm_book_entry = ub_entryCommitmentLimbs universal, cm_period_start = toString (ci_periodStart input),
           cm_period_end = toString (ci_periodEnd input), cm_validity_start = up_validityStart payroll,
           cm_validity_expiry = up_validityExpiry payroll\<rparr>)))))))))))"

definition publicBookFields :: "book_common \<Rightarrow> string \<Rightarrow> transition_public" where
  "publicBookFields common shardIndex =
     \<lparr>tp_chainId = cm_chain_id common, tp_sealAddress = cm_seal_address common, tp_proofVersion = ''3'', tp_schemaVersion = ''1'',
      tp_entryKind = cm_entry_kind common, tp_agreementRoot = cm_agreement_root common, tp_manifestRoot = cm_manifest_root common,
      tp_policyRoot = cm_policy_root common, tp_fxRoot = cm_fx_root common, tp_runNullifier = cm_run_nullifier common,
      tp_subjectNullifier = cm_subject_nullifier common, tp_parentFact = cm_parent_fact common, tp_fact = cm_fact common,
      tp_ownerAddress = cm_owner_address common, tp_sourceSealAddress = cm_source_seal_address common,
      tp_sourceProofVersion = cm_source_proof_version common, tp_attestationRoot = cm_attestation_root common,
      tp_contributorCounts = cm_contributor_counts common, tp_totalsDisclosed = cm_totals_disclosed common,
      tp_totalsCommitment = cm_totals_commitment common, tp_shard0 = cm_shard_0 common, tp_shard1 = cm_shard_1 common,
      tp_scheduleId = cm_schedule_id common, tp_previousState = cm_previous_state common, tp_nextState = cm_next_state common,
      tp_releaseNullifier = cm_release_nullifier common, tp_bookEntry = cm_book_entry common,
      tp_periodStart = cm_period_start common, tp_periodEnd = cm_period_end common,
      tp_validityStart = cm_validity_start common, tp_validityExpiry = cm_validity_expiry common, tp_shardIndex = shardIndex\<rparr>"

section \<open>The inputs of a circuit\<close>

text \<open>What a builder adds to the common fields, and what each shard adds to both.\<close>

record circuit_base =
  cb_common :: book_common
  cb_target_index :: string
  cb_agreement :: agreement_witness
  cb_line :: line_witness
  cb_plan :: plan_witness
  cb_agreement_membership :: merkle_witness
  cb_payroll_membership :: merkle_witness
  cb_previous_state_salt :: "byte list"
  cb_next_state_salt :: "byte list"
  cb_external_attestation :: attestation_witness
  cb_external_attestation_membership :: merkle_witness
  cb_exception_entry :: exception_witness

record transition_circuit = circuit_base +
  tc_shard_index :: string
  tc_agreement_leaves :: "string list"
  tc_payroll_leaves :: "string list"
  tc_agreements :: "agreement_witness list"
  tc_lines :: "line_witness list"

definition aggregateCircuitFields :: "circuit_base \<Rightarrow> string \<Rightarrow> book_shard \<Rightarrow> transition_circuit" where
  "aggregateCircuitFields base index shard =
     circuit_base.extend base (transition_circuit.fields index (ws_agreementLeaves shard) (ws_payrollLeaves shard)
       (ws_agreements shard) (ws_lines shard))"

record transition_build =
  tb_circuitInputs :: "transition_circuit \<times> transition_circuit"
  tb_publicInputs :: "transition_public \<times> transition_public"
  tb_scheduleId :: string
  tb_previousStateCommitment :: string
  tb_nextStateCommitment :: string
  tb_releaseNullifier :: string
  tb_bookEntry :: universal_entry
  tb_bookEntryCommitment :: string
  tb_totalsOpening :: "(book_totals \<times> book_totals) \<times> string"
  tb_entryKind :: entry_kind

definition transition_build_of :: "circuit_base \<Rightarrow> asserted_transition \<Rightarrow> book_build \<Rightarrow> entry_kind \<Rightarrow> transition_build" where
  "transition_build_of base transition universal kind =
     (let common = cb_common base in
      \<lparr>tb_circuitInputs = (aggregateCircuitFields base ''0'' (fst (ub_shards universal)),
         aggregateCircuitFields base ''1'' (snd (ub_shards universal))),
       tb_publicInputs = (publicBookFields common ''0'', publicBookFields common ''1''),
       tb_scheduleId = av_scheduleId transition, tb_previousStateCommitment = av_previousStateCommitment transition,
       tb_nextStateCommitment = av_nextStateCommitment transition, tb_releaseNullifier = av_releaseNullifier transition,
       tb_bookEntry = ub_entry universal, tb_bookEntryCommitment = ub_entryCommitment universal,
       tb_totalsOpening = (ub_totals universal, ub_salt universal), tb_entryKind = kind\<rparr>)"

text \<open>The identifiers of a build that releases nothing.\<close>

definition no_transition :: asserted_transition where
  "no_transition = \<lparr>av_scheduleId = ZERO, av_previousStateCommitment = ZERO, av_nextStateCommitment = ZERO, av_releaseNullifier = ZERO\<rparr>"

section \<open>A vesting release\<close>

record vesting_book_input =
  vi_payroll :: input_build
  vi_agreement :: agreement
  vi_ownerAddress :: string
  vi_bookSealAddress :: "string option"
  vi_periodStart :: int
  vi_periodEnd :: int
  vi_previousStateSalt :: string
  vi_nextStateSalt :: string
  vi_totalsSalt :: string
  vi_totalsDisclosure :: "totals_disclosure option"
  vi_attestation :: "attestation_input option"

definition disclosure_or_public :: "totals_disclosure option \<Rightarrow> totals_disclosure" where
  "disclosure_or_public d = (case d of None \<Rightarrow> Public | Some v \<Rightarrow> v)"

text \<open>The vesting plan of the agreement, and the slot of the run that pays it.\<close>

definition vesting_plan_of :: "lib \<Rightarrow> agreement \<Rightarrow> (agreement_base \<times> agreement_v2 \<times> vesting_plan) result" where
  "vesting_plan_of L input =
     rbind (zod ''employmentAgreementSchema'' (employmentAgreementSchema L) input) (\<lambda>agreement.
     case agreement of
       Agreement_v1 a \<Rightarrow> Inl (Thrown ''A vesting transition requires one private-vesting PAYO v2 agreement.'')
     | Agreement_v2 a v \<Rightarrow>
         (case v2_paymentPlan v of
            Plan_vesting p \<Rightarrow> Inr (a, v, p)
          | _ \<Rightarrow> Inl (Thrown ''A vesting transition requires one private-vesting PAYO v2 agreement.'')))"

definition vesting_binding :: "lib \<Rightarrow> input_build \<Rightarrow> agreement \<Rightarrow> proof_binding result" where
  "vesting_binding L payroll agreement =
     (let mine = (\<lambda>b. bn_agreementId b = ag_id (agreement_base_of agreement)) in
      case find mine (ib_proofBindings payroll) of
        None \<Rightarrow> Inl (Thrown ''The vesting agreement is absent from this proved payroll run.'')
      | Some binding \<Rightarrow>
          if length (filter mine (ib_proofBindings payroll)) \<noteq> 1
          then Inl (Thrown ''The vesting agreement must occupy exactly one payroll slot.'')
          else rbind (advancedPlanProofCommitment L agreement) (\<lambda>planCommitment.
            rbind (BigInt planCommitment) (\<lambda>expected.
            rbind (BigInt (li_scheduleCommitment (bn_source binding))) (\<lambda>committed.
            if expected \<noteq> committed then Inl (Thrown ''The payroll leaf is not bound to this private-vesting plan.'')
            else Inr binding))))"

definition vesting_schedule_of :: "lib \<Rightarrow> agreement_base \<Rightarrow> agreement_v2 \<Rightarrow> vesting_plan \<Rightarrow> proof_binding \<Rightarrow> vesting_terms result" where
  "vesting_schedule_of L a v plan binding =
     rbind (hashTextCommitment L ''PAYO_AGREEMENT_ID_V1'' (ag_id a)) (\<lambda>ident.
     rbind (hexFromBytes L (aw_recipient_commitment (bn_agreement binding))) (\<lambda>recipient.
     rbind (unix_seconds (vp_startsAt plan)) (\<lambda>startsAt.
     rbind (unix_seconds (vp_cliffAt plan)) (\<lambda>cliffAt.
     rbind (unix_seconds (vp_endsAt plan)) (\<lambda>endsAt.
     Inr \<lparr>vt_agreementIdCommitment = toHex L ident, vt_recipientCommitment = recipient,
          vt_tokenAddress = token_address (ag_settlementToken a), vt_startsAt = startsAt, vt_cliffAt = cliffAt,
          vt_endsAt = endsAt, vt_totalAtomic = vp_totalAtomic plan, vt_planSalt = v2_planSalt v\<rparr>)))))"

text \<open>What the plan has earned at its release, as this file of the source calculates it.\<close>

definition plan_earned :: "vesting_terms \<Rightarrow> string \<Rightarrow> int" where
  "plan_earned schedule releaseAt =
     (let startsAt = bigint (vt_startsAt schedule); endsAt = bigint (vt_endsAt schedule); release = bigint releaseAt;
          total = bigint (vt_totalAtomic schedule) in
      if endsAt \<le> release then total
      else bdiv total (endsAt - startsAt) * (release - startsAt)
        + bdiv (bmod total (endsAt - startsAt) * (release - startsAt)) (endsAt - startsAt))"

definition vesting_state_of :: "string \<Rightarrow> string \<Rightarrow> int \<Rightarrow> string \<Rightarrow> vesting_state" where
  "vesting_state_of scheduleId released releaseSequence stateSalt =
     \<lparr>vs_scheduleId = scheduleId, vs_releasedAtomic = released, vs_releaseSequence = releaseSequence, vs_stateSalt = stateSalt\<rparr>"

definition vesting_release :: "lib \<Rightarrow> vesting_book_input \<Rightarrow> vesting_terms \<Rightarrow> vesting_plan \<Rightarrow> proof_binding \<Rightarrow> asserted_transition result" where
  "vesting_release L input schedule plan binding =
     rbind (vestingScheduleId L schedule) (\<lambda>scheduleId.
     rbind (unix_seconds (vp_releaseAt plan)) (\<lambda>releaseAt.
     let earned = plan_earned schedule releaseAt; payable = earned - bigint (vp_releasedAtomic plan) in
     if payable \<le> 0 then Inl (Thrown ''The payroll gross does not equal the exact unpaid vested delta.'')
     else rbind (BigInt (grossAtomic (bn_calculated binding))) (\<lambda>gross.
       if gross \<noteq> payable then Inl (Thrown ''The payroll gross does not equal the exact unpaid vested delta.'')
       else assertVestingTransition L
         \<lparr>vr_schedule = schedule,
          vr_previous = vesting_state_of scheduleId (vp_releasedAtomic plan) (vp_releaseSequence plan) (vi_previousStateSalt input),
          vr_releaseAt = releaseAt, vr_payableAtomic = toString payable,
          vr_next = vesting_state_of scheduleId (toString earned) (vp_releaseSequence plan + 1) (vi_nextStateSalt input),
          vr_runNullifier = ib_runNullifier (vi_payroll input)\<rparr>)))"

definition attested_recipient :: "lib \<Rightarrow> attestation_input \<Rightarrow> proof_binding \<Rightarrow> unit result" where
  "attested_recipient L attestation binding =
     rbind (BigInt (ea_subjectCommitment (sa_attestation (pp_signed attestation)))) (\<lambda>subject.
     rbind (hexFromBytes L (aw_recipient_commitment (bn_agreement binding))) (\<lambda>recipient.
     if subject \<noteq> bigint recipient then Inl (Thrown ''External attestation belongs to another private recipient.'') else Inr ()))"

definition attested_agreement :: "lib \<Rightarrow> attestation_input option \<Rightarrow> string \<Rightarrow> proof_binding \<Rightarrow> unit result" where
  "attested_agreement L input ident binding =
     (case input of None \<Rightarrow> Inr ()
      | Some attestation \<Rightarrow>
          if pp_agreementId attestation \<noteq> ident then Inl (Thrown ''External attestation selects another payroll agreement.'')
          else attested_recipient L attestation binding)"

definition run_openings :: "lib \<Rightarrow> input_build \<Rightarrow> nat \<Rightarrow> (fixed_membership \<times> fixed_membership) result" where
  "run_openings L payroll index =
     rbind (buildProofFixedMerkleMembership L (map bn_agreementLeaf (ib_proofBindings payroll)) index) (\<lambda>agreement.
     rbind (buildProofFixedMerkleMembership L (map bn_payrollLeaf (ib_proofBindings payroll)) index) (\<lambda>line.
     rbind (BigInt (mb_root agreement)) (\<lambda>a. rbind (BigInt (ib_agreementRoot payroll)) (\<lambda>agreementRoot.
     if a \<noteq> agreementRoot then Inl (Thrown ''Vesting membership paths do not reconstruct the payroll roots.'')
     else rbind (BigInt (mb_root line)) (\<lambda>p. rbind (BigInt (ib_manifestRoot payroll)) (\<lambda>manifestRoot.
       if p \<noteq> manifestRoot then Inl (Thrown ''Vesting membership paths do not reconstruct the payroll roots.'')
       else Inr (agreement, line)))))))"

definition vesting_entry_input :: "vesting_book_input \<Rightarrow> string \<Rightarrow> asserted_transition \<Rightarrow> book_input" where
  "vesting_entry_input input attestationRoot transition =
     \<lparr>bi_payroll = vi_payroll input, bi_entryKind = Vesting_entry, bi_ownerAddress = vi_ownerAddress input,
      bi_bookSealAddress = vi_bookSealAddress input,
      bi_sourceSealAddress = up_sealAddress (fst (ib_publicInputs (vi_payroll input))), bi_periodStart = vi_periodStart input,
      bi_periodEnd = vi_periodEnd input, bi_totalsDisclosure = disclosure_or_public (vi_totalsDisclosure input),
      bi_totalsSalt = vi_totalsSalt input, bi_attestationRoot = Some attestationRoot,
      bi_vestingScheduleId = Some (av_scheduleId transition), bi_vestingStateCommitment = Some (av_nextStateCommitment transition)\<rparr>"

definition vesting_common_input :: "vesting_book_input \<Rightarrow> string \<Rightarrow> asserted_transition \<Rightarrow> book_build \<Rightarrow> common_input" where
  "vesting_common_input input attestationRoot transition universal =
     \<lparr>ci_payroll = vi_payroll input, ci_universal = universal, ci_ownerAddress = vi_ownerAddress input,
      ci_periodStart = vi_periodStart input, ci_periodEnd = vi_periodEnd input, ci_attestationRoot = attestationRoot,
      ci_totalsSalt = vi_totalsSalt input, ci_scheduleId = av_scheduleId transition,
      ci_previousStateCommitment = av_previousStateCommitment transition,
      ci_nextStateCommitment = av_nextStateCommitment transition, ci_releaseNullifier = av_releaseNullifier transition\<rparr>"

definition buildVestingTransitionInputs :: "lib \<Rightarrow> vesting_book_input \<Rightarrow> transition_build result" where
  "buildVestingTransitionInputs L input =
     (let payroll = vi_payroll input in
      rbind (vesting_plan_of L (vi_agreement input)) (\<lambda>(a, v, plan).
      rbind (vesting_binding L payroll (vi_agreement input)) (\<lambda>binding.
      rbind (vesting_schedule_of L a v plan binding) (\<lambda>schedule.
      rbind (vesting_release L input schedule plan binding) (\<lambda>transition.
      rbind (attested_agreement L (vi_attestation input) (ag_id a) binding) (\<lambda>_.
      rbind (externalAttestationCircuitFields L (vi_attestation input) (ib_policyRoot payroll)) (\<lambda>attestation.
      rbind (buildUniversalPayrollBookInput L (vesting_entry_input input (xc_root attestation) transition)) (\<lambda>universal.
      rbind (run_openings L payroll (bn_index binding)) (\<lambda>(agreementMembership, payrollMembership).
      rbind (commonBookFields L (vesting_common_input input (xc_root attestation) transition universal)) (\<lambda>common.
      rbind (advancedPlanWitness L (vi_agreement input)) (\<lambda>plan'.
      rbind (bytes32 L (vi_previousStateSalt input)) (\<lambda>previousSalt.
      rbind (bytes32 L (vi_nextStateSalt input)) (\<lambda>nextSalt.
      Inr (transition_build_of
        \<lparr>cb_common = common, cb_target_index = toString (int (bn_index binding)), cb_agreement = bn_agreement binding,
         cb_line = bn_line binding, cb_plan = plan', cb_agreement_membership = fixed_witness_of agreementMembership,
         cb_payroll_membership = fixed_witness_of payrollMembership, cb_previous_state_salt = previousSalt,
         cb_next_state_salt = nextSalt, cb_external_attestation = xc_witness attestation,
         cb_external_attestation_membership = xc_membership attestation, cb_exception_entry = emptyExceptionEntryWitness\<rparr>
        transition universal Vesting_entry))))))))))))))"

section \<open>An ordinary run\<close>

record run_book_input =
  pi_payroll :: input_build
  pi_ownerAddress :: string
  pi_bookSealAddress :: "string option"
  pi_periodStart :: int
  pi_periodEnd :: int
  pi_entryKind :: "entry_kind option"
  pi_totalsDisclosure :: "totals_disclosure option"
  pi_totalsSalt :: string
  pi_attestation :: "attestation_input option"

definition entry_kind_or_ordinary :: "entry_kind option \<Rightarrow> entry_kind" where
  "entry_kind_or_ordinary k = (case k of None \<Rightarrow> Ordinary | Some v \<Rightarrow> v)"

text \<open>The binding the attestation selects, checked against its recipient, with its opening.\<close>

definition attested_binding :: "lib \<Rightarrow> run_book_input \<Rightarrow> (proof_binding \<times> merkle_witness) option result" where
  "attested_binding L input =
     (case pi_attestation input of None \<Rightarrow> Inr None
      | Some attestation \<Rightarrow>
        (case find (\<lambda>b. bn_agreementId b = pp_agreementId attestation) (ib_proofBindings (pi_payroll input)) of
           None \<Rightarrow> Inl (Thrown ''External attestation selects an agreement outside this payroll.'')
         | Some binding \<Rightarrow>
             rbind (attested_recipient L attestation binding) (\<lambda>_.
             rbind (buildProofFixedMerkleMembership L (map bn_agreementLeaf (ib_proofBindings (pi_payroll input))) (bn_index binding))
               (\<lambda>opening. Inr (Some (binding, fixed_witness_of opening))))))"

definition run_entry_input :: "run_book_input \<Rightarrow> string \<Rightarrow> book_input" where
  "run_entry_input input attestationRoot =
     \<lparr>bi_payroll = pi_payroll input, bi_entryKind = entry_kind_or_ordinary (pi_entryKind input),
      bi_ownerAddress = pi_ownerAddress input, bi_bookSealAddress = pi_bookSealAddress input,
      bi_sourceSealAddress = up_sealAddress (fst (ib_publicInputs (pi_payroll input))), bi_periodStart = pi_periodStart input,
      bi_periodEnd = pi_periodEnd input, bi_totalsDisclosure = disclosure_or_public (pi_totalsDisclosure input),
      bi_totalsSalt = pi_totalsSalt input, bi_attestationRoot = Some attestationRoot, bi_vestingScheduleId = None,
      bi_vestingStateCommitment = None\<rparr>"

definition run_common_input :: "run_book_input \<Rightarrow> string \<Rightarrow> book_build \<Rightarrow> common_input" where
  "run_common_input input attestationRoot universal =
     \<lparr>ci_payroll = pi_payroll input, ci_universal = universal, ci_ownerAddress = pi_ownerAddress input,
      ci_periodStart = pi_periodStart input, ci_periodEnd = pi_periodEnd input, ci_attestationRoot = attestationRoot,
      ci_totalsSalt = pi_totalsSalt input, ci_scheduleId = ZERO, ci_previousStateCommitment = ZERO,
      ci_nextStateCommitment = ZERO, ci_releaseNullifier = ZERO\<rparr>"

definition buildPayrollBookEntryInputs :: "lib \<Rightarrow> run_book_input \<Rightarrow> transition_build result" where
  "buildPayrollBookEntryInputs L input =
     rbind (externalAttestationCircuitFields L (pi_attestation input) (ib_policyRoot (pi_payroll input))) (\<lambda>attestation.
     rbind (attested_binding L input) (\<lambda>attested.
     rbind (buildUniversalPayrollBookInput L (run_entry_input input (xc_root attestation))) (\<lambda>universal.
     rbind (commonBookFields L (run_common_input input (xc_root attestation) universal)) (\<lambda>common.
     Inr (transition_build_of
       \<lparr>cb_common = common,
        cb_target_index = (case attested of None \<Rightarrow> ''0'' | Some (b, _) \<Rightarrow> toString (int (bn_index b))),
        cb_agreement = (case attested of None \<Rightarrow> emptyAgreement | Some (b, _) \<Rightarrow> bn_agreement b),
        cb_line = emptyLine, cb_plan = emptyAdvancedPlanWitness,
        cb_agreement_membership = (case attested of None \<Rightarrow> emptyMembership | Some (_, m) \<Rightarrow> m),
        cb_payroll_membership = emptyMembership, cb_previous_state_salt = zero_bytes, cb_next_state_salt = zero_bytes,
        cb_external_attestation = xc_witness attestation, cb_external_attestation_membership = xc_membership attestation,
        cb_exception_entry = emptyExceptionEntryWitness\<rparr>
       no_transition universal (entry_kind_or_ordinary (pi_entryKind input)))))))"

section \<open>A claim or a remediation\<close>

record remediation_payment =
  er_remediationSecret :: string
  er_recipientCommitment :: string
  er_amountAtomic :: string
  er_referenceValueAtomic :: string
  er_actionSalt :: string

record exception_entry_input =
  xi_source :: exception_public
  xi_entryKind :: entry_kind
  xi_bookSealAddress :: string
  xi_sourceSealAddress :: string
  xi_ownerAddress :: string
  xi_runNullifier :: string
  xi_periodStart :: int
  xi_periodEnd :: int
  xi_totalsSalt :: string
  xi_totalsDisclosure :: "totals_disclosure option"
  xi_claimFact :: claim_fact
  xi_remediation :: "remediation_payment option"

definition joinedPublicCommitment :: "string \<times> string \<Rightarrow> string result" where
  "joinedPublicCommitment = (\<lambda>(high, low).
     rbind (BigInt high) (\<lambda>left.
     rbind (BigInt low) (\<lambda>right.
     if left < 0 \<or> push_bit 128 1 \<le> left \<or> right < 0 \<or> push_bit 128 1 \<le> right
     then Inl (Thrown ''Exception public-input commitment limb exceeds u128.'')
     else Inr (''0x'' @ padStart 32 (CHR ''0'') (toString16 left) @ padStart 32 (CHR ''0'') (toString16 right)))))"

record source_commitments =
  sc_subject :: string
  sc_parent :: string
  sc_fact :: string
  sc_parentFact :: string
  sc_manifest :: string
  sc_fx :: string

definition source_commitments_of :: "exception_public \<Rightarrow> source_commitments result" where
  "source_commitments_of source =
     rbind (joinedPublicCommitment (ep_subjectNullifier source)) (\<lambda>subject.
     rbind (joinedPublicCommitment (ep_parentNullifier source)) (\<lambda>parent.
     rbind (joinedPublicCommitment (ep_factCommitment source)) (\<lambda>factText.
     rbind (joinedPublicCommitment (ep_parentFactCommitment source)) (\<lambda>parentFact.
     rbind (joinedPublicCommitment (ep_manifestRoot source)) (\<lambda>manifest.
     rbind (joinedPublicCommitment (ep_fxRoot source)) (\<lambda>fx.
     Inr \<lparr>sc_subject = subject, sc_parent = parent, sc_fact = factText, sc_parentFact = parentFact, sc_manifest = manifest,
          sc_fx = fx\<rparr>))))))"

definition claim_parent :: "claim_fact \<Rightarrow> string" where
  "claim_parent claim = (if bigint (cl_statementCommitment claim) = 0 then cl_snapshotCommitment claim else cl_statementCommitment claim)"

text \<open>The witness of the claim, which a remediation carries too.\<close>

definition claim_witness_of :: "lib \<Rightarrow> claim_fact \<Rightarrow> exception_witness result" where
  "claim_witness_of L claim =
     rbind (bytes32 L (cl_claimSubjectNullifier claim)) (\<lambda>subject.
     rbind (bytes32 L (cl_snapshotCommitment claim)) (\<lambda>snapshot.
     rbind (bytes32 L (cl_statementCommitment claim)) (\<lambda>statement.
     rbind (bytes32 L (cl_manifestRoot claim)) (\<lambda>manifest.
     rbind (bytes32 L (cl_agreementLeaf claim)) (\<lambda>leaf.
     Inr (emptyExceptionEntryWitness\<lparr>ew_enabled := True, ew_claim_subject_nullifier := subject, ew_snapshot_commitment := snapshot,
       ew_statement_commitment := statement, ew_claim_manifest_root := manifest, ew_agreement_leaf := leaf,
       ew_target_index := toString (cl_targetIndex claim), ew_claim_kind := toString (exceptionClaimKinds (cl_claimKind claim)),
       ew_shortfall_atomic := cl_shortfallAtomic claim,
       ew_shortfall_unit := toString (claimShortfallUnits (cl_shortfallUnit claim)),
       ew_obligation_token := toString (exceptionTokens (cl_obligationToken claim)),
       ew_evidence_source := toString (claimEvidenceSources (cl_evidenceSource claim))\<rparr>))))))"

definition claim_entry_witness :: "lib \<Rightarrow> exception_entry_input \<Rightarrow> source_commitments \<Rightarrow> string \<Rightarrow> exception_witness result" where
  "claim_entry_witness L input source claimFactCommitment =
     (let claim = xi_claimFact input in
      rbind (BigInt (ep_proofVersion (xi_source input))) (\<lambda>version.
      if version \<noteq> 6 \<or> bigint (sc_subject source) \<noteq> bigint (cl_claimSubjectNullifier claim)
        \<or> bigint (sc_parent source) \<noteq> bigint (cl_runNullifier claim) \<or> bigint (sc_fact source) \<noteq> bigint claimFactCommitment
        \<or> bigint (sc_parentFact source) \<noteq> bigint (claim_parent claim) \<or> bigint (sc_manifest source) \<noteq> bigint (cl_manifestRoot claim)
      then Inl (Thrown ''Claim v6 public inputs do not match the private claim fact.'')
      else if xi_remediation input \<noteq> None then Inl (Thrown ''A claim book entry cannot include remediation data.'')
      else claim_witness_of L claim))"

text \<open>\<open>proofRemediationActionCommitment\<close> of an amount that is a text.\<close>

definition action_commitment :: "lib \<Rightarrow> claim_fact \<Rightarrow> remediation_payment \<Rightarrow> string result" where
  "action_commitment L claim remediation =
     rbind (proof_groups [limbs L (cl_claimSubjectNullifier claim), limbs L (er_recipientCommitment remediation),
       Inr [exceptionTokens (cl_obligationToken claim)], single (rbind (BigInt (er_amountAtomic remediation)) packedAmount),
       limbs L (er_actionSalt remediation)]) (proofHash L PAYO_PROOF_DOMAIN_REMEDIATION_ACTION)"

definition paid_fact :: "claim_fact \<Rightarrow> remediation_payment \<Rightarrow> string \<Rightarrow> string \<Rightarrow> string \<Rightarrow> remediation_fact" where
  "paid_fact claim remediation remediationSubject claimFactCommitment fxRoot =
     \<lparr>rm_remediationSubjectNullifier = remediationSubject, rm_claimSubjectNullifier = cl_claimSubjectNullifier claim,
      rm_claimFactCommitment = claimFactCommitment, rm_recipientCommitment = er_recipientCommitment remediation,
      rm_token = cl_obligationToken claim, rm_amountAtomic = Digits (er_amountAtomic remediation),
      rm_referenceValueAtomic = Digits (er_referenceValueAtomic remediation), rm_referenceUnit = cl_shortfallUnit claim,
      rm_fxRoot = fxRoot\<rparr>"

definition remediation_entry_witness ::
    "lib \<Rightarrow> exception_entry_input \<Rightarrow> source_commitments \<Rightarrow> string \<Rightarrow> remediation_payment \<Rightarrow> (exception_witness \<times> string) result" where
  "remediation_entry_witness L input source claimFactCommitment remediation =
     (let claim = xi_claimFact input in
      rbind (remediationSubjectNullifierV2 L (cl_claimSubjectNullifier claim) (er_remediationSecret remediation)) (\<lambda>remediationSubject.
      rbind (action_commitment L claim remediation) (\<lambda>action.
      rbind (remediationFactCommitmentV2 L (paid_fact claim remediation remediationSubject claimFactCommitment (sc_fx source))) (\<lambda>remediationFact.
      rbind (BigInt (ep_proofVersion (xi_source input))) (\<lambda>version.
      if version \<noteq> 7 \<or> bigint (sc_subject source) \<noteq> bigint remediationSubject
        \<or> bigint (sc_parent source) \<noteq> bigint (cl_claimSubjectNullifier claim)
        \<or> bigint (sc_parentFact source) \<noteq> bigint claimFactCommitment \<or> bigint (sc_fact source) \<noteq> bigint remediationFact
        \<or> bigint (sc_manifest source) \<noteq> bigint action
      then Inl (Thrown ''Remediation v7 public inputs do not match the exact private payment.'')
      else
        rbind (BigInt (er_amountAtomic remediation)) (\<lambda>amount.
        rbind (claim_witness_of L claim) (\<lambda>witness.
        rbind (bytes32 L (er_remediationSecret remediation)) (\<lambda>secret.
        rbind (bytes32 L (er_recipientCommitment remediation)) (\<lambda>recipient.
        rbind (BigInt (er_referenceValueAtomic remediation)) (\<lambda>referenceValue.
        rbind (bytes32 L (er_actionSalt remediation)) (\<lambda>actionSalt.
        Inr (witness\<lparr>ew_remediation_secret := secret, ew_recipient_commitment := recipient,
               ew_remediation_amount_atomic := toString amount, ew_remediation_reference_value_atomic := toString referenceValue,
               ew_remediation_action_salt := actionSalt\<rparr>, toString amount))))))))))))"

text \<open>The witness, and the amount a remediation pays.\<close>

definition exception_witness_of ::
    "lib \<Rightarrow> exception_entry_input \<Rightarrow> source_commitments \<Rightarrow> string \<Rightarrow> (exception_witness \<times> string option) result" where
  "exception_witness_of L input source claimFactCommitment =
     (if xi_entryKind input = Claim
      then rbind (claim_entry_witness L input source claimFactCommitment) (\<lambda>w. Inr (w, None))
      else (case xi_remediation input of
          None \<Rightarrow> Inl (Thrown ''A remediation book entry requires private payment binding data.'')
        | Some remediation \<Rightarrow>
            rbind (remediation_entry_witness L input source claimFactCommitment remediation) (\<lambda>(w, amount). Inr (w, Some amount))))"

definition exception_book_input_of :: "exception_entry_input \<Rightarrow> string option \<Rightarrow> exception_book_input" where
  "exception_book_input_of input amount =
     \<lparr>xe_source = xi_source input, xe_entryKind = xi_entryKind input, xe_bookSealAddress = xi_bookSealAddress input,
      xe_sourceSealAddress = xi_sourceSealAddress input, xe_ownerAddress = xi_ownerAddress input,
      xe_runNullifier = xi_runNullifier input, xe_periodStart = xi_periodStart input, xe_periodEnd = xi_periodEnd input,
      xe_totalsSalt = xi_totalsSalt input, xe_totalsDisclosure = xi_totalsDisclosure input,
      xe_payment = map_option (\<lambda>a. (cl_obligationToken (xi_claimFact input), a)) amount\<rparr>"

definition exception_common :: "lib \<Rightarrow> exception_entry_input \<Rightarrow> book_build \<Rightarrow> book_common result" where
  "exception_common L input universal =
     (let source = xi_source input; entry = ub_entry universal; disclosed = (ue_totalsDisclosure entry = Public);
          aggregateZero = ws_aggregate (fst (ub_shards universal));
          shardZero = exposedAggregate aggregateZero disclosed;
          shardOne = exposedAggregate (ws_aggregate (snd (ub_shards universal))) disclosed in
      rbind (root_limbs L (ue_totalsCommitment entry)) (\<lambda>totalsCommitment.
      rbind (root_limbs L (xi_runNullifier input)) (\<lambda>run.
      rbind (root_limbs L ZERO) (\<lambda>zero.
      rbind (BigInt (xi_bookSealAddress input)) (\<lambda>sealAddress.
      rbind (BigInt (xi_ownerAddress input)) (\<lambda>ownerAddress.
      rbind (BigInt (xi_sourceSealAddress input)) (\<lambda>sourceSealAddress.
      rbind (bytes32 L (xi_totalsSalt input)) (\<lambda>totalsSalt.
      Inr \<lparr>cm_chain_id = ep_chainId source, cm_seal_address = toString sealAddress,
           cm_proof_version = toString PAYO_VESTING_TRANSITION_PROOF_VERSION, cm_schema_version = ''1'',
           cm_entry_kind = toString (ub_entryKindCode universal), cm_agreement_root = ep_agreementRoot source,
           cm_manifest_root = ep_manifestRoot source, cm_policy_root = ep_policyRoot source, cm_fx_root = ep_fxRoot source,
           cm_run_nullifier = run, cm_subject_nullifier = ep_subjectNullifier source,
           cm_parent_fact = ep_parentFactCommitment source, cm_fact = ep_factCommitment source,
           cm_owner_address = toString ownerAddress, cm_source_seal_address = toString sourceSealAddress,
           cm_source_proof_version = ep_proofVersion source, cm_attestation_root = zero, cm_contributor_counts = (''1'', ''0''),
           cm_totals_disclosed = (if disclosed then ''1'' else ''0''), cm_totals_commitment = totalsCommitment,
           cm_private_shard_0 = aggregate_pair aggregateZero, cm_private_shard_1 = (zeroTotals, zeroTotals),
           cm_totals_salt = totalsSalt, cm_shard_0 = aggregate_pair shardZero, cm_shard_1 = aggregate_pair shardOne,
           cm_schedule_id = zero, cm_previous_state = zero, cm_next_state = zero, cm_release_nullifier = zero,
           cm_book_entry = ub_entryCommitmentLimbs universal, cm_period_start = toString (xi_periodStart input),
           cm_period_end = toString (xi_periodEnd input), cm_validity_start = ep_validityStart source,
           cm_validity_expiry = ep_validityExpiry source\<rparr>))))))))"

definition buildExceptionPayrollBookEntryInputs :: "lib \<Rightarrow> exception_entry_input \<Rightarrow> transition_build result" where
  "buildExceptionPayrollBookEntryInputs L input =
     rbind (zod ''exceptionClaimFactSchema'' exceptionClaimFactSchema (xi_claimFact input)) (\<lambda>claim.
     rbind (claimFactCommitmentV2 L claim) (\<lambda>claimFactCommitment.
     rbind (source_commitments_of (xi_source input)) (\<lambda>source.
     rbind (BigInt (xi_runNullifier input)) (\<lambda>run.
     if run \<noteq> bigint (cl_runNullifier claim) then Inl (Thrown ''Exception book run differs from the proved claim run.'')
     else
       rbind (exception_witness_of L input source claimFactCommitment) (\<lambda>(witness, amount).
       rbind (buildUniversalExceptionPayrollBookInput L (exception_book_input_of input amount)) (\<lambda>universal.
       rbind (exception_common L input universal) (\<lambda>common.
       Inr (transition_build_of
         \<lparr>cb_common = common, cb_target_index = ''0'', cb_agreement = emptyAgreement, cb_line = emptyLine,
          cb_plan = emptyAdvancedPlanWitness, cb_agreement_membership = emptyMembership, cb_payroll_membership = emptyMembership,
          cb_previous_state_salt = zero_bytes, cb_next_state_salt = zero_bytes,
          cb_external_attestation = xc_witness emptyExternalAttestationCircuitFields,
          cb_external_attestation_membership = xc_membership emptyExternalAttestationCircuitFields,
          cb_exception_entry = witness\<rparr>
         no_transition universal (xi_entryKind input)))))))))"

end
