(* ===== verification/Book_Input_Properties.thy ===== *)
theory Book_Input_Properties
  imports Book_Inputs Claim_Totals
begin

text \<open>
  What the entries of the payroll book built in theory Book_Inputs say: the totals of a run are the sums of its
  lines and the two halves are the run; the entry of a claim names that claim and carries no payment.
\<close>

section \<open>The totals of a run\<close>

type_synonym sums = "int \<times> int \<times> int"     \<comment> \<open>gross, deductions and net\<close>

fun plus3 :: "sums \<Rightarrow> sums \<Rightarrow> sums" where
  "plus3 (a, b, c) (x, y, z) = (a + x, b + y, c + z)"

lemma plus3_laws [simp]: "plus3 (0, 0, 0) s = s" "plus3 s (0, 0, 0) = s" "plus3 (plus3 s t) u = plus3 s (plus3 t u)"
  by (cases s; cases t; cases u; simp)+

definition totals_num :: "book_totals \<Rightarrow> sums" where
  "totals_num t = (bigint (bt_grossAtomic t), bigint (bt_deductionsAtomic t), bigint (bt_netAtomic t))"

definition lines_num :: "token \<Rightarrow> calculated_line list \<Rightarrow> sums" where
  "lines_num tok ls =
     (let mine = filter (\<lambda>l. line_token l = tok) ls in
      (\<Sum>l\<leftarrow>mine. bigint (grossAtomic l), \<Sum>l\<leftarrow>mine. bigint (deductionsTotalAtomic l), \<Sum>l\<leftarrow>mine. bigint (netAtomic l)))"

lemma bigint_add_text [simp]: "bigint (add_text a b) = bigint a + bigint b"
  by (simp add: add_text_def)

lemma bigint_zero_digit [simp]: "bigint ''0'' = 0"
  by code_simp

lemma totals_num_zero [simp]: "totals_num zeroTotals = (0, 0, 0)"
  by (simp add: totals_num_def zeroTotals_def)

lemma totals_num_add [simp]: "totals_num (add_totals l r) = plus3 (totals_num l) (totals_num r)"
  by (simp add: totals_num_def add_totals_def)

lemma lines_num_append: "lines_num tok (xs @ ys) = plus3 (lines_num tok xs) (lines_num tok ys)"
  by (simp add: lines_num_def Let_def)

lemma lines_num_Nil [simp]: "lines_num tok [] = (0, 0, 0)"
  by (simp add: lines_num_def)

definition aggregate_totals :: "shard_aggregate \<Rightarrow> token \<Rightarrow> book_totals" where
  "aggregate_totals a tok = (case tok of STRK \<Rightarrow> ag_STRK a | USDC \<Rightarrow> ag_USDC a)"

lemma aggregate_step_num:
  "totals_num (aggregate_totals (aggregate_step a l) tok) = plus3 (totals_num (aggregate_totals a tok)) (lines_num tok [l])"
  "ag_contributorCount (aggregate_step a l) = ag_contributorCount a + 1"
proof -
  show "totals_num (aggregate_totals (aggregate_step a l) tok) = plus3 (totals_num (aggregate_totals a tok)) (lines_num tok [l])"
    by (cases tok; cases "line_token l")
      (simp_all add: aggregate_step_def aggregate_totals_def totals_num_def add_calculated_def lines_num_def)
  show "ag_contributorCount (aggregate_step a l) = ag_contributorCount a + 1"
    by (cases "line_token l") (simp_all add: aggregate_step_def)
qed

lemma aggregate_fold:
  "totals_num (aggregate_totals (foldl aggregate_step a ls) tok) = plus3 (totals_num (aggregate_totals a tok)) (lines_num tok ls)"
  "ag_contributorCount (foldl aggregate_step a ls) = ag_contributorCount a + int (length ls)"
proof (induction ls arbitrary: a)
  case (Cons l ls)
  case 1
  show ?case using Cons.IH(1) [of "aggregate_step a l"] lines_num_append [of tok "[l]" ls] by (simp add: aggregate_step_num)
  case 2
  show ?case using Cons.IH(2) [of "aggregate_step a l"] by (simp add: aggregate_step_num)
qed simp_all

lemma aggregate_bindings:
  assumes "length (ib_proofBindings b) \<le> 50"
  shows "totals_num ((case tok of STRK \<Rightarrow> fst | USDC \<Rightarrow> snd) (sumAggregate (aggregateBindings b 0 25) (aggregateBindings b 25 50)))
      = lines_num tok (map bn_calculated (ib_proofBindings b))"
    and "ag_contributorCount (aggregateBindings b 0 25) + ag_contributorCount (aggregateBindings b 25 50)
      = int (length (ib_proofBindings b))"
proof -
  have zero: "totals_num (aggregate_totals emptyAggregate t) = (0, 0, 0)" "ag_contributorCount emptyAggregate = 0" for t
    by (cases t; simp add: emptyAggregate_def aggregate_totals_def) (simp add: emptyAggregate_def)
  have zeros: "totals_num (ag_STRK emptyAggregate) = (0, 0, 0)" "totals_num (ag_USDC emptyAggregate) = (0, 0, 0)"
    by (simp_all add: emptyAggregate_def)
  have halves: "take 25 (ib_proofBindings b) @ take 25 (drop 25 (ib_proofBindings b)) = ib_proofBindings b"
    using assms by simp
  have "lines_num tok (map bn_calculated (ib_proofBindings b))
      = plus3 (lines_num tok (map bn_calculated (take 25 (ib_proofBindings b))))
          (lines_num tok (map bn_calculated (take 25 (drop 25 (ib_proofBindings b)))))"
    by (subst halves [symmetric]) (simp only: map_append lines_num_append)
  then show "totals_num ((case tok of STRK \<Rightarrow> fst | USDC \<Rightarrow> snd) (sumAggregate (aggregateBindings b 0 25) (aggregateBindings b 25 50)))
      = lines_num tok (map bn_calculated (ib_proofBindings b))"
    using aggregate_fold(1) [of emptyAggregate _ tok] zeros
    by (cases tok) (simp_all add: sumAggregate_def aggregateBindings_def aggregate_totals_def)
  show "ag_contributorCount (aggregateBindings b 0 25) + ag_contributorCount (aggregateBindings b 25 50)
      = int (length (ib_proofBindings b))"
    using assms zero by (simp add: aggregateBindings_def aggregate_fold)
qed

section \<open>The entry of a run\<close>

lemma run_entry_fields:
  assumes "run_entry input state n totals c = Inr e"
  shows "ue_contributorCount e = n" "ue_totalsCommitment e = c" "ue_totalsDisclosure e = bi_totalsDisclosure input"
    "(ue_totalsSTRK e, ue_totalsUSDC e) = (if bi_totalsDisclosure input = Public then totals else hiddenPayrollBookTotals)"
  using assms unfolding run_entry_def Let_def
  by (elim rbindE; clarsimp simp: zod_def simp del: prod.collapse split: if_split_asm; simp)+

lemma run_stages:
  assumes "buildUniversalPayrollBookInput L input = Inr u"
  obtains state agreementLeaves payrollLeaves c where
    "\<not> (length (ib_proofBindings (bi_payroll input)) < 1 \<or> 50 < length (ib_proofBindings (bi_payroll input)))"
    "payrollBookTotalsCommitment L (ib_runNullifier (bi_payroll input)) (ag_contributorCount (aggregateBindings (bi_payroll input) 0 25)
       + ag_contributorCount (aggregateBindings (bi_payroll input) 25 50)) (fst (ub_totals u)) (snd (ub_totals u)) (ub_salt u) = Inr c"
    "run_entry input state (ag_contributorCount (aggregateBindings (bi_payroll input) 0 25)
       + ag_contributorCount (aggregateBindings (bi_payroll input) 25 50)) (ub_totals u) c = Inr (ub_entry u)"
    "ub_totals u = sumAggregate (aggregateBindings (bi_payroll input) 0 25) (aggregateBindings (bi_payroll input) 25 50)"
    "makeBookShard (bi_payroll input) agreementLeaves payrollLeaves 0 (aggregateBindings (bi_payroll input) 0 25) = Inr (fst (ub_shards u))"
    "makeBookShard (bi_payroll input) agreementLeaves payrollLeaves 25 (aggregateBindings (bi_payroll input) 25 50) = Inr (snd (ub_shards u))"
  using assms unfolding buildUniversalPayrollBookInput_def Let_def
  by (elim guardE rbindE InrE)
    (rule that, (assumption | (hypsubst, simp only: book_build.select_convs fst_conv snd_conv, assumption?))+)

lemma book_shard_slices:
  assumes "makeBookShard payroll al pl start a = Inr s"
  shows "ws_lines s = padded 25 emptyLine (take 25 (drop start (map bn_line (ib_proofBindings payroll))))"
    "ws_agreements s = padded 25 emptyAgreement (take 25 (drop start (map bn_agreement (ib_proofBindings payroll))))"
    "ws_aggregate s = a"
  using assms by (auto simp: makeBookShard_def Let_def rbind_Inr_iff fit_def drop_map take_map split: if_splits)

text \<open>C15: The book entry of a run is the run.  It counts every contributor once; per token its totals are the sums of
  the gross pay, the deductions and the net pay over the proved lines; it commits to those totals under the salt, and
  shows them when they are public and zeros when they are not; and the two shards of its circuit, side by side, are
  the lines and agreements of the run padded to fifty.\<close>

theorem book_entry_is_run:
  assumes "buildUniversalPayrollBookInput L input = Inr u"
  shows "1 \<le> ue_contributorCount (ub_entry u) \<and> ue_contributorCount (ub_entry u) \<le> 50
    \<and> ue_contributorCount (ub_entry u) = int (length (ib_proofBindings (bi_payroll input)))
    \<and> totals_num (fst (ub_totals u)) = lines_num STRK (map bn_calculated (ib_proofBindings (bi_payroll input)))
    \<and> totals_num (snd (ub_totals u)) = lines_num USDC (map bn_calculated (ib_proofBindings (bi_payroll input)))
    \<and> payrollBookTotalsCommitment L (ib_runNullifier (bi_payroll input)) (ue_contributorCount (ub_entry u))
        (fst (ub_totals u)) (snd (ub_totals u)) (ub_salt u) = Inr (ue_totalsCommitment (ub_entry u))
    \<and> (ue_totalsSTRK (ub_entry u), ue_totalsUSDC (ub_entry u))
        = (if bi_totalsDisclosure input = Public then ub_totals u else hiddenPayrollBookTotals)
    \<and> ws_lines (fst (ub_shards u)) @ ws_lines (snd (ub_shards u))
        = padded 50 emptyLine (map bn_line (ib_proofBindings (bi_payroll input)))
    \<and> ws_agreements (fst (ub_shards u)) @ ws_agreements (snd (ub_shards u))
        = padded 50 emptyAgreement (map bn_agreement (ib_proofBindings (bi_payroll input)))"
proof -
  obtain state al pl c where s:
    "\<not> (length (ib_proofBindings (bi_payroll input)) < 1 \<or> 50 < length (ib_proofBindings (bi_payroll input)))"
    "payrollBookTotalsCommitment L (ib_runNullifier (bi_payroll input)) (ag_contributorCount (aggregateBindings (bi_payroll input) 0 25)
       + ag_contributorCount (aggregateBindings (bi_payroll input) 25 50)) (fst (ub_totals u)) (snd (ub_totals u)) (ub_salt u) = Inr c"
    "run_entry input state (ag_contributorCount (aggregateBindings (bi_payroll input) 0 25)
       + ag_contributorCount (aggregateBindings (bi_payroll input) 25 50)) (ub_totals u) c = Inr (ub_entry u)"
    "ub_totals u = sumAggregate (aggregateBindings (bi_payroll input) 0 25) (aggregateBindings (bi_payroll input) 25 50)"
    "makeBookShard (bi_payroll input) al pl 0 (aggregateBindings (bi_payroll input) 0 25) = Inr (fst (ub_shards u))"
    "makeBookShard (bi_payroll input) al pl 25 (aggregateBindings (bi_payroll input) 25 50) = Inr (snd (ub_shards u))"
    by (rule run_stages [OF assms]) (rule that; assumption)
  have count: "1 \<le> length (ib_proofBindings (bi_payroll input))" "length (ib_proofBindings (bi_payroll input)) \<le> 50"
    using s(1) by linarith+
  note totals = aggregate_bindings [OF count(2)]
  note fields = run_entry_fields [OF s(3)]
  have put: "padded 25 d (take 25 xs) @ padded 25 d (take 25 (drop 25 xs)) = padded 50 d xs"
    if "length xs \<le> 50" for d and xs :: "'x list"
    using padded_slices(3,4) [OF that, of d] by simp
  have sums: "totals_num (fst (ub_totals u)) = lines_num STRK (map bn_calculated (ib_proofBindings (bi_payroll input)))"
    "totals_num (snd (ub_totals u)) = lines_num USDC (map bn_calculated (ib_proofBindings (bi_payroll input)))"
    using totals(1) [of STRK] totals(1) [of USDC] s(4) by simp_all
  have shards: "ws_lines (fst (ub_shards u)) @ ws_lines (snd (ub_shards u)) = padded 50 emptyLine (map bn_line (ib_proofBindings (bi_payroll input)))"
    "ws_agreements (fst (ub_shards u)) @ ws_agreements (snd (ub_shards u)) = padded 50 emptyAgreement (map bn_agreement (ib_proofBindings (bi_payroll input)))"
    using put [of "map bn_line (ib_proofBindings (bi_payroll input))" emptyLine]
      put [of "map bn_agreement (ib_proofBindings (bi_payroll input))" emptyAgreement] count(2)
      book_shard_slices [OF s(5)] book_shard_slices [OF s(6)] by simp_all
  show ?thesis using count s(2) fields totals(2) sums shards by simp
qed

section \<open>The entry of a claim\<close>

lemma limbs_to_commitment:
  assumes "hex_lib_ok L" "root_limbs L s = Inr q" "commitmentFromLimbs q = Inr t"
  shows "bigint t = hex_num s"
proof -
  obtain bs where bs: "normalizedHexBytes L s (Some 32) = Inr bs"
    "q = (toString (decodeUint (take 16 bs)), toString (decodeUint (take 16 (drop 16 bs))))"
    using assms(2) by (auto simp: root_limbs_def splitHashToU128_def rbind_Inr_iff)
  have len: "length bs = 32" "decodeUint bs = hex_num s" using normalizedHexBytes_Inr [OF assms(1) bs(1)] by simp_all
  define high low where "high = decodeUint (take 16 bs)" and "low = decodeUint (take 16 (drop 16 bs))"
  have t: "t = ''0x'' @ padStart 32 (CHR ''0'') (toString16 high) @ padStart 32 (CHR ''0'') (toString16 low)"
    and bound: "0 \<le> high" "high < 2 ^ 128" "0 \<le> low" "low < 2 ^ 128"
    using assms(3) by (auto simp: bs(2) commitmentFromLimbs_def high_def low_def push_bit_eq_mult split: if_splits)
  have small: "length (toString16 v) \<le> 32" if "0 \<le> v" "v < 2 ^ 128" for v :: int
    using that show_base_length_le [of 16 32 "nat v"] by (simp add: toString16_def)
  have "bigint t = high * 16 ^ 32 + low"
    using padStart_hex [OF bound(1) small [OF bound(1,2)]] padStart_hex [OF bound(3) small [OF bound(3,4)]]
    by (simp add: t bigint_hex value_base_append)
  also have "\<dots> = decodeUint bs"
    using decodeUint_append [of "take 16 bs" "drop 16 bs"] len(1) by (simp add: high_def low_def)
  finally show ?thesis using len(2) by simp
qed

lemma commitment_from_limbs_total:
  assumes "hex_lib_ok L" "root_limbs L s = Inr q"
  obtains t where "commitmentFromLimbs q = Inr t" "commitment_ok t" "bigint t = hex_num s"
proof -
  obtain bs where bs: "normalizedHexBytes L s (Some 32) = Inr bs"
    "q = (toString (decodeUint (take 16 bs)), toString (decodeUint (take 16 (drop 16 bs))))"
    using assms(2) by (auto simp: root_limbs_def splitHashToU128_def rbind_Inr_iff)
  have "length bs = 32" using normalizedHexBytes_Inr [OF assms(1) bs(1)] by simp
  then have bound: "decodeUint (take 16 bs) < 2 ^ 128" "decodeUint (take 16 (drop 16 bs)) < 2 ^ 128"
    using decodeUint_lt [of "take 16 bs"] decodeUint_lt [of "take 16 (drop 16 bs)"] by simp_all
  have small: "length (toString16 v) \<le> 32" if "0 \<le> v" "v < 2 ^ 128" for v :: int
    using that show_base_length_le [of 16 32 "nat v"] by (simp add: toString16_def)
  let ?t = "''0x'' @ padStart 32 (CHR ''0'') (toString16 (decodeUint (take 16 bs)))
    @ padStart 32 (CHR ''0'') (toString16 (decodeUint (take 16 (drop 16 bs))))"
  have t: "commitmentFromLimbs q = Inr ?t" using bound by (simp add: bs(2) commitmentFromLimbs_def push_bit_eq_mult not_less)
  moreover have "commitment_ok ?t"
    using padStart_hex [OF decodeUint_nonneg small [OF decodeUint_nonneg bound(1)]]
      padStart_hex [OF decodeUint_nonneg small [OF decodeUint_nonneg bound(2)]] by (simp add: commitment_ok_def)
  ultimately show thesis using that limbs_to_commitment [OF assms(1,2) t] by blast
qed

lemma public_inputs_fields:
  assumes "publicInputs L x = Inr p"
  shows "ep_proofVersion p = toString (xb_proofVersion x)" "root_limbs L (xb_agreementRoot x) = Inr (ep_agreementRoot p)"
    "root_limbs L (xb_subjectNullifier x) = Inr (ep_subjectNullifier p)" "root_limbs L (xb_parentNullifier x) = Inr (ep_parentNullifier p)"
    "root_limbs L (xb_factCommitment x) = Inr (ep_factCommitment p)" "root_limbs L (xb_manifestRoot x) = Inr (ep_manifestRoot p)"
    "root_limbs L (xb_policyRoot x) = Inr (ep_policyRoot p)" "root_limbs L (xb_fxRoot x) = Inr (ep_fxRoot p)"
    "root_limbs L (xb_parentFactCommitment x) = Inr (ep_parentFactCommitment p)" "ep_schemaVersion p = ''2''"
    "ep_validityStart p = toString (xb_validityStart x)"
    "\<exists>c a. BigInt (xb_chainId x) = Inr c \<and> BigInt (xb_sealAddress x) = Inr a \<and> ep_chainId p = toString c \<and> ep_sealAddress p = toString a"
  using assms unfolding publicInputs_def binding_checks_def boundedU64_def
  by (elim rbindE guardE InrE, clarsimp)+

lemma exception_stages:
  assumes "buildUniversalExceptionPayrollBookInput L x = Inr u"
  obtains totals subject c v w r where "check_source x = Inr v" "check_payment x = Inr w" "check_claim_run x = Inr r"
    "exception_totals x = Inr totals" "commitmentFromLimbs (ep_subjectNullifier (xe_source x)) = Inr subject"
    "exception_entry x subject totals c = Inr (ub_entry u)" "ub_totals u = totals"
  using assms unfolding buildUniversalExceptionPayrollBookInput_def
  by (elim rbindE InrE) (rule that, (assumption | (hypsubst, simp only: book_build.select_convs, assumption?))+)

lemma exception_entry_fields:
  assumes "exception_entry x subject totals c = Inr e"
  shows "ue_entryKind e = xe_entryKind x" "ue_subjectNullifier e = subject" "ue_runNullifier e = xe_runNullifier x"
    "ue_contributorCount e = 1" "universalPayrollBookEntrySchema e" "ue_totalsDisclosure e = exception_disclosure x"
    "commitmentFromLimbs (ep_agreementRoot (xe_source x)) = Inr (ue_agreementRoot e)"
    "commitmentFromLimbs (ep_factCommitment (xe_source x)) = Inr (ue_factCommitment e)"
  using assms unfolding exception_entry_def Let_def
  by (elim rbindE; clarsimp simp: zod_def split: if_split_asm)+

definition no_totals :: "book_totals \<Rightarrow> bool" where
  "no_totals t \<longleftrightarrow> bigint (bt_grossAtomic t) = 0 \<and> bigint (bt_deductionsAtomic t) = 0 \<and> bigint (bt_netAtomic t) = 0"

lemma claim_public:
  assumes "buildWageClaimV2Inputs L lc input = Inr b"
  shows "ep_proofVersion (wb_publicInputs b) = ''6''"
    "root_limbs L (os_baseAgreementRoot (pl_snapshot (wc_snapshot input))) = Inr (ep_agreementRoot (wb_publicInputs b))"
    "root_limbs L (wb_claimSubjectNullifier b) = Inr (ep_subjectNullifier (wb_publicInputs b))"
    "root_limbs L (os_runNullifier (pl_snapshot (wc_snapshot input))) = Inr (ep_parentNullifier (wb_publicInputs b))"
    "root_limbs L (wb_claimFactCommitment b) = Inr (ep_factCommitment (wb_publicInputs b))"
proof -
  obtain anchor subject fc public where "publicInputs L (claim_binding input anchor subject fc) = Inr public"
    "wb_claimFactCommitment b = fc" "wb_claimSubjectNullifier b = subject" "wb_publicInputs b = public"
    by (rule claim_stages [OF assms]) (rule that; assumption)
  moreover have "toString 6 = ''6''" by code_simp
  ultimately show "ep_proofVersion (wb_publicInputs b) = ''6''"
    "root_limbs L (os_baseAgreementRoot (pl_snapshot (wc_snapshot input))) = Inr (ep_agreementRoot (wb_publicInputs b))"
    "root_limbs L (wb_claimSubjectNullifier b) = Inr (ep_subjectNullifier (wb_publicInputs b))"
    "root_limbs L (os_runNullifier (pl_snapshot (wc_snapshot input))) = Inr (ep_parentNullifier (wb_publicInputs b))"
    "root_limbs L (wb_claimFactCommitment b) = Inr (ep_factCommitment (wb_publicInputs b))"
    using public_inputs_fields [of L "claim_binding input anchor subject fc" public]
    by (simp_all add: claim_binding_def Let_def)
qed

lemma version_is_claim:
  assumes "check_source x = Inr v" "ep_proofVersion (xe_source x) = ''6''"
  shows "xe_entryKind x = Claim"
proof -
  have "BigInt ''6'' = Inr 6" by code_simp
  with assms show ?thesis by (auto simp: check_source_def expected_version_def rbind_Inr_iff split: if_splits)
qed

lemma claim_pays_nothing:
  assumes "universalPayrollBookEntrySchema e" "ue_entryKind e = Claim"
  shows "no_totals (ue_totalsSTRK e)" "no_totals (ue_totalsUSDC e)" "ue_totalsDisclosure e = Hidden" "commitment_ok (ue_runNullifier e)"
  using assms by (auto simp: universalPayrollBookEntrySchema_def entry_totals_ok_def entry_amounts_def no_totals_def universal_entry_shape_def)

text \<open>C16: The claim enters the payroll book as itself.  Whatever the caller asks for, an entry built from the public
  inputs of an accepted claim has the kind of a claim; its subject, its fact, its run and its agreement root are the
  numbers of that claim and of its snapshot, put together again from their halves; it stands for one contributor,
  contains no payment, and all its amounts are hidden and zero, so a claim never counts as pay.\<close>

theorem claim_book_entry:
  assumes "hex_lib_ok L" "buildWageClaimV2Inputs L lc input = Inr b"
    and "buildUniversalExceptionPayrollBookInput L x = Inr u" "xe_source x = wb_publicInputs b"
  shows "ue_entryKind (ub_entry u) = Claim \<and> ue_contributorCount (ub_entry u) = 1
    \<and> bigint (ue_subjectNullifier (ub_entry u)) = hex_num (wb_claimSubjectNullifier b)
    \<and> bigint (ue_factCommitment (ub_entry u)) = hex_num (wb_claimFactCommitment b)
    \<and> bigint (ue_runNullifier (ub_entry u)) = hex_num (os_runNullifier (pl_snapshot (wc_snapshot input)))
    \<and> bigint (ue_agreementRoot (ub_entry u)) = hex_num (os_baseAgreementRoot (pl_snapshot (wc_snapshot input)))
    \<and> xe_payment x = None \<and> ub_totals u = (zeroTotals, zeroTotals) \<and> ue_totalsDisclosure (ub_entry u) = Hidden
    \<and> no_totals (ue_totalsSTRK (ub_entry u)) \<and> no_totals (ue_totalsUSDC (ub_entry u))"
proof -
  obtain totals subject c v w r where s: "check_source x = Inr v" "check_payment x = Inr w" "check_claim_run x = Inr r"
    "exception_totals x = Inr totals" "commitmentFromLimbs (ep_subjectNullifier (xe_source x)) = Inr subject"
    "exception_entry x subject totals c = Inr (ub_entry u)" "ub_totals u = totals"
    by (rule exception_stages [OF assms(3)]) (rule that; assumption)
  note fields = exception_entry_fields [OF s(6)] and public = claim_public [OF assms(2)] and source = assms(4)
  have kind: "xe_entryKind x = Claim" by (rule version_is_claim [OF s(1)]) (simp add: source public)
  note claim = claim_pays_nothing [OF fields(5) trans [OF fields(1) kind]]
  have pay: "xe_payment x = None" using s(2) kind by (cases "xe_payment x") (simp_all add: check_payment_def)
  then have totals: "ub_totals u = (zeroTotals, zeroTotals)"
    using s(4,7) by (simp add: exception_totals_def hiddenPayrollBookTotals_def)
  obtain parent where parent: "commitmentFromLimbs (ep_parentNullifier (wb_publicInputs b)) = Inr parent"
    "bigint (xe_runNullifier x) = bigint parent"
    using s(3) kind claim(4) BigInt_hex [of "xe_runNullifier x"] fields(3) source
    by (auto simp: check_claim_run_def rbind_Inr_iff split: if_splits)
  note number = limbs_to_commitment [OF assms(1)]
  have "bigint (ue_subjectNullifier (ub_entry u)) = hex_num (wb_claimSubjectNullifier b)"
    "bigint (ue_factCommitment (ub_entry u)) = hex_num (wb_claimFactCommitment b)"
    "bigint (ue_runNullifier (ub_entry u)) = hex_num (os_runNullifier (pl_snapshot (wc_snapshot input)))"
    "bigint (ue_agreementRoot (ub_entry u)) = hex_num (os_baseAgreementRoot (pl_snapshot (wc_snapshot input)))"
    using number [OF public(3)] number [OF public(5)] number [OF public(4) parent(1)] number [OF public(2)]
      s(5) fields(2,3,7,8) source parent(2) by simp_all
  then show ?thesis using kind fields(1,4) claim(1-3) pay totals by simp
qed

end
