(* ===== verification/Book_Proof_Properties.thy ===== *)
theory Book_Proof_Properties
  imports Book_Proofs Book_Input_Properties
begin

text \<open>
  What the inputs of the book circuit, built in theory Book_Proofs, prove about: the public inputs of the two shards
  are the book entry and show amounts only when they are public; a vesting release pays what has vested; a
  remediation enters the book as exactly the payment its fact commits to.
\<close>

section \<open>Public inputs\<close>

lemma transition_build_fields:
  "tb_publicInputs (transition_build_of base tr u k) = (publicBookFields (cb_common base) ''0'', publicBookFields (cb_common base) ''1'')"
  "tb_bookEntry (transition_build_of base tr u k) = ub_entry u" "tb_bookEntryCommitment (transition_build_of base tr u k) = ub_entryCommitment u"
  "tb_totalsOpening (transition_build_of base tr u k) = (ub_totals u, ub_salt u)" "tb_entryKind (transition_build_of base tr u k) = k"
  "tb_scheduleId (transition_build_of base tr u k) = av_scheduleId tr"
  "tb_nextStateCommitment (transition_build_of base tr u k) = av_nextStateCommitment tr"
  "fst (tb_circuitInputs (transition_build_of base tr u k)) = aggregateCircuitFields base ''0'' (fst (ub_shards u))"
  "snd (tb_circuitInputs (transition_build_of base tr u k)) = aggregateCircuitFields base ''1'' (snd (ub_shards u))"
  by (simp_all add: transition_build_of_def Let_def)

lemma common_fields:
  assumes "commonBookFields L c = Inr f"
  shows "cm_book_entry f = ub_entryCommitmentLimbs (ci_universal c)"
    "cm_totals_disclosed f = (if ue_totalsDisclosure (ub_entry (ci_universal c)) = Public then ''1'' else ''0'')"
    "cm_shard_0 f = aggregate_pair (exposedAggregate (ws_aggregate (fst (ub_shards (ci_universal c))))
       (ue_totalsDisclosure (ub_entry (ci_universal c)) = Public))"
    "cm_shard_1 f = aggregate_pair (exposedAggregate (ws_aggregate (snd (ub_shards (ci_universal c))))
       (ue_totalsDisclosure (ub_entry (ci_universal c)) = Public))"
    "root_limbs L (ue_totalsCommitment (ub_entry (ci_universal c))) = Inr (cm_totals_commitment f)"
    "root_limbs L (ci_scheduleId c) = Inr (cm_schedule_id f)" "root_limbs L (ci_nextStateCommitment c) = Inr (cm_next_state f)"
  using assms unfolding commonBookFields_def Let_def by (elim rbindE InrE, hypsubst_thin, (simp only: book_common.select_convs)?, assumption?)+

lemma exception_common_fields:
  assumes "exception_common L i u = Inr f"
  shows "cm_book_entry f = ub_entryCommitmentLimbs u"
    "cm_totals_disclosed f = (if ue_totalsDisclosure (ub_entry u) = Public then ''1'' else ''0'')"
    "cm_shard_0 f = aggregate_pair (exposedAggregate (ws_aggregate (fst (ub_shards u))) (ue_totalsDisclosure (ub_entry u) = Public))"
    "cm_shard_1 f = aggregate_pair (exposedAggregate (ws_aggregate (snd (ub_shards u))) (ue_totalsDisclosure (ub_entry u) = Public))"
    "root_limbs L (ue_totalsCommitment (ub_entry u)) = Inr (cm_totals_commitment f)"
  using assms unfolding exception_common_def Let_def by (elim rbindE InrE, hypsubst_thin, (simp only: book_common.select_convs)?, assumption?)+

lemma book_build_facts:
  assumes "buildUniversalPayrollBookInput L input = Inr u"
  shows "root_limbs L (ub_entryCommitment u) = Inr (ub_entryCommitmentLimbs u)"
    "universalPayrollBookEntryCommitment L (ub_entry u) = Inr (ub_entryCommitment u)"
    "ws_aggregate (fst (ub_shards u)) = aggregateBindings (bi_payroll input) 0 25"
    "ws_aggregate (snd (ub_shards u)) = aggregateBindings (bi_payroll input) 25 50"
proof -
  show "ws_aggregate (fst (ub_shards u)) = aggregateBindings (bi_payroll input) 0 25"
    "ws_aggregate (snd (ub_shards u)) = aggregateBindings (bi_payroll input) 25 50"
    by (rule run_stages [OF assms], erule book_shard_slices(3))+
  show "root_limbs L (ub_entryCommitment u) = Inr (ub_entryCommitmentLimbs u)"
    "universalPayrollBookEntryCommitment L (ub_entry u) = Inr (ub_entryCommitment u)"
    using assms unfolding buildUniversalPayrollBookInput_def Let_def
    by (elim guardE rbindE InrE, hypsubst_thin, simp only: book_build.select_convs)+
qed

lemma exception_build_facts:
  assumes "buildUniversalExceptionPayrollBookInput L x = Inr u"
  shows "root_limbs L (ub_entryCommitment u) = Inr (ub_entryCommitmentLimbs u)"
    "ws_aggregate (fst (ub_shards u)) = \<lparr>ag_contributorCount = 1, ag_STRK = fst (ub_totals u), ag_USDC = snd (ub_totals u)\<rparr>"
    "ws_aggregate (snd (ub_shards u)) = emptyAggregate"
  using assms unfolding buildUniversalExceptionPayrollBookInput_def emptyWitnessShard_def
  by (elim rbindE InrE, hypsubst_thin, simp only: book_build.select_convs book_shard.select_convs fst_conv snd_conv)+

lemma exception_entry_totals:
  assumes "exception_entry x subject totals c = Inr e"
  shows "(ue_totalsSTRK e, ue_totalsUSDC e) = (if exception_disclosure x = Public then totals else hiddenPayrollBookTotals)"
    "commitmentFromLimbs (ep_parentFactCommitment (xe_source x)) = Inr (ue_parentFactCommitment e)"
    "ue_sourceProofVersion e = expected_version (xe_entryKind x)"
  using assms unfolding exception_entry_def Let_def
  by (elim rbindE; clarsimp simp: zod_def simp del: prod.collapse split: if_split_asm; simp)+

text \<open>
  The public inputs of a build show its entry: they are the same for the two shards, they carry the halves of the
  commitments to the entry and to its totals, and amounts only when the entry discloses them; then the amounts of
  the two shards add up to the totals of the entry.
\<close>

definition shows_entry :: "lib \<Rightarrow> transition_build \<Rightarrow> bool" where
  "shows_entry L t \<longleftrightarrow>
     (let p = fst (tb_publicInputs t); e = tb_bookEntry t in
      tp_shardIndex p = ''0'' \<and> snd (tb_publicInputs t) = p\<lparr>tp_shardIndex := ''1''\<rparr>
      \<and> root_limbs L (tb_bookEntryCommitment t) = Inr (tp_bookEntry p)
      \<and> root_limbs L (ue_totalsCommitment e) = Inr (tp_totalsCommitment p)
      \<and> (if ue_totalsDisclosure e = Public
         then tp_totalsDisclosed p = ''1''
           \<and> plus3 (totals_num (fst (tp_shard0 p))) (totals_num (fst (tp_shard1 p))) = totals_num (ue_totalsSTRK e)
           \<and> plus3 (totals_num (snd (tp_shard0 p))) (totals_num (snd (tp_shard1 p))) = totals_num (ue_totalsUSDC e)
         else tp_totalsDisclosed p = ''0'' \<and> tp_shard0 p = (zeroTotals, zeroTotals) \<and> tp_shard1 p = (zeroTotals, zeroTotals)))"

lemma exposed_simps [simp]:
  "exposedAggregate a True = a" "aggregate_pair (exposedAggregate a False) = (zeroTotals, zeroTotals)"
  "fst (aggregate_pair a) = ag_STRK a" "snd (aggregate_pair a) = ag_USDC a"
  by (simp_all add: exposedAggregate_def aggregate_pair_def)

lemma shows_entryI:
  assumes "root_limbs L (ub_entryCommitment u) = Inr (ub_entryCommitmentLimbs u)"
    and "cm_book_entry (cb_common base) = ub_entryCommitmentLimbs u"
    and "cm_totals_disclosed (cb_common base) = (if ue_totalsDisclosure (ub_entry u) = Public then ''1'' else ''0'')"
    and "cm_shard_0 (cb_common base) = aggregate_pair (exposedAggregate (ws_aggregate (fst (ub_shards u))) (ue_totalsDisclosure (ub_entry u) = Public))"
    and "cm_shard_1 (cb_common base) = aggregate_pair (exposedAggregate (ws_aggregate (snd (ub_shards u))) (ue_totalsDisclosure (ub_entry u) = Public))"
    and "root_limbs L (ue_totalsCommitment (ub_entry u)) = Inr (cm_totals_commitment (cb_common base))"
    and "ue_totalsDisclosure (ub_entry u) = Public \<Longrightarrow>
      plus3 (totals_num (ag_STRK (ws_aggregate (fst (ub_shards u))))) (totals_num (ag_STRK (ws_aggregate (snd (ub_shards u)))))
        = totals_num (ue_totalsSTRK (ub_entry u))
      \<and> plus3 (totals_num (ag_USDC (ws_aggregate (fst (ub_shards u))))) (totals_num (ag_USDC (ws_aggregate (snd (ub_shards u)))))
        = totals_num (ue_totalsUSDC (ub_entry u))"
  shows "shows_entry L (transition_build_of base tr u k)"
proof -
  have p: "publicBookFields c i = (publicBookFields c ''0'')\<lparr>tp_shardIndex := i\<rparr>" "tp_shardIndex (publicBookFields c i) = i"
    "tp_bookEntry (publicBookFields c i) = cm_book_entry c" "tp_totalsCommitment (publicBookFields c i) = cm_totals_commitment c"
    "tp_totalsDisclosed (publicBookFields c i) = cm_totals_disclosed c" "tp_shard0 (publicBookFields c i) = cm_shard_0 c"
    "tp_shard1 (publicBookFields c i) = cm_shard_1 c" for c i by (simp_all add: publicBookFields_def)
  show ?thesis
  proof (cases "ue_totalsDisclosure (ub_entry u) = Public")
    case True
    then show ?thesis
      using assms p(2-7) p(1) [of _ "''1''"] by (simp add: shows_entry_def Let_def transition_build_fields)
  next
    case False
    then show ?thesis
      using assms(1-6) p(2-7) p(1) [of _ "''1''"] by (simp add: shows_entry_def Let_def transition_build_fields)
  qed
qed

lemma run_shows_totals:
  assumes "buildUniversalPayrollBookInput L input = Inr u" "ue_totalsDisclosure (ub_entry u) = Public"
  shows "plus3 (totals_num (ag_STRK (ws_aggregate (fst (ub_shards u))))) (totals_num (ag_STRK (ws_aggregate (snd (ub_shards u)))))
        = totals_num (ue_totalsSTRK (ub_entry u))
      \<and> plus3 (totals_num (ag_USDC (ws_aggregate (fst (ub_shards u))))) (totals_num (ag_USDC (ws_aggregate (snd (ub_shards u)))))
        = totals_num (ue_totalsUSDC (ub_entry u))"
proof -
  obtain state c where s: "run_entry input state (ag_contributorCount (aggregateBindings (bi_payroll input) 0 25)
       + ag_contributorCount (aggregateBindings (bi_payroll input) 25 50)) (ub_totals u) c = Inr (ub_entry u)"
    "ub_totals u = sumAggregate (aggregateBindings (bi_payroll input) 0 25) (aggregateBindings (bi_payroll input) 25 50)"
    by (rule run_stages [OF assms(1)]) (rule that; assumption)
  have "(ue_totalsSTRK (ub_entry u), ue_totalsUSDC (ub_entry u))
      = sumAggregate (aggregateBindings (bi_payroll input) 0 25) (aggregateBindings (bi_payroll input) 25 50)"
    using run_entry_fields(3,4) [OF s(1)] s(2) assms(2) by simp
  then show ?thesis using book_build_facts(3,4) [OF assms(1)] by (simp add: sumAggregate_def)
qed

lemma exception_shows_totals:
  assumes "buildUniversalExceptionPayrollBookInput L x = Inr u" "ue_totalsDisclosure (ub_entry u) = Public"
  shows "plus3 (totals_num (ag_STRK (ws_aggregate (fst (ub_shards u))))) (totals_num (ag_STRK (ws_aggregate (snd (ub_shards u)))))
        = totals_num (ue_totalsSTRK (ub_entry u))
      \<and> plus3 (totals_num (ag_USDC (ws_aggregate (fst (ub_shards u))))) (totals_num (ag_USDC (ws_aggregate (snd (ub_shards u)))))
        = totals_num (ue_totalsUSDC (ub_entry u))"
proof -
  obtain totals subject c where s: "exception_entry x subject totals c = Inr (ub_entry u)" "ub_totals u = totals"
    by (rule exception_stages [OF assms(1)]) (rule that; assumption)
  have "(ue_totalsSTRK (ub_entry u), ue_totalsUSDC (ub_entry u)) = totals"
    using exception_entry_totals(1) [OF s(1)] exception_entry_fields(6) [OF s(1)] assms(2) by simp
  then show ?thesis using exception_build_facts(2,3) [OF assms(1)] s(2) by (auto simp: emptyAggregate_def)
qed

section \<open>The three builders\<close>

lemma pairE:
  assumes "(case p of (a, b) \<Rightarrow> f a b) = Inr x"
  obtains a b where "p = (a, b)" "f a b = Inr x"
  using assms by (cases p) simp

lemma run_build_stages:
  assumes "buildPayrollBookEntryInputs L i = Inr t"
  obtains att :: attestation_circuit and u base where "t = transition_build_of base no_transition u (entry_kind_or_ordinary (pi_entryKind i))"
    "buildUniversalPayrollBookInput L (run_entry_input i (xc_root att)) = Inr u"
    "commonBookFields L (run_common_input i (xc_root att) u) = Inr (cb_common base)"
  using assms unfolding buildPayrollBookEntryInputs_def
  by (elim rbindE InrE) (rule that, assumption, assumption, simp only: circuit_base.select_convs)

lemma vesting_build_stages:
  assumes "buildVestingTransitionInputs L i = Inr t"
  obtains a v plan binding schedule tr and att :: attestation_circuit and u am pm base where "t = transition_build_of base tr u Vesting_entry"
    "vesting_plan_of L (vi_agreement i) = Inr (a, v, plan)" "vesting_binding L (vi_payroll i) (vi_agreement i) = Inr binding"
    "vesting_schedule_of L a v plan binding = Inr schedule" "vesting_release L i schedule plan binding = Inr tr"
    "buildUniversalPayrollBookInput L (vesting_entry_input i (xc_root att) tr) = Inr u"
    "run_openings L (vi_payroll i) (bn_index binding) = Inr (am, pm)"
    "commonBookFields L (vesting_common_input i (xc_root att) tr u) = Inr (cb_common base)"
    "cb_agreement_membership base = fixed_witness_of am" "cb_payroll_membership base = fixed_witness_of pm"
    "cb_agreement base = bn_agreement binding" "cb_line base = bn_line binding"
  using assms unfolding buildVestingTransitionInputs_def Let_def
  by (elim rbindE pairE InrE)
    (rule that, assumption, hypsubst, assumption, assumption, assumption, assumption, assumption, hypsubst, assumption,
      simp_all only: circuit_base.select_convs)

lemma exception_build_stages:
  assumes "buildExceptionPayrollBookEntryInputs L i = Inr t"
  obtains claim h source run w amount u base where "t = transition_build_of base no_transition u (xi_entryKind i)"
    "zod ''exceptionClaimFactSchema'' exceptionClaimFactSchema (xi_claimFact i) = Inr claim" "claimFactCommitmentV2 L claim = Inr h"
    "source_commitments_of (xi_source i) = Inr source" "BigInt (xi_runNullifier i) = Inr run" "\<not> run \<noteq> bigint (cl_runNullifier claim)"
    "exception_witness_of L i source h = Inr (w, amount)"
    "buildUniversalExceptionPayrollBookInput L (exception_book_input_of i amount) = Inr u"
    "exception_common L i u = Inr (cb_common base)" "cb_exception_entry base = w"
  using assms unfolding buildExceptionPayrollBookEntryInputs_def
  by (elim rbindE guardE pairE InrE)
    (rule that, assumption, assumption, assumption, assumption, assumption, assumption, hypsubst, assumption, assumption,
      simp_all only: circuit_base.select_convs)

text \<open>C17: The public inputs of the book circuit are the entry.  For a run, a vesting release, a
  claim or a remediation, the two shards have the same public inputs but for their index; these carry the halves of
  the commitments to the entry and to its totals; amounts appear in them only when the entry discloses its totals,
  and then the amounts of the two shards add up to the totals of the entry; otherwise all of them are zero.\<close>

theorem book_circuit_shows_entry:
  assumes "buildPayrollBookEntryInputs L r = Inr t \<or> buildVestingTransitionInputs L v = Inr t
    \<or> buildExceptionPayrollBookEntryInputs L x = Inr t"
  shows "shows_entry L t"
  using assms
proof (elim disjE)
  assume "buildPayrollBookEntryInputs L r = Inr t"
  then obtain att :: attestation_circuit and u base where s: "t = transition_build_of base no_transition u (entry_kind_or_ordinary (pi_entryKind r))"
    "buildUniversalPayrollBookInput L (run_entry_input r (xc_root att)) = Inr u"
    "commonBookFields L (run_common_input r (xc_root att) u) = Inr (cb_common base)" by (rule run_build_stages)
  have "ci_universal (run_common_input r (xc_root att) u) = u" by (simp add: run_common_input_def)
  then show ?thesis
    unfolding s(1) using common_fields [OF s(3)] book_build_facts(1) [OF s(2)] run_shows_totals [OF s(2)] by (intro shows_entryI) simp_all
next
  assume "buildVestingTransitionInputs L v = Inr t"
  then obtain tr and att :: attestation_circuit and u base where s: "t = transition_build_of base tr u Vesting_entry"
    "buildUniversalPayrollBookInput L (vesting_entry_input v (xc_root att) tr) = Inr u"
    "commonBookFields L (vesting_common_input v (xc_root att) tr u) = Inr (cb_common base)"
    by (rule vesting_build_stages) (rule that; assumption)
  have "ci_universal (vesting_common_input v (xc_root att) tr u) = u" by (simp add: vesting_common_input_def)
  then show ?thesis
    unfolding s(1) using common_fields [OF s(3)] book_build_facts(1) [OF s(2)] run_shows_totals [OF s(2)] by (intro shows_entryI) simp_all
next
  assume "buildExceptionPayrollBookEntryInputs L x = Inr t"
  then obtain amount u base where s: "t = transition_build_of base no_transition u (xi_entryKind x)"
    "buildUniversalExceptionPayrollBookInput L (exception_book_input_of x amount) = Inr u" "exception_common L x u = Inr (cb_common base)"
    by (rule exception_build_stages) (rule that; assumption)
  show ?thesis
    unfolding s(1) using exception_common_fields [OF s(3)] exception_build_facts(1) [OF s(2)] exception_shows_totals [OF s(2)]
    by (intro shows_entryI) simp_all
qed

section \<open>A release pays what has vested\<close>

lemma vesting_binding_Inr:
  assumes "vesting_binding L payroll agreement = Inr b"
  shows "filter (\<lambda>b. bn_agreementId b = ag_id (agreement_base_of agreement)) (ib_proofBindings payroll) = [b]"
    "\<exists>c. advancedPlanProofCommitment L agreement = Inr c \<and> BigInt (li_scheduleCommitment (bn_source b)) = BigInt c"
proof -
  let ?mine = "\<lambda>b. bn_agreementId b = ag_id (agreement_base_of agreement)"
  have found: "find ?mine (ib_proofBindings payroll) = Some b" and one: "length (filter ?mine (ib_proofBindings payroll)) = 1"
    and c: "\<exists>c. advancedPlanProofCommitment L agreement = Inr c \<and> BigInt (li_scheduleCommitment (bn_source b)) = BigInt c"
    using assms by (auto simp: vesting_binding_def Let_def rbind_Inr_iff split: option.splits if_splits)
  from found have "b \<in> set (filter ?mine (ib_proofBindings payroll))" by (auto simp: find_Some_iff in_set_conv_nth)
  with one show "filter ?mine (ib_proofBindings payroll) = [b]" by (cases "filter ?mine (ib_proofBindings payroll)") auto
  show "\<exists>c. advancedPlanProofCommitment L agreement = Inr c \<and> BigInt (li_scheduleCommitment (bn_source b)) = BigInt c" by (rule c)
qed

lemma vesting_plan_Inr:
  assumes "vesting_plan_of L agreement = Inr (a, v, plan)"
  shows "agreement = Agreement_v2 a v" "v2_paymentPlan v = Plan_vesting plan" "employmentAgreementSchema L agreement"
  using assms by (cases agreement; auto simp: vesting_plan_of_def rbind_Inr_iff split: payment_plan.splits)+

lemma vesting_release_Inr:
  assumes "vesting_release L i schedule plan binding = Inr tr"
  shows "\<exists>scheduleId releaseAt earned. vestingScheduleId L schedule = Inr scheduleId \<and> unix_seconds (vp_releaseAt plan) = Inr releaseAt
    \<and> vestedAt schedule (bigint releaseAt) = Inr earned
    \<and> BigInt (grossAtomic (bn_calculated binding)) = Inr (earned - bigint (vp_releasedAtomic plan)) \<and> bigint (vp_releasedAtomic plan) < earned
    \<and> bigint (vt_cliffAt schedule) \<le> bigint releaseAt \<and> bigint releaseAt \<le> bigint (vt_endsAt schedule)
    \<and> av_scheduleId tr = scheduleId
    \<and> vestingStateCommitment L (vesting_state_of scheduleId (toString earned) (vp_releaseSequence plan + 1) (vi_nextStateSalt i))
        = Inr (av_nextStateCommitment tr)"
proof -
  obtain scheduleId releaseAt where s: "vestingScheduleId L schedule = Inr scheduleId" "unix_seconds (vp_releaseAt plan) = Inr releaseAt"
    "0 < plan_earned schedule releaseAt - bigint (vp_releasedAtomic plan)"
    "BigInt (grossAtomic (bn_calculated binding)) = Inr (plan_earned schedule releaseAt - bigint (vp_releasedAtomic plan))"
    "assertVestingTransition L \<lparr>vr_schedule = schedule,
       vr_previous = vesting_state_of scheduleId (vp_releasedAtomic plan) (vp_releaseSequence plan) (vi_previousStateSalt i),
       vr_releaseAt = releaseAt, vr_payableAtomic = toString (plan_earned schedule releaseAt - bigint (vp_releasedAtomic plan)),
       vr_next = vesting_state_of scheduleId (toString (plan_earned schedule releaseAt)) (vp_releaseSequence plan + 1) (vi_nextStateSalt i),
       vr_runNullifier = ib_runNullifier (vi_payroll i)\<rparr> = Inr tr"
    using assms by (auto simp: vesting_release_def Let_def rbind_Inr_iff not_le split: if_splits)
  note transition = assertVestingTransition_Inr [OF s(5)]
  have nonneg: "0 \<le> plan_earned schedule releaseAt" using s(3) bigint_nonneg [of "vp_releasedAtomic plan"] by linarith
  then have earned: "plan_earned schedule releaseAt = vested_share schedule (bigint releaseAt)"
    using transition(3) by (simp add: vesting_state_of_def)
  have fields: "av_scheduleId tr = scheduleId"
    "vestingStateCommitment L (vesting_state_of scheduleId (toString (plan_earned schedule releaseAt)) (vp_releaseSequence plan + 1) (vi_nextStateSalt i))
      = Inr (av_nextStateCommitment tr)"
    using s(5) s(1) by (auto simp: assertVestingTransition_def rbind_Inr_iff Let_def zod_def split: if_splits)
  show ?thesis
    using s(1-4) transition(1,6,7) fields by (auto simp: vestedAt_share earned [symmetric])
qed

text \<open>
  The release that a vesting transition proves.  The agreement is a v2 agreement with a vesting plan and pays exactly one
  line of the run, whose leaf is bound to that plan; the gross pay of the line is what the plan has earned at its release
  less what it had released before, which is positive; and the public next state is the commitment to the earned amount
  and the next release number.
\<close>

theorem vesting_entry_pays_vested:
  assumes "buildVestingTransitionInputs L i = Inr t"
  shows "\<exists>a v plan binding schedule scheduleId releaseAt earned. vi_agreement i = Agreement_v2 a v \<and> v2_paymentPlan v = Plan_vesting plan
    \<and> filter (\<lambda>b. bn_agreementId b = ag_id a) (ib_proofBindings (vi_payroll i)) = [binding]
    \<and> (\<exists>c. advancedPlanProofCommitment L (vi_agreement i) = Inr c \<and> BigInt (li_scheduleCommitment (bn_source binding)) = BigInt c)
    \<and> vt_totalAtomic schedule = vp_totalAtomic plan \<and> unix_seconds (vp_releaseAt plan) = Inr releaseAt
    \<and> vestedAt schedule (bigint releaseAt) = Inr earned
    \<and> BigInt (grossAtomic (bn_calculated binding)) = Inr (earned - bigint (vp_releasedAtomic plan)) \<and> bigint (vp_releasedAtomic plan) < earned
    \<and> vestingStateCommitment L (vesting_state_of scheduleId (toString earned) (vp_releaseSequence plan + 1) (vi_nextStateSalt i))
        = Inr (tb_nextStateCommitment t)
    \<and> root_limbs L (tb_nextStateCommitment t) = Inr (tp_nextState (fst (tb_publicInputs t)))
    \<and> root_limbs L scheduleId = Inr (tp_scheduleId (fst (tb_publicInputs t)))"
proof -
  obtain a v plan binding schedule tr and att :: attestation_circuit and u base where s: "t = transition_build_of base tr u Vesting_entry"
    "vesting_plan_of L (vi_agreement i) = Inr (a, v, plan)" "vesting_binding L (vi_payroll i) (vi_agreement i) = Inr binding"
    "vesting_schedule_of L a v plan binding = Inr schedule" "vesting_release L i schedule plan binding = Inr tr"
    "commonBookFields L (vesting_common_input i (xc_root att) tr u) = Inr (cb_common base)"
    by (rule vesting_build_stages [OF assms]) (rule that; assumption)
  note plan = vesting_plan_Inr [OF s(2)] and binding = vesting_binding_Inr [OF s(3)]
  have total: "vt_totalAtomic schedule = vp_totalAtomic plan" using s(4) by (auto simp: vesting_schedule_of_def rbind_Inr_iff)
  have ident: "ag_id (agreement_base_of (vi_agreement i)) = ag_id a" by (simp add: plan)
  have input: "ci_scheduleId (vesting_common_input i (xc_root att) tr u) = av_scheduleId tr"
    "ci_nextStateCommitment (vesting_common_input i (xc_root att) tr u) = av_nextStateCommitment tr"
    by (simp_all add: vesting_common_input_def)
  have public: "tp_nextState (fst (tb_publicInputs t)) = cm_next_state (cb_common base)"
    "tp_scheduleId (fst (tb_publicInputs t)) = cm_schedule_id (cb_common base)" "tb_nextStateCommitment t = av_nextStateCommitment tr"
    by (simp_all add: s(1) transition_build_fields publicBookFields_def)
  from vesting_release_Inr [OF s(5)] plan(1,2) binding total common_fields(6,7) [OF s(6)]
  show ?thesis unfolding ident input public by blast
qed

section \<open>A claim pays nothing, a remediation exactly its fact\<close>

lemma joined_is_from_limbs: "joinedPublicCommitment p = Inr s \<longleftrightarrow> commitmentFromLimbs p = Inr s"
  by (cases p) (auto simp: joinedPublicCommitment_def commitmentFromLimbs_def rbind_Inr_iff)

lemma source_commitments_Inr:
  assumes "source_commitments_of p = Inr s"
  shows "commitmentFromLimbs (ep_subjectNullifier p) = Inr (sc_subject s)" "commitmentFromLimbs (ep_factCommitment p) = Inr (sc_fact s)"
    "commitmentFromLimbs (ep_parentFactCommitment p) = Inr (sc_parentFact s)" "commitmentFromLimbs (ep_fxRoot p) = Inr (sc_fx s)"
  using assms by (auto simp: source_commitments_of_def rbind_Inr_iff joined_is_from_limbs)

lemma claim_witness_amount:
  assumes "exception_witness_of L i source h = Inr (w, amount)" "xi_entryKind i = Claim"
  shows "amount = None" "bigint (sc_fact source) = bigint h"
    "bigint (sc_subject source) = bigint (cl_claimSubjectNullifier (xi_claimFact i))"
  using assms by (auto simp: exception_witness_of_def claim_entry_witness_def Let_def rbind_Inr_iff split: if_splits)

lemma remediation_witness_amount:
  assumes "exception_witness_of L i source h = Inr (w, amount)" "xi_entryKind i \<noteq> Claim"
  shows "\<exists>r subject f n. xi_remediation i = Some r
    \<and> remediationSubjectNullifierV2 L (cl_claimSubjectNullifier (xi_claimFact i)) (er_remediationSecret r) = Inr subject
    \<and> remediationFactCommitmentV2 L (paid_fact (xi_claimFact i) r subject h (sc_fx source)) = Inr f
    \<and> bigint (sc_subject source) = bigint subject \<and> bigint (sc_fact source) = bigint f \<and> bigint (sc_parentFact source) = bigint h
    \<and> BigInt (er_amountAtomic r) = Inr n \<and> amount = Some (toString n)"
  using assms
  by (auto simp: exception_witness_of_def remediation_entry_witness_def Let_def rbind_Inr_iff split: if_splits option.splits)

text \<open>C18: The entry of a claim or of a remediation that the circuit proves.  Its fact is the number of the commitment to the
  private claim, and then it pays nothing; or it is the number of the commitment to a remediation of that claim, and
  then the totals of the entry are exactly the amount of that remediation in the token the claim is owed in.
\<close>

theorem exception_entry_pays_fact:
  assumes "buildExceptionPayrollBookEntryInputs L i = Inr t"
  shows "exceptionClaimFactSchema (xi_claimFact i) \<and> (\<exists>h. claimFactCommitmentV2 L (xi_claimFact i) = Inr h
    \<and> (if xi_entryKind i = Claim
       then bigint (ue_factCommitment (tb_bookEntry t)) = bigint h \<and> fst (tb_totalsOpening t) = (zeroTotals, zeroTotals)
       else \<exists>r subject fx f n. xi_remediation i = Some r
         \<and> remediationFactCommitmentV2 L (paid_fact (xi_claimFact i) r subject h fx) = Inr f
         \<and> bigint (ue_factCommitment (tb_bookEntry t)) = bigint f \<and> bigint (ue_subjectNullifier (tb_bookEntry t)) = bigint subject
         \<and> bigint (ue_parentFactCommitment (tb_bookEntry t)) = bigint h
         \<and> BigInt (er_amountAtomic r) = Inr n
         \<and> fst (tb_totalsOpening t) =
             (let paid = \<lparr>bt_grossAtomic = toString n, bt_deductionsAtomic = ''0'', bt_netAtomic = toString n\<rparr> in
              if cl_obligationToken (xi_claimFact i) = STRK then (paid, zeroTotals) else (zeroTotals, paid))))"
proof -
  obtain claim h source w amount u base where s: "t = transition_build_of base no_transition u (xi_entryKind i)"
    "zod ''exceptionClaimFactSchema'' exceptionClaimFactSchema (xi_claimFact i) = Inr claim" "claimFactCommitmentV2 L claim = Inr h"
    "source_commitments_of (xi_source i) = Inr source" "exception_witness_of L i source h = Inr (w, amount)"
    "buildUniversalExceptionPayrollBookInput L (exception_book_input_of i amount) = Inr u"
    by (rule exception_build_stages [OF assms]) (rule that; assumption)
  obtain totals subject c where e: "exception_totals (exception_book_input_of i amount) = Inr totals"
    "commitmentFromLimbs (ep_subjectNullifier (xi_source i)) = Inr subject"
    "exception_entry (exception_book_input_of i amount) subject totals c = Inr (ub_entry u)" "ub_totals u = totals"
    by (rule exception_stages [OF s(6)]) (rule that; simp add: exception_book_input_of_def)
  have input: "xe_source (exception_book_input_of i amount) = xi_source i"
    "xe_payment (exception_book_input_of i amount) = map_option (\<lambda>a. (cl_obligationToken (xi_claimFact i), a)) amount"
    by (simp_all add: exception_book_input_of_def)
  note sources = source_commitments_Inr [OF s(4)]
  have entry: "ue_factCommitment (ub_entry u) = sc_fact source" "ue_subjectNullifier (ub_entry u) = sc_subject source"
    "ue_parentFactCommitment (ub_entry u) = sc_parentFact source"
    using exception_entry_fields(2,8) [OF e(3)] exception_entry_totals(2) [OF e(3)] sources e(2) by (simp_all add: input)
  have claim: "exceptionClaimFactSchema (xi_claimFact i)" "claimFactCommitmentV2 L (xi_claimFact i) = Inr h" using s(2,3) by auto
  show ?thesis
  proof (cases "xi_entryKind i = Claim")
    case True
    note a = claim_witness_amount [OF s(5) True]
    have "totals = (zeroTotals, zeroTotals)" using e(1) a(1) by (simp add: exception_totals_def exception_book_input_of_def hiddenPayrollBookTotals_def)
    then show ?thesis using claim True a(2) entry(1) e(4) by (simp add: s(1) transition_build_fields)
  next
    case False
    from remediation_witness_amount [OF s(5) False] obtain r subject f n where r: "xi_remediation i = Some r"
      "remediationFactCommitmentV2 L (paid_fact (xi_claimFact i) r subject h (sc_fx source)) = Inr f"
      "bigint (sc_subject source) = bigint subject" "bigint (sc_fact source) = bigint f" "bigint (sc_parentFact source) = bigint h"
      "BigInt (er_amountAtomic r) = Inr n" "amount = Some (toString n)" by blast
    have "totals = (let paid = \<lparr>bt_grossAtomic = toString n, bt_deductionsAtomic = ''0'', bt_netAtomic = toString n\<rparr> in
              if cl_obligationToken (xi_claimFact i) = STRK then (paid, zeroTotals) else (zeroTotals, paid))"
      using e(1) r(7) by (auto simp: exception_totals_def exception_book_input_of_def rbind_Inr_iff Let_def)
    then show ?thesis
      using claim False r(1-6) entry e(4) by (auto simp: s(1) transition_build_fields)
  qed
qed

end
