(* ===== verification/Book_Example.thy ===== *)
theory Book_Example
  imports Book_Input_Properties Input_Example
begin

text \<open>
  One entry of each kind that theory Book_Inputs builds: the entry of a run of one line, and the entry of a claim.
  A payroll book refuses commitments that are zero, so the library of these examples is the reference library with
  a digest that never is.
\<close>

section \<open>A digest that is not zero\<close>

definition book_lib :: lib where
  "book_lib = ref_lib\<lparr>keccak_256 := (\<lambda>_. replicate 32 1)\<rparr>"

definition one_hex :: string where
  "one_hex = toHex book_lib (replicate 32 1)"

lemma book_lib_ok [simp]: "hex_lib_ok book_lib" "keccak_32 book_lib"
  using ref_lib_hex by (simp_all add: book_lib_def hex_lib_ok_def keccak_32_def)

lemma one_hex_facts: "commitment_ok one_hex" "bigint one_hex \<noteq> 0"
  by code_simp+

lemma book_hash_fields:
  assumes "list_all (\<lambda>r. \<exists>bs. r = Inr bs) rs"
  shows "hash_fields book_lib d rs = Inr one_hex"
proof -
  have "keccak_256 book_lib bs = replicate 32 1" for bs by (simp add: book_lib_def)
  then show ?thesis
    using hash_fields_total [OF book_lib_ok assms, of d] by (auto simp: hash_fields_def one_hex_def rbind_Inr_iff)
qed

lemma book_entry_hash:
  assumes "universalPayrollBookEntrySchema e"
    and "list_all (\<lambda>a. bigint a < 256 ^ 32) [ue_chainId e, ue_sealAddress e, ue_sourceSealAddress e, ue_ownerAddress e]"
  shows "\<exists>h q. universalPayrollBookEntryCommitment book_lib e = Inr h \<and> root_limbs book_lib h = Inr q"
proof -
  obtain h where h: "universalPayrollBookEntryCommitment book_lib e = Inr h" "commitment_ok h"
    using universal_commitment_total [OF book_lib_ok assms] by blast
  then show ?thesis
    using normalizedHexBytes_commitment [OF book_lib_ok(1) h(2)] by (fastforce simp: root_limbs_def splitHashToU128_def)
qed

lemma book_totals_hash:
  assumes "commitment_ok subject" "0 < n" "n \<le> 50" "payrollBookTokenTotalsSchema s" "payrollBookTokenTotalsSchema t" "commitment_ok salt'"
  shows "payrollBookTotalsCommitment book_lib subject n s t salt' = Inr one_hex"
proof -
  have "list_all (\<lambda>r. \<exists>bs. r = Inr bs) ([commitment_field book_lib subject, encodeU32 n]
      @ totals_fields s @ totals_fields t @ [commitment_field book_lib salt'])"
    using assms fixed32_total [OF book_lib_ok(1)] encodeU32_total [of n] totals_fields_total
    by (simp add: commitment_field_def fixed32_def)
  from book_hash_fields [OF this] assms(2-5) show ?thesis by (simp add: payrollBookTotalsCommitment_def)
qed

text \<open>The texts of the entries.\<close>

definition example_salt :: string where
  "example_salt = ''0x'' @ replicate 63 (CHR ''0'') @ ''1''"

lemma book_texts:
  "salt_text ''0x1'' = Inr example_salt" "salt_text example_salt = Inr example_salt" "commitment_ok example_salt"
  "hex_number (toString 1) = Inr ''0x1''" "hex_number (toString 2) = Inr ''0x2''" "hex_number ''0x1'' = Inr ''0x1''" "hex_number ''0x2'' = Inr ''0x2''" "hex_number ''0x3'' = Inr ''0x3''"
  "starknet_address_ok ''0x1''" "starknet_address_ok ''0x2''" "starknet_address_ok ''0x3''"
  "bigint ''0x1'' = 1" "bigint ''0x2'' = 2" "bigint ''0x3'' = 3"
  "unixSecondsSchema (toString 1767225600)" "unixSecondsSchema (toString 1798761600)" "bigint ZERO = 0"
  "payrollBookTokenTotalsSchema zeroTotals" "bigint example_hex \<noteq> 0" "commitment_ok ZERO"
  by code_simp+

section \<open>The entry of a run\<close>

definition book_public :: "string \<Rightarrow> public_inputs" where
  "book_public shard = \<lparr>up_chainId = ''1'', up_sealAddress = ''1'', up_proofVersion = ''1'', up_schemaVersion = ''1'',
     up_agreementRoot = (''1'', ''1''), up_manifestRoot = (''1'', ''1''), up_policyRoot = (''1'', ''1''), up_fxRoot = (''1'', ''1''),
     up_runNullifier = (''1'', ''1''), up_validityStart = toString 1768035700, up_validityExpiry = toString 1768035700, up_shardIndex = shard\<rparr>"

definition book_binding :: proof_binding where
  "book_binding = \<lparr>bn_index = 0, bn_agreementId = ''a1'', bn_source = example_input_line, bn_calculated = example_calculated,
     bn_agreementLeaf = example_hex, bn_agreement = emptyAgreement, bn_payrollLeaf = example_hex, bn_line = emptyLine,
     bn_fxSnapshot = emptySnapshot, bn_fxMembership = emptyMembership\<rparr>"

definition book_run :: input_build where
  "book_run = \<lparr>ib_circuitInputs = undefined, ib_publicInputs = (book_public ''0'', book_public ''1''), ib_agreementRoot = example_hex,
     ib_manifestRoot = example_hex, ib_policyRoot = example_hex, ib_fxRoot = example_hex, ib_runNullifier = example_hex,
     ib_calculatedLines = [example_calculated], ib_proofBindings = [book_binding]\<rparr>"

definition book_run_input :: book_input where
  "book_run_input = \<lparr>bi_payroll = book_run, bi_entryKind = Ordinary, bi_ownerAddress = ''0x1'', bi_bookSealAddress = Some ''0x3'',
     bi_sourceSealAddress = ''1'', bi_periodStart = 1767225600, bi_periodEnd = 1798761600, bi_totalsDisclosure = Public,
     bi_totalsSalt = example_salt, bi_attestationRoot = Some ZERO, bi_vestingScheduleId = None, bi_vestingStateCommitment = None\<rparr>"

definition book_paid :: book_totals where
  "book_paid = \<lparr>bt_grossAtomic = ''3000'', bt_deductionsAtomic = ''500'', bt_netAtomic = ''2500''\<rparr>"

lemma book_run_texts:
  "BigInt ''0'' = Inr 0" "BigInt ''1'' = Inr 1"
  "hex_number ''1'' = Inr ''0x1''"
  "add_text ''0'' ''0'' = ''0''" "add_text ''0'' ''3000'' = ''3000''" "add_text ''0'' ''500'' = ''500''" "add_text ''0'' ''2500'' = ''2500''"
  "add_text ''3000'' ''0'' = ''3000''" "add_text ''500'' ''0'' = ''500''" "add_text ''2500'' ''0'' = ''2500''"
  "payrollBookTokenTotalsSchema book_paid" "bigint (bt_netAtomic book_paid) = 2500" "bigint (bt_netAtomic zeroTotals) = 0"
  by code_simp+

lemma book_run_facts:
  "assertCommonPayrollState book_run = Inr (book_public ''0'')"
  "BigInt (up_validityStart (book_public ''0'')) = Inr 1768035700" "hex_number (up_chainId (book_public ''0'')) = Inr ''0x1''"
  "aggregateBindings book_run 0 25 = \<lparr>ag_contributorCount = 1, ag_STRK = zeroTotals, ag_USDC = book_paid\<rparr>"
  "aggregateBindings book_run 25 50 = emptyAggregate"
  "sumAggregate \<lparr>ag_contributorCount = 1, ag_STRK = zeroTotals, ag_USDC = book_paid\<rparr> emptyAggregate = (zeroTotals, book_paid)"
  by (simp_all add: book_run_def book_public_def assertCommonPayrollState_def common_texts_def book_run_texts aggregateBindings_def
      aggregate_step_def book_binding_def example_calculated_def emptyAggregate_def zeroTotals_def add_calculated_def book_paid_def
      sumAggregate_def add_totals_def)

lemma book_run_leaves: "\<exists>t. leaf_slots [example_hex] = Inr t"
  using BigInt_hex [of example_hex] example_hex_ok by (simp add: leaf_slots_def fit_def)

lemma book_run_shard: "i \<in> {0, 25} \<Longrightarrow> \<exists>s. makeBookShard book_run al pl i a = Inr s"
  by (auto simp: makeBookShard_def fit_def book_run_def Let_def)

definition book_run_entry :: universal_entry where
  "book_run_entry = \<lparr>ue_entryKind = Ordinary, ue_chainId = ''0x1'', ue_sealAddress = ''0x3'', ue_sourceSealAddress = ''0x1'',
     ue_ownerAddress = ''0x1'', ue_periodStart = toString 1767225600, ue_periodEnd = toString 1798761600,
     ue_agreementRoot = example_hex, ue_manifestRoot = example_hex, ue_policyRoot = example_hex, ue_fxRoot = example_hex,
     ue_runNullifier = example_hex, ue_subjectNullifier = example_hex, ue_parentFactCommitment = ZERO, ue_factCommitment = ZERO,
     ue_sourceProofVersion = 2, ue_attestationRoot = ZERO, ue_contributorCount = 1, ue_totalsDisclosure = Public,
     ue_totalsCommitment = one_hex, ue_totalsSTRK = zeroTotals, ue_totalsUSDC = book_paid, ue_vestingScheduleId = ZERO,
     ue_vestingStateCommitment = ZERO\<rparr>"

lemma book_run_entry_ok: "universalPayrollBookEntrySchema book_run_entry"
  using book_texts example_hex_ok one_hex_facts book_run_texts(11-13)
  by (simp add: universalPayrollBookEntrySchema_def universal_entry_shape_def entry_roots_ok_def entry_vesting_ok_def
      entry_facts_ok_def entry_totals_ok_def payroll_entry_def zero_text_def book_run_entry_def)

lemma book_run_built: "\<exists>u. buildUniversalPayrollBookInput book_lib book_run_input = Inr u \<and> ub_entry u = book_run_entry"
proof -
  have entry: "run_entry book_run_input (book_public ''0'') 1 (zeroTotals, book_paid) one_hex = Inr book_run_entry"
    using book_run_entry_ok book_run_facts(3) book_texts book_run_texts(3)
    by (simp add: run_entry_def book_run_input_def book_run_def book_run_entry_def text_or_def Let_def)
  obtain h q where h: "universalPayrollBookEntryCommitment book_lib book_run_entry = Inr h" "root_limbs book_lib h = Inr q"
    using book_entry_hash [OF book_run_entry_ok] book_texts by (auto simp: book_run_entry_def)
  have hash: "payrollBookTotalsCommitment book_lib example_hex 1 zeroTotals book_paid example_salt = Inr one_hex"
    by (rule book_totals_hash) (simp_all add: example_hex_ok book_texts book_run_texts)
  obtain t where t: "leaf_slots [example_hex] = Inr t" using book_run_leaves by blast
  obtain s0 s1 where s: "makeBookShard book_run t t 0 \<lparr>ag_contributorCount = 1, ag_STRK = zeroTotals, ag_USDC = book_paid\<rparr> = Inr s0"
    "makeBookShard book_run t t 25 emptyAggregate = Inr s1"
    using book_run_shard [of 0 t t "\<lparr>ag_contributorCount = 1, ag_STRK = zeroTotals, ag_USDC = book_paid\<rparr>"]
      book_run_shard [of 25 t t emptyAggregate] by auto
  have run: "ib_proofBindings book_run = [book_binding]" "ib_runNullifier book_run = example_hex"
    "bn_agreementLeaf book_binding = example_hex" "bn_payrollLeaf book_binding = example_hex" "ag_contributorCount emptyAggregate = 0"
    by (simp_all add: book_run_def book_binding_def emptyAggregate_def)
  have input: "bi_payroll book_run_input = book_run" "bi_periodStart book_run_input = 1767225600"
    "bi_periodEnd book_run_input = 1798761600" "bi_totalsSalt book_run_input = example_salt"
    by (simp_all add: book_run_input_def)
  show ?thesis
    by (simp add: buildUniversalPayrollBookInput_def Let_def input run book_run_facts t check_period_def book_texts(2) hash entry h s)
qed

theorem book_entry_is_run_witness:
  "\<exists>u. buildUniversalPayrollBookInput book_lib book_run_input = Inr u \<and> ue_contributorCount (ub_entry u) = 1
     \<and> totals_num (ue_totalsUSDC (ub_entry u)) = (3000, 500, 2500) \<and> totals_num (ue_totalsSTRK (ub_entry u)) = (0, 0, 0)"
proof -
  obtain u where u: "buildUniversalPayrollBookInput book_lib book_run_input = Inr u" using book_run_built by blast
  have "bi_totalsDisclosure book_run_input = Public" "length (ib_proofBindings (bi_payroll book_run_input)) = 1"
    "lines_num STRK (map bn_calculated (ib_proofBindings (bi_payroll book_run_input))) = (0, 0, 0)"
    "lines_num USDC (map bn_calculated (ib_proofBindings (bi_payroll book_run_input))) = (3000, 500, 2500)"
    by code_simp+
  with book_entry_is_run [OF u] u show ?thesis by (metis Pair_inject of_nat_1 prod.collapse)
qed

section \<open>The entry of a claim\<close>

definition book_target :: snapshot_line where
  "book_target = \<lparr>wl_index = 0, wl_agreementId = ''a1'', wl_calculated = example_calculated, wl_agreementLeaf = example_hex,
     wl_agreement = emptyAgreement, wl_claimCapabilityCommitment = one_hex, wl_expectedNetAtomic = toString 2500,
     wl_claimLeaf = example_hex, wl_agreementMembership = emptyMembership, wl_claimMembership = emptyMembership\<rparr>"

definition book_plan :: snapshot_plan where
  "book_plan = \<lparr>pl_snapshot = \<lparr>os_runNullifier = example_hex, os_baseAgreementRoot = example_hex, os_obligationRoot = example_hex,
       os_policyRoot = example_hex, os_ownerAddress = example_hex, os_dueAt = toString 1768000000,
       os_graceEndsAt = toString 1768100000, os_claimEndsAt = toString 1770000000, os_availabilityCommitment = example_hex\<rparr>,
     pl_snapshotCommitment = example_hex, pl_claimRoot = example_hex, pl_lines = [book_target]\<rparr>"

abbreviation book_claim :: claim_input where
  "book_claim \<equiv> unpaid_claim book_plan book_target example_hex ''0x1'' ''0x2'' 1768100000 1768100300"

lemma book_claim_built: "\<exists>b. buildWageClaimV2Inputs book_lib same_text book_claim = Inr b"
proof -
  obtain bs where "normalizedHexBytes book_lib example_hex (Some 32) = Inr bs"
    using normalizedHexBytes_commitment [OF book_lib_ok(1) example_hex_ok] by blast
  then have "claimCapabilityCommitmentV2 book_lib example_hex = Inr one_hex"
    by (simp add: claimCapabilityCommitmentV2_def hashFixed_def book_hash_fields)
  then have target: "claim_target book_lib book_claim = Inr book_target"
    by (simp add: claim_target_def unpaid_claim_def book_plan_def book_target_def)
  have anchor: "anchor_of book_lib same_text book_claim book_target = Inr no_anchor"
    by (simp add: anchor_of_def unpaid_claim_def)
  have amount: "BigInt (wl_expectedNetAtomic book_target) = Inr 2500" by (simp add: book_target_def)
  have seconds: "u64StringSchema (toString 1768000000)" "u64StringSchema (toString 1768100000)" "u64StringSchema (toString 1770000000)"
    by (simp_all add: u64StringSchema_def canonical_dec_toString push_bit_eq_mult)
  have owner: "exceptionAddress_ok example_hex" by code_simp
  show ?thesis
    by (rule missing_claim_total [OF book_lib_ok target anchor _ _ amount, where c = 1 and a = 2])
      (use example_hex_ok zero_ok seconds owner example_line_facts(8,9) in
        \<open>simp_all add: unpaid_claim_def book_plan_def book_target_def no_anchor_def no_fx_evidence_def obligationSnapshotV2Schema_def\<close>)
qed

definition book_claim_input :: "claim_build \<Rightarrow> exception_book_input" where
  "book_claim_input b = \<lparr>xe_source = wb_publicInputs b, xe_entryKind = Claim, xe_bookSealAddress = ''0x3'',
     xe_sourceSealAddress = ''0x2'', xe_ownerAddress = ''0x1'', xe_runNullifier = example_hex, xe_periodStart = 1767225600,
     xe_periodEnd = 1798761600, xe_totalsSalt = example_salt, xe_totalsDisclosure = None, xe_payment = None\<rparr>"

lemma book_claim_public:
  assumes "buildWageClaimV2Inputs book_lib same_text book_claim = Inr b"
  shows "ep_schemaVersion (wb_publicInputs b) = ''2''" "ep_validityStart (wb_publicInputs b) = toString 1768100000"
    "ep_chainId (wb_publicInputs b) = toString 1" "ep_sealAddress (wb_publicInputs b) = toString 2"
    "root_limbs book_lib ZERO = Inr (ep_manifestRoot (wb_publicInputs b))"
    "root_limbs book_lib example_hex = Inr (ep_policyRoot (wb_publicInputs b))"
    "root_limbs book_lib ZERO = Inr (ep_fxRoot (wb_publicInputs b))"
    "root_limbs book_lib example_hex = Inr (ep_parentFactCommitment (wb_publicInputs b))"
    "wb_claimSubjectNullifier b = one_hex" "wb_claimFactCommitment b = one_hex"
proof -
  obtain target anchor subject fc public where s: "anchor_of book_lib same_text book_claim target = Inr anchor"
    "claimSubjectNullifierV2 book_lib (wc_claimCapabilitySecret book_claim) (os_runNullifier (pl_snapshot (wc_snapshot book_claim)))
       (wl_agreementLeaf target) (wc_claimKind book_claim) = Inr subject"
    "claimFactCommitmentV2 book_lib (wb_claimFact b) = Inr fc" "publicInputs book_lib (claim_binding book_claim anchor subject fc) = Inr public"
    "wb_claimFactCommitment b = fc" "wb_claimSubjectNullifier b = subject" "wb_publicInputs b = public"
    by (rule claim_stages [OF assms]) (rule that; assumption)
  have hashed: "h = one_hex" if "hash_fields book_lib d rs = Inr h" for d rs h
    using that by (auto simp: hash_fields_def rbind_Inr_iff book_lib_def one_hex_def toHex_def)
  have "anchor = no_anchor" using s(1) by (simp add: anchor_of_def unpaid_claim_def)
  then show "ep_schemaVersion (wb_publicInputs b) = ''2''" "ep_validityStart (wb_publicInputs b) = toString 1768100000"
    "ep_chainId (wb_publicInputs b) = toString 1" "ep_sealAddress (wb_publicInputs b) = toString 2"
    "root_limbs book_lib ZERO = Inr (ep_manifestRoot (wb_publicInputs b))"
    "root_limbs book_lib example_hex = Inr (ep_policyRoot (wb_publicInputs b))"
    "root_limbs book_lib ZERO = Inr (ep_fxRoot (wb_publicInputs b))"
    "root_limbs book_lib example_hex = Inr (ep_parentFactCommitment (wb_publicInputs b))"
    using public_inputs_fields [OF s(4)] s(7) example_line_facts(8,9)
    by (simp_all add: claim_binding_def unpaid_claim_def book_plan_def no_anchor_def no_fx_evidence_def Let_def)
  show "wb_claimSubjectNullifier b = one_hex" "wb_claimFactCommitment b = one_hex"
    using s(2,3,5,6) hashed by (auto simp: claimSubjectNullifierV2_def claimFactCommitmentV2_def hashFixed_def)
qed

lemma book_claim_checks:
  assumes "buildWageClaimV2Inputs book_lib same_text book_claim = Inr b" "commitmentFromLimbs (ep_parentNullifier (wb_publicInputs b)) = Inr parent"
    "bigint parent = hex_num example_hex"
  shows "check_source (book_claim_input b) = Inr ()" "check_payment (book_claim_input b) = Inr ()"
    "check_claim_run (book_claim_input b) = Inr ()" "exception_totals (book_claim_input b) = Inr (zeroTotals, zeroTotals)"
    "check_period 1767225600 1798761600 (toString 1768100000) m = Inr ()"
proof -
  have versions: "BigInt ''6'' = Inr 6" "BigInt ''2'' = Inr 2" by code_simp+
  show "check_source (book_claim_input b) = Inr ()"
    using claim_public(1) [OF assms(1)] book_claim_public [OF assms(1)] versions example_line_facts(9)
    by (simp add: check_source_def book_claim_input_def expected_version_def)
  show "check_claim_run (book_claim_input b) = Inr ()"
    using assms(2,3) BigInt_hex [of example_hex] example_hex_ok
    by (simp add: check_claim_run_def book_claim_input_def hex_num_bigint)
qed (simp_all add: check_payment_def exception_totals_def book_claim_input_def hiddenPayrollBookTotals_def check_period_def)

lemma book_claim_entry:
  assumes "buildWageClaimV2Inputs book_lib same_text book_claim = Inr b"
    "commitmentFromLimbs (ep_subjectNullifier (wb_publicInputs b)) = Inr subject" "commitment_ok subject" "bigint subject = hex_num one_hex"
  shows "\<exists>e h q. exception_entry (book_claim_input b) subject (zeroTotals, zeroTotals) one_hex = Inr e
    \<and> universalPayrollBookEntryCommitment book_lib e = Inr h \<and> root_limbs book_lib h = Inr q"
proof -
  note public = book_claim_public [OF assms(1)] and roots = claim_public [OF assms(1)]
  have plan: "os_baseAgreementRoot (pl_snapshot (wc_snapshot book_claim)) = example_hex" by (simp add: unpaid_claim_def book_plan_def)
  have one: "hex_num one_hex \<noteq> 0" "hex_num example_hex \<noteq> 0"
    using one_hex_facts example_hex_ok book_texts by (simp_all add: hex_num_bigint)
  note limbs = commitment_from_limbs_total [OF book_lib_ok(1)]
  obtain agreement where 1: "commitmentFromLimbs (ep_agreementRoot (wb_publicInputs b)) = Inr agreement" "commitment_ok agreement"
    "bigint agreement \<noteq> 0" using limbs [OF roots(2)] one(2) by (metis plan)
  obtain manifest where 2: "commitmentFromLimbs (ep_manifestRoot (wb_publicInputs b)) = Inr manifest" "commitment_ok manifest"
    using limbs [OF public(5)] by metis
  obtain policy where 3: "commitmentFromLimbs (ep_policyRoot (wb_publicInputs b)) = Inr policy" "commitment_ok policy" "bigint policy \<noteq> 0"
    using limbs [OF public(6)] one(2) by metis
  obtain fx where 4: "commitmentFromLimbs (ep_fxRoot (wb_publicInputs b)) = Inr fx" "commitment_ok fx"
    using limbs [OF public(7)] by metis
  obtain parent where 5: "commitmentFromLimbs (ep_parentFactCommitment (wb_publicInputs b)) = Inr parent" "commitment_ok parent"
    "bigint parent \<noteq> 0" using limbs [OF public(8)] one(2) by metis
  obtain f where 6: "commitmentFromLimbs (ep_factCommitment (wb_publicInputs b)) = Inr f" "commitment_ok f" "bigint f \<noteq> 0"
    using limbs [OF roots(5)] public(10) one(1) by metis
  have zeros: "bigint (bt_grossAtomic zeroTotals) = 0" "bigint (bt_deductionsAtomic zeroTotals) = 0" "bigint (bt_netAtomic zeroTotals) = 0"
    by (simp_all add: zeroTotals_def)
  let ?e = "\<lparr>ue_entryKind = Claim, ue_chainId = ''0x1'', ue_sealAddress = ''0x3'', ue_sourceSealAddress = ''0x2'', ue_ownerAddress = ''0x1'',
    ue_periodStart = toString 1767225600, ue_periodEnd = toString 1798761600, ue_agreementRoot = agreement, ue_manifestRoot = manifest,
    ue_policyRoot = policy, ue_fxRoot = fx, ue_runNullifier = example_hex, ue_subjectNullifier = subject,
    ue_parentFactCommitment = parent, ue_factCommitment = f, ue_sourceProofVersion = 6, ue_attestationRoot = ZERO,
    ue_contributorCount = 1, ue_totalsDisclosure = Hidden, ue_totalsCommitment = one_hex, ue_totalsSTRK = zeroTotals,
    ue_totalsUSDC = zeroTotals, ue_vestingScheduleId = ZERO, ue_vestingStateCommitment = ZERO\<rparr>"
  have schema: "universalPayrollBookEntrySchema ?e"
    using 1(2,3) 2(2) 3(2,3) 4(2) 5(2,3) 6(2,3) assms(3,4) one(1) book_texts example_hex_ok one_hex_facts zeros
    by (simp add: universalPayrollBookEntrySchema_def universal_entry_shape_def entry_roots_ok_def entry_vesting_ok_def
        entry_facts_ok_def entry_totals_ok_def entry_amounts_def payroll_entry_def zero_text_def)
  then have "exception_entry (book_claim_input b) subject (zeroTotals, zeroTotals) one_hex = Inr ?e"
    using 1(1) 2(1) 3(1) 4(1) 5(1) 6(1) public(3) book_texts
    by (simp add: exception_entry_def book_claim_input_def expected_version_def exception_disclosure_def hiddenPayrollBookTotals_def Let_def)
  then show ?thesis using book_entry_hash [OF schema] book_texts by auto
qed

lemma book_claim_entry_built:
  assumes "buildWageClaimV2Inputs book_lib same_text book_claim = Inr b"
  shows "\<exists>u. buildUniversalExceptionPayrollBookInput book_lib (book_claim_input b) = Inr u"
proof -
  have plan: "os_runNullifier (pl_snapshot (wc_snapshot book_claim)) = example_hex" by (simp add: unpaid_claim_def book_plan_def)
  obtain parent where parent: "commitmentFromLimbs (ep_parentNullifier (wb_publicInputs b)) = Inr parent" "bigint parent = hex_num example_hex"
    using commitment_from_limbs_total [OF book_lib_ok(1) claim_public(4) [OF assms]] plan by metis
  obtain subject where subject: "commitmentFromLimbs (ep_subjectNullifier (wb_publicInputs b)) = Inr subject" "commitment_ok subject"
    "bigint subject = hex_num one_hex"
    using commitment_from_limbs_total [OF book_lib_ok(1) claim_public(3) [OF assms]] book_claim_public(9) [OF assms] by metis
  obtain e h q where e: "exception_entry (book_claim_input b) subject (zeroTotals, zeroTotals) one_hex = Inr e"
    "universalPayrollBookEntryCommitment book_lib e = Inr h" "root_limbs book_lib h = Inr q"
    using book_claim_entry [OF assms subject] by blast
  have hash: "payrollBookTotalsCommitment book_lib subject 1 zeroTotals zeroTotals example_salt = Inr one_hex"
    by (rule book_totals_hash) (simp_all add: subject(2) book_texts)
  have input: "xe_periodStart (book_claim_input b) = 1767225600" "xe_periodEnd (book_claim_input b) = 1798761600"
    "xe_source (book_claim_input b) = wb_publicInputs b" "xe_totalsSalt (book_claim_input b) = example_salt"
    by (simp_all add: book_claim_input_def)
  show ?thesis
    by (simp add: buildUniversalExceptionPayrollBookInput_def input book_claim_checks [OF assms parent] book_claim_public(2) [OF assms]
        subject(1) book_texts(2) hash e)
qed

theorem claim_book_entry_witness:
  "\<exists>b u. buildWageClaimV2Inputs book_lib same_text book_claim = Inr b
     \<and> buildUniversalExceptionPayrollBookInput book_lib (book_claim_input b) = Inr u \<and> ue_entryKind (ub_entry u) = Claim
     \<and> bigint (ue_runNullifier (ub_entry u)) = hex_num example_hex \<and> ub_totals u = (zeroTotals, zeroTotals)"
proof -
  obtain b where b: "buildWageClaimV2Inputs book_lib same_text book_claim = Inr b" using book_claim_built by blast
  obtain u where u: "buildUniversalExceptionPayrollBookInput book_lib (book_claim_input b) = Inr u" using book_claim_entry_built [OF b] by blast
  have "xe_source (book_claim_input b) = wb_publicInputs b" "os_runNullifier (pl_snapshot (wc_snapshot book_claim)) = example_hex"
    by (simp_all add: book_claim_input_def unpaid_claim_def book_plan_def)
  with claim_book_entry [OF book_lib_ok(1) b u] b u show ?thesis by auto
qed

end
