(* ===== verification/Book_Proof_Example.thy ===== *)
theory Book_Proof_Example
  imports Book_Proof_Properties Book_Example
begin

text \<open>
  The inputs of the book circuit for the entries of theory Book_Example: those of the run of one line, whose totals
  are public, and those of the claim.
\<close>

section \<open>The run\<close>

definition book_circuit_run :: run_book_input where
  "book_circuit_run = \<lparr>pi_payroll = book_run, pi_ownerAddress = ''0x1'', pi_bookSealAddress = Some ''0x3'', pi_periodStart = 1767225600,
     pi_periodEnd = 1798761600, pi_entryKind = None, pi_totalsDisclosure = None, pi_totalsSalt = example_salt, pi_attestation = None\<rparr>"

lemma book_bytes_total: "commitment_ok s \<Longrightarrow> \<exists>bs. bytes32 book_lib s = Inr bs"
  unfolding bytes32_def by (rule normalizedHexBytes_commitment [OF book_lib_ok(1)])

lemma book_limbs_total: "commitment_ok s \<Longrightarrow> \<exists>q. root_limbs book_lib s = Inr q"
  using normalizedHexBytes_commitment [OF book_lib_ok(1)] by (fastforce simp: root_limbs_def splitHashToU128_def)

lemma book_common_total:
  assumes "ub_entry u = book_run_entry"
  shows "\<exists>f. commonBookFields book_lib (run_common_input book_circuit_run ZERO u) = Inr f"
proof -
  obtain z c s where "root_limbs book_lib ZERO = Inr z" "root_limbs book_lib one_hex = Inr c" "bytes32 book_lib example_salt = Inr s"
    using book_limbs_total book_bytes_total book_texts one_hex_facts(1) by meson
  moreover have "BigInt ''0x1'' = Inr 1" "BigInt ''0x3'' = Inr 3" by code_simp+
  ultimately show ?thesis
    by (simp add: commonBookFields_def run_common_input_def book_circuit_run_def assms book_run_entry_def Let_def)
qed

theorem book_circuit_shows_entry_witness:
  "\<exists>t. buildPayrollBookEntryInputs book_lib book_circuit_run = Inr t \<and> tp_totalsDisclosed (fst (tb_publicInputs t)) = ''1''
     \<and> plus3 (totals_num (snd (tp_shard0 (fst (tb_publicInputs t))))) (totals_num (snd (tp_shard1 (fst (tb_publicInputs t))))) = (3000, 500, 2500)"
proof -
  have input: "run_entry_input book_circuit_run ZERO = book_run_input"
    by (simp add: run_entry_input_def book_circuit_run_def book_run_input_def book_run_def book_public_def entry_kind_or_ordinary_def
        disclosure_or_public_def)
  obtain u where u: "buildUniversalPayrollBookInput book_lib book_run_input = Inr u" "ub_entry u = book_run_entry"
    using book_run_built by blast
  obtain f where f: "commonBookFields book_lib (run_common_input book_circuit_run ZERO u) = Inr f" using book_common_total [OF u(2)] by blast
  have none: "pi_attestation book_circuit_run = None" by (simp add: book_circuit_run_def)
  obtain t where t: "buildPayrollBookEntryInputs book_lib book_circuit_run = Inr t" "tb_bookEntry t = book_run_entry"
    by (simp add: buildPayrollBookEntryInputs_def none externalAttestationCircuitFields_def emptyExternalAttestationCircuitFields_def
        attested_binding_def input u f transition_build_fields)
  have entry: "ue_totalsDisclosure book_run_entry = Public" "totals_num (ue_totalsUSDC book_run_entry) = (3000, 500, 2500)"
    by (simp add: book_run_entry_def) code_simp
  from book_circuit_shows_entry [of book_lib book_circuit_run t] t(1)
  have "shows_entry book_lib t" by blast
  then show ?thesis using t entry by (auto simp: shows_entry_def Let_def)
qed

section \<open>The claim\<close>

definition book_circuit_claim :: "claim_build \<Rightarrow> exception_entry_input" where
  "book_circuit_claim b = \<lparr>xi_source = wb_publicInputs b, xi_entryKind = Claim, xi_bookSealAddress = ''0x3'',
     xi_sourceSealAddress = ''0x2'', xi_ownerAddress = ''0x1'', xi_runNullifier = example_hex, xi_periodStart = 1767225600,
     xi_periodEnd = 1798761600, xi_totalsSalt = example_salt, xi_totalsDisclosure = None, xi_claimFact = wb_claimFact b, xi_remediation = None\<rparr>"

lemma book_claim_fact:
  assumes "buildWageClaimV2Inputs book_lib same_text book_claim = Inr b"
  shows "exceptionClaimFactSchema (wb_claimFact b)" "claimFactCommitmentV2 book_lib (wb_claimFact b) = Inr one_hex"
    "cl_claimSubjectNullifier (wb_claimFact b) = one_hex" "cl_runNullifier (wb_claimFact b) = example_hex"
    "cl_statementCommitment (wb_claimFact b) = ZERO" "cl_snapshotCommitment (wb_claimFact b) = example_hex"
    "cl_manifestRoot (wb_claimFact b) = ZERO"
proof -
  obtain target anchor amount kind_unit subject fc where s: "anchor_of book_lib same_text book_claim target = Inr anchor"
    "claim_fact_of book_claim target anchor subject (amount, kind_unit) = Inr (wb_claimFact b)"
    "claimFactCommitmentV2 book_lib (wb_claimFact b) = Inr fc" "wb_claimFactCommitment b = fc" "wb_claimSubjectNullifier b = subject"
    by (rule claim_stages [OF assms]) (rule that; assumption)
  have "anchor = no_anchor" using s(1) by (simp add: anchor_of_def unpaid_claim_def)
  with s(2-5) book_claim_public(9,10) [OF assms]
  show "exceptionClaimFactSchema (wb_claimFact b)" "claimFactCommitmentV2 book_lib (wb_claimFact b) = Inr one_hex"
    "cl_claimSubjectNullifier (wb_claimFact b) = one_hex" "cl_runNullifier (wb_claimFact b) = example_hex"
    "cl_statementCommitment (wb_claimFact b) = ZERO" "cl_snapshotCommitment (wb_claimFact b) = example_hex"
    "cl_manifestRoot (wb_claimFact b) = ZERO"
    by (auto simp: claim_fact_of_def rbind_Inr_iff no_anchor_def unpaid_claim_def book_plan_def)
qed

lemma book_claim_sources:
  assumes "buildWageClaimV2Inputs book_lib same_text book_claim = Inr b"
  shows "\<exists>s. source_commitments_of (wb_publicInputs b) = Inr s \<and> bigint (sc_subject s) = bigint one_hex \<and> bigint (sc_parent s) = bigint example_hex
    \<and> bigint (sc_fact s) = bigint one_hex \<and> bigint (sc_parentFact s) = bigint example_hex \<and> bigint (sc_manifest s) = bigint ZERO"
proof -
  note public = book_claim_public [OF assms] and roots = claim_public [OF assms]
  have plan: "os_runNullifier (pl_snapshot (wc_snapshot book_claim)) = example_hex" by (simp add: unpaid_claim_def book_plan_def)
  have number: "\<exists>t. joinedPublicCommitment q = Inr t \<and> bigint t = bigint s" if "root_limbs book_lib s = Inr q" "commitment_ok s" for q s
    using commitment_from_limbs_total [OF book_lib_ok(1) that(1)] hex_num_bigint [of s] that(2) joined_is_from_limbs by metis
  note ok = one_hex_facts(1) example_hex_ok zero_ok
  show ?thesis
    using number [OF roots(3)] number [OF roots(4)] number [OF roots(5)] number [OF public(8)] number [OF public(5)] number [OF public(7)]
      public(9,10) ok plan
    by (auto simp: source_commitments_of_def rbind_Inr_iff)
qed

lemma book_claim_witness:
  assumes "buildWageClaimV2Inputs book_lib same_text book_claim = Inr b" "source_commitments_of (wb_publicInputs b) = Inr s"
  shows "\<exists>w. exception_witness_of book_lib (book_circuit_claim b) s one_hex = Inr (w, None)"
proof -
  note fact = book_claim_fact [OF assms(1)]
  have numbers: "bigint (sc_subject s) = bigint one_hex" "bigint (sc_parent s) = bigint example_hex" "bigint (sc_fact s) = bigint one_hex"
    "bigint (sc_parentFact s) = bigint example_hex" "bigint (sc_manifest s) = bigint ZERO"
    using book_claim_sources [OF assms(1)] assms(2) by auto
  have ok: "commitment_ok (cl_claimSubjectNullifier (wb_claimFact b))" "commitment_ok (cl_snapshotCommitment (wb_claimFact b))"
    "commitment_ok (cl_statementCommitment (wb_claimFact b))" "commitment_ok (cl_manifestRoot (wb_claimFact b))"
    "commitment_ok (cl_agreementLeaf (wb_claimFact b))" using fact(1) by (simp_all add: exceptionClaimFactSchema_def)
  obtain w where w: "claim_witness_of book_lib (wb_claimFact b) = Inr w"
    using ok [THEN book_bytes_total] by (auto simp: claim_witness_of_def)
  have "claim_parent (wb_claimFact b) = example_hex" "BigInt ''6'' = Inr 6"
    by (simp add: claim_parent_def fact book_texts) code_simp
  with w numbers fact claim_public(1) [OF assms(1)] show ?thesis
    by (simp add: exception_witness_of_def claim_entry_witness_def book_circuit_claim_def Let_def)
qed

theorem exception_entry_pays_fact_witness:
  "\<exists>b t. buildWageClaimV2Inputs book_lib same_text book_claim = Inr b
     \<and> buildExceptionPayrollBookEntryInputs book_lib (book_circuit_claim b) = Inr t
     \<and> bigint (ue_factCommitment (tb_bookEntry t)) = bigint one_hex \<and> fst (tb_totalsOpening t) = (zeroTotals, zeroTotals)"
proof -
  obtain b where b: "buildWageClaimV2Inputs book_lib same_text book_claim = Inr b" using book_claim_built by blast
  note fact = book_claim_fact [OF b]
  obtain s where s: "source_commitments_of (wb_publicInputs b) = Inr s" using book_claim_sources [OF b] by blast
  obtain w where w: "exception_witness_of book_lib (book_circuit_claim b) s one_hex = Inr (w, None)" using book_claim_witness [OF b s] by blast
  obtain u where u: "buildUniversalExceptionPayrollBookInput book_lib (book_claim_input b) = Inr u" using book_claim_entry_built [OF b] by blast
  have input: "exception_book_input_of (book_circuit_claim b) None = book_claim_input b"
    by (simp add: exception_book_input_of_def book_circuit_claim_def book_claim_input_def)
  have total: "commitment_ok (ue_totalsCommitment (ub_entry u))"
    by (rule exception_stages [OF u], drule exception_entry_fields(5)) (simp add: universalPayrollBookEntrySchema_def universal_entry_shape_def)
  obtain c r z q where "root_limbs book_lib (ue_totalsCommitment (ub_entry u)) = Inr c" "root_limbs book_lib example_hex = Inr r"
    "root_limbs book_lib ZERO = Inr z" "bytes32 book_lib example_salt = Inr q"
    using book_limbs_total book_bytes_total total example_hex_ok book_texts by meson
  moreover have "BigInt ''0x1'' = Inr 1" "BigInt ''0x2'' = Inr 2" "BigInt ''0x3'' = Inr 3" by code_simp+
  ultimately obtain f where f: "exception_common book_lib (book_circuit_claim b) u = Inr f"
    by (simp add: exception_common_def book_circuit_claim_def Let_def)
  have fields: "xi_claimFact (book_circuit_claim b) = wb_claimFact b" "xi_source (book_circuit_claim b) = wb_publicInputs b"
    "xi_runNullifier (book_circuit_claim b) = example_hex" "xi_entryKind (book_circuit_claim b) = Claim"
    by (simp_all add: book_circuit_claim_def)
  obtain t where t: "buildExceptionPayrollBookEntryInputs book_lib (book_circuit_claim b) = Inr t"
    using BigInt_hex [of example_hex] example_hex_ok
    by (simp add: buildExceptionPayrollBookEntryInputs_def fields fact s w input u f)
  from exception_entry_pays_fact [OF t] b t fact(2) show ?thesis by (auto simp: fields)
qed

end
