(* ===== verification/Spec2Isabelle.thy ===== *)
theory Spec2Isabelle
  imports Run_Properties Agreements Policy_Compiler Reservations Book_Properties Fx_Properties Proof_Bindings
    Attestation_Properties Match_Example Claim_Example Book_Proof_Example
begin

text \<open>
  A model of the core of PAYO, a private payroll system: the TypeScript library under \<open>src/lib\<close> that
  calculates pay, decides what is due, limits what payment agents may do, commits to all of it for the
  zero-knowledge circuits and keeps the public payroll book.

  How the parts interact.  An employer keeps agreements (\<open>domain/obligations.ts\<close>,
  \<open>classification.ts\<close>), each with a payment plan that projects to a pay schedule.  When an agreement is
  due, its earnings go through a policy (\<open>policy/engine.ts\<close>) into the lines of a run
  (\<open>domain/payroll.ts\<close>); the run is committed (\<open>crypto/\<close>, \<open>proof/commitments.ts\<close>), proven, approved,
  submitted and settled (\<open>domain/settlement.ts\<close>), after which the plans are advanced.  A payment agent
  acts under a signed capability (\<open>domain/capability.ts\<close>) whose allowance is reserved in the database
  (\<open>persistence/capability-reservations.ts\<close>).  Reference values come from snapshots of exchange rates
  (\<open>domain/fx.ts\<close>).  Finalised runs, claims and remediations become entries of the payroll book
  (\<open>universal-payroll-book.ts\<close>, \<open>vesting-tax.ts\<close>), which an auditor replays against a root on chain.

  Theories and what they model.

  \<^item> \<open>Prelude\<close>: results (\<open>error + 'a\<close>: a thrown error, a rejected schema, an API error), sequencing
    (\<open>rbind\<close>), \<open>rmap\<close> and \<open>rfold\<close> for loops that may throw, the stable sort with a comparator.
  \<^item> \<open>JsStrings\<close>, \<open>Calendar\<close>: the parts of the JavaScript library the source uses: \<open>BigInt\<close> of the texts
    its schemas admit, \<open>toString\<close>, case conversion, \<open>padStart\<close>, the shared zod patterns; \<open>Date\<close> in UTC,
    from the ECMAScript definitions, with ISO texts in and out.
  \<^item> \<open>Interfaces\<close>: the contracts between components as locales (\<open>fixed_width\<close> encoders,
    \<open>state_table\<close> life cycles, \<open>accrual\<close> functions), each interpreted on the model's own definitions in the
    theory that provides them (encoders in \<open>Encoding\<close>, runs in \<open>Payroll\<close>, settlements and executions in
    \<open>Settlement\<close>, streams and vesting in \<open>Schedules\<close> and \<open>Vesting_Book\<close>).
  \<^item> \<open>Encoding\<close>, \<open>Base64\<close>, \<open>Commitments\<close>, \<open>Fixed_Fields\<close>: \<open>crypto/encoding.ts\<close>, \<open>crypto/digest.ts\<close>,
    \<open>crypto/commitments.ts\<close> and the hashing of records field by field.
  \<^item> \<open>Tokens\<close>, \<open>Payroll\<close>, \<open>Run_Properties\<close>: \<open>starknet/tokens.ts\<close>, \<open>domain/payroll.ts\<close>: amounts, lines,
    manifests, the life cycle of a run.
  \<^item> \<open>Schedules\<close>, \<open>Payment_Plans\<close>, \<open>Agreements\<close>: \<open>domain/obligations.ts\<close>,
    \<open>obligation-schedule.ts\<close>, \<open>classification.ts\<close>, \<open>advanced-obligation-commitment.ts\<close>: schedules and when they
    are due, the four kinds of plan with entitlement and settlement, both agreement versions.
  \<^item> \<open>Policy_Engine\<close>, \<open>Policy_Compiler\<close>: \<open>policy/engine.ts\<close>: the evaluator of policy packs, the compiler, and
    the policy machine of the Noir circuit (\<open>evaluate_policy\<close>) that runs its output.
  \<^item> \<open>Capability\<close>, \<open>Reservations\<close>: \<open>domain/capability.ts\<close> and \<open>persistence/capability-reservations.ts\<close>;
    the database is a record of its tables, a transaction a function that returns the new database or throws,
    which rolls back; \<open>agent_step\<close> is the step relation of the three transactions.
  \<^item> \<open>Settlement\<close>: \<open>domain/settlement.ts\<close> and \<open>domain/agent-execution.ts\<close>.
  \<^item> \<open>Payroll_Book\<close>, \<open>Vesting_Book\<close>, \<open>Book_Properties\<close>: \<open>domain/universal-payroll-book.ts\<close> and
    \<open>domain/vesting-tax.ts\<close>: entries and their commitments, vesting schedules and their releases, the book of a
    period and its verification.
  \<^item> \<open>Fx\<close>, \<open>Fx_Properties\<close>: \<open>domain/fx.ts\<close>.
  \<^item> \<open>Proof_Commitments\<close>, \<open>Proof_Bindings\<close>: \<open>proof/commitments.ts\<close>.
  \<^item> \<open>Records\<close>, \<open>Attestations\<close>, \<open>Attestation_Properties\<close>: the identifiers of \<open>domain/records.ts\<close> and
    \<open>domain/external-attestation.ts\<close>: what an issuer attests about a worker, the catalog of approved
    attestations and the package with which a payroll opens it.
  \<^item> \<open>Js_BigInt\<close>, \<open>Payroll_Inputs\<close>, \<open>Input_Properties\<close>, \<open>Input_Example\<close>: \<open>BigInt\<close> of any text, and
    \<open>proof/input-builder.ts\<close>: a run with its policies and snapshots becomes the witnesses and public inputs of the
    two circuit shards; the composition of the policy engine, the line calculation, the exchange rates, the
    commitments and the trees.  \<open>Input_Example\<close> takes one run through the whole builder.
  \<^item> \<open>Settlement_Match\<close>, \<open>Match_Properties\<close>, \<open>Match_Example\<close>: \<open>proof/settlement-match.ts\<close>: the encrypted notes
    a settlement emits, the Merkle tree over them (a loop over levels, with \<open>length level\<close> as its measure) and
    the chunks of circuit inputs that match them with the bindings of a built run.  \<open>Match_Example\<close> settles
    the run of \<open>Input_Example\<close>.
  \<^item> \<open>Exceptions\<close>, \<open>Claim_Inputs\<close>, \<open>Wage_Claims\<close>, \<open>Claim_Properties\<close>, \<open>Claim_Totals\<close>, \<open>Claim_Example\<close>:
    \<open>domain/exception-protocol.ts\<close>, \<open>domain/wage-claim-commitment.ts\<close> and \<open>proof/exception-input-builder.ts\<close>: the
    snapshot of what is owed before payday, the claim of a worker against it (with or without a statement of the
    employer) and its remediation, each with the inputs of its circuit.  \<open>Claim_Totals\<close> shows when the builders
    succeed, \<open>Claim_Example\<close> takes one obligation through all of them.
  \<^item> \<open>Book_Inputs\<close>, \<open>Book_Input_Properties\<close>, \<open>Book_Example\<close>: \<open>proof/universal-payroll-book-input.ts\<close>: the
    entry of the payroll book a proven run, a claim or a remediation becomes, with the two halves of its witness.
  \<^item> \<open>Book_Proofs\<close>, \<open>Book_Proof_Properties\<close>, \<open>Book_Proof_Example\<close>: \<open>proof/vesting-transition-input.ts\<close> and
    \<open>proof/advanced-plan-commitment.ts\<close>: the inputs of the circuit that links a run, a vesting release, a claim or
    a remediation to that entry, and its public inputs.
  \<^item> \<open>Reference_Lib\<close>: a concrete library for the witnesses; no property is about it.

  What the lemmas show.  Encodings: width, range and inverse of every encoder; equal hashes come from equal
  fields, or the two preimages named in the statement collide.  Calculation: exactly when lines, manifests,
  plans, policies and snapshots are accepted and what they compute, on every branch; loops equal reference
  definitions (Merkle roots, progressive brackets, medians, sorted manifests).  Time and money: schedules never
  pay more than their total, vesting releases add up exactly, settlement records what was paid.  State
  machines: which states must be passed.  Agents: what a batch may spend and that reservations in any reachable
  database never exceed the capability.  Refinement: the compiled policy computes what the evaluator computes;
  plans project to the schedules stored with them.  Proof inputs: what an accepted run proves about, that the two
  shards are the run, that the snapshot before payday is reproduced, that the circuit's policy program gives
  the deductions of the line.  Settlement: a match can be built only when the emitted notes, opened, pay the lines
  of the run, the chunks are the run, the tree over the notes is complete, binding and opens.  Attestations: the catalog is exact,
  what opens against its root is in it.  Exceptions: a snapshot opens for every worker, who can always claim what was not
  paid; a claim is authorised, in time and exact; a remediation covers it.  Books: the
  entry of a run counts each contributor once and totals its lines, the entry of a claim is that claim and no payment, that of a remediation the payment
  its fact commits to, that of a vesting release what has vested; the circuit shows amounts only when they are public; the root fixes the entries, totals are those of the
  disclosed lines (the source does not compare these lines with the totals an entry commits to).

  Conventions and bounds.  Third-party functions (Keccak, SHA-256, hexadecimal conversion, Poseidon, Ed25519,
  the short-string encoding of Starknet) are the fields of the record \<open>lib\<close>, an argument \<open>L\<close> of the definitions
  that use them.  What a property needs of them is a hypothesis that states documented behaviour:
  \<open>hex_lib_ok L\<close> (hexadecimal text and bytes correspond), \<open>keccak_32 L\<close> and \<open>poseidon_32 L\<close> (digests of 32 bytes),
  \<open>signatures_ok L\<close> (a secret key has 32 bytes, its signatures verify under its public key, and a key of another size
  is refused).  A function of a library that throws returns a \<open>result\<close>.  No property assumes that a hash has no
  collisions.  \<open>localeCompare\<close> is an argument.  Numbers of the source that are integers are \<open>int\<close>; amounts are
  decimal texts, as in the source, with \<open>atomicAmount_ok\<close> the range of unsigned 128-bit integers; bytes are
  \<open>8 word\<close>.  Every loop is structural or has a measure; no fuel is used.  Record fields carry a prefix
  where two source types share a name; the version literals of a schema are left out of its record; text
  outside ASCII in messages is transliterated.  A zod failure is \<open>Zod_error\<close> with the schema's name, without its
  list of issues.  Identifiers a database or the runtime would generate are arguments.

  Not modelled.  The web application and its API routes (\<open>app/\<close>), the browser client (\<open>lib/client\<close>), the
  server's workers, relayers and signer (\<open>lib/server\<close>) and sign-in (\<open>lib/auth\<close>) are orchestration of network,
  storage and chain calls around the modelled core.  Of \<open>lib/persistence\<close> only the reservation
  transactions are modelled; the other repositories are SQL queries with row mapping.  The rest of \<open>lib/proof\<close> (provers, calldata) and
  \<open>lib/starknet\<close> assembles inputs and calldata for provers and contracts; the circuits (except the policy machine and
  the membership fold) and the Cairo contracts are other languages.  The remaining schemas of \<open>lib/domain\<close>, the
  disclosure reports, the encrypted vault (WebCrypto) and the command-line and test programs are left for later or
  are pure input and output.
\<close>

end
